(* ===== verification/Sdk_Prelude.thy ===== *)
theory Sdk_Prelude
  imports Main "HOL-Library.Char_ord" "HOL-Library.List_Lexorder"
begin

text \<open>
  Shared vocabulary of the development.

  \<^item> The C++ standard library containers the sources use: \<open>std::map\<close> as an association
    list in strictly ascending key order (\<open>smap_put\<close>, \<open>smap_erase\<close>, \<^const>\<open>map_of\<close> for
    \<open>find\<close>), so that a \<open>for\<close> loop over a map is recursion over the list, in the order
    the code visits it.  Keys of type \<^typ>\<open>string\<close> are compared bytewise, as
    \<open>std::string::operator<\<close> does.
  \<^item> \<open>std::to_string\<close> on non-negative integers (\<open>dec\<close>) and zero padding.
  \<^item> The locale \<open>kv_store\<close>: what a component may rely on when it keeps its state in a map.
  \<^item> The locale \<open>guarded_machine\<close>: a state with an initial value, an operation per event and
    an invariant every operation keeps; reachable states then have the invariant.
\<close>

named_theorems store_simps "lookup, size and order laws of the ordered maps"
named_theorems code_defs "status code constants"

section \<open>Decimal numerals\<close>

fun dec :: "nat \<Rightarrow> string" where
  "dec n = (if n < 10 then [char_of (48 + n)]
            else dec (n div 10) @ [char_of (48 + n mod 10)])"

declare dec.simps [simp del]

definition undec :: "string \<Rightarrow> nat" where
  "undec s = foldl (\<lambda>a c. 10 * a + (of_char c - 48)) 0 s"

lemma undec_snoc: "undec (s @ [c]) = 10 * undec s + (of_char c - 48)"
  by (simp add: undec_def)

lemma undec_digit: "n < 10 \<Longrightarrow> undec [char_of (48 + n :: nat)] = n"
  by (simp add: undec_def take_bit_eq_mod)

lemma undec_dec [simp]: "undec (dec n) = n"
proof (induction n rule: dec.induct)
  case (1 n)
  show ?case
  proof (cases "n < 10")
    case True
    then show ?thesis by (simp add: dec.simps [of n] undec_digit)
  next
    case False
    then have "undec (dec n) = 10 * undec (dec (n div 10)) + n mod 10"
      by (simp add: dec.simps [of n] undec_snoc take_bit_eq_mod)
    with False 1 show ?thesis by simp
  qed
qed

lemma dec_inject [simp]: "dec m = dec n \<longleftrightarrow> m = n"
  by (metis undec_dec)

lemma dec_not_Nil [simp]: "dec n \<noteq> []"
  by (subst dec.simps) simp

lemma dec_1: "dec (Suc 0) = ''1''"
  by code_simp

definition to_string :: "int \<Rightarrow> string" where
  "to_string i = (if i < 0 then ''-'' @ dec (nat (- i)) else dec (nat i))"

definition pad3 :: "nat \<Rightarrow> string" where
  "pad3 n = replicate (3 - length (dec n)) CHR ''0'' @ dec n"

lemma is_digit_dec: "\<forall>c \<in> set (dec n). 48 \<le> (of_char c :: nat) \<and> of_char c < (58 :: nat)"
proof (induction n rule: dec.induct)
  case (1 n)
  show ?case
  proof (cases "n < 10")
    case True
    then show ?thesis by (simp add: dec.simps [of n] take_bit_eq_mod)
  next
    case False
    have "n mod 10 < 10" by simp
    then have "48 + n mod 10 < (58 :: nat)" by simp
    with False 1 show ?thesis by (auto simp: dec.simps [of n] take_bit_eq_mod)
  qed
qed

section \<open>Strings\<close>

text \<open>\<open>std::tolower\<close> in the C locale, character by character, and the prefix test the sources
  write as \<open>s.find(p) == 0\<close>.\<close>

definition lower_char :: "char \<Rightarrow> char" where
  "lower_char c = (let n = (of_char c :: nat) in if 65 \<le> n \<and> n \<le> 90 then char_of (n + 32) else c)"

definition to_lower :: "string \<Rightarrow> string" where
  "to_lower s = map lower_char s"

definition starts_with :: "string \<Rightarrow> string \<Rightarrow> bool" where
  "starts_with p s \<longleftrightarrow> take (length p) s = p"

lemma starts_with_append [simp]: "starts_with p (p @ s)"
  by (simp add: starts_with_def)

lemma starts_with_iff: "starts_with p s \<longleftrightarrow> (\<exists>t. s = p @ t)"
  by (metis append_take_drop_id append_eq_conv_conj starts_with_def)

lemma lower_char_idem [simp]: "lower_char (lower_char c) = lower_char c"
proof (cases "65 \<le> (of_char c :: nat) \<and> of_char c \<le> (90 :: nat)")
  case True
  then have "(of_char (char_of (of_char c + 32 :: nat)) :: nat) = of_char c + 32"
    by (simp add: take_bit_eq_mod)
  with True show ?thesis by (simp add: lower_char_def Let_def)
next
  case False
  then show ?thesis by (auto simp: lower_char_def Let_def)
qed

lemma to_lower_idem [simp]: "to_lower (to_lower s) = to_lower s"
  by (simp add: to_lower_def comp_def)

section \<open>Ordered maps\<close>

type_synonym ('k, 'v) smap = "('k \<times> 'v) list"

fun smap_put :: "'k::linorder \<Rightarrow> 'v \<Rightarrow> ('k, 'v) smap \<Rightarrow> ('k, 'v) smap" where
  "smap_put k v [] = [(k, v)]"
| "smap_put k v (p # m) =
     (if k = fst p then (k, v) # m
      else if k < fst p then (k, v) # p # m
      else p # smap_put k v m)"

definition smap_erase :: "'k \<Rightarrow> ('k, 'v) smap \<Rightarrow> ('k, 'v) smap" where
  "smap_erase k m = filter (\<lambda>p. fst p \<noteq> k) m"

definition smap_ok :: "('k::linorder, 'v) smap \<Rightarrow> bool" where
  "smap_ok m \<longleftrightarrow> sorted_wrt (<) (map fst m)"

abbreviation smap_mem :: "'k \<Rightarrow> ('k, 'v) smap \<Rightarrow> bool" where
  "smap_mem k m \<equiv> map_of m k \<noteq> None"

lemma smap_ok_Nil [simp]: "smap_ok []"
  by (simp add: smap_ok_def)

lemma smap_ok_Cons: "smap_ok (p # m) \<longleftrightarrow> (\<forall>q \<in> set m. fst p < fst q) \<and> smap_ok m"
  by (auto simp: smap_ok_def)

lemma smap_ok_distinct: "smap_ok m \<Longrightarrow> distinct (map fst m)"
  by (simp add: smap_ok_def strict_sorted_iff)

lemma map_of_smap_put [simp, store_simps]: "map_of (smap_put k v m) = (map_of m)(k \<mapsto> v)"
  by (induction m) auto

lemma map_of_smap_erase [simp, store_simps]: "map_of (smap_erase k m) = (map_of m)(k := None)"
  by (induction m) (auto simp: smap_erase_def)

lemma smap_put_not_Nil [simp]: "smap_put k v m \<noteq> []"
  by (cases m) auto

lemma fst_set_smap_put: "fst ` set (smap_put k v m) = insert k (fst ` set m)"
  by (metis dom_fun_upd dom_map_of_conv_image_fst map_of_smap_put option.distinct(1))

lemma smap_put_keys: "q \<in> set (smap_put k v m) \<Longrightarrow> q = (k, v) \<or> q \<in> set m"
  by (induction m) (auto split: if_splits)

lemma smap_ok_put [simp]: "smap_ok m \<Longrightarrow> smap_ok (smap_put k v m)"
proof (induction m)
  case Nil
  then show ?case by (simp add: smap_ok_Cons)
next
  case (Cons p m)
  then show ?case
    by (auto simp: smap_ok_Cons dest!: smap_put_keys)
qed

lemma smap_ok_filter [simp]: "smap_ok m \<Longrightarrow> smap_ok (filter P m)"
  by (induction m) (auto simp: smap_ok_Cons)

lemma smap_ok_erase [simp]: "smap_ok m \<Longrightarrow> smap_ok (smap_erase k m)"
  by (simp add: smap_erase_def)

lemma smap_erase_absent: "map_of m k = None \<Longrightarrow> smap_erase k m = m"
  by (auto simp: smap_erase_def map_of_eq_None_iff intro!: filter_True)

lemma smap_mem_set: "smap_ok m \<Longrightarrow> map_of m k = Some v \<longleftrightarrow> (k, v) \<in> set m"
  by (simp add: smap_ok_distinct map_of_eq_Some_iff)

lemma map_of_filter_smap:
  "smap_ok m \<Longrightarrow>
   map_of (filter P m) k = (case map_of m k of None \<Rightarrow> None | Some v \<Rightarrow> if P (k, v) then Some v else None)"
proof (induction m)
  case Nil
  then show ?case by simp
next
  case (Cons p m)
  have "map_of m (fst p) = None"
    using Cons.prems by (auto simp: smap_ok_Cons map_of_eq_None_iff)
  with Cons show ?case
    by (cases p) (auto simp: smap_ok_Cons split: option.splits)
qed

lemma length_smap_put:
  "length (smap_put k v m) \<le> Suc (length m)"
  by (induction m) auto

lemma length_smap_put_new:
  "map_of m k = None \<Longrightarrow> length (smap_put k v m) = Suc (length m)"
  by (induction m) (auto split: if_splits)

lemma length_smap_put_old:
  "smap_ok m \<Longrightarrow> map_of m k = Some w \<Longrightarrow> length (smap_put k v m) = length m"
proof (induction m)
  case Nil
  then show ?case by simp
next
  case (Cons p m)
  have "\<not> (k < fst p)"
    using Cons.prems by (force simp: smap_ok_Cons dest: map_of_SomeD split: if_splits)
  with Cons show ?case by (auto simp: smap_ok_Cons split: if_splits)
qed

lemma length_smap_erase:
  "smap_ok m \<Longrightarrow> map_of m k = Some v \<Longrightarrow> Suc (length (smap_erase k m)) = length m"
proof (induction m)
  case Nil
  then show ?case by simp
next
  case (Cons p m)
  have "fst p = k \<Longrightarrow> smap_erase k m = m"
    using Cons.prems(1) by (intro smap_erase_absent) (auto simp: smap_ok_Cons map_of_eq_None_iff)
  with Cons show ?case
    by (cases p) (auto simp: smap_ok_Cons smap_erase_def split: if_splits)
qed

text \<open>Two ordered maps with the same lookups are the same list: iteration order is determined.\<close>

lemma smap_ext:
  assumes "smap_ok m" and "smap_ok n" and "map_of m = map_of n"
  shows "m = n"
proof -
  have keys: "map fst m = map fst n"
    using assms by (intro strict_sorted_equal)
      (auto simp: smap_ok_def dom_map_of_conv_image_fst [symmetric])
  have rebuild: "xs = map (\<lambda>k. (k, the (map_of xs k))) (map fst xs)"
    if "smap_ok xs" for xs :: "('a, 'b) smap"
    using smap_ok_distinct [OF that] by (auto intro!: map_idI [symmetric])
  show ?thesis
    using rebuild [OF assms(1)] rebuild [OF assms(2)] keys assms(3) by metis
qed

section \<open>What a component relies on when it keeps its state in a map\<close>

locale kv_store =
  fixes find :: "'m \<Rightarrow> 'k \<Rightarrow> 'v option"
    and put :: "'k \<Rightarrow> 'v \<Rightarrow> 'm \<Rightarrow> 'm"
    and erase :: "'k \<Rightarrow> 'm \<Rightarrow> 'm"
    and entries :: "'m \<Rightarrow> ('k \<times> 'v) list"
    and ok :: "'m \<Rightarrow> bool"
  assumes find_put: "ok m \<Longrightarrow> find (put k v m) = (find m)(k \<mapsto> v)"
    and find_erase: "ok m \<Longrightarrow> find (erase k m) = (find m)(k := None)"
    and ok_put: "ok m \<Longrightarrow> ok (put k v m)"
    and ok_erase: "ok m \<Longrightarrow> ok (erase k m)"
    and entries_find: "ok m \<Longrightarrow> (k, v) \<in> set (entries m) \<longleftrightarrow> find m k = Some v"
    and entries_distinct: "ok m \<Longrightarrow> distinct (map fst (entries m))"
begin

definition count :: "('k \<Rightarrow> 'v \<Rightarrow> bool) \<Rightarrow> 'm \<Rightarrow> nat" where
  "count P m = card {k. \<exists>v. find m k = Some v \<and> P k v}"

lemma find_put_other: "ok m \<Longrightarrow> k' \<noteq> k \<Longrightarrow> find (put k v m) k' = find m k'"
  by (simp add: find_put)

lemma find_erase_other: "ok m \<Longrightarrow> k' \<noteq> k \<Longrightarrow> find (erase k m) k' = find m k'"
  by (simp add: find_erase)

lemma find_set_eq:
  assumes "ok m"
  shows "{k. \<exists>v. find m k = Some v \<and> P k v} = set (map fst (filter (\<lambda>(k, v). P k v) (entries m)))"
proof (intro set_eqI iffI)
  fix k assume "k \<in> {k. \<exists>v. find m k = Some v \<and> P k v}"
  then obtain v where "(k, v) \<in> set (entries m)" "P k v"
    using entries_find [OF assms] by auto
  then have "(k, v) \<in> set (filter (\<lambda>(k, v). P k v) (entries m))" by simp
  then show "k \<in> set (map fst (filter (\<lambda>(k, v). P k v) (entries m)))" by force
next
  fix k assume "k \<in> set (map fst (filter (\<lambda>(k, v). P k v) (entries m)))"
  then obtain v where "(k, v) \<in> set (entries m)" "P k v" by auto
  then show "k \<in> {k. \<exists>v. find m k = Some v \<and> P k v}"
    using entries_find [OF assms] by auto
qed

lemma finite_find: "ok m \<Longrightarrow> finite {k. \<exists>v. find m k = Some v \<and> P k v}"
  by (simp only: find_set_eq finite_set)

lemma count_filter: "ok m \<Longrightarrow> count P m = length (filter (\<lambda>(k, v). P k v) (entries m))"
proof -
  assume m: "ok m"
  have "distinct (map fst (filter (\<lambda>(k, v). P k v) (entries m)))"
    using entries_distinct [OF m] by (rule distinct_map_filter)
  then show ?thesis
    using distinct_card by (fastforce simp: count_def find_set_eq [OF m] simp del: set_map)
qed

lemma count_put_new:
  assumes "ok m" and "find m k = None"
  shows "count P (put k v m) = (if P k v then Suc (count P m) else count P m)"
proof -
  have "{k'. \<exists>w. find (put k v m) k' = Some w \<and> P k' w} =
        (if P k v then insert k {k'. \<exists>w. find m k' = Some w \<and> P k' w}
         else {k'. \<exists>w. find m k' = Some w \<and> P k' w})"
    using assms by (auto simp: find_put split: if_splits)
  then show ?thesis
    using assms finite_find [OF assms(1), of P] by (auto simp: count_def)
qed

lemma count_put_old:
  assumes "ok m" and "find m k = Some w" and "P k v = P k w"
  shows "count P (put k v m) = count P m"
proof -
  have "{k'. \<exists>w. find (put k v m) k' = Some w \<and> P k' w} = {k'. \<exists>w. find m k' = Some w \<and> P k' w}"
    using assms by (auto simp: find_put split: if_splits)
  then show ?thesis by (simp add: count_def)
qed

lemma count_put_leave:
  assumes "ok m" and "find m k = Some w" and "P k w" and "\<not> P k v"
  shows "Suc (count P (put k v m)) = count P m"
proof -
  have "{k'. \<exists>w. find m k' = Some w \<and> P k' w} =
        insert k {k'. \<exists>w. find (put k v m) k' = Some w \<and> P k' w}"
    using assms by (auto simp: find_put split: if_splits)
  moreover have "k \<notin> {k'. \<exists>w. find (put k v m) k' = Some w \<and> P k' w}"
    using assms by (auto simp: find_put)
  ultimately show ?thesis
    using finite_find [OF ok_put [OF assms(1)], where P = P] by (simp add: count_def)
qed

lemma count_put_enter:
  assumes "ok m" and "find m k = Some w" and "\<not> P k w" and "P k v"
  shows "count P (put k v m) = Suc (count P m)"
proof -
  have "{k'. \<exists>w. find (put k v m) k' = Some w \<and> P k' w} =
        insert k {k'. \<exists>w. find m k' = Some w \<and> P k' w}"
    using assms by (auto simp: find_put split: if_splits)
  moreover have "k \<notin> {k'. \<exists>w. find m k' = Some w \<and> P k' w}"
    using assms by auto
  ultimately show ?thesis
    using finite_find [OF assms(1), of P] by (simp add: count_def)
qed

lemma count_erase:
  assumes "ok m" and "find m k = Some w"
  shows "count P m = (if P k w then Suc (count P (erase k m)) else count P (erase k m))"
proof -
  have "{k'. \<exists>w. find m k' = Some w \<and> P k' w} =
        (if P k w then insert k {k'. \<exists>w. find (erase k m) k' = Some w \<and> P k' w}
         else {k'. \<exists>w. find (erase k m) k' = Some w \<and> P k' w})"
    using assms by (auto simp: find_erase split: if_splits)
  moreover have "k \<notin> {k'. \<exists>w. find (erase k m) k' = Some w \<and> P k' w}"
    using assms by (auto simp: find_erase)
  ultimately show ?thesis
    using finite_find [OF ok_erase [OF assms(1)], where P = P] by (simp add: count_def)
qed

end

interpretation smap: kv_store map_of smap_put smap_erase "\<lambda>m. m" smap_ok
  by unfold_locales (simp_all add: smap_mem_set smap_ok_distinct)

lemmas smap_count_simps [store_simps] =
  smap.count_put_new smap.count_put_old smap.count_put_leave smap.count_put_enter

section \<open>State machines\<close>

text \<open>
  The states a component can reach: the initial ones, closed under its steps.  Every critical
  section the code runs under a lock is one step, so a reachable state is one any interleaving
  of threads can produce.
\<close>

inductive reach :: "('s \<Rightarrow> bool) \<Rightarrow> ('s \<Rightarrow> 'e \<Rightarrow> 's \<Rightarrow> bool) \<Rightarrow> 's \<Rightarrow> bool"
  for init :: "'s \<Rightarrow> bool" and step :: "'s \<Rightarrow> 'e \<Rightarrow> 's \<Rightarrow> bool" where
  reach_init: "init s \<Longrightarrow> reach init step s"
| reach_step: "reach init step s \<Longrightarrow> step s e t \<Longrightarrow> reach init step t"

locale guarded_machine =
  fixes init :: "'s \<Rightarrow> bool"
    and step :: "'s \<Rightarrow> 'e \<Rightarrow> 's \<Rightarrow> bool"
    and inv :: "'s \<Rightarrow> bool"
  assumes inv_init: "init s \<Longrightarrow> inv s"
    and inv_step: "inv s \<Longrightarrow> step s e t \<Longrightarrow> inv t"
begin

lemma inv_reach: "reach init step s \<Longrightarrow> inv s"
  by (induction rule: reach.induct) (auto intro: inv_init inv_step)

lemma reach_step_inv: "reach init step s \<Longrightarrow> step s e t \<Longrightarrow> inv t"
  by (blast intro: inv_reach reach_step)

end

end
