(* ===== verification/Status_Auth.thy ===== *)
theory Status_Auth
  imports Sdk_Prelude
begin

text \<open>
  Status codes (\<open>interfaces/sdk_status_code.h\<close>) and the authorisation data types
  (\<open>interfaces/sdk_auth_types.h\<close>): the enums as datatypes, \<open>ToCode\<close> and the account type
  conversions as functions, and the structs every service passes around as records.
  A C++ \<open>int\<close> that only ever holds one of these constants is an \<^typ>\<open>int\<close>.
\<close>

section \<open>Status codes\<close>

datatype (plugins only: code) SdkStatusCode =
    Ok | InvalidRequest | InvalidMethod | InvalidParams | UnsupportedMethod | RateLimited
  | UploadFileEmpty | UploadFileTooLarge
  | AuthRequired | TokenInvalid | TokenExpired | SessionTokenInvalid | AccountTypeNotAllowed
  | DeviceNotInAuthScope | AuthSceneMismatch | CapabilityNotAllowed | OfflineAuthCodeInvalid
  | OnlineAuthUnavailable | UsageLimitExceeded | OfflineBindingMismatch
  | DeviceNotFound | DeviceBusy | DeviceOpenFailed | DeviceNotOpen | DeviceModelUnsupported
  | DeviceDisconnected
  | StreamNotFound | StreamNotReady | CaptureFailed | PreviewResolutionUnsupported | CaptureTimeout
  | SaneNotAvailable | SaneDeviceNotFound | SaneDeviceBusy | SaneOptionInvalid | SaneScanFailed
  | SaneProfileNotFound
  | TwainNotAvailable | TwainSourceNotFound | TwainSourceBusy | TwainCapabilityInvalid
  | TwainScanFailed | TwainProfileNotFound | TwainUiRequired
  | StorageBusy | InternalError | ProviderNotReady | ProviderCallFailed

primrec ToCode :: "SdkStatusCode \<Rightarrow> int" where
  "ToCode Ok = 0"
| "ToCode InvalidRequest = 1000"
| "ToCode InvalidMethod = 1001"
| "ToCode InvalidParams = 1002"
| "ToCode UnsupportedMethod = 1003"
| "ToCode RateLimited = 1004"
| "ToCode UploadFileEmpty = 1005"
| "ToCode UploadFileTooLarge = 1006"
| "ToCode AuthRequired = 1100"
| "ToCode TokenInvalid = 1101"
| "ToCode TokenExpired = 1102"
| "ToCode SessionTokenInvalid = 1103"
| "ToCode AccountTypeNotAllowed = 1104"
| "ToCode DeviceNotInAuthScope = 1105"
| "ToCode AuthSceneMismatch = 1106"
| "ToCode CapabilityNotAllowed = 1107"
| "ToCode OfflineAuthCodeInvalid = 1108"
| "ToCode OnlineAuthUnavailable = 1109"
| "ToCode UsageLimitExceeded = 1110"
| "ToCode OfflineBindingMismatch = 1111"
| "ToCode DeviceNotFound = 1200"
| "ToCode DeviceBusy = 1201"
| "ToCode DeviceOpenFailed = 1202"
| "ToCode DeviceNotOpen = 1203"
| "ToCode DeviceModelUnsupported = 1204"
| "ToCode DeviceDisconnected = 1205"
| "ToCode StreamNotFound = 1300"
| "ToCode StreamNotReady = 1300"
| "ToCode CaptureFailed = 1301"
| "ToCode PreviewResolutionUnsupported = 1302"
| "ToCode CaptureTimeout = 1303"
| "ToCode SaneNotAvailable = 1700"
| "ToCode SaneDeviceNotFound = 1701"
| "ToCode SaneDeviceBusy = 1702"
| "ToCode SaneOptionInvalid = 1703"
| "ToCode SaneScanFailed = 1704"
| "ToCode SaneProfileNotFound = 1705"
| "ToCode TwainNotAvailable = 1710"
| "ToCode TwainSourceNotFound = 1711"
| "ToCode TwainSourceBusy = 1712"
| "ToCode TwainCapabilityInvalid = 1713"
| "ToCode TwainScanFailed = 1714"
| "ToCode TwainProfileNotFound = 1715"
| "ToCode TwainUiRequired = 1716"
| "ToCode StorageBusy = 1800"
| "ToCode InternalError = 1900"
| "ToCode ProviderNotReady = 1901"
| "ToCode ProviderCallFailed = 1902"

definition IsOkStatusCode :: "int \<Rightarrow> bool" where
  "IsOkStatusCode code \<longleftrightarrow> code = ToCode Ok"

definition IsAuthStatusCode :: "int \<Rightarrow> bool" where
  "IsAuthStatusCode code \<longleftrightarrow> ToCode AuthRequired \<le> code \<and> code < ToCode InternalError"

lemma IsOk_zero [simp]: "IsOkStatusCode 0"
  by (simp add: IsOkStatusCode_def)

lemma IsOk_ToCode [simp]: "IsOkStatusCode (ToCode c) \<longleftrightarrow> c = Ok"
  by (cases c) (simp_all add: IsOkStatusCode_def)

lemma IsOk_numeral [simp]: "IsOkStatusCode (numeral n) \<longleftrightarrow> False"
  by (simp add: IsOkStatusCode_def)

lemma IsOk_eq: "IsOkStatusCode c \<Longrightarrow> c = 0"
  by (simp add: IsOkStatusCode_def)

section \<open>Account types\<close>

datatype SdkAccountType = Unknown | Vip | Svip | SvipPlus | Custom | Trial

fun AccountTypeCode :: "SdkAccountType \<Rightarrow> int" where
  "AccountTypeCode Unknown = -1"
| "AccountTypeCode Vip = 0"
| "AccountTypeCode Svip = 1"
| "AccountTypeCode SvipPlus = 2"
| "AccountTypeCode Custom = 3"
| "AccountTypeCode Trial = 4"

fun ToAccountTypeString :: "SdkAccountType \<Rightarrow> string" where
  "ToAccountTypeString Vip = ''vip''"
| "ToAccountTypeString Svip = ''svip''"
| "ToAccountTypeString SvipPlus = ''svip_plus''"
| "ToAccountTypeString Custom = ''custom''"
| "ToAccountTypeString Trial = ''trial''"
| "ToAccountTypeString Unknown = ''unknown''"

definition AccountTypeFromCode :: "int \<Rightarrow> SdkAccountType" where
  "AccountTypeFromCode code =
     (if code = 0 then Vip else if code = 1 then Svip else if code = 2 then SvipPlus
      else if code = 3 then Custom else if code = 4 then Trial else Unknown)"

definition AccountTypeFromString :: "string \<Rightarrow> SdkAccountType" where
  "AccountTypeFromString value =
     (if value = ''vip'' then Vip else if value = ''svip'' then Svip
      else if value = ''svip_plus'' then SvipPlus else if value = ''custom'' then Custom
      else if value = ''trial'' then Trial else Unknown)"

section \<open>Authorisation data\<close>

record SdkDeviceGrant =
  grant_vid :: int
  grant_pid :: int

record AuthQuotaBucket =
  qb_bucket :: string
  qb_methods :: "string list"
  qb_limit :: int
  qb_remaining :: int
  qb_enforcement :: string

record AuthContext =
  ac_is_valid :: bool
  ac_account_type :: SdkAccountType
  ac_account_type_code :: int
  ac_licensed_account_type :: SdkAccountType
  ac_licensed_account_type_code :: int
  ac_auth_scene :: string
  ac_license_mode :: string
  ac_host_auth_mode :: string
  ac_entitlement_state :: string
  ac_commercial_authorized :: bool
  ac_machine_code :: string
  ac_device_scope :: "SdkDeviceGrant list"
  ac_expires_at :: int
  ac_capabilities :: "string list"
  ac_quota_buckets :: "AuthQuotaBucket list"

definition default_AuthContext :: AuthContext where
  "default_AuthContext = \<lparr> ac_is_valid = False, ac_account_type = Unknown,
     ac_account_type_code = -1, ac_licensed_account_type = Unknown,
     ac_licensed_account_type_code = -1, ac_auth_scene = '''', ac_license_mode = '''',
     ac_host_auth_mode = '''', ac_entitlement_state = '''', ac_commercial_authorized = False,
     ac_machine_code = '''', ac_device_scope = [], ac_expires_at = 0, ac_capabilities = [],
     ac_quota_buckets = [] \<rparr>"

record AuthValidateRequest =
  av_token :: string
  av_authz_base_url :: string
  av_now_ts :: int

record AuthRefreshRequest =
  rf_session_token :: string
  rf_now_ts :: int

record AuthRefreshResult =
  rr_code :: int
  rr_message :: string
  rr_session_token :: string
  rr_expires_in :: int
  rr_auth_context :: AuthContext

record OfflineActivateRequest =
  oa_token :: string
  oa_session_token :: string
  oa_auth_code :: string
  oa_now_ts :: int

record OfflineActivateResult =
  or_code :: int
  or_message :: string
  or_activated :: bool
  or_session_token :: string
  or_expires_in :: int
  or_auth_context :: AuthContext

record QuotaConsumeRequest =
  qc_token :: string
  qc_session_token :: string
  qc_authz_base_url :: string
  qc_capability :: string
  qc_request_id :: string
  qc_units :: int
  qc_now_ts :: int

record QuotaConsumeResult =
  qr_code :: int
  qr_message :: string
  qr_consumed :: bool
  qr_bucket :: string
  qr_limit :: int
  qr_remaining :: int
  qr_auth_context :: AuthContext

definition default_QuotaConsumeResult :: QuotaConsumeResult where
  "default_QuotaConsumeResult = \<lparr> qr_code = ToCode Ok, qr_message = ''ok'', qr_consumed = False,
     qr_bucket = '''', qr_limit = 0, qr_remaining = 0, qr_auth_context = default_AuthContext \<rparr>"

section \<open>Conversions\<close>

lemma AccountTypeFromCode_Code [simp]: "AccountTypeFromCode (AccountTypeCode t) = t"
  by (cases t) (simp_all add: AccountTypeFromCode_def)

lemma AccountTypeFromString_String [simp]: "AccountTypeFromString (ToAccountTypeString t) = t"
  by (cases t) (simp_all add: AccountTypeFromString_def)

text \<open>The account type survives both of its encodings: the integer code and the wire string
  each decode to the account type they were produced from, and nothing outside the five codes
  (strings) decodes to a known type.\<close>

theorem account_type_roundtrip:
  "AccountTypeFromCode (AccountTypeCode t) = t \<and> AccountTypeFromString (ToAccountTypeString t) = t \<and>
   (AccountTypeFromCode c = Unknown \<longleftrightarrow> c \<notin> {0, 1, 2, 3, 4}) \<and>
   (AccountTypeFromString s = Unknown \<longleftrightarrow> s \<notin> {''vip'', ''svip'', ''svip_plus'', ''custom'', ''trial''})"
proof (intro conjI)
  show "AccountTypeFromCode c = Unknown \<longleftrightarrow> c \<notin> {0, 1, 2, 3, 4}"
    by (simp add: AccountTypeFromCode_def)
  show "AccountTypeFromString s = Unknown \<longleftrightarrow>
        s \<notin> {''vip'', ''svip'', ''svip_plus'', ''custom'', ''trial''}"
    by (simp add: AccountTypeFromString_def)
qed simp_all

text \<open>\<open>IsAuthStatusCode\<close> also accepts the codes of the device, stream, scanner and
  storage groups (1200 to 1899): the error code document restricts business authentication failures
  to 1100-1107 and the authorisation group to 1100-1199.\<close>

theorem IsAuthStatusCode_not_only_auth:
  "IsAuthStatusCode (ToCode DeviceNotFound) \<and> IsAuthStatusCode (ToCode StreamNotFound) \<and>
   IsAuthStatusCode (ToCode CaptureTimeout) \<and> IsAuthStatusCode (ToCode StorageBusy) \<and>
   \<not> IsAuthStatusCode (ToCode ProviderNotReady) \<and> \<not> IsAuthStatusCode (ToCode RateLimited)"
  by (simp add: IsAuthStatusCode_def)

end
