(* ===== verification/Entitlement.thy ===== *)
theory Entitlement
  imports Status_Auth
begin

text \<open>
  The entitlement policy (\<open>interfaces/sdk_entitlement_policy.cpp\<close>) and the required-tier tables of
  the command service that feed it (\<open>application/command_application_service.cpp\<close>, the functions
  \<open>MaxRequiredTier\<close> to \<open>TrialQuotaCapabilityFor\<close>).

  A feature has a required tier; an account may use it by its own rank, or, in a trial state, by the
  rank of the licence it tries out, and then against the trial quota.  The lemmas characterise that
  decision completely, show that it is monotone in the account's rank, and that every feature that
  can be reached through the trial path is billed to the bucket \<open>trial_vip\<close>.
\<close>

section \<open>Ranks\<close>

definition IsKnownTier :: "SdkAccountType \<Rightarrow> bool" where
  "IsKnownTier t \<longleftrightarrow> t = Trial \<or> t = Vip \<or> t = Svip \<or> t = SvipPlus"

fun EntitlementRank :: "SdkAccountType \<Rightarrow> int" where
  "EntitlementRank Trial = 0"
| "EntitlementRank Vip = 1"
| "EntitlementRank Svip = 2"
| "EntitlementRank SvipPlus = 3"
| "EntitlementRank Custom = 4"
| "EntitlementRank Unknown = -1"

definition IsEntitlementAtLeast :: "SdkAccountType \<Rightarrow> SdkAccountType \<Rightarrow> bool" where
  "IsEntitlementAtLeast current required \<longleftrightarrow> EntitlementRank current \<ge> EntitlementRank required"

lemma EntitlementRank_inject: "EntitlementRank s = EntitlementRank t \<longleftrightarrow> s = t"
  by (cases s; cases t; simp)

text \<open>The library's order on account types is the order of ranks.\<close>

instantiation SdkAccountType :: linorder
begin

definition less_eq_SdkAccountType :: "SdkAccountType \<Rightarrow> SdkAccountType \<Rightarrow> bool" where
  "less_eq_SdkAccountType s t \<longleftrightarrow> EntitlementRank s \<le> EntitlementRank t"

definition less_SdkAccountType :: "SdkAccountType \<Rightarrow> SdkAccountType \<Rightarrow> bool" where
  "less_SdkAccountType s t \<longleftrightarrow> EntitlementRank s < EntitlementRank t"

instance
  by standard
    (auto simp: less_eq_SdkAccountType_def less_SdkAccountType_def EntitlementRank_inject
      dest: antisym)

end

lemma at_least_iff: "IsEntitlementAtLeast current required \<longleftrightarrow> required \<le> current"
  by (simp add: IsEntitlementAtLeast_def less_eq_SdkAccountType_def)

section \<open>Capabilities of a session\<close>

definition AlwaysSupportedCapabilities :: "string list" where
  "AlwaysSupportedCapabilities =
     [''system.ping'', ''system.info'', ''system.capabilities'', ''auth.create_session'',
      ''auth.get_context'', ''auth.refresh_session'', ''auth.destroy_session'',
      ''auth.activate_offline'', ''device.list'', ''device.get'', ''device.open'',
      ''device.close'', ''capture.take'', ''capture.get'', ''capture.session.get'',
      ''capture.set_turn_detect'', ''video.start'', ''video.stop'', ''video.set_format'',
      ''video.set_profile'', ''image.process'', ''image.process_page'',
      ''image.apply_color_mode'', ''image.enhance_capabilities'', ''image.enhance'',
      ''image.enhance_get'', ''image.enhance_cancel'', ''image.enhance_workflow_list'',
      ''image.enhance_workflow_get'', ''image.enhance_workflow_save'',
      ''image.enhance_workflow_delete'', ''file.convert'', ''recognition.barcode_detect'',
      ''sane.status'', ''sane.list'', ''sane.watch_start'', ''sane.watch_stop'', ''sane.open'',
      ''sane.close'', ''sane.get_options'', ''sane.set_options'', ''sane.profile_list'',
      ''sane.profile_save'', ''sane.profile_apply'', ''sane.profile_delete'', ''sane.scan'',
      ''sane.scan_get'', ''sane.scan_cancel'', ''twain.status'', ''twain.list'',
      ''twain.watch_start'', ''twain.watch_stop'', ''twain.open'', ''twain.close'',
      ''twain.get_capabilities'', ''twain.set_capabilities'', ''twain.profile_list'',
      ''twain.profile_save'', ''twain.profile_apply'', ''twain.profile_delete'', ''twain.scan'',
      ''twain.scan_get'', ''twain.scan_cancel'']"

definition BuildEntitledCapabilities :: "SdkAccountType \<Rightarrow> string list" where
  "BuildEntitledCapabilities account_type =
     AlwaysSupportedCapabilities @
     (if IsKnownTier account_type
      then [''ocr.recognize'', ''ocr.get'', ''ocr.cancel'', ''ocr.extract_text''] else [])"

section \<open>Trial state and quota buckets\<close>

definition IsTrialEntitlementState :: "AuthContext \<Rightarrow> bool" where
  "IsTrialEntitlementState ac \<longleftrightarrow>
     ac_account_type ac = Trial \<or> ac_entitlement_state ac = ''offline_trial'' \<or>
     ac_entitlement_state ac = ''online_trial''"

definition trial_vip_capabilities :: "string list" where
  "trial_vip_capabilities =
     [''trial_vip'', ''ocr.recognize'', ''ocr.extract_text'', ''image.process.vip'',
      ''image.process.svip'', ''image.process.svip_plus'', ''image.enhance.vip'',
      ''image.enhance.svip'', ''image.enhance.svip_plus'', ''file.convert.vip'',
      ''file.convert.svip'', ''file.convert.svip_plus'']"

definition capture_capabilities :: "string list" where
  "capture_capabilities = [''capture.take'', ''sane.scan'', ''twain.scan'']"

definition image_capabilities :: "string list" where
  "image_capabilities =
     [''image.process'', ''image.process_page'', ''image.apply_color_mode'', ''image.enhance'',
      ''image.enhance_get'', ''image.enhance_cancel'', ''image.enhance_capabilities'',
      ''image.enhance_workflow_list'', ''image.enhance_workflow_get'',
      ''image.enhance_workflow_save'', ''image.enhance_workflow_delete'', ''doc_crop_enhance'',
      ''remove_handwriting'', ''doc_repair'', ''remove_moire'']"

definition CapabilityToEntitlementQuotaBucket :: "string \<Rightarrow> string" where
  "CapabilityToEntitlementQuotaBucket capability =
     (if capability \<in> set trial_vip_capabilities then ''trial_vip''
      else if capability \<in> set capture_capabilities then ''capture''
      else if capability \<in> set image_capabilities then ''image''
      else if capability = ''file.convert'' then ''file''
      else '''')"

definition CapabilityRequiresTrialVipQuota :: "AuthContext \<Rightarrow> string \<Rightarrow> bool" where
  "CapabilityRequiresTrialVipQuota ac capability \<longleftrightarrow>
     (if \<not> IsTrialEntitlementState ac then False
      else CapabilityToEntitlementQuotaBucket capability = ''trial_vip'')"

section \<open>The feature check\<close>

record EntitlementCheckResult =
  ec_code :: int
  ec_message :: string
  ec_feature :: string
  ec_required_account_type :: SdkAccountType
  ec_requires_trial_quota :: bool

definition denied_message :: "AuthContext \<Rightarrow> string \<Rightarrow> SdkAccountType \<Rightarrow> string" where
  "denied_message ac feature required =
     ''capability not allowed: '' @ feature @ '' requires '' @ ToAccountTypeString required @
     '', current '' @ ToAccountTypeString (ac_account_type ac)"

definition CheckFeatureEntitlement ::
    "AuthContext \<Rightarrow> string \<Rightarrow> SdkAccountType \<Rightarrow> EntitlementCheckResult" where
  "CheckFeatureEntitlement ac feature required =
     (let result = \<lparr> ec_code = ToCode Ok, ec_message = ''ok'', ec_feature = feature,
                     ec_required_account_type = required, ec_requires_trial_quota = False \<rparr>
      in if \<not> IsKnownTier required \<or> required = Trial then result
         else if IsEntitlementAtLeast (ac_account_type ac) required then result
         else if IsTrialEntitlementState ac \<and>
                 IsEntitlementAtLeast (ac_licensed_account_type ac) required \<and>
                 (required \<noteq> SvipPlus \<or> ac_commercial_authorized ac)
              then result\<lparr>ec_requires_trial_quota := True\<rparr>
         else result\<lparr>ec_code := ToCode CapabilityNotAllowed,
                     ec_message := denied_message ac feature required\<rparr>)"

section \<open>Required tiers of the commands\<close>

definition MaxRequiredTier :: "SdkAccountType \<Rightarrow> SdkAccountType \<Rightarrow> SdkAccountType" where
  "MaxRequiredTier lhs rhs = (if EntitlementRank lhs \<ge> EntitlementRank rhs then lhs else rhs)"

definition RequiredTierForColorMode :: "string \<Rightarrow> SdkAccountType" where
  "RequiredTierForColorMode color_mode =
     (let value = to_lower color_mode
      in if value = ''white_paper_seal'' \<or> value = ''white_paper_stamp'' then Svip
         else if value = ''ancient'' \<or> value = ''ancient_book'' then SvipPlus
         else Trial)"

text \<open>Of \<open>SdkSinglePageOptions\<close> the function reads only \<open>auto_rotate\<close>; the curved-book options
  are an unnamed parameter of the source.\<close>

definition RequiredTierForImageProcess :: "string \<Rightarrow> string \<Rightarrow> bool \<Rightarrow> SdkAccountType" where
  "RequiredTierForImageProcess page_processing color_mode auto_rotate =
     (let required = RequiredTierForColorMode color_mode;
          required = (if auto_rotate then MaxRequiredTier required Vip else required);
          processing = to_lower page_processing
      in if processing = ''curved_book'' \<or> processing = ''book'' \<or> processing = ''curve_flatten''
         then MaxRequiredTier required Svip else required)"

definition RequiredTierForEnhanceStep :: "string \<Rightarrow> SdkAccountType" where
  "RequiredTierForEnhanceStep step_type =
     (let type = to_lower step_type
      in if type = ''rotate'' then Vip
         else if type \<in> set [''blank_page_detect'', ''normalize_spec'', ''red_green_head'',
                  ''white_paper_seal'', ''white_paper_stamp'', ''curved_book''] then Svip
         else if type \<in> set [''ancient'', ''ancient_book'', ''hole_fill'', ''punch_hole_fill'',
                  ''doc_crop_enhance'', ''document_rectify_enhance'', ''remove_handwriting'',
                  ''doc_repair'', ''remove_background_texture'', ''remove_moire''] then SvipPlus
         else Trial)"

text \<open>A pipeline is given by its steps: the \<open>enabled\<close> flag and the \<open>type\<close> of each.\<close>

definition RequiredTierForEnhancePipeline :: "(bool \<times> string) list \<Rightarrow> SdkAccountType" where
  "RequiredTierForEnhancePipeline steps =
     foldl (\<lambda>required (enabled, type).
              if \<not> enabled then required
              else MaxRequiredTier required (RequiredTierForEnhanceStep type)) Trial steps"

definition RequiredTierForFileConvert :: "string \<Rightarrow> string \<Rightarrow> SdkAccountType" where
  "RequiredTierForFileConvert output_format export_type0 =
     (let format = to_lower output_format;
          format = (if format = ''jpeg'' then ''jpg'' else format);
          format = (if format = ''tif'' then ''tiff'' else format)
      in if format = ''pdf'' \<or> format = ''ofd'' then
           (let export_type = to_lower export_type0
            in if export_type \<in> set [''double-layer'', ''double_layer'', ''searchable'',
                    ''text-layer'', ''text_layer''] then Vip else Trial)
         else if format = ''txt'' then Vip
         else if format \<in> set [''jpg'', ''png'', ''bmp'', ''tiff''] then Svip
         else Trial)"

definition tier_capability :: "string \<Rightarrow> string \<Rightarrow> string" where
  "tier_capability method suffix =
     (if starts_with ''image.enhance'' method then ''image.enhance'' @ suffix
      else if starts_with ''image.'' method then ''image.process'' @ suffix
      else if method = ''file.convert'' then ''file.convert'' @ suffix
      else method)"

definition TrialQuotaCapabilityFor :: "string \<Rightarrow> SdkAccountType \<Rightarrow> string" where
  "TrialQuotaCapabilityFor method required =
     (if required = Vip then tier_capability method ''.vip''
      else if required = Svip then tier_capability method ''.svip''
      else if required = SvipPlus then tier_capability method ''.svip_plus''
      else method)"

section \<open>What the policy decides\<close>

definition gated :: "SdkAccountType \<Rightarrow> bool" where
  "gated required \<longleftrightarrow> required = Vip \<or> required = Svip \<or> required = SvipPlus"

definition trial_path :: "AuthContext \<Rightarrow> SdkAccountType \<Rightarrow> bool" where
  "trial_path ac required \<longleftrightarrow>
     ac_account_type ac < required \<and> IsTrialEntitlementState ac \<and>
     required \<le> ac_licensed_account_type ac \<and>
     (if required = SvipPlus then ac_commercial_authorized ac else True)"

lemma IsKnownTier_gated: "IsKnownTier required \<longleftrightarrow> gated required \<or> required = Trial"
  by (cases required) (simp_all add: IsKnownTier_def gated_def)

lemma gated_not_Trial [simp]: "\<not> gated Trial"
  by (simp add: gated_def)

lemmas check_simps = CheckFeatureEntitlement_def Let_def IsKnownTier_gated at_least_iff not_le

text \<open>The feature check, on every branch: a feature is allowed exactly when its tier is not
  gated, or the account reaches it, or the account is in a trial state whose licence reaches it
  (for \<open>SvipPlus\<close> only with commercial authorisation); the trial quota is demanded exactly on
  that last path; every refusal carries \<open>CapabilityNotAllowed\<close> and names the two tiers.\<close>

theorem feature_check_decision:
  "(IsOkStatusCode (ec_code (CheckFeatureEntitlement ac feature required)) \<longleftrightarrow>
      gated required = False \<or> required \<le> ac_account_type ac \<or> trial_path ac required) \<and>
   (ec_requires_trial_quota (CheckFeatureEntitlement ac feature required) \<longleftrightarrow>
      gated required \<and> trial_path ac required) \<and>
   (ec_code (CheckFeatureEntitlement ac feature required) = ToCode CapabilityNotAllowed \<longleftrightarrow>
      gated required \<and> ac_account_type ac < required \<and> trial_path ac required = False) \<and>
   ec_message (CheckFeatureEntitlement ac feature required) =
     (if IsOkStatusCode (ec_code (CheckFeatureEntitlement ac feature required)) then ''ok''
      else denied_message ac feature required)"
  by (auto simp: check_simps trial_path_def)

text \<open>A better account never loses a feature: outside the trial account type, raising the
  account type keeps every feature that was allowed.\<close>

theorem feature_check_monotone:
  assumes "IsOkStatusCode (ec_code (CheckFeatureEntitlement ac feature required))"
    and "ac_account_type ac \<noteq> Trial" and "ac_account_type ac \<le> t"
  shows "IsOkStatusCode (ec_code (CheckFeatureEntitlement (ac\<lparr>ac_account_type := t\<rparr>) feature required))"
  using assms
  by (auto simp: check_simps IsTrialEntitlementState_def split: if_splits)

theorem feature_check_monotone_witness:
  "IsOkStatusCode (ec_code (CheckFeatureEntitlement
     (default_AuthContext\<lparr>ac_account_type := SvipPlus\<rparr>) ''ocr.recognize'' Vip))"
proof -
  let ?ac = "default_AuthContext\<lparr>ac_account_type := Vip\<rparr>"
  have "IsOkStatusCode (ec_code (CheckFeatureEntitlement ?ac ''ocr.recognize'' Vip))"
    by (simp add: check_simps gated_def)
  then show ?thesis
    using feature_check_monotone [of ?ac "''ocr.recognize''" Vip SvipPlus]
    by (simp add: less_eq_SdkAccountType_def)
qed

definition feature_methods :: "string list" where
  "feature_methods = [''image.process'', ''image.process_page'', ''image.apply_color_mode'',
     ''image.enhance'', ''ocr.recognize'', ''ocr.extract_text'', ''file.convert'']"

lemma feature_method_bucket:
  assumes "method \<in> set feature_methods" and "gated required"
  shows "CapabilityToEntitlementQuotaBucket (TrialQuotaCapabilityFor method required) = ''trial_vip''"
proof -
  have "list_all (\<lambda>m. list_all (\<lambda>r.
      CapabilityToEntitlementQuotaBucket (TrialQuotaCapabilityFor m r) = ''trial_vip'')
      [Vip, Svip, SvipPlus]) feature_methods"
    by code_simp
  with assms show ?thesis by (auto simp: list_all_iff gated_def)
qed

text \<open>Whatever the feature check lets through on the trial path is billed to the trial
  quota: for each of the seven methods that ask for an entitlement, the capability under which the
  command service consumes quota is one the policy counts against the bucket \<open>trial_vip\<close>.\<close>

theorem trial_features_are_billed:
  assumes "method \<in> set feature_methods"
    and "ec_requires_trial_quota (CheckFeatureEntitlement ac method required)"
  shows "CapabilityRequiresTrialVipQuota ac (TrialQuotaCapabilityFor method required)"
proof -
  from assms(2) have "gated required" and "IsTrialEntitlementState ac"
    by (auto simp: check_simps split: if_splits)
  with assms(1) show ?thesis
    by (simp add: CapabilityRequiresTrialVipQuota_def feature_method_bucket)
qed

theorem trial_features_are_billed_witness:
  "CapabilityRequiresTrialVipQuota
     (default_AuthContext\<lparr>ac_account_type := Trial, ac_licensed_account_type := Svip\<rparr>)
     (TrialQuotaCapabilityFor ''file.convert'' Svip)"
  by (rule trial_features_are_billed)
    (simp_all add: feature_methods_def check_simps gated_def IsTrialEntitlementState_def
      less_eq_SdkAccountType_def less_SdkAccountType_def)

section \<open>Required tiers\<close>

lemma MaxRequiredTier_max [simp]: "MaxRequiredTier s t = max t s"
  by (auto simp: MaxRequiredTier_def max_def less_eq_SdkAccountType_def EntitlementRank_inject
      dest: antisym)

lemma pipeline_tier_foldl:
  "foldl (\<lambda>required (enabled, type).
      if \<not> enabled then required else MaxRequiredTier required (RequiredTierForEnhanceStep type)) r steps
   = fold max (map (\<lambda>(_, type). RequiredTierForEnhanceStep type) (filter fst steps)) r"
  by (induction steps arbitrary: r) (auto split: prod.splits)

lemma fold_max_Max: "fold max xs (r :: 'a::linorder) = Max (insert r (set xs))"
  by (metis Max.set_eq_fold list.simps(15))

text \<open>The tier of an enhancement pipeline is the highest tier of its enabled steps: no
  enabled step needs more, the value is attained (or is the ungated \<open>Trial\<close>), and disabled steps do
  not count.\<close>

theorem pipeline_tier_is_max:
  "RequiredTierForEnhancePipeline steps =
     Max (insert Trial ((RequiredTierForEnhanceStep \<circ> snd) ` {s \<in> set steps. fst s}))"
proof -
  have "set (map (\<lambda>(_, type). RequiredTierForEnhanceStep type) (filter fst steps)) =
        (RequiredTierForEnhanceStep \<circ> snd) ` {s \<in> set steps. fst s}"
    by force
  then show ?thesis
    by (simp add: RequiredTierForEnhancePipeline_def pipeline_tier_foldl fold_max_Max del: set_map)
qed

end
