(* ===== verification/Video_Session.thy ===== *)
theory Video_Session
  imports Status_Auth
begin

text \<open>
  The video session service (\<open>application/video_session_service.cpp\<close>): the bindings of live
  video streams to a command connection, a session token and a device.  Its state is the map
  \<open>streams_\<close> and the counter \<open>next_stream_id_\<close>; every public operation runs under
  \<open>streams_mu_\<close>, so each is one step of the machine at the end of the theory.  The counter is a
  \<open>std::size_t\<close> that grows by one per registered stream; it is modelled as \<^typ>\<open>nat\<close>.
\<close>

section \<open>State and results\<close>

record StreamBinding =
  sb_stream_id :: string
  sb_connection_id :: string
  sb_session_token :: string
  sb_device_id :: string
  sb_pixel_format :: string
  sb_width :: int
  sb_height :: int
  sb_fps :: int

definition default_StreamBinding :: StreamBinding where
  "default_StreamBinding = \<lparr> sb_stream_id = '''', sb_connection_id = '''', sb_session_token = '''',
     sb_device_id = '''', sb_pixel_format = ''mjpeg'', sb_width = 1280, sb_height = 720, sb_fps = 15 \<rparr>"

record StreamResult =
  st_code :: int
  st_message :: string
  st_binding :: StreamBinding

definition default_StreamResult :: StreamResult where
  "default_StreamResult =
     \<lparr> st_code = ToCode Ok, st_message = ''ok'', st_binding = default_StreamBinding \<rparr>"

definition stream_not_found :: StreamResult where
  "stream_not_found = default_StreamResult
     \<lparr> st_code := ToCode StreamNotFound, st_message := ''stream not found'' \<rparr>"

record ValidationResult =
  vr_authorized :: bool
  vr_code :: int
  vr_message :: string
  vr_binding :: StreamBinding

definition default_ValidationResult :: ValidationResult where
  "default_ValidationResult = \<lparr> vr_authorized = False, vr_code = ToCode AuthRequired,
     vr_message = ''auth required'', vr_binding = default_StreamBinding \<rparr>"

record VideoSessionService =
  vs_streams :: "(string, StreamBinding) smap"
  vs_next_stream_id :: nat

definition init_VideoSessionService :: VideoSessionService where
  "init_VideoSessionService = \<lparr> vs_streams = [], vs_next_stream_id = 1 \<rparr>"

section \<open>Operations\<close>

definition NextStreamId :: "VideoSessionService \<Rightarrow> string \<times> VideoSessionService" where
  "NextStreamId s = (''stream-'' @ dec (vs_next_stream_id s),
                     s\<lparr>vs_next_stream_id := vs_next_stream_id s + 1\<rparr>)"

definition RegisterStream ::
    "string \<Rightarrow> string \<Rightarrow> string \<Rightarrow> string \<Rightarrow> int \<Rightarrow> int \<Rightarrow> int \<Rightarrow>
     VideoSessionService \<Rightarrow> StreamResult \<times> VideoSessionService" where
  "RegisterStream connection_id session_token device_id pixel_format width height fps s =
     (let (stream_id, s) = NextStreamId s;
          binding = \<lparr> sb_stream_id = stream_id, sb_connection_id = connection_id,
                      sb_session_token = session_token, sb_device_id = device_id,
                      sb_pixel_format = pixel_format, sb_width = width, sb_height = height,
                      sb_fps = fps \<rparr>
      in (default_StreamResult\<lparr>st_binding := binding\<rparr>,
          s\<lparr>vs_streams := smap_put stream_id binding (vs_streams s)\<rparr>))"

definition owns :: "string \<Rightarrow> string \<Rightarrow> StreamBinding \<Rightarrow> bool" where
  "owns connection_id device_id b \<longleftrightarrow> sb_connection_id b = connection_id \<and> sb_device_id b = device_id"

text \<open>The loops of \<open>StopStream\<close> and \<open>UpdateStreamFormat\<close> leave at the first match.\<close>

fun StopStream_loop ::
    "string \<Rightarrow> string \<Rightarrow> (string, StreamBinding) smap \<Rightarrow>
     (StreamBinding \<times> (string, StreamBinding) smap) option" where
  "StopStream_loop c d [] = None"
| "StopStream_loop c d (p # m) =
     (if owns c d (snd p) then Some (snd p, m)
      else map_option (\<lambda>(b, m'). (b, p # m')) (StopStream_loop c d m))"

definition StopStream ::
    "string \<Rightarrow> string \<Rightarrow> VideoSessionService \<Rightarrow> StreamResult \<times> VideoSessionService" where
  "StopStream connection_id device_id s =
     (case StopStream_loop connection_id device_id (vs_streams s) of
        Some (b, m) \<Rightarrow> (default_StreamResult\<lparr>st_binding := b\<rparr>, s\<lparr>vs_streams := m\<rparr>)
      | None \<Rightarrow> (stream_not_found, s))"

definition StopStreamById ::
    "string \<Rightarrow> VideoSessionService \<Rightarrow> StreamResult \<times> VideoSessionService" where
  "StopStreamById stream_id s =
     (case map_of (vs_streams s) stream_id of
        None \<Rightarrow> (stream_not_found, s)
      | Some b \<Rightarrow> (default_StreamResult\<lparr>st_binding := b\<rparr>,
                   s\<lparr>vs_streams := smap_erase stream_id (vs_streams s)\<rparr>))"

definition remove_streams ::
    "(StreamBinding \<Rightarrow> bool) \<Rightarrow> VideoSessionService \<Rightarrow> StreamBinding list \<times> VideoSessionService" where
  "remove_streams P s =
     (map snd (filter (\<lambda>p. P (snd p)) (vs_streams s)),
      s\<lparr>vs_streams := filter (\<lambda>p. \<not> P (snd p)) (vs_streams s)\<rparr>)"

definition ClearDevice ::
    "string \<Rightarrow> VideoSessionService \<Rightarrow> StreamBinding list \<times> VideoSessionService" where
  "ClearDevice device_id = remove_streams (\<lambda>b. sb_device_id b = device_id)"

definition ClearConnection ::
    "string \<Rightarrow> VideoSessionService \<Rightarrow> StreamBinding list \<times> VideoSessionService" where
  "ClearConnection connection_id = remove_streams (\<lambda>b. sb_connection_id b = connection_id)"

definition ClearAll :: "VideoSessionService \<Rightarrow> StreamBinding list \<times> VideoSessionService" where
  "ClearAll s = (map snd (vs_streams s), s\<lparr>vs_streams := []\<rparr>)"

definition set_format :: "string \<Rightarrow> int \<Rightarrow> int \<Rightarrow> int \<Rightarrow> StreamBinding \<Rightarrow> StreamBinding" where
  "set_format pixel_format width height fps b =
     b\<lparr>sb_pixel_format := pixel_format, sb_width := width, sb_height := height, sb_fps := fps\<rparr>"

fun UpdateStreamFormat_loop ::
    "string \<Rightarrow> string \<Rightarrow> (StreamBinding \<Rightarrow> StreamBinding) \<Rightarrow> (string, StreamBinding) smap \<Rightarrow>
     (StreamBinding \<times> (string, StreamBinding) smap) option" where
  "UpdateStreamFormat_loop c d f [] = None"
| "UpdateStreamFormat_loop c d f (p # m) =
     (if owns c d (snd p) then Some (f (snd p), (fst p, f (snd p)) # m)
      else map_option (\<lambda>(b, m'). (b, p # m')) (UpdateStreamFormat_loop c d f m))"

definition UpdateStreamFormat ::
    "string \<Rightarrow> string \<Rightarrow> string \<Rightarrow> int \<Rightarrow> int \<Rightarrow> int \<Rightarrow> VideoSessionService \<Rightarrow>
     StreamResult \<times> VideoSessionService" where
  "UpdateStreamFormat connection_id device_id pixel_format width height fps s =
     (case UpdateStreamFormat_loop connection_id device_id
             (set_format pixel_format width height fps) (vs_streams s) of
        Some (b, m) \<Rightarrow> (default_StreamResult\<lparr>st_binding := b\<rparr>, s\<lparr>vs_streams := m\<rparr>)
      | None \<Rightarrow> (stream_not_found, s))"

definition Validate :: "string \<Rightarrow> string \<Rightarrow> VideoSessionService \<Rightarrow> ValidationResult" where
  "Validate session_token stream_id s =
     (if session_token = [] \<or> stream_id = [] then
        default_ValidationResult\<lparr> vr_code := ToCode AuthRequired,
          vr_message := ''session_token and stream_id required'' \<rparr>
      else case map_of (vs_streams s) stream_id of
        None \<Rightarrow> default_ValidationResult\<lparr> vr_code := ToCode StreamNotFound,
                  vr_message := ''stream not found'' \<rparr>
      | Some b \<Rightarrow>
          if sb_session_token b \<noteq> session_token then
            default_ValidationResult\<lparr> vr_code := ToCode SessionTokenInvalid,
              vr_message := ''session token invalid'' \<rparr>
          else \<lparr> vr_authorized = True, vr_code = ToCode Ok, vr_message = ''ok'', vr_binding = b \<rparr>)"

definition ActiveStreamCount :: "VideoSessionService \<Rightarrow> nat" where
  "ActiveStreamCount s = length (vs_streams s)"

section \<open>The invariant\<close>

text \<open>Every binding is stored under its own stream id, and every id has been handed out by the
  counter: the next id is therefore fresh.\<close>

definition entry_ok :: "nat \<Rightarrow> string \<times> StreamBinding \<Rightarrow> bool" where
  "entry_ok next p \<longleftrightarrow> sb_stream_id (snd p) = fst p \<and>
     (\<exists>n. 1 \<le> n \<and> n < next \<and> fst p = ''stream-'' @ dec n)"

definition vs_inv :: "VideoSessionService \<Rightarrow> bool" where
  "vs_inv s \<longleftrightarrow> smap_ok (vs_streams s) \<and> 1 \<le> vs_next_stream_id s \<and>
     (\<forall>p \<in> set (vs_streams s). entry_ok (vs_next_stream_id s) p)"

lemma entry_ok_mono: "entry_ok n p \<Longrightarrow> n \<le> m \<Longrightarrow> entry_ok m p"
  by (auto simp: entry_ok_def intro: less_le_trans)

lemma entry_ok_new: "1 \<le> n \<Longrightarrow> sb_stream_id b = ''stream-'' @ dec n \<Longrightarrow> entry_ok (Suc n) (''stream-'' @ dec n, b)"
  by (auto simp: entry_ok_def)

lemma vs_invD:
  assumes "vs_inv s"
  shows "smap_ok (vs_streams s)" and "1 \<le> vs_next_stream_id s"
    and "p \<in> set (vs_streams s) \<Longrightarrow> entry_ok (vs_next_stream_id s) p"
  using assms by (simp_all add: vs_inv_def)

lemma vs_inv_ok: "vs_inv s \<Longrightarrow> smap_ok (vs_streams s)"
  by (rule vs_invD)

lemma vs_inv_subset:
  "vs_inv s \<Longrightarrow> set m \<subseteq> set (vs_streams s) \<Longrightarrow> smap_ok m \<Longrightarrow> vs_inv (s\<lparr>vs_streams := m\<rparr>)"
  by (auto simp: vs_inv_def)

lemma vs_inv_fresh:
  assumes "vs_inv s" and "vs_next_stream_id s \<le> n"
  shows "map_of (vs_streams s) (''stream-'' @ dec n) = None"
proof (rule ccontr)
  assume "map_of (vs_streams s) (''stream-'' @ dec n) \<noteq> None"
  then obtain b where "(''stream-'' @ dec n, b) \<in> set (vs_streams s)"
    by (auto dest: map_of_SomeD)
  from vs_invD(3) [OF assms(1) this] assms(2) show False
    by (auto simp: entry_ok_def)
qed

lemma vs_inv_lookup_id: "vs_inv s \<Longrightarrow> map_of (vs_streams s) k = Some b \<Longrightarrow> sb_stream_id b = k"
  using vs_invD(3) [of s "(k, b)"] by (auto dest: map_of_SomeD simp: entry_ok_def)

lemma vs_inv_init: "vs_inv init_VideoSessionService"
  by (simp add: vs_inv_def init_VideoSessionService_def)

lemma vs_inv_Register:
  assumes "vs_inv s"
  shows "vs_inv (snd (RegisterStream c t d p w h f s))"
proof -
  let ?n = "vs_next_stream_id s"
  have "entry_ok (Suc ?n) q" if "q \<in> set (smap_put (''stream-'' @ dec ?n) b (vs_streams s))"
    and "sb_stream_id b = ''stream-'' @ dec ?n" for q b
    using smap_put_keys [OF that(1)]
  proof
    assume "q = (''stream-'' @ dec ?n, b)"
    then show ?thesis using entry_ok_new [OF vs_invD(2) [OF assms] that(2)] by blast
  next
    assume "q \<in> set (vs_streams s)"
    then show ?thesis by (rule entry_ok_mono [OF vs_invD(3) [OF assms]]) simp
  qed
  then show ?thesis
    using vs_invD(1, 2) [OF assms]
    by (simp add: vs_inv_def RegisterStream_def NextStreamId_def Let_def)
qed

lemma StopStream_loop_Some:
  "StopStream_loop c d m = Some (b, m') \<Longrightarrow>
   \<exists>xs k ys. m = xs @ (k, b) # ys \<and> m' = xs @ ys \<and> owns c d b \<and> (\<forall>p \<in> set xs. \<not> owns c d (snd p))"
proof (induction m arbitrary: m')
  case Nil
  then show ?case by simp
next
  case (Cons p m)
  show ?case
  proof (cases "owns c d (snd p)")
    case True
    with Cons.prems show ?thesis by (cases p) (rule exI [of _ "[]"], auto)
  next
    case False
    with Cons.prems obtain m'' where "StopStream_loop c d m = Some (b, m'')" "m' = p # m''"
      by auto
    with Cons.IH obtain xs k ys where "m = xs @ (k, b) # ys" "m' = (p # xs) @ ys" "owns c d b"
      "\<forall>q \<in> set (p # xs). \<not> owns c d (snd q)"
      using False by fastforce
    then show ?thesis by (metis append_Cons)
  qed
qed

lemma StopStream_loop_None:
  "StopStream_loop c d m = None \<longleftrightarrow> (\<forall>p \<in> set m. \<not> owns c d (snd p))"
  by (induction m) auto

lemma UpdateStreamFormat_loop_Some:
  "UpdateStreamFormat_loop c d f m = Some (b, m') \<Longrightarrow>
   \<exists>xs k b0 ys. m = xs @ (k, b0) # ys \<and> b = f b0 \<and> m' = xs @ (k, b) # ys \<and> owns c d b0 \<and>
     (\<forall>p \<in> set xs. \<not> owns c d (snd p))"
proof (induction m arbitrary: m')
  case Nil
  then show ?case by simp
next
  case (Cons p m)
  show ?case
  proof (cases "owns c d (snd p)")
    case True
    with Cons.prems show ?thesis by (cases p) (rule exI [of _ "[]"], auto)
  next
    case False
    with Cons.prems obtain m'' where "UpdateStreamFormat_loop c d f m = Some (b, m'')" "m' = p # m''"
      by auto
    with Cons.IH obtain xs k b0 ys where "m = xs @ (k, b0) # ys" "b = f b0" "owns c d b0"
      "m' = (p # xs) @ (k, b) # ys" "\<forall>q \<in> set (p # xs). \<not> owns c d (snd q)"
      using False by fastforce
    then show ?thesis by (metis append_Cons)
  qed
qed

lemma UpdateStreamFormat_loop_None:
  "UpdateStreamFormat_loop c d f m = None \<longleftrightarrow> (\<forall>p \<in> set m. \<not> owns c d (snd p))"
  by (induction m) auto

lemma smap_ok_append_drop: "smap_ok (xs @ p # ys) \<Longrightarrow> smap_ok (xs @ ys)"
  by (auto simp: smap_ok_def sorted_wrt_append)

lemma smap_ok_append_change: "smap_ok (xs @ (k, v) # ys) \<Longrightarrow> smap_ok (xs @ (k, w) # ys)"
  by (simp add: smap_ok_def)

lemma smap_erase_split:
  assumes "smap_ok (xs @ (k, v) # ys)"
  shows "xs @ ys = smap_erase k (xs @ (k, v) # ys)"
proof -
  have "filter (\<lambda>p. fst p \<noteq> k) xs = xs" and "filter (\<lambda>p. fst p \<noteq> k) ys = ys"
    using assms by (auto simp: smap_ok_def sorted_wrt_append intro!: filter_True)
  then show ?thesis by (simp add: smap_erase_def)
qed

lemma smap_put_split: "smap_ok (xs @ (k, v) # ys) \<Longrightarrow> xs @ (k, w) # ys = smap_put k w (xs @ (k, v) # ys)"
  by (induction xs) (auto simp: smap_ok_Cons)

text \<open>The two loops as map operations: the entry they act on is the first one, in key order, that
  the connection owns on the device.\<close>

lemma StopStream_erases:
  assumes "vs_inv s" and "StopStream_loop c d (vs_streams s) = Some (b, m)"
  shows "m = smap_erase (sb_stream_id b) (vs_streams s)"
    and "map_of (vs_streams s) (sb_stream_id b) = Some b" and "owns c d b"
proof -
  obtain xs k ys where split: "vs_streams s = xs @ (k, b) # ys" "m = xs @ ys" and "owns c d b"
    using StopStream_loop_Some [OF assms(2)] by blast
  have look: "map_of (vs_streams s) k = Some b"
    using vs_invD(1) [OF assms(1)] split(1) by (intro smap_mem_set [THEN iffD2]) simp_all
  then have id: "sb_stream_id b = k" by (rule vs_inv_lookup_id [OF assms(1)])
  show "map_of (vs_streams s) (sb_stream_id b) = Some b" "owns c d b"
    using look id \<open>owns c d b\<close> by auto
  show "m = smap_erase (sb_stream_id b) (vs_streams s)"
    using smap_erase_split vs_invD(1) [OF assms(1)] split id by simp
qed

lemma vs_inv_erase: "vs_inv s \<Longrightarrow> vs_inv (s\<lparr>vs_streams := smap_erase k (vs_streams s)\<rparr>)"
  by (rule vs_inv_subset) (auto simp: vs_inv_ok smap_erase_def)

lemma vs_inv_Stop: "vs_inv s \<Longrightarrow> vs_inv (snd (StopStream c d s))"
  by (auto simp: StopStream_def split: option.split dest: StopStream_erases(1) intro: vs_inv_erase)

lemma vs_inv_StopById: "vs_inv s \<Longrightarrow> vs_inv (snd (StopStreamById k s))"
  by (auto simp: StopStreamById_def split: option.split intro: vs_inv_erase)

lemma vs_inv_remove: "vs_inv s \<Longrightarrow> vs_inv (snd (remove_streams P s))"
  by (auto simp: remove_streams_def vs_inv_ok intro!: vs_inv_subset)

lemma vs_inv_ClearAll: "vs_inv s \<Longrightarrow> vs_inv (snd (ClearAll s))"
  by (auto simp: ClearAll_def intro!: vs_inv_subset)

lemma vs_inv_Update:
  assumes "vs_inv s"
  shows "vs_inv (snd (UpdateStreamFormat c d p w h f s))"
proof (cases "UpdateStreamFormat_loop c d (set_format p w h f) (vs_streams s)")
  case None
  with assms show ?thesis by (simp add: UpdateStreamFormat_def)
next
  case (Some r)
  obtain b m where r: "r = (b, m)" by (cases r)
  obtain xs k b0 ys where split: "vs_streams s = xs @ (k, b0) # ys" "m = xs @ (k, b) # ys"
    and b: "b = set_format p w h f b0"
    using UpdateStreamFormat_loop_Some Some r by blast
  have "entry_ok (vs_next_stream_id s) (k, b)"
    using vs_invD(3) [OF assms, of "(k, b0)"] split(1) by (simp add: b entry_ok_def set_format_def)
  moreover have "smap_ok m"
    using vs_invD(1) [OF assms] split by (auto intro: smap_ok_append_change)
  ultimately show ?thesis
    using vs_invD [OF assms] split Some r
    by (auto simp: UpdateStreamFormat_def vs_inv_def)
qed

section \<open>The service as a state machine\<close>

datatype video_event =
    EvRegister string string string string int int int
  | EvStop string string
  | EvStopById string
  | EvClearDevice string
  | EvUpdate string string string int int int
  | EvClearConnection string
  | EvClearAll

inductive video_step :: "VideoSessionService \<Rightarrow> video_event \<Rightarrow> VideoSessionService \<Rightarrow> bool" where
  "video_step s (EvRegister c t d p w h f) (snd (RegisterStream c t d p w h f s))"
| "video_step s (EvStop c d) (snd (StopStream c d s))"
| "video_step s (EvStopById k) (snd (StopStreamById k s))"
| "video_step s (EvClearDevice d) (snd (ClearDevice d s))"
| "video_step s (EvUpdate c d p w h f) (snd (UpdateStreamFormat c d p w h f s))"
| "video_step s (EvClearConnection c) (snd (ClearConnection c s))"
| "video_step s EvClearAll (snd (ClearAll s))"

inductive_cases video_stepE: "video_step s e t"

abbreviation video_reach :: "VideoSessionService \<Rightarrow> bool" where
  "video_reach \<equiv> reach (\<lambda>s. s = init_VideoSessionService) video_step"

interpretation video: guarded_machine "\<lambda>s. s = init_VideoSessionService" video_step vs_inv
  by unfold_locales
    (auto elim!: video_stepE simp: ClearDevice_def ClearConnection_def
      intro: vs_inv_init vs_inv_Register vs_inv_Stop vs_inv_StopById vs_inv_remove vs_inv_Update
        vs_inv_ClearAll)

section \<open>What the service promises\<close>

text \<open>A newly registered stream gets an id no live stream has; with the session token it was
  registered under, that id validates to exactly its own binding; and every other stream keeps its
  binding.\<close>

theorem register_then_validate:
  assumes "video_reach s" and "token \<noteq> []"
    and "RegisterStream c token d p w h f s = (r, s')"
  shows "map_of (vs_streams s) (sb_stream_id (st_binding r)) = None \<and>
         Validate token (sb_stream_id (st_binding r)) s' =
           \<lparr> vr_authorized = True, vr_code = ToCode Ok, vr_message = ''ok'', vr_binding = st_binding r \<rparr> \<and>
         owns c d (st_binding r) \<and>
         map_of (vs_streams s') = (map_of (vs_streams s))(sb_stream_id (st_binding r) \<mapsto> st_binding r)"
proof -
  note inv = video.inv_reach [OF assms(1)]
  have "map_of (vs_streams s) (''stream-'' @ dec (vs_next_stream_id s)) = None"
    by (rule vs_inv_fresh [OF inv]) simp
  then show ?thesis
    using assms(2, 3)
    by (auto simp: RegisterStream_def NextStreamId_def Validate_def Let_def owns_def
        default_StreamResult_def)
qed

theorem register_then_validate_witness:
  "vr_authorized (Validate ''ss-1'' ''stream-1''
     (snd (RegisterStream ''c1'' ''ss-1'' ''cam'' ''mjpeg'' 640 480 30 init_VideoSessionService)))"
proof -
  let ?r = "RegisterStream ''c1'' ''ss-1'' ''cam'' ''mjpeg'' 640 480 30 init_VideoSessionService"
  have "video_reach init_VideoSessionService" by (rule reach_init) simp
  from register_then_validate [OF this, of "''ss-1''" "''c1''" "''cam''" "''mjpeg''" 640 480 30 "fst ?r" "snd ?r"]
  have "vr_authorized (Validate ''ss-1'' (sb_stream_id (st_binding (fst ?r))) (snd ?r))" by simp
  moreover have "sb_stream_id (st_binding (fst ?r)) = ''stream-1''"
    by (simp add: RegisterStream_def NextStreamId_def init_VideoSessionService_def Let_def
        default_StreamResult_def dec_1)
  ultimately show ?thesis by simp
qed

text \<open>The video channel is authorised only by possession of a live stream's session token:
  \<open>Validate\<close> says yes exactly when both strings are given and the stream is registered under that
  very token, and otherwise reports which of the three checks failed.\<close>

theorem validate_decision:
  "(vr_authorized (Validate token k s) \<longleftrightarrow>
      (\<exists>b. token \<noteq> [] \<and> k \<noteq> [] \<and> map_of (vs_streams s) k = Some b \<and> sb_session_token b = token)) \<and>
   vr_code (Validate token k s) =
     (if token = [] \<or> k = [] then ToCode AuthRequired
      else case map_of (vs_streams s) k of
             None \<Rightarrow> ToCode StreamNotFound
           | Some b \<Rightarrow> if sb_session_token b = token then ToCode Ok else ToCode SessionTokenInvalid) \<and>
   (vr_authorized (Validate token k s) \<longleftrightarrow> IsOkStatusCode (vr_code (Validate token k s)))"
  by (auto simp: Validate_def default_ValidationResult_def split: option.splits)

lemma remove_streams_find:
  assumes "vs_inv s"
  shows "map_of (vs_streams (snd (remove_streams P s))) k =
         (case map_of (vs_streams s) k of None \<Rightarrow> None | Some b \<Rightarrow> if P b then None else Some b)"
  using map_of_filter_smap [OF vs_inv_ok [OF assms]]
  by (auto simp: remove_streams_def split: option.splits)

text \<open>When a command connection closes, every one of its streams is dropped and reported, none
  survives to be validated later, and the streams of all other connections are untouched.\<close>

theorem clear_connection_exact:
  assumes "video_reach s" and "ClearConnection c s = (removed, s')"
  shows "set removed = {b. \<exists>k. map_of (vs_streams s) k = Some b \<and> sb_connection_id b = c} \<and>
         (\<forall>k. map_of (vs_streams s') k =
            (case map_of (vs_streams s) k of
               None \<Rightarrow> None
             | Some b \<Rightarrow> if sb_connection_id b = c then None else Some b)) \<and>
         length removed + ActiveStreamCount s' = ActiveStreamCount s"
proof -
  note inv = video.inv_reach [OF assms(1)]
  have "(k, b) \<in> set (vs_streams s) \<longleftrightarrow> map_of (vs_streams s) k = Some b" for k b
    using smap_mem_set [OF vs_inv_ok [OF inv]] by simp
  then have "set removed = {b. \<exists>k. map_of (vs_streams s) k = Some b \<and> sb_connection_id b = c}"
    using assms(2) by (force simp: ClearConnection_def remove_streams_def)
  moreover have "length removed + ActiveStreamCount s' = ActiveStreamCount s"
    using assms(2) by (auto simp: ClearConnection_def remove_streams_def ActiveStreamCount_def
        sum_length_filter_compl)
  ultimately show ?thesis
    using remove_streams_find [OF inv] assms(2)
    by (metis ClearConnection_def snd_conv)
qed

theorem clear_connection_exact_witness:
  "\<forall>k. map_of (vs_streams (snd (ClearConnection ''c1''
     (snd (RegisterStream ''c1'' ''ss-1'' ''cam'' ''mjpeg'' 640 480 30 init_VideoSessionService))))) k = None"
proof -
  let ?s = "snd (RegisterStream ''c1'' ''ss-1'' ''cam'' ''mjpeg'' 640 480 30 init_VideoSessionService)"
  have "video_reach ?s"
    by (rule reach_step [OF reach_init]) (auto intro: video_step.intros)
  from clear_connection_exact [OF this, of "''c1''" "fst (ClearConnection ''c1'' ?s)"
      "snd (ClearConnection ''c1'' ?s)"]
  show ?thesis
    by (auto simp: RegisterStream_def NextStreamId_def init_VideoSessionService_def Let_def
        split: option.splits if_splits)
qed

text \<open>\<open>StopStream\<close> closes exactly one stream, one the connection itself owns on the device, and
  leaves every other entry alone; it reports \<open>StreamNotFound\<close>, changing nothing, exactly when the
  connection owns no stream on the device.\<close>

theorem stop_stream_exact:
  assumes "video_reach s" and "StopStream c d s = (r, s')"
  shows "if \<exists>k b. map_of (vs_streams s) k = Some b \<and> owns c d b
         then IsOkStatusCode (st_code r) \<and> owns c d (st_binding r) \<and>
              map_of (vs_streams s) (sb_stream_id (st_binding r)) = Some (st_binding r) \<and>
              map_of (vs_streams s') = (map_of (vs_streams s))(sb_stream_id (st_binding r) := None)
         else st_code r = ToCode StreamNotFound \<and> s' = s"
proof -
  note inv = video.inv_reach [OF assms(1)]
  have mem: "(k, b) \<in> set (vs_streams s) \<longleftrightarrow> map_of (vs_streams s) k = Some b" for k b
    using smap_mem_set [OF vs_inv_ok [OF inv]] by simp
  have none: "StopStream_loop c d (vs_streams s) = None \<longleftrightarrow>
        \<not> (\<exists>k b. map_of (vs_streams s) k = Some b \<and> owns c d b)"
    by (auto simp: StopStream_loop_None Ball_def mem)
  show ?thesis
  proof (cases "StopStream_loop c d (vs_streams s)")
    case None
    with none assms(2) show ?thesis
      by (auto simp: StopStream_def stream_not_found_def)
  next
    case (Some q)
    obtain b m where "q = (b, m)" by (cases q)
    with none Some assms(2) StopStream_erases [OF inv, of c d b m] show ?thesis
      by (auto simp: StopStream_def default_StreamResult_def)
  qed
qed

theorem stop_stream_exact_witness:
  "IsOkStatusCode (st_code (fst (StopStream ''c1'' ''cam''
     (snd (RegisterStream ''c1'' ''ss-1'' ''cam'' ''mjpeg'' 640 480 30 init_VideoSessionService)))))"
proof -
  let ?s = "snd (RegisterStream ''c1'' ''ss-1'' ''cam'' ''mjpeg'' 640 480 30 init_VideoSessionService)"
  have "video_reach ?s"
    by (rule reach_step [OF reach_init]) (auto intro: video_step.intros)
  note claim = stop_stream_exact [OF this, of "''c1''" "''cam''" "fst (StopStream ''c1'' ''cam'' ?s)"
      "snd (StopStream ''c1'' ''cam'' ?s)"]
  have "\<exists>k b. map_of (vs_streams ?s) k = Some b \<and> owns ''c1'' ''cam'' b"
    by (auto simp: RegisterStream_def NextStreamId_def init_VideoSessionService_def Let_def owns_def)
  with claim show ?thesis by simp
qed

section \<open>Refinement of a stream table\<close>

text \<open>The abstract service is a table of streams.  It does not say which id a new stream gets, nor which
  of several streams a connection owns on a device is stopped or changed; a request for a device on
  which the connection owns none changes nothing.\<close>

type_synonym stream_table = "string \<Rightarrow> StreamBinding option"

definition streams_of :: "VideoSessionService \<Rightarrow> stream_table" where
  "streams_of s = map_of (vs_streams s)"

definition drop_streams :: "(StreamBinding \<Rightarrow> bool) \<Rightarrow> stream_table \<Rightarrow> stream_table" where
  "drop_streams P M k = (case M k of None \<Rightarrow> None | Some b \<Rightarrow> if P b then None else Some b)"

definition owns_none :: "string \<Rightarrow> string \<Rightarrow> stream_table \<Rightarrow> bool" where
  "owns_none c d M \<longleftrightarrow> (\<forall>k b. M k = Some b \<longrightarrow> \<not> owns c d b)"

inductive table_step :: "stream_table \<Rightarrow> video_event \<Rightarrow> stream_table \<Rightarrow> bool" where
  "M k = None \<Longrightarrow> table_step M (EvRegister c t d p w h f)
     (M(k \<mapsto> \<lparr> sb_stream_id = k, sb_connection_id = c, sb_session_token = t, sb_device_id = d,
              sb_pixel_format = p, sb_width = w, sb_height = h, sb_fps = f \<rparr>))"
| "M k = Some b \<Longrightarrow> owns c d b \<Longrightarrow> table_step M (EvStop c d) (M(k := None))"
| "owns_none c d M \<Longrightarrow> table_step M (EvStop c d) M"
| "table_step M (EvStopById k) (M(k := None))"
| "table_step M (EvClearDevice d) (drop_streams (\<lambda>b. sb_device_id b = d) M)"
| "M k = Some b \<Longrightarrow> owns c d b \<Longrightarrow> table_step M (EvUpdate c d p w h f) (M(k \<mapsto> set_format p w h f b))"
| "owns_none c d M \<Longrightarrow> table_step M (EvUpdate c d p w h f) M"
| "table_step M (EvClearConnection c) (drop_streams (\<lambda>b. sb_connection_id b = c) M)"
| "table_step M EvClearAll Map.empty"

lemma streams_of_mem: "vs_inv s \<Longrightarrow> (\<forall>p \<in> set (vs_streams s). \<not> owns c d (snd p)) \<Longrightarrow> owns_none c d (streams_of s)"
  unfolding owns_none_def streams_of_def by (metis map_of_SomeD snd_conv)

lemma UpdateStreamFormat_puts:
  assumes "vs_inv s" "UpdateStreamFormat_loop c d f (vs_streams s) = Some (b, m)"
  shows "\<exists>k b0. map_of (vs_streams s) k = Some b0 \<and> owns c d b0 \<and> b = f b0 \<and> m = smap_put k b (vs_streams s)"
proof -
  obtain xs k b0 ys where split: "vs_streams s = xs @ (k, b0) # ys" "m = xs @ (k, b) # ys" "b = f b0" "owns c d b0"
    using UpdateStreamFormat_loop_Some [OF assms(2)] by blast
  have "map_of (vs_streams s) k = Some b0"
    using vs_invD(1) [OF assms(1)] split(1) by (intro smap_mem_set [THEN iffD2]) simp_all
  moreover have "m = smap_put k b (vs_streams s)"
    using smap_put_split [of xs k b0 ys b] vs_invD(1) [OF assms(1)] split by simp
  ultimately show ?thesis using split(3, 4) by blast
qed

lemma refines_register:
  assumes "vs_inv s"
  shows "table_step (streams_of s) (EvRegister c t d p w h f) (streams_of (snd (RegisterStream c t d p w h f s)))"
proof -
  have "streams_of s (''stream-'' @ dec (vs_next_stream_id s)) = None"
    using vs_inv_fresh [OF assms, of "vs_next_stream_id s"] by (simp add: streams_of_def)
  from table_step.intros(1) [of "streams_of s", OF this, of c t d p w h f] show ?thesis
    by (simp add: streams_of_def RegisterStream_def NextStreamId_def Let_def)
qed

lemma refines_stop: "vs_inv s \<Longrightarrow> table_step (streams_of s) (EvStop c d) (streams_of (snd (StopStream c d s)))"
proof (cases "StopStream_loop c d (vs_streams s)")
  case None
  assume "vs_inv s"
  with None have "owns_none c d (streams_of s)" by (simp add: streams_of_mem StopStream_loop_None)
  with None show ?thesis by (simp add: StopStream_def table_step.intros(3))
next
  case (Some q)
  moreover assume "vs_inv s"
  ultimately show ?thesis
    using StopStream_erases [of s c d] table_step.intros(2) [of "streams_of s" _ _ c d]
    by (cases q) (auto simp: StopStream_def streams_of_def)
qed

lemma refines_update:
  "vs_inv s \<Longrightarrow> table_step (streams_of s) (EvUpdate c d p w h f) (streams_of (snd (UpdateStreamFormat c d p w h f s)))"
proof (cases "UpdateStreamFormat_loop c d (set_format p w h f) (vs_streams s)")
  case None
  assume "vs_inv s"
  with None have "owns_none c d (streams_of s)" by (simp add: streams_of_mem UpdateStreamFormat_loop_None)
  with None show ?thesis by (simp add: UpdateStreamFormat_def table_step.intros(7))
next
  case (Some q)
  then have loop: "UpdateStreamFormat_loop c d (set_format p w h f) (vs_streams s) = Some (fst q, snd q)" by simp
  assume "vs_inv s"
  from UpdateStreamFormat_puts [OF this loop] obtain k b0 where "map_of (vs_streams s) k = Some b0" "owns c d b0" "fst q = set_format p w h f b0"
    "snd q = smap_put k (fst q) (vs_streams s)" by auto
  with Some table_step.intros(6) [of "streams_of s" k b0 c d p w h f] show ?thesis
    by (cases q) (simp add: UpdateStreamFormat_def streams_of_def)
qed

lemma refines_remove:
  "vs_inv s \<Longrightarrow> streams_of (snd (remove_streams P s)) = drop_streams P (streams_of s)"
  using remove_streams_find [of s P] by (auto simp: streams_of_def drop_streams_def fun_eq_iff split: option.splits)

text \<open>C38. The video session service refines the stream table: the initial service is the empty table, and
  in every reachable state each operation of the service, with its id generator and its loops over the
  ordered map, is a step of the table.\<close>

theorem video_refines_stream_table:
  "streams_of init_VideoSessionService = Map.empty \<and>
   (video_reach s \<longrightarrow> video_step s e s' \<longrightarrow> table_step (streams_of s) e (streams_of s'))"
proof (intro conjI impI)
  show "streams_of init_VideoSessionService = Map.empty"
    by (simp add: streams_of_def init_VideoSessionService_def)
  assume "video_reach s" and step: "video_step s e s'"
  then have inv: "vs_inv s" by (intro video.inv_reach)
  from step show "table_step (streams_of s) e (streams_of s')"
  proof cases
    case (3 k)
    have "streams_of (snd (StopStreamById k s)) = (streams_of s)(k := None)"
      by (auto simp: StopStreamById_def streams_of_def fun_eq_iff split: option.split)
    with 3 show ?thesis using table_step.intros(4) [of "streams_of s" k] by simp
  next
    case 7
    then show ?thesis using table_step.intros(9) [of "streams_of s"] by (simp add: ClearAll_def streams_of_def)
  qed (use inv in \<open>auto simp: ClearDevice_def ClearConnection_def refines_remove
      intro: refines_register refines_stop refines_update table_step.intros\<close>)
qed

theorem video_refines_stream_table_witness:
  "table_step (streams_of init_VideoSessionService) (EvRegister ''c1'' ''ss-1'' ''cam'' ''mjpeg'' 640 480 30)
     (streams_of (snd (RegisterStream ''c1'' ''ss-1'' ''cam'' ''mjpeg'' 640 480 30 init_VideoSessionService)))"
proof -
  have "video_reach init_VideoSessionService" by (rule reach_init) simp
  then show ?thesis
    using video_refines_stream_table [of init_VideoSessionService] video_step.intros(1) by blast
qed

end
