(* ===== verification/Tls_Journal.thy ===== *)
theory Tls_Journal
  imports Sdk_Prelude "HOL-Library.Sublist"
begin

text \<open>
  The pure part of the TLS file transaction (\<open>runtime/sdk_tls_file_transaction.h\<close>): which file
  names a transaction accepts, the hexadecimal encoding of names, the text of the journal and its
  parser, and the check that binds the journal to the caller's list of files.

  The parser reads the text with \<open>operator>>\<close> of an input stream: white space is skipped, a word
  extends to the next white space, a number is an optional sign and its longest run of digits, and
  the extraction fails when there is no digit or the value does not fit the target type.

  The main lemma is the round trip: every journal the transaction writes is read back exactly.
\<close>

section \<open>Names\<close>

definition IsDirectName :: "string \<Rightarrow> bool" where
  "IsDirectName name \<longleftrightarrow>
     name \<noteq> [] \<and> name \<noteq> ''.'' \<and> name \<noteq> ''..'' \<and> CHR ''/'' \<notin> set name"

definition NormalizeName :: "string \<Rightarrow> string \<Rightarrow> string option" where
  "NormalizeName tls_dir path =
     (if IsDirectName path then Some path
      else let prefix = tls_dir @ ''/'' in
        if \<not> starts_with prefix path then None
        else let relative = drop (length prefix) path in
          if \<not> IsDirectName relative then None else Some relative)"

lemma NormalizeName_direct: "NormalizeName tls_dir path = Some name \<Longrightarrow> IsDirectName name"
  by (auto simp: NormalizeName_def Let_def split: if_splits)

lemma NormalizeName_dir_slash:
  "IsDirectName name \<Longrightarrow> NormalizeName tls_dir (tls_dir @ ''/'' @ name) = Some name"
  by (simp add: NormalizeName_def Let_def IsDirectName_def starts_with_def)

section \<open>Hexadecimal names\<close>

definition hex_digit :: "nat \<Rightarrow> char" where
  "hex_digit n = ''0123456789abcdef'' ! n"

definition HexEncode :: "string \<Rightarrow> string" where
  "HexEncode value = concat (map (\<lambda>c. [hex_digit (of_char c div 16), hex_digit (of_char c mod 16)]) value)"

definition HexDigit :: "char \<Rightarrow> int" where
  "HexDigit c =
     (let v = int (of_char c) in
      if 48 \<le> v \<and> v \<le> 57 then v - 48
      else if 97 \<le> v \<and> v \<le> 102 then v - 97 + 10
      else if 65 \<le> v \<and> v \<le> 70 then v - 65 + 10
      else -1)"

text \<open>The source refuses an odd length before the loop; the loop itself stops at a bad digit.\<close>

fun HexDecode_loop :: "string \<Rightarrow> string option" where
  "HexDecode_loop (h # l # rest) =
     (if HexDigit h < 0 \<or> HexDigit l < 0 then None
      else map_option (\<lambda>v. char_of (nat (HexDigit h * 16 + HexDigit l)) # v) (HexDecode_loop rest))"
| "HexDecode_loop _ = Some []"

definition HexDecode :: "string \<Rightarrow> string option" where
  "HexDecode encoded = (if length encoded mod 2 \<noteq> 0 then None else HexDecode_loop encoded)"

lemma below_16: "list_all P [0..<16] \<Longrightarrow> n < 16 \<Longrightarrow> P n"
  by (simp add: list_all_iff)

lemma HexDigit_hex_digit: "n < 16 \<Longrightarrow> HexDigit (hex_digit n) = int n"
  by (rule below_16 [where P = "\<lambda>n. HexDigit (hex_digit n) = int n"]) code_simp

definition word_char :: "char \<Rightarrow> bool" where
  "word_char c \<longleftrightarrow> (of_char c :: nat) \<notin> {9, 10, 11, 12, 13, 32}"

lemma word_char_hex_digit: "n < 16 \<Longrightarrow> word_char (hex_digit n)"
  by (rule below_16 [where P = "\<lambda>n. word_char (hex_digit n)"]) code_simp

lemma of_char_bound: "(of_char c :: nat) div 16 < 16"
  by (rule less_mult_imp_div_less) simp

lemma HexDecode_loop_Encode: "HexDecode_loop (HexEncode s) = Some s"
proof (induction s)
  case Nil
  then show ?case by (simp add: HexEncode_def)
next
  case (Cons c s)
  have "of_char c div 16 < (16 :: nat)" "of_char c mod 16 < (16 :: nat)"
    using of_char_bound [of c] by simp_all
  moreover have "int (of_char c div 16) * 16 + int (of_char c mod 16) = int (of_char c)"
    by (metis div_mult_mod_eq of_nat_add of_nat_mult of_nat_numeral)
  ultimately show ?case
    using Cons by (simp add: HexEncode_def HexDigit_hex_digit)
qed

lemma length_HexEncode: "length (HexEncode s) = 2 * length s"
  by (induction s) (simp_all add: HexEncode_def)

lemma HexDecode_Encode [simp]: "HexDecode (HexEncode s) = Some s"
  by (simp add: HexDecode_def length_HexEncode HexDecode_loop_Encode)

lemma word_char_HexEncode: "\<forall>c \<in> set (HexEncode s). word_char c"
  using of_char_bound by (auto simp: HexEncode_def intro!: word_char_hex_digit)

lemma HexEncode_Nil: "HexEncode s = [] \<longleftrightarrow> s = []"
  using length_HexEncode [of s] by auto

section \<open>Reading from the journal stream\<close>

definition skip_ws :: "string \<Rightarrow> string" where
  "skip_ws s = dropWhile (\<lambda>c. \<not> word_char c) s"

definition read_word :: "string \<Rightarrow> (string \<times> string) option" where
  "read_word s =
     (let s = skip_ws s; w = takeWhile word_char s
      in if w = [] then None else Some (w, dropWhile word_char s))"

definition is_digit :: "char \<Rightarrow> bool" where
  "is_digit c \<longleftrightarrow> 48 \<le> (of_char c :: nat) \<and> (of_char c :: nat) \<le> 57"

text \<open>Sign, digits and rest of the next number.\<close>

definition read_number :: "string \<Rightarrow> (bool \<times> nat \<times> string) option" where
  "read_number s =
     (let s = skip_ws s;
          neg = (s \<noteq> [] \<and> hd s = CHR ''-'');
          s = (if s \<noteq> [] \<and> (hd s = CHR ''-'' \<or> hd s = CHR ''+'') then tl s else s);
          ds = takeWhile is_digit s
      in if ds = [] then None else Some (neg, undec ds, dropWhile is_digit s))"

definition read_int32 :: "string \<Rightarrow> (int \<times> string) option" where
  "read_int32 s =
     (case read_number s of
        None \<Rightarrow> None
      | Some (neg, n, rest) \<Rightarrow>
          (let v = (if neg then - int n else int n)
           in if - (2 ^ 31) \<le> v \<and> v < 2 ^ 31 then Some (v, rest) else None))"

definition read_size_t :: "string \<Rightarrow> (nat \<times> string) option" where
  "read_size_t s =
     (case read_number s of
        None \<Rightarrow> None
      | Some (neg, n, rest) \<Rightarrow>
          (if n < 2 ^ 64 then Some (if neg then (2 ^ 64 - n) mod 2 ^ 64 else n, rest) else None))"

section \<open>The journal\<close>

record JournalEntry =
  je_name :: string
  je_existed :: bool
  je_mode :: int

definition newline :: string where
  "newline = [CHR 0x0A]"

definition journal_magic :: string where
  "journal_magic = ''CZUR_TLS_TRANSACTION_V1''"

definition entry_line :: "JournalEntry \<Rightarrow> string" where
  "entry_line e = HexEncode (je_name e) @ '' '' @ dec (if je_existed e then 1 else 0) @ '' '' @
     to_string (je_mode e) @ newline"

definition JournalContents :: "string \<Rightarrow> JournalEntry list \<Rightarrow> string" where
  "JournalContents state entries =
     journal_magic @ newline @ state @ newline @ dec (length entries) @ newline @
     concat (map entry_line entries)"

fun ParseEntries :: "nat \<Rightarrow> string \<Rightarrow> (JournalEntry list \<times> string) option" where
  "ParseEntries 0 s = Some ([], s)"
| "ParseEntries (Suc count) s =
     (case read_word s of None \<Rightarrow> None | Some (encoded, s) \<Rightarrow>
      case read_int32 s of None \<Rightarrow> None | Some (existed, s) \<Rightarrow>
      case read_int32 s of None \<Rightarrow> None | Some (mode, s) \<Rightarrow>
      case HexDecode encoded of None \<Rightarrow> None | Some name \<Rightarrow>
        if \<not> IsDirectName name \<or> (existed \<noteq> 0 \<and> existed \<noteq> 1) \<or> mode < 0 \<or> 511 < mode then None
        else map_option (\<lambda>(es, rest).
               (\<lparr>je_name = name, je_existed = (existed \<noteq> 0), je_mode = mode\<rparr> # es, rest))
             (ParseEntries count s))"

definition ParseJournal :: "string \<Rightarrow> (string \<times> JournalEntry list) option" where
  "ParseJournal contents =
     (case read_word contents of None \<Rightarrow> None | Some (magic, s) \<Rightarrow>
      case read_word s of None \<Rightarrow> None | Some (state, s) \<Rightarrow>
      case read_size_t s of None \<Rightarrow> None | Some (count, s) \<Rightarrow>
        if magic \<noteq> journal_magic \<or>
           (state \<noteq> ''PENDING'' \<and> state \<noteq> ''COMPLETE'' \<and> state \<noteq> ''ROLLED_BACK'') \<or> 1024 < count
        then None
        else case ParseEntries count s of None \<Rightarrow> None | Some (entries, s) \<Rightarrow>
          if read_word s \<noteq> None then None else Some (state, entries))"

section \<open>The path binding\<close>

fun allowed_names :: "string \<Rightarrow> string list \<Rightarrow> string list \<Rightarrow> string list option" where
  "allowed_names tls_dir [] allowed = Some allowed"
| "allowed_names tls_dir (p # paths) allowed =
     (case NormalizeName tls_dir p of
        None \<Rightarrow> None
      | Some name \<Rightarrow> if name \<in> set allowed then None
                     else allowed_names tls_dir paths (allowed @ [name]))"

text \<open>The second loop of the source advances one index through the allowed names: each journal
  entry must be found at or after the position the previous one left.\<close>

fun bind_entries :: "string list \<Rightarrow> string list \<Rightarrow> bool" where
  "bind_entries allowed [] = True"
| "bind_entries allowed (name # names) =
     (case dropWhile (\<lambda>a. a \<noteq> name) allowed of
        [] \<Rightarrow> False
      | a # rest \<Rightarrow> bind_entries rest names)"

definition ValidatePathBinding :: "string \<Rightarrow> string list \<Rightarrow> JournalEntry list \<Rightarrow> bool" where
  "ValidatePathBinding tls_dir paths entries =
     (case allowed_names tls_dir paths [] of
        None \<Rightarrow> False
      | Some allowed \<Rightarrow> bind_entries allowed (map je_name entries))"

section \<open>The journal round trip\<close>

lemma dropWhile_stop: "(\<forall>c \<in> set xs. P c) \<Longrightarrow> ys = [] \<or> \<not> P (hd ys) \<Longrightarrow> dropWhile P (xs @ ys) = ys"
  by (induction xs) (cases ys; auto)+

lemma takeWhile_stop: "(\<forall>c \<in> set xs. P c) \<Longrightarrow> ys = [] \<or> \<not> P (hd ys) \<Longrightarrow> takeWhile P (xs @ ys) = xs"
  by (induction xs) (cases ys; auto)+

lemma read_word_app:
  assumes "\<forall>c \<in> set sp. \<not> word_char c" and "\<forall>c \<in> set w. word_char c" and "w \<noteq> []"
    and "rest = [] \<or> \<not> word_char (hd rest)"
  shows "read_word (sp @ w @ rest) = Some (w, rest)"
proof -
  have "skip_ws (sp @ w @ rest) = w @ rest"
    unfolding skip_ws_def using assms(1-3) by (intro dropWhile_stop) (cases w; auto)+
  moreover have "takeWhile word_char (w @ rest) = w" "dropWhile word_char (w @ rest) = rest"
    by (rule takeWhile_stop dropWhile_stop, fact assms, fact assms)+
  ultimately show ?thesis
    using assms(3) by (simp only: read_word_def Let_def if_False)
qed

lemma digit_word_char: "is_digit c \<Longrightarrow> word_char c"
  by (auto simp: is_digit_def word_char_def)

lemma dec_digits: "\<forall>c \<in> set (dec n). is_digit c"
  using is_digit_dec [of n] by (auto simp: is_digit_def)

lemma read_number_app:
  assumes "\<forall>c \<in> set sp. \<not> word_char c" and "rest = [] \<or> \<not> is_digit (hd rest)"
  shows "read_number (sp @ dec n @ rest) = Some (False, n, rest)"
proof -
  obtain c ds where d: "dec n = c # ds" by (cases "dec n") auto
  have "is_digit c" using dec_digits [of n] d by simp
  then have sign: "c \<noteq> CHR ''-''" "c \<noteq> CHR ''+''" by (auto simp: is_digit_def)
  have "skip_ws (sp @ dec n @ rest) = dec n @ rest"
    unfolding skip_ws_def using assms(1) d \<open>is_digit c\<close>
    by (intro dropWhile_stop) (auto simp: digit_word_char)
  moreover have "takeWhile is_digit (dec n @ rest) = dec n" "dropWhile is_digit (dec n @ rest) = rest"
    by (rule takeWhile_stop dropWhile_stop, fact dec_digits, fact assms(2))+
  moreover have "hd (dec n @ rest) = c" "dec n @ rest \<noteq> []" "dec n \<noteq> []" using d by simp_all
  ultimately show ?thesis
    using sign by (simp only: read_number_def Let_def if_False simp_thms undec_dec)
qed

lemma space_not_word: "\<not> word_char CHR '' ''" "\<not> word_char CHR 0x0A" "\<not> is_digit CHR '' ''" "\<not> is_digit CHR 0x0A"
  by (simp_all add: word_char_def is_digit_def)

definition entry_valid :: "JournalEntry \<Rightarrow> bool" where
  "entry_valid e \<longleftrightarrow> IsDirectName (je_name e) \<and> 0 \<le> je_mode e \<and> je_mode e \<le> 511"

lemma read_entry_line:
  assumes "entry_valid e" and "\<forall>c \<in> set sp. \<not> word_char c"
  shows "\<exists>s1 s2. read_word (sp @ entry_line e @ rest) = Some (HexEncode (je_name e), s1) \<and>
           read_int32 s1 = Some (if je_existed e then 1 else 0, s2) \<and>
           read_int32 s2 = Some (je_mode e, newline @ rest)"
proof -
  let ?x = "dec (if je_existed e then 1 else 0)" and ?m = "dec (nat (je_mode e))"
  let ?s2 = "'' '' @ ?m @ newline @ rest" and ?s1 = "'' '' @ ?x @ '' '' @ ?m @ newline @ rest"
  have m: "to_string (je_mode e) = ?m" using assms(1) by (simp add: to_string_def entry_valid_def)
  have "HexEncode (je_name e) \<noteq> []" using assms(1) by (simp add: entry_valid_def IsDirectName_def HexEncode_Nil)
  then have 1: "read_word (sp @ HexEncode (je_name e) @ ?s1) = Some (HexEncode (je_name e), ?s1)"
    using assms(2) word_char_HexEncode by (intro read_word_app) (auto simp: space_not_word)
  have 2: "read_number ?s1 = Some (False, if je_existed e then 1 else 0, ?s2)"
    by (rule read_number_app) (auto simp: space_not_word)
  have 3: "read_number ?s2 = Some (False, nat (je_mode e), newline @ rest)"
    by (rule read_number_app) (auto simp: space_not_word newline_def)
  from 1 2 3 show ?thesis
    using assms(1) by (auto simp: entry_line_def m read_int32_def Let_def entry_valid_def)
qed

lemma ParseEntries_lines:
  assumes "\<forall>e \<in> set es. entry_valid e"
  shows "ParseEntries (length es) (newline @ concat (map entry_line es)) = Some (es, newline)"
  using assms
proof (induction es)
  case Nil
  then show ?case by simp
next
  case (Cons e es)
  have "\<forall>c \<in> set newline. \<not> word_char c" by (simp add: newline_def space_not_word)
  with Cons.prems obtain s1 s2 where
    "read_word (newline @ entry_line e @ concat (map entry_line es)) = Some (HexEncode (je_name e), s1)"
    "read_int32 s1 = Some (if je_existed e then 1 else 0, s2)"
    "read_int32 s2 = Some (je_mode e, newline @ concat (map entry_line es))"
    using read_entry_line [of e newline "concat (map entry_line es)"] by auto
  then show ?case
    using Cons by (auto simp: entry_valid_def)
qed

lemma ParseJournal_Contents:
  assumes "state \<in> {''PENDING'', ''COMPLETE'', ''ROLLED_BACK''}" and "length entries \<le> 1024"
    and "\<forall>e \<in> set entries. entry_valid e"
  shows "ParseJournal (JournalContents state entries) = Some (state, entries)"
proof -
  let ?c = "newline @ concat (map entry_line entries)"
  let ?b = "newline @ dec (length entries) @ ?c" and ?a = "newline @ state @ newline @ dec (length entries) @ ?c"
  have state: "\<forall>c \<in> set state. word_char c" "state \<noteq> []"
    using assms(1) by (auto simp: word_char_def)
  have magic: "\<forall>c \<in> set journal_magic. word_char c" "journal_magic \<noteq> []"
    by (simp_all add: journal_magic_def word_char_def)
  have nl: "\<forall>c \<in> set newline. \<not> word_char c" "\<not> word_char (hd (newline @ t))" "\<not> is_digit (hd (newline @ t))" for t
    by (simp_all add: newline_def space_not_word)
  have 1: "read_word (JournalContents state entries) = Some (journal_magic, ?a)"
    using read_word_app [of "[]" journal_magic ?a] magic nl(2) by (simp add: JournalContents_def)
  have 2: "read_word ?a = Some (state, ?b)"
    using read_word_app [of newline state ?b] state nl by simp
  have 3: "read_number ?b = Some (False, length entries, ?c)"
    using read_number_app [of newline ?c "length entries"] nl by simp
  have 4: "read_word newline = None"
    by (simp add: read_word_def skip_ws_def newline_def space_not_word)
  show ?thesis
    using 1 2 3 4 assms(1, 2) ParseEntries_lines [OF assms(3)]
    by (auto simp: ParseJournal_def read_size_t_def)
qed

text \<open>C17. Every journal a transaction can write is read back exactly: for each of the three states
  and any list of at most 1024 entries with direct names and permission bits as modes, parsing the
  written text returns the state and the entries, in order.\<close>

theorem journal_roundtrip:
  assumes "state \<in> {''PENDING'', ''COMPLETE'', ''ROLLED_BACK''}" and "length entries \<le> 1024"
    and "\<forall>e \<in> set entries. entry_valid e"
  shows "ParseJournal (JournalContents state entries) = Some (state, entries)"
  using assms by (rule ParseJournal_Contents)

theorem journal_roundtrip_witness:
  "ParseJournal (JournalContents ''PENDING''
     [\<lparr>je_name = ''server.key'', je_existed = True, je_mode = 384\<rparr>,
      \<lparr>je_name = ''server.crt'', je_existed = False, je_mode = 420\<rparr>]) =
   Some (''PENDING'', [\<lparr>je_name = ''server.key'', je_existed = True, je_mode = 384\<rparr>,
      \<lparr>je_name = ''server.crt'', je_existed = False, je_mode = 420\<rparr>])"
  by (rule journal_roundtrip) (simp_all add: entry_valid_def IsDirectName_def)

section \<open>The binding is the subsequence relation\<close>

lemma bind_entries_subseq: "bind_entries allowed names \<longleftrightarrow> subseq names allowed"
proof (induction allowed names rule: bind_entries.induct)
  case (1 allowed)
  then show ?case by simp
next
  case (2 allowed name names)
  show ?case
  proof (cases "dropWhile (\<lambda>a. a \<noteq> name) allowed")
    case Nil
    then have "name \<notin> set allowed" by (auto simp: dropWhile_eq_Nil_conv)
    then have "\<not> subseq (name # names) allowed"
      by (auto simp: list_emb_ConsD dest!: list_emb_ConsD)
    with Nil show ?thesis by (simp only: bind_entries.simps list.case simp_thms)
  next
    case (Cons a rest)
    then have a: "a = name" by (metis (mono_tags) hd_dropWhile list.distinct(1) list.sel(1))
    obtain xs where xs: "allowed = xs @ name # rest" "name \<notin> set xs"
      using Cons a by (metis (mono_tags, lifting) set_takeWhileD takeWhile_dropWhile_id)
    have "subseq (name # names) allowed \<longleftrightarrow> subseq names rest"
      using xs by (induction xs arbitrary: allowed) auto
    with 2 Cons a show ?thesis by simp
  qed
qed

lemma allowed_names_map:
  "allowed_names dir paths acc = Some allowed \<longleftrightarrow>
   (\<exists>names. map (NormalizeName dir) paths = map Some names \<and> allowed = acc @ names \<and>
      distinct names \<and> set names \<inter> set acc = {})"
proof (induction paths arbitrary: acc)
  case Nil
  then show ?case by auto
next
  case (Cons p paths)
  show ?case
  proof (cases "NormalizeName dir p")
    case None
    then show ?thesis by (auto simp: map_eq_Cons_conv Cons_eq_map_conv)
  next
    case (Some name)
    have "(\<exists>names. map (NormalizeName dir) (p # paths) = map Some names \<and> allowed = acc @ names \<and>
        distinct names \<and> set names \<inter> set acc = {}) \<longleftrightarrow>
      name \<notin> set acc \<and> (\<exists>names. map (NormalizeName dir) paths = map Some names \<and>
        allowed = (acc @ [name]) @ names \<and> distinct names \<and> set names \<inter> set (acc @ [name]) = {})"
      (is "?L \<longleftrightarrow> ?R")
    proof
      assume ?L
      then obtain ns where "map (NormalizeName dir) (p # paths) = map Some ns" "allowed = acc @ ns"
        "distinct ns" "set ns \<inter> set acc = {}" by blast
      then show ?R using Some by (cases ns) auto
    next
      assume ?R
      then obtain ns where "name \<notin> set acc" "map (NormalizeName dir) paths = map Some ns"
        "allowed = (acc @ [name]) @ ns" "distinct ns" "set ns \<inter> set (acc @ [name]) = {}" by blast
      then show ?L using Some by (intro exI [of _ "name # ns"]) auto
    qed
    with Some Cons [of "acc @ [name]"] show ?thesis by simp
  qed
qed

lemma ValidatePathBinding_iff:
  "ValidatePathBinding dir paths entries \<longleftrightarrow>
   (\<exists>allowed. map (NormalizeName dir) paths = map Some allowed \<and> distinct allowed \<and>
      subseq (map je_name entries) allowed)"
  using allowed_names_map [of dir paths "[]"]
  by (auto simp: ValidatePathBinding_def bind_entries_subseq split: option.splits)

end
