(* ===== verification/Tls_Fs.thy ===== *)
theory Tls_Fs
  imports Tls_Journal "HOL-Library.State_Monad" "HOL-Library.Monad_Syntax"
begin

unbundle bit_operations_syntax

text \<open>
  The file system the TLS transaction works on, and a predicate transformer for programs over it.

  \<^item> The TLS directory is a sorted map from names to nodes: regular files with contents and
    permission bits, symbolic links, and directories.  The transaction directory
    \<open>.tls-update\<close> is an entry of it.  Other kinds of nodes (devices, FIFOs) are not modelled.
  \<^item> A system call is one step of \<open>syscall\<close>.  The world holds a schedule, one item per call: the
    call takes effect (\<open>Go\<close>, also when the schedule is used up), fails without effect
    (\<open>Fail\<close>), the process dies before it (\<open>Crash\<close>), a \<open>read\<close> or \<open>write\<close> moves fewer bytes
    than asked (\<open>Short n\<close>) or is interrupted (\<open>Intr\<close>, \<open>EINTR\<close>).  After a crash no call has an
    effect.  So a theorem over all schedules covers a failure or a kill at every system call.
    The disk survives a crash as the last call left it: loss of unsynced data in a power
    failure is not modelled; \<open>fsync\<close> is a call that can fail.
  \<^item> File descriptors: \<open>openat\<close> for reading gives the node itself; a file created with
    \<open>O_EXCL\<close> is addressed by its directory and name until it is closed.  \<open>close\<close> of a descriptor
    the code ignores the result of is not a step.
  \<^item> No other process writes to the directory during a run.

  The transformer \<open>wp f Q C n v\<close>: started with at most \<open>n\<close> faults left in the schedule on a disk
  seen as \<open>v\<close>, the program \<open>f\<close> ends with \<open>Q\<close> of its result, the faults left and the disk, or it
  crashes with \<open>C\<close> of the disk.
\<close>

section \<open>Nodes, disks and schedules\<close>

datatype node = Reg string nat | Link | Dir "(string \<times> node) list"

datatype outcome = Go | Fail | Crash | Short nat | Intr

datatype dirfd = TlsDir | TxnDir

record disk =
  d_real :: bool \<comment> \<open>the path of the TLS directory is a real directory\<close>
  d_umask :: nat
  d_tls :: "(string, node) smap"

record world =
  w_disk :: disk
  w_sched :: "outcome list"
  w_crashed :: bool

definition txn_name :: string where
  "txn_name = ''.tls-update''"

fun dir_entries :: "dirfd \<Rightarrow> disk \<Rightarrow> (string, node) smap option" where
  "dir_entries TlsDir d = Some (d_tls d)"
| "dir_entries TxnDir d =
     (case map_of (d_tls d) txn_name of Some (Dir m) \<Rightarrow> Some m | _ \<Rightarrow> None)"

fun set_dir :: "dirfd \<Rightarrow> (string, node) smap \<Rightarrow> disk \<Rightarrow> disk" where
  "set_dir TlsDir m d = d\<lparr>d_tls := m\<rparr>"
| "set_dir TxnDir m d = d\<lparr>d_tls := smap_put txn_name (Dir m) (d_tls d)\<rparr>"

definition node_at :: "dirfd \<Rightarrow> string \<Rightarrow> disk \<Rightarrow> node option" where
  "node_at fd name d = (case dir_entries fd d of None \<Rightarrow> None | Some m \<Rightarrow> map_of m name)"

definition put_at :: "dirfd \<Rightarrow> string \<Rightarrow> node \<Rightarrow> disk \<Rightarrow> disk" where
  "put_at fd name x d =
     (case dir_entries fd d of None \<Rightarrow> d | Some m \<Rightarrow> set_dir fd (smap_put name x m) d)"

definition erase_at :: "dirfd \<Rightarrow> string \<Rightarrow> disk \<Rightarrow> disk" where
  "erase_at fd name d =
     (case dir_entries fd d of None \<Rightarrow> d | Some m \<Rightarrow> set_dir fd (smap_erase name m) d)"

section \<open>System calls\<close>

definition syscall :: "'a \<Rightarrow> (disk \<Rightarrow> 'a \<times> disk) \<Rightarrow> (world, 'a) state" where
  "syscall err act = State (\<lambda>w.
     if w_crashed w then (err, w)
     else case w_sched w of
       [] \<Rightarrow> (let (r, d) = act (w_disk w) in (r, w\<lparr>w_disk := d\<rparr>))
     | Crash # s \<Rightarrow> (err, w\<lparr>w_sched := s, w_crashed := True\<rparr>)
     | Fail # s \<Rightarrow> (err, w\<lparr>w_sched := s\<rparr>)
     | _ # s \<Rightarrow> (let (r, d) = act (w_disk w) in (r, w\<lparr>w_disk := d, w_sched := s\<rparr>)))"

datatype stat_result = Found node | Missing | StatError

definition fstatat :: "dirfd \<Rightarrow> string \<Rightarrow> (world, stat_result) state" where
  "fstatat fd name = syscall StatError (\<lambda>d.
     (case node_at fd name d of None \<Rightarrow> Missing | Some x \<Rightarrow> Found x, d))"

definition fsync :: "(world, bool) state" where
  "fsync = syscall False (\<lambda>d. (True, d))"

definition close_fd :: "(world, bool) state" where
  "close_fd = syscall False (\<lambda>d. (True, d))"

text \<open>\<open>openat\<close> with \<open>O_RDONLY | O_NOFOLLOW\<close>: a missing name and a link are errors.\<close>

definition open_read :: "dirfd \<Rightarrow> string \<Rightarrow> (world, node option) state" where
  "open_read fd name = syscall None (\<lambda>d.
     (case node_at fd name d of Some Link \<Rightarrow> None | x \<Rightarrow> x, d))"

text \<open>\<open>openat\<close> with \<open>O_CREAT | O_EXCL\<close>: the new file has the mode less the umask.\<close>

definition create_excl :: "dirfd \<Rightarrow> string \<Rightarrow> nat \<Rightarrow> (world, bool) state" where
  "create_excl fd name mode = syscall False (\<lambda>d.
     if node_at fd name d = None \<and> dir_entries fd d \<noteq> None
     then (True, put_at fd name (Reg [] (mode - (mode AND d_umask d))) d) else (False, d))"

definition fchmod :: "dirfd \<Rightarrow> string \<Rightarrow> nat \<Rightarrow> (world, bool) state" where
  "fchmod fd name mode = syscall False (\<lambda>d.
     case node_at fd name d of
       Some (Reg c m) \<Rightarrow> (True, put_at fd name (Reg c mode) d)
     | _ \<Rightarrow> (False, d))"

text \<open>\<open>unlinkat\<close> without flags removes anything but a directory.\<close>

definition unlinkat :: "dirfd \<Rightarrow> string \<Rightarrow> (world, bool) state" where
  "unlinkat fd name = syscall False (\<lambda>d.
     case node_at fd name d of
       None \<Rightarrow> (False, d) | Some (Dir m) \<Rightarrow> (False, d) | _ \<Rightarrow> (True, erase_at fd name d))"

text \<open>\<open>renameat\<close> of a file: it replaces anything but a directory.\<close>

definition renameat :: "dirfd \<Rightarrow> string \<Rightarrow> dirfd \<Rightarrow> string \<Rightarrow> (world, bool) state" where
  "renameat from source to target = syscall False (\<lambda>d.
     case node_at from source d of
       None \<Rightarrow> (False, d)
     | Some (Dir m) \<Rightarrow> (False, d)
     | Some x \<Rightarrow> (case node_at to target d of
                   Some (Dir m) \<Rightarrow> (False, d)
                 | _ \<Rightarrow> (True, put_at to target x (erase_at from source d))))"

definition mkdir_txn :: "(world, bool) state" where
  "mkdir_txn = syscall False (\<lambda>d.
     if node_at TlsDir txn_name d = None then (True, put_at TlsDir txn_name (Dir []) d)
     else (False, d))"

definition rmdir_txn :: "(world, bool) state" where
  "rmdir_txn = syscall False (\<lambda>d.
     if node_at TlsDir txn_name d = Some (Dir []) then (True, erase_at TlsDir txn_name d)
     else (False, d))"

definition open_txn :: "(world, bool) state" where
  "open_txn = syscall False (\<lambda>d.
     (case node_at TlsDir txn_name d of Some (Dir m) \<Rightarrow> True | _ \<Rightarrow> False, d))"

section \<open>Reading and writing whole files\<close>

definition append_at :: "dirfd \<Rightarrow> string \<Rightarrow> string \<Rightarrow> world \<Rightarrow> world" where
  "append_at fd name bytes w =
     (case node_at fd name (w_disk w) of
        Some (Reg c m) \<Rightarrow> w\<lparr>w_disk := put_at fd name (Reg (c @ bytes) m) (w_disk w)\<rparr>
      | _ \<Rightarrow> w)"

lemma append_at_simps [simp]:
  "w_sched (append_at fd name bytes w) = w_sched w"
  "w_crashed (append_at fd name bytes w) = w_crashed w"
  by (simp_all add: append_at_def split: option.splits node.splits)

text \<open>The loop of \<open>WriteAll\<close>: \<open>rest\<close> is the text from \<open>offset\<close> on.\<close>

function WriteAll_loop :: "dirfd \<Rightarrow> string \<Rightarrow> string \<Rightarrow> world \<Rightarrow> bool \<times> world" where
  "WriteAll_loop fd name rest w =
     (if rest = [] then (True, w)
      else if w_crashed w then (False, w)
      else case w_sched w of
        [] \<Rightarrow> (True, append_at fd name rest w)
      | Go # s \<Rightarrow> (True, append_at fd name rest (w\<lparr>w_sched := s\<rparr>))
      | Fail # s \<Rightarrow> (False, w\<lparr>w_sched := s\<rparr>)
      | Crash # s \<Rightarrow> (False, w\<lparr>w_sched := s, w_crashed := True\<rparr>)
      | Intr # s \<Rightarrow> WriteAll_loop fd name rest (w\<lparr>w_sched := s\<rparr>)
      | Short n # s \<Rightarrow>
          (if n = 0 then (False, w\<lparr>w_sched := s\<rparr>)
           else WriteAll_loop fd name (drop n rest)
                  (append_at fd name (take n rest) (w\<lparr>w_sched := s\<rparr>))))"
  by pat_completeness auto

termination
  by (relation "measure (\<lambda>(fd, name, rest, w). length (w_sched w))") auto

declare WriteAll_loop.simps [simp del]

definition WriteAll :: "dirfd \<Rightarrow> string \<Rightarrow> string \<Rightarrow> (world, bool) state" where
  "WriteAll fd name contents = State (WriteAll_loop fd name contents)"

text \<open>The loop of \<open>ReadAll\<close> over the bytes not read yet, 8192 at a time; a \<open>read\<close> returns 0 only
  at the end of the file.\<close>

function ReadAll_loop :: "string \<Rightarrow> string \<Rightarrow> world \<Rightarrow> string option \<times> world" where
  "ReadAll_loop rest contents w =
     (if w_crashed w then (None, w)
      else case w_sched w of
        [] \<Rightarrow> (if rest = [] then (Some contents, w)
               else ReadAll_loop (drop 8192 rest) (contents @ take 8192 rest) w)
      | Fail # s \<Rightarrow> (None, w\<lparr>w_sched := s\<rparr>)
      | Crash # s \<Rightarrow> (None, w\<lparr>w_sched := s, w_crashed := True\<rparr>)
      | Intr # s \<Rightarrow> ReadAll_loop rest contents (w\<lparr>w_sched := s\<rparr>)
      | x # s \<Rightarrow>
          (let k = (case x of Short n \<Rightarrow> min 8192 (max 1 n) | _ \<Rightarrow> 8192)
           in if rest = [] then (Some contents, w\<lparr>w_sched := s\<rparr>)
              else ReadAll_loop (drop k rest) (contents @ take k rest) (w\<lparr>w_sched := s\<rparr>)))"
  by pat_completeness auto

termination
  by (relation "measure (\<lambda>(rest, contents, w). length rest + length (w_sched w))") auto

declare ReadAll_loop.simps [simp del]

definition ReadAll :: "string \<Rightarrow> (world, string option) state" where
  "ReadAll bytes = State (ReadAll_loop bytes [])"

section \<open>The disk as the proofs see it\<close>

text \<open>A view: the files of the TLS directory, without the transaction directory, and the transaction
  directory.\<close>

datatype txn_view = NoTxn | BadTxn | Txn "string \<Rightarrow> node option"

type_synonym view = "(string \<Rightarrow> node option) \<times> txn_view"

definition view :: "disk \<Rightarrow> view" where
  "view d =
     ((map_of (d_tls d))(txn_name := None),
      case map_of (d_tls d) txn_name of
        None \<Rightarrow> NoTxn | Some (Dir m) \<Rightarrow> Txn (map_of m) | _ \<Rightarrow> BadTxn)"

fun vlook :: "view \<Rightarrow> dirfd \<Rightarrow> string \<Rightarrow> node option" where
  "vlook (t, x) TlsDir k = t k"
| "vlook (t, Txn m) TxnDir k = m k"
| "vlook (t, _) TxnDir k = None"

fun vput :: "dirfd \<Rightarrow> string \<Rightarrow> node option \<Rightarrow> view \<Rightarrow> view" where
  "vput TlsDir k y (t, x) = (t(k := y), x)"
| "vput TxnDir k y (t, Txn m) = (t, Txn (m(k := y)))"
| "vput TxnDir k y (t, x) = (t, x)"

definition vopen :: "dirfd \<Rightarrow> view \<Rightarrow> bool" where
  "vopen fd v \<longleftrightarrow> fd = TlsDir \<or> (\<exists>m. snd v = Txn m)"

definition name_ok :: "dirfd \<Rightarrow> string \<Rightarrow> bool" where
  "name_ok fd k \<longleftrightarrow> fd = TxnDir \<or> k \<noteq> txn_name"

lemma name_ok_simps [simp]: "name_ok TxnDir k" "name_ok TlsDir k \<longleftrightarrow> k \<noteq> txn_name"
  by (simp_all add: name_ok_def)

lemma vopen_simps [simp]: "vopen TlsDir v" "vopen TxnDir (t, Txn m)"
  by (simp_all add: vopen_def)

lemma node_at_view: "name_ok fd k \<Longrightarrow> node_at fd k d = vlook (view d) fd k"
  by (cases fd) (auto simp: node_at_def view_def split: option.splits node.splits)

lemma put_at_view: "name_ok fd k \<Longrightarrow> view (put_at fd k x d) = vput fd k (Some x) (view d)"
  by (cases fd) (auto simp: put_at_def view_def fun_upd_twist split: option.splits node.splits)

lemma erase_at_view: "name_ok fd k \<Longrightarrow> view (erase_at fd k d) = vput fd k None (view d)"
  by (cases fd) (auto simp: erase_at_def view_def fun_upd_twist split: option.splits node.splits)

lemma dir_entries_view: "dir_entries fd d = None \<longleftrightarrow> \<not> vopen fd (view d)"
  by (cases fd) (auto simp: vopen_def view_def split: option.splits node.splits)

lemma d_real_at [simp]:
  "d_real (put_at fd k x d) = d_real d" "d_real (erase_at fd k d) = d_real d"
  by (cases fd; simp add: put_at_def erase_at_def split: option.splits node.splits)+

lemma vlook_put [simp]: "vopen fd v \<Longrightarrow> vlook (vput fd k y v) fd k = y"
  by (cases "(fd, k, y, v)" rule: vput.cases) (auto simp: vopen_def)

lemma vlook_put_other: "\<not> (fd = fd' \<and> k = k') \<Longrightarrow> vlook (vput fd k y v) fd' k' = vlook v fd' k'"
  by (cases v; cases "snd v"; cases fd; cases fd') auto

lemma vopen_put [simp]: "vopen fd' (vput fd k y v) = vopen fd' v"
  by (cases "(fd, k, y, v)" rule: vput.cases) (auto simp: vopen_def)

lemma vput_twice [simp]: "vput fd k y (vput fd k z v) = vput fd k y v"
  by (cases "(fd, k, y, v)" rule: vput.cases) auto

lemma vput_same: "vlook v fd k = y \<Longrightarrow> vput fd k y v = v"
  by (cases "(fd, k, y, v)" rule: vput.cases) auto

section \<open>The predicate transformer\<close>

definition bad :: "outcome \<Rightarrow> bool" where
  "bad x \<longleftrightarrow> x = Fail \<or> x = Crash \<or> x = Short 0"

definition faults :: "outcome list \<Rightarrow> nat" where
  "faults s = length (filter bad s)"

lemma faults_simps [simp]:
  "faults [] = 0" "faults (Go # s) = faults s" "faults (Intr # s) = faults s"
  "faults (Fail # s) = Suc (faults s)" "faults (Crash # s) = Suc (faults s)"
  "faults (Short 0 # s) = Suc (faults s)" "0 < n \<Longrightarrow> faults (Short n # s) = faults s"
  by (auto simp: faults_def bad_def)

definition stable :: "(world, 'a) state \<Rightarrow> bool" where
  "stable f \<longleftrightarrow> (\<forall>w. w_crashed w \<longrightarrow> snd (run_state f w) = w)"

definition wp :: "(world, 'a) state \<Rightarrow> ('a \<Rightarrow> nat \<Rightarrow> view \<Rightarrow> bool) \<Rightarrow> (view \<Rightarrow> bool) \<Rightarrow> nat \<Rightarrow> view \<Rightarrow> bool" where
  "wp f Q C n v \<longleftrightarrow>
     (\<forall>w r w'. \<not> w_crashed w \<and> d_real (w_disk w) \<and> faults (w_sched w) \<le> n \<and> view (w_disk w) = v \<and>
        run_state f w = (r, w') \<longrightarrow>
        d_real (w_disk w') \<and>
        (if w_crashed w' then C (view (w_disk w'))
         else \<exists>m. faults (w_sched w') \<le> m \<and> Q r m (view (w_disk w'))))"

lemma stable_return [simp, intro]: "stable (State_Monad.return x)"
  by (simp add: stable_def)

lemma stable_bind [simp, intro]: "stable f \<Longrightarrow> (\<And>r. stable (g r)) \<Longrightarrow> stable (f \<bind> g)"
  by (auto simp: stable_def split: prod.splits)

lemma stable_syscall [simp, intro]: "stable (syscall err act)"
  by (simp add: stable_def syscall_def)

lemma stable_WriteAll [simp, intro]: "stable (WriteAll fd name c)"
  by (simp add: stable_def WriteAll_def WriteAll_loop.simps)

lemma stable_ReadAll [simp, intro]: "stable (ReadAll c)"
  by (simp add: stable_def ReadAll_def ReadAll_loop.simps)

lemma wpD:
  assumes "wp f Q C n v" and "\<not> w_crashed w" "d_real (w_disk w)" "faults (w_sched w) \<le> n"
    "view (w_disk w) = v" and "run_state f w = (r, w')"
  shows "d_real (w_disk w')"
    and "w_crashed w' \<Longrightarrow> C (view (w_disk w'))"
    and "\<not> w_crashed w' \<Longrightarrow> \<exists>m. faults (w_sched w') \<le> m \<and> Q r m (view (w_disk w'))"
  using assms unfolding wp_def by (metis (no_types))+

lemma wp_return [intro!]: "Q x n v \<Longrightarrow> wp (State_Monad.return x) Q C n v"
  by (auto simp: wp_def)

lemma wp_bind:
  assumes "wp f (\<lambda>r. wp (g r) Q C) C n v" and "\<And>r. stable (g r)"
  shows "wp (f \<bind> g) Q C n v"
  unfolding wp_def
proof (intro allI impI, elim conjE)
  fix w r w'
  assume w: "\<not> w_crashed w" "d_real (w_disk w)" "faults (w_sched w) \<le> n" "view (w_disk w) = v"
    and run: "run_state (f \<bind> g) w = (r, w')"
  obtain r1 w1 where 1: "run_state f w = (r1, w1)" by fastforce
  with run have 2: "run_state (g r1) w1 = (r, w')" by simp
  note 3 = wpD [OF assms(1) w 1]
  show "d_real (w_disk w') \<and> (if w_crashed w' then C (view (w_disk w'))
      else \<exists>m. faults (w_sched w') \<le> m \<and> Q r m (view (w_disk w')))"
  proof (cases "w_crashed w1")
    case True
    with assms(2) [of r1] 2 have "w' = w1" by (auto simp: stable_def)
    with True 3 show ?thesis by simp
  next
    case False
    with 3 obtain m where "faults (w_sched w1) \<le> m" "wp (g r1) Q C m (view (w_disk w1))" by blast
    from wpD [OF this(2) False 3(1) this(1) refl 2] show ?thesis by simp
  qed
qed

lemma wp_conseq:
  assumes "wp f Q C n v" and "\<And>r m u. Q r m u \<Longrightarrow> Q' r m u" and "\<And>u. C u \<Longrightarrow> C' u"
  shows "wp f Q' C' n v"
  using assms unfolding wp_def by metis

text \<open>A system call: its effect with the faults unchanged and, while faults are left, its failure
  and the crash.\<close>

lemma wp_syscall:
  assumes "\<And>d. d_real d \<Longrightarrow> view d = v \<Longrightarrow> d_real (snd (act d)) \<and> Q (fst (act d)) n (view (snd (act d)))"
    and "0 < n \<Longrightarrow> Q err (n - 1) v" and "0 < n \<Longrightarrow> C v"
  shows "wp (syscall err act) Q C n v"
  unfolding wp_def
proof (intro allI impI, elim conjE)
  fix w r w'
  assume w: "\<not> w_crashed w" "d_real (w_disk w)" "faults (w_sched w) \<le> n" "view (w_disk w) = v"
    and run: "run_state (syscall err act) w = (r, w')"
  have act: "d_real (snd (act (w_disk w)))" "Q (fst (act (w_disk w))) n (view (snd (act (w_disk w))))"
    using assms(1) [OF w(2,4)] by auto
  show "d_real (w_disk w') \<and> (if w_crashed w' then C (view (w_disk w'))
      else \<exists>m. faults (w_sched w') \<le> m \<and> Q r m (view (w_disk w')))"
  proof (cases "w_sched w")
    case Nil
    with w run act show ?thesis
      by (auto simp: syscall_def split: prod.splits)
  next
    case (Cons x s)
    consider "x = Fail \<or> x = Crash" | "x \<noteq> Fail" "x \<noteq> Crash" by blast
    then show ?thesis
    proof cases
      case 1
      with w Cons have n: "0 < n" "faults s \<le> n - 1" by auto
      with 1 w run Cons assms(2,3) show ?thesis
        by (auto simp: syscall_def intro!: exI [of _ "n - 1"])
    next
      case 2
      have "faults s \<le> n" using w Cons by (auto simp: faults_def split: if_splits)
      moreover have "r = fst (act (w_disk w))"
        "w' = w\<lparr>w_disk := snd (act (w_disk w)), w_sched := s\<rparr>"
        using 2 w run Cons by (auto simp: syscall_def Let_def split: outcome.splits prod.splits)
      ultimately show ?thesis using w act by auto
    qed
  qed
qed

section \<open>Rules of the calls\<close>

lemma wp_fstatat:
  assumes "name_ok fd k" and "Q (case vlook v fd k of None \<Rightarrow> Missing | Some x \<Rightarrow> Found x) n v"
    and "0 < n \<Longrightarrow> Q StatError (n - 1) v" and "0 < n \<Longrightarrow> C v"
  shows "wp (fstatat fd k) Q C n v"
  unfolding fstatat_def using assms by (intro wp_syscall) (auto simp: node_at_view split: option.splits)

lemma wp_fsync:
  assumes "Q True n v" and "0 < n \<Longrightarrow> Q False (n - 1) v" and "0 < n \<Longrightarrow> C v"
  shows "wp fsync Q C n v" "wp close_fd Q C n v"
  unfolding fsync_def close_fd_def using assms by (intro wp_syscall; simp)+

lemma wp_open_read:
  assumes "name_ok fd k" and "Q (case vlook v fd k of Some Link \<Rightarrow> None | x \<Rightarrow> x) n v"
    and "0 < n \<Longrightarrow> Q None (n - 1) v" and "0 < n \<Longrightarrow> C v"
  shows "wp (open_read fd k) Q C n v"
  unfolding open_read_def using assms
  by (intro wp_syscall) (auto simp: node_at_view split: option.splits node.splits)

lemma wp_create_excl:
  assumes "name_ok fd k" and "\<And>m. vlook v fd k = None \<Longrightarrow> vopen fd v \<Longrightarrow> Q True n (vput fd k (Some (Reg [] m)) v)"
    and "vlook v fd k \<noteq> None \<or> \<not> vopen fd v \<Longrightarrow> Q False n v"
    and "0 < n \<Longrightarrow> Q False (n - 1) v" and "0 < n \<Longrightarrow> C v"
  shows "wp (create_excl fd k mode) Q C n v"
  unfolding create_excl_def using assms
  by (intro wp_syscall) (auto simp: node_at_view put_at_view dir_entries_view)

lemma wp_fchmod:
  assumes "name_ok fd k" and "vlook v fd k = Some (Reg c m)" and "Q True n (vput fd k (Some (Reg c mode)) v)"
    and "0 < n \<Longrightarrow> Q False (n - 1) v" and "0 < n \<Longrightarrow> C v"
  shows "wp (fchmod fd k mode) Q C n v"
  unfolding fchmod_def using assms by (intro wp_syscall) (auto simp: node_at_view put_at_view)

definition removable :: "node option \<Rightarrow> bool" where
  "removable x \<longleftrightarrow> (case x of None \<Rightarrow> False | Some (Dir m) \<Rightarrow> False | _ \<Rightarrow> True)"

lemma removable_simps [simp]:
  "\<not> removable None" "\<not> removable (Some (Dir e))" "removable (Some Link)" "removable (Some (Reg c m))"
  by (simp_all add: removable_def)

lemma wp_unlinkat:
  assumes "name_ok fd k" and "removable (vlook v fd k) \<Longrightarrow> Q True n (vput fd k None v)"
    and "\<not> removable (vlook v fd k) \<Longrightarrow> Q False n v"
    and "0 < n \<Longrightarrow> Q False (n - 1) v" and "0 < n \<Longrightarrow> C v"
  shows "wp (unlinkat fd k) Q C n v"
  unfolding unlinkat_def using assms
  by (intro wp_syscall) (auto simp: node_at_view erase_at_view removable_def split: option.splits node.splits)

lemma wp_renameat:
  assumes "name_ok fd k" "name_ok fd' k'" and "vlook v fd k = Some (Reg c m)"
    and "\<And>e. vlook v fd' k' \<noteq> Some (Dir e)" and "fd \<noteq> fd' \<or> k \<noteq> k'"
    and "Q True n (vput fd' k' (Some (Reg c m)) (vput fd k None v))"
    and "0 < n \<Longrightarrow> Q False (n - 1) v" and "0 < n \<Longrightarrow> C v"
  shows "wp (renameat fd k fd' k') Q C n v"
  unfolding renameat_def using assms
  by (intro wp_syscall)
    (auto simp: node_at_view erase_at_view put_at_view split: option.splits node.splits)

lemma view_txn_cases:
  "snd (view d) = NoTxn \<longleftrightarrow> node_at TlsDir txn_name d = None"
  "snd (view d) = Txn m \<longleftrightarrow> (\<exists>e. node_at TlsDir txn_name d = Some (Dir e) \<and> m = map_of e)"
  by (auto simp: view_def node_at_def split: option.splits node.splits)

lemma wp_mkdir_txn:
  assumes "Q True n (t, Txn (\<lambda>_. None))" and "0 < n \<Longrightarrow> Q False (n - 1) (t, NoTxn)" and "0 < n \<Longrightarrow> C (t, NoTxn)"
  shows "wp mkdir_txn Q C n (t, NoTxn)"
  unfolding mkdir_txn_def
proof (rule wp_syscall)
  fix d assume d: "d_real d" "view d = (t, NoTxn)"
  then have "node_at TlsDir txn_name d = None" using view_txn_cases(1) [of d] by simp
  moreover have "view (put_at TlsDir txn_name (Dir []) d) = (t, Txn (\<lambda>_. None))"
    using d by (auto simp: view_def put_at_def)
  ultimately show "d_real (snd (if node_at TlsDir txn_name d = None then (True, put_at TlsDir txn_name (Dir []) d) else (False, d))) \<and>
     Q (fst (if node_at TlsDir txn_name d = None then (True, put_at TlsDir txn_name (Dir []) d) else (False, d))) n
      (view (snd (if node_at TlsDir txn_name d = None then (True, put_at TlsDir txn_name (Dir []) d) else (False, d))))"
    using d assms(1) by simp
qed (use assms in auto)

lemma map_of_empty: "map_of m = (\<lambda>_. None) \<longleftrightarrow> m = []"
  by (metis map_of_eq_empty_iff)

lemma wp_rmdir_txn:
  assumes "m = (\<lambda>_. None) \<Longrightarrow> Q True n (t, NoTxn)" and "m \<noteq> (\<lambda>_. None) \<Longrightarrow> Q False n (t, Txn m)"
    and "0 < n \<Longrightarrow> Q False (n - 1) (t, Txn m)" and "0 < n \<Longrightarrow> C (t, Txn m)"
  shows "wp rmdir_txn Q C n (t, Txn m)"
  unfolding rmdir_txn_def
proof (rule wp_syscall)
  fix d assume d: "d_real d" "view d = (t, Txn m)"
  then obtain e where e: "node_at TlsDir txn_name d = Some (Dir e)" "m = map_of e"
    using view_txn_cases(2) [of d m] by auto
  have "view (erase_at TlsDir txn_name d) = (t, NoTxn)"
    using d by (auto simp: view_def erase_at_def)
  with d e assms(1,2) show "d_real (snd (if node_at TlsDir txn_name d = Some (Dir []) then (True, erase_at TlsDir txn_name d) else (False, d))) \<and>
     Q (fst (if node_at TlsDir txn_name d = Some (Dir []) then (True, erase_at TlsDir txn_name d) else (False, d))) n
      (view (snd (if node_at TlsDir txn_name d = Some (Dir []) then (True, erase_at TlsDir txn_name d) else (False, d))))"
    by (auto simp: map_of_empty)
qed (use assms in auto)

lemma wp_open_txn:
  assumes "Q (\<exists>m. snd v = Txn m) n v" and "0 < n \<Longrightarrow> Q False (n - 1) v" and "0 < n \<Longrightarrow> C v"
  shows "wp open_txn Q C n v"
  unfolding open_txn_def
proof (rule wp_syscall)
  fix d assume d: "d_real d" "view d = v"
  then have "(case node_at TlsDir txn_name d of Some (Dir m) \<Rightarrow> True | _ \<Rightarrow> False) = (\<exists>m. snd v = Txn m)"
    using view_txn_cases(2) [of d] by (auto split: option.splits node.splits)
  with d assms(1) show "d_real (snd (case node_at TlsDir txn_name d of Some (Dir m) \<Rightarrow> True | _ \<Rightarrow> False, d)) \<and>
    Q (fst (case node_at TlsDir txn_name d of Some (Dir m) \<Rightarrow> True | _ \<Rightarrow> False, d)) n
     (view (snd (case node_at TlsDir txn_name d of Some (Dir m) \<Rightarrow> True | _ \<Rightarrow> False, d)))"
    by simp
qed (use assms in auto)

section \<open>Whole-file reading and writing\<close>

lemma append_at_view:
  assumes "name_ok fd k" and "vlook (view (w_disk w)) fd k = Some (Reg c m)"
  shows "view (w_disk (append_at fd k bytes w)) = vput fd k (Some (Reg (c @ bytes) m)) (view (w_disk w))"
    and "d_real (w_disk (append_at fd k bytes w)) = d_real (w_disk w)"
  using assms by (simp_all add: append_at_def node_at_view put_at_view)

lemma WriteAll_loop_effect:
  assumes "WriteAll_loop fd k rest w = (r, w')" and "\<not> w_crashed w" and "name_ok fd k" and "vopen fd (view (w_disk w))"
    and "vlook (view (w_disk w)) fd k = Some (Reg c m)" and "faults (w_sched w) \<le> n"
  shows "\<exists>c'. view (w_disk w') = vput fd k (Some (Reg c' m)) (view (w_disk w)) \<and>
     d_real (w_disk w') = d_real (w_disk w) \<and>
     (if w_crashed w' then 0 < n
      else if r then c' = c @ rest \<and> faults (w_sched w') \<le> n
      else 0 < n \<and> faults (w_sched w') \<le> n - 1)"
  using assms
proof (induction fd k rest w arbitrary: c rule: WriteAll_loop.induct)
  case (1 fd k rest w)
  note loop = WriteAll_loop.simps [of fd k rest w]
  note app = append_at_view [OF \<open>name_ok fd k\<close>]
  show ?case
  proof (cases "rest = []")
    case True
    with 1 loop show ?thesis by (auto simp: vput_same intro!: exI [of _ c])
  next
    case False
    show ?thesis
    proof (cases "w_sched w")
      case Nil
      with 1 loop False app [of w c m rest] show ?thesis by auto
    next
      case (Cons x s)
      let ?w = "w\<lparr>w_sched := s\<rparr>"
      show ?thesis
      proof (cases x)
        case Go
        with Cons 1 loop False app [of ?w c m rest] show ?thesis by auto
      next
        case Fail
        with Cons 1 loop False show ?thesis by (auto simp: vput_same intro!: exI [of _ c])
      next
        case Crash
        with Cons 1 loop False show ?thesis by (auto simp: vput_same intro!: exI [of _ c])
      next
        case Intr
        with Cons 1(3-) loop False show ?thesis
          using 1(2) [OF False \<open>\<not> w_crashed w\<close> Cons Intr, of c] by simp
      next
        case (Short i)
        show ?thesis
        proof (cases i)
          case 0
          with Short Cons 1 loop False show ?thesis by (auto simp: vput_same intro!: exI [of _ c])
        next
          case (Suc j)
          let ?v = "append_at fd k (take i rest) ?w"
          have eq: "WriteAll_loop fd k rest w = WriteAll_loop fd k (drop i rest) ?v"
            using loop False 1 Cons Short Suc by simp
          have v: "view (w_disk ?v) = vput fd k (Some (Reg (c @ take i rest) m)) (view (w_disk w))"
            using app [of ?w c m "take i rest"] 1 by simp
          have real: "d_real (w_disk ?v) = d_real (w_disk w)"
            using app [of ?w c m "take i rest"] 1 by simp
          have "\<exists>c'. view (w_disk w') = vput fd k (Some (Reg c' m)) (view (w_disk ?v)) \<and>
             d_real (w_disk w') = d_real (w_disk ?v) \<and>
             (if w_crashed w' then 0 < n
              else if r then c' = (c @ take i rest) @ drop i rest \<and> faults (w_sched w') \<le> n
              else 0 < n \<and> faults (w_sched w') \<le> n - 1)"
            using 1(3-) Cons Short Suc v eq
            by (intro 1(1) [OF False \<open>\<not> w_crashed w\<close> Cons Short]) (auto simp: faults_def bad_def)
          then show ?thesis unfolding v real vput_twice append_assoc append_take_drop_id .
        qed
      qed
    qed
  qed
qed

lemma wp_WriteAll:
  assumes "name_ok fd k" "vopen fd v" "vlook v fd k = Some (Reg c m)"
    and "Q True n (vput fd k (Some (Reg (c @ rest) m)) v)"
    and "\<And>c'. 0 < n \<Longrightarrow> Q False (n - 1) (vput fd k (Some (Reg c' m)) v)"
    and "\<And>c'. 0 < n \<Longrightarrow> C (vput fd k (Some (Reg c' m)) v)"
  shows "wp (WriteAll fd k rest) Q C n v"
  unfolding wp_def
proof (intro allI impI, elim conjE)
  fix w r w'
  assume w: "\<not> w_crashed w" "d_real (w_disk w)" "faults (w_sched w) \<le> n" "view (w_disk w) = v"
    and run: "run_state (WriteAll fd k rest) w = (r, w')"
  from run have "WriteAll_loop fd k rest w = (r, w')" by (simp add: WriteAll_def)
  from WriteAll_loop_effect [OF this w(1) assms(1), of c m n] assms(2,3) w obtain c' where
    "view (w_disk w') = vput fd k (Some (Reg c' m)) v" "d_real (w_disk w')"
    "if w_crashed w' then 0 < n else if r then c' = c @ rest \<and> faults (w_sched w') \<le> n
     else 0 < n \<and> faults (w_sched w') \<le> n - 1" by auto
  with assms(4-6) show "d_real (w_disk w') \<and> (if w_crashed w' then C (view (w_disk w'))
      else \<exists>m. faults (w_sched w') \<le> m \<and> Q r m (view (w_disk w')))"
    by (cases r) (auto split: if_splits)
qed

lemma ReadAll_loop_effect:
  assumes "ReadAll_loop rest contents w = (r, w')" and "\<not> w_crashed w" and "faults (w_sched w) \<le> n"
  shows "w_disk w' = w_disk w \<and>
     (if w_crashed w' then 0 < n
      else case r of Some c \<Rightarrow> c = contents @ rest \<and> faults (w_sched w') \<le> n
           | None \<Rightarrow> 0 < n \<and> faults (w_sched w') \<le> n - 1)"
  using assms
proof (induction rest contents w rule: ReadAll_loop.induct)
  case (1 rest contents w)
  note loop = ReadAll_loop.simps [of rest contents w]
  show ?case
  proof (cases "w_sched w")
    case Nil
    then show ?thesis
    proof (cases "rest = []")
      case False
      have "ReadAll_loop (drop 8192 rest) (contents @ take 8192 rest) w = (r, w')"
        using loop 1(5,6) Nil False by simp
      from 1(1) [OF \<open>\<not> w_crashed w\<close> Nil False this \<open>\<not> w_crashed w\<close> 1(7)]
      show ?thesis unfolding append_assoc append_take_drop_id .
    qed (use 1 loop in auto)
  next
    case (Cons x s)
    show ?thesis
    proof (cases "bad x \<and> (\<forall>i. x \<noteq> Short i) \<or> x = Intr \<or> rest = []")
      case True
      show ?thesis
      proof (cases "x = Intr")
        case True
        then have "ReadAll_loop rest contents (w\<lparr>w_sched := s\<rparr>) = (r, w')" "faults s \<le> n"
          using loop 1(5-7) Cons by auto
        with 1(1-4) 1(6) Cons True show ?thesis by simp
      next
        case False
        with \<open>bad x \<and> (\<forall>i. x \<noteq> Short i) \<or> x = Intr \<or> rest = []\<close> 1(5-7) loop Cons
        show ?thesis by (cases x) (auto simp: faults_def bad_def split: if_splits)
      qed
    next
      case False
      then have "rest \<noteq> []" by simp
      define k where "k = (case x of Short n \<Rightarrow> min 8192 (max 1 n) | _ \<Rightarrow> (8192 :: nat))"
      have s: "faults s \<le> n" using 1 Cons by (auto simp: faults_def split: if_splits)
      have eq: "ReadAll_loop (drop k rest) (contents @ take k rest) (w\<lparr>w_sched := s\<rparr>) = (r, w')"
        using False loop 1(5,6) Cons by (cases x) (auto simp: bad_def k_def Let_def)
      have "w_disk w' = w_disk (w\<lparr>w_sched := s\<rparr>) \<and>
         (if w_crashed w' then 0 < n
          else case r of Some c \<Rightarrow> c = (contents @ take k rest) @ drop k rest \<and> faults (w_sched w') \<le> n
               | None \<Rightarrow> 0 < n \<and> faults (w_sched w') \<le> n - 1)"
        using False 1(2-6) Cons s eq by (cases x) (auto simp: bad_def k_def)
      then show ?thesis unfolding append_assoc append_take_drop_id by simp
    qed
  qed
qed

lemma wp_ReadAll:
  assumes "Q (Some c) n v" and "0 < n \<Longrightarrow> Q None (n - 1) v" and "0 < n \<Longrightarrow> C v"
  shows "wp (ReadAll c) Q C n v"
  unfolding wp_def
proof (intro allI impI, elim conjE)
  fix w r w'
  assume w: "\<not> w_crashed w" "d_real (w_disk w)" "faults (w_sched w) \<le> n" "view (w_disk w) = v"
    and run: "run_state (ReadAll c) w = (r, w')"
  from run have "ReadAll_loop c [] w = (r, w')" by (simp add: ReadAll_def)
  from ReadAll_loop_effect [OF this w(1,3)] w assms
  show "d_real (w_disk w') \<and> (if w_crashed w' then C (view (w_disk w'))
      else \<exists>m. faults (w_sched w') \<le> m \<and> Q r m (view (w_disk w')))"
    by (cases r) (auto split: if_splits)
qed

end
