(* ===== verification/Tls_Transaction.thy ===== *)
theory Tls_Transaction
  imports Tls_Fs
begin

text \<open>
  The TLS file transaction (\<open>runtime/sdk_tls_file_transaction.h\<close>): every function that touches the
  disk, statement by statement, as a program over the world of \<open>Tls_Fs\<close>.

  A result is the \<open>bool\<close> the source returns; error texts are not modelled.  The two fault-injection
  functions are those of a production build, which return false.  An index \<open>i\<close> of a loop names the
  files \<open>new.i\<close>, \<open>old.i\<close> and \<open>restore.i\<close> of the transaction directory.
\<close>

section \<open>Files\<close>

record TlsTransactionFile =
  tf_path :: string
  tf_contents :: string
  tf_mode :: int

definition new_name :: "nat \<Rightarrow> string" where "new_name i = ''new.'' @ dec i"
definition old_name :: "nat \<Rightarrow> string" where "old_name i = ''old.'' @ dec i"
definition restore_name :: "nat \<Rightarrow> string" where "restore_name i = ''restore.'' @ dec i"
definition journal_name :: string where "journal_name = ''journal''"
definition next_name :: string where "next_name = ''journal.next''"

definition OpenDirectoryNoFollow :: "(world, bool) state" where
  "OpenDirectoryNoFollow = do {
     real \<leftarrow> syscall False (\<lambda>d. (d_real d, d));
     if \<not> real then State_Monad.return False
     else syscall False (\<lambda>d. (d_real d, d)) }"

text \<open>The result of \<open>EnsureRegularOrMissing\<close>: success, existence and permission bits.\<close>

definition EnsureRegularOrMissing :: "dirfd \<Rightarrow> string \<Rightarrow> (world, bool \<times> bool \<times> nat) state" where
  "EnsureRegularOrMissing fd name = do {
     r \<leftarrow> fstatat fd name;
     State_Monad.return (case r of
       Found (Reg c m) \<Rightarrow> (True, True, m)
     | Found _ \<Rightarrow> (False, True, 0)
     | Missing \<Rightarrow> (True, False, 0)
     | StatError \<Rightarrow> (False, False, 0)) }"

definition fstat_open :: "(world, bool) state" where
  "fstat_open = syscall False (\<lambda>d. (True, d))"

text \<open>The common end of \<open>CopyFileAt\<close> and \<open>WriteFileAt\<close>.\<close>

definition finish_file :: "dirfd \<Rightarrow> string \<Rightarrow> nat \<Rightarrow> bool \<Rightarrow> (world, bool) state" where
  "finish_file fd name mode ok = do {
     ok \<leftarrow> (if ok then fchmod fd name mode else State_Monad.return False);
     ok \<leftarrow> (if ok then fsync else State_Monad.return False);
     closed \<leftarrow> close_fd;
     if ok \<and> closed then State_Monad.return True
     else do { _ \<leftarrow> unlinkat fd name; State_Monad.return False } }"

definition CopyFileAt :: "dirfd \<Rightarrow> string \<Rightarrow> dirfd \<Rightarrow> string \<Rightarrow> nat \<Rightarrow> (world, bool) state" where
  "CopyFileAt source_dir source destination_dir destination mode = do {
     source_fd \<leftarrow> open_read source_dir source;
     case source_fd of
       None \<Rightarrow> State_Monad.return False
     | Some inode \<Rightarrow> do {
         info \<leftarrow> fstat_open;
         case inode of
           Reg bytes _ \<Rightarrow>
             (if \<not> info then State_Monad.return False
              else do {
                created \<leftarrow> create_excl destination_dir destination mode;
                if \<not> created then State_Monad.return False
                else do {
                  contents \<leftarrow> ReadAll bytes;
                  ok \<leftarrow> (case contents of
                            None \<Rightarrow> State_Monad.return False
                          | Some c \<Rightarrow> WriteAll destination_dir destination c);
                  finish_file destination_dir destination mode ok } })
         | _ \<Rightarrow> State_Monad.return False } }"

definition WriteFileAt :: "dirfd \<Rightarrow> string \<Rightarrow> string \<Rightarrow> nat \<Rightarrow> (world, bool) state" where
  "WriteFileAt fd name contents mode = do {
     created \<leftarrow> create_excl fd name mode;
     if \<not> created then State_Monad.return False
     else do {
       ok \<leftarrow> WriteAll fd name contents;
       finish_file fd name mode ok } }"

section \<open>The journal on disk\<close>

definition ReadJournal :: "(world, (string \<times> JournalEntry list) option) state" where
  "ReadJournal = do {
     fd \<leftarrow> open_read TxnDir journal_name;
     case fd of
       None \<Rightarrow> State_Monad.return None
     | Some inode \<Rightarrow> do {
         info \<leftarrow> fstat_open;
         case inode of
           Reg bytes _ \<Rightarrow>
             (if \<not> info then State_Monad.return None
              else do {
                contents \<leftarrow> ReadAll bytes;
                State_Monad.return (case contents of None \<Rightarrow> None | Some c \<Rightarrow> ParseJournal c) })
         | _ \<Rightarrow> State_Monad.return None } }"

definition WriteJournal :: "string \<Rightarrow> JournalEntry list \<Rightarrow> (world, bool) state" where
  "WriteJournal jstate entries = do {
     _ \<leftarrow> unlinkat TxnDir next_name;
     written \<leftarrow> WriteFileAt TxnDir next_name (JournalContents jstate entries) 384;
     if \<not> written then State_Monad.return False
     else do {
       published \<leftarrow> renameat TxnDir next_name TxnDir journal_name;
       if \<not> published then do { _ \<leftarrow> unlinkat TxnDir next_name; State_Monad.return False }
       else fsync } }"

section \<open>Cleaning up and rolling back\<close>

definition remove_known :: "string \<Rightarrow> (world, bool) state" where
  "remove_known name = do {
     r \<leftarrow> fstatat TxnDir name;
     case r of
       Found (Reg c m) \<Rightarrow> unlinkat TxnDir name
     | Found _ \<Rightarrow> State_Monad.return False
     | Missing \<Rightarrow> State_Monad.return True
     | StatError \<Rightarrow> State_Monad.return False }"

fun remove_all_known :: "string list \<Rightarrow> (world, bool) state" where
  "remove_all_known [] = State_Monad.return True"
| "remove_all_known (name # names) = do {
     ok \<leftarrow> remove_known name;
     if ok then remove_all_known names else State_Monad.return False }"

definition known_names :: "nat \<Rightarrow> string list" where
  "known_names count =
     concat (map (\<lambda>i. [new_name i, old_name i, restore_name i]) [0..<count]) @
     [next_name, journal_name]"

definition RemoveKnownTransactionFiles :: "nat \<Rightarrow> (world, bool) state" where
  "RemoveKnownTransactionFiles count = do {
     ok \<leftarrow> remove_all_known (known_names count);
     if ok then fsync else State_Monad.return False }"

definition RemoveTransactionDirectory :: "nat \<Rightarrow> (world, bool) state" where
  "RemoveTransactionDirectory count = do {
     ok \<leftarrow> RemoveKnownTransactionFiles count;
     if \<not> ok then State_Monad.return False
     else do {
       removed \<leftarrow> rmdir_txn;
       if \<not> removed then State_Monad.return False else fsync } }"

definition rollback_entry :: "nat \<Rightarrow> JournalEntry \<Rightarrow> (world, bool) state" where
  "rollback_entry i e = do {
     (ok, destination_exists, _) \<leftarrow> EnsureRegularOrMissing TlsDir (je_name e);
     if \<not> ok then State_Monad.return False
     else if je_existed e then do {
       (ok, backup_exists, _) \<leftarrow> EnsureRegularOrMissing TxnDir (old_name i);
       if \<not> ok \<or> \<not> backup_exists then State_Monad.return False
       else do {
         _ \<leftarrow> unlinkat TxnDir (restore_name i);
         copied \<leftarrow> CopyFileAt TxnDir (old_name i) TxnDir (restore_name i) (nat (je_mode e));
         if \<not> copied then State_Monad.return False
         else renameat TxnDir (restore_name i) TlsDir (je_name e) } }
     else if destination_exists then unlinkat TlsDir (je_name e)
     else State_Monad.return True }"

fun Rollback_from :: "nat \<Rightarrow> JournalEntry list \<Rightarrow> (world, bool) state" where
  "Rollback_from i [] = State_Monad.return True"
| "Rollback_from i (e # es) = do {
     ok \<leftarrow> rollback_entry i e;
     if \<not> ok then State_Monad.return False
     else do {
       synced \<leftarrow> fsync;
       if \<not> synced then State_Monad.return False else Rollback_from (Suc i) es } }"

definition Rollback :: "JournalEntry list \<Rightarrow> (world, bool) state" where
  "Rollback entries = Rollback_from 0 entries"

section \<open>Recovery\<close>

definition recover_journal :: "string \<Rightarrow> string list \<Rightarrow> (world, bool) state" where
  "recover_journal tls_dir paths = do {
     j \<leftarrow> ReadJournal;
     case j of
       None \<Rightarrow> State_Monad.return False
     | Some (jstate, entries) \<Rightarrow>
         if \<not> ValidatePathBinding tls_dir paths entries then State_Monad.return False
         else do {
           ok \<leftarrow> (if jstate = ''PENDING'' then do {
                      ok \<leftarrow> Rollback entries;
                      if ok then WriteJournal ''ROLLED_BACK'' entries else State_Monad.return False }
                   else State_Monad.return True);
           if ok then RemoveTransactionDirectory (length entries) else State_Monad.return False } }"

definition RecoverTlsTransaction :: "string \<Rightarrow> string list \<Rightarrow> (world, bool) state" where
  "RecoverTlsTransaction tls_dir paths = do {
     opened \<leftarrow> OpenDirectoryNoFollow;
     if \<not> opened then State_Monad.return False
     else do {
       info \<leftarrow> fstatat TlsDir txn_name;
       case info of
         Missing \<Rightarrow> State_Monad.return True
       | StatError \<Rightarrow> State_Monad.return False
       | Found (Dir _) \<Rightarrow> do {
           transaction_fd \<leftarrow> open_txn;
           if \<not> transaction_fd then State_Monad.return False
           else do {
             journal_info \<leftarrow> fstatat TxnDir journal_name;
             if journal_info = Missing then RemoveTransactionDirectory (length paths)
             else recover_journal tls_dir paths } }
       | Found _ \<Rightarrow> State_Monad.return False } }"

section \<open>Commit\<close>

text \<open>The checks before any system call: the normalised names, or \<open>None\<close> for the early returns.\<close>

fun validate_files :: "string \<Rightarrow> TlsTransactionFile list \<Rightarrow> string list \<Rightarrow> string list option" where
  "validate_files tls_dir [] names = Some names"
| "validate_files tls_dir (f # files) names =
     (case NormalizeName tls_dir (tf_path f) of
        None \<Rightarrow> None
      | Some name \<Rightarrow>
          (let mode = tf_mode f AND 511
           in if mode \<noteq> tf_mode f \<or> (mode \<noteq> 384 \<and> mode \<noteq> 420) then None
              else if sublist ''key'' name \<and> mode \<noteq> 384 then None
              else if name \<in> set names then None
              else validate_files tls_dir files (names @ [name])))"

text \<open>The first loop: the journal entries, one per file up to the first failure, and whether all
  files were staged.\<close>

definition entry_of :: "string \<Rightarrow> TlsTransactionFile \<Rightarrow> bool \<Rightarrow> nat \<Rightarrow> JournalEntry" where
  "entry_of name f existed mode =
     \<lparr>je_name = name, je_existed = existed,
      je_mode = (if existed then int (mode mod 512) else tf_mode f)\<rparr>"

fun stage_files :: "nat \<Rightarrow> (TlsTransactionFile \<times> string) list \<Rightarrow> (world, bool \<times> JournalEntry list) state" where
  "stage_files i [] = State_Monad.return (True, [])"
| "stage_files i ((f, name) # files) = do {
     (ok, existed, mode) \<leftarrow> EnsureRegularOrMissing TlsDir name;
     ok \<leftarrow> (if ok \<and> existed then CopyFileAt TlsDir name TxnDir (old_name i) (mode mod 512)
             else State_Monad.return ok);
     ok \<leftarrow> (if ok then WriteFileAt TxnDir (new_name i) (tf_contents f) (nat (tf_mode f))
             else State_Monad.return False);
     if \<not> ok then State_Monad.return (False, [entry_of name f existed mode])
     else do {
       (ok, entries) \<leftarrow> stage_files (Suc i) files;
       State_Monad.return (ok, entry_of name f existed mode # entries) } }"

text \<open>The second loop: rename every staged file over its destination.\<close>

fun publish_files :: "nat \<Rightarrow> string list \<Rightarrow> (world, bool) state" where
  "publish_files i [] = State_Monad.return True"
| "publish_files i (name # names) = do {
     (ok, _, _) \<leftarrow> EnsureRegularOrMissing TlsDir name;
     if \<not> ok then State_Monad.return False
     else do {
       renamed \<leftarrow> renameat TxnDir (new_name i) TlsDir name;
       if \<not> renamed then State_Monad.return False
       else do {
         synced \<leftarrow> fsync;
         if \<not> synced then State_Monad.return False else publish_files (Suc i) names } } }"

definition commit_prepared :: "(TlsTransactionFile \<times> string) list \<Rightarrow> (world, bool) state" where
  "commit_prepared files = do {
     (ok, entries) \<leftarrow> stage_files 0 files;
     ok \<leftarrow> (if ok then fsync else State_Monad.return False);
     pending \<leftarrow> (if ok then WriteJournal ''PENDING'' entries else State_Monad.return False);
     ok \<leftarrow> (if pending then publish_files 0 (map snd files) else State_Monad.return False);
     if \<not> ok \<and> pending then do {
       rolled_back \<leftarrow> Rollback entries;
       if \<not> rolled_back then State_Monad.return False
       else do {
         journaled \<leftarrow> WriteJournal ''ROLLED_BACK'' entries;
         if \<not> journaled then State_Monad.return False
         else do {
           _ \<leftarrow> RemoveTransactionDirectory (length entries);
           State_Monad.return False } } }
     else if \<not> ok then do {
       _ \<leftarrow> RemoveTransactionDirectory (length entries);
       State_Monad.return False }
     else do {
       completed \<leftarrow> WriteJournal ''COMPLETE'' entries;
       if \<not> completed then do {
         rolled_back \<leftarrow> Rollback entries;
         if \<not> rolled_back then State_Monad.return False
         else do {
           _ \<leftarrow> WriteJournal ''ROLLED_BACK'' entries;
           State_Monad.return False } }
       else RemoveTransactionDirectory (length entries) } }"

definition CommitTlsTransaction :: "string \<Rightarrow> TlsTransactionFile list \<Rightarrow> (world, bool) state" where
  "CommitTlsTransaction tls_dir files =
     (if files = [] then State_Monad.return False
      else case validate_files tls_dir files [] of
        None \<Rightarrow> State_Monad.return False
      | Some names \<Rightarrow> do {
          recovered \<leftarrow> RecoverTlsTransaction tls_dir (map tf_path files);
          if \<not> recovered then State_Monad.return False
          else do {
            opened \<leftarrow> OpenDirectoryNoFollow;
            if \<not> opened then State_Monad.return False
            else do {
              made \<leftarrow> mkdir_txn;
              if \<not> made then State_Monad.return False
              else do {
                synced \<leftarrow> fsync;
                if \<not> synced then do { _ \<leftarrow> rmdir_txn; State_Monad.return False }
                else do {
                  transaction_fd \<leftarrow> open_txn;
                  if \<not> transaction_fd then State_Monad.return False
                  else commit_prepared (zip files names) } } } } })"

end
