(* ===== verification/Tls_Crash.thy ===== *)
theory Tls_Crash
  imports Tls_Transaction
begin

text \<open>
  Crash safety of the TLS file transaction.
\<close>

section \<open>Rules of the transaction's functions\<close>

lemma stable_prims [simp, intro]:
  "stable (fstatat fd k)" "stable fsync" "stable close_fd" "stable (open_read fd k)"
  "stable (create_excl fd k mode)" "stable (fchmod fd k mode)" "stable (unlinkat fd k)"
  "stable (renameat fd k fd' k')" "stable mkdir_txn" "stable rmdir_txn" "stable open_txn"
  "stable fstat_open"
  by (simp_all add: fstatat_def fsync_def close_fd_def open_read_def create_excl_def fchmod_def
      unlinkat_def renameat_def mkdir_txn_def rmdir_txn_def open_txn_def fstat_open_def)

lemma stable_files [simp, intro]:
  "stable OpenDirectoryNoFollow" "stable (EnsureRegularOrMissing fd k)"
  "stable (finish_file fd k mode ok)" "stable (CopyFileAt fd k fd' k' mode)"
  "stable (WriteFileAt fd k c mode)" "stable ReadJournal"
  by (auto simp: OpenDirectoryNoFollow_def EnsureRegularOrMissing_def finish_file_def CopyFileAt_def
      WriteFileAt_def ReadJournal_def intro!: stable_bind split: option.splits node.splits)

lemma stable_journal [simp, intro]:
  "stable (WriteJournal st es)" "stable (remove_known k)" "stable (rollback_entry i e)"
  by (auto simp: WriteJournal_def remove_known_def rollback_entry_def
      intro!: stable_bind split: option.splits node.splits stat_result.splits prod.splits)

lemma stable_loops [simp, intro]:
  "stable (remove_all_known ks)" "stable (Rollback_from i es)" "stable (stage_files i fs)"
  "stable (publish_files i ns)"
  by (induction ks) (auto intro!: stable_bind,
    induction i es rule: Rollback_from.induct, auto intro!: stable_bind,
    induction i fs rule: stage_files.induct, auto intro!: stable_bind split: prod.splits,
    induction i ns rule: publish_files.induct, auto intro!: stable_bind split: prod.splits)

lemma stable_top [simp, intro]:
  "stable (RemoveKnownTransactionFiles n)" "stable (RemoveTransactionDirectory n)"
  "stable (Rollback es)" "stable (recover_journal dir paths)" "stable (commit_prepared fs)"
  by (auto simp: RemoveKnownTransactionFiles_def RemoveTransactionDirectory_def Rollback_def
      recover_journal_def commit_prepared_def
      intro!: stable_bind split: option.splits prod.splits)

lemma wp_if [intro!]:
  assumes "b \<Longrightarrow> wp f Q C n v" and "\<not> b \<Longrightarrow> wp g Q C n v"
  shows "wp (if b then f else g) Q C n v"
  using assms by simp

lemma wp_fstat_open:
  assumes "Q True n v" and "0 < n \<Longrightarrow> Q False (n - 1) v" and "0 < n \<Longrightarrow> C v"
  shows "wp fstat_open Q C n v"
  unfolding fstat_open_def using assms by (intro wp_syscall) simp_all

lemma wp_OpenDirectory:
  assumes "Q True n v" and "0 < n \<Longrightarrow> Q False (n - 1) v" and "0 < n \<Longrightarrow> C v"
  shows "wp OpenDirectoryNoFollow Q C n v"
  unfolding OpenDirectoryNoFollow_def using assms
  by (auto intro!: wp_bind wp_syscall)

lemma wp_Ensure:
  assumes "name_ok fd k"
    and "Q (case vlook v fd k of None \<Rightarrow> (True, False, 0) | Some (Reg c m) \<Rightarrow> (True, True, m)
             | Some _ \<Rightarrow> (False, True, 0)) n v"
    and "0 < n \<Longrightarrow> Q (False, False, 0) (n - 1) v" and "0 < n \<Longrightarrow> C v"
  shows "wp (EnsureRegularOrMissing fd k) Q C n v"
  unfolding EnsureRegularOrMissing_def using assms
  by (auto intro!: wp_bind wp_fstatat split: option.splits node.splits)

text \<open>What an interrupted write of a new file leaves: nothing, or a regular file of any contents
  under the new name.\<close>

definition leftover :: "dirfd \<Rightarrow> string \<Rightarrow> view \<Rightarrow> view \<Rightarrow> bool" where
  "leftover fd k v u \<longleftrightarrow>
     u = v \<or> vlook v fd k = None \<and> (\<exists>c m. u = vput fd k (Some (Reg c m)) v)"

lemma leftover_refl [simp]: "leftover fd k v v"
  by (simp add: leftover_def)

lemma leftover_put [simp]: "vlook v fd k = None \<Longrightarrow> leftover fd k v (vput fd k (Some (Reg c m)) v)"
  by (auto simp: leftover_def)

lemma leftover_put_None: "vlook v fd k = None \<Longrightarrow> vput fd k None v = v"
  by (rule vput_same)

lemma wp_finish_file:
  assumes k: "name_ok fd k" "vopen fd v" "vlook v fd k = None"
    and Q: "Q True n (vput fd k (Some (Reg c mode)) v)"
    and F: "\<And>m u. m < n \<Longrightarrow> leftover fd k v u \<Longrightarrow> Q False m u"
    and C: "\<And>u. 0 < n \<Longrightarrow> leftover fd k v u \<Longrightarrow> C u"
  shows "wp (finish_file fd k mode True) Q C n (vput fd k (Some (Reg c m)) v)"
    and "m' < n \<Longrightarrow> wp (finish_file fd k mode False) Q C m' (vput fd k (Some (Reg c' m)) v)"
proof -
  have un: "wp (unlinkat fd k) (\<lambda>_. wp (State_Monad.return False) Q C) C j (vput fd k (Some (Reg c1 m1)) v)"
    if "j < n" for j c1 m1
    using that k by (intro wp_unlinkat wp_return) (auto simp: leftover_put_None intro!: F C)
  show "wp (finish_file fd k mode True) Q C n (vput fd k (Some (Reg c m)) v)"
    unfolding finish_file_def
    using k Q by (auto intro!: wp_bind wp_fchmod wp_fsync un C)
  show "m' < n \<Longrightarrow> wp (finish_file fd k mode False) Q C m' (vput fd k (Some (Reg c' m)) v)"
    unfolding finish_file_def
    using k by (auto intro!: wp_bind wp_fsync un C)
qed

lemma wp_write_finish:
  assumes k: "name_ok fd k" "vopen fd v" "vlook v fd k = None"
    and Q: "Q True n (vput fd k (Some (Reg c mode)) v)"
    and F: "\<And>m u. m < n \<Longrightarrow> leftover fd k v u \<Longrightarrow> Q False m u"
    and C: "\<And>u. 0 < n \<Longrightarrow> leftover fd k v u \<Longrightarrow> C u"
  shows "wp (WriteAll fd k c) (\<lambda>ok. wp (finish_file fd k mode ok) Q C) C n (vput fd k (Some (Reg [] m)) v)"
    and "m' < n \<Longrightarrow> wp (finish_file fd k mode False) Q C m' (vput fd k (Some (Reg c' m)) v)"
proof -
  note fin = wp_finish_file [where v = v, OF k, where Q = Q and C = C and mode = mode]
  show "wp (WriteAll fd k c) (\<lambda>ok. wp (finish_file fd k mode ok) Q C) C n (vput fd k (Some (Reg [] m)) v)"
  proof (rule wp_WriteAll)
    show "wp (finish_file fd k mode True) Q C n (vput fd k (Some (Reg ([] @ c) m)) (vput fd k (Some (Reg [] m)) v))"
      using fin(1) [OF Q F C] by simp
    show "wp (finish_file fd k mode False) Q C (n - 1) (vput fd k (Some (Reg c' m)) (vput fd k (Some (Reg [] m)) v))"
      if "0 < n" for c'
      using fin(2) [OF Q F C, of "n - 1"] that by simp
  qed (use k C in auto)
  show "m' < n \<Longrightarrow> wp (finish_file fd k mode False) Q C m' (vput fd k (Some (Reg c' m)) v)"
    using fin(2) [OF Q F C] .
qed

lemma wp_WriteFileAt:
  assumes k: "name_ok fd k" "vopen fd v"
    and Q: "vlook v fd k = None \<Longrightarrow> Q True n (vput fd k (Some (Reg c mode)) v)"
    and E: "vlook v fd k \<noteq> None \<Longrightarrow> Q False n v"
    and F: "\<And>m u. m < n \<Longrightarrow> leftover fd k v u \<Longrightarrow> Q False m u"
    and C: "\<And>u. 0 < n \<Longrightarrow> leftover fd k v u \<Longrightarrow> C u"
  shows "wp (WriteFileAt fd k c mode) Q C n v"
  unfolding WriteFileAt_def using k
  by (auto intro!: wp_bind wp_create_excl wp_write_finish E Q F C)

lemma wp_CopyFileAt:
  assumes s: "name_ok sfd s" "vlook v sfd s = Some (Reg c m0)"
    and k: "name_ok fd k" "vopen fd v"
    and Q: "vlook v fd k = None \<Longrightarrow> Q True n (vput fd k (Some (Reg c mode)) v)"
    and E: "vlook v fd k \<noteq> None \<Longrightarrow> Q False n v"
    and F: "\<And>m u. m < n \<Longrightarrow> leftover fd k v u \<Longrightarrow> Q False m u"
    and C: "\<And>u. 0 < n \<Longrightarrow> leftover fd k v u \<Longrightarrow> C u"
  shows "wp (CopyFileAt sfd s fd k mode) Q C n v"
proof -
  let ?copy = "\<lambda>contents. (case contents of None \<Rightarrow> State_Monad.return False | Some c \<Rightarrow> WriteAll fd k c) \<bind> finish_file fd k mode"
  have r: "wp (ReadAll c) (\<lambda>contents. wp (?copy contents) Q C) C n (vput fd k (Some (Reg [] m)) v)"
    if "vlook v fd k = None" for m
  proof (rule wp_ReadAll)
    note fin = wp_write_finish [where Q = Q and n = n and c = c and mode = mode and C = C,
        OF k that Q [OF that] F C]
    show "wp (?copy (Some c)) Q C n (vput fd k (Some (Reg [] m)) v)"
      using fin(1) by (auto intro: wp_bind)
    show "wp (?copy None) Q C (n - 1) (vput fd k (Some (Reg [] m)) v)" if "0 < n"
      using fin(2) that by (auto intro!: wp_bind)
  qed (use that C in auto)
  show ?thesis
    unfolding CopyFileAt_def using k s
    by (auto intro!: wp_bind wp_open_read wp_fstat_open wp_create_excl r E F C split: option.splits node.splits)
qed

lemma wp_mono:
  assumes "wp f Q C n v" and "m \<le> n"
  shows "wp f Q C m v"
  unfolding wp_def
proof (intro allI impI, elim conjE)
  fix w r w'
  assume "\<not> w_crashed w" "d_real (w_disk w)" "faults (w_sched w) \<le> m" "view (w_disk w) = v"
    "run_state f w = (r, w')"
  from wpD [OF assms(1) this(1,2) order_trans [OF this(3) assms(2)] this(4,5)]
  show "d_real (w_disk w') \<and> (if w_crashed w' then C (view (w_disk w'))
      else \<exists>m. faults (w_sched w') \<le> m \<and> Q r m (view (w_disk w')))" by simp
qed

section \<open>The names of the transaction directory\<close>

lemma txn_names_distinct [simp]:
  "new_name i \<noteq> old_name j" "new_name i \<noteq> restore_name j" "old_name i \<noteq> restore_name j"
  "old_name i \<noteq> new_name j" "restore_name i \<noteq> new_name j" "restore_name i \<noteq> old_name j"
  "new_name i \<noteq> journal_name" "old_name i \<noteq> journal_name" "restore_name i \<noteq> journal_name"
  "new_name i \<noteq> next_name" "old_name i \<noteq> next_name" "restore_name i \<noteq> next_name"
  "journal_name \<noteq> new_name i" "journal_name \<noteq> old_name i" "journal_name \<noteq> restore_name i"
  "next_name \<noteq> new_name i" "next_name \<noteq> old_name i" "next_name \<noteq> restore_name i"
  "journal_name \<noteq> next_name" "next_name \<noteq> journal_name"
  by (simp_all add: new_name_def old_name_def restore_name_def journal_name_def next_name_def)

lemma txn_names_inject [simp]:
  "new_name i = new_name j \<longleftrightarrow> i = j" "old_name i = old_name j \<longleftrightarrow> i = j"
  "restore_name i = restore_name j \<longleftrightarrow> i = j"
  by (simp_all add: new_name_def old_name_def restore_name_def)

lemma set_known_names:
  "f \<in> set (known_names k) \<longleftrightarrow>
   (\<exists>i<k. f = new_name i \<or> f = old_name i \<or> f = restore_name i) \<or> f = next_name \<or> f = journal_name"
  by (auto simp: known_names_def)

lemma known_names_simps [simp]:
  "new_name i \<in> set (known_names k) \<longleftrightarrow> i < k" "old_name i \<in> set (known_names k) \<longleftrightarrow> i < k"
  "restore_name i \<in> set (known_names k) \<longleftrightarrow> i < k" "next_name \<in> set (known_names k)"
  "journal_name \<in> set (known_names k)"
  by (auto simp: set_known_names)

text \<open>Only the transaction's own files, all of them regular.\<close>

definition known :: "nat \<Rightarrow> (string \<Rightarrow> node option) \<Rightarrow> bool" where
  "known k X \<longleftrightarrow> (\<forall>f x. X f = Some x \<longrightarrow> f \<in> set (known_names k) \<and> (\<exists>c m. x = Reg c m))"

lemma knownD: "known k X \<Longrightarrow> X f = Some x \<Longrightarrow> \<exists>c m. x = Reg c m"
  by (simp add: known_def)

lemma known_put [simp]: "known k X \<Longrightarrow> f \<in> set (known_names k) \<Longrightarrow> known k (X(f \<mapsto> Reg c m))"
  by (simp add: known_def)

lemma known_erase [simp]: "known k X \<Longrightarrow> known k (X(f := None))"
  by (simp add: known_def)

lemma known_le: "known k X \<Longrightarrow> X' \<subseteq>\<^sub>m X \<Longrightarrow> known k X'"
  by (fastforce simp: known_def map_le_def dom_def)

lemma known_more: "known k X \<Longrightarrow> k \<le> k' \<Longrightarrow> known k' X"
  by (fastforce simp: known_def set_known_names)

section \<open>Removing the transaction directory\<close>

lemma wp_remove_known:
  assumes "known k X" and "Q True n (T, Txn (X(f := None)))"
    and "\<And>m. m < n \<Longrightarrow> Q False m (T, Txn X)" and "0 < n \<Longrightarrow> C (T, Txn X)"
  shows "wp (remove_known f) Q C n (T, Txn X)"
proof (cases "X f")
  case None
  then have "X(f := None) = X" by auto
  with None assms show ?thesis
    by (auto simp: remove_known_def intro!: wp_bind wp_fstatat split: stat_result.splits node.splits)
next
  case (Some x)
  then obtain c m where "x = Reg c m" using assms(1) knownD by blast
  with Some assms show ?thesis
    by (auto simp: remove_known_def intro!: wp_bind wp_fstatat wp_unlinkat split: stat_result.splits node.splits)
qed

lemma wp_remove_all_known:
  assumes "known k X" and "Q True n (T, Txn (X |` (- set fs)))"
    and "\<And>m X'. m < n \<Longrightarrow> X' \<subseteq>\<^sub>m X \<Longrightarrow> Q False m (T, Txn X')"
    and "\<And>X'. 0 < n \<Longrightarrow> X' \<subseteq>\<^sub>m X \<Longrightarrow> C (T, Txn X')"
  shows "wp (remove_all_known fs) Q C n (T, Txn X)"
  using assms
proof (induction fs arbitrary: X)
  case Nil
  then show ?case by (auto simp: restrict_map_def)
next
  case (Cons f fs)
  have le: "X' \<subseteq>\<^sub>m X(f := None) \<Longrightarrow> X' \<subseteq>\<^sub>m X" for X'
    by (erule map_le_trans) simp
  have eq: "(X(f := None)) |` (- set fs) = X |` (- set (f # fs))"
    by (auto simp: restrict_map_def)
  have rest: "wp (remove_all_known fs) Q C n (T, Txn (X(f := None)))"
  proof (rule Cons.IH [of "X(f := None)", unfolded eq])
    show "known k (X(f := None))" using Cons.prems(1) by simp
  qed (use Cons.prems(2-4) le in \<open>simp_all only:\<close>)
  show ?case
    using rest Cons.prems(3,4)
    by (auto intro!: wp_bind wp_remove_known [OF Cons.prems(1)])
qed

lemma wp_RemoveTransactionDirectory:
  assumes "known k X" and "Q True n (T, NoTxn)"
    and "\<And>m X'. m < n \<Longrightarrow> X' \<subseteq>\<^sub>m X \<Longrightarrow> Q False m (T, Txn X')" and "\<And>m. m < n \<Longrightarrow> Q False m (T, NoTxn)"
    and "\<And>X'. 0 < n \<Longrightarrow> X' \<subseteq>\<^sub>m X \<Longrightarrow> C (T, Txn X')" and "0 < n \<Longrightarrow> C (T, NoTxn)"
  shows "wp (RemoveTransactionDirectory k) Q C n (T, Txn X)"
proof -
  have empty: "X |` (- set (known_names k)) = (\<lambda>_. None)"
    using assms(1) by (auto simp: known_def restrict_map_def split: if_splits) (metis not_None_eq)
  have le: "(\<lambda>_. None) \<subseteq>\<^sub>m X" by (simp add: map_le_def)
  show ?thesis
    unfolding RemoveTransactionDirectory_def RemoveKnownTransactionFiles_def
    using assms le
    by (auto intro!: wp_bind wp_remove_all_known [OF assms(1)] wp_fsync wp_rmdir_txn simp: empty)
qed

section \<open>Writing the journal\<close>

definition journal_node :: "string \<Rightarrow> JournalEntry list \<Rightarrow> node" where
  "journal_node st es = Reg (JournalContents st es) 384"

text \<open>The transaction directory while a journal is being written, up to but without its publication.\<close>

definition next_only :: "(string \<Rightarrow> node option) \<Rightarrow> (string \<Rightarrow> node option) \<Rightarrow> bool" where
  "next_only X X' \<longleftrightarrow>
     X' = X \<or> X' = X(next_name := None) \<or> (\<exists>c m. X' = X(next_name \<mapsto> Reg c m))"

definition journaled :: "string \<Rightarrow> JournalEntry list \<Rightarrow> (string \<Rightarrow> node option) \<Rightarrow> string \<Rightarrow> node option" where
  "journaled st es X = X(next_name := None, journal_name \<mapsto> journal_node st es)"

lemma next_only_simps [simp]:
  "next_only X X" "next_only X (X(next_name := None))" "next_only X (X(next_name \<mapsto> Reg c m))"
  by (auto simp: next_only_def)

lemma wp_write_next:
  assumes X: "known k X" "X next_name = None"
    and Q: "Q True n (T, Txn (journaled st es X))"
    and F: "\<And>m X'. m < n \<Longrightarrow> next_only X X' \<or> X' = journaled st es X \<Longrightarrow> Q False m (T, Txn X')"
    and C: "\<And>X'. 0 < n \<Longrightarrow> next_only X X' \<or> X' = journaled st es X \<Longrightarrow> C (T, Txn X')"
  shows "wp (WriteFileAt TxnDir next_name (JournalContents st es) 384 \<bind> (\<lambda>written.
     if \<not> written then State_Monad.return False
     else do {
       published \<leftarrow> renameat TxnDir next_name TxnDir journal_name;
       if \<not> published then do { _ \<leftarrow> unlinkat TxnDir next_name; State_Monad.return False }
       else fsync })) Q C n (T, Txn X)"
proof -
  have jn: "X journal_name \<noteq> Some (Dir e)" for e using knownD [OF X(1)] by fastforce
  have left: "leftover TxnDir next_name (T, Txn X) u \<Longrightarrow> \<exists>X'. u = (T, Txn X') \<and> next_only X X'" for u
    by (auto simp: leftover_def)
  have erase: "X(next_name := None) = X" using X(2) by auto
  have pub: "wp (if \<not> published then do { _ \<leftarrow> unlinkat TxnDir next_name; State_Monad.return False }
       else fsync) Q C m (if published then (T, Txn (journaled st es X)) else (T, Txn (X(next_name \<mapsto> journal_node st es))))"
    if "if published then m = n else m < n" for m published
    using that Q X(2)
    by (cases published) (auto intro!: wp_bind wp_unlinkat wp_fsync F C simp: journal_node_def erase)
  have up: "(X(next_name := None)) (journal_name \<mapsto> Reg (JournalContents st es) 384) = journaled st es X"
    by (simp add: journaled_def journal_node_def)
  show ?thesis
  proof (intro wp_bind wp_WriteFileAt)
    show "wp (if \<not> True then State_Monad.return False else
        renameat TxnDir next_name TxnDir journal_name \<bind> (\<lambda>published.
          if \<not> published then do { _ \<leftarrow> unlinkat TxnDir next_name; State_Monad.return False } else fsync))
        Q C n (vput TxnDir next_name (Some (Reg (JournalContents st es) 384)) (T, Txn X))"
      using pub [where published = True] pub [where published = False] jn
      by (auto intro!: wp_bind [where f = "renameat _ _ _ _"] wp_renameat C simp: up journal_node_def)
  qed (use X in \<open>auto dest!: left intro!: F C\<close>)
qed

lemma wp_WriteJournal:
  assumes X: "known k X"
    and Q: "Q True n (T, Txn (journaled st es X))"
    and Q': "\<And>m. m < n \<Longrightarrow> Q True m (T, Txn (journaled st es X))"
    and F: "\<And>m X'. m < n \<Longrightarrow> next_only X X' \<or> X' = journaled st es X \<Longrightarrow> Q False m (T, Txn X')"
    and C: "\<And>X'. 0 < n \<Longrightarrow> next_only X X' \<or> X' = journaled st es X \<Longrightarrow> C (T, Txn X')"
  shows "wp (WriteJournal st es) Q C n (T, Txn X)"
proof -
  have absent: "wp (WriteFileAt TxnDir next_name (JournalContents st es) 384 \<bind> (\<lambda>written.
     if \<not> written then State_Monad.return False
     else do {
       published \<leftarrow> renameat TxnDir next_name TxnDir journal_name;
       if \<not> published then do { _ \<leftarrow> unlinkat TxnDir next_name; State_Monad.return False }
       else fsync })) Q C m (T, Txn (X(next_name := None)))" if "m \<le> n" for m
  proof (rule wp_write_next)
    have same: "journaled st es (X(next_name := None)) = journaled st es X" by (simp add: journaled_def)
    have no: "next_only (X(next_name := None)) X' \<Longrightarrow> next_only X X'" for X'
      by (auto simp: next_only_def)
    show "known k (X(next_name := None))" using X by simp
    show "Q True m (T, Txn (journaled st es (X(next_name := None))))"
      using Q Q' that same by (cases "m = n") auto
    show "Q False j (T, Txn X')"
      if "j < m" "next_only (X(next_name := None)) X' \<or> X' = journaled st es (X(next_name := None))" for j X'
      using F that \<open>m \<le> n\<close> no same by auto
    show "C (T, Txn X')"
      if "0 < m" "next_only (X(next_name := None)) X' \<or> X' = journaled st es (X(next_name := None))" for X'
      using C that \<open>m \<le> n\<close> no same by auto
  qed simp
  show ?thesis
  proof (cases "X next_name")
    case None
    then have "X(next_name := None) = X" by auto
    with absent [of n] absent [of "n - 1"] None C show ?thesis
      unfolding WriteJournal_def by (intro wp_bind [where f = "unlinkat _ _"] wp_unlinkat) auto
  next
    case (Some x)
    then obtain c m where "x = Reg c m" using knownD [OF X] by blast
    with absent [of n] Some C F show ?thesis
      unfolding WriteJournal_def
      by (intro wp_bind [where f = "unlinkat _ _"] wp_unlinkat)
        (auto intro!: wp_bind wp_WriteFileAt simp: leftover_def)
  qed
qed

section \<open>Rolling back\<close>

definition regular :: "node option \<Rightarrow> bool" where
  "regular x \<longleftrightarrow> (case x of None \<Rightarrow> True | Some (Reg c m) \<Rightarrow> True | _ \<Rightarrow> False)"

lemma regular_iff: "regular x \<longleftrightarrow> x = None \<or> (\<exists>c m. x = Some (Reg c m))"
  by (auto simp: regular_def split: option.splits node.splits)

text \<open>Entry \<open>i\<close> of the journal is backed by the transaction directory: the old file is in its
  backup, with the mode in the journal, or there was none.\<close>

definition backed :: "(string \<Rightarrow> node option) \<Rightarrow> (string \<Rightarrow> node option) \<Rightarrow> nat \<Rightarrow> JournalEntry \<Rightarrow> bool" where
  "backed T0 X i e \<longleftrightarrow>
     (if je_existed e
      then \<exists>c m. X (old_name i) = Some (Reg c m) \<and> T0 (je_name e) = Some (Reg c (nat (je_mode e)))
      else T0 (je_name e) = None)"

text \<open>The TLS directory may differ from its old state only at the journal's names.\<close>

definition saved :: "(string \<Rightarrow> node option) \<Rightarrow> JournalEntry list \<Rightarrow> (string \<Rightarrow> node option) \<Rightarrow> (string \<Rightarrow> node option) \<Rightarrow> bool" where
  "saved T0 es T X \<longleftrightarrow>
     (\<forall>i < length es. regular (T (je_name (es ! i))) \<and> backed T0 X i (es ! i)) \<and>
     (\<forall>f. f \<notin> je_name ` set es \<longrightarrow> T f = T0 f)"

text \<open>The transaction directory while entry \<open>i\<close> is being restored.\<close>

definition restoring :: "nat \<Rightarrow> (string \<Rightarrow> node option) \<Rightarrow> (string \<Rightarrow> node option) \<Rightarrow> bool" where
  "restoring i X X' \<longleftrightarrow>
     X' = X \<or> X' = X(restore_name i := None) \<or> (\<exists>c m. X' = X(restore_name i \<mapsto> Reg c m))"

lemma restoring_simps [simp]:
  "restoring i X X" "restoring i X (X(restore_name i := None))" "restoring i X (X(restore_name i \<mapsto> Reg c m))"
  by (auto simp: restoring_def)

lemma wp_rollback_entry:
  assumes k: "known k X" and e: "je_name e \<noteq> txn_name" "regular (T (je_name e))" "backed T0 X i e"
    and Q: "\<And>m X'. m \<le> n \<Longrightarrow> restoring i X X' \<Longrightarrow> Q True m (T(je_name e := T0 (je_name e)), Txn X')"
    and F: "\<And>m X'. m < n \<Longrightarrow> restoring i X X' \<Longrightarrow> Q False m (T, Txn X')"
    and C: "\<And>X'. 0 < n \<Longrightarrow> restoring i X X' \<Longrightarrow> C (T, Txn X')"
  shows "wp (rollback_entry i e) Q C n (T, Txn X)"
proof (cases "je_existed e")
  case False
  then have "T0 (je_name e) = None" using e by (simp add: backed_def)
  then have Q': "Q True n (T(je_name e := None), Txn X)" using Q [of n X] by simp
  have same: "T (je_name e) = None \<Longrightarrow> T(je_name e := None) = T" by auto
  show ?thesis
    unfolding rollback_entry_def using False e(1,2) Q' same
    by (auto simp: regular_iff intro!: wp_bind wp_Ensure wp_unlinkat F C split: prod.splits)
next
  case True
  with e obtain c m0 where b: "X (old_name i) = Some (Reg c m0)" "T0 (je_name e) = Some (Reg c (nat (je_mode e)))"
    by (auto simp: backed_def)
  let ?r = "restore_name i" and ?mode = "nat (je_mode e)"
  have X0: "(X(?r := None))(?r \<mapsto> y) = X(?r \<mapsto> y)" "(X(?r \<mapsto> y))(?r := None) = X(?r := None)" for y by simp_all
  have copy: "wp (CopyFileAt TxnDir (old_name i) TxnDir ?r ?mode \<bind> (\<lambda>copied.
      if \<not> copied then State_Monad.return False else renameat TxnDir ?r TlsDir (je_name e)))
      Q C m (T, Txn X1)" if "m \<le> n" "X1 = X(?r := None)" for m X1
    using that b e(1,2) Q [of m "X(?r := None)"]
    by (auto intro!: wp_bind wp_CopyFileAt [where c = c] wp_renameat F C simp: leftover_def X0 regular_iff)
  have dest: "\<exists>y. (case T (je_name e) of None \<Rightarrow> (True, False, 0 :: nat) | Some (Reg c m) \<Rightarrow> (True, True, m)
             | Some _ \<Rightarrow> (False, True, 0)) = (True, y)"
    using e(2) by (auto simp: regular_iff)
  have un: "wp (unlinkat TxnDir ?r) (\<lambda>_. wp (CopyFileAt TxnDir (old_name i) TxnDir ?r ?mode \<bind> (\<lambda>copied.
      if \<not> copied then State_Monad.return False else renameat TxnDir ?r TlsDir (je_name e)))
      Q C) C n (T, Txn X)"
  proof (cases "X ?r")
    case None
    then have "X(?r := None) = X" by auto
    with copy [of n X] copy [of "n - 1" X] None C show ?thesis
      by (intro wp_unlinkat) auto
  next
    case (Some x)
    then obtain c1 m1 where "x = Reg c1 m1" using knownD [OF k] by blast
    with copy [of n "X(?r := None)"] Some C F b show ?thesis
      by (intro wp_unlinkat) (auto intro!: wp_bind wp_CopyFileAt [where c = c] simp: leftover_def)
  qed
  show ?thesis
    unfolding rollback_entry_def using True e(1,2) b un dest
    by (auto simp: regular_iff intro!: wp_bind [where f = "EnsureRegularOrMissing _ _"]
        wp_bind [where f = "unlinkat TxnDir (restore_name i)"] wp_Ensure F C split: prod.splits)
qed

lemma saved_cong:
  assumes "saved T0 es T X" and "\<And>j. j < length es \<Longrightarrow> X' (old_name j) = X (old_name j)"
  shows "saved T0 es T X'"
  using assms by (auto simp: saved_def backed_def)

lemma saved_restoring: "saved T0 es T X \<Longrightarrow> restoring i X X' \<Longrightarrow> saved T0 es T X'"
  by (erule saved_cong) (auto simp: restoring_def)

lemma known_restoring: "known k X \<Longrightarrow> restoring i X X' \<Longrightarrow> i < k \<Longrightarrow> known k X'"
  by (auto simp: restoring_def)

lemma journal_restoring: "restoring i X X' \<Longrightarrow> X' journal_name = X journal_name"
  by (auto simp: restoring_def)

lemma saved_restore:
  assumes "saved T0 es T X" and "i < length es"
  shows "saved T0 es (T(je_name (es ! i) := T0 (je_name (es ! i)))) X"
proof -
  have "backed T0 X i (es ! i)" using assms by (simp add: saved_def)
  then have "regular (T0 (je_name (es ! i)))" by (auto simp: backed_def regular_iff split: if_splits)
  with assms show ?thesis by (auto simp: saved_def)
qed

text \<open>Rolling back from any point keeps the old files recoverable, and its success restores them
  all, whatever fails on the way.\<close>

lemma wp_Rollback_from:
  assumes "saved T0 es T X" and "known (length es) X" and "\<forall>e \<in> set es. je_name e \<noteq> txn_name"
    and "X journal_name = J" and "\<forall>j<i. T (je_name (es ! j)) = T0 (je_name (es ! j))" and "i \<le> length es"
    and Q: "\<And>m X'. m \<le> n \<Longrightarrow> known (length es) X' \<Longrightarrow> X' journal_name = J \<Longrightarrow> saved T0 es T0 X' \<Longrightarrow> Q True m (T0, Txn X')"
    and F: "\<And>m T' X'. m < n \<Longrightarrow> known (length es) X' \<Longrightarrow> X' journal_name = J \<Longrightarrow> saved T0 es T' X' \<Longrightarrow> Q False m (T', Txn X')"
    and C: "\<And>T' X'. 0 < n \<Longrightarrow> known (length es) X' \<Longrightarrow> X' journal_name = J \<Longrightarrow> saved T0 es T' X' \<Longrightarrow> C (T', Txn X')"
  shows "wp (Rollback_from i (drop i es)) Q C n (T, Txn X)"
  using assms
proof (induction "length es - i" arbitrary: i T X n)
  case 0
  have "T f = T0 f" for f
  proof (cases "f \<in> je_name ` set es")
    case True
    then obtain j where "j < length es" "f = je_name (es ! j)" by (auto simp: in_set_conv_nth)
    with 0 show ?thesis by simp
  qed (use 0 in \<open>simp add: saved_def\<close>)
  then have "T = T0" by auto
  with 0 show ?case by auto
next
  case (Suc d)
  then have i: "i < length es" by simp
  let ?e = "es ! i" and ?T = "T(je_name (es ! i) := T0 (je_name (es ! i)))"
  have e: "je_name ?e \<noteq> txn_name" "regular (T (je_name ?e))" "backed T0 X i ?e"
    using Suc.prems(1,3) i by (auto simp: saved_def)
  have inv: "known (length es) X'" "X' journal_name = J" "saved T0 es T X'" "saved T0 es ?T X'"
    if "restoring i X X'" for X'
    using Suc.prems(1,2,4) i that saved_restore [OF Suc.prems(1) i]
    by (auto intro: saved_restoring known_restoring journal_restoring [THEN trans])
  have next_ok: "wp (Rollback_from (Suc i) (drop (Suc i) es)) Q C m (?T, Txn X')"
    if "m \<le> n" "restoring i X X'" for m X'
  proof (rule Suc.hyps(1))
    show "d = length es - Suc i" using Suc.hyps(2) by simp
    show "\<forall>j<Suc i. ?T (je_name (es ! j)) = T0 (je_name (es ! j))"
      using Suc.prems(5) by (auto simp: less_Suc_eq)
    show "Suc i \<le> length es" using i by simp
    show "\<forall>e\<in>set es. je_name e \<noteq> txn_name" by (rule Suc.prems(3))
  qed (use inv [OF that(2)] Suc.prems(7-9) that(1) in auto)
  have step: "wp fsync (\<lambda>synced. wp (if \<not> synced then State_Monad.return False
       else Rollback_from (Suc i) (drop (Suc i) es)) Q C) C m (?T, Txn X')"
    if "m \<le> n" "restoring i X X'" for m X'
    using next_ok [OF that] that inv [OF that(2)]
    by (intro wp_fsync) (auto intro!: Suc.prems(8,9))
  have "wp (rollback_entry i ?e) (\<lambda>ok. wp (if \<not> ok then State_Monad.return False
       else fsync \<bind> (\<lambda>synced. if \<not> synced then State_Monad.return False
            else Rollback_from (Suc i) (drop (Suc i) es))) Q C) C n (T, Txn X)"
    using step inv by (intro wp_rollback_entry [where T = T and ?T0.0 = T0, OF Suc.prems(2) e]) (auto intro!: wp_bind Suc.prems(8,9))
  then show ?case
    using i by (auto simp: Cons_nth_drop_Suc [symmetric] intro!: wp_bind)
qed

section \<open>Recoverable disks\<close>

type_synonym tree = "string \<Rightarrow> node option"

text \<open>A journal of a transaction over the files \<open>ns\<close>.\<close>

definition journal_of :: "string list \<Rightarrow> JournalEntry list \<Rightarrow> bool" where
  "journal_of ns es \<longleftrightarrow>
     map je_name es = ns \<and> length es \<le> 1024 \<and> (\<forall>e \<in> set es. entry_valid e) \<and> txn_name \<notin> set ns"

text \<open>The disk can be brought back to the files \<open>T0\<close> before the transaction or is already at the
  files \<open>T1\<close> after it: no transaction directory; one without a journal, which is stale; one whose
  journal is pending and backed up; or one whose journal records the end.\<close>

definition settled :: "string list \<Rightarrow> tree \<Rightarrow> tree \<Rightarrow> tree \<Rightarrow> tree \<Rightarrow> bool" where
  "settled ns T0 T1 T X \<longleftrightarrow> known (length ns) X \<and>
     (X journal_name = None \<and> (T = T0 \<or> T = T1) \<or>
      (\<exists>es. journal_of ns es \<and>
         (X journal_name = Some (journal_node ''ROLLED_BACK'' es) \<and> T = T0 \<or>
          X journal_name = Some (journal_node ''COMPLETE'' es) \<and> T = T1)))"

definition pending :: "string list \<Rightarrow> tree \<Rightarrow> tree \<Rightarrow> tree \<Rightarrow> bool" where
  "pending ns T0 T X \<longleftrightarrow> known (length ns) X \<and>
     (\<exists>es. journal_of ns es \<and> X journal_name = Some (journal_node ''PENDING'' es) \<and> saved T0 es T X)"

fun recoverable :: "string list \<Rightarrow> tree \<Rightarrow> tree \<Rightarrow> view \<Rightarrow> bool" where
  "recoverable ns T0 T1 (T, NoTxn) \<longleftrightarrow> T = T0 \<or> T = T1"
| "recoverable ns T0 T1 (T, BadTxn) \<longleftrightarrow> False"
| "recoverable ns T0 T1 (T, Txn X) \<longleftrightarrow> settled ns T0 T1 T X \<or> pending ns T0 T X"

lemma settled_le: "settled ns T0 T1 T X \<Longrightarrow> X' \<subseteq>\<^sub>m X \<Longrightarrow> settled ns T0 T1 T X'"
  unfolding settled_def
  by (cases "X' journal_name") (auto simp: known_le map_le_def dom_def)

lemma settled_states: "settled ns T0 T1 T X \<Longrightarrow> T = T0 \<or> T = T1"
  by (auto simp: settled_def)

lemma wp_remove_settled:
  assumes s: "settled ns T0 T1 T X" and k: "length ns \<le> k"
    and Q: "Q True n (T, NoTxn)"
    and F: "\<And>m u. m < n \<Longrightarrow> recoverable ns T0 T1 u \<Longrightarrow> Q False m u"
    and C: "\<And>u. 0 < n \<Longrightarrow> recoverable ns T0 T1 u \<Longrightarrow> C u"
  shows "wp (RemoveTransactionDirectory k) Q C n (T, Txn X)"
proof (rule wp_RemoveTransactionDirectory)
  show "known k X" using s k by (auto simp: settled_def intro: known_more)
qed (use Q settled_states [OF s] settled_le [OF s] in \<open>auto intro!: F C\<close>)

lemma recoverable_next_only:
  assumes "pending ns T0 T X" and "next_only X X'"
  shows "pending ns T0 T X'"
proof -
  from assms(1) obtain es where es: "journal_of ns es" "X journal_name = Some (journal_node ''PENDING'' es)"
    "saved T0 es T X" "known (length ns) X" by (auto simp: pending_def)
  moreover have "known (length ns) X'" "X' journal_name = X journal_name" "\<And>j. X' (old_name j) = X (old_name j)"
    using es(4) assms(2) by (auto simp: next_only_def)
  ultimately show ?thesis by (auto simp: pending_def intro: saved_cong)
qed

lemma settled_journaled:
  assumes "known (length ns) X" and "journal_of ns es"
  shows "settled ns T0 T1 T0 (journaled ''ROLLED_BACK'' es X)"
    and "settled ns T0 T1 T1 (journaled ''COMPLETE'' es X)"
  using assms by (auto simp: settled_def journaled_def journal_node_def)

text \<open>Rollback, then the journal that records it.\<close>

lemma wp_rollback_journal:
  assumes p: "known (length es) X" "journal_of ns es" "saved T0 es T X"
      "X journal_name = Some (journal_node ''PENDING'' es)"
    and Q: "\<And>m X'. m \<le> n \<Longrightarrow> settled ns T0 T1 T0 X' \<Longrightarrow> Q True m (T0, Txn X')"
    and F: "\<And>m u. m < n \<Longrightarrow> recoverable ns T0 T1 u \<Longrightarrow> Q False m u"
    and C: "\<And>u. 0 < n \<Longrightarrow> recoverable ns T0 T1 u \<Longrightarrow> C u"
  shows "wp (do { ok \<leftarrow> Rollback es;
                  if ok then WriteJournal ''ROLLED_BACK'' es else State_Monad.return False }) Q C n (T, Txn X)"
proof -
  let ?J = "Some (journal_node ''PENDING'' es)"
  have len: "length ns = length es" using p(2) by (auto simp: journal_of_def)
  have names: "\<forall>e \<in> set es. je_name e \<noteq> txn_name" using p(2) by (force simp: journal_of_def)
  have pend: "pending ns T0 T' X'" if "known (length es) X'" "X' journal_name = ?J" "saved T0 es T' X'" for T' X'
    using that p(2) len by (auto simp: pending_def)
  have journal: "wp (WriteJournal ''ROLLED_BACK'' es) Q C m (T0, Txn X')"
    if "m \<le> n" "known (length es) X'" "X' journal_name = ?J" "saved T0 es T0 X'" for m X'
  proof -
    have next_pend: "next_only X' X'' \<Longrightarrow> pending ns T0 T0 X''" for X''
      using recoverable_next_only [OF pend [OF that(2-4)]] .
    have rb: "settled ns T0 T1 T0 (journaled ''ROLLED_BACK'' es X')"
      using settled_journaled p(2) that(2) len by auto
    show ?thesis
      using that(1,2) rb by (intro wp_WriteJournal) (auto intro!: Q F C dest: next_pend)
  qed
  have "wp (Rollback_from 0 (drop 0 es)) (\<lambda>ok. wp (if ok then WriteJournal ''ROLLED_BACK'' es else State_Monad.return False) Q C) C n (T, Txn X)"
    by (rule wp_Rollback_from [OF p(3,1) names p(4)]) (auto intro!: journal F C pend)
  then show ?thesis by (auto simp: Rollback_def intro: wp_bind)
qed

section \<open>Recovery\<close>

definition binding :: "string \<Rightarrow> string list \<Rightarrow> string list \<Rightarrow> bool" where
  "binding dir paths ns \<longleftrightarrow>
     (\<exists>allowed. map (NormalizeName dir) paths = map Some allowed \<and> distinct allowed \<and> subseq ns allowed)"

lemma binding_valid: "binding dir paths ns \<Longrightarrow> journal_of ns es \<Longrightarrow> ValidatePathBinding dir paths es"
  by (auto simp: ValidatePathBinding_iff binding_def journal_of_def)

lemma binding_length: "binding dir paths ns \<Longrightarrow> length ns \<le> length paths"
  by (metis binding_def length_map list_emb_length)

lemma wp_ReadJournal:
  assumes "X journal_name = Some (journal_node st es)" and "st \<in> {''PENDING'', ''COMPLETE'', ''ROLLED_BACK''}"
    and "journal_of ns es"
    and "Q (Some (st, es)) n (T, Txn X)" and "\<And>m. m < n \<Longrightarrow> Q None m (T, Txn X)" and "0 < n \<Longrightarrow> C (T, Txn X)"
  shows "wp ReadJournal Q C n (T, Txn X)"
proof -
  have "ParseJournal (JournalContents st es) = Some (st, es)"
    using assms(2,3) by (intro ParseJournal_Contents) (auto simp: journal_of_def)
  with assms show ?thesis
    unfolding ReadJournal_def
    by (auto intro!: wp_bind wp_open_read wp_fstat_open wp_ReadAll simp: journal_node_def split: option.splits node.splits)
qed

text \<open>What a recovery of a disk that is seen as \<open>v\<close> ends in.\<close>

definition recovered :: "string list \<Rightarrow> tree \<Rightarrow> tree \<Rightarrow> nat \<Rightarrow> bool \<Rightarrow> nat \<Rightarrow> view \<Rightarrow> bool" where
  "recovered ns T0 T1 n r m u \<longleftrightarrow>
     recoverable ns T0 T1 u \<and> (if r then snd u = NoTxn \<and> m \<le> n else m < n)"

text \<open>The disk after a crash; without a fault there is none.\<close>

definition survivable :: "string list \<Rightarrow> tree \<Rightarrow> tree \<Rightarrow> nat \<Rightarrow> view \<Rightarrow> bool" where
  survivable_iff [simp]: "survivable ns T0 T1 n u \<longleftrightarrow> 0 < n \<and> recoverable ns T0 T1 u"

lemma journal_cases:
  assumes "settled ns T0 T1 T X \<and> X journal_name \<noteq> None \<or> pending ns T0 T X"
  shows "\<exists>st es. X journal_name = Some (journal_node st es) \<and> journal_of ns es \<and>
    st \<in> {''PENDING'', ''COMPLETE'', ''ROLLED_BACK''} \<and>
    (if st = ''PENDING'' then saved T0 es T X \<and> known (length es) X else settled ns T0 T1 T X)"
  using assms
proof (elim disjE conjE)
  assume set: "settled ns T0 T1 T X" and "X journal_name \<noteq> None"
  then obtain st es where "X journal_name = Some (journal_node st es)" "journal_of ns es"
    "st = ''COMPLETE'' \<or> st = ''ROLLED_BACK''"
    unfolding settled_def by blast
  with set show ?thesis by (intro exI [of _ st] exI [of _ es]) auto
next
  assume "pending ns T0 T X"
  then obtain es where "X journal_name = Some (journal_node ''PENDING'' es)" "journal_of ns es"
    "saved T0 es T X" "known (length ns) X" unfolding pending_def by blast
  then show ?thesis
    by (intro exI [of _ "''PENDING''"] exI [of _ es]) (auto simp: journal_of_def)
qed

lemma wp_recover_no_journal:
  assumes "X journal_name = None" and "\<And>m. m \<le> n \<Longrightarrow> Q False m (T, Txn X)" and "0 < n \<Longrightarrow> C (T, Txn X)"
  shows "wp (recover_journal dir paths) Q C n (T, Txn X)"
  unfolding recover_journal_def ReadJournal_def using assms
  by (auto intro!: wp_bind wp_open_read split: option.splits node.splits)

lemma wp_recover_journal:
  assumes X: "settled ns T0 T1 T X \<and> X journal_name \<noteq> None \<or> pending ns T0 T X"
    and b: "binding dir paths ns"
  shows "wp (recover_journal dir paths) (recovered ns T0 T1 n) (survivable ns T0 T1 n) n (T, Txn X)"
proof -
  have rec: "recoverable ns T0 T1 (T, Txn X)" using X by auto
  obtain st es where es: "X journal_name = Some (journal_node st es)" "journal_of ns es"
    "st \<in> {''PENDING'', ''COMPLETE'', ''ROLLED_BACK''}"
    "if st = ''PENDING'' then saved T0 es T X \<and> known (length es) X else settled ns T0 T1 T X"
    using journal_cases [OF X] by blast
  have len: "length ns = length es" using es(2) by (auto simp: journal_of_def)
  have rem: "wp (RemoveTransactionDirectory (length es)) (recovered ns T0 T1 n) (survivable ns T0 T1 n) m (T', Txn X')"
    if "m \<le> n" "settled ns T0 T1 T' X'" for m T' X'
    using that settled_states [OF that(2)] len
    by (intro wp_remove_settled [OF that(2)]) (auto simp: recovered_def)
  let ?roll = "do { ok \<leftarrow> Rollback es;
                  if ok then WriteJournal ''ROLLED_BACK'' es else State_Monad.return False }"
  have act: "wp (if st = ''PENDING'' then ?roll else State_Monad.return True)
     (\<lambda>ok. wp (if ok then RemoveTransactionDirectory (length es) else State_Monad.return False)
        (recovered ns T0 T1 n) (survivable ns T0 T1 n)) (survivable ns T0 T1 n) n (T, Txn X)"
  proof (cases "st = ''PENDING''")
    case True
    have "wp ?roll
     (\<lambda>ok. wp (if ok then RemoveTransactionDirectory (length es) else State_Monad.return False)
        (recovered ns T0 T1 n) (survivable ns T0 T1 n)) (survivable ns T0 T1 n) n (T, Txn X)"
      by (rule wp_rollback_journal [where ns = ns])
        (use es True rem in \<open>auto simp: recovered_def\<close>)
    with True show ?thesis by simp
  next
    case False
    with es rem [of n T X] show ?thesis by auto
  qed
  show ?thesis
    unfolding recover_journal_def
  proof (rule wp_bind)
    show "wp ReadJournal (\<lambda>j. wp (case j of None \<Rightarrow> State_Monad.return False
        | Some (jstate, entries) \<Rightarrow>
            if \<not> ValidatePathBinding dir paths entries then State_Monad.return False
            else do {
              ok \<leftarrow> (if jstate = ''PENDING'' then do {
                         ok \<leftarrow> Rollback entries;
                         if ok then WriteJournal ''ROLLED_BACK'' entries else State_Monad.return False }
                      else State_Monad.return True);
              if ok then RemoveTransactionDirectory (length entries) else State_Monad.return False })
        (recovered ns T0 T1 n) (survivable ns T0 T1 n)) (survivable ns T0 T1 n) n (T, Txn X)"
    proof (rule wp_ReadJournal [where X = X])
      show "wp (case Some (st, es) of None \<Rightarrow> State_Monad.return False
        | Some (jstate, entries) \<Rightarrow>
            if \<not> ValidatePathBinding dir paths entries then State_Monad.return False
            else do {
              ok \<leftarrow> (if jstate = ''PENDING'' then do {
                         ok \<leftarrow> Rollback entries;
                         if ok then WriteJournal ''ROLLED_BACK'' entries else State_Monad.return False }
                      else State_Monad.return True);
              if ok then RemoveTransactionDirectory (length entries) else State_Monad.return False })
        (recovered ns T0 T1 n) (survivable ns T0 T1 n) n (T, Txn X)"
        using act binding_valid [OF b es(2)] by (simp only: option.case prod.case simp_thms if_False) (rule wp_bind, auto)
    qed (use es rec in \<open>auto simp: recovered_def\<close>)
  qed (auto split: option.splits)
qed

lemma wp_stat_txn:
  assumes "\<And>e. snd v = NoTxn \<Longrightarrow> Q Missing n v" and "\<And>e. (\<exists>X. snd v = Txn X) \<Longrightarrow> Q (Found (Dir e)) n v"
    and "snd v \<noteq> BadTxn" and "0 < n \<Longrightarrow> Q StatError (n - 1) v" and "0 < n \<Longrightarrow> C v"
  shows "wp (fstatat TlsDir txn_name) Q C n v"
  unfolding fstatat_def
proof (rule wp_syscall)
  fix d assume d: "d_real d" "view d = v"
  consider "node_at TlsDir txn_name d = None" "snd v = NoTxn"
    | e m where "node_at TlsDir txn_name d = Some (Dir e)" "snd v = Txn m"
  proof (cases "snd v")
    case (Txn m)
    then obtain e where "node_at TlsDir txn_name d = Some (Dir e)"
      using view_txn_cases(2) [of d m] d by auto
    with Txn that(2) show ?thesis by blast
  qed (use assms(3) view_txn_cases(1) [of d] d that(1) in auto)
  then show "d_real (snd (case node_at TlsDir txn_name d of None \<Rightarrow> Missing | Some x \<Rightarrow> Found x, d)) \<and>
     Q (fst (case node_at TlsDir txn_name d of None \<Rightarrow> Missing | Some x \<Rightarrow> Found x, d)) n
      (view (snd (case node_at TlsDir txn_name d of None \<Rightarrow> Missing | Some x \<Rightarrow> Found x, d)))"
    using d assms(1,2) by cases auto
qed (use assms in auto)

lemma wp_Recover:
  assumes v: "recoverable ns T0 T1 v" and b: "binding dir paths ns"
  shows "wp (RecoverTlsTransaction dir paths) (recovered ns T0 T1 n) (survivable ns T0 T1 n) n v"
proof -
  obtain T X where vT: "v = (T, X)" by fastforce
  have fail: "recovered ns T0 T1 n False m v" if "m < n" for m using v that by (simp add: recovered_def)
  show ?thesis
  proof (cases X)
    case NoTxn
    then have "recovered ns T0 T1 n True n v" using v vT by (simp add: recovered_def)
    with fail v vT NoTxn show ?thesis
      unfolding RecoverTlsTransaction_def
      by (auto intro!: wp_bind wp_OpenDirectory wp_stat_txn split: stat_result.splits node.splits)
  next
    case BadTxn
    with v vT show ?thesis by simp
  next
    case (Txn M)
    then have dec: "settled ns T0 T1 T M \<or> pending ns T0 T M" using v vT by simp
    have journal: "wp (fstatat TxnDir journal_name) (\<lambda>j. wp (if j = Missing then RemoveTransactionDirectory (length paths)
        else recover_journal dir paths) (recovered ns T0 T1 n) (survivable ns T0 T1 n)) (survivable ns T0 T1 n) n v"
    proof (cases "M journal_name = None")
      case True
      then have set: "settled ns T0 T1 T M" using dec by (auto simp: pending_def)
      have "wp (RemoveTransactionDirectory (length paths)) (recovered ns T0 T1 n) (survivable ns T0 T1 n) n v"
        unfolding vT Txn using settled_states [OF set]
        by (intro wp_remove_settled [OF set binding_length [OF b]]) (auto simp: recovered_def)
      with True vT Txn v fail show ?thesis
        by (auto intro!: wp_fstatat wp_recover_no_journal)
    next
      case False
      with dec vT Txn v show ?thesis
        by (auto intro!: wp_fstatat wp_recover_journal [OF _ b] wp_mono [of "recover_journal dir paths" _ _ n])
    qed
    then show ?thesis
      unfolding RecoverTlsTransaction_def using fail v vT Txn
      by (auto intro!: wp_bind [where f = OpenDirectoryNoFollow] wp_bind [where f = "fstatat _ _"] wp_bind [where f = open_txn]
          wp_OpenDirectory wp_stat_txn wp_open_txn split: stat_result.splits node.splits)
  qed
qed

end
