(* ===== verification/Tls_Commit.thy ===== *)
theory Tls_Commit
  imports Tls_Crash
begin

text \<open>
  The commit of the TLS file transaction: staging, publishing and the error paths, with at most one
  fault, and the two places where a second fault breaks the promise.
\<close>

section \<open>What a commit is meant to do\<close>

definition new_node :: "TlsTransactionFile \<Rightarrow> node" where
  "new_node f = Reg (tf_contents f) (nat (tf_mode f))"

definition after :: "tree \<Rightarrow> (TlsTransactionFile \<times> string) list \<Rightarrow> tree" where
  "after T0 fs = T0 ++ map_of (map (\<lambda>(f, name). (name, new_node f)) fs)"

text \<open>The old files a transaction can back up: missing, or regular with permission bits only.\<close>

definition replaceable :: "node option \<Rightarrow> bool" where
  "replaceable x \<longleftrightarrow> (case x of None \<Rightarrow> True | Some (Reg c m) \<Rightarrow> m < 512 | _ \<Rightarrow> False)"

lemma replaceable_iff: "replaceable x \<longleftrightarrow> x = None \<or> (\<exists>c m. x = Some (Reg c m) \<and> m < 512)"
  by (auto simp: replaceable_def split: option.splits node.splits)

definition entry_for :: "tree \<Rightarrow> TlsTransactionFile \<times> string \<Rightarrow> JournalEntry" where
  "entry_for T0 p = (case p of (f, name) \<Rightarrow>
     entry_of name f (T0 name \<noteq> None) (case T0 name of Some (Reg c m) \<Rightarrow> m | _ \<Rightarrow> 0))"

lemma je_name_entry_for [simp]: "je_name (entry_for T0 p) = snd p"
  by (simp add: entry_for_def entry_of_def split: prod.splits)

lemma je_name_entry_of [simp]: "je_name (entry_of n f b m) = n"
  by (simp add: entry_of_def)

section \<open>Staging\<close>

definition staged :: "tree \<Rightarrow> (TlsTransactionFile \<times> string) list \<Rightarrow> nat \<Rightarrow> tree \<Rightarrow> bool" where
  "staged T0 all i X \<longleftrightarrow>
     known i X \<and> X journal_name = None \<and> X next_name = None \<and>
     (\<forall>j<i. X (new_name j) = Some (new_node (fst (all ! j))) \<and> backed T0 X j (entry_for T0 (all ! j)))"

lemma known_absentI: "known k X \<Longrightarrow> f \<notin> set (known_names k) \<Longrightarrow> X f = None"
  by (cases "X f") (auto simp: known_def)

lemma known_absent [simp]:
  "known i X \<Longrightarrow> X (new_name i) = None" "known i X \<Longrightarrow> X (old_name i) = None"
  "known i X \<Longrightarrow> X (restore_name i) = None"
  by (erule known_absentI, simp)+

lemma wp_stage_one:
  assumes st: "staged T0 all i X" and i: "all ! i = (f, name)"
    and T0: "replaceable (T0 name)" and name: "name \<noteq> txn_name"
    and Q: "\<And>X'. staged T0 all (Suc i) X' \<Longrightarrow> Q True n (T0, Txn X')"
    and F: "\<And>m X'. m < n \<Longrightarrow> known (Suc i) X' \<Longrightarrow> X' journal_name = None \<Longrightarrow> Q False m (T0, Txn X')"
    and C: "\<And>X'. 0 < n \<Longrightarrow> known (Suc i) X' \<Longrightarrow> X' journal_name = None \<Longrightarrow> C (T0, Txn X')"
    and em: "(existed, mode) = (case T0 name of Some (Reg c m) \<Rightarrow> (True, m) | _ \<Rightarrow> (False, 0))"
  shows "wp (if existed then CopyFileAt TlsDir name TxnDir (old_name i) (mode mod 512) else State_Monad.return True)
     (\<lambda>ok. wp (if ok then WriteFileAt TxnDir (new_name i) (tf_contents f) (nat (tf_mode f))
             else State_Monad.return False) Q C) C n (T0, Txn X)"
proof -
  have k: "known i X" "X journal_name = None" "X next_name = None" using st by (auto simp: staged_def)
  have kS: "known (Suc i) X" using k(1) by (rule known_more) simp
  have le: "\<And>j c. j < i \<Longrightarrow> (X(old_name i := c)) (new_name j) = X (new_name j)" by simp
  have new: "wp (WriteFileAt TxnDir (new_name i) (tf_contents f) (nat (tf_mode f))) Q C n (T0, Txn X1)"
    if X1: "X1 = X(old_name i := y)" and y: "regular y" "backed T0 X1 i (entry_for T0 (f, name))" for X1 y
  proof (rule wp_WriteFileAt)
    have kX1: "known (Suc i) X1" using X1 y(1) kS by (auto simp: regular_iff)
    have j: "X1 journal_name = None" "X1 next_name = None" "X1 (new_name i) = None"
      using X1 k by simp_all
    have "staged T0 all (Suc i) (X1(new_name i \<mapsto> new_node f))"
      using kX1 j st X1 y(2) i by (auto simp: staged_def less_Suc_eq backed_def new_node_def)
    then show "vlook (T0, Txn X1) TxnDir (new_name i) = None \<Longrightarrow>
      Q True n (vput TxnDir (new_name i) (Some (Reg (tf_contents f) (nat (tf_mode f)))) (T0, Txn X1))"
      by (auto intro!: Q simp: new_node_def)
    show "vlook (T0, Txn X1) TxnDir (new_name i) \<noteq> None \<Longrightarrow> Q False n (T0, Txn X1)" using j by simp
    show "Q False m u" if "m < n" "leftover TxnDir (new_name i) (T0, Txn X1) u" for m u
      using that kX1 j by (auto simp: leftover_def intro!: F)
    show "C u" if "0 < n" "leftover TxnDir (new_name i) (T0, Txn X1) u" for u
      using that kX1 j by (auto simp: leftover_def intro!: C)
  qed simp_all
  show ?thesis
  proof (cases "T0 name")
    case None
    then have "existed = False" using em by simp
    moreover have "X(old_name i := None) = X" using k(1) by auto
    then have "wp (WriteFileAt TxnDir (new_name i) (tf_contents f) (nat (tf_mode f))) Q C n (T0, Txn X)"
      using new [of X None] None by (simp add: regular_iff backed_def entry_for_def entry_of_def)
    ultimately show ?thesis by auto
  next
    case (Some x)
    then obtain c m where x: "x = Reg c m" "m < 512" using T0 by (auto simp: replaceable_iff)
    then have em': "existed" "mode = m" using em Some by auto
    have b: "backed T0 (X(old_name i \<mapsto> Reg c m)) i (entry_for T0 (f, name))"
      using Some x by (simp add: backed_def entry_for_def entry_of_def)
    have "wp (CopyFileAt TlsDir name TxnDir (old_name i) (mode mod 512))
     (\<lambda>ok. wp (if ok then WriteFileAt TxnDir (new_name i) (tf_contents f) (nat (tf_mode f))
             else State_Monad.return False) Q C) C n (T0, Txn X)"
    proof (rule wp_CopyFileAt)
      show "vlook (T0, Txn X) TlsDir name = Some (Reg c m)" using Some x by simp
      show "wp (if True then WriteFileAt TxnDir (new_name i) (tf_contents f) (nat (tf_mode f))
             else State_Monad.return False) Q C n
          (vput TxnDir (old_name i) (Some (Reg c (mode mod 512))) (T0, Txn X))"
        using new [of "X(old_name i \<mapsto> Reg c m)" "Some (Reg c m)"] b em' x by (simp add: regular_iff)
    qed (use k kS name in \<open>auto simp: leftover_def intro!: F C\<close>)
    with em' show ?thesis by simp
  qed
qed

lemma wp_stage_files:
  assumes "staged T0 all i X" and "i \<le> length all"
    and "\<forall>p \<in> set all. replaceable (T0 (snd p)) \<and> snd p \<noteq> txn_name"
    and "\<And>X'. staged T0 all (length all) X' \<Longrightarrow> Q (True, map (entry_for T0) (drop i all)) n (T0, Txn X')"
    and "\<And>m es X'. m < n \<Longrightarrow> known (i + length es) X' \<Longrightarrow> i + length es \<le> length all \<Longrightarrow>
      X' journal_name = None \<Longrightarrow> Q (False, es) m (T0, Txn X')"
    and "\<And>X'. 0 < n \<Longrightarrow> known (length all) X' \<Longrightarrow> X' journal_name = None \<Longrightarrow> C (T0, Txn X')"
  shows "wp (stage_files i (drop i all)) Q C n (T0, Txn X)"
  using assms
proof (induction "length all - i" arbitrary: i X Q)
  case 0
  then show ?case by auto
next
  case (Suc d)
  then have i: "i < length all" by simp
  obtain f name where fn: "all ! i = (f, name)" by fastforce
  have r: "replaceable (T0 name)" "name \<noteq> txn_name" using Suc.prems(3) i fn by (force dest: nth_mem)+
  define q where "q = (case T0 name of Some (Reg c m) \<Rightarrow> (True, m) | _ \<Rightarrow> (False, 0 :: nat))"
  obtain existed mode where em: "q = (existed, mode)" by fastforce
  have ens: "(case T0 name of None \<Rightarrow> (True, False, 0) | Some (Reg c m) \<Rightarrow> (True, True, m)
             | Some _ \<Rightarrow> (False, True, 0)) = (True, existed, mode)"
    and entry: "entry_of name f existed mode = entry_for T0 (all ! i)"
    using r(1) em fn by (auto simp: replaceable_iff q_def entry_for_def)
  let ?tail = "\<lambda>ok. if \<not> ok then State_Monad.return (False, [entry_of name f existed mode])
     else stage_files (Suc i) (drop (Suc i) all) \<bind> (\<lambda>(ok, entries). State_Monad.return (ok, entry_of name f existed mode # entries))"
  have tail: "wp (stage_files (Suc i) (drop (Suc i) all))
      (\<lambda>r. wp (case r of (ok, entries) \<Rightarrow> State_Monad.return (ok, entry_of name f existed mode # entries)) Q C) C n (T0, Txn X')"
    if st: "staged T0 all (Suc i) X'" for X'
  proof (rule Suc.hyps(1))
    show "d = length all - Suc i" "Suc i \<le> length all" using Suc.hyps(2) i by simp_all
    show "wp (case (True, map (entry_for T0) (drop (Suc i) all)) of (ok, entries) \<Rightarrow>
        State_Monad.return (ok, entry_of name f existed mode # entries)) Q C n (T0, Txn X'')"
      if "staged T0 all (length all) X''" for X''
    proof -
      have "Q (True, map (entry_for T0) (drop i all)) n (T0, Txn X'')" using that by (rule Suc.prems(4))
      also have "map (entry_for T0) (drop i all) = entry_of name f existed mode # map (entry_for T0) (drop (Suc i) all)"
        using i by (simp add: entry Cons_nth_drop_Suc [symmetric])
      finally show ?thesis by auto
    qed
    show "wp (case (False, es) of (ok, entries) \<Rightarrow> State_Monad.return (ok, entry_of name f existed mode # entries))
        Q C m (T0, Txn X'')"
      if "m < n" "known (Suc i + length es) X''" "Suc i + length es \<le> length all" "X'' journal_name = None" for m es X''
      using that by (auto intro!: Suc.prems(5))
  qed (use st Suc.prems(3,6) in auto)
  have one: "wp (if existed then CopyFileAt TlsDir name TxnDir (old_name i) (mode mod 512) else State_Monad.return True)
     (\<lambda>ok. wp (if ok then WriteFileAt TxnDir (new_name i) (tf_contents f) (nat (tf_mode f))
             else State_Monad.return False) (\<lambda>ok. wp (?tail ok) Q C) C) C n (T0, Txn X)"
  proof (rule wp_stage_one [OF Suc.prems(1) fn r])
    show "wp (?tail True) Q C n (T0, Txn X')" if "staged T0 all (Suc i) X'" for X'
      using tail [OF that] by (auto intro!: wp_bind)
    show "wp (?tail False) Q C m (T0, Txn X')"
      if "m < n" "known (Suc i) X'" "X' journal_name = None" for m X'
      using that i by (auto intro!: Suc.prems(5))
    show "C (T0, Txn X')" if "0 < n" "known (Suc i) X'" "X' journal_name = None" for X'
      using that i by (auto intro!: Suc.prems(6) elim: known_more)
    show "(existed, mode) = (case T0 name of Some (Reg c m) \<Rightarrow> (True, m) | _ \<Rightarrow> (False, 0))"
      using em by (simp add: q_def)
  qed
  have kX: "known (Suc i) X" "known (length all) X" "X journal_name = None"
    using Suc.prems(1) i by (auto simp: staged_def elim: known_more)
  let ?body = "\<lambda>(ok, existed, mode).
      (if ok \<and> existed then CopyFileAt TlsDir name TxnDir (old_name i) (mode mod 512) else State_Monad.return ok) \<bind>
       (\<lambda>ok. (if ok then WriteFileAt TxnDir (new_name i) (tf_contents f) (nat (tf_mode f))
             else State_Monad.return False) \<bind> (\<lambda>ok.
         if \<not> ok then State_Monad.return (False, [entry_of name f existed mode])
         else stage_files (Suc i) (drop (Suc i) all) \<bind> (\<lambda>(ok, entries). State_Monad.return (ok, entry_of name f existed mode # entries))))"
  have body: "wp (?body (True, existed, mode)) Q C n (T0, Txn X)"
    unfolding prod.case
    by (rule wp_bind, simp only: simp_thms, rule wp_conseq [OF one], rule wp_bind) (auto split: prod.splits)
  have "wp (EnsureRegularOrMissing TlsDir name) (\<lambda>r. wp (?body r) Q C) C n (T0, Txn X)"
    using kX i r(2) body by (intro wp_Ensure) (auto simp: ens intro!: wp_bind Suc.prems(5,6))
  then show ?case
    using i fn by (auto simp: Cons_nth_drop_Suc [symmetric] intro!: wp_bind split: prod.splits)
qed

section \<open>Publishing\<close>

text \<open>The transaction while its files are renamed into place: the first \<open>i\<close> names have their new
  files, the others still wait in the transaction directory.\<close>

definition publishing :: "tree \<Rightarrow> (TlsTransactionFile \<times> string) list \<Rightarrow> nat \<Rightarrow> tree \<Rightarrow> tree \<Rightarrow> bool" where
  "publishing T0 all i T X \<longleftrightarrow>
     saved T0 (map (entry_for T0) all) T X \<and> known (length all) X \<and>
     X journal_name = Some (journal_node ''PENDING'' (map (entry_for T0) all)) \<and>
     (\<forall>j<length all. if j < i then T (snd (all ! j)) = Some (new_node (fst (all ! j)))
        else X (new_name j) = Some (new_node (fst (all ! j))))"

lemma publishing_after:
  assumes "publishing T0 all (length all) T X" and "distinct (map snd all)"
  shows "T = after T0 all"
proof
  fix f
  let ?m = "map (\<lambda>(f, name). (name, new_node f)) all"
  have keys: "map fst ?m = map snd all" by (auto simp: comp_def split: prod.splits)
  show "T f = after T0 all f"
  proof (cases "f \<in> set (map snd all)")
    case True
    then obtain j where j: "j < length all" "f = snd (all ! j)" by (auto simp: in_set_conv_nth)
    then have "(f, new_node (fst (all ! j))) \<in> set ?m"
      by (force simp: set_conv_nth split: prod.splits)
    then have "map_of ?m f = Some (new_node (fst (all ! j)))"
      by (rule map_of_is_SomeI [rotated]) (unfold keys, fact assms(2))
    with j assms(1) show ?thesis by (simp add: publishing_def after_def map_add_Some_iff [THEN iffD2])
  next
    case False
    then have "f \<notin> je_name ` set (map (entry_for T0) all)" by (simp add: image_image)
    then have "T f = T0 f" using assms(1) unfolding publishing_def saved_def by blast
    moreover have "map_of ?m f = None" using False keys by (metis map_of_eq_None_iff set_map)
    ultimately show ?thesis by (simp add: after_def map_add_def)
  qed
qed

lemma saved_publish:
  assumes "saved T0 es T X" and "i < length es"
  shows "saved T0 es (T(je_name (es ! i) \<mapsto> Reg c m)) (X(new_name j := y))"
proof -
  have "je_name (es ! i) \<in> je_name ` set es" using assms(2) by simp
  with assms show ?thesis unfolding saved_def backed_def regular_iff by auto
qed

lemma wp_publish_files:
  assumes "publishing T0 all i T X" and "i \<le> length all" and "distinct (map snd all)"
    and "\<forall>p \<in> set all. snd p \<noteq> txn_name"
    and "\<And>X'. publishing T0 all (length all) (after T0 all) X' \<Longrightarrow> Q True n (after T0 all, Txn X')"
    and "\<And>m T' X' j. m < n \<Longrightarrow> publishing T0 all j T' X' \<Longrightarrow> Q False m (T', Txn X')"
    and "\<And>T' X' j. 0 < n \<Longrightarrow> publishing T0 all j T' X' \<Longrightarrow> C (T', Txn X')"
  shows "wp (publish_files i (drop i (map snd all))) Q C n (T, Txn X)"
  using assms
proof (induction "length all - i" arbitrary: i T X)
  case 0
  then have "publishing T0 all (length all) T X" by simp
  with 0 publishing_after show ?case by auto
next
  case (Suc d)
  then have i: "i < length all" by simp
  let ?name = "snd (all ! i)" and ?new = "new_node (fst (all ! i))"
  let ?T = "T(?name \<mapsto> ?new)" and ?X = "X(new_name i := None)"
  have drop: "drop i (map snd all) = ?name # drop (Suc i) (map snd all)"
    using i by (simp add: Cons_nth_drop_Suc [symmetric])
  have name: "?name \<noteq> txn_name" using Suc.prems(4) i by simp
  have reg: "regular (T ?name)" using Suc.prems(1) i by (simp add: publishing_def saved_def)
  have X: "X (new_name i) = Some ?new" using Suc.prems(1) i by (simp add: publishing_def)
  have other: "snd (all ! j) \<noteq> ?name" if "j < length all" "j \<noteq> i" for j
    using Suc.prems(3) i that by (auto simp: distinct_conv_nth)
  have pub: "publishing T0 all (Suc i) ?T ?X"
  proof -
    have "saved T0 (map (entry_for T0) all) ?T ?X"
      using saved_publish [of T0 "map (entry_for T0) all" T X i] Suc.prems(1) i
      by (simp add: publishing_def new_node_def)
    with Suc.prems(1) i other show ?thesis
      by (auto simp: publishing_def less_Suc_eq)
  qed
  have rest: "wp fsync (\<lambda>synced. wp (if \<not> synced then State_Monad.return False
      else publish_files (Suc i) (drop (Suc i) (map snd all))) Q C) C n (?T, Txn ?X)"
    using Suc.hyps(1) [OF _ pub] Suc.hyps(2) i Suc.prems(3-7) pub by (intro wp_fsync) auto
  have "wp (renameat TxnDir (new_name i) TlsDir ?name) (\<lambda>renamed. wp (if \<not> renamed then State_Monad.return False
      else fsync \<bind> (\<lambda>synced. if \<not> synced then State_Monad.return False
      else publish_files (Suc i) (drop (Suc i) (map snd all)))) Q C) C n (T, Txn X)"
  proof (rule wp_renameat)
    show "vlook (T, Txn X) TxnDir (new_name i) = Some (Reg (tf_contents (fst (all ! i))) (nat (tf_mode (fst (all ! i)))))"
      using X by (simp add: new_node_def)
    show "wp (if \<not> True then State_Monad.return False
      else fsync \<bind> (\<lambda>synced. if \<not> synced then State_Monad.return False
      else publish_files (Suc i) (drop (Suc i) (map snd all)))) Q C n
      (vput TlsDir ?name (Some (Reg (tf_contents (fst (all ! i))) (nat (tf_mode (fst (all ! i))))))
        (vput TxnDir (new_name i) None (T, Txn X)))"
      using rest by (auto simp: new_node_def intro!: wp_bind)
  qed (use reg name Suc.prems(1,6,7) in \<open>auto simp: regular_iff\<close>)
  then have "wp (EnsureRegularOrMissing TlsDir ?name) (\<lambda>r. wp (if \<not> fst r then State_Monad.return False
      else renameat TxnDir (new_name i) TlsDir ?name \<bind> (\<lambda>renamed. if \<not> renamed then State_Monad.return False
      else fsync \<bind> (\<lambda>synced. if \<not> synced then State_Monad.return False
      else publish_files (Suc i) (drop (Suc i) (map snd all))))) Q C) C n (T, Txn X)"
    using reg name Suc.prems(1,6,7)
    by (intro wp_Ensure) (auto simp: regular_iff intro!: wp_bind [where f = "renameat _ _ _ _"])
  then show ?case
    unfolding drop by (auto simp: case_prod_beta intro!: wp_bind [where f = "EnsureRegularOrMissing _ _"])
qed

section \<open>The whole commit\<close>

definition committable :: "tree \<Rightarrow> (TlsTransactionFile \<times> string) list \<Rightarrow> bool" where
  "committable T0 all \<longleftrightarrow>
     length all \<le> 1024 \<and> distinct (map snd all) \<and>
     (\<forall>p \<in> set all. replaceable (T0 (snd p)) \<and> snd p \<noteq> txn_name \<and> IsDirectName (snd p) \<and>
        tf_mode (fst p) \<in> {384, 420})"

definition committed :: "tree \<Rightarrow> (TlsTransactionFile \<times> string) list \<Rightarrow> nat \<Rightarrow> bool \<Rightarrow> nat \<Rightarrow> view \<Rightarrow> bool" where
  "committed T0 all n r m u \<longleftrightarrow>
     recoverable (map snd all) T0 (after T0 all) u \<and> (if r then u = (after T0 all, NoTxn) else m < n)"

lemma journal_of_entries: "committable T0 all \<Longrightarrow> journal_of (map snd all) (map (entry_for T0) all)"
proof -
  assume c: "committable T0 all"
  have "entry_valid (entry_for T0 p)" if "p \<in> set all" for p
  proof -
    have "(m :: nat) mod 512 < 512" for m by simp
    then have "int (m mod 512) \<le> 511" for m by (simp add: zle_int [of _ 511, symmetric, simplified] less_Suc_eq_le [symmetric])
    with c that show ?thesis
      by (fastforce simp: committable_def entry_valid_def entry_for_def entry_of_def split: prod.splits)
  qed
  with c show ?thesis by (auto simp: journal_of_def committable_def comp_def)
qed

lemma saved_start:
  assumes "committable T0 all" and "staged T0 all (length all) X"
  shows "saved T0 (map (entry_for T0) all) T0 X"
  using assms by (auto simp: saved_def staged_def committable_def replaceable_iff regular_iff)

lemma publishing_start:
  assumes "committable T0 all" and st: "staged T0 all (length all) X"
  shows "publishing T0 all 0 T0 (journaled ''PENDING'' (map (entry_for T0) all) X)"
proof -
  have "saved T0 (map (entry_for T0) all) T0 (journaled ''PENDING'' (map (entry_for T0) all) X)"
    using saved_start [OF assms] by (rule saved_cong) (simp add: journaled_def)
  with st show ?thesis
    by (auto simp: publishing_def staged_def journaled_def journal_node_def)
qed

lemma publishing_pending:
  "committable T0 all \<Longrightarrow> publishing T0 all i T X \<Longrightarrow> pending (map snd all) T0 T X"
  using journal_of_entries by (auto simp: publishing_def pending_def)

text \<open>After a fault nothing fails any more: the rollback runs to its end.\<close>

lemma wp_rollback_now:
  assumes c: "committable T0 all" and s: "saved T0 (map (entry_for T0) all) T X" and k: "known (length all) X"
    and Q: "\<And>X'. known (length all) X' \<Longrightarrow> Q True 0 (T0, Txn X')"
  shows "wp (Rollback (map (entry_for T0) all)) Q C 0 (T, Txn X)"
proof -
  have "wp (Rollback_from 0 (drop 0 (map (entry_for T0) all))) Q C 0 (T, Txn X)"
    by (rule wp_Rollback_from [OF s _ _ refl]) (use k Q c in \<open>auto simp: committable_def\<close>)
  then show ?thesis by (simp add: Rollback_def)
qed

lemma wp_cleanup_now:
  assumes "known k X" and "Q True 0 (T, NoTxn)"
  shows "wp (RemoveTransactionDirectory k) Q C 0 (T, Txn X)"
  using assms by (intro wp_RemoveTransactionDirectory) auto

lemma wp_journal_now:
  assumes "known k X" and "Q True 0 (T, Txn (journaled st es X))"
  shows "wp (WriteJournal st es) Q C 0 (T, Txn X)"
  using assms by (intro wp_WriteJournal) auto

lemma known_journaled: "known k X \<Longrightarrow> known k (journaled st es X)"
  by (simp add: journaled_def journal_node_def)

lemma known_next_only: "known k X \<Longrightarrow> next_only X X' \<Longrightarrow> known k X'"
  by (auto simp: next_only_def)

lemma committed_False: "0 < n \<Longrightarrow> recoverable (map snd all) T0 (after T0 all) u \<Longrightarrow> committed T0 all n False 0 u"
  by (simp add: committed_def)

lemma wp_commit_finish:
  assumes c: "committable T0 all" and p: "publishing T0 all (length all) T1 X"
    and T1: "T1 = after T0 all" and m: "m \<le> n" "n \<le> 1" and es: "es = map (entry_for T0) all"
  shows "wp (do {
       completed \<leftarrow> WriteJournal ''COMPLETE'' es;
       if \<not> completed then do {
         rolled_back \<leftarrow> Rollback es;
         if \<not> rolled_back then State_Monad.return False
         else do {
           _ \<leftarrow> WriteJournal ''ROLLED_BACK'' es;
           State_Monad.return False } }
       else RemoveTransactionDirectory (length es) })
     (committed T0 all n) (survivable (map snd all) T0 (after T0 all) n) m (T1, Txn X)" (is "wp _ ?Q ?C m _")
proof -
  have j: "journal_of (map snd all) es" using journal_of_entries [OF c] es by simp
  have k: "known (length all) X" "saved T0 es T1 X" using p es by (auto simp: publishing_def)
  have len: "length (map snd all) = length all" "length es = length all" using es by simp_all
  have pend: "next_only X X' \<Longrightarrow> pending (map snd all) T0 T1 X'" for X'
    using recoverable_next_only publishing_pending [OF c p] by blast
  have complete: "settled (map snd all) T0 T1 T1 (journaled ''COMPLETE'' es X)"
    using settled_journaled [OF _ j] k(1) len by simp
  have recov: "recoverable (map snd all) T0 (after T0 all) (T1, Txn X')" if "next_only X X' \<or> X' = journaled ''COMPLETE'' es X" for X'
    using that pend complete T1 by auto
  have undo: "wp (do { rolled_back \<leftarrow> Rollback es;
         if \<not> rolled_back then State_Monad.return False
         else do { _ \<leftarrow> WriteJournal ''ROLLED_BACK'' es; State_Monad.return False } }) ?Q ?C i (T1, Txn X')"
    if "i < n" "next_only X X' \<or> X' = journaled ''COMPLETE'' es X" for i X'
  proof -
    have "i = 0" "0 < n" using that(1) m(2) by simp_all
    have "known (length all) X'" using that(2) k(1) known_next_only known_journaled by blast
    moreover have "saved T0 (map (entry_for T0) all) T1 X'"
      using k(2) es that(2) by (auto intro: saved_cong simp: next_only_def journaled_def)
    ultimately show ?thesis
      using j len settled_journaled(1) [OF _ j] es \<open>i = 0\<close> \<open>0 < n\<close>
      by (auto intro!: wp_bind wp_rollback_now [OF c] wp_journal_now committed_False)
  qed
  have remove: "wp (RemoveTransactionDirectory (length es)) ?Q ?C i (T1, Txn (journaled ''COMPLETE'' es X))" if "i \<le> n" for i
    using that complete T1 len
    by (intro wp_remove_settled [OF complete]) (auto simp: committed_def)
  have "wp (WriteJournal ''COMPLETE'' es) (\<lambda>completed. wp (if \<not> completed then do {
         rolled_back \<leftarrow> Rollback es;
         if \<not> rolled_back then State_Monad.return False
         else do {
           _ \<leftarrow> WriteJournal ''ROLLED_BACK'' es;
           State_Monad.return False } }
       else RemoveTransactionDirectory (length es)) ?Q ?C) ?C m (T1, Txn X)"
    using k(1) m by (intro wp_WriteJournal) (auto intro!: remove undo recov simp del: recoverable.simps)
  then show ?thesis by (auto intro: wp_bind)
qed

lemma wp_commit_abort:
  assumes c: "committable T0 all" and p: "publishing T0 all i T X" and n: "0 < n"
    and es: "es = map (entry_for T0) all"
  shows "wp (do {
       rolled_back \<leftarrow> Rollback es;
       if \<not> rolled_back then State_Monad.return False
       else do {
         journaled \<leftarrow> WriteJournal ''ROLLED_BACK'' es;
         if \<not> journaled then State_Monad.return False
         else do {
           _ \<leftarrow> RemoveTransactionDirectory (length es);
           State_Monad.return False } } })
     (committed T0 all n) C 0 (T, Txn X)"
  using p n es
  by (auto simp: publishing_def
      intro!: wp_bind wp_rollback_now [OF c] wp_journal_now wp_cleanup_now known_journaled committed_False)

lemma wp_commit_prepared:
  assumes c: "committable T0 all" and n: "n \<le> 1"
  shows "wp (commit_prepared all) (committed T0 all n) (survivable (map snd all) T0 (after T0 all) n) n
    (T0, Txn (\<lambda>_. None))" (is "wp _ ?Q ?C n _")
proof -
  let ?es = "map (entry_for T0) all" and ?ns = "map snd all"
  define tail where "tail = (\<lambda>(es :: JournalEntry list) ok pending.
     if \<not> ok \<and> pending then do {
       rolled_back \<leftarrow> Rollback es;
       if \<not> rolled_back then State_Monad.return False
       else do {
         journaled \<leftarrow> WriteJournal ''ROLLED_BACK'' es;
         if \<not> journaled then State_Monad.return False
         else do {
           _ \<leftarrow> RemoveTransactionDirectory (length es);
           State_Monad.return False } } }
     else if \<not> ok then do {
       _ \<leftarrow> RemoveTransactionDirectory (length es);
       State_Monad.return False }
     else do {
       completed \<leftarrow> WriteJournal ''COMPLETE'' es;
       if \<not> completed then do {
         rolled_back \<leftarrow> Rollback es;
         if \<not> rolled_back then State_Monad.return False
         else do {
           _ \<leftarrow> WriteJournal ''ROLLED_BACK'' es;
           State_Monad.return False } }
       else RemoveTransactionDirectory (length es) })"
  have tail_stable: "stable (tail es ok pending)" for es ok pending
    unfolding tail_def by auto
  have undo: "wp (tail es False False) ?Q ?C i (T0, Txn X)" if "i < n" "known (length es) X" for es i X
  proof -
    have "i = 0" "0 < n" using that(1) n by simp_all
    then show ?thesis using that(2) unfolding tail_def
      by (auto intro!: wp_bind wp_cleanup_now committed_False)
  qed
  have abort: "wp (tail ?es False True) ?Q ?C j (T, Txn X)" if "j < n" "publishing T0 all i T X" for T X i j
  proof -
    have "j = 0" "0 < n" using that(1) n by simp_all
    then show ?thesis using wp_commit_abort [OF c that(2) _ refl, of n] unfolding tail_def by simp
  qed
  have finish: "wp (tail ?es True True) ?Q ?C m (after T0 all, Txn X)"
    if "m \<le> n" "publishing T0 all (length all) (after T0 all) X" for m X
    using wp_commit_finish [OF c that(2) refl that(1) n refl] unfolding tail_def by simp
  have publish: "wp (publish_files 0 (map snd all)) (\<lambda>ok. wp (tail ?es ok True) ?Q ?C) ?C m (T0, Txn X)"
    if "m \<le> n" "publishing T0 all 0 T0 X" for m X
  proof -
    have "wp (publish_files 0 (drop 0 (map snd all))) (\<lambda>ok. wp (tail ?es ok True) ?Q ?C) ?C m (T0, Txn X)"
      by (rule wp_publish_files [OF that(2)])
        (use c n that(1) publishing_pending [OF c] in \<open>auto simp: committable_def intro!: finish abort\<close>)
    then show ?thesis by simp
  qed
  have settle: "recoverable (map snd all) T0 (after T0 all) (T0, Txn X)" if "known (length all) X" "X journal_name = None" for X
    using that by (simp add: settled_def)
  let ?pub = "\<lambda>pending. (if pending then publish_files 0 (map snd all) else State_Monad.return False) \<bind>
      (\<lambda>ok. tail ?es ok pending)"
  have journal: "wp (WriteJournal ''PENDING'' ?es) (\<lambda>pending. wp (?pub pending) ?Q ?C) ?C n (T0, Txn X)" if st: "staged T0 all (length all) X" for X
  proof (rule wp_WriteJournal)
    have k: "known (length all) X" "X journal_name = None" using st by (auto simp: staged_def)
    then show "known (length all) X" by simp
    have p: "publishing T0 all 0 T0 (journaled ''PENDING'' ?es X)" using publishing_start [OF c st] .
    show "wp (?pub False) ?Q ?C m (T0, Txn X')"
      if "m < n" "next_only X X' \<or> X' = journaled ''PENDING'' ?es X" for m X'
    proof -
      have "known (length all) X'" using that(2) k(1) known_next_only known_journaled by blast
      with that(1) show ?thesis by (auto intro!: wp_bind undo tail_stable)
    qed
    show "?C (T0, Txn X')" if "0 < n" "next_only X X' \<or> X' = journaled ''PENDING'' ?es X" for X'
      using that(2)
    proof
      assume no: "next_only X X'"
      then have "X' journal_name = None" using k(2) by (auto simp: next_only_def)
      with known_next_only [OF k(1) no] show ?thesis
        using settle [of X'] that(1) by (simp del: recoverable.simps)
    qed (use publishing_pending [OF c p] that(1) in simp)
    show "wp (?pub True) ?Q ?C n (T0, Txn (journaled ''PENDING'' ?es X))"
      using publish [OF _ p] by (auto intro!: wp_bind tail_stable)
    show "wp (?pub True) ?Q ?C m (T0, Txn (journaled ''PENDING'' ?es X))" if "m < n" for m
      using publish [OF _ p] that by (auto intro!: wp_bind tail_stable)
  qed
  let ?rest = "\<lambda>(ok, entries). do {
     ok \<leftarrow> (if ok then fsync else State_Monad.return False);
     pending \<leftarrow> (if ok then WriteJournal ''PENDING'' entries else State_Monad.return False);
     ok \<leftarrow> (if pending then publish_files 0 (map snd all) else State_Monad.return False);
     tail entries ok pending }"
  have rest_ok: "wp (?rest (True, ?es)) ?Q ?C n (T0, Txn X)" if st: "staged T0 all (length all) X" for X
  proof -
    have k: "known (length all) X" "X journal_name = None" using st by (auto simp: staged_def)
    have "wp ((if ok then WriteJournal ''PENDING'' ?es else State_Monad.return False) \<bind> ?pub) ?Q ?C m (T0, Txn X)" if "if ok then m = n else m = 0 \<and> 0 < n" for ok m
    proof (cases ok)
      case True
      with that journal [OF st] show ?thesis
        by (auto intro!: wp_bind [where f = "WriteJournal _ _"] tail_stable)
    qed (use that k undo [of _ ?es X] in \<open>auto intro!: wp_bind tail_stable\<close>)
    note inner = this
    have "wp fsync (\<lambda>ok. wp ((if ok then WriteJournal ''PENDING'' ?es else State_Monad.return False) \<bind> ?pub) ?Q ?C) ?C n (T0, Txn X)"
    proof (rule wp_fsync(1))
      show "?C (T0, Txn X)" if "0 < n" using settle k that by simp
      show "wp ((if True then WriteJournal ''PENDING'' ?es else State_Monad.return False) \<bind> ?pub) ?Q ?C n (T0, Txn X)"
        by (rule inner [of True]) simp
      show "wp ((if False then WriteJournal ''PENDING'' ?es else State_Monad.return False) \<bind> ?pub) ?Q ?C (n - 1) (T0, Txn X)"
        if "0 < n" by (rule inner [of False]) (use n that in auto)
    qed
    then show ?thesis by (auto intro!: wp_bind [where f = fsync] stable_bind tail_stable)
  qed
  have "wp (stage_files 0 (drop 0 all)) (\<lambda>r. wp (?rest r) ?Q ?C) ?C n (T0, Txn (\<lambda>_. None))"
  proof (rule wp_stage_files)
    show "staged T0 all 0 (\<lambda>_. None)" by (simp add: staged_def known_def)
    show "wp (?rest (True, map (entry_for T0) (drop 0 all))) ?Q ?C n (T0, Txn X')"
      if "staged T0 all (length all) X'" for X' using rest_ok [OF that] by simp
    show "wp (?rest (False, es)) ?Q ?C m (T0, Txn X')"
      if "m < n" "known (0 + length es) X'" for m es X'
      using that n by (auto intro!: wp_bind undo tail_stable)
  qed (use c settle in \<open>auto simp: committable_def\<close>)
  then show ?thesis
    unfolding commit_prepared_def tail_def
    by (auto intro!: wp_bind [where f = "stage_files _ _"] stable_bind simp: case_prod_beta)
qed

lemma validate_files_props:
  assumes "validate_files dir files acc = Some names"
  shows "\<exists>ns. names = acc @ ns \<and> map (\<lambda>f. NormalizeName dir (tf_path f)) files = map Some ns \<and>
     (distinct acc \<longrightarrow> distinct names) \<and> (\<forall>f \<in> set files. tf_mode f \<in> {384, 420})"
  using assms
proof (induction files arbitrary: acc)
  case Nil
  then show ?case by simp
next
  case (Cons f files)
  then obtain name where name: "NormalizeName dir (tf_path f) = Some name" "name \<notin> set acc"
    "tf_mode f \<in> {384, 420}" "validate_files dir files (acc @ [name]) = Some names"
    by (auto simp: Let_def split: option.splits if_splits)
  from Cons.IH [OF name(4)] name show ?case
    by (force intro: exI [of _ "name # _"])
qed

lemma wp_Recover_clean:
  assumes "Q True n (T, NoTxn)" and "\<And>m. m < n \<Longrightarrow> Q False m (T, NoTxn)" and "0 < n \<Longrightarrow> C (T, NoTxn)"
  shows "wp (RecoverTlsTransaction dir paths) Q C n (T, NoTxn)"
  unfolding RecoverTlsTransaction_def using assms
  by (auto intro!: wp_bind wp_OpenDirectory wp_stat_txn split: stat_result.splits node.splits)

lemma wp_Commit:
  assumes val: "validate_files dir files [] = Some ns" and files: "files \<noteq> []" "length files \<le> 1024"
    and names: "txn_name \<notin> set ns" "\<forall>name \<in> set ns. replaceable (T0 name)" and n: "n \<le> 1"
  shows "wp (CommitTlsTransaction dir files) (committed T0 (zip files ns) n)
    (survivable ns T0 (after T0 (zip files ns)) n) n (T0, NoTxn)" (is "wp _ ?Q ?C n _")
proof -
  let ?all = "zip files ns"
  obtain props: "map (\<lambda>f. NormalizeName dir (tf_path f)) files = map Some ns" "distinct ns"
    "\<forall>f \<in> set files. tf_mode f \<in> {384, 420}"
    using validate_files_props [OF val] by auto
  have len: "length ns = length files" using props(1) by (metis length_map)
  have snds: "map snd ?all = ns" using len by simp
  have direct: "IsDirectName name" if "name \<in> set ns" for name
    using props(1) that NormalizeName_direct by (metis (no_types, lifting) ex_map_conv in_set_conv_nth length_map nth_map)
  have c: "committable T0 ?all"
    using len files names props direct
    by (auto simp: committable_def dest: set_zip_leftD set_zip_rightD)
  have prep: "wp (commit_prepared ?all) ?Q ?C n (T0, Txn (\<lambda>_. None))"
    using wp_commit_prepared [OF c n] snds by simp
  have empty: "recoverable ns T0 (after T0 ?all) (T0, Txn (\<lambda>_. None))"
    by (simp add: settled_def known_def)
  have none: "recoverable ns T0 (after T0 ?all) (T0, NoTxn)" by simp
  let ?make = "mkdir_txn \<bind> (\<lambda>made. if \<not> made then State_Monad.return False
              else fsync \<bind> (\<lambda>synced.
                if \<not> synced then do { _ \<leftarrow> rmdir_txn; State_Monad.return False }
                else open_txn \<bind> (\<lambda>transaction_fd.
                  if \<not> transaction_fd then State_Monad.return False
                  else commit_prepared ?all)))"
  have F: "?Q False m (T0, X)" if "m < n" "X = NoTxn \<or> X = Txn (\<lambda>_. None)" for m X
    using that empty snds by (auto simp: committed_def)
  have make: "wp ?make ?Q ?C m (T0, NoTxn)" if "m \<le> n" for m
    using that prep empty none n
    by (auto intro!: wp_bind wp_mkdir_txn wp_fsync wp_rmdir_txn wp_open_txn F wp_mono [OF prep] simp del: recoverable.simps)
  have opened: "wp OpenDirectoryNoFollow (\<lambda>opened. wp (if \<not> opened then State_Monad.return False else ?make) ?Q ?C) ?C m (T0, NoTxn)"
    if "m \<le> n" for m
    using that make none by (auto intro!: wp_OpenDirectory F simp del: recoverable.simps)
  have "wp (RecoverTlsTransaction dir (map tf_path files)) (\<lambda>recovered. wp (
      if \<not> recovered then State_Monad.return False
      else OpenDirectoryNoFollow \<bind> (\<lambda>opened. if \<not> opened then State_Monad.return False else ?make)) ?Q ?C) ?C n (T0, NoTxn)"
    using opened none
    by (intro wp_Recover_clean)
      (auto intro!: wp_bind [where f = OpenDirectoryNoFollow] stable_bind F simp del: recoverable.simps)
  then show ?thesis
    unfolding CommitTlsTransaction_def using files val
    by (auto intro!: wp_bind [where f = "RecoverTlsTransaction _ _"] stable_bind)
qed

section \<open>Runs\<close>

definition start :: "disk \<Rightarrow> outcome list \<Rightarrow> world" where
  "start d s = \<lparr>w_disk = d, w_sched = s, w_crashed = False\<rparr>"

definition tls_files :: "disk \<Rightarrow> tree" where
  "tls_files d = fst (view d)"

definition no_txn :: "disk \<Rightarrow> bool" where
  "no_txn d \<longleftrightarrow> node_at TlsDir txn_name d = None"

lemma view_no_txn: "no_txn d \<longleftrightarrow> view d = (tls_files d, NoTxn)"
  using view_txn_cases(1) [of d] by (cases "view d") (auto simp: no_txn_def tls_files_def)

lemma wp_run:
  assumes "wp f Q C (faults s) (view d)" and "d_real d" and "run_state f (start d s) = (r, w)"
  shows "d_real (w_disk w)" and "w_crashed w \<Longrightarrow> C (view (w_disk w))"
    and "\<not> w_crashed w \<Longrightarrow> \<exists>m. Q r m (view (w_disk w))"
  using wpD [OF assms(1) _ _ _ _ assms(3)] assms(2) by (auto simp: start_def)

text \<open>What a caller of the commit can assume: the files it names, before and after.\<close>

definition commit_ready :: "string \<Rightarrow> TlsTransactionFile list \<Rightarrow> string list \<Rightarrow> disk \<Rightarrow> bool" where
  "commit_ready dir files ns d \<longleftrightarrow>
     d_real d \<and> no_txn d \<and> validate_files dir files [] = Some ns \<and> files \<noteq> [] \<and> length files \<le> 1024 \<and>
     txn_name \<notin> set ns \<and> (\<forall>name \<in> set ns. replaceable (tls_files d name))"

lemma commit_run:
  assumes "commit_ready dir files ns d" and "faults s \<le> 1"
    and "run_state (CommitTlsTransaction dir files) (start d s) = (r, w)"
  defines "T1 \<equiv> after (tls_files d) (zip files ns)"
  shows "d_real (w_disk w)" and "recoverable ns (tls_files d) T1 (view (w_disk w))"
    and "r \<Longrightarrow> \<not> w_crashed w \<Longrightarrow> no_txn (w_disk w) \<and> tls_files (w_disk w) = T1"
    and "faults s = 0 \<Longrightarrow> r \<and> \<not> w_crashed w"
proof -
  have v: "view d = (tls_files d, NoTxn)" using assms(1) view_no_txn by (auto simp: commit_ready_def)
  have "length ns = length files"
    using assms(1) validate_files_props [of dir files "[]" ns] by (auto simp: commit_ready_def dest: map_eq_imp_length_eq)
  then have snds: "map snd (zip files ns) = ns" by simp
  have "wp (CommitTlsTransaction dir files) (committed (tls_files d) (zip files ns) (faults s))
    (survivable ns (tls_files d) T1 (faults s)) (faults s) (view d)"
    unfolding v T1_def using assms(1,2) by (intro wp_Commit) (auto simp: commit_ready_def)
  note run = wp_run [OF this _ assms(3)]
  have real: "d_real d" using assms(1) by (simp add: commit_ready_def)
  show "d_real (w_disk w)" using run(1) real by simp
  show "recoverable ns (tls_files d) T1 (view (w_disk w))"
    using run(2,3) real snds by (cases "w_crashed w") (auto simp: committed_def T1_def)
  show "r \<Longrightarrow> \<not> w_crashed w \<Longrightarrow> no_txn (w_disk w) \<and> tls_files (w_disk w) = T1"
    using run(3) real by (auto simp: committed_def T1_def view_no_txn tls_files_def)
  show "faults s = 0 \<Longrightarrow> r \<and> \<not> w_crashed w"
    using run(2,3) real by (cases r) (auto simp: committed_def)
qed

lemma recover_run:
  assumes "d_real d" and "recoverable ns T0 T1 (view d)" and "binding dir paths ns"
    and "run_state (RecoverTlsTransaction dir paths) (start d s) = (r, w)"
  shows "d_real (w_disk w)" and "recoverable ns T0 T1 (view (w_disk w))"
    and "r \<Longrightarrow> \<not> w_crashed w \<Longrightarrow> no_txn (w_disk w) \<and> tls_files (w_disk w) \<in> {T0, T1}"
    and "faults s = 0 \<Longrightarrow> r \<and> \<not> w_crashed w"
proof -
  note run = wp_run [OF wp_Recover [OF assms(2,3), of "faults s"] assms(1,4)]
  show "d_real (w_disk w)" by (rule run(1))
  show rec: "recoverable ns T0 T1 (view (w_disk w))"
    using run(2,3) by (cases "w_crashed w") (auto simp: recovered_def)
  show "r \<Longrightarrow> \<not> w_crashed w \<Longrightarrow> no_txn (w_disk w) \<and> tls_files (w_disk w) \<in> {T0, T1}"
    using run(3) by (cases "view (w_disk w)") (auto simp: recovered_def view_no_txn tls_files_def)
  show "faults s = 0 \<Longrightarrow> r \<and> \<not> w_crashed w"
    using run(2,3) by (cases r) (auto simp: recovered_def)
qed

text \<open>A sequence of recoveries, one per schedule, each from the disk the last one left.\<close>

fun recoveries :: "string \<Rightarrow> string list \<Rightarrow> outcome list list \<Rightarrow> disk \<Rightarrow> disk" where
  "recoveries dir paths [] d = d"
| "recoveries dir paths (s # ss) d =
     recoveries dir paths ss (w_disk (snd (run_state (RecoverTlsTransaction dir paths) (start d s))))"

lemma recoveries_recoverable:
  assumes "d_real d" and "recoverable ns T0 T1 (view d)" and "binding dir paths ns"
  shows "d_real (recoveries dir paths ss d) \<and> recoverable ns T0 T1 (view (recoveries dir paths ss d))"
  using assms
proof (induction ss arbitrary: d)
  case Nil
  then show ?case by simp
next
  case (Cons s ss)
  obtain r w where "run_state (RecoverTlsTransaction dir paths) (start d s) = (r, w)" by fastforce
  with recover_run(1,2) [OF Cons.prems this] Cons show ?case by simp
qed

end
