(* ===== verification/Tls_Claims.thy ===== *)
theory Tls_Claims
  imports Tls_Commit
begin

text \<open>
  The theorems about the TLS file transaction as its callers see it: crash atomicity of the commit
  with one fault, convergence of recovery under any faults, the two composed, and the two double
  faults after which the promise is broken.
\<close>

section \<open>One fault\<close>

text \<open>C1. Crash atomicity of \<open>CommitTlsTransaction\<close>: whichever single system call fails, or
  wherever the process is killed, the disk it leaves is recoverable to all old or all new files;
  a commit that returns true has installed all new files and left no transaction directory; and
  without a fault it does return true.\<close>

theorem commit_crash_atomic:
  assumes "commit_ready dir files ns d" and "faults s \<le> 1"
    and "run_state (CommitTlsTransaction dir files) (start d s) = (r, w)"
  shows "recoverable ns (tls_files d) (after (tls_files d) (zip files ns)) (view (w_disk w)) \<and>
    (r \<and> \<not> w_crashed w \<longrightarrow> no_txn (w_disk w) \<and> tls_files (w_disk w) = after (tls_files d) (zip files ns)) \<and>
    (faults s = 0 \<longrightarrow> r \<and> \<not> w_crashed w)"
  using commit_run [OF assms] by blast

definition pair_disk :: disk where
  "pair_disk = \<lparr>d_real = True, d_umask = 18, d_tls = [(''crt'', Reg ''0'' 420), (''key'', Reg ''0'' 384)]\<rparr>"

definition pair_files :: "TlsTransactionFile list" where
  "pair_files = [\<lparr>tf_path = ''crt'', tf_contents = ''1'', tf_mode = 420\<rparr>,
     \<lparr>tf_path = ''/t/key'', tf_contents = ''1'', tf_mode = 384\<rparr>]"

lemma pair_validate: "validate_files ''/t'' pair_files [] = Some [''crt'', ''key'']"
  by code_simp

lemma pair_ready: "commit_ready ''/t'' pair_files [''crt'', ''key''] pair_disk"
  by (simp add: commit_ready_def pair_validate)
    (simp add: pair_disk_def pair_files_def no_txn_def node_at_def txn_name_def tls_files_def view_def replaceable_def)

theorem commit_crash_atomic_witness:
  "no_txn (w_disk (snd (run_state (CommitTlsTransaction ''/t'' pair_files) (start pair_disk []))))"
proof -
  obtain r w where run: "run_state (CommitTlsTransaction ''/t'' pair_files) (start pair_disk []) = (r, w)"
    by fastforce
  from commit_crash_atomic [OF pair_ready _ run] run show ?thesis by simp
qed

text \<open>C2. \<open>RecoverTlsTransaction\<close> converges: from a recoverable disk, under any schedule of faults, it
  leaves the disk recoverable, so it can be tried again; when it returns true the transaction is
  gone and the files are all old or all new; and without a fault it returns true.\<close>

theorem recover_converges:
  assumes "d_real d" and "recoverable ns T0 T1 (view d)" and "binding dir paths ns"
    and "run_state (RecoverTlsTransaction dir paths) (start d s) = (r, w)"
  shows "recoverable ns T0 T1 (view (w_disk w)) \<and>
    (r \<and> \<not> w_crashed w \<longrightarrow> no_txn (w_disk w) \<and> tls_files (w_disk w) \<in> {T0, T1}) \<and>
    (faults s = 0 \<longrightarrow> r \<and> \<not> w_crashed w)"
  using recover_run [OF assms] by blast

text \<open>A disk whose process died between the two renames of a commit.\<close>

definition half_published :: disk where
  "half_published = \<lparr>d_real = True, d_umask = 18, d_tls =
     [(txn_name, Dir
        [(journal_name, journal_node ''PENDING''
           [\<lparr>je_name = ''crt'', je_existed = True, je_mode = 420\<rparr>, \<lparr>je_name = ''key'', je_existed = False, je_mode = 384\<rparr>]),
         (new_name 1, Reg ''1'' 384), (old_name 0, Reg ''0'' 420)]),
      (''crt'', Reg ''1'' 420)]\<rparr>"

lemma half_published_recoverable:
  "recoverable [''crt'', ''key''] [''crt'' \<mapsto> Reg ''0'' 420] [''crt'' \<mapsto> Reg ''1'' 420, ''key'' \<mapsto> Reg ''1'' 384]
     (view half_published)"
proof -
  let ?es = "[\<lparr>je_name = ''crt'', je_existed = True, je_mode = 420\<rparr>, \<lparr>je_name = ''key'', je_existed = False, je_mode = 384\<rparr>]"
  let ?X = "map_of [(journal_name, journal_node ''PENDING'' ?es), (new_name 1, Reg ''1'' 384), (old_name 0, Reg ''0'' 420)]"
  have "journal_of [''crt'', ''key''] ?es"
    by (simp add: journal_of_def entry_valid_def IsDirectName_def txn_name_def)
  moreover have "saved [''crt'' \<mapsto> Reg ''0'' 420] ?es [''crt'' \<mapsto> Reg ''1'' 420] ?X"
    by (auto simp: saved_def backed_def regular_def less_Suc_eq nth_Cons')
  moreover have "known (length [''crt'', ''key'']) ?X"
    by (auto simp: known_def journal_node_def split: if_splits)
  ultimately have "pending [''crt'', ''key''] [''crt'' \<mapsto> Reg ''0'' 420] [''crt'' \<mapsto> Reg ''1'' 420] ?X"
    by (auto simp: pending_def)
  moreover have "view half_published = ([''crt'' \<mapsto> Reg ''1'' 420], Txn ?X)"
    by (auto simp: half_published_def view_def txn_name_def)
  ultimately show ?thesis by simp
qed

theorem recover_converges_witness:
  "no_txn (w_disk (snd (run_state (RecoverTlsTransaction ''/t'' [''crt'', ''key'']) (start half_published []))))"
proof -
  have "binding ''/t'' [''crt'', ''key''] [''crt'', ''key'']"
    unfolding binding_def
    by (rule exI [of _ "[''crt'', ''key'']"]) (simp add: NormalizeName_def IsDirectName_def)
  moreover obtain r w where run: "run_state (RecoverTlsTransaction ''/t'' [''crt'', ''key'']) (start half_published []) = (r, w)"
    by fastforce
  moreover have "d_real half_published" by (simp add: half_published_def)
  ultimately show ?thesis using recover_converges [OF _ half_published_recoverable] run by fastforce
qed

text \<open>C3. End to end: after a commit with at most one fault and any number of recoveries that were
  themselves interrupted, a recovery without fault leaves no transaction, and the files are all
  old or all new.\<close>

theorem commit_recover_end_to_end:
  assumes "commit_ready dir files ns d" and "faults s \<le> 1" and "faults t = 0"
    and "run_state (CommitTlsTransaction dir files) (start d s) = (r, w)"
    and "run_state (RecoverTlsTransaction dir (map tf_path files))
           (start (recoveries dir (map tf_path files) ss (w_disk w)) t) = (r', w')"
  shows "r' \<and> no_txn (w_disk w') \<and>
    (tls_files (w_disk w') = tls_files d \<or> tls_files (w_disk w') = after (tls_files d) (zip files ns))"
proof -
  note c = commit_run [OF assms(1,2,4)]
  have val: "validate_files dir files [] = Some ns" using assms(1) by (simp add: commit_ready_def)
  have b: "binding dir (map tf_path files) ns"
    using validate_files_props [OF val] by (auto simp: binding_def comp_def)
  note rs = recoveries_recoverable [OF c(1,2) b, of ss]
  show ?thesis
    using recover_run(3,4) [OF _ _ b assms(5)] rs assms(3) by blast
qed

theorem commit_recover_end_to_end_witness:
  "no_txn (w_disk (snd (run_state (RecoverTlsTransaction ''/t'' (map tf_path pair_files))
     (start (recoveries ''/t'' (map tf_path pair_files) [[Go, Crash]]
       (w_disk (snd (run_state (CommitTlsTransaction ''/t'' pair_files) (start pair_disk [Go, Go, Crash]))))) []))))"
proof -
  obtain r w where c: "run_state (CommitTlsTransaction ''/t'' pair_files) (start pair_disk [Go, Go, Crash]) = (r, w)"
    by fastforce
  obtain r' w' where "run_state (RecoverTlsTransaction ''/t'' (map tf_path pair_files))
     (start (recoveries ''/t'' (map tf_path pair_files) [[Go, Crash]] (w_disk w)) []) = (r', w')"
    by fastforce
  from commit_recover_end_to_end [OF pair_ready _ _ c this] this c show ?thesis by simp
qed

section \<open>Two faults\<close>

definition pair_entries :: "JournalEntry list" where
  "pair_entries =
     [\<lparr>je_name = ''crt'', je_existed = True, je_mode = 420\<rparr>, \<lparr>je_name = ''key'', je_existed = True, je_mode = 384\<rparr>]"

definition tear_schedule :: "outcome list" where
  "tear_schedule = replicate 60 Go @ [Fail] @ replicate 13 Go @ [Crash]"

definition torn_disk :: disk where
  "torn_disk = \<lparr>d_real = True, d_umask = 18, d_tls =
     [(txn_name, Dir [(journal_name, journal_node ''COMPLETE'' pair_entries),
        (old_name 0, Reg ''0'' 420), (old_name 1, Reg ''0'' 384)]),
      (''crt'', Reg ''0'' 420), (''key'', Reg ''1'' 384)]\<rparr>"

text \<open>What an observer sees of the end of a run: its result and the fields of the disk.\<close>

definition observe :: "bool \<times> world \<Rightarrow> bool \<times> bool \<times> nat \<times> (string, node) smap" where
  "observe x =
     (fst x, d_real (w_disk (snd x)), d_umask (w_disk (snd x)), d_tls (w_disk (snd x)))"

lemma observe_disk: "observe x = (r, real, u, m) \<Longrightarrow> \<exists>s c. x = (r, \<lparr>w_disk = \<lparr>d_real = real, d_umask = u, d_tls = m\<rparr>, w_sched = s, w_crashed = c\<rparr>)"
  by (cases x; rule exI [of _ "w_sched (snd x)"], rule exI [of _ "w_crashed (snd x)"])
    (auto simp: observe_def intro!: world.equality disk.equality)

lemma tear_observe:
  "observe (run_state (CommitTlsTransaction ''/t'' pair_files) (start pair_disk tear_schedule)) =
     (False, True, 18, [(txn_name, Dir [(journal_name, journal_node ''COMPLETE'' pair_entries),
        (old_name 0, Reg ''0'' 420), (old_name 1, Reg ''0'' 384)]),
      (''crt'', Reg ''0'' 420), (''key'', Reg ''1'' 384)])"
  by code_simp

lemma tear_commit:
  "\<exists>s c. run_state (CommitTlsTransaction ''/t'' pair_files) (start pair_disk tear_schedule) =
     (False, \<lparr>w_disk = torn_disk, w_sched = s, w_crashed = c\<rparr>)"
  using observe_disk [OF tear_observe] by (simp add: torn_disk_def)

text \<open>The torn disk counts as settled: its journal says that whatever is there is the new state.\<close>

definition torn_files :: tree where
  "torn_files = [''crt'' \<mapsto> Reg ''0'' 420, ''key'' \<mapsto> Reg ''1'' 384]"

lemma pair_journal: "journal_of [''crt'', ''key''] pair_entries"
  by (simp add: journal_of_def pair_entries_def entry_valid_def IsDirectName_def txn_name_def)

lemma pair_binding: "binding ''/t'' (map tf_path pair_files) [''crt'', ''key'']"
  unfolding binding_def
  by (rule exI [of _ "[''crt'', ''key'']"])
    (simp add: pair_files_def NormalizeName_def IsDirectName_def starts_with_def Let_def)

lemma torn_settled: "recoverable [''crt'', ''key''] torn_files torn_files (view torn_disk)"
proof -
  let ?X = "map_of [(journal_name, journal_node ''COMPLETE'' pair_entries),
        (old_name 0, Reg ''0'' 420), (old_name 1, Reg ''0'' 384)]"
  have "known (length [''crt'', ''key'']) ?X"
    by (auto simp: known_def journal_node_def split: if_splits)
  then have "settled [''crt'', ''key''] torn_files torn_files torn_files ?X"
    using pair_journal unfolding settled_def by auto
  moreover have "view torn_disk = (torn_files, Txn ?X)"
    by (auto simp: torn_disk_def torn_files_def view_def txn_name_def)
  ultimately show ?thesis by simp
qed

text \<open>C15. One fault is the limit: when the synchronisation after the \<open>COMPLETE\<close> journal fails, the
  commit rolls back under a journal that still says \<open>COMPLETE\<close>; if the process dies between the
  two restores, recovery reports success and leaves the old certificate with the new key.\<close>

theorem commit_two_faults_tear:
  "faults tear_schedule = 2 \<and> commit_ready ''/t'' pair_files [''crt'', ''key''] pair_disk \<and>
   (let (r, w) = run_state (CommitTlsTransaction ''/t'' pair_files) (start pair_disk tear_schedule);
        (r', w') = run_state (RecoverTlsTransaction ''/t'' (map tf_path pair_files)) (start (w_disk w) [])
    in \<not> r \<and> r' \<and> tls_files (w_disk w') = [''crt'' \<mapsto> Reg ''0'' 420, ''key'' \<mapsto> Reg ''1'' 384])"
proof (intro conjI)
  show "faults tear_schedule = 2"
    by (simp add: tear_schedule_def faults_def bad_def filter_replicate)
  obtain r' w' where run: "run_state (RecoverTlsTransaction ''/t'' (map tf_path pair_files)) (start torn_disk []) = (r', w')"
    by fastforce
  have real: "d_real torn_disk" by (simp add: torn_disk_def)
  have "r' \<and> tls_files (w_disk w') = torn_files"
    using recover_run(3,4) [OF real torn_settled pair_binding run] by simp
  then show "let (r, w) = run_state (CommitTlsTransaction ''/t'' pair_files) (start pair_disk tear_schedule);
        (r', w') = run_state (RecoverTlsTransaction ''/t'' (map tf_path pair_files)) (start (w_disk w) [])
    in \<not> r \<and> r' \<and> tls_files (w_disk w') = [''crt'' \<mapsto> Reg ''0'' 420, ''key'' \<mapsto> Reg ''1'' 384]"
    using tear_commit run by (auto simp: torn_files_def)
qed (rule pair_ready)

text \<open>A pending journal without the backup of its first entry stops every recovery.\<close>

lemma wp_recover_stuck:
  assumes X: "X journal_name = Some (journal_node ''PENDING'' (e # es))" "X (old_name 0) = None"
    and e: "je_existed e" "regular (T (je_name e))" and j: "journal_of ns (e # es)" and b: "binding dir paths ns"
  shows "wp (RecoverTlsTransaction dir paths) (\<lambda>r m u. \<not> r \<and> u = (T, Txn X)) (\<lambda>u. u = (T, Txn X)) n (T, Txn X)"
proof -
  let ?Q = "\<lambda>r m u. \<not> r \<and> u = (T, Txn X)" and ?C = "\<lambda>u. u = (T, Txn X)"
  have name: "je_name e \<noteq> txn_name" using j by (auto simp: journal_of_def)
  have roll: "wp (Rollback (e # es)) ?Q ?C m (T, Txn X)" for m
    unfolding Rollback_def rollback_entry_def using X(2) e name
    by (auto simp: rollback_entry_def regular_iff intro!: wp_bind wp_Ensure split: prod.splits)
  have rec: "wp (recover_journal dir paths) ?Q ?C m (T, Txn X)" for m
    unfolding recover_journal_def
    by (rule wp_bind, rule wp_ReadJournal [where X = X, OF X(1) _ j])
      (auto simp: binding_valid [OF b j] intro!: wp_bind wp_conseq [OF roll] split: option.splits)
  have "wp (fstatat TxnDir journal_name) (\<lambda>i. wp (if i = Missing then RemoveTransactionDirectory (length paths)
      else recover_journal dir paths) ?Q ?C) ?C m (T, Txn X)" for m
    using X(1) by (auto intro!: wp_fstatat rec)
  then show ?thesis
    unfolding RecoverTlsTransaction_def
    by (auto intro!: wp_bind [where f = OpenDirectoryNoFollow] wp_bind [where f = "fstatat _ _"] wp_bind [where f = open_txn]
        wp_OpenDirectory wp_stat_txn wp_open_txn split: stat_result.splits node.splits)
qed

lemma wp_commit_stuck:
  assumes "wp (RecoverTlsTransaction dir (map tf_path files)) (\<lambda>r m u. \<not> r \<and> u = v) (\<lambda>u. u = v) n v"
  shows "wp (CommitTlsTransaction dir files) (\<lambda>r m u. \<not> r \<and> u = v) (\<lambda>u. u = v) n v"
  unfolding CommitTlsTransaction_def
  by (auto intro!: wp_bind [where f = "RecoverTlsTransaction _ _"] stable_bind wp_conseq [OF assms] split: option.splits)

definition stuck_schedule :: "outcome list" where
  "stuck_schedule = replicate 46 Go @ [Fail] @ replicate 4 Go @ [Crash]"

definition stuck_disk :: disk where
  "stuck_disk = \<lparr>d_real = True, d_umask = 18, d_tls =
     [(txn_name, Dir [(journal_name, journal_node ''PENDING'' pair_entries),
        (new_name 1, Reg ''1'' 384), (old_name 1, Reg ''0'' 384)]),
      (''crt'', Reg ''0'' 420), (''key'', Reg ''0'' 384)]\<rparr>"

lemma stuck_observe:
  "observe (run_state (CommitTlsTransaction ''/t'' pair_files) (start pair_disk stuck_schedule)) =
     (False, True, 18, [(txn_name, Dir [(journal_name, journal_node ''PENDING'' pair_entries),
        (new_name 1, Reg ''1'' 384), (old_name 1, Reg ''0'' 384)]),
      (''crt'', Reg ''0'' 420), (''key'', Reg ''0'' 384)])"
  by code_simp

lemma stuck_commit:
  "\<exists>s c. run_state (CommitTlsTransaction ''/t'' pair_files) (start pair_disk stuck_schedule) =
     (False, \<lparr>w_disk = stuck_disk, w_sched = s, w_crashed = c\<rparr>)"
  using observe_disk [OF stuck_observe] by (simp add: stuck_disk_def)

lemma stuck_forever:
  assumes "run_state (RecoverTlsTransaction ''/t'' (map tf_path pair_files)) (start stuck_disk s) = (r, w) \<or>
    run_state (CommitTlsTransaction ''/t'' pair_files) (start stuck_disk s) = (r, w)"
  shows "(\<not> w_crashed w \<longrightarrow> \<not> r) \<and> view (w_disk w) = view stuck_disk"
proof -
  let ?X = "map_of [(journal_name, journal_node ''PENDING'' pair_entries), (new_name 1, Reg ''1'' 384), (old_name 1, Reg ''0'' 384)]"
  let ?T = "[''crt'' \<mapsto> Reg ''0'' 420, ''key'' \<mapsto> Reg ''0'' 384]"
  have v: "view stuck_disk = (?T, Txn ?X)"
    by (auto simp: stuck_disk_def view_def txn_name_def)
  have rec: "wp (RecoverTlsTransaction ''/t'' (map tf_path pair_files)) (\<lambda>r m u. \<not> r \<and> u = view stuck_disk)
      (\<lambda>u. u = view stuck_disk) n (view stuck_disk)" for n
    unfolding v by (rule wp_recover_stuck [OF _ _ _ _ pair_journal [unfolded pair_entries_def] pair_binding])
      (simp_all add: pair_entries_def regular_def)
  have real: "d_real stuck_disk" by (simp add: stuck_disk_def)
  from assms show ?thesis
    using wp_run [OF rec real] wp_run [OF wp_commit_stuck [OF rec] real] by (cases "w_crashed w") blast+
qed

text \<open>C16. When the synchronisation after the \<open>PENDING\<close> journal fails, the commit cleans up as if no
  journal had been published; if the process dies after a backup is removed, the journal stays
  pending without its backup, and from then on every recovery and every commit fails and changes
  nothing, whatever the schedule.\<close>

theorem commit_two_faults_stuck:
  "faults stuck_schedule = 2 \<and> commit_ready ''/t'' pair_files [''crt'', ''key''] pair_disk \<and>
   (let d = w_disk (snd (run_state (CommitTlsTransaction ''/t'' pair_files) (start pair_disk stuck_schedule)))
    in \<forall>s. let (r, w) = run_state (RecoverTlsTransaction ''/t'' (map tf_path pair_files)) (start d s);
               (r', w') = run_state (CommitTlsTransaction ''/t'' pair_files) (start d s)
           in \<not> (r \<and> \<not> w_crashed w) \<and> \<not> (r' \<and> \<not> w_crashed w') \<and> view (w_disk w) = view d \<and> view (w_disk w') = view d)"
proof (intro conjI)
  show "faults stuck_schedule = 2"
    by (simp add: stuck_schedule_def faults_def bad_def filter_replicate)
  have d: "w_disk (snd (run_state (CommitTlsTransaction ''/t'' pair_files) (start pair_disk stuck_schedule))) = stuck_disk"
    using stuck_commit by auto
  show "let d = w_disk (snd (run_state (CommitTlsTransaction ''/t'' pair_files) (start pair_disk stuck_schedule)))
    in \<forall>s. let (r, w) = run_state (RecoverTlsTransaction ''/t'' (map tf_path pair_files)) (start d s);
               (r', w') = run_state (CommitTlsTransaction ''/t'' pair_files) (start d s)
           in \<not> (r \<and> \<not> w_crashed w) \<and> \<not> (r' \<and> \<not> w_crashed w') \<and> view (w_disk w) = view d \<and> view (w_disk w') = view d"
    unfolding d Let_def using stuck_forever by (auto split: prod.splits)
qed (rule pair_ready)

end
