(* ===== verification/Float32.thy ===== *)
theory Float32
  imports Complex_Main "HOL-Library.Log_Nat"
begin

text \<open>
  The IEEE single precision arithmetic of the capture pipeline, on finite values: a \<open>float\<close> is
  the rational number it stands for, and an operation is the exact one followed by rounding to
  the nearest value with a 24 bit significand, ties to even.  The pipeline's operands and results
  lie between \<open>2\<^sup>-\<^sup>3\<^sup>1\<close> and \<open>2\<^sup>6\<^sup>2\<close>, where the exponent range of the format is no constraint;
  infinities, NaN and the sign of zero do not occur.
\<close>

type_synonym float32 = rat

definition round_half_even :: "rat \<Rightarrow> int" where
  "round_half_even x =
     (let f = \<lfloor>x\<rfloor>; d = x - of_int f
      in if d < 1 / 2 then f else if d > 1 / 2 then f + 1 else if even f then f else f + 1)"

text \<open>The exponent of the last significand bit: \<open>2^23 \<le> x / 2^e < 2^24\<close> for positive \<open>x\<close>.\<close>

definition ulp_exponent :: "rat \<Rightarrow> int" where
  "ulp_exponent x =
     (if x \<ge> 1 then int (floorlog 2 (nat \<lfloor>x\<rfloor>)) - 24
      else - int (floorlog 2 (nat (\<lceil>1 / x\<rceil> - 1))) - 23)"

definition round32 :: "rat \<Rightarrow> float32" where
  "round32 x =
     (if x = 0 then 0
      else if x > 0 then of_int (round_half_even (x / 2 powi ulp_exponent x)) * 2 powi ulp_exponent x
      else - (of_int (round_half_even (- x / 2 powi ulp_exponent (- x))) * 2 powi ulp_exponent (- x)))"

definition float_of_int :: "int \<Rightarrow> float32" where
  "float_of_int i = round32 (of_int i)"

definition float_add :: "float32 \<Rightarrow> float32 \<Rightarrow> float32" where
  "float_add x y = round32 (x + y)"

definition float_mult :: "float32 \<Rightarrow> float32 \<Rightarrow> float32" where
  "float_mult x y = round32 (x * y)"

definition float_div :: "float32 \<Rightarrow> float32 \<Rightarrow> float32" where
  "float_div x y = round32 (x / y)"

text \<open>\<open>static_cast<int>\<close> of a float truncates towards zero.\<close>

definition int_of_float :: "float32 \<Rightarrow> int" where
  "int_of_float x = (if x < 0 then \<lceil>x\<rceil> else \<lfloor>x\<rfloor>)"

section \<open>Rounding keeps to the grid\<close>

lemma round_half_even_le: "x \<le> of_int k \<Longrightarrow> round_half_even x \<le> k"
proof -
  assume x: "x \<le> of_int k"
  then have f: "\<lfloor>x\<rfloor> \<le> k" by linarith
  show ?thesis
  proof (cases "\<lfloor>x\<rfloor> = k")
    case True
    with x have "x - of_int \<lfloor>x\<rfloor> < 1 / 2" by simp
    with f show ?thesis by (simp add: round_half_even_def Let_def)
  next
    case False
    with f show ?thesis by (auto simp: round_half_even_def Let_def)
  qed
qed

lemma round_half_even_ge: "of_int k \<le> x \<Longrightarrow> k \<le> round_half_even x"
proof -
  assume "of_int k \<le> x"
  then have "k \<le> \<lfloor>x\<rfloor>" by (simp add: le_floor_iff)
  then show ?thesis by (auto simp: round_half_even_def Let_def)
qed

lemma round_half_even_int [simp]: "round_half_even (of_int k) = k"
  by (simp add: round_half_even_le round_half_even_ge antisym)

lemma ulp_exponent_small:
  assumes "0 < x" and "x < 2 ^ 24"
  shows "ulp_exponent x \<le> 0"
proof (cases "1 \<le> x")
  case True
  have "nat \<lfloor>x\<rfloor> < 2 ^ 24" using assms by (simp add: nat_less_iff floor_less_iff)
  then have "floorlog 2 (nat \<lfloor>x\<rfloor>) \<le> 24" by (rule floorlog_leI) auto
  with True show ?thesis by (simp add: ulp_exponent_def)
qed (simp add: ulp_exponent_def)

lemma grid_int:
  assumes "e \<le> 0"
  shows "of_int k / 2 powi e = (of_int (k * 2 ^ nat (- e)) :: rat)"
proof -
  have "(2 :: rat) powi e = inverse (2 ^ nat (- e))"
    using assms by (cases "e = 0") (auto simp: power_int_def simp flip: power_inverse)
  then show ?thesis by (simp add: divide_inverse)
qed

text \<open>A rounded value does not cross an integer below \<open>2^24\<close>: those are on every grid that
  rounding to their neighbourhood uses.\<close>

lemma round32_le_int:
  assumes "0 < x" and "x \<le> of_int k" and "x < 2 ^ 24"
  shows "round32 x \<le> of_int k"
proof -
  let ?e = "ulp_exponent x"
  have pos: "(0 :: rat) < 2 powi ?e" by simp
  have "x / 2 powi ?e \<le> of_int (k * 2 ^ nat (- ?e))"
    using assms(2) pos grid_int [OF ulp_exponent_small [OF assms(1, 3)], of k]
    by (metis divide_right_mono less_imp_le)
  then have "round_half_even (x / 2 powi ?e) \<le> k * 2 ^ nat (- ?e)"
    by (rule round_half_even_le)
  then have "(of_int (round_half_even (x / 2 powi ?e)) :: rat) \<le> of_int k / 2 powi ?e"
    using grid_int [OF ulp_exponent_small [OF assms(1, 3)], of k] by (metis of_int_le_iff)
  with assms(1) pos show ?thesis by (simp add: round32_def pos_le_divide_eq)
qed

lemma round32_ge_int:
  assumes "0 < x" and "of_int k \<le> x" and "x < 2 ^ 24"
  shows "of_int k \<le> round32 x"
proof -
  let ?e = "ulp_exponent x"
  have pos: "(0 :: rat) < 2 powi ?e" by simp
  have "of_int (k * 2 ^ nat (- ?e)) \<le> x / 2 powi ?e"
    using assms(2) pos grid_int [OF ulp_exponent_small [OF assms(1, 3)], of k]
    by (metis divide_right_mono less_imp_le)
  then have "k * 2 ^ nat (- ?e) \<le> round_half_even (x / 2 powi ?e)"
    by (rule round_half_even_ge)
  then have "of_int k / 2 powi ?e \<le> (of_int (round_half_even (x / 2 powi ?e)) :: rat)"
    using grid_int [OF ulp_exponent_small [OF assms(1, 3)], of k] by (metis of_int_le_iff)
  with assms(1) pos show ?thesis by (simp add: round32_def pos_divide_le_eq)
qed

lemma float_of_int_exact: "0 \<le> k \<Longrightarrow> k < 2 ^ 24 \<Longrightarrow> float_of_int k = of_int k"
proof (cases "k = 0")
  case False
  assume k: "0 \<le> k" "k < 2 ^ 24"
  then have lt: "(of_int k :: rat) < 2 ^ 24"
    by (metis of_int_less_iff of_int_numeral of_int_power)
  show ?thesis
    using False k round32_le_int [OF _ order_refl lt] round32_ge_int [OF _ order_refl lt]
    by (simp add: float_of_int_def antisym)
qed (simp add: float_of_int_def round32_def)

lemma round32_nonneg: "0 \<le> x \<Longrightarrow> 0 \<le> round32 x"
  by (cases "x = 0") (auto simp: round32_def intro!: mult_nonneg_nonneg round_half_even_ge)

section \<open>Rounding error\<close>

lemma round_half_even_error: "\<bar>of_int (round_half_even x) - x\<bar> \<le> 1 / 2"
proof -
  have "of_int \<lfloor>x\<rfloor> \<le> x" and "x < of_int \<lfloor>x\<rfloor> + 1" by linarith+
  then show ?thesis by (auto simp: round_half_even_def Let_def abs_le_iff split: if_splits)
qed

lemma ulp_exponent_le:
  assumes "0 < x"
  shows "2 powi ulp_exponent x * 2 ^ 23 \<le> x"
proof (cases "1 \<le> x")
  case True
  define n where "n = nat \<lfloor>x\<rfloor>"
  have n: "0 < n" "of_nat n \<le> x" using True by (auto simp: n_def le_floor_iff)
  have pos: "0 < floorlog 2 n" using n by (simp add: floorlog_def)
  have "2 ^ (floorlog 2 n - 1) \<le> n" using floorlog_bounds [of n 2] n(1) by simp
  then have "(2 :: rat) ^ (floorlog 2 n - 1) \<le> of_nat n"
    by (metis of_nat_le_iff of_nat_numeral of_nat_power)
  then have bound: "(2 :: rat) ^ (floorlog 2 n - 1) \<le> x" using n(2) by (rule order_trans)
  have "(2 :: rat) powi (int (floorlog 2 n) - 24) * 2 ^ 23 = 2 powi (int (floorlog 2 n) - 24 + 23)"
    by (subst power_int_add) simp_all
  also have "int (floorlog 2 n) - 24 + 23 = int (floorlog 2 n - 1)"
    using pos by (simp add: of_nat_diff)
  also have "(2 :: rat) powi int (floorlog 2 n - 1) = 2 ^ (floorlog 2 n - 1)"
    by (rule power_int_of_nat)
  finally show ?thesis using True bound by (simp add: ulp_exponent_def n_def)
next
  case False
  define m where "m = nat (\<lceil>1 / x\<rceil> - 1)"
  have "1 < 1 / x" using False assms by simp
  then have "1 < \<lceil>1 / x\<rceil>" by (simp only: less_ceiling_iff of_int_1)
  then have m: "0 < m" "\<lceil>1 / x\<rceil> = int m + 1" unfolding m_def by linarith+
  have "m < 2 ^ floorlog 2 m" using floorlog_bounds [of m 2] m(1) by simp
  then have "int m + 1 \<le> 2 ^ floorlog 2 m"
    by (metis Suc_eq_plus1 Suc_leI of_nat_1 of_nat_add of_nat_le_iff of_nat_numeral of_nat_power)
  then have "\<lceil>1 / x\<rceil> \<le> 2 ^ floorlog 2 m" using m(2) by simp
  then have "1 / x \<le> 2 ^ floorlog 2 m" by (simp add: ceiling_le_iff)
  then have "1 / 2 ^ floorlog 2 m \<le> x"
    using assms by (simp add: field_simps)
  moreover have "(2 :: rat) powi (- int (floorlog 2 m) - 23) * 2 ^ 23 = 1 / 2 ^ floorlog 2 m"
    by (simp add: power_int_diff power_int_minus field_simps)
  ultimately show ?thesis using False by (simp add: ulp_exponent_def m_def)
qed

text \<open>A relative error of at most \<open>2\<^sup>-\<^sup>2\<^sup>4\<close>.\<close>

lemma round32_error:
  assumes "0 < x"
  shows "\<bar>round32 x - x\<bar> \<le> x / 2 ^ 24"
proof -
  let ?u = "2 powi ulp_exponent x :: rat"
  have u: "0 < ?u" by simp
  have "\<bar>of_int (round_half_even (x / ?u)) - x / ?u\<bar> * ?u \<le> 1 / 2 * ?u"
    using round_half_even_error [of "x / ?u"] u by (intro mult_right_mono) auto
  also have "\<bar>of_int (round_half_even (x / ?u)) - x / ?u\<bar> * ?u =
      \<bar>of_int (round_half_even (x / ?u)) * ?u - x\<bar>"
    by (simp add: abs_mult_pos left_diff_distrib)
  finally have "\<bar>round32 x - x\<bar> \<le> ?u / 2" using assms by (simp add: round32_def)
  also have "\<dots> \<le> x / 2 ^ 24" using ulp_exponent_le [OF assms] by simp
  finally show ?thesis .
qed

end
