(* ===== verification/Provider_Types.thy ===== *)
theory Provider_Types
  imports Status_Auth Float32
begin

text \<open>
  The data that crosses the provider interfaces (\<open>interfaces/sdk_provider_types.h\<close>): one record
  per struct with the struct's fields in its order, and for each its default member initialisers
  as \<open>default_...\<close>.  Field names carry a short prefix because a record field is a global name.
  A C++ \<open>int\<close> or \<open>int64_t\<close> is an \<^typ>\<open>int\<close>, a \<open>uint64_t\<close> a \<^typ>\<open>nat\<close>, a \<open>float\<close> its finite value.
  The last section is the table of output target sizes.
\<close>

section \<open>Requests and results\<close>

definition kDefaultCaptureTimeoutMs :: int where
  "kDefaultCaptureTimeoutMs = 30000"

record SdkVideoResolution =
  vres_width :: int
  vres_height :: int
  vres_real_width :: int
  vres_real_height :: int
  vres_fps :: int
  vres_pixel_format :: string
  vres_is_default :: bool

definition default_SdkVideoResolution :: SdkVideoResolution where
  "default_SdkVideoResolution = \<lparr> vres_width = 0, vres_height = 0, vres_real_width = 0, vres_real_height = 0, vres_fps = 0,
     vres_pixel_format = ''mjpeg'', vres_is_default = False \<rparr>"

record SdkOutputTargetSizeOption =
  tso_target_size :: int
  tso_width :: int
  tso_height :: int
  tso_is_device_default :: bool

definition default_SdkOutputTargetSizeOption :: SdkOutputTargetSizeOption where
  "default_SdkOutputTargetSizeOption = \<lparr> tso_target_size = 0, tso_width = 0, tso_height = 0, tso_is_device_default = False \<rparr>"

record SdkCaptureOutputCapabilities =
  coc_target_size_supported :: bool
  coc_target_sizes :: "SdkOutputTargetSizeOption list"

definition default_SdkCaptureOutputCapabilities :: SdkCaptureOutputCapabilities where
  "default_SdkCaptureOutputCapabilities = \<lparr> coc_target_size_supported = False, coc_target_sizes = [] \<rparr>"

record SdkDeviceDescriptor =
  dev_device_id :: string
  dev_model :: string
  dev_display_name :: string
  dev_vid :: int
  dev_pid :: int
  dev_status :: string
  dev_authorized :: bool
  dev_supports_video :: bool
  dev_image_transfer_protocol :: bool
  dev_resolutions :: "SdkVideoResolution list"
  dev_capture_output :: SdkCaptureOutputCapabilities

definition default_SdkDeviceDescriptor :: SdkDeviceDescriptor where
  "default_SdkDeviceDescriptor = \<lparr> dev_device_id = '''', dev_model = '''', dev_display_name = '''', dev_vid = 0, dev_pid = 0,
     dev_status = ''offline'', dev_authorized = False, dev_supports_video = False,
     dev_image_transfer_protocol = False, dev_resolutions = [],
     dev_capture_output = default_SdkCaptureOutputCapabilities \<rparr>"

record SdkDeviceOpenRequest =
  dor_device_id :: string
  dor_width :: int
  dor_height :: int
  dor_fps :: int
  dor_pixel_format :: string

definition default_SdkDeviceOpenRequest :: SdkDeviceOpenRequest where
  "default_SdkDeviceOpenRequest = \<lparr> dor_device_id = '''', dor_width = 0, dor_height = 0, dor_fps = 0, dor_pixel_format = ''mjpeg'' \<rparr>"

record SdkDeviceOpenResult =
  dos_code :: int
  dos_message :: string
  dos_opened :: bool
  dos_device :: SdkDeviceDescriptor
  dos_device_sn :: string

definition default_SdkDeviceOpenResult :: SdkDeviceOpenResult where
  "default_SdkDeviceOpenResult = \<lparr> dos_code = ToCode Ok, dos_message = ''ok'', dos_opened = False,
     dos_device = default_SdkDeviceDescriptor, dos_device_sn = '''' \<rparr>"

record SdkDeviceCloseRequest =
  dcr_device_id :: string

definition default_SdkDeviceCloseRequest :: SdkDeviceCloseRequest where
  "default_SdkDeviceCloseRequest = \<lparr> dcr_device_id = '''' \<rparr>"

record SdkDeviceCloseResult =
  dcs_code :: int
  dcs_message :: string
  dcs_closed :: bool
  dcs_was_opened :: bool

definition default_SdkDeviceCloseResult :: SdkDeviceCloseResult where
  "default_SdkDeviceCloseResult = \<lparr> dcs_code = ToCode Ok, dcs_message = ''ok'', dcs_closed = False, dcs_was_opened = False \<rparr>"

record SdkCaptureRequest =
  cr_device_id :: string
  cr_output_dir :: string
  cr_include_base64 :: bool
  cr_timeout_ms :: int

definition default_SdkCaptureRequest :: SdkCaptureRequest where
  "default_SdkCaptureRequest = \<lparr> cr_device_id = '''', cr_output_dir = '''', cr_include_base64 = False,
     cr_timeout_ms = kDefaultCaptureTimeoutMs \<rparr>"

record SdkPoint2f =
  pt_x :: float32
  pt_y :: float32

definition default_SdkPoint2f :: SdkPoint2f where
  "default_SdkPoint2f = \<lparr> pt_x = 0, pt_y = 0 \<rparr>"

record SdkRect4P =
  rc_left_top :: SdkPoint2f
  rc_right_top :: SdkPoint2f
  rc_right_down :: SdkPoint2f
  rc_left_down :: SdkPoint2f

definition default_SdkRect4P :: SdkRect4P where
  "default_SdkRect4P = \<lparr> rc_left_top = default_SdkPoint2f, rc_right_top = default_SdkPoint2f,
     rc_right_down = default_SdkPoint2f, rc_left_down = default_SdkPoint2f \<rparr>"

record SdkCaptureResult =
  cs_code :: int
  cs_message :: string
  cs_captured :: bool
  cs_content_type :: string
  cs_payload :: string
  cs_output_path :: string
  cs_original_path :: string
  cs_laser_path :: string
  cs_width :: int
  cs_height :: int
  cs_dpi :: int
  cs_size :: nat
  cs_detected_rects :: "SdkRect4P list"
  cs_detected_rects_source_width :: int
  cs_detected_rects_source_height :: int
  cs_scan_device_type :: int

definition default_SdkCaptureResult :: SdkCaptureResult where
  "default_SdkCaptureResult = \<lparr> cs_code = ToCode Ok, cs_message = ''ok'', cs_captured = False, cs_content_type = '''',
     cs_payload = '''', cs_output_path = '''', cs_original_path = '''', cs_laser_path = '''',
     cs_width = 0, cs_height = 0, cs_dpi = 0, cs_size = 0, cs_detected_rects = [],
     cs_detected_rects_source_width = 0, cs_detected_rects_source_height = 0,
     cs_scan_device_type = 0 \<rparr>"

record SdkVideoStartRequest =
  vsr_device_id :: string
  vsr_stream_id :: string
  vsr_width :: int
  vsr_height :: int
  vsr_fps :: int
  vsr_pixel_format :: string
  vsr_page_processing :: string
  vsr_single_page_realtime_detect_rects :: bool
  vsr_single_page_multi_target_paging :: bool

definition default_SdkVideoStartRequest :: SdkVideoStartRequest where
  "default_SdkVideoStartRequest = \<lparr> vsr_device_id = '''', vsr_stream_id = '''', vsr_width = 0, vsr_height = 0, vsr_fps = 0,
     vsr_pixel_format = ''mjpeg'', vsr_page_processing = '''',
     vsr_single_page_realtime_detect_rects = False, vsr_single_page_multi_target_paging = False \<rparr>"

record SdkVideoStartResult =
  vss_code :: int
  vss_message :: string
  vss_accepted :: bool
  vss_pixel_format :: string
  vss_width :: int
  vss_height :: int
  vss_fps :: int

definition default_SdkVideoStartResult :: SdkVideoStartResult where
  "default_SdkVideoStartResult = \<lparr> vss_code = ToCode Ok, vss_message = ''ok'', vss_accepted = False, vss_pixel_format = ''mjpeg'',
     vss_width = 1280, vss_height = 720, vss_fps = 15 \<rparr>"

record SdkTurnDetectRequest =
  tdr_device_id :: string
  tdr_enabled :: bool
  tdr_auto_capture :: bool
  tdr_scan_device_type :: int
  tdr_cooldown_ms :: int

definition default_SdkTurnDetectRequest :: SdkTurnDetectRequest where
  "default_SdkTurnDetectRequest = \<lparr> tdr_device_id = '''', tdr_enabled = False, tdr_auto_capture = False, tdr_scan_device_type = - 1,
     tdr_cooldown_ms = 1000 \<rparr>"

record SdkTurnDetectResult =
  tds_code :: int
  tds_message :: string
  tds_applied :: bool
  tds_enabled :: bool
  tds_auto_capture :: bool
  tds_scan_device_type :: int
  tds_cooldown_ms :: int

definition default_SdkTurnDetectResult :: SdkTurnDetectResult where
  "default_SdkTurnDetectResult = \<lparr> tds_code = ToCode Ok, tds_message = ''ok'', tds_applied = False, tds_enabled = False,
     tds_auto_capture = False, tds_scan_device_type = - 1, tds_cooldown_ms = 1000 \<rparr>"

record SdkVideoStopRequest =
  vpr_device_id :: string

definition default_SdkVideoStopRequest :: SdkVideoStopRequest where
  "default_SdkVideoStopRequest = \<lparr> vpr_device_id = '''' \<rparr>"

record SdkVideoStopResult =
  vps_code :: int
  vps_message :: string
  vps_stopped :: bool

definition default_SdkVideoStopResult :: SdkVideoStopResult where
  "default_SdkVideoStopResult = \<lparr> vps_code = ToCode Ok, vps_message = ''ok'', vps_stopped = False \<rparr>"

record SdkVideoFormatRequest =
  vfr_device_id :: string
  vfr_pixel_format :: string
  vfr_width :: int
  vfr_height :: int
  vfr_fps :: int

definition default_SdkVideoFormatRequest :: SdkVideoFormatRequest where
  "default_SdkVideoFormatRequest = \<lparr> vfr_device_id = '''', vfr_pixel_format = '''', vfr_width = 0, vfr_height = 0, vfr_fps = 0 \<rparr>"

record SdkVideoFormatResult =
  vfs_code :: int
  vfs_message :: string
  vfs_applied :: bool

definition default_SdkVideoFormatResult :: SdkVideoFormatResult where
  "default_SdkVideoFormatResult = \<lparr> vfs_code = ToCode Ok, vfs_message = ''ok'', vfs_applied = False \<rparr>"

record SdkVideoProfileRequest =
  vlr_device_id :: string
  vlr_page_processing :: string
  vlr_single_page_realtime_detect_rects :: bool
  vlr_single_page_multi_target_paging :: bool

definition default_SdkVideoProfileRequest :: SdkVideoProfileRequest where
  "default_SdkVideoProfileRequest = \<lparr> vlr_device_id = '''', vlr_page_processing = '''',
     vlr_single_page_realtime_detect_rects = False, vlr_single_page_multi_target_paging = False \<rparr>"

record SdkVideoProfileResult =
  vls_code :: int
  vls_message :: string
  vls_applied :: bool
  vls_page_processing :: string
  vls_single_page_realtime_detect_rects :: bool
  vls_single_page_multi_target_paging :: bool

definition default_SdkVideoProfileResult :: SdkVideoProfileResult where
  "default_SdkVideoProfileResult = \<lparr> vls_code = ToCode Ok, vls_message = ''ok'', vls_applied = False, vls_page_processing = '''',
     vls_single_page_realtime_detect_rects = False, vls_single_page_multi_target_paging = False \<rparr>"

record SdkCropBorderOptions =
  cbo_enabled :: bool
  cbo_width :: int
  cbo_height :: int

definition default_SdkCropBorderOptions :: SdkCropBorderOptions where
  "default_SdkCropBorderOptions = \<lparr> cbo_enabled = False, cbo_width = 0, cbo_height = 0 \<rparr>"

record SdkCropCenterOptions =
  cco_enabled :: bool
  cco_margin :: int

definition default_SdkCropCenterOptions :: SdkCropCenterOptions where
  "default_SdkCropCenterOptions = \<lparr> cco_enabled = False, cco_margin = 0 \<rparr>"

record SdkSinglePageOptions =
  spo_realtime_detect_rects :: bool
  spo_crop_border :: SdkCropBorderOptions
  spo_id_card_round_corner :: bool
  spo_auto_rotate :: bool
  spo_smart_black_edge_optimize :: bool
  spo_multi_target_paging :: bool

definition default_SdkSinglePageOptions :: SdkSinglePageOptions where
  "default_SdkSinglePageOptions = \<lparr> spo_realtime_detect_rects = False, spo_crop_border = default_SdkCropBorderOptions,
     spo_id_card_round_corner = False, spo_auto_rotate = False,
     spo_smart_black_edge_optimize = True, spo_multi_target_paging = False \<rparr>"

record SdkCurvedBookOptions =
  cuo_remove_finger :: bool
  cuo_finger_type :: string
  cuo_smart_paging :: bool
  cuo_crop_border :: SdkCropBorderOptions
  cuo_crop_center :: SdkCropCenterOptions
  cuo_auto_complete :: bool

definition default_SdkCurvedBookOptions :: SdkCurvedBookOptions where
  "default_SdkCurvedBookOptions = \<lparr> cuo_remove_finger = True, cuo_finger_type = ''with_sleeve'', cuo_smart_paging = True,
     cuo_crop_border = default_SdkCropBorderOptions,
     cuo_crop_center = default_SdkCropCenterOptions, cuo_auto_complete = False \<rparr>"

record SdkImageProcessRequest =
  ipr_input_upload_id :: string
  ipr_input_path :: string
  ipr_output_path :: string
  ipr_output_dir :: string
  ipr_page_processing :: string
  ipr_color_mode :: string
  ipr_output_format :: string
  ipr_dpi :: int
  ipr_single_page :: SdkSinglePageOptions
  ipr_curved_book :: SdkCurvedBookOptions
  ipr_selected_area_rect :: SdkRect4P
  ipr_selected_area_source_width :: int
  ipr_selected_area_source_height :: int
  ipr_scan_device_type :: int

definition default_SdkImageProcessRequest :: SdkImageProcessRequest where
  "default_SdkImageProcessRequest = \<lparr> ipr_input_upload_id = '''', ipr_input_path = '''', ipr_output_path = '''',
     ipr_output_dir = '''', ipr_page_processing = ''keep_original'',
     ipr_color_mode = ''no_optimize'', ipr_output_format = '''', ipr_dpi = 0,
     ipr_single_page = default_SdkSinglePageOptions,
     ipr_curved_book = default_SdkCurvedBookOptions, ipr_selected_area_rect = default_SdkRect4P,
     ipr_selected_area_source_width = 0, ipr_selected_area_source_height = 0,
     ipr_scan_device_type = 0 \<rparr>"

record SdkImageProcessOutput =
  ipo_asset_id :: string
  ipo_output_id :: string
  ipo_role :: string
  ipo_index :: int
  ipo_path :: string
  ipo_url :: string
  ipo_download_url :: string
  ipo_content_type :: string
  ipo_width :: int
  ipo_height :: int
  ipo_size :: nat

definition default_SdkImageProcessOutput :: SdkImageProcessOutput where
  "default_SdkImageProcessOutput = \<lparr> ipo_asset_id = '''', ipo_output_id = '''', ipo_role = '''', ipo_index = 0, ipo_path = '''',
     ipo_url = '''', ipo_download_url = '''', ipo_content_type = ''image/jpeg'', ipo_width = 0,
     ipo_height = 0, ipo_size = 0 \<rparr>"

record SdkImageProcessResult =
  ips_code :: int
  ips_message :: string
  ips_processed :: bool
  ips_output_path :: string
  ips_outputs :: "SdkImageProcessOutput list"

definition default_SdkImageProcessResult :: SdkImageProcessResult where
  "default_SdkImageProcessResult = \<lparr> ips_code = ToCode Ok, ips_message = ''ok'', ips_processed = False, ips_output_path = '''',
     ips_outputs = [] \<rparr>"

record SdkCaptureProfile =
  cp_profile_version :: string
  cp_revision :: int
  cp_device_id :: string
  cp_width :: int
  cp_height :: int
  cp_fps :: int
  cp_page_processing :: string
  cp_single_page_realtime_detect_rects :: bool
  cp_single_page :: SdkSinglePageOptions
  cp_curved_book :: SdkCurvedBookOptions
  cp_selected_area_rect :: SdkRect4P
  cp_selected_area_source_width :: int
  cp_selected_area_source_height :: int
  cp_color_mode :: string
  cp_output_format :: string
  cp_output_quality :: int
  cp_output_target_size :: int
  cp_output_target_width :: int
  cp_output_target_height :: int
  cp_thumbnail_original :: bool
  cp_thumbnail_page_processed :: bool
  cp_thumbnail_color_processed :: bool
  cp_thumbnail_final :: bool

definition default_SdkCaptureProfile :: SdkCaptureProfile where
  "default_SdkCaptureProfile = \<lparr> cp_profile_version = ''capture.profile.v1'', cp_revision = 1, cp_device_id = '''', cp_width = 0,
     cp_height = 0, cp_fps = 0, cp_page_processing = ''single_page'',
     cp_single_page_realtime_detect_rects = False, cp_single_page = default_SdkSinglePageOptions,
     cp_curved_book = default_SdkCurvedBookOptions, cp_selected_area_rect = default_SdkRect4P,
     cp_selected_area_source_width = 0, cp_selected_area_source_height = 0,
     cp_color_mode = ''auto_optimize'', cp_output_format = ''jpg'', cp_output_quality = 0,
     cp_output_target_size = 0, cp_output_target_width = 0, cp_output_target_height = 0,
     cp_thumbnail_original = True, cp_thumbnail_page_processed = True,
     cp_thumbnail_color_processed = False, cp_thumbnail_final = True \<rparr>"

record SdkCaptureAsset =
  as_asset_id :: string
  as_kind :: string
  as_path :: string
  as_url :: string
  as_download_url :: string
  as_content_type :: string
  as_width :: int
  as_height :: int
  as_size :: nat

definition default_SdkCaptureAsset :: SdkCaptureAsset where
  "default_SdkCaptureAsset = \<lparr> as_asset_id = '''', as_kind = '''', as_path = '''', as_url = '''', as_download_url = '''',
     as_content_type = '''', as_width = 0, as_height = 0, as_size = 0 \<rparr>"

record SdkCaptureStageResult =
  sg_name :: string
  sg_status :: string
  sg_input_assets :: "string list"
  sg_output_assets :: "string list"
  sg_provider :: string
  sg_message :: string

definition default_SdkCaptureStageResult :: SdkCaptureStageResult where
  "default_SdkCaptureStageResult = \<lparr> sg_name = '''', sg_status = ''queued'', sg_input_assets = [], sg_output_assets = [],
     sg_provider = '''', sg_message = ''queued'' \<rparr>"

record SdkPageProcessRequest =
  ppr_device_id :: string
  ppr_input_path :: string
  ppr_laser_path :: string
  ppr_output_dir :: string
  ppr_output_path :: string
  ppr_page_processing :: string
  ppr_width :: int
  ppr_height :: int
  ppr_dpi :: int
  ppr_single_page_realtime_detect_rects :: bool
  ppr_single_page :: SdkSinglePageOptions
  ppr_curved_book :: SdkCurvedBookOptions
  ppr_detected_rects :: "SdkRect4P list"
  ppr_detected_rects_source_width :: int
  ppr_detected_rects_source_height :: int
  ppr_selected_area_rect :: SdkRect4P
  ppr_selected_area_source_width :: int
  ppr_selected_area_source_height :: int
  ppr_scan_device_type :: int

definition default_SdkPageProcessRequest :: SdkPageProcessRequest where
  "default_SdkPageProcessRequest = \<lparr> ppr_device_id = '''', ppr_input_path = '''', ppr_laser_path = '''', ppr_output_dir = '''',
     ppr_output_path = '''', ppr_page_processing = '''', ppr_width = 0, ppr_height = 0, ppr_dpi = 0,
     ppr_single_page_realtime_detect_rects = False,
     ppr_single_page = default_SdkSinglePageOptions,
     ppr_curved_book = default_SdkCurvedBookOptions, ppr_detected_rects = [],
     ppr_detected_rects_source_width = 0, ppr_detected_rects_source_height = 0,
     ppr_selected_area_rect = default_SdkRect4P, ppr_selected_area_source_width = 0,
     ppr_selected_area_source_height = 0, ppr_scan_device_type = 0 \<rparr>"

record SdkPageOutput =
  po_output_id :: string
  po_role :: string
  po_index :: int
  po_path :: string
  po_content_type :: string
  po_width :: int
  po_height :: int
  po_dpi :: int
  po_size :: nat

definition default_SdkPageOutput :: SdkPageOutput where
  "default_SdkPageOutput = \<lparr> po_output_id = '''', po_role = '''', po_index = 0, po_path = '''',
     po_content_type = ''image/jpeg'', po_width = 0, po_height = 0, po_dpi = 0, po_size = 0 \<rparr>"

record SdkPageProcessResult =
  pps_code :: int
  pps_message :: string
  pps_processed :: bool
  pps_unsupported :: bool
  pps_output_path :: string
  pps_outputs :: "SdkPageOutput list"

definition default_SdkPageProcessResult :: SdkPageProcessResult where
  "default_SdkPageProcessResult = \<lparr> pps_code = ToCode Ok, pps_message = ''ok'', pps_processed = False, pps_unsupported = False,
     pps_output_path = '''', pps_outputs = [] \<rparr>"

record SdkColorModeRequest =
  cmr_input_path :: string
  cmr_output_path :: string
  cmr_color_mode :: string
  cmr_dpi :: int

definition default_SdkColorModeRequest :: SdkColorModeRequest where
  "default_SdkColorModeRequest = \<lparr> cmr_input_path = '''', cmr_output_path = '''', cmr_color_mode = '''', cmr_dpi = 0 \<rparr>"

record SdkColorModeResult =
  cms_code :: int
  cms_message :: string
  cms_processed :: bool
  cms_unsupported :: bool
  cms_output_path :: string
  cms_width :: int
  cms_height :: int
  cms_size :: nat

definition default_SdkColorModeResult :: SdkColorModeResult where
  "default_SdkColorModeResult = \<lparr> cms_code = ToCode Ok, cms_message = ''ok'', cms_processed = False, cms_unsupported = False,
     cms_output_path = '''', cms_width = 0, cms_height = 0, cms_size = 0 \<rparr>"

record SdkFormatConvertRequest =
  fcr_input_path :: string
  fcr_output_path :: string
  fcr_output_format :: string
  fcr_quality :: int
  fcr_scale :: float32

definition default_SdkFormatConvertRequest :: SdkFormatConvertRequest where
  "default_SdkFormatConvertRequest = \<lparr> fcr_input_path = '''', fcr_output_path = '''', fcr_output_format = '''', fcr_quality = 0,
     fcr_scale = 1 \<rparr>"

record SdkFormatConvertResult =
  fcs_code :: int
  fcs_message :: string
  fcs_converted :: bool
  fcs_passthrough :: bool
  fcs_output_path :: string

definition default_SdkFormatConvertResult :: SdkFormatConvertResult where
  "default_SdkFormatConvertResult = \<lparr> fcs_code = ToCode Ok, fcs_message = ''ok'', fcs_converted = False, fcs_passthrough = False,
     fcs_output_path = '''' \<rparr>"

record SdkThumbnailRequest =
  thr_input_path :: string
  thr_output_path :: string
  thr_thumbnail_kind :: string
  thr_max_width :: int
  thr_max_height :: int
  thr_keep_aspect_ratio :: bool

definition default_SdkThumbnailRequest :: SdkThumbnailRequest where
  "default_SdkThumbnailRequest = \<lparr> thr_input_path = '''', thr_output_path = '''', thr_thumbnail_kind = '''', thr_max_width = 320,
     thr_max_height = 320, thr_keep_aspect_ratio = True \<rparr>"

record SdkThumbnailResult =
  ths_code :: int
  ths_message :: string
  ths_generated :: bool
  ths_output_path :: string
  ths_width :: int
  ths_height :: int
  ths_size :: nat

definition default_SdkThumbnailResult :: SdkThumbnailResult where
  "default_SdkThumbnailResult = \<lparr> ths_code = ToCode Ok, ths_message = ''ok'', ths_generated = False, ths_output_path = '''',
     ths_width = 0, ths_height = 0, ths_size = 0 \<rparr>"

record SdkImageEnhancePage =
  ep_source_index :: int
  ep_output_index :: int
  ep_path :: string
  ep_dropped :: bool
  ep_metadata_json :: string

definition default_SdkImageEnhancePage :: SdkImageEnhancePage where
  "default_SdkImageEnhancePage = \<lparr> ep_source_index = 0, ep_output_index = 0, ep_path = '''', ep_dropped = False,
     ep_metadata_json = ''{}'' \<rparr>"

record SdkImageEnhanceStep =
  es_id :: string
  es_type :: string
  es_provider :: string
  es_enabled :: bool
  es_on_error :: string
  es_params_json :: string

definition default_SdkImageEnhanceStep :: SdkImageEnhanceStep where
  "default_SdkImageEnhanceStep = \<lparr> es_id = '''', es_type = '''', es_provider = ''auto'', es_enabled = True, es_on_error = ''fail'',
     es_params_json = ''{}'' \<rparr>"

record SdkImageEnhanceTarget =
  et_type :: string
  et_format :: string
  et_export_type :: string
  et_output_path :: string
  et_output_dir :: string
  et_quality :: int
  et_tiff_color :: string
  et_tiff_compression :: string

definition default_SdkImageEnhanceTarget :: SdkImageEnhanceTarget where
  "default_SdkImageEnhanceTarget = \<lparr> et_type = ''images'', et_format = ''jpg'', et_export_type = ''single-page'',
     et_output_path = '''', et_output_dir = '''', et_quality = 90, et_tiff_color = ''color'',
     et_tiff_compression = ''lzw'' \<rparr>"

record SdkImageEnhancePipeline =
  el_version :: string
  el_steps :: "SdkImageEnhanceStep list"
  el_target :: SdkImageEnhanceTarget
  el_keep_intermediate :: bool
  el_include_metadata :: bool

definition default_SdkImageEnhancePipeline :: SdkImageEnhancePipeline where
  "default_SdkImageEnhancePipeline = \<lparr> el_version = ''image.enhance.pipeline.v1'', el_steps = [],
     el_target = default_SdkImageEnhanceTarget, el_keep_intermediate = False,
     el_include_metadata = True \<rparr>"

record SdkImageEnhanceStepRequest =
  er_task_id :: string
  er_step :: SdkImageEnhanceStep
  er_pages :: "SdkImageEnhancePage list"
  er_output_dir :: string
  er_online_api_key :: string
  er_online_base_url :: string

definition default_SdkImageEnhanceStepRequest :: SdkImageEnhanceStepRequest where
  "default_SdkImageEnhanceStepRequest = \<lparr> er_task_id = '''', er_step = default_SdkImageEnhanceStep, er_pages = [], er_output_dir = '''',
     er_online_api_key = '''', er_online_base_url = '''' \<rparr>"

record SdkImageEnhanceStepResult =
  ers_code :: int
  ers_message :: string
  ers_processed :: bool
  ers_pages :: "SdkImageEnhancePage list"
  ers_metadata_json :: string
  ers_warnings :: "string list"

definition default_SdkImageEnhanceStepResult :: SdkImageEnhanceStepResult where
  "default_SdkImageEnhanceStepResult = \<lparr> ers_code = ToCode Ok, ers_message = ''ok'', ers_processed = False, ers_pages = [],
     ers_metadata_json = ''{}'', ers_warnings = [] \<rparr>"

section \<open>Output target sizes\<close>

definition target_size_table :: "(int \<times> int \<times> int) list" where
  "target_size_table =
     [(10, 320, 240), (30, 640, 480), (50, 800, 600), (100, 1160, 870),
      (180, 1536, 1152), (200, 1600, 1200), (300, 2048, 1536), (400, 2304, 1728),
      (500, 2592, 1944), (600, 3072, 1728), (800, 3264, 2448), (1000, 3648, 2736),
      (1001, 3672, 2754), (1002, 3840, 2160), (1200, 4032, 3024), (1201, 4032, 3024),
      (1202, 4000, 3000), (1300, 4160, 3120), (1400, 4320, 3240), (1500, 4480, 3360),
      (1600, 4608, 3456), (1800, 4896, 3672), (2000, 5248, 3936), (2200, 5440, 4080),
      (2400, 5696, 4272), (2500, 5824, 4368), (2600, 5888, 4416), (2800, 6144, 4608),
      (3200, 6528, 4896), (3800, 7168, 5376), (4000, 7296, 5472), (4800, 7936, 5952)]"

text \<open>The out parameters \<open>width\<close> and \<open>height\<close> are written exactly when the result is true; every
  caller passes both.\<close>

definition ResolveSdkOutputTargetSize :: "int \<Rightarrow> (int \<times> int) option" where
  "ResolveSdkOutputTargetSize target_size = map_of target_size_table target_size"

end
