(* ===== verification/Sdk_Effects.thy ===== *)
theory Sdk_Effects
  imports Provider_Types
begin

text \<open>
  Effects of the capture components.  A computation threads a state and either returns a value or
  throws (\<open>io\<close>); \<open>world\<close> is the part of the state the code shares with the operating system and
  the providers: the regular files, the directories, a counter of fallible system calls and the
  providers' own state, of an arbitrary type.  The environment \<open>os_env\<close> fixes what the program
  cannot influence: how a path string resolves to a file (\<open>os_canon\<close>), and which of the fallible
  calls the system refuses (\<open>os_refuses\<close>, by the number of the call), so that a missing
  permission, a full disk or an absent parent directory is any pattern of refusals.

  The second half holds the path functions of \<open>runtime/sdk_runtime_paths.cpp\<close> (the branches of a
  non-Windows build) and the file helpers the capture services define locally.
\<close>

section \<open>Computations that may throw\<close>

text \<open>\<open>StdException\<close> carries \<open>what()\<close>; the other constructor is anything \<open>catch (...)\<close> gets.\<close>

datatype exn = StdException string | UnknownException

type_synonym ('s, 'a) io = "'s \<Rightarrow> (exn + 'a) \<times> 's"

definition ret :: "'a \<Rightarrow> ('s, 'a) io" where
  "ret a s = (Inr a, s)"

definition throw :: "exn \<Rightarrow> ('s, 'a) io" where
  "throw e s = (Inl e, s)"

definition bind_io :: "('s, 'a) io \<Rightarrow> ('a \<Rightarrow> ('s, 'b) io) \<Rightarrow> ('s, 'b) io" where
  "bind_io m f s = (case m s of (Inl e, t) \<Rightarrow> (Inl e, t) | (Inr a, t) \<Rightarrow> f a t)"

definition seq_io :: "('s, 'a) io \<Rightarrow> ('s, 'b) io \<Rightarrow> ('s, 'b) io" where
  "seq_io m k = bind_io m (\<lambda>_. k)"

definition catch_io :: "('s, 'a) io \<Rightarrow> (exn \<Rightarrow> ('s, 'a) io) \<Rightarrow> ('s, 'a) io" where
  "catch_io m h s = (case m s of (Inl e, t) \<Rightarrow> h e t | (Inr a, t) \<Rightarrow> (Inr a, t))"

definition gets_io :: "('s \<Rightarrow> 'a) \<Rightarrow> ('s, 'a) io" where
  "gets_io f s = (Inr (f s), s)"

definition modify_io :: "('s \<Rightarrow> 's) \<Rightarrow> ('s, unit) io" where
  "modify_io f s = (Inr (), f s)"

definition when_io :: "bool \<Rightarrow> ('s, unit) io \<Rightarrow> ('s, unit) io" where
  "when_io b m = (if b then m else ret ())"

fun each_io :: "('a \<Rightarrow> ('s, unit) io) \<Rightarrow> 'a list \<Rightarrow> ('s, unit) io" where
  "each_io f [] = ret ()"
| "each_io f (x # xs) = seq_io (f x) (each_io f xs)"

fun map_io :: "('a \<Rightarrow> ('s, 'b) io) \<Rightarrow> 'a list \<Rightarrow> ('s, 'b list) io" where
  "map_io f [] = ret []"
| "map_io f (x # xs) = bind_io (f x) (\<lambda>y. bind_io (map_io f xs) (\<lambda>ys. ret (y # ys)))"

lemma bind_ret [simp]: "bind_io (ret a) f = f a"
  by (simp add: bind_io_def ret_def fun_eq_iff)

lemma bind_ret_right [simp]: "bind_io m ret = m"
  by (auto simp: bind_io_def ret_def fun_eq_iff split: prod.splits sum.splits)

lemma bind_assoc: "bind_io (bind_io m f) g = bind_io m (\<lambda>a. bind_io (f a) g)"
  by (auto simp: bind_io_def fun_eq_iff split: prod.splits sum.splits)

lemma bind_throw [simp]: "bind_io (throw e) f = throw e"
  by (simp add: bind_io_def throw_def fun_eq_iff)

lemma catch_ret [simp]: "catch_io (ret a) h = ret a"
  by (simp add: catch_io_def ret_def fun_eq_iff)

text \<open>Weakest preconditions: an equation per construct, so that \<open>simp\<close> walks a program.  \<open>Q\<close> speaks of
  the result and the final state, \<open>E\<close> of the state an exception leaves behind.\<close>

definition wp_io :: "('s, 'a) io \<Rightarrow> ('a \<Rightarrow> 's \<Rightarrow> bool) \<Rightarrow> ('s \<Rightarrow> bool) \<Rightarrow> 's \<Rightarrow> bool" where
  "wp_io m Q E s = (case m s of (Inl _, t) \<Rightarrow> E t | (Inr a, t) \<Rightarrow> Q a t)"

named_theorems wp_simps "weakest precondition of each construct"

lemma wp_ret [wp_simps]: "wp_io (ret a) Q E s = Q a s"
  by (simp add: wp_io_def ret_def)

lemma wpio_bind [wp_simps]: "wp_io (bind_io m f) Q E s = wp_io m (\<lambda>a. wp_io (f a) Q E) E s"
  by (auto simp: wp_io_def bind_io_def split: prod.splits sum.splits)

lemma wp_seq [wp_simps]: "wp_io (seq_io m k) Q E s = wp_io m (\<lambda>_. wp_io k Q E) E s"
  by (simp add: seq_io_def wpio_bind)

lemma wp_gets [wp_simps]: "wp_io (gets_io f) Q E s = Q (f s) s"
  by (simp add: wp_io_def gets_io_def)

lemma wp_modify [wp_simps]: "wp_io (modify_io f) Q E s = Q () (f s)"
  by (simp add: wp_io_def modify_io_def)

lemma wp_when [wp_simps]: "wp_io (when_io b m) Q E s = (if b then wp_io m Q E s else Q () s)"
  by (simp add: when_io_def wp_ret)

lemma wpio_if [wp_simps]: "wp_io (if b then m else k) Q E s = (if b then wp_io m Q E s else wp_io k Q E s)"
  by simp

lemma wpio_mono:
  "wp_io m Q E s \<Longrightarrow> (\<And>a t. Q a t \<Longrightarrow> Q' a t) \<Longrightarrow> (\<And>t. E t \<Longrightarrow> E' t) \<Longrightarrow> wp_io m Q' E' s"
  by (auto simp: wp_io_def split: prod.splits sum.splits)

lemma wp_each:
  "I s \<Longrightarrow> (\<And>x t. x \<in> set xs \<Longrightarrow> I t \<Longrightarrow> wp_io (f x) (\<lambda>_. I) E t) \<Longrightarrow> (\<And>t. I t \<Longrightarrow> Q () t) \<Longrightarrow>
   wp_io (each_io f xs) Q E s"
proof (induction xs arbitrary: s)
  case Nil
  then show ?case by (simp add: wp_simps)
next
  case (Cons x xs)
  have "wp_io (f x) (\<lambda>_. I) E s" using Cons.prems by simp
  then have "wp_io (f x) (\<lambda>_. wp_io (each_io f xs) Q E) E s"
    using Cons.prems by (elim wpio_mono) (auto intro!: Cons.IH)
  then show ?case by (simp add: wp_simps)
qed

section \<open>Files\<close>

record 'e world =
  w_files :: "string \<Rightarrow> string option"
  w_dirs :: "string \<Rightarrow> bool"
  w_calls :: nat
  w_ext :: 'e

record os_env =
  os_canon :: "string \<Rightarrow> string"
  os_refuses :: "nat \<Rightarrow> bool"

text \<open>A fallible system call: it counts, and it is refused or not.\<close>

definition syscall :: "os_env \<Rightarrow> 'e world \<Rightarrow> bool \<times> 'e world" where
  "syscall os w = (\<not> os_refuses os (w_calls w), w\<lparr>w_calls := Suc (w_calls w)\<rparr>)"

text \<open>\<open>stat\<close> and \<open>S_ISREG\<close> / \<open>S_ISDIR\<close>.\<close>

definition FileExists :: "os_env \<Rightarrow> string \<Rightarrow> 'e world \<Rightarrow> bool" where
  "FileExists os path w \<longleftrightarrow> path \<noteq> [] \<and> w_files w (os_canon os path) \<noteq> None"

definition FileSize :: "os_env \<Rightarrow> string \<Rightarrow> 'e world \<Rightarrow> nat" where
  "FileSize os path w =
     (if path = [] then 0
      else case w_files w (os_canon os path) of None \<Rightarrow> 0 | Some c \<Rightarrow> length c)"

definition DirectoryExists :: "os_env \<Rightarrow> string \<Rightarrow> 'e world \<Rightarrow> bool" where
  "DirectoryExists os path w \<longleftrightarrow> path \<noteq> [] \<and> w_dirs w (os_canon os path)"

text \<open>
  \<open>CopyFileBinary\<close>: open the input, open the output truncating it, stream the one into the other.
  Inserting an empty stream buffer sets \<open>failbit\<close>, so an empty input makes the copy report failure;
  a refused write leaves the truncated output behind.
\<close>

definition CopyFileBinary :: "os_env \<Rightarrow> string \<Rightarrow> string \<Rightarrow> 'e world \<Rightarrow> bool \<times> 'e world" where
  "CopyFileBinary os input_path output_path w =
     (let i = os_canon os input_path; out = os_canon os output_path;
          (opened_in, w) = syscall os w
      in if \<not> opened_in \<or> w_files w i = None then (False, w)
         else let (opened_out, w) = syscall os w
         in if \<not> opened_out \<or> w_dirs w out then (False, w)
            else let w = w\<lparr>w_files := (w_files w)(out \<mapsto> [])\<rparr>;
                     content = the (w_files w i);
                     (written, w) = syscall os w
            in if content = [] \<or> \<not> written then (False, w)
               else (True, w\<lparr>w_files := (w_files w)(out \<mapsto> content)\<rparr>))"

lemma CopyFileBinary_True:
  assumes "CopyFileBinary os p q w = (True, w')"
  shows "\<exists>c. w_files w (os_canon os p) = Some c \<and> c \<noteq> [] \<and>
             w_files w' = (w_files w)(os_canon os q \<mapsto> c) \<and> os_canon os p \<noteq> os_canon os q"
  using assms by (auto simp: CopyFileBinary_def syscall_def Let_def split: if_splits)

lemma CopyFileBinary_other:
  "x \<noteq> os_canon os q \<Longrightarrow> w_files (snd (CopyFileBinary os p q w)) x = w_files w x"
  by (auto simp: CopyFileBinary_def syscall_def Let_def)

lemma CopyFileBinary_frame [simp]:
  "w_dirs (snd (CopyFileBinary os p q w)) = w_dirs w"
  "w_ext (snd (CopyFileBinary os p q w)) = w_ext w"
  by (auto simp: CopyFileBinary_def syscall_def Let_def)

text \<open>A call that does not throw.\<close>

definition world_op :: "('e world \<Rightarrow> 'a \<times> 'e world) \<Rightarrow> ('e world, 'a) io" where
  "world_op f w = (case f w of (a, w') \<Rightarrow> (Inr a, w'))"

lemma wp_world_op [wp_simps]: "wp_io (world_op f) Q E w = (case f w of (a, w') \<Rightarrow> Q a w')"
  by (simp add: wp_io_def world_op_def split: prod.split)

section \<open>Paths\<close>

definition is_sep :: "char \<Rightarrow> bool" where
  "is_sep c \<longleftrightarrow> c = CHR ''/'' \<or> c = CHR 0x5C"

definition is_alpha :: "char \<Rightarrow> bool" where
  "is_alpha c \<longleftrightarrow> (let n = (of_char c :: nat) in 65 \<le> n \<and> n \<le> 90 \<or> 97 \<le> n \<and> n \<le> 122)"

fun IsAbsolutePath :: "string \<Rightarrow> bool" where
  "IsAbsolutePath [] = False"
| "IsAbsolutePath (a # rest) =
     (is_sep a \<or> (case rest of b # c # _ \<Rightarrow> is_alpha a \<and> b = CHR '':'' \<and> is_sep c | _ \<Rightarrow> False))"

definition PreferredPathSeparator :: "string \<Rightarrow> char" where
  "PreferredPathSeparator path = (if CHR 0x5C \<in> set path then CHR 0x5C else CHR ''/'')"

definition JoinPath :: "string \<Rightarrow> string \<Rightarrow> string" where
  "JoinPath base leaf =
     (if base = [] then leaf
      else if leaf = [] then base
      else if is_sep (last base) then base @ leaf
      else base @ PreferredPathSeparator base # leaf)"

text \<open>The working directory: environment variables first, then the system directory for root, then
  the home directory.  An empty variable counts as unset.\<close>

definition env_dir :: "(string \<Rightarrow> string option) \<Rightarrow> string \<Rightarrow> string option" where
  "env_dir getenv name = (case getenv name of Some (c # cs) \<Rightarrow> Some (c # cs) | _ \<Rightarrow> None)"

definition kSystemSdkOpenWorkDir :: string where
  "kSystemSdkOpenWorkDir = ''/var/lib/czur/sdk-open''"

definition ResolveSdkOpenWorkDir :: "(string \<Rightarrow> string option) \<Rightarrow> nat \<Rightarrow> string" where
  "ResolveSdkOpenWorkDir getenv euid =
     (case env_dir getenv ''CZUR_SDK_RUNTIME_DIR'' of
        Some runtime_dir \<Rightarrow> runtime_dir
      | None \<Rightarrow>
     (case env_dir getenv ''SDK_OPEN_WORK_DIR'' of
        Some override_dir \<Rightarrow> override_dir
      | None \<Rightarrow>
          if euid = 0 then kSystemSdkOpenWorkDir
          else case env_dir getenv ''HOME'' of
                 Some home \<Rightarrow> JoinPath (JoinPath home ''.czur'') ''sdk''
               | None \<Rightarrow> kSystemSdkOpenWorkDir))"

definition ResolveSdkOpenLogDir :: "(string \<Rightarrow> string option) \<Rightarrow> string \<Rightarrow> string" where
  "ResolveSdkOpenLogDir getenv work_dir =
     (case env_dir getenv ''SDK_OPEN_LOG_DIR'' of
        Some override_dir \<Rightarrow> override_dir
      | None \<Rightarrow> JoinPath work_dir ''logs'')"

text \<open>\<open>GetSdkOpenWorkDir\<close> evaluates \<open>ResolveSdkOpenWorkDir\<close> once per process; its value is the
  argument \<open>work_dir\<close> of the directory functions.\<close>

definition GetSdkOpenTasksDir :: "string \<Rightarrow> string" where
  "GetSdkOpenTasksDir work_dir = JoinPath work_dir ''tasks''"

definition GetSdkOpenTaskDir :: "string \<Rightarrow> string \<Rightarrow> string \<Rightarrow> string" where
  "GetSdkOpenTaskDir work_dir m task_id =
     JoinPath (JoinPath (GetSdkOpenTasksDir work_dir) m) task_id"

definition GetSdkOpenTaskAssetDir :: "string \<Rightarrow> string \<Rightarrow> string \<Rightarrow> string \<Rightarrow> string" where
  "GetSdkOpenTaskAssetDir work_dir m task_id asset_group =
     JoinPath (GetSdkOpenTaskDir work_dir m task_id) asset_group"

definition GetSdkOpenCaptureDir :: "string \<Rightarrow> string" where
  "GetSdkOpenCaptureDir work_dir = JoinPath work_dir ''capture''"

definition GetSdkOpenCaptureTaskDir :: "string \<Rightarrow> string \<Rightarrow> string" where
  "GetSdkOpenCaptureTaskDir work_dir task_id = JoinPath (GetSdkOpenCaptureDir work_dir) task_id"

section \<open>Creating directories\<close>

text \<open>The parts between separators, as the loop of \<open>EnsureDirectoryRecursive\<close> cuts them.\<close>

fun path_parts :: "string \<Rightarrow> string list" where
  "path_parts [] = [[]]"
| "path_parts (c # cs) =
     (if is_sep c then [] # path_parts cs
      else case path_parts cs of p # ps \<Rightarrow> (c # p) # ps | [] \<Rightarrow> [[c]])"

definition MakeDirectory :: "os_env \<Rightarrow> string \<Rightarrow> 'e world \<Rightarrow> bool \<times> 'e world" where
  "MakeDirectory os path w =
     (let p = os_canon os path; (granted, w) = syscall os w
      in if \<not> granted \<or> w_dirs w p \<or> w_files w p \<noteq> None then (False, w)
         else (True, w\<lparr>w_dirs := (w_dirs w)(p := True)\<rparr>))"

fun ensure_parts :: "os_env \<Rightarrow> string \<Rightarrow> string list \<Rightarrow> 'e world \<Rightarrow> bool \<times> 'e world" where
  "ensure_parts os current [] w = (True, w)"
| "ensure_parts os current (part # parts) w =
     (if part = [] then ensure_parts os current parts w
      else let current = (if current = [] then part else JoinPath current part)
      in if DirectoryExists os current w then ensure_parts os current parts w
         else let (made, w) = MakeDirectory os current w
         in if \<not> made \<and> \<not> DirectoryExists os current w then (False, w)
            else ensure_parts os current parts w)"

definition EnsureDirectoryRecursive :: "os_env \<Rightarrow> string \<Rightarrow> 'e world \<Rightarrow> bool \<times> 'e world" where
  "EnsureDirectoryRecursive os path w =
     (if path = [] then (False, w)
      else if DirectoryExists os path w then (True, w)
      else let (ok, w) = (if IsAbsolutePath path
                          then ensure_parts os ''/'' (path_parts (drop 1 path)) w
                          else ensure_parts os [] (path_parts path) w)
           in (ok \<and> DirectoryExists os path w, w))"

lemma path_parts_not_Nil [simp]: "path_parts cs \<noteq> []"
  by (induction cs) (auto split: list.splits)

lemma MakeDirectory_files [simp]: "w_files (snd (MakeDirectory os p w)) = w_files w"
  by (simp add: MakeDirectory_def syscall_def Let_def)

lemma MakeDirectory_ext [simp]: "w_ext (snd (MakeDirectory os p w)) = w_ext w"
  by (simp add: MakeDirectory_def syscall_def Let_def)

lemma MakeDirectory_dirs: "w_dirs w d \<Longrightarrow> w_dirs (snd (MakeDirectory os p w)) d"
  by (simp add: MakeDirectory_def syscall_def Let_def)

lemma ensure_parts_frame:
  "w_files (snd (ensure_parts os c ps w)) = w_files w \<and> w_ext (snd (ensure_parts os c ps w)) = w_ext w \<and>
   (w_dirs w d \<longrightarrow> w_dirs (snd (ensure_parts os c ps w)) d)"
proof (induction os c ps w rule: ensure_parts.induct)
  case (2 os current part parts w)
  obtain b v where m: "MakeDirectory os (if current = [] then part else JoinPath current part) w = (b, v)"
    by force
  note frame = MakeDirectory_files [of os "if current = [] then part else JoinPath current part" w]
    MakeDirectory_ext [of os "if current = [] then part else JoinPath current part" w]
    MakeDirectory_dirs [of w d os "if current = [] then part else JoinPath current part"]
  show ?case
    using 2 m frame by (auto simp: Let_def split: prod.splits)
qed simp

text \<open>Ensuring a directory touches no file, removes no directory and reports success only when the
  directory is there.\<close>

lemma EnsureDirectoryRecursive_frame:
  "w_files (snd (EnsureDirectoryRecursive os p w)) = w_files w"
  "w_ext (snd (EnsureDirectoryRecursive os p w)) = w_ext w"
  "w_dirs w d \<Longrightarrow> w_dirs (snd (EnsureDirectoryRecursive os p w)) d"
  using ensure_parts_frame [of os _ _ w]
  by (auto simp: EnsureDirectoryRecursive_def Let_def split: prod.splits if_splits) (metis snd_conv)+

lemma EnsureDirectoryRecursive_True:
  "EnsureDirectoryRecursive os p w = (True, w') \<Longrightarrow> DirectoryExists os p w'"
  by (auto simp: EnsureDirectoryRecursive_def Let_def split: prod.splits if_splits)

end
