(* ===== verification/Device_Facade.thy ===== *)
theory Device_Facade
  imports Sdk_Effects
begin

text \<open>
  The provider interfaces (\<open>interfaces/i_sdk_device_provider.h\<close>, \<open>i_sdk_graphic_provider.h\<close>,
  \<open>i_sdk_image_enhance_provider.h\<close>) as records of operations, and the two facades that call them:
  \<open>facade/device_facade.cpp\<close>, which lets a request through to the device provider only for a
  device in the session's scope, and \<open>facade/graphic_facade.cpp\<close>.  A provider is code the SDK
  loads, so its operations are arbitrary computations on the world, which may throw.  The branches
  modelled here are those of a build without the Windows private provider; the frame callback of
  \<open>StartVideo\<close> is handed to the provider and never called by the facade, so it is left out.
\<close>

section \<open>Provider interfaces\<close>

text \<open>\<open>CaptureStill\<close> answers through a callback, which the provider may call before it returns,
  later, several times or never: its result here is the list of the calls it will make, each with
  the number of milliseconds after the return at which it is made, in order.\<close>

record 'e ISdkDeviceProvider =
  dp_ProviderName :: string
  dp_ListDevices :: "('e world, SdkDeviceDescriptor list) io"
  dp_GetDevice :: "SdkDeviceOpenRequest \<Rightarrow> ('e world, SdkDeviceOpenResult) io"
  dp_OpenDevice :: "SdkDeviceOpenRequest \<Rightarrow> ('e world, SdkDeviceOpenResult) io"
  dp_CloseDevice :: "SdkDeviceCloseRequest \<Rightarrow> ('e world, SdkDeviceCloseResult) io"
  dp_CaptureStill :: "SdkCaptureRequest \<Rightarrow> ('e world, (nat \<times> SdkCaptureResult) list) io"
  dp_StartVideo :: "SdkVideoStartRequest \<Rightarrow> ('e world, SdkVideoStartResult) io"
  dp_StopVideo :: "SdkVideoStopRequest \<Rightarrow> ('e world, SdkVideoStopResult) io"
  dp_SetVideoFormat :: "SdkVideoFormatRequest \<Rightarrow> ('e world, SdkVideoFormatResult) io"
  dp_SetVideoProfile :: "SdkVideoProfileRequest \<Rightarrow> ('e world, SdkVideoProfileResult) io"
  dp_IsDeviceRecentlyRemoved :: "string \<Rightarrow> ('e world, bool) io"
  dp_SetTurnDetect :: "SdkTurnDetectRequest \<Rightarrow> ('e world, SdkTurnDetectResult) io"

text \<open>The bodies a provider inherits when it overrides neither operation.\<close>

definition default_IsDeviceRecentlyRemoved :: "string \<Rightarrow> ('e world, bool) io" where
  "default_IsDeviceRecentlyRemoved _ = ret False"

definition default_SetTurnDetect :: "SdkTurnDetectRequest \<Rightarrow> ('e world, SdkTurnDetectResult) io" where
  "default_SetTurnDetect _ = ret (default_SdkTurnDetectResult
     \<lparr> tds_code := ToCode UnsupportedMethod, tds_message := ''turn detect not supported'' \<rparr>)"

record 'e ISdkGraphicProvider =
  gp_ProviderName :: string
  gp_Process :: "SdkImageProcessRequest \<Rightarrow> ('e world, SdkImageProcessResult) io"
  gp_ProcessPage :: "SdkPageProcessRequest \<Rightarrow> ('e world, SdkPageProcessResult) io"
  gp_ApplyColorMode :: "SdkColorModeRequest \<Rightarrow> ('e world, SdkColorModeResult) io"
  gp_ConvertImageFormat :: "SdkFormatConvertRequest \<Rightarrow> ('e world, SdkFormatConvertResult) io"
  gp_GenerateThumbnail :: "SdkThumbnailRequest \<Rightarrow> ('e world, SdkThumbnailResult) io"

record 'e ISdkImageEnhanceProvider =
  ip_ProviderName :: string
  ip_RunStep :: "SdkImageEnhanceStepRequest \<Rightarrow> ('e world, SdkImageEnhanceStepResult) io"

text \<open>The providers of the bundle the capture components use; a null pointer is \<^const>\<open>None\<close>.\<close>

record 'e ProviderBundle =
  device_provider :: "'e ISdkDeviceProvider option"
  graphic_provider :: "'e ISdkGraphicProvider option"
  image_enhance_provider :: "'e ISdkImageEnhanceProvider option"

section \<open>The device facade\<close>

record DeviceListResult =
  dl_code :: int
  dl_message :: string
  dl_devices :: "SdkDeviceDescriptor list"

definition default_DeviceListResult :: DeviceListResult where
  "default_DeviceListResult = \<lparr> dl_code = ToCode Ok, dl_message = ''ok'', dl_devices = [] \<rparr>"

record DeviceGetResult =
  dg_code :: int
  dg_message :: string
  dg_device :: SdkDeviceDescriptor

definition default_DeviceGetResult :: DeviceGetResult where
  "default_DeviceGetResult =
     \<lparr> dg_code = ToCode Ok, dg_message = ''ok'', dg_device = default_SdkDeviceDescriptor \<rparr>"

fun scope_grants :: "SdkDeviceGrant list \<Rightarrow> SdkDeviceDescriptor \<Rightarrow> bool" where
  "scope_grants [] device = False"
| "scope_grants (g # gs) device =
     (if grant_vid g = dev_vid device \<and> grant_pid g = dev_pid device then True
      else scope_grants gs device)"

definition IsDeviceAuthorized :: "AuthContext \<Rightarrow> SdkDeviceDescriptor \<Rightarrow> bool" where
  "IsDeviceAuthorized ac device =
     (if ac_device_scope ac = [] then True else scope_grants (ac_device_scope ac) device)"

fun list_authorized :: "AuthContext \<Rightarrow> SdkDeviceDescriptor list \<Rightarrow> SdkDeviceDescriptor list" where
  "list_authorized ac [] = []"
| "list_authorized ac (d # ds) =
     (if IsDeviceAuthorized ac d then d\<lparr>dev_authorized := True\<rparr> # list_authorized ac ds
      else list_authorized ac ds)"

definition ListDevices :: "'e ProviderBundle \<Rightarrow> AuthContext \<Rightarrow> ('e world, DeviceListResult) io" where
  "ListDevices providers ac =
     (case device_provider providers of
        None \<Rightarrow> ret (default_DeviceListResult
          \<lparr> dl_code := ToCode ProviderNotReady, dl_message := ''provider not ready'' \<rparr>)
      | Some dp \<Rightarrow>
          bind_io (dp_ListDevices dp) (\<lambda>devices.
          ret (default_DeviceListResult\<lparr>dl_devices := list_authorized ac devices\<rparr>)))"

text \<open>The loop of \<open>LookupDevice\<close> stops at the first descriptor with the id.\<close>

fun lookup_loop :: "AuthContext \<Rightarrow> string \<Rightarrow> SdkDeviceDescriptor list \<Rightarrow> DeviceGetResult" where
  "lookup_loop ac device_id [] = default_DeviceGetResult
     \<lparr> dg_code := ToCode DeviceNotFound, dg_message := ''device not found'' \<rparr>"
| "lookup_loop ac device_id (d # ds) =
     (if dev_device_id d = device_id then
        (if \<not> IsDeviceAuthorized ac d then default_DeviceGetResult
           \<lparr> dg_code := ToCode DeviceNotInAuthScope, dg_message := ''device not in auth scope'' \<rparr>
         else default_DeviceGetResult\<lparr>dg_device := d\<lparr>dev_authorized := True\<rparr>\<rparr>)
      else lookup_loop ac device_id ds)"

definition LookupDevice ::
    "'e ProviderBundle \<Rightarrow> AuthContext \<Rightarrow> string \<Rightarrow> ('e world, DeviceGetResult) io" where
  "LookupDevice providers ac device_id =
     (case device_provider providers of
        None \<Rightarrow> ret (default_DeviceGetResult
          \<lparr> dg_code := ToCode ProviderNotReady, dg_message := ''provider not ready'' \<rparr>)
      | Some dp \<Rightarrow>
          bind_io (dp_ListDevices dp) (\<lambda>devices. ret (lookup_loop ac device_id devices)))"

text \<open>A successful lookup means that there is a provider, so \<open>with_provider\<close> dereferences the pointer
  as the code does; without one the call would be undefined behaviour, which the lookup excludes.\<close>

definition with_provider ::
    "'e ProviderBundle \<Rightarrow> ('e ISdkDeviceProvider \<Rightarrow> ('e world, 'a) io) \<Rightarrow> ('e world, 'a) io" where
  "with_provider providers f =
     (case device_provider providers of Some dp \<Rightarrow> f dp | None \<Rightarrow> throw UnknownException)"

definition GetDevice ::
    "'e ProviderBundle \<Rightarrow> AuthContext \<Rightarrow> string \<Rightarrow> ('e world, DeviceGetResult) io" where
  "GetDevice providers ac device_id =
     bind_io (LookupDevice providers ac device_id) (\<lambda>result.
     if \<not> IsOkStatusCode (dg_code result) then ret result
     else with_provider providers (\<lambda>dp.
       bind_io (dp_GetDevice dp (default_SdkDeviceOpenRequest\<lparr>dor_device_id := device_id\<rparr>))
         (\<lambda>provider_result.
       if \<not> IsOkStatusCode (dos_code provider_result)
       then ret (result\<lparr>dg_code := dos_code provider_result, dg_message := dos_message provider_result\<rparr>)
       else ret (result\<lparr>dg_device := (dos_device provider_result)\<lparr>dev_authorized := True\<rparr>\<rparr>))))"

definition OpenDevice ::
    "'e ProviderBundle \<Rightarrow> AuthContext \<Rightarrow> SdkDeviceOpenRequest \<Rightarrow> ('e world, SdkDeviceOpenResult) io" where
  "OpenDevice providers ac request =
     bind_io (LookupDevice providers ac (dor_device_id request)) (\<lambda>device_result.
     if \<not> IsOkStatusCode (dg_code device_result) then
       ret (default_SdkDeviceOpenResult
         \<lparr> dos_code := dg_code device_result, dos_message := dg_message device_result \<rparr>)
     else with_provider providers (\<lambda>dp.
       bind_io (dp_OpenDevice dp request) (\<lambda>result.
       ret (if IsOkStatusCode (dos_code result)
            then result\<lparr>dos_device := (dos_device result)\<lparr>dev_authorized := True\<rparr>\<rparr>
            else result))))"

text \<open>Closing and stopping also reach a device that has just been unplugged: the provider is asked
  when the device is not found.\<close>

definition recently_removed ::
    "'e ProviderBundle \<Rightarrow> string \<Rightarrow> int \<Rightarrow> ('e world, bool) io" where
  "recently_removed providers device_id code =
     (case device_provider providers of
        Some dp \<Rightarrow> if code = ToCode DeviceNotFound then dp_IsDeviceRecentlyRemoved dp device_id else ret False
      | None \<Rightarrow> ret False)"

definition CloseDevice ::
    "'e ProviderBundle \<Rightarrow> AuthContext \<Rightarrow> SdkDeviceCloseRequest \<Rightarrow> ('e world, SdkDeviceCloseResult) io" where
  "CloseDevice providers ac request =
     bind_io (LookupDevice providers ac (dcr_device_id request)) (\<lambda>device_result.
     if \<not> IsOkStatusCode (dg_code device_result) then
       bind_io (recently_removed providers (dcr_device_id request) (dg_code device_result)) (\<lambda>removed.
       if removed then with_provider providers (\<lambda>dp. dp_CloseDevice dp request)
       else ret (default_SdkDeviceCloseResult
         \<lparr> dcs_code := dg_code device_result, dcs_message := dg_message device_result \<rparr>))
     else with_provider providers (\<lambda>dp. dp_CloseDevice dp request))"

definition CaptureStill ::
    "'e ProviderBundle \<Rightarrow> AuthContext \<Rightarrow> SdkCaptureRequest \<Rightarrow>
     ('e world, (nat \<times> SdkCaptureResult) list) io" where
  "CaptureStill providers ac request =
     bind_io (LookupDevice providers ac (cr_device_id request)) (\<lambda>device_result.
     if \<not> IsOkStatusCode (dg_code device_result) then
       ret [(0, default_SdkCaptureResult
         \<lparr> cs_code := dg_code device_result, cs_message := dg_message device_result \<rparr>)]
     else with_provider providers (\<lambda>dp. dp_CaptureStill dp request))"

definition StartVideo ::
    "'e ProviderBundle \<Rightarrow> AuthContext \<Rightarrow> SdkVideoStartRequest \<Rightarrow> ('e world, SdkVideoStartResult) io" where
  "StartVideo providers ac request =
     bind_io (LookupDevice providers ac (vsr_device_id request)) (\<lambda>device_result.
     if \<not> IsOkStatusCode (dg_code device_result) then
       ret (default_SdkVideoStartResult
         \<lparr> vss_code := dg_code device_result, vss_message := dg_message device_result \<rparr>)
     else with_provider providers (\<lambda>dp. dp_StartVideo dp request))"

definition StopVideo ::
    "'e ProviderBundle \<Rightarrow> AuthContext \<Rightarrow> SdkVideoStopRequest \<Rightarrow> ('e world, SdkVideoStopResult) io" where
  "StopVideo providers ac request =
     bind_io (LookupDevice providers ac (vpr_device_id request)) (\<lambda>device_result.
     if \<not> IsOkStatusCode (dg_code device_result) then
       bind_io (recently_removed providers (vpr_device_id request) (dg_code device_result)) (\<lambda>removed.
       if removed then with_provider providers (\<lambda>dp. dp_StopVideo dp request)
       else ret (default_SdkVideoStopResult
         \<lparr> vps_code := dg_code device_result, vps_message := dg_message device_result \<rparr>))
     else with_provider providers (\<lambda>dp. dp_StopVideo dp request))"

text \<open>Only the two live reconfigurations turn an exception of the provider into an error result.\<close>

definition what :: "exn \<Rightarrow> string \<Rightarrow> string" where
  "what e unknown = (case e of StdException w \<Rightarrow> w | UnknownException \<Rightarrow> unknown)"

definition SetVideoFormat ::
    "'e ProviderBundle \<Rightarrow> AuthContext \<Rightarrow> SdkVideoFormatRequest \<Rightarrow> ('e world, SdkVideoFormatResult) io" where
  "SetVideoFormat providers ac request =
     bind_io (LookupDevice providers ac (vfr_device_id request)) (\<lambda>device_result.
     if \<not> IsOkStatusCode (dg_code device_result) then
       ret (default_SdkVideoFormatResult
         \<lparr> vfs_code := dg_code device_result, vfs_message := dg_message device_result \<rparr>)
     else catch_io (with_provider providers (\<lambda>dp. dp_SetVideoFormat dp request))
       (\<lambda>e. ret (default_SdkVideoFormatResult
         \<lparr> vfs_code := ToCode InternalError, vfs_message := what e ''video.set_format failed'' \<rparr>)))"

definition SetVideoProfile ::
    "'e ProviderBundle \<Rightarrow> AuthContext \<Rightarrow> SdkVideoProfileRequest \<Rightarrow> ('e world, SdkVideoProfileResult) io" where
  "SetVideoProfile providers ac request =
     bind_io (LookupDevice providers ac (vlr_device_id request)) (\<lambda>device_result.
     if \<not> IsOkStatusCode (dg_code device_result) then
       ret (default_SdkVideoProfileResult
         \<lparr> vls_code := dg_code device_result, vls_message := dg_message device_result \<rparr>)
     else catch_io (with_provider providers (\<lambda>dp. dp_SetVideoProfile dp request))
       (\<lambda>e. ret (default_SdkVideoProfileResult
         \<lparr> vls_code := ToCode InternalError, vls_message := what e ''video.set_profile failed'' \<rparr>)))"

definition SetTurnDetect ::
    "'e ProviderBundle \<Rightarrow> AuthContext \<Rightarrow> SdkTurnDetectRequest \<Rightarrow> ('e world, SdkTurnDetectResult) io" where
  "SetTurnDetect providers ac request =
     bind_io (LookupDevice providers ac (tdr_device_id request)) (\<lambda>device_result.
     if \<not> IsOkStatusCode (dg_code device_result) then
       ret (default_SdkTurnDetectResult
         \<lparr> tds_code := dg_code device_result, tds_message := dg_message device_result \<rparr>)
     else with_provider providers (\<lambda>dp. dp_SetTurnDetect dp request))"

section \<open>The graphic facade\<close>

definition Process ::
    "'e ProviderBundle \<Rightarrow> SdkImageProcessRequest \<Rightarrow> ('e world, SdkImageProcessResult) io" where
  "Process providers request =
     (case graphic_provider providers of
        None \<Rightarrow> ret (default_SdkImageProcessResult
          \<lparr> ips_code := ToCode ProviderNotReady, ips_message := ''provider not ready'' \<rparr>)
      | Some gp \<Rightarrow> gp_Process gp request)"

definition ProcessPage ::
    "'e ProviderBundle \<Rightarrow> SdkPageProcessRequest \<Rightarrow> ('e world, SdkPageProcessResult) io" where
  "ProcessPage providers request =
     (case graphic_provider providers of
        None \<Rightarrow> ret (default_SdkPageProcessResult
          \<lparr> pps_code := ToCode UnsupportedMethod, pps_message := ''page processing provider not ready'',
            pps_unsupported := True \<rparr>)
      | Some gp \<Rightarrow> gp_ProcessPage gp request)"

definition ApplyColorMode ::
    "'e ProviderBundle \<Rightarrow> SdkColorModeRequest \<Rightarrow> ('e world, SdkColorModeResult) io" where
  "ApplyColorMode providers request =
     (case graphic_provider providers of
        None \<Rightarrow> ret (default_SdkColorModeResult
          \<lparr> cms_code := ToCode UnsupportedMethod, cms_message := ''color provider not ready'',
            cms_unsupported := True \<rparr>)
      | Some gp \<Rightarrow> gp_ApplyColorMode gp request)"

definition ConvertImageFormat ::
    "'e ProviderBundle \<Rightarrow> SdkFormatConvertRequest \<Rightarrow> ('e world, SdkFormatConvertResult) io" where
  "ConvertImageFormat providers request =
     (case graphic_provider providers of
        None \<Rightarrow> ret (default_SdkFormatConvertResult
          \<lparr> fcs_code := ToCode ProviderNotReady, fcs_message := ''format provider not ready'' \<rparr>)
      | Some gp \<Rightarrow> gp_ConvertImageFormat gp request)"

definition GenerateThumbnail ::
    "'e ProviderBundle \<Rightarrow> SdkThumbnailRequest \<Rightarrow> ('e world, SdkThumbnailResult) io" where
  "GenerateThumbnail providers request =
     (case graphic_provider providers of
        None \<Rightarrow> ret (default_SdkThumbnailResult
          \<lparr> ths_code := ToCode UnsupportedMethod, ths_message := ''thumbnail provider not ready'' \<rparr>)
      | Some gp \<Rightarrow> gp_GenerateThumbnail gp request)"

section \<open>What the device facade guarantees\<close>

lemma scope_grants_iff:
  "scope_grants gs d \<longleftrightarrow> (\<exists>g \<in> set gs. grant_vid g = dev_vid d \<and> grant_pid g = dev_pid d)"
  by (induction gs) auto

lemma list_authorized_filter:
  "list_authorized ac ds = map (\<lambda>d. d\<lparr>dev_authorized := True\<rparr>) (filter (IsDeviceAuthorized ac) ds)"
  by (induction ds) auto

lemma lookup_loop_find:
  "lookup_loop ac i ds =
     (case find (\<lambda>d. dev_device_id d = i) ds of
        None \<Rightarrow> default_DeviceGetResult\<lparr>dg_code := ToCode DeviceNotFound, dg_message := ''device not found''\<rparr>
      | Some d \<Rightarrow>
          if IsDeviceAuthorized ac d
          then default_DeviceGetResult\<lparr>dg_device := d\<lparr>dev_authorized := True\<rparr>\<rparr>
          else default_DeviceGetResult
            \<lparr> dg_code := ToCode DeviceNotInAuthScope, dg_message := ''device not in auth scope'' \<rparr>)"
  by (induction ds) auto

lemma default_dg_code [simp]: "dg_code default_DeviceGetResult = 0"
  by (simp add: default_DeviceGetResult_def)

text \<open>The world after the listing every operation starts with.\<close>

lemma LookupDevice_listed:
  assumes "device_provider pb = Some dp" and "dp_ListDevices dp w = (Inr ds, w1)"
  shows "LookupDevice pb ac i w = (Inr (lookup_loop ac i ds), w1)"
  using assms by (simp add: LookupDevice_def bind_io_def ret_def)

text \<open>C21. The device listing reports exactly the provider's devices in the session's scope, each marked
  authorised, in the provider's order; an empty scope is every device, otherwise a grant must match
  both the vendor and the product id.\<close>

theorem list_devices_exact:
  assumes "device_provider pb = Some dp" and "dp_ListDevices dp w = (Inr ds, w1)"
  shows "ListDevices pb ac w =
    (Inr (default_DeviceListResult
       \<lparr> dl_devices := map (\<lambda>d. d\<lparr>dev_authorized := True\<rparr>) (filter (\<lambda>d.
           ac_device_scope ac = [] \<or>
           (\<exists>g \<in> set (ac_device_scope ac). grant_vid g = dev_vid d \<and> grant_pid g = dev_pid d)) ds) \<rparr>), w1)"
proof -
  have "IsDeviceAuthorized ac = (\<lambda>d. ac_device_scope ac = [] \<or>
      (\<exists>g \<in> set (ac_device_scope ac). grant_vid g = dev_vid d \<and> grant_pid g = dev_pid d))"
    by (auto simp: IsDeviceAuthorized_def scope_grants_iff fun_eq_iff)
  then show ?thesis
    using assms by (simp add: ListDevices_def bind_io_def ret_def list_authorized_filter)
qed

text \<open>A provider with one camera, whose every operation but the listing throws.\<close>

definition one_camera :: "'e ISdkDeviceProvider" where
  "one_camera = \<lparr> dp_ProviderName = ''one'',
     dp_ListDevices = ret [default_SdkDeviceDescriptor
       \<lparr> dev_device_id := ''cam'', dev_vid := 11, dev_pid := 22 \<rparr>],
     dp_GetDevice = (\<lambda>_. throw UnknownException), dp_OpenDevice = (\<lambda>_. throw UnknownException),
     dp_CloseDevice = (\<lambda>_. throw UnknownException), dp_CaptureStill = (\<lambda>_. throw UnknownException),
     dp_StartVideo = (\<lambda>_. throw UnknownException), dp_StopVideo = (\<lambda>_. throw UnknownException),
     dp_SetVideoFormat = (\<lambda>_. throw (StdException ''busy'')),
     dp_SetVideoProfile = (\<lambda>_. throw UnknownException),
     dp_IsDeviceRecentlyRemoved = default_IsDeviceRecentlyRemoved,
     dp_SetTurnDetect = default_SetTurnDetect \<rparr>"

definition camera_bundle :: "'e ProviderBundle" where
  "camera_bundle = \<lparr> device_provider = Some one_camera, graphic_provider = None,
     image_enhance_provider = None \<rparr>"

definition empty_world :: "unit world" where
  "empty_world = \<lparr> w_files = (\<lambda>_. None), w_dirs = (\<lambda>_. False), w_calls = 0, w_ext = () \<rparr>"

definition scoped :: "int \<Rightarrow> int \<Rightarrow> AuthContext" where
  "scoped vid pid = default_AuthContext\<lparr>ac_device_scope := [\<lparr>grant_vid = vid, grant_pid = pid\<rparr>]\<rparr>"

lemma one_camera_lists:
  "dp_ListDevices one_camera w =
     (Inr [default_SdkDeviceDescriptor\<lparr>dev_device_id := ''cam'', dev_vid := 11, dev_pid := 22\<rparr>], w)"
  by (simp add: one_camera_def ret_def)

lemma camera_bundle_provider [simp]: "device_provider camera_bundle = Some one_camera"
  by (simp add: camera_bundle_def)

theorem list_devices_exact_witness:
  "map dev_device_id (dl_devices (projr (fst (ListDevices camera_bundle (scoped 11 22) empty_world)))) = [''cam''] \<and>
   dl_devices (projr (fst (ListDevices camera_bundle (scoped 11 23) empty_world))) = []"
  by (simp add: list_devices_exact [OF camera_bundle_provider one_camera_lists] scoped_def
      default_AuthContext_def default_DeviceListResult_def default_SdkDeviceDescriptor_def)



text \<open>Changing the format or the profile of a running video never throws once the devices could be
  listed: whatever the provider's operation throws becomes an \<open>InternalError\<close> result with the
  exception's text.\<close>

theorem reconfigure_catches:
  assumes "device_provider pb = Some dp" and "dp_ListDevices dp w = (Inr ds, w1)"
  shows "(\<exists>r w'. SetVideoFormat pb ac format_rq w = (Inr r, w') \<and>
      (lookup_loop ac (vfr_device_id format_rq) ds = default_DeviceGetResult\<lparr>dg_device := d\<rparr> \<and>
       dp_SetVideoFormat dp format_rq w1 = (Inl e, w2) \<longrightarrow>
       vfs_code r = ToCode InternalError \<and> vfs_message r = what e ''video.set_format failed'' \<and> w' = w2)) \<and>
    (\<exists>r w'. SetVideoProfile pb ac profile_rq w = (Inr r, w') \<and>
      (lookup_loop ac (vlr_device_id profile_rq) ds = default_DeviceGetResult\<lparr>dg_device := d\<rparr> \<and>
       dp_SetVideoProfile dp profile_rq w1 = (Inl e, w2) \<longrightarrow>
       vls_code r = ToCode InternalError \<and> vls_message r = what e ''video.set_profile failed'' \<and> w' = w2))"
proof -
  note lookup = LookupDevice_listed [OF assms]
  have "\<exists>r w'. SetVideoFormat pb ac format_rq w = (Inr r, w') \<and>
      (lookup_loop ac (vfr_device_id format_rq) ds = default_DeviceGetResult\<lparr>dg_device := d\<rparr> \<and>
       dp_SetVideoFormat dp format_rq w1 = (Inl e, w2) \<longrightarrow>
       vfs_code r = ToCode InternalError \<and> vfs_message r = what e ''video.set_format failed'' \<and> w' = w2)"
    using assms(1) lookup
    by (auto simp: SetVideoFormat_def bind_io_def ret_def catch_io_def with_provider_def split: prod.splits sum.splits)
  moreover have "\<exists>r w'. SetVideoProfile pb ac profile_rq w = (Inr r, w') \<and>
      (lookup_loop ac (vlr_device_id profile_rq) ds = default_DeviceGetResult\<lparr>dg_device := d\<rparr> \<and>
       dp_SetVideoProfile dp profile_rq w1 = (Inl e, w2) \<longrightarrow>
       vls_code r = ToCode InternalError \<and> vls_message r = what e ''video.set_profile failed'' \<and> w' = w2)"
    using assms(1) lookup
    by (auto simp: SetVideoProfile_def bind_io_def ret_def catch_io_def with_provider_def split: prod.splits sum.splits)
  ultimately show ?thesis by blast
qed

theorem reconfigure_catches_witness:
  "vfs_message (projr (fst (SetVideoFormat camera_bundle (scoped 11 22)
     (default_SdkVideoFormatRequest\<lparr>vfr_device_id := ''cam''\<rparr>) empty_world))) = ''busy''"
proof -
  let ?rq = "default_SdkVideoFormatRequest\<lparr>vfr_device_id := ''cam''\<rparr>"
  let ?d = "default_SdkDeviceDescriptor\<lparr>dev_device_id := ''cam'', dev_vid := 11, dev_pid := 22\<rparr>"
  have "lookup_loop (scoped 11 22) (vfr_device_id ?rq) [?d] =
      default_DeviceGetResult\<lparr>dg_device := ?d\<lparr>dev_authorized := True\<rparr>\<rparr>"
    by (simp add: IsDeviceAuthorized_def scoped_def default_AuthContext_def)
  moreover have "dp_SetVideoFormat one_camera ?rq empty_world = (Inl (StdException ''busy''), empty_world)"
    by (simp add: one_camera_def throw_def)
  ultimately show ?thesis
    using reconfigure_catches [OF camera_bundle_provider one_camera_lists, of "scoped 11 22" ?rq empty_world
        "?d\<lparr>dev_authorized := True\<rparr>" "StdException ''busy''" empty_world undefined]
    by (auto simp: what_def)
qed

end
