(* ===== verification/Capture_Pipeline.thy ===== *)
theory Capture_Pipeline
  imports Device_Facade
begin

text \<open>
  The capture pipeline (\<open>application/capture_pipeline_service.cpp\<close>): stage the captured original,
  process the page, and for every output page apply the colour mode, convert the format and make
  the thumbnails, recording each stage, asset and warning.  The object \<open>CapturePipelineContext\<close> is
  the record \<open>pctx\<close>: its immutable members are the environment \<open>pipe_env\<close>, and the calls of the
  stage callback are kept in order in \<open>pc_events\<close>.  A \<open>CStatus\<close> of the CGraph library is the error
  text or \<^const>\<open>None\<close>.
\<close>

section \<open>Formats, names and assets\<close>

definition ExtensionForFormat :: "string \<Rightarrow> string" where
  "ExtensionForFormat format =
     (if format = ''png'' then ''.png''
      else if format = ''tiff'' \<or> format = ''tif'' then ''.tiff'' else ''.jpg'')"

definition ContentTypeForFormat :: "string \<Rightarrow> string" where
  "ContentTypeForFormat format =
     (if format = ''png'' then ''image/png''
      else if format = ''tiff'' \<or> format = ''tif'' then ''image/tiff'' else ''image/jpeg'')"

definition HasExtension :: "string \<Rightarrow> string \<Rightarrow> bool" where
  "HasExtension path format =
     (let ext = ExtensionForFormat format
      in if length path < length ext then False
         else to_lower (drop (length path - length ext) path) = ext)"

definition IsJpegFormat :: "string \<Rightarrow> bool" where
  "IsJpegFormat format \<longleftrightarrow> format = ''jpg'' \<or> format = ''jpeg''"

text \<open>The exact operations on \<open>float\<close>, then truncation and the floor of one pixel.\<close>

definition ScaledDimension :: "int \<Rightarrow> float32 \<Rightarrow> int" where
  "ScaledDimension value scale =
     (if value \<le> 0 then 0
      else max 1 (int_of_float (float_add (float_mult (float_of_int value) scale) (1 / 2))))"

definition is_alnum :: "char \<Rightarrow> bool" where
  "is_alnum c \<longleftrightarrow> is_alpha c \<or> (let n = (of_char c :: nat) in 48 \<le> n \<and> n \<le> 57)"

fun asset_token :: "string \<Rightarrow> string" where
  "asset_token [] = []"
| "asset_token (c # cs) =
     (if is_alnum c then lower_char c # asset_token cs
      else if c = CHR ''-'' \<or> c = CHR ''_'' then CHR ''-'' # asset_token cs
      else asset_token cs)"

definition SanitizeAssetToken :: "string \<Rightarrow> string \<Rightarrow> string" where
  "SanitizeAssetToken value fallback =
     (let token = asset_token value in if token = [] then fallback else token)"

definition MakeAsset ::
    "string \<Rightarrow> string \<Rightarrow> string \<Rightarrow> string \<Rightarrow> int \<Rightarrow> int \<Rightarrow> nat \<Rightarrow> SdkCaptureAsset" where
  "MakeAsset asset_id kind path content_type width height bytes =
     default_SdkCaptureAsset
       \<lparr> as_asset_id := asset_id, as_kind := kind, as_path := path, as_content_type := content_type,
         as_width := width, as_height := height, as_size := bytes \<rparr>"

datatype ThumbnailTarget = Original | PageProcessed | ColorProcessed | Final

record ThumbnailSpec =
  tn_enabled :: bool
  tn_stage_name :: string
  tn_kind :: string
  tn_input_asset_id :: string
  tn_output_asset_id :: string
  tn_input_path :: string

definition default_ThumbnailSpec :: ThumbnailSpec where
  "default_ThumbnailSpec = \<lparr> tn_enabled = False, tn_stage_name = '''', tn_kind = '''',
     tn_input_asset_id = '''', tn_output_asset_id = '''', tn_input_path = '''' \<rparr>"

record ProcessedOutput =
  out_output_id :: string
  out_role :: string
  out_index :: int
  out_page_asset_id :: string
  out_page_asset_kind :: string
  out_page_path :: string
  out_color_asset_id :: string
  out_color_asset_kind :: string
  out_color_path :: string
  out_final_asset_id :: string
  out_final_path :: string
  out_width :: int
  out_height :: int
  out_dpi :: int
  out_size :: nat

definition default_ProcessedOutput :: ProcessedOutput where
  "default_ProcessedOutput = \<lparr> out_output_id = '''', out_role = '''', out_index = 0,
     out_page_asset_id = '''', out_page_asset_kind = '''', out_page_path = '''',
     out_color_asset_id = '''', out_color_asset_kind = '''', out_color_path = '''',
     out_final_asset_id = '''', out_final_path = '''', out_width = 0, out_height = 0, out_dpi = 0,
     out_size = 0 \<rparr>"

section \<open>Requests, results and the context\<close>

record CapturePipelineRequest =
  pq_task_id :: string
  pq_device_id :: string
  pq_output_dir :: string
  pq_include_base64 :: bool
  pq_timeout_ms :: int
  pq_auth_context :: AuthContext
  pq_profile :: SdkCaptureProfile
  pq_raw_capture :: SdkCaptureResult

record CapturePipelineResult =
  pr_code :: int
  pr_message :: string
  pr_status :: string
  pr_stages :: "SdkCaptureStageResult list"
  pr_assets :: "SdkCaptureAsset list"
  pr_warnings :: "string list"

definition default_CapturePipelineResult :: CapturePipelineResult where
  "default_CapturePipelineResult = \<lparr> pr_code = ToCode Ok, pr_message = ''ok'',
     pr_status = ''succeeded'', pr_stages = [], pr_assets = [], pr_warnings = [] \<rparr>"

record 'e pipe_env =
  pe_os :: os_env
  pe_work_dir :: string
  pe_providers :: "'e ProviderBundle"
  pe_request :: CapturePipelineRequest

record 'e pctx =
  pc_world :: "'e world"
  pc_events :: "SdkCaptureStageResult list"
  pc_result :: CapturePipelineResult
  pc_assets :: "SdkCaptureAsset list"
  pc_stages :: "SdkCaptureStageResult list"
  pc_warnings :: "string list"
  pc_output_dir :: string
  pc_original_path :: string
  pc_laser_path :: string
  pc_original_width :: int
  pc_original_height :: int
  pc_original_dpi :: int
  pc_detected_rects :: "SdkRect4P list"
  pc_detected_rects_source_width :: int
  pc_detected_rects_source_height :: int
  pc_scan_device_type :: int
  pc_page_outputs :: "ProcessedOutput list"

type_synonym CStatus = "string option"
type_synonym ('e, 'a) pipe = "('e pctx, 'a) io"

definition in_world :: "('e world, 'a) io \<Rightarrow> ('e, 'a) pipe" where
  "in_world m s = (case m (pc_world s) of (r, w) \<Rightarrow> (r, s\<lparr>pc_world := w\<rparr>))"

definition file_op :: "('e world \<Rightarrow> 'a \<times> 'e world) \<Rightarrow> ('e, 'a) pipe" where
  "file_op f s = (case f (pc_world s) of (a, w) \<Rightarrow> (Inr a, s\<lparr>pc_world := w\<rparr>))"

definition file_test :: "('e world \<Rightarrow> 'a) \<Rightarrow> ('e, 'a) pipe" where
  "file_test f = gets_io (\<lambda>s. f (pc_world s))"

text \<open>\<open>if (status.isErr()) return status;\<close>\<close>

definition then_ok :: "('e, CStatus) pipe \<Rightarrow> ('e, CStatus) pipe \<Rightarrow> ('e, CStatus) pipe" where
  "then_ok m k = bind_io m (\<lambda>status. case status of Some info \<Rightarrow> ret (Some info) | None \<Rightarrow> k)"

section \<open>Stages, assets and warnings\<close>

definition device_provider_name :: "'e pipe_env \<Rightarrow> string" where
  "device_provider_name cx =
     (case device_provider (pe_providers cx) of Some dp \<Rightarrow> dp_ProviderName dp | None \<Rightarrow> '''')"

definition graphic_provider_name :: "'e pipe_env \<Rightarrow> string" where
  "graphic_provider_name cx =
     (case graphic_provider (pe_providers cx) of Some gp \<Rightarrow> gp_ProviderName gp | None \<Rightarrow> '''')"

definition running_stage :: "string \<Rightarrow> SdkCaptureStageResult" where
  "running_stage name = default_SdkCaptureStageResult
     \<lparr> sg_name := name, sg_status := ''running'', sg_message := ''running'' \<rparr>"

definition StartStage :: "string \<Rightarrow> ('e, unit) pipe" where
  "StartStage name = modify_io (\<lambda>s. s\<lparr>pc_events := pc_events s @ [running_stage name]\<rparr>)"

definition finished_stage ::
    "string \<Rightarrow> string \<Rightarrow> string \<Rightarrow> string \<Rightarrow> string list \<Rightarrow> string list \<Rightarrow> SdkCaptureStageResult" where
  "finished_stage name status provider message inputs outputs =
     \<lparr> sg_name = name, sg_status = status, sg_input_assets = inputs, sg_output_assets = outputs,
       sg_provider = provider, sg_message = message \<rparr>"

definition FinishStage ::
    "string \<Rightarrow> string \<Rightarrow> string \<Rightarrow> string \<Rightarrow> string list \<Rightarrow> string list \<Rightarrow> ('e, unit) pipe" where
  "FinishStage name status provider message inputs outputs =
     modify_io (\<lambda>s. let stage = finished_stage name status provider message inputs outputs
                in s\<lparr>pc_stages := pc_stages s @ [stage], pc_events := pc_events s @ [stage]\<rparr>)"

text \<open>An asset replaces the one with its id, in place; otherwise it is appended.\<close>

fun put_asset :: "SdkCaptureAsset \<Rightarrow> SdkCaptureAsset list \<Rightarrow> SdkCaptureAsset list" where
  "put_asset a [] = [a]"
| "put_asset a (b # bs) = (if as_asset_id b = as_asset_id a then a # bs else b # put_asset a bs)"

definition AddAsset :: "SdkCaptureAsset \<Rightarrow> ('e, unit) pipe" where
  "AddAsset a = modify_io (\<lambda>s. s\<lparr>pc_assets := put_asset a (pc_assets s)\<rparr>)"

definition AddWarning :: "string \<Rightarrow> ('e, unit) pipe" where
  "AddWarning warning = modify_io (\<lambda>s. s\<lparr>pc_warnings := pc_warnings s @ [warning]\<rparr>)"

definition set_failure :: "int \<Rightarrow> string \<Rightarrow> ('e, CStatus) pipe" where
  "set_failure code message =
     bind_io (modify_io (\<lambda>s. s\<lparr>pc_result := (pc_result s)
        \<lparr> pr_code := code, pr_message := message, pr_status := ''failed'' \<rparr>\<rparr>)) (\<lambda>_.
     ret (Some message))"

section \<open>Waiting for a capture\<close>

record CaptureCallbackState =
  cb_completed :: bool
  cb_result :: SdkCaptureResult

definition init_CaptureCallbackState :: CaptureCallbackState where
  "init_CaptureCallbackState = \<lparr> cb_completed = False, cb_result = default_SdkCaptureResult \<rparr>"

text \<open>The callback takes the first result and ignores the others.\<close>

definition on_capture :: "SdkCaptureResult \<Rightarrow> CaptureCallbackState \<Rightarrow> CaptureCallbackState" where
  "on_capture result st = (if cb_completed st then st else \<lparr> cb_completed = True, cb_result = result \<rparr>)"

definition effective_timeout :: "int \<Rightarrow> int" where
  "effective_timeout timeout_ms = (if timeout_ms > 0 then timeout_ms else kDefaultCaptureTimeoutMs)"

text \<open>The wait: the calls made within the timeout run the callback, the later ones find it timed out.\<close>

definition await_capture :: "int \<Rightarrow> (nat \<times> SdkCaptureResult) list \<Rightarrow> SdkCaptureResult" where
  "await_capture timeout_ms calls =
     (let in_time = filter (\<lambda>(t, _). int t \<le> effective_timeout timeout_ms) calls;
          st = fold (\<lambda>(_, r) st. on_capture r st) in_time init_CaptureCallbackState
      in if cb_completed st then cb_result st
         else (cb_result st)\<lparr> cs_code := ToCode CaptureTimeout, cs_message := ''capture timeout'' \<rparr>)"

section \<open>Capture\<close>

definition take_metadata :: "SdkCaptureResult \<Rightarrow> ('e, unit) pipe" where
  "take_metadata result = modify_io (\<lambda>s. s
     \<lparr> pc_original_width := cs_width result, pc_original_height := cs_height result,
       pc_original_dpi := cs_dpi result, pc_detected_rects := cs_detected_rects result,
       pc_detected_rects_source_width := cs_detected_rects_source_width result,
       pc_detected_rects_source_height := cs_detected_rects_source_height result,
       pc_scan_device_type := cs_scan_device_type result \<rparr>)"

definition or_jpeg :: "string \<Rightarrow> string" where
  "or_jpeg content_type = (if content_type = [] then ''image/jpeg'' else content_type)"

definition capture_failed :: "'e pipe_env \<Rightarrow> int \<Rightarrow> string \<Rightarrow> ('e, CStatus) pipe" where
  "capture_failed cx code message =
     seq_io (FinishStage ''capture_raw'' ''failed'' (device_provider_name cx) message [] [])
            (set_failure code message)"

text \<open>The laser image is optional: its path stays empty, or it is copied beside the original.\<close>

definition stage_laser :: "'e pipe_env \<Rightarrow> string \<Rightarrow> ('e, bool) pipe" where
  "stage_laser cx laser_path =
     (if laser_path = [] then
        seq_io (modify_io (\<lambda>s. s\<lparr>pc_laser_path := []\<rparr>)) (ret True)
      else bind_io (gets_io (\<lambda>s. JoinPath (pc_output_dir s) ''laser.jpg'')) (\<lambda>target.
        seq_io (modify_io (\<lambda>s. s\<lparr>pc_laser_path := target\<rparr>))
        (if laser_path \<noteq> target then file_op (CopyFileBinary (pe_os cx) laser_path target)
         else ret True)))"

definition add_original_assets :: "'e pipe_env \<Rightarrow> SdkCaptureResult \<Rightarrow> ('e, unit) pipe" where
  "add_original_assets cx result =
     bind_io (gets_io id) (\<lambda>s.
     seq_io (AddAsset (MakeAsset ''asset-original'' ''original'' (pc_original_path s)
                (or_jpeg (cs_content_type result)) (pc_original_width s) (pc_original_height s)
                (FileSize (pe_os cx) (pc_original_path s) (pc_world s))))
            (when_io (pc_laser_path s \<noteq> []) (AddAsset (MakeAsset ''asset-laser'' ''laser''
                (pc_laser_path s) ''image/jpeg'' 0 0
                (FileSize (pe_os cx) (pc_laser_path s) (pc_world s))))))"

definition original_staged :: "'e pipe_env \<Rightarrow> ('e, CStatus) pipe" where
  "original_staged cx =
     seq_io (FinishStage ''capture_raw'' ''succeeded'' (device_provider_name cx) ''ok'' [] [''asset-original''])
            (ret None)"

definition stage_captured :: "'e pipe_env \<Rightarrow> ('e, CStatus) pipe" where
  "stage_captured cx =
     (let result = pq_raw_capture (pe_request cx);
          source_path = (if cs_original_path result \<noteq> [] then cs_original_path result
                         else cs_output_path result)
      in seq_io (modify_io (\<lambda>s. s\<lparr>pc_original_path := JoinPath (pc_output_dir s) ''original.jpg''\<rparr>))
         (bind_io (gets_io pc_original_path) (\<lambda>original_path.
          if source_path = [] then
            capture_failed cx (ToCode CaptureFailed) ''missing captured original''
          else bind_io (if source_path \<noteq> original_path
                        then file_op (CopyFileBinary (pe_os cx) source_path original_path)
                        else ret True) (\<lambda>copied.
          if \<not> copied then
            capture_failed cx (ToCode ProviderCallFailed) ''failed to stage captured original''
          else bind_io (file_test (FileExists (pe_os cx) original_path)) (\<lambda>there.
          if source_path = original_path \<and> \<not> there then
            capture_failed cx (ToCode CaptureFailed) ''captured original does not exist''
          else bind_io (stage_laser cx (cs_laser_path result)) (\<lambda>laser_ok.
          if \<not> laser_ok then
            capture_failed cx (ToCode ProviderCallFailed) ''failed to stage captured laser''
          else seq_io (take_metadata result)
              (seq_io (add_original_assets cx result) (original_staged cx))))))))"

definition capture_now :: "'e pipe_env \<Rightarrow> ('e, CStatus) pipe" where
  "capture_now cx =
     (let rq = pe_request cx in
      bind_io (gets_io pc_output_dir) (\<lambda>output_dir.
      bind_io (in_world (CaptureStill (pe_providers cx) (pq_auth_context rq)
          \<lparr> cr_device_id = pq_device_id rq, cr_output_dir = output_dir,
            cr_include_base64 = pq_include_base64 rq, cr_timeout_ms = pq_timeout_ms rq \<rparr>)) (\<lambda>calls.
      let result = await_capture (pq_timeout_ms rq) calls in
      if \<not> IsOkStatusCode (cs_code result) \<or> \<not> cs_captured result then
        seq_io (FinishStage ''capture_raw'' ''failed'' (device_provider_name cx) (cs_message result) [] [])
               (set_failure (cs_code result)
                  (if cs_message result = [] then ''capture failed'' else cs_message result))
      else
        seq_io (modify_io (\<lambda>s. s
          \<lparr> pc_original_path := (if cs_original_path result \<noteq> [] then cs_original_path result
                                 else cs_output_path result),
            pc_laser_path := cs_laser_path result \<rparr>))
        (seq_io (take_metadata result)
        (bind_io (gets_io id) (\<lambda>s.
         seq_io (AddAsset (MakeAsset ''asset-original'' ''original'' (pc_original_path s)
                   (or_jpeg (cs_content_type result)) (cs_width result) (cs_height result) (cs_size result)))
         (seq_io (when_io (pc_laser_path s \<noteq> [])
                   (AddAsset (MakeAsset ''asset-laser'' ''laser'' (pc_laser_path s) ''image/jpeg'' 0 0 0)))
                 (original_staged cx))))))))"

definition CaptureRaw :: "'e pipe_env \<Rightarrow> ('e, CStatus) pipe" where
  "CaptureRaw cx =
     seq_io (StartStage ''capture_raw'')
       (if cs_captured (pq_raw_capture (pe_request cx)) then stage_captured cx else capture_now cx)"

section \<open>Page processing\<close>

definition page_request :: "'e pipe_env \<Rightarrow> 'e pctx \<Rightarrow> SdkPageProcessRequest" where
  "page_request cx s =
     (let rq = pe_request cx; p = pq_profile rq in
      \<lparr> ppr_device_id = pq_device_id rq, ppr_input_path = pc_original_path s,
        ppr_laser_path = pc_laser_path s, ppr_output_dir = pc_output_dir s,
        ppr_output_path = JoinPath (pc_output_dir s) ''page_processed.jpg'',
        ppr_page_processing = cp_page_processing p, ppr_width = pc_original_width s,
        ppr_height = pc_original_height s, ppr_dpi = pc_original_dpi s,
        ppr_single_page_realtime_detect_rects = cp_single_page_realtime_detect_rects p,
        ppr_single_page = cp_single_page p, ppr_curved_book = cp_curved_book p,
        ppr_detected_rects = pc_detected_rects s,
        ppr_detected_rects_source_width = pc_detected_rects_source_width s,
        ppr_detected_rects_source_height = pc_detected_rects_source_height s,
        ppr_selected_area_rect = cp_selected_area_rect p,
        ppr_selected_area_source_width = cp_selected_area_source_width p,
        ppr_selected_area_source_height = cp_selected_area_source_height p,
        ppr_scan_device_type = pc_scan_device_type s \<rparr>)"

definition fallback_output :: "'e pipe_env \<Rightarrow> 'e pctx \<Rightarrow> ProcessedOutput" where
  "fallback_output cx s = default_ProcessedOutput
     \<lparr> out_output_id := ''page-001'', out_role := ''page'', out_index := 0,
       out_page_asset_id := ''asset-page-processed'', out_page_asset_kind := ''page_processed'',
       out_page_path := pc_original_path s, out_width := pc_original_width s,
       out_height := pc_original_height s, out_dpi := pc_original_dpi s,
       out_size := FileSize (pe_os cx) (pc_original_path s) (pc_world s) \<rparr>"

definition AddPageOutputFromProvider :: "'e pipe_env \<Rightarrow> SdkPageOutput \<Rightarrow> bool \<Rightarrow> ('e, unit) pipe" where
  "AddPageOutputFromProvider cx provider_output single =
     bind_io (gets_io id) (\<lambda>s.
     let output_id = SanitizeAssetToken (po_output_id provider_output)
                       (''page-'' @ dec (length (pc_page_outputs s) + 1));
         output = default_ProcessedOutput
           \<lparr> out_output_id := output_id,
             out_role := (if po_role provider_output = [] then ''page'' else po_role provider_output),
             out_index := po_index provider_output, out_page_path := po_path provider_output,
             out_width := po_width provider_output, out_height := po_height provider_output,
             out_dpi := (if po_dpi provider_output > 0 then po_dpi provider_output else pc_original_dpi s),
             out_size := (if po_size provider_output > 0 then po_size provider_output
                          else FileSize (pe_os cx) (po_path provider_output) (pc_world s)),
             out_page_asset_id := (if single then ''asset-page-processed''
                                   else ''asset-page-processed-'' @ output_id),
             out_page_asset_kind := (if single then ''page_processed''
                                     else ''page_processed_'' @ output_id) \<rparr>
     in seq_io (AddAsset (MakeAsset (out_page_asset_id output) (out_page_asset_kind output)
                   (out_page_path output) (or_jpeg (po_content_type provider_output))
                   (out_width output) (out_height output) (out_size output)))
               (modify_io (\<lambda>s. s\<lparr>pc_page_outputs := pc_page_outputs s @ [output]\<rparr>)))"

definition PageAssetIds :: "'e pctx \<Rightarrow> string list" where
  "PageAssetIds s = map out_page_asset_id (pc_page_outputs s)"

definition FinalAssetIds :: "'e pctx \<Rightarrow> string list" where
  "FinalAssetIds s =
     map out_final_asset_id (filter (\<lambda>o'. out_final_asset_id o' \<noteq> []) (pc_page_outputs s))"

definition page_fallback :: "'e pipe_env \<Rightarrow> SdkPageProcessResult \<Rightarrow> ('e, CStatus) pipe" where
  "page_fallback cx result =
     bind_io (gets_io (fallback_output cx)) (\<lambda>output.
     seq_io (modify_io (\<lambda>s. s\<lparr>pc_page_outputs := [output]\<rparr>))
     (seq_io (AddWarning (''page_process fallback: '' @ pps_message result))
     (seq_io (FinishStage ''page_process'' ''succeeded'' (graphic_provider_name cx)
                ''fallback to original'' [''asset-original''] [''asset-page-processed''])
     (seq_io (AddAsset (MakeAsset (out_page_asset_id output) (out_page_asset_kind output)
                (out_page_path output) ''image/jpeg'' (out_width output) (out_height output)
                (out_size output)))
             (ret None)))))"

definition whole_page_output :: "'e pipe_env \<Rightarrow> SdkPageProcessResult \<Rightarrow> 'e pctx \<Rightarrow> SdkPageOutput" where
  "whole_page_output cx result s =
     (let path = (if pps_output_path result = [] then ppr_output_path (page_request cx s)
                  else pps_output_path result) in
      \<lparr> po_output_id = ''page-001'', po_role = ''page'', po_index = 0, po_path = path,
        po_content_type = ''image/jpeg'', po_width = pc_original_width s,
        po_height = pc_original_height s, po_dpi = pc_original_dpi s,
        po_size = FileSize (pe_os cx) path (pc_world s) \<rparr>)"

definition PageProcess :: "'e pipe_env \<Rightarrow> ('e, CStatus) pipe" where
  "PageProcess cx =
     seq_io (StartStage ''page_process'')
     (bind_io (gets_io (page_request cx)) (\<lambda>request.
      bind_io (in_world (ProcessPage (pe_providers cx) request)) (\<lambda>result.
      if \<not> IsOkStatusCode (pps_code result) \<or> pps_unsupported result \<or> \<not> pps_processed result then
        page_fallback cx result
      else
        seq_io (modify_io (\<lambda>s. s\<lparr>pc_page_outputs := []\<rparr>))
        (seq_io
          (if pps_outputs result \<noteq> [] then
             each_io (\<lambda>o'. when_io (po_path o' \<noteq> [])
                        (AddPageOutputFromProvider cx o' (length (pps_outputs result) = 1)))
               (pps_outputs result)
           else bind_io (gets_io (whole_page_output cx result)) (\<lambda>o'.
             AddPageOutputFromProvider cx o' True))
        (bind_io (gets_io id) (\<lambda>s.
         if pc_page_outputs s = [] then
           seq_io (FinishStage ''page_process'' ''failed'' (graphic_provider_name cx)
                     ''page process produced no output'' [''asset-original''] [])
                  (set_failure (ToCode ProviderCallFailed) ''page process produced no output'')
         else seq_io (FinishStage ''page_process'' ''succeeded'' (graphic_provider_name cx) ''ok''
                     [''asset-original''] (PageAssetIds s))
                  (ret None)))))))"

section \<open>Thumbnails\<close>

definition BuildThumbnailSpecForOutput ::
    "'e pipe_env \<Rightarrow> ThumbnailTarget \<Rightarrow> ProcessedOutput \<Rightarrow> bool \<Rightarrow> ThumbnailSpec" where
  "BuildThumbnailSpecForOutput cx target output single =
     (let p = pq_profile (pe_request cx);
          named = (\<lambda>base. if single then base else base @ ''_'' @ out_output_id output);
          asset = (\<lambda>base. if single then base else base @ ''-'' @ out_output_id output)
      in case target of
        PageProcessed \<Rightarrow>
          \<lparr> tn_enabled = cp_thumbnail_page_processed p, tn_stage_name = named ''page_processed_thumbnail'',
            tn_kind = named ''page_processed_thumbnail'', tn_input_asset_id = out_page_asset_id output,
            tn_output_asset_id = asset ''asset-thumbnail-page-processed'',
            tn_input_path = out_page_path output \<rparr>
      | ColorProcessed \<Rightarrow>
          \<lparr> tn_enabled = cp_thumbnail_color_processed p, tn_stage_name = named ''color_processed_thumbnail'',
            tn_kind = named ''color_processed_thumbnail'', tn_input_asset_id = out_color_asset_id output,
            tn_output_asset_id = asset ''asset-thumbnail-color-processed'',
            tn_input_path = out_color_path output \<rparr>
      | Final \<Rightarrow>
          \<lparr> tn_enabled = cp_thumbnail_final p, tn_stage_name = named ''final_thumbnail'',
            tn_kind = named ''final_thumbnail'', tn_input_asset_id = out_final_asset_id output,
            tn_output_asset_id = asset ''asset-thumbnail-final'',
            tn_input_path = out_final_path output \<rparr>
      | Original \<Rightarrow> default_ThumbnailSpec)"

definition BuildThumbnailSpecs :: "'e pipe_env \<Rightarrow> ThumbnailTarget \<Rightarrow> 'e pctx \<Rightarrow> ThumbnailSpec list" where
  "BuildThumbnailSpecs cx target s =
     (if target = Original then
        [\<lparr> tn_enabled = cp_thumbnail_original (pq_profile (pe_request cx)),
           tn_stage_name = ''original_thumbnail'', tn_kind = ''original_thumbnail'',
           tn_input_asset_id = ''asset-original'', tn_output_asset_id = ''asset-thumbnail-original'',
           tn_input_path = pc_original_path s \<rparr>]
      else [])"

definition thumbnail_fallback ::
    "'e pipe_env \<Rightarrow> ThumbnailSpec \<Rightarrow> string \<Rightarrow> SdkThumbnailResult \<Rightarrow> ('e, CStatus) pipe" where
  "thumbnail_fallback cx spec target result =
     (let message = (if ths_message result = [] then ''thumbnail generation failed''
                     else ths_message result) in
      seq_io (AddWarning (tn_stage_name spec @ '' fallback: '' @ message))
      (bind_io (file_op (CopyFileBinary (pe_os cx) (tn_input_path spec) target)) (\<lambda>copied.
       if \<not> copied then
         seq_io (AddWarning (tn_stage_name spec @ '' fallback copy failed''))
         (seq_io (FinishStage (tn_stage_name spec) ''failed'' (graphic_provider_name cx)
                    ''fallback copy failed'' [tn_input_asset_id spec] [])
                 (ret None))
       else bind_io (file_test (FileSize (pe_os cx) target)) (\<lambda>size.
         seq_io (AddAsset (MakeAsset (tn_output_asset_id spec) (tn_kind spec) target ''image/jpeg'' 0 0 size))
         (seq_io (FinishStage (tn_stage_name spec) ''succeeded'' (graphic_provider_name cx)
                    ''fallback copy original'' [tn_input_asset_id spec] [tn_output_asset_id spec])
                 (ret None))))))"

definition RunGenerateThumbnail :: "'e pipe_env \<Rightarrow> ThumbnailSpec \<Rightarrow> ('e, CStatus) pipe" where
  "RunGenerateThumbnail cx spec =
     (if \<not> tn_enabled spec then ret None
      else seq_io (StartStage (tn_stage_name spec))
      (bind_io (gets_io (\<lambda>s. JoinPath (pc_output_dir s) (tn_stage_name spec @ ''.jpg''))) (\<lambda>target.
       bind_io (in_world (GenerateThumbnail (pe_providers cx) (default_SdkThumbnailRequest
          \<lparr> thr_input_path := tn_input_path spec, thr_output_path := target,
            thr_thumbnail_kind := tn_kind spec \<rparr>))) (\<lambda>result.
       let output_path = (if ths_output_path result = [] then target else ths_output_path result) in
       bind_io (file_test (FileExists (pe_os cx) output_path)) (\<lambda>there.
       if IsOkStatusCode (ths_code result) \<and> ths_generated result \<and> there then
         seq_io (AddAsset (MakeAsset (tn_output_asset_id spec) (tn_kind spec) output_path ''image/jpeg''
                   (ths_width result) (ths_height result) (ths_size result)))
         (seq_io (FinishStage (tn_stage_name spec) ''succeeded'' (graphic_provider_name cx) ''ok''
                   [tn_input_asset_id spec] [tn_output_asset_id spec])
                 (ret None))
       else thumbnail_fallback cx spec target result)))))"

fun thumbnail_loop :: "'e pipe_env \<Rightarrow> ThumbnailSpec list \<Rightarrow> ('e, CStatus) pipe" where
  "thumbnail_loop cx [] = ret None"
| "thumbnail_loop cx (spec # specs) =
     (if \<not> tn_enabled spec then thumbnail_loop cx specs
      else then_ok (RunGenerateThumbnail cx spec) (thumbnail_loop cx specs))"

definition RunThumbnail :: "'e pipe_env \<Rightarrow> ThumbnailTarget \<Rightarrow> ('e, CStatus) pipe" where
  "RunThumbnail cx target =
     bind_io (gets_io (BuildThumbnailSpecs cx target)) (thumbnail_loop cx)"

section \<open>Colour mode and format\<close>

definition OutputScale :: "'e pipe_env \<Rightarrow> 'e pctx \<Rightarrow> float32" where
  "OutputScale cx s =
     (let p = pq_profile (pe_request cx) in
      if cp_output_target_width p \<le> 0 \<or> cp_output_target_height p \<le> 0 \<or>
         pc_original_width s \<le> 0 \<or> pc_original_height s \<le> 0 then 1
      else let scale_x = float_div (float_of_int (cp_output_target_width p)) (float_of_int (pc_original_width s));
               scale_y = float_div (float_of_int (cp_output_target_height p)) (float_of_int (pc_original_height s));
               scale = min scale_x scale_y
           in if scale > 0 then scale else 1)"

definition NeedsScale :: "float32 \<Rightarrow> bool" where
  "NeedsScale scale \<longleftrightarrow> scale < round32 (999 / 1000) \<or> scale > round32 (1001 / 1000)"

text \<open>\<open>operator<<\<close> prints a \<open>float\<close> with six significant digits: fixed notation without trailing
  zeros when the decimal exponent is between -4 and 5, scientific notation otherwise.\<close>

definition strip_zeros :: "string \<Rightarrow> string" where
  "strip_zeros s = rev (dropWhile (\<lambda>c. c = CHR ''0'') (rev s))"

definition with_fraction :: "string \<Rightarrow> string \<Rightarrow> string" where
  "with_fraction whole fraction =
     (let f = strip_zeros fraction in if f = [] then whole else whole @ ''.'' @ f)"

definition decimal_exponent :: "rat \<Rightarrow> int" where
  "decimal_exponent x =
     (if x \<ge> 1 then int (length (dec (nat \<lfloor>x\<rfloor>))) - 1
      else - int (length (dec (nat (\<lceil>1 / x\<rceil> - 1)))))"

definition show_float :: "float32 \<Rightarrow> string" where
  "show_float x =
     (let e0 = decimal_exponent x;
          n0 = round_half_even (x / 10 powi (e0 - 5));
          (n, e) = (if n0 = 1000000 then (100000, e0 + 1) else (n0, e0));
          d = dec (nat n)
      in if -4 \<le> e \<and> e < 6 then
           (if e \<ge> 0 then with_fraction (take (nat e + 1) d) (drop (nat e + 1) d)
            else with_fraction ''0'' (replicate (nat (- e) - 1) CHR ''0'' @ d))
         else with_fraction (take 1 d) (drop 1 d) @ ''e'' @ (if e < 0 then ''-'' else ''+'') @
              (if \<bar>e\<bar> < 10 then ''0'' else '''') @ dec (nat \<bar>e\<bar>))"

definition FormatConvertMessage :: "float32 \<Rightarrow> string" where
  "FormatConvertMessage scale = (if \<not> NeedsScale scale then ''ok'' else ''ok scale='' @ show_float scale)"

text \<open>The workflow updates the outputs in place, through the iterator: here by index.\<close>

definition output_at :: "nat \<Rightarrow> ('e, ProcessedOutput) pipe" where
  "output_at i = gets_io (\<lambda>s. pc_page_outputs s ! i)"

definition set_output :: "nat \<Rightarrow> ProcessedOutput \<Rightarrow> ('e, unit) pipe" where
  "set_output i output = modify_io (\<lambda>s. s\<lparr>pc_page_outputs := (pc_page_outputs s)[i := output]\<rparr>)"

definition ApplyColorModeForOutput :: "'e pipe_env \<Rightarrow> nat \<Rightarrow> bool \<Rightarrow> ('e, CStatus) pipe" where
  "ApplyColorModeForOutput cx i single =
     bind_io (output_at i) (\<lambda>output.
     let named = (\<lambda>base. if single then base else base @ ''_'' @ out_output_id output);
         stage_name = named ''color_mode'' in
     seq_io (StartStage stage_name)
     (bind_io (gets_io (\<lambda>s. JoinPath (pc_output_dir s) (named ''color_processed'' @ ''.jpg''))) (\<lambda>target.
      bind_io (in_world (ApplyColorMode (pe_providers cx)
         \<lparr> cmr_input_path = out_page_path output, cmr_output_path = target,
           cmr_color_mode = cp_color_mode (pq_profile (pe_request cx)), cmr_dpi = out_dpi output \<rparr>)) (\<lambda>result.
      let failed = (\<not> IsOkStatusCode (cms_code result) \<or> cms_unsupported result \<or> \<not> cms_processed result);
          color_path = (if failed then out_page_path output
                        else if cms_output_path result = [] then target else cms_output_path result);
          output = output
            \<lparr> out_color_path := color_path,
              out_color_asset_id := (if single then ''asset-color-processed''
                                     else ''asset-color-processed-'' @ out_output_id output),
              out_color_asset_kind := named ''color_processed'' \<rparr> in
      seq_io (set_output i output)
      (seq_io (when_io failed (AddWarning (stage_name @ '' fallback: '' @ cms_message result)))
      (bind_io (file_test (FileSize (pe_os cx) color_path)) (\<lambda>size.
       seq_io (AddAsset (MakeAsset (out_color_asset_id output) (out_color_asset_kind output) color_path
                 ''image/jpeg'' (out_width output) (out_height output) size))
       (seq_io (FinishStage stage_name ''succeeded'' (graphic_provider_name cx)
                 (if color_path = out_page_path output then ''fallback to page result'' else ''ok'')
                 [out_page_asset_id output] [out_color_asset_id output])
               (ret None)))))))))"

definition convert_for_output ::
    "'e pipe_env \<Rightarrow> ProcessedOutput \<Rightarrow> string \<Rightarrow> string \<Rightarrow> float32 \<Rightarrow> ('e, string + string) pipe" where
  "convert_for_output cx output stage_name final_path scale =
     (let p = pq_profile (pe_request cx);
          needs_quality = (cp_output_quality p > 0 \<and> IsJpegFormat (cp_output_format p));
          same_format = HasExtension (out_color_path output) (cp_output_format p)
      in if same_format \<and> \<not> NeedsScale scale \<and> \<not> needs_quality then ret (Inr (out_color_path output))
         else bind_io (in_world (ConvertImageFormat (pe_providers cx)
              \<lparr> fcr_input_path = out_color_path output, fcr_output_path = final_path,
                fcr_output_format = cp_output_format p, fcr_quality = cp_output_quality p,
                fcr_scale = scale \<rparr>)) (\<lambda>result.
           if \<not> IsOkStatusCode (fcs_code result) \<or> (\<not> fcs_converted result \<and> \<not> fcs_passthrough result) then
             seq_io (FinishStage stage_name ''failed'' (graphic_provider_name cx) (fcs_message result)
                       [out_color_asset_id output] [])
             (bind_io (set_failure (fcs_code result)
                         (if fcs_message result = [] then ''format convert failed'' else fcs_message result))
                (\<lambda>status. ret (Inl (the status))))
           else ret (Inr (if fcs_output_path result = [] then final_path else fcs_output_path result))))"

definition FormatConvertForOutput :: "'e pipe_env \<Rightarrow> nat \<Rightarrow> bool \<Rightarrow> ('e, CStatus) pipe" where
  "FormatConvertForOutput cx i single =
     bind_io (output_at i) (\<lambda>output.
     let p = pq_profile (pe_request cx);
         named = (\<lambda>base. if single then base else base @ ''_'' @ out_output_id output);
         stage_name = named ''format_convert'' in
     seq_io (StartStage stage_name)
     (bind_io (gets_io id) (\<lambda>s.
      let final_path = JoinPath (pc_output_dir s)
                         (named ''capture_final'' @ ExtensionForFormat (cp_output_format p));
          scale = OutputScale cx s in
      bind_io (convert_for_output cx output stage_name final_path scale) (\<lambda>converted.
      case converted of Inl info \<Rightarrow> ret (Some info) | Inr path \<Rightarrow>
        let output = output
          \<lparr> out_final_path := path,
            out_width := (if NeedsScale scale then ScaledDimension (out_width output) scale else out_width output),
            out_height := (if NeedsScale scale then ScaledDimension (out_height output) scale else out_height output),
            out_final_asset_id := (if single then ''asset-final'' else ''asset-final-'' @ out_output_id output) \<rparr> in
        seq_io (set_output i output)
        (bind_io (file_test (FileSize (pe_os cx) path)) (\<lambda>size.
         seq_io (AddAsset (MakeAsset (out_final_asset_id output) (named ''final'') path
                   (ContentTypeForFormat (cp_output_format p)) (out_width output) (out_height output) size))
         (seq_io (FinishStage stage_name ''succeeded'' (graphic_provider_name cx)
                   (if path = out_color_path output then ''passthrough'' else FormatConvertMessage scale)
                   [out_color_asset_id output] [out_final_asset_id output])
                 (ret None))))))))"

section \<open>The workflow and the run\<close>

definition thumbnail_for :: "'e pipe_env \<Rightarrow> ThumbnailTarget \<Rightarrow> nat \<Rightarrow> bool \<Rightarrow> ('e, CStatus) pipe" where
  "thumbnail_for cx target i single =
     bind_io (output_at i) (\<lambda>output.
       RunGenerateThumbnail cx (BuildThumbnailSpecForOutput cx target output single))"

definition process_output :: "'e pipe_env \<Rightarrow> bool \<Rightarrow> nat \<Rightarrow> ('e, CStatus) pipe" where
  "process_output cx single i =
     then_ok (thumbnail_for cx PageProcessed i single)
     (then_ok (ApplyColorModeForOutput cx i single)
     (then_ok (thumbnail_for cx ColorProcessed i single)
     (then_ok (FormatConvertForOutput cx i single)
              (thumbnail_for cx Final i single))))"

fun output_loop :: "'e pipe_env \<Rightarrow> bool \<Rightarrow> nat list \<Rightarrow> ('e, CStatus) pipe" where
  "output_loop cx single [] = ret None"
| "output_loop cx single (i # rest) = then_ok (process_output cx single i) (output_loop cx single rest)"

definition ProcessOutputWorkflow :: "'e pipe_env \<Rightarrow> ('e, CStatus) pipe" where
  "ProcessOutputWorkflow cx =
     bind_io (gets_io (\<lambda>s. length (pc_page_outputs s))) (\<lambda>n.
       output_loop cx (n \<le> 1) [0..<n])"

definition FinalizeResult :: "('e, CStatus) pipe" where
  "FinalizeResult =
     seq_io (StartStage ''finalize_result'')
     (bind_io (gets_io FinalAssetIds) (\<lambda>ids.
      seq_io (FinishStage ''finalize_result'' ''succeeded'' ''sdk-open'' ''ok'' ids [])
      (seq_io (modify_io (\<lambda>s. if pr_status (pc_result s) \<noteq> ''failed''
                 then s\<lparr>pc_result := (pc_result s)
                        \<lparr> pr_code := ToCode Ok, pr_message := ''ok'', pr_status := ''succeeded'' \<rparr>\<rparr>
                 else s))
              (ret None))))"

definition Result :: "'e pctx \<Rightarrow> CapturePipelineResult" where
  "Result s = (pc_result s)
     \<lparr> pr_assets := pc_assets s, pr_stages := pc_stages s, pr_warnings := pc_warnings s \<rparr>"

text \<open>The constructor picks and creates the output directory; its failure is only logged.\<close>

definition new_pctx :: "'e pipe_env \<Rightarrow> 'e world \<Rightarrow> 'e pctx" where
  "new_pctx cx w =
     (let rq = pe_request cx;
          output_dir = (if pq_output_dir rq = [] then GetSdkOpenCaptureTaskDir (pe_work_dir cx) (pq_task_id rq)
                        else pq_output_dir rq)
      in \<lparr> pc_world = snd (EnsureDirectoryRecursive (pe_os cx) output_dir w), pc_events = [],
           pc_result = default_CapturePipelineResult, pc_assets = [], pc_stages = [], pc_warnings = [],
           pc_output_dir = output_dir, pc_original_path = '''', pc_laser_path = '''',
           pc_original_width = 0, pc_original_height = 0, pc_original_dpi = 0, pc_detected_rects = [],
           pc_detected_rects_source_width = 0, pc_detected_rects_source_height = 0,
           pc_scan_device_type = 0, pc_page_outputs = [] \<rparr>)"

definition pipeline_body :: "'e pipe_env \<Rightarrow> ('e, CStatus) pipe" where
  "pipeline_body cx =
     then_ok (CaptureRaw cx)
     (then_ok (RunThumbnail cx Original)
     (then_ok (PageProcess cx)
     (then_ok (ProcessOutputWorkflow cx)
              FinalizeResult)))"

definition run_result :: "CStatus \<Rightarrow> 'e pctx \<Rightarrow> CapturePipelineResult" where
  "run_result status s =
     (let result = Result s
      in case status of
           None \<Rightarrow> result
         | Some info \<Rightarrow>
             if pr_status result \<noteq> ''failed''
             then result\<lparr> pr_status := ''failed'', pr_code := ToCode ProviderCallFailed, pr_message := info \<rparr>
             else result)"

text \<open>\<open>Run\<close>, with the stage callbacks it made and the world it leaves.\<close>

definition Run ::
    "'e pipe_env \<Rightarrow> 'e world \<Rightarrow> (exn + CapturePipelineResult) \<times> SdkCaptureStageResult list \<times> 'e world" where
  "Run cx w =
     (case pipeline_body cx (new_pctx cx w) of
        (Inl e, s) \<Rightarrow> (Inl e, pc_events s, pc_world s)
      | (Inr status, s) \<Rightarrow> (Inr (run_result status s), pc_events s, pc_world s))"

end
