(* ===== verification/Pipeline_Props.thy ===== *)
theory Pipeline_Props
  imports Capture_Pipeline
begin

text \<open>
  What a run of the capture pipeline guarantees, whatever the providers and the file system do: the
  stage log, the assets and the outcome.  The proofs use the weakest precondition calculus
  of \<open>Sdk_Effects\<close>, with one introduction rule for each call that leaves the
  pipeline, whose outcome is arbitrary.
\<close>

section \<open>Weakest preconditions\<close>

lemma wp_then_ok [wp_simps]:
  "wp_io (then_ok m k) Q E s =
   wp_io m (\<lambda>st t. case st of None \<Rightarrow> wp_io k Q E t | Some info \<Rightarrow> Q (Some info) t) E s"
proof -
  have "(\<lambda>st. wp_io (case st of Some info \<Rightarrow> ret (Some info) | None \<Rightarrow> k) Q E) =
        (\<lambda>st t. case st of None \<Rightarrow> wp_io k Q E t | Some info \<Rightarrow> Q (Some info) t)"
    by (auto simp: fun_eq_iff wp_ret split: option.splits)
  then show ?thesis by (simp add: then_ok_def wpio_bind)
qed

lemma wp_in_world:
  "(\<And>a w. Q a (s\<lparr>pc_world := w\<rparr>)) \<Longrightarrow> (\<And>w. E (s\<lparr>pc_world := w\<rparr>)) \<Longrightarrow> wp_io (in_world m) Q E s"
  by (auto simp: wp_io_def in_world_def split: prod.splits sum.splits)

lemma wp_file_op: "(\<And>a w. Q a (s\<lparr>pc_world := w\<rparr>)) \<Longrightarrow> wp_io (file_op f) Q E s"
  by (auto simp: wp_io_def file_op_def split: prod.splits)

lemma wp_file_test [wp_simps]: "wp_io (file_test f) Q E s = Q (f (pc_world s)) s"
  by (simp add: file_test_def wp_gets)

section \<open>The stage log\<close>

text \<open>A well-bracketed log: every stage is announced as running and then finished, before the next
  one starts.\<close>

definition closes :: "SdkCaptureStageResult \<Rightarrow> SdkCaptureStageResult \<Rightarrow> bool" where
  "closes r f \<longleftrightarrow> r = running_stage (sg_name f) \<and> sg_status f \<noteq> ''running''"

fun bracketed :: "SdkCaptureStageResult list \<Rightarrow> bool" where
  "bracketed [] = True"
| "bracketed [r] = False"
| "bracketed (r # f # evs) = (closes r f \<and> bracketed evs)"

definition finished :: "SdkCaptureStageResult list \<Rightarrow> SdkCaptureStageResult list" where
  "finished evs = filter (\<lambda>e. sg_status e \<noteq> ''running'') evs"

lemma bracketed_append [simp]: "bracketed evs \<Longrightarrow> bracketed (evs @ evs') = bracketed evs'"
  by (induction evs rule: bracketed.induct) auto

lemma running_status [simp]: "sg_status (running_stage n) = ''running''"
  by (simp add: running_stage_def)

lemma finished_append [simp]: "finished (evs @ evs') = finished evs @ finished evs'"
  by (simp add: finished_def)

lemma finished_running [simp]: "finished [running_stage n] = []"
  by (simp add: finished_def)

definition asset_ids :: "SdkCaptureAsset list \<Rightarrow> string list" where
  "asset_ids = map as_asset_id"

lemma set_put_asset: "set (asset_ids (put_asset a bs)) = insert (as_asset_id a) (set (asset_ids bs))"
  by (induction bs) (auto simp: asset_ids_def)

lemma distinct_put_asset: "distinct (asset_ids bs) \<Longrightarrow> distinct (asset_ids (put_asset a bs))"
proof (induction bs)
  case (Cons b bs)
  then show ?case
    using set_put_asset [of a bs] by (auto simp: asset_ids_def)
qed (simp add: asset_ids_def)

text \<open>Between stages the log is closed; inside a stage it ends with the announcement.  The predicates
  speak of the three fields they depend on, so that they see through updates of the others.\<close>

definition closed ::
    "SdkCaptureStageResult list \<Rightarrow> SdkCaptureStageResult list \<Rightarrow> SdkCaptureAsset list \<Rightarrow> bool" where
  "closed evs stages assets \<longleftrightarrow> bracketed evs \<and> stages = finished evs \<and> distinct (asset_ids assets)"

definition opened ::
    "string \<Rightarrow> SdkCaptureStageResult list \<Rightarrow> SdkCaptureStageResult list \<Rightarrow> SdkCaptureAsset list \<Rightarrow> bool" where
  "opened n evs stages assets \<longleftrightarrow> (\<exists>before. evs = before @ [running_stage n] \<and> closed before stages assets)"

abbreviation closed_log :: "'e pctx \<Rightarrow> bool" where
  "closed_log s \<equiv> closed (pc_events s) (pc_stages s) (pc_assets s)"

abbreviation open_log :: "string \<Rightarrow> 'e pctx \<Rightarrow> bool" where
  "open_log n s \<equiv> opened n (pc_events s) (pc_stages s) (pc_assets s)"

definition some_log ::
    "SdkCaptureStageResult list \<Rightarrow> SdkCaptureStageResult list \<Rightarrow> SdkCaptureAsset list \<Rightarrow> bool" where
  "some_log evs stages assets \<longleftrightarrow> closed evs stages assets \<or> (\<exists>n. opened n evs stages assets)"

abbreviation any_log :: "'e pctx \<Rightarrow> bool" where
  "any_log s \<equiv> some_log (pc_events s) (pc_stages s) (pc_assets s)"

text \<open>No failure has been recorded yet.\<close>

abbreviation fresh_result :: "'e pctx \<Rightarrow> bool" where
  "fresh_result s \<equiv> pc_result s = default_CapturePipelineResult"

definition ok_so_far :: "CStatus \<Rightarrow> 'e pctx \<Rightarrow> bool" where
  "ok_so_far st s \<longleftrightarrow> closed_log s \<and>
     (case st of None \<Rightarrow> fresh_result s | Some info \<Rightarrow>
        pr_status (pc_result s) = ''failed'' \<and> pr_message (pc_result s) = info)"

lemma ok_so_far_simps [simp]:
  "ok_so_far None s \<longleftrightarrow> closed_log s \<and> fresh_result s"
  "ok_so_far (Some info) s \<longleftrightarrow> closed_log s \<and> pr_status (pc_result s) = ''failed'' \<and> pr_message (pc_result s) = info"
  by (auto simp: ok_so_far_def)

lemma opens [simp]: "closed evs stages assets \<Longrightarrow> opened n (evs @ [running_stage n]) stages assets"
  by (auto simp: opened_def)

lemma some_log_intros [simp]:
  "closed evs stages assets \<Longrightarrow> some_log evs stages assets"
  "opened n evs stages assets \<Longrightarrow> some_log evs stages assets"
  "closed evs stages assets \<Longrightarrow> some_log (evs @ [running_stage n]) stages assets"
  by (auto simp: some_log_def opened_def)

lemma closes_again [simp]:
  assumes "opened n evs stages assets" and "st \<noteq> ''running''"
  shows "closed (evs @ [finished_stage n st p m i out]) (stages @ [finished_stage n st p m i out]) assets"
proof -
  let ?f = "finished_stage n st p m i out"
  have "bracketed [running_stage n, ?f]" and "finished [?f] = [?f]"
    using assms(2) by (simp_all add: closes_def finished_def finished_stage_def)
  with assms(1) show ?thesis by (auto simp: opened_def closed_def)
qed

lemma stage_pair [simp]:
  "closed evs stages assets \<Longrightarrow> st \<noteq> ''running'' \<Longrightarrow>
   closed (evs @ [running_stage n, finished_stage n st p m i out]) (stages @ [finished_stage n st p m i out]) assets"
  using closes_again [OF opens, of evs stages assets st n p m i out] by simp

lemma asset_keeps [simp]:
  "closed evs stages assets \<Longrightarrow> closed evs stages (put_asset a assets)"
  "opened n evs stages assets \<Longrightarrow> opened n evs stages (put_asset a assets)"
  by (auto simp: closed_def opened_def distinct_put_asset)

lemmas elementary [wp_simps] =
  StartStage_def FinishStage_def AddAsset_def AddWarning_def set_failure_def take_metadata_def
  set_output_def output_at_def Let_def

section \<open>Each step keeps the log\<close>

lemma wp_capture_failed:
  "open_log ''capture_raw'' s \<Longrightarrow> wp_io (capture_failed cx c m) ok_so_far any_log s"
  by (simp add: capture_failed_def wp_simps)

lemma wp_original_staged:
  "open_log ''capture_raw'' s \<Longrightarrow> fresh_result s \<Longrightarrow> wp_io (original_staged cx) ok_so_far any_log s"
  by (simp add: original_staged_def wp_simps)

lemma wp_stage_laser:
  "(\<And>b w p. Q b (s\<lparr>pc_laser_path := p, pc_world := w\<rparr>)) \<Longrightarrow> wp_io (stage_laser cx l) Q E s"
proof -
  assume Q: "\<And>b w p. Q b (s\<lparr>pc_laser_path := p, pc_world := w\<rparr>)"
  have "Q b (s\<lparr>pc_laser_path := p\<rparr>)" for b p
    using Q [of b "pc_world s" p] by simp
  with Q show ?thesis by (auto simp: stage_laser_def wp_simps intro!: wp_file_op)
qed

lemma wp_CaptureRaw:
  assumes "closed_log s" and "fresh_result s"
  shows "wp_io (CaptureRaw cx) ok_so_far any_log s"
proof -
  have now: "wp_io (capture_now cx) ok_so_far any_log t" if "open_log ''capture_raw'' t" "fresh_result t" for t
    using that
    by (auto simp: capture_now_def wp_simps intro!: wp_in_world wp_original_staged)
  have staged: "wp_io (stage_captured cx) ok_so_far any_log t"
    if "open_log ''capture_raw'' t" "fresh_result t" for t
    using that
    by (auto simp: stage_captured_def add_original_assets_def wp_simps
        intro!: wp_file_op wp_stage_laser wp_original_staged wp_capture_failed)
  show ?thesis
    using assms by (auto simp: CaptureRaw_def wp_simps intro!: now staged)
qed

text \<open>\<open>progress n k\<close>: there are \<open>n\<close> outputs, and the first \<open>k\<close> have their final asset.\<close>

definition progress :: "nat \<Rightarrow> nat \<Rightarrow> ProcessedOutput list \<Rightarrow> SdkCaptureAsset list \<Rightarrow> bool" where
  "progress n k outs assets \<longleftrightarrow> length outs = n \<and>
     (\<forall>i < k. out_final_asset_id (outs ! i) \<noteq> [] \<and> out_final_asset_id (outs ! i) \<in> set (asset_ids assets))"

lemma progress_length: "progress n k outs assets \<Longrightarrow> length outs = n"
  by (simp add: progress_def)

lemma progress_zero [simp]: "progress n 0 outs assets \<longleftrightarrow> length outs = n"
  by (simp add: progress_def)

lemma progress_put [simp]: "progress n k outs assets \<Longrightarrow> progress n k outs (put_asset a assets)"
  by (simp add: progress_def set_put_asset)

lemma progress_update [simp]:
  "progress n k outs assets \<Longrightarrow> k \<le> i \<Longrightarrow> progress n k (outs[i := out]) assets"
  by (auto simp: progress_def nth_list_update)

lemma progress_Suc:
  assumes "progress n k outs assets" and "k < n" and "out_final_asset_id out \<noteq> []"
    and "as_asset_id a = out_final_asset_id out"
  shows "progress n (Suc k) (outs[k := out]) (put_asset a assets)"
  using assms by (auto simp: progress_def nth_list_update less_Suc_eq set_put_asset)

abbreviation working :: "nat \<Rightarrow> nat \<Rightarrow> 'e pctx \<Rightarrow> bool" where
  "working n k s \<equiv> closed_log s \<and> fresh_result s \<and> progress n k (pc_page_outputs s) (pc_assets s)"

lemma wp_thumbnail_fallback:
  assumes "open_log (tn_stage_name spec) s" and "fresh_result s"
    and "progress n k (pc_page_outputs s) (pc_assets s)"
  shows "wp_io (thumbnail_fallback cx spec target r) (\<lambda>st t. st = None \<and> working n k t) any_log s"
  using assms by (auto simp: thumbnail_fallback_def wp_simps intro!: wp_file_op)

lemma wp_RunGenerateThumbnail:
  assumes "working n k s"
  shows "wp_io (RunGenerateThumbnail cx spec) (\<lambda>st t. st = None \<and> working n k t) any_log s"
proof -
  have *: "opened (tn_stage_name spec) (pc_events s @ [running_stage (tn_stage_name spec)])
     (pc_stages s) (pc_assets s)"
    using assms by simp
  show ?thesis
    using assms
    by (auto simp: RunGenerateThumbnail_def wp_simps intro!: wp_in_world wp_thumbnail_fallback *)
qed

lemma wp_thumbnail_loop:
  "working n k s \<Longrightarrow> wp_io (thumbnail_loop cx specs) (\<lambda>st t. st = None \<and> working n k t) any_log s"
proof (induction specs arbitrary: s)
  case Nil
  then show ?case by (simp add: wp_simps)
next
  case (Cons spec specs)
  then show ?case
    by (auto simp: wp_simps intro!: wpio_mono [OF wp_RunGenerateThumbnail])
qed

lemma wp_RunThumbnail:
  "working n k s \<Longrightarrow> wp_io (RunThumbnail cx target) (\<lambda>st t. st = None \<and> working n k t) any_log s"
  by (simp add: RunThumbnail_def wp_simps wp_thumbnail_loop)

lemma wp_thumbnail_for:
  "working n k s \<Longrightarrow> wp_io (thumbnail_for cx target i single) (\<lambda>st t. st = None \<and> working n k t) any_log s"
  by (simp add: thumbnail_for_def wp_simps wp_RunGenerateThumbnail)

lemma wp_ApplyColorMode:
  assumes "working n k s" and "k \<le> i"
  shows "wp_io (ApplyColorModeForOutput cx i single) (\<lambda>st t. st = None \<and> working n k t) any_log s"
  using assms by (auto simp: ApplyColorModeForOutput_def wp_simps intro!: wp_in_world)

lemma wp_FormatConvert:
  assumes "working n k s" and "k < n"
  shows "wp_io (FormatConvertForOutput cx k single)
           (\<lambda>st t. case st of None \<Rightarrow> working n (Suc k) t | Some _ \<Rightarrow> ok_so_far st t) any_log s"
  using assms
  by (auto simp: FormatConvertForOutput_def convert_for_output_def wp_simps MakeAsset_def
      intro!: wp_in_world progress_Suc)

text \<open>What one output's chain, and then the whole run, leaves behind.\<close>

definition advanced :: "nat \<Rightarrow> nat \<Rightarrow> CStatus \<Rightarrow> 'e pctx \<Rightarrow> bool" where
  "advanced n k st t \<longleftrightarrow> (case st of None \<Rightarrow> working n k t | Some _ \<Rightarrow> ok_so_far st t)"

lemma advanced_simps [simp]:
  "advanced n k None t = working n k t" "advanced n k (Some info) t = ok_so_far (Some info) t"
  by (simp_all add: advanced_def)

lemma wp_process_output:
  assumes "working n k s" and "k < n"
  shows "wp_io (process_output cx single k) (advanced n (Suc k)) any_log s"
proof -
  have last: "wp_io (thumbnail_for cx Final k single) (advanced n (Suc k)) any_log t"
    if "working n (Suc k) t" for t
    by (rule wpio_mono [OF wp_thumbnail_for [OF that]]) simp_all
  have convert: "wp_io (then_ok (FormatConvertForOutput cx k single) (thumbnail_for cx Final k single))
      (advanced n (Suc k)) any_log t" if "working n k t" for t
    unfolding wp_then_ok
    by (rule wpio_mono [OF wp_FormatConvert [OF that assms(2)]])
       (auto simp: last split: option.splits)
  have thumb: "wp_io (then_ok (thumbnail_for cx ColorProcessed k single)
      (then_ok (FormatConvertForOutput cx k single) (thumbnail_for cx Final k single)))
      (advanced n (Suc k)) any_log t" if "working n k t" for t
    unfolding wp_then_ok [of "thumbnail_for cx ColorProcessed k single"]
    by (rule wpio_mono [OF wp_thumbnail_for [OF that]]) (auto simp: convert)
  have color: "wp_io (then_ok (ApplyColorModeForOutput cx k single)
      (then_ok (thumbnail_for cx ColorProcessed k single)
      (then_ok (FormatConvertForOutput cx k single) (thumbnail_for cx Final k single))))
      (advanced n (Suc k)) any_log t" if "working n k t" for t
    unfolding wp_then_ok [of "ApplyColorModeForOutput cx k single"]
    by (rule wpio_mono [OF wp_ApplyColorMode [OF that order_refl]]) (auto simp: thumb)
  show ?thesis
    unfolding process_output_def wp_then_ok [of "thumbnail_for cx PageProcessed k single"]
    by (rule wpio_mono [OF wp_thumbnail_for [OF assms(1)]]) (auto simp: color)
qed

lemma wp_output_loop:
  "working n k s \<Longrightarrow> k \<le> n \<Longrightarrow> wp_io (output_loop cx single [k..<n]) (advanced n n) any_log s"
proof (induction "n - k" arbitrary: k s)
  case 0
  then show ?case by (simp add: wp_simps)
next
  case (Suc d)
  then have k: "k < n" by simp
  then have "[k..<n] = k # [Suc k..<n]" by (rule upt_conv_Cons)
  moreover have "wp_io (output_loop cx single [Suc k..<n]) (advanced n n) any_log t"
    if "working n (Suc k) t" for t
    using Suc.hyps(1) [of "Suc k" t] Suc.hyps(2) that k by simp
  ultimately show ?case
    using wp_process_output [OF Suc.prems(1) k, of cx single]
    by (auto simp: wp_then_ok split: option.splits elim!: wpio_mono)
qed

text \<open>A page processing that succeeds leaves at least one output.\<close>

lemma wp_AddPageOutput:
  assumes "open_log n s" and "fresh_result s"
  shows "wp_io (AddPageOutputFromProvider cx po single) (\<lambda>_ t. open_log n t \<and> fresh_result t) any_log s"
  using assms by (simp add: AddPageOutputFromProvider_def wp_simps)

lemma wp_PageProcess:
  assumes "closed_log s" and "fresh_result s"
  shows "wp_io (PageProcess cx)
           (\<lambda>st t. ok_so_far st t \<and> (st = None \<longrightarrow> pc_page_outputs t \<noteq> [])) any_log s"
proof -
  have each: "wp_io (each_io (\<lambda>o'. when_io (po_path o' \<noteq> []) (AddPageOutputFromProvider cx o' single)) os)
      (\<lambda>_ t. open_log ''page_process'' t \<and> fresh_result t) any_log t"
    if "open_log ''page_process'' t" "fresh_result t" for os single t
    using that
    by (intro wp_each [where I = "\<lambda>t. open_log ''page_process'' t \<and> fresh_result t"])
       (auto simp: wp_when intro!: wp_AddPageOutput)
  have fallback: "wp_io (page_fallback cx r)
      (\<lambda>st t. ok_so_far st t \<and> (st = None \<longrightarrow> pc_page_outputs t \<noteq> [])) any_log t"
    if "open_log ''page_process'' t" "fresh_result t" for r t
    using that by (auto simp: page_fallback_def wp_simps)
  show ?thesis
    using assms
    by (auto simp: PageProcess_def wp_simps
        intro!: wp_in_world fallback wpio_mono [OF each]
          wpio_mono [OF wp_AddPageOutput [where n = "''page_process''"]])
qed

lemma wp_Workflow:
  assumes "closed_log s" and "fresh_result s"
  shows "wp_io (ProcessOutputWorkflow cx) (advanced (length (pc_page_outputs s)) (length (pc_page_outputs s)))
           any_log s"
  using assms wp_output_loop [where s = s and k = 0 and n = "length (pc_page_outputs s)"]
  by (simp add: ProcessOutputWorkflow_def wp_simps)

section \<open>The run\<close>

text \<open>What a successful run has recorded: the last stage is \<open>finalize_result\<close>, and the ids it reports,
  at least one, are ids of assets.\<close>

definition finalized :: "SdkCaptureStageResult list \<Rightarrow> SdkCaptureAsset list \<Rightarrow> bool" where
  "finalized stages assets \<longleftrightarrow> stages \<noteq> [] \<and> sg_name (last stages) = ''finalize_result'' \<and>
     sg_input_assets (last stages) \<noteq> [] \<and> set (sg_input_assets (last stages)) \<subseteq> set (asset_ids assets)"

lemma progress_FinalAssetIds:
  assumes "progress n n (pc_page_outputs s) (pc_assets s)" and "0 < n"
  shows "FinalAssetIds s \<noteq> [] \<and> set (FinalAssetIds s) \<subseteq> set (asset_ids (pc_assets s))"
proof -
  have all: "out_final_asset_id p \<noteq> [] \<and> out_final_asset_id p \<in> set (asset_ids (pc_assets s))"
    if "p \<in> set (pc_page_outputs s)" for p
    using assms(1) that by (auto simp: progress_def in_set_conv_nth)
  moreover have "pc_page_outputs s \<noteq> []"
    using assms by (auto simp: progress_def)
  then have "filter (\<lambda>p. out_final_asset_id p \<noteq> []) (pc_page_outputs s) \<noteq> []"
    using all by (cases "pc_page_outputs s") auto
  ultimately show ?thesis by (auto simp: FinalAssetIds_def)
qed

lemma FinalAssetIds_events [simp]: "FinalAssetIds (s\<lparr>pc_events := ev\<rparr>) = FinalAssetIds s"
  by (simp add: FinalAssetIds_def)

lemma finished_stage_fields [simp]:
  "sg_name (finished_stage n st p m i out) = n"
  "sg_input_assets (finished_stage n st p m i out) = i"
  "sg_status (finished_stage n st p m i out) = st"
  by (simp_all add: finished_stage_def)

lemma wp_FinalizeResult:
  assumes "working n n s" and "0 < n"
  shows "wp_io FinalizeResult
    (\<lambda>st t. ok_so_far st t \<and> st = None \<and> finalized (pc_stages t) (pc_assets t)) any_log s"
  using assms progress_FinalAssetIds [OF _ assms(2), of s]
  by (auto simp: FinalizeResult_def wp_simps finalized_def default_CapturePipelineResult_def)

definition run_post :: "CStatus \<Rightarrow> 'e pctx \<Rightarrow> bool" where
  "run_post st t \<longleftrightarrow> ok_so_far st t \<and> (st = None \<longrightarrow> finalized (pc_stages t) (pc_assets t))"

lemma ok_post: "ok_so_far (Some info) t \<Longrightarrow> run_post (Some info) t"
  by (simp add: run_post_def)

lemma wp_pipeline_body:
  assumes "closed_log s" and "fresh_result s"
  shows "wp_io (pipeline_body cx) run_post any_log s"
proof -
  have fin: "wp_io FinalizeResult run_post any_log t" if "working n n t" "0 < n" for n t
    by (rule wpio_mono [OF wp_FinalizeResult [OF that]]) (auto simp: run_post_def)
  have workflow: "wp_io (then_ok (ProcessOutputWorkflow cx) FinalizeResult) run_post any_log t"
    if "closed_log t" "fresh_result t" "pc_page_outputs t \<noteq> []" for t
    unfolding wp_then_ok
    by (rule wpio_mono [OF wp_Workflow [OF that(1, 2)]])
       (use that(3) in \<open>auto intro: fin ok_post split: option.splits\<close>)
  have page: "wp_io (then_ok (PageProcess cx) (then_ok (ProcessOutputWorkflow cx) FinalizeResult))
      run_post any_log t" if "closed_log t" "fresh_result t" for t
    unfolding wp_then_ok [of "PageProcess cx"]
    by (rule wpio_mono [OF wp_PageProcess [OF that]]) (auto intro: workflow ok_post split: option.splits)
  have thumb: "wp_io (then_ok (RunThumbnail cx Original)
      (then_ok (PageProcess cx) (then_ok (ProcessOutputWorkflow cx) FinalizeResult)))
      run_post any_log t" if "closed_log t" "fresh_result t" for t
    unfolding wp_then_ok [of "RunThumbnail cx Original"]
    by (rule wpio_mono [OF wp_RunThumbnail [of _ _ 0]]) (use that in \<open>auto intro: page\<close>)
  show ?thesis
    unfolding pipeline_body_def wp_then_ok [of "CaptureRaw cx"]
    by (rule wpio_mono [OF wp_CaptureRaw [OF assms]]) (auto intro: thumb ok_post split: option.splits)
qed

lemma new_pctx_fields [simp]:
  "pc_events (new_pctx cx w) = []" "pc_stages (new_pctx cx w) = []" "pc_assets (new_pctx cx w) = []"
  "pc_result (new_pctx cx w) = default_CapturePipelineResult"
  by (simp_all add: new_pctx_def Let_def)

lemma pipeline_body_post:
  "wp_io (pipeline_body cx) run_post any_log (new_pctx cx w)"
  by (rule wp_pipeline_body) (simp_all add: closed_def asset_ids_def finished_def)

end
