(* ===== verification/Pipeline_Claims.thy ===== *)
theory Pipeline_Claims
  imports Pipeline_Props
begin

text \<open>
  The properties of the capture pipeline: well-formed runs, what happens without a graphic provider,
  the scaling arithmetic, and three places where the code does not do what it means to.
\<close>

section \<open>Every run\<close>

text \<open>C18. A capture pipeline run that returns, whatever the providers and the file system do: every
  stage was announced, then finished, before the next began; the result's stages are exactly the
  finished ones; no two assets share an id; and the result is either a success with code 0 whose
  last stage is \<open>finalize_result\<close> and reports at least one asset that is in the result, or it is
  marked failed.\<close>

theorem pipeline_run_well_formed:
  assumes "Run cx w = (Inr r, evs, w')"
  shows "bracketed evs \<and> pr_stages r = finished evs \<and> distinct (asset_ids (pr_assets r)) \<and>
    (pr_status r = ''succeeded'' \<and> pr_code r = ToCode Ok \<and> finalized (pr_stages r) (pr_assets r) \<or>
     pr_status r = ''failed'')"
proof -
  obtain st s where run: "pipeline_body cx (new_pctx cx w) = (Inr st, s)"
    and r: "r = run_result st s" and evs: "evs = pc_events s"
    using assms by (auto simp: Run_def split: prod.splits sum.splits)
  have post: "run_post st s"
    using pipeline_body_post [of cx w] run by (simp add: wp_io_def)
  then have "closed_log s" by (auto simp: run_post_def ok_so_far_def)
  then have "bracketed evs \<and> pr_stages r = finished evs \<and> distinct (asset_ids (pr_assets r))"
    by (auto simp: closed_def r evs run_result_def Result_def Let_def split: option.splits)
  moreover have "pr_status r = ''succeeded'' \<and> pr_code r = ToCode Ok \<and> finalized (pr_stages r) (pr_assets r) \<or>
        pr_status r = ''failed''"
    using post
    by (cases st) (auto simp: run_post_def r run_result_def Result_def default_CapturePipelineResult_def Let_def)
  ultimately show ?thesis by blast
qed


section \<open>Scaling to the target size\<close>

lemma ratio_bounds:
  fixes t v :: int
  assumes "0 < t" and "0 < v"
  defines "q \<equiv> of_int t / of_int v :: rat"
  shows "0 < round32 q \<and> \<bar>of_int v * round32 q - of_int t\<bar> \<le> of_int t / 2 ^ 24"
proof -
  have q: "0 < q" "of_int v * q = of_int t" using assms by (simp_all add: q_def)
  have err: "\<bar>round32 q - q\<bar> \<le> q / 2 ^ 24" by (rule round32_error [OF q(1)])
  have "q / 2 ^ 24 < q" using q(1) by simp
  with err q(1) have "0 < round32 q" by linarith
  moreover have "of_int v * \<bar>round32 q - q\<bar> \<le> of_int v * (q / 2 ^ 24)"
    using err assms(2) by (intro mult_left_mono) auto
  then have "\<bar>of_int v * (round32 q - q)\<bar> \<le> of_int t / 2 ^ 24"
    using assms(2) q(2) by (simp add: abs_mult)
  then have "\<bar>of_int v * round32 q - of_int t\<bar> \<le> of_int t / 2 ^ 24"
    using q(2) by (simp add: right_diff_distrib)
  ultimately show ?thesis by blast
qed

text \<open>Two more roundings on the way to the pixel: the error stays under a half, so truncation is
  exact.\<close>

lemma round_chain:
  assumes "0 < y" and "y \<le> 2 ^ 20" and "\<bar>y - z\<bar> \<le> 1 / 16"
  shows "\<bar>round32 (round32 y + 1 / 2) - (z + 1 / 2)\<bar> < 1 / 2"
proof -
  have y16: "y / 2 ^ 24 \<le> 1 / 16" using assms(2) by simp
  have e1: "\<bar>round32 y - y\<bar> \<le> y / 2 ^ 24" by (rule round32_error [OF assms(1)])
  have p0: "0 \<le> round32 y" using assms(1) by (intro round32_nonneg) simp
  have e2: "\<bar>round32 (round32 y + 1 / 2) - (round32 y + 1 / 2)\<bar> \<le> (round32 y + 1 / 2) / 2 ^ 24"
    using p0 by (intro round32_error) simp
  have "round32 y \<le> 2 ^ 20 + 1 / 16" using e1 y16 assms(2) by linarith
  then have "(round32 y + 1 / 2) / 2 ^ 24 \<le> 1 / 8" by simp
  with e1 e2 y16 assms(3) show ?thesis by linarith
qed

lemma int_of_float_near:
  assumes "\<bar>x - (of_int t + 1 / 2)\<bar> < 1 / 2" and "0 \<le> t"
  shows "int_of_float x = t"
proof -
  have t: "of_int t < x" "x < of_int t + 1" using assms(1) by linarith+
  then have "0 \<le> x" using assms(2) by (meson less_eq_rat_def of_int_0_le_iff order_trans)
  moreover have "\<lfloor>x\<rfloor> = t" using t by (intro floor_unique) simp_all
  ultimately show ?thesis by (simp add: int_of_float_def)
qed

lemma ScaledDimension_limit:
  assumes "0 < t" and "t < 2 ^ 19" and "0 < v" and "v < 2 ^ 20"
  shows "ScaledDimension v (float_div (float_of_int t) (float_of_int v)) = t"
proof -
  let ?s = "round32 (of_int t / of_int v)"
  have exact: "float_of_int v = of_int v" "float_of_int t = of_int t"
    using assms by (simp_all add: float_of_int_exact)
  note r = ratio_bounds [OF assms(1, 3)]
  have t19: "(of_int t :: rat) < 2 ^ 19"
    using assms(2) by (metis of_int_less_iff of_int_numeral of_int_power)
  then have small: "(of_int t :: rat) / 2 ^ 24 \<le> 1 / 16" by simp
  have "\<bar>round32 (round32 (of_int v * ?s) + 1 / 2) - (of_int t + 1 / 2)\<bar> < 1 / 2"
  proof (rule round_chain)
    show "0 < of_int v * ?s" using r assms(3) by simp
    have "of_int v * ?s \<le> of_int t + 1 / 16" using r small by linarith
    also have "\<dots> \<le> 2 ^ 19 + 1 / 16" using t19 by simp
    finally show "of_int v * ?s \<le> 2 ^ 20" by simp
    show "\<bar>of_int v * ?s - of_int t\<bar> \<le> 1 / 16" using r small by linarith
  qed
  then have "int_of_float (round32 (round32 (of_int v * ?s) + 1 / 2)) = t"
    using assms(1) by (intro int_of_float_near) simp_all
  then show ?thesis
    using assms exact by (simp add: ScaledDimension_def float_add_def float_mult_def float_div_def)
qed

lemma ScaledDimension_below:
  assumes "0 < t" and "t < 2 ^ 19" and "0 < v" and "v < 2 ^ 20"
    and "0 < s" and "s \<le> float_div (float_of_int t) (float_of_int v)"
  shows "1 \<le> ScaledDimension v s \<and> ScaledDimension v s \<le> t"
proof -
  let ?r = "round32 (of_int t / of_int v)" and ?y = "of_int v * s"
  have exact: "float_of_int v = of_int v" "float_of_int t = of_int t"
    using assms by (simp_all add: float_of_int_exact)
  have s: "s \<le> ?r" using assms(6) exact by (simp add: float_div_def)
  have t19: "(of_int t :: rat) < 2 ^ 19"
    using assms(2) by (metis of_int_less_iff of_int_numeral of_int_power)
  then have small: "(of_int t :: rat) / 2 ^ 24 \<le> 1 / 16" by simp
  have "?y \<le> of_int v * ?r" using s assms(3) by (intro mult_left_mono) auto
  with ratio_bounds [OF assms(1, 3)] small have y: "?y \<le> of_int t + 1 / 16" by linarith
  have y0: "0 < ?y" using assms(3, 5) by simp
  have "\<bar>round32 (round32 ?y + 1 / 2) - (?y + 1 / 2)\<bar> < 1 / 4"
  proof -
    have e1: "\<bar>round32 ?y - ?y\<bar> \<le> ?y / 2 ^ 24" by (rule round32_error [OF y0])
    have p0: "0 \<le> round32 ?y" using y0 by (intro round32_nonneg) simp
    have e2: "\<bar>round32 (round32 ?y + 1 / 2) - (round32 ?y + 1 / 2)\<bar> \<le> (round32 ?y + 1 / 2) / 2 ^ 24"
      using p0 by (intro round32_error) simp
    have y20: "?y \<le> 2 ^ 19 + 1 / 16" using y t19 by linarith
    then have "?y / 2 ^ 24 \<le> (2 ^ 19 + 1 / 16) / 2 ^ 24" by (intro divide_right_mono) auto
    then have y16: "?y / 2 ^ 24 \<le> 1 / 16" by simp
    then have "round32 ?y \<le> 2 ^ 19 + 1 / 8" using e1 y20 by linarith
    then have "(round32 ?y + 1 / 2) / 2 ^ 24 \<le> 1 / 8" by simp
    with e1 e2 y16 show ?thesis by linarith
  qed
  then have "round32 (round32 ?y + 1 / 2) < of_int t + 1" using y by linarith
  moreover have "0 \<le> round32 (round32 ?y + 1 / 2)"
    using y0 by (intro round32_nonneg add_nonneg_nonneg) auto
  ultimately have "int_of_float (round32 (round32 ?y + 1 / 2)) \<le> t"
    by (simp add: int_of_float_def floor_le_iff)
  then show ?thesis
    using assms exact by (simp add: ScaledDimension_def float_add_def float_mult_def)
qed

text \<open>C19. The output scale makes the page fit: with the target and the original smaller than \<open>2^19\<close> and
  \<open>2^20\<close> pixels, the scaled page is at least one pixel and at most the target in both directions,
  and in one of them it is exactly the target, in spite of the rounding of every \<open>float\<close> operation.\<close>

theorem output_scale_fits:
  assumes "0 < cp_output_target_width (pq_profile (pe_request cx))"
    and "cp_output_target_width (pq_profile (pe_request cx)) < 2 ^ 19"
    and "0 < cp_output_target_height (pq_profile (pe_request cx))"
    and "cp_output_target_height (pq_profile (pe_request cx)) < 2 ^ 19"
    and "0 < pc_original_width s" and "pc_original_width s < 2 ^ 20"
    and "0 < pc_original_height s" and "pc_original_height s < 2 ^ 20"
  defines "w \<equiv> ScaledDimension (pc_original_width s) (OutputScale cx s)"
    and "h \<equiv> ScaledDimension (pc_original_height s) (OutputScale cx s)"
    and "tw \<equiv> cp_output_target_width (pq_profile (pe_request cx))"
    and "th \<equiv> cp_output_target_height (pq_profile (pe_request cx))"
  shows "1 \<le> w \<and> w \<le> tw \<and> 1 \<le> h \<and> h \<le> th \<and> (w = tw \<or> h = th)"
proof -
  define ow oh where "ow = pc_original_width s" and "oh = pc_original_height s"
  define sx where "sx = float_div (float_of_int tw) (float_of_int ow)"
  define sy where "sy = float_div (float_of_int th) (float_of_int oh)"
  have dims: "0 < tw" "tw < 2 ^ 19" "0 < th" "th < 2 ^ 19" "0 < ow" "ow < 2 ^ 20" "0 < oh" "oh < 2 ^ 20"
    using assms(1-8) by (simp_all add: tw_def th_def ow_def oh_def)
  have exact: "float_of_int tw = of_int tw" "float_of_int th = of_int th"
    "float_of_int ow = of_int ow" "float_of_int oh = of_int oh"
    using dims by (simp_all add: float_of_int_exact)
  have pos: "0 < sx" "0 < sy"
    using ratio_bounds [OF dims(1, 5)] ratio_bounds [OF dims(3, 7)]
    by (simp_all add: sx_def sy_def float_div_def exact)
  have "OutputScale cx s = (if min sx sy > 0 then min sx sy else 1)"
    using dims by (simp add: OutputScale_def Let_def sx_def sy_def ow_def oh_def tw_def th_def)
  then have scale: "OutputScale cx s = min sx sy" using pos by simp
  have wh: "w = ScaledDimension ow (min sx sy)" "h = ScaledDimension oh (min sx sy)"
    by (simp_all add: w_def h_def ow_def oh_def scale)
  have below: "1 \<le> w \<and> w \<le> tw" "1 \<le> h \<and> h \<le> th"
    unfolding wh using pos
    by (auto simp: sx_def [symmetric] sy_def [symmetric]
        intro!: ScaledDimension_below [OF dims(1, 2, 5, 6)] ScaledDimension_below [OF dims(3, 4, 7, 8)])
  have "w = tw" if "sx \<le> sy"
    using ScaledDimension_limit [OF dims(1, 2, 5, 6)] that by (simp add: wh min_def sx_def)
  moreover have "h = th" if "\<not> sx \<le> sy"
    using ScaledDimension_limit [OF dims(3, 4, 7, 8)] that by (simp add: wh min_def sy_def)
  ultimately show ?thesis using below by blast
qed

section \<open>Without a graphic provider\<close>

lemma wp_file_op_eq: "wp_io (file_op f) Q E s = (case f (pc_world s) of (a, w) \<Rightarrow> Q a (s\<lparr>pc_world := w\<rparr>))"
  by (simp add: wp_io_def file_op_def split: prod.splits)

lemma in_world_ret: "in_world (ret a) = ret a"
  by (simp add: in_world_def ret_def fun_eq_iff)

lemma NeedsScale_one: "\<not> NeedsScale 1"
proof -
  have "\<bar>round32 (999 / 1000) - 999 / 1000\<bar> \<le> (999 / 1000) / 2 ^ 24"
    and "\<bar>round32 (1001 / 1000) - 1001 / 1000\<bar> \<le> (1001 / 1000) / 2 ^ 24"
    by (rule round32_error; simp)+
  moreover have "((999 :: rat) / 1000) / 2 ^ 24 < 1 / 1000" and "((1001 :: rat) / 1000) / 2 ^ 24 < 1 / 1000"
    by simp_all
  ultimately show ?thesis unfolding NeedsScale_def by linarith
qed

lemma put_asset_mem: "a \<in> set (put_asset a bs)"
  by (induction bs) auto

lemma put_asset_keeps: "x \<in> set bs \<Longrightarrow> as_asset_id x \<noteq> as_asset_id a \<Longrightarrow> x \<in> set (put_asset a bs)"
  by (induction bs) auto

text \<open>What a thumbnail stage leaves alone.\<close>

definition thumb_frame :: "string \<Rightarrow> 'e pctx \<Rightarrow> 'e pctx \<Rightarrow> bool" where
  "thumb_frame out s t \<longleftrightarrow> pc_original_path t = pc_original_path s \<and> pc_result t = pc_result s \<and>
     pc_page_outputs t = pc_page_outputs s \<and>
     (\<forall>x \<in> set (pc_assets s). as_asset_id x \<noteq> out \<longrightarrow> x \<in> set (pc_assets t)) \<and>
     set (pc_warnings s) \<subseteq> set (pc_warnings t)"

lemma wp_plain_thumbnail:
  assumes "graphic_provider (pe_providers cx) = None"
    and "\<And>t. thumb_frame (tn_output_asset_id spec) s t \<Longrightarrow> Q None t"
  shows "wp_io (RunGenerateThumbnail cx spec) Q E s"
  using assms(1)
  by (auto simp: RunGenerateThumbnail_def thumbnail_fallback_def GenerateThumbnail_def in_world_ret wp_simps
      thumb_frame_def MakeAsset_def default_SdkThumbnailResult_def put_asset_keeps
      intro!: wp_file_op assms(2))

text \<open>The profile asks for nothing a missing provider would have to do at the end: JPEG without a
  quality or a target size.\<close>

definition plain_profile :: "SdkCaptureProfile \<Rightarrow> bool" where
  "plain_profile p \<longleftrightarrow> cp_output_format p = ''jpg'' \<and> cp_output_quality p \<le> 0 \<and> cp_output_target_width p \<le> 0"

lemma HasExtension_jpg: "HasExtension (p @ ''original.jpg'') ''jpg''"
  by (simp add: HasExtension_def ExtensionForFormat_def to_lower_def lower_char_def)

lemma JoinPath_original: "\<exists>d. JoinPath base ''original.jpg'' = d @ ''original.jpg''"
  unfolding JoinPath_def by (metis append_Nil append_Cons append_assoc list.distinct(1))

lemma wp_plain_color:
  assumes "graphic_provider (pe_providers cx) = None" and "pc_page_outputs s = [out]"
    and "\<And>t out'. \<lbrakk>pc_original_path t = pc_original_path s; pc_result t = pc_result s;
           pc_page_outputs t = [out']; out_color_path out' = out_page_path out;
           set (pc_warnings s) \<subseteq> set (pc_warnings t)\<rbrakk> \<Longrightarrow> Q None t"
  shows "wp_io (ApplyColorModeForOutput cx 0 True) Q E s"
  using assms(1, 2)
  by (auto simp: ApplyColorModeForOutput_def ApplyColorMode_def in_world_ret wp_simps
      default_SdkColorModeResult_def intro!: assms(3))

lemma wp_plain_convert:
  assumes "plain_profile (pq_profile (pe_request cx))" and "pc_page_outputs s = [out]"
    and "out_color_path out = d @ ''original.jpg''"
    and "\<And>t a. \<lbrakk>pc_original_path t = pc_original_path s; pc_result t = pc_result s;
           length (pc_page_outputs t) = 1; a \<in> set (pc_assets t); as_asset_id a = ''asset-final'';
           as_kind a = ''final''; as_path a = out_color_path out; set (pc_warnings s) \<subseteq> set (pc_warnings t)\<rbrakk> \<Longrightarrow> Q None t"
  shows "wp_io (FormatConvertForOutput cx 0 True) Q E s"
proof -
  have scale: "OutputScale cx s' = 1" for s'
    using assms(1) by (simp add: OutputScale_def plain_profile_def Let_def)
  show ?thesis
    using assms(1-3)
    by (auto simp: FormatConvertForOutput_def convert_for_output_def scale NeedsScale_one plain_profile_def
        HasExtension_jpg OutputScale_def wp_simps MakeAsset_def intro!: assms(4) put_asset_mem)
qed

definition page_warning :: string where
  "page_warning = ''page_process fallback: page processing provider not ready''"

definition kept_original :: "string \<Rightarrow> 'e pctx \<Rightarrow> bool" where
  "kept_original p t \<longleftrightarrow> fresh_result t \<and> pc_original_path t = p \<and> page_warning \<in> set (pc_warnings t)"

definition has_final :: "string \<Rightarrow> SdkCaptureAsset list \<Rightarrow> bool" where
  "has_final p assets \<longleftrightarrow>
     (\<exists>a \<in> set assets. as_asset_id a = ''asset-final'' \<and> as_kind a = ''final'' \<and> as_path a = p)"

lemma wp_plain_thumb_for:
  assumes "graphic_provider (pe_providers cx) = None" and "target \<noteq> Original"
    and "\<And>t. thumb_frame (tn_output_asset_id
           (BuildThumbnailSpecForOutput cx target (pc_page_outputs s ! i) single)) s t \<Longrightarrow> Q None t"
  shows "wp_io (thumbnail_for cx target i single) Q E s"
  using assms by (auto simp: thumbnail_for_def wp_simps intro!: wp_plain_thumbnail)

lemma thumb_frame_keeps:
  assumes "thumb_frame out s t"
  shows "kept_original p s \<Longrightarrow> kept_original p t"
    and "pc_page_outputs t = pc_page_outputs s"
    and "out \<noteq> ''asset-final'' \<Longrightarrow> has_final p (pc_assets s) \<Longrightarrow> has_final p (pc_assets t)"
  using assms by (auto simp: thumb_frame_def kept_original_def has_final_def)

lemma final_thumbnail_id:
  "tn_output_asset_id (BuildThumbnailSpecForOutput cx Final out True) = ''asset-thumbnail-final''"
  by (simp add: BuildThumbnailSpecForOutput_def Let_def)

lemma wp_plain_workflow:
  fixes cx :: "'e pipe_env"
  assumes cx: "graphic_provider (pe_providers cx) = None" "plain_profile (pq_profile (pe_request cx))"
    and s: "kept_original p s" "pc_page_outputs s = [out]" "out_page_path out = p" "p = d @ ''original.jpg''"
  shows "wp_io (ProcessOutputWorkflow cx)
    (\<lambda>st t. st = None \<and> kept_original p t \<and> has_final p (pc_assets t)) E s"
proof -
  let ?Q = "\<lambda>st t. st = None \<and> kept_original p t \<and> has_final p (pc_assets t)"
  have fin: "wp_io (thumbnail_for cx Final 0 True) ?Q E t"
    if "kept_original p t" "has_final p (pc_assets t)" for t
    using that
    by (intro wp_plain_thumb_for [OF cx(1)])
       (auto simp: final_thumbnail_id intro: thumb_frame_keeps)
  have conv: "wp_io (then_ok (FormatConvertForOutput cx 0 True) (thumbnail_for cx Final 0 True)) ?Q E t"
    if "kept_original p t" "pc_page_outputs t = [o']" "out_color_path o' = p" for t o'
    unfolding wp_then_ok
  proof (rule wp_plain_convert [OF cx(2) that(2), of d])
    show "out_color_path o' = d @ ''original.jpg''" using that(3) s(4) by simp
  next
    fix u :: "'e pctx" and a
    assume "pc_original_path u = pc_original_path t" "pc_result u = pc_result t" "a \<in> set (pc_assets u)"
      "as_asset_id a = ''asset-final''" "as_kind a = ''final''" "as_path a = out_color_path o'"
      "set (pc_warnings t) \<subseteq> set (pc_warnings u)"
    then have "kept_original p u" and "has_final p (pc_assets u)"
      using that by (auto simp: kept_original_def has_final_def)
    then show "case None of None \<Rightarrow> wp_io (thumbnail_for cx Final 0 True) ?Q E u | Some info \<Rightarrow> ?Q (Some info) u"
      by (simp add: fin)
  qed
  have thumb: "wp_io (then_ok (thumbnail_for cx ColorProcessed 0 True)
      (then_ok (FormatConvertForOutput cx 0 True) (thumbnail_for cx Final 0 True))) ?Q E t"
    if "kept_original p t" "pc_page_outputs t = [o']" "out_color_path o' = p" for t o'
    unfolding wp_then_ok [of "thumbnail_for cx ColorProcessed 0 True"]
    by (rule wp_plain_thumb_for [OF cx(1)])
       (simp_all add: conv [OF _ _ that(3)] thumb_frame_keeps that)
  have color: "wp_io (then_ok (ApplyColorModeForOutput cx 0 True)
      (then_ok (thumbnail_for cx ColorProcessed 0 True)
      (then_ok (FormatConvertForOutput cx 0 True) (thumbnail_for cx Final 0 True)))) ?Q E t"
    if "kept_original p t" "pc_page_outputs t = [out]" for t
    unfolding wp_then_ok [of "ApplyColorModeForOutput cx 0 True"]
  proof (rule wp_plain_color [OF cx(1) that(2)])
    fix u :: "'e pctx" and o'
    assume u: "pc_original_path u = pc_original_path t" "pc_result u = pc_result t"
      "pc_page_outputs u = [o']" "out_color_path o' = out_page_path out"
      "set (pc_warnings t) \<subseteq> set (pc_warnings u)"
    then have "kept_original p u" using that(1) by (auto simp: kept_original_def)
    with u s(3) show "case None of None \<Rightarrow> wp_io (then_ok (thumbnail_for cx ColorProcessed 0 True)
        (then_ok (FormatConvertForOutput cx 0 True) (thumbnail_for cx Final 0 True))) ?Q E u
      | Some info \<Rightarrow> ?Q (Some info) u"
      by (simp add: thumb)
  qed
  have "wp_io (process_output cx True 0) ?Q E s"
    unfolding process_output_def wp_then_ok [of "thumbnail_for cx PageProcessed 0 True"]
    by (rule wp_plain_thumb_for [OF cx(1)]) (simp_all add: color thumb_frame_keeps s(1, 2))
  then have "wp_io (output_loop cx True [0]) ?Q E s"
    by (simp only: output_loop.simps wp_then_ok) (erule wpio_mono; auto simp: wp_simps)
  with s(2) show ?thesis by (simp add: ProcessOutputWorkflow_def wp_simps)
qed

lemma wp_plain_page:
  assumes "graphic_provider (pe_providers cx) = None" and "fresh_result s" and "pc_original_path s = p"
  shows "wp_io (PageProcess cx)
    (\<lambda>st t. st = None \<and> kept_original p t \<and> (\<exists>out. pc_page_outputs t = [out] \<and> out_page_path out = p)) E s"
  using assms
  by (auto simp: PageProcess_def ProcessPage_def in_world_ret wp_simps default_SdkPageProcessResult_def
      page_fallback_def fallback_output_def kept_original_def page_warning_def)

lemma wp_plain_capture:
  assumes "cs_captured (pq_raw_capture (pe_request cx))" and "cs_laser_path (pq_raw_capture (pe_request cx)) = []"
    and "cs_original_path (pq_raw_capture (pe_request cx)) = src" and "src \<noteq> []"
    and "p = JoinPath (pc_output_dir s) ''original.jpg''" and "src \<noteq> p"
    and "CopyFileBinary (pe_os cx) src p (pc_world s) = (True, w1)" and "fresh_result s"
  shows "wp_io (CaptureRaw cx) (\<lambda>st t. st = None \<and> fresh_result t \<and> pc_original_path t = p) E s"
  using assms
  by (auto simp: CaptureRaw_def stage_captured_def stage_laser_def add_original_assets_def original_staged_def
      wp_simps wp_file_op_eq)

text \<open>The capture step copies the source to the output directory; everything after it falls back.\<close>

lemma plain_run:
  assumes cx: "graphic_provider (pe_providers cx) = None" "plain_profile (pq_profile (pe_request cx))"
    and raw: "cs_captured (pq_raw_capture (pe_request cx))" "cs_laser_path (pq_raw_capture (pe_request cx)) = []"
      "cs_original_path (pq_raw_capture (pe_request cx)) = src" "src \<noteq> []"
    and copy: "p = JoinPath (pc_output_dir (new_pctx cx w)) ''original.jpg''" "src \<noteq> p"
      "CopyFileBinary (pe_os cx) src p (pc_world (new_pctx cx w)) = (True, w1)"
  shows "\<exists>r evs w'. Run cx w = (Inr r, evs, w') \<and> pr_status r = ''succeeded'' \<and> pr_code r = ToCode Ok \<and>
    has_final p (pr_assets r) \<and> page_warning \<in> set (pr_warnings r)"
proof -
  obtain d where d: "p = d @ ''original.jpg''" using copy(1) JoinPath_original by metis
  let ?Q = "\<lambda>st t. st = None \<and> kept_original p t \<and> has_final p (pc_assets t)"
  have fin: "wp_io FinalizeResult ?Q (\<lambda>_. False) t" if "kept_original p t" "has_final p (pc_assets t)" for t
    using that by (auto simp: FinalizeResult_def wp_simps kept_original_def default_CapturePipelineResult_def)
  have workflow: "wp_io (then_ok (ProcessOutputWorkflow cx) FinalizeResult) ?Q (\<lambda>_. False) t"
    if "kept_original p t" "pc_page_outputs t = [out]" "out_page_path out = p" for t out
    unfolding wp_then_ok
    by (rule wpio_mono [OF wp_plain_workflow [OF cx that d]]) (auto intro: fin)
  have page: "wp_io (then_ok (PageProcess cx) (then_ok (ProcessOutputWorkflow cx) FinalizeResult))
      ?Q (\<lambda>_. False) t" if "fresh_result t" "pc_original_path t = p" for t
    unfolding wp_then_ok [of "PageProcess cx"]
    by (rule wpio_mono [OF wp_plain_page [OF cx(1) that]]) (elim conjE exE, simp add: workflow)
  have thumb: "wp_io (then_ok (RunThumbnail cx Original)
      (then_ok (PageProcess cx) (then_ok (ProcessOutputWorkflow cx) FinalizeResult)))
      ?Q (\<lambda>_. False) t" if "fresh_result t" "pc_original_path t = p" for t
  proof -
    have "wp_io (RunThumbnail cx Original)
        (\<lambda>st u. st = None \<and> fresh_result u \<and> pc_original_path u = p) (\<lambda>_. False) t"
      using that
      by (auto simp: RunThumbnail_def BuildThumbnailSpecs_def wp_simps thumb_frame_def
          intro!: wp_plain_thumbnail [OF cx(1)])
    then show ?thesis
      unfolding wp_then_ok [of "RunThumbnail cx Original"]
      by (rule wpio_mono) (simp_all add: page)
  qed
  have "wp_io (pipeline_body cx) ?Q (\<lambda>_. False) (new_pctx cx w)"
    unfolding pipeline_body_def wp_then_ok [of "CaptureRaw cx"]
    by (rule wpio_mono [OF wp_plain_capture [OF raw copy]]) (simp_all add: thumb)
  then obtain t where "pipeline_body cx (new_pctx cx w) = (Inr None, t)" "kept_original p t"
    "has_final p (pc_assets t)"
    by (auto simp: wp_io_def split: prod.splits sum.splits)
  then show ?thesis
    by (auto simp: Run_def run_result_def Result_def kept_original_def default_CapturePipelineResult_def)
qed

text \<open>Without a graphic provider the pipeline degrades instead of failing: when the captured original
  can be copied to the output directory and the profile asks for plain JPEG, the run succeeds with
  code 0, its final asset is the original itself, and a warning says that page processing fell
  back, whatever happens to the thumbnails.\<close>

theorem run_without_graphic_provider:
  assumes "graphic_provider (pe_providers cx) = None" and "plain_profile (pq_profile (pe_request cx))"
    and "cs_captured (pq_raw_capture (pe_request cx))" and "cs_laser_path (pq_raw_capture (pe_request cx)) = []"
    and "cs_original_path (pq_raw_capture (pe_request cx)) = src" and "src \<noteq> []"
    and "p = JoinPath (pc_output_dir (new_pctx cx w)) ''original.jpg''" and "src \<noteq> p"
    and "CopyFileBinary (pe_os cx) src p (pc_world (new_pctx cx w)) = (True, w1)"
  shows "\<exists>r evs w'. Run cx w = (Inr r, evs, w') \<and> pr_status r = ''succeeded'' \<and> pr_code r = ToCode Ok \<and>
    has_final p (pr_assets r) \<and> page_warning \<in> set (pr_warnings r)"
  using assms by (rule plain_run)

text \<open>A concrete run: a hard-grab original \<open>r\<close> of one byte, the output directory \<open>o\<close>, nothing refused.\<close>

definition demo_request :: "SdkCaptureProfile \<Rightarrow> CapturePipelineRequest" where
  "demo_request profile = \<lparr> pq_task_id = ''t'', pq_device_id = ''cam'', pq_output_dir = ''o'',
     pq_include_base64 = False, pq_timeout_ms = 0, pq_auth_context = default_AuthContext,
     pq_profile = profile,
     pq_raw_capture = default_SdkCaptureResult\<lparr>cs_captured := True, cs_original_path := ''r''\<rparr> \<rparr>"

definition demo_env :: "'e ISdkGraphicProvider option \<Rightarrow> SdkCaptureProfile \<Rightarrow> 'e pipe_env" where
  "demo_env gp profile = \<lparr> pe_os = \<lparr>os_canon = (\<lambda>p. p), os_refuses = (\<lambda>_. False)\<rparr>, pe_work_dir = ''w'',
     pe_providers = \<lparr>device_provider = None, graphic_provider = gp, image_enhance_provider = None\<rparr>,
     pe_request = demo_request profile \<rparr>"

abbreviation demo_plain :: "unit pipe_env" where
  "demo_plain \<equiv> demo_env None default_SdkCaptureProfile"

definition demo_world :: "unit world" where
  "demo_world = \<lparr> w_files = [''r'' \<mapsto> ''x''], w_dirs = (\<lambda>d. d = ''o''), w_calls = 0, w_ext = () \<rparr>"

lemma demo_facts:
  "graphic_provider (pe_providers demo_plain) = None"
  "plain_profile (pq_profile (pe_request demo_plain))"
  "cs_captured (pq_raw_capture (pe_request demo_plain))"
  "cs_laser_path (pq_raw_capture (pe_request demo_plain)) = []"
  "cs_original_path (pq_raw_capture (pe_request demo_plain)) = ''r''"
  "''o/original.jpg'' = JoinPath (pc_output_dir (new_pctx demo_plain demo_world)) ''original.jpg''"
  by (simp_all add: demo_env_def demo_request_def plain_profile_def default_SdkCaptureProfile_def default_SdkCaptureResult_def
      new_pctx_def JoinPath_def is_sep_def PreferredPathSeparator_def Let_def)

lemma demo_start: "pc_world (new_pctx demo_plain demo_world) = demo_world"
  by (simp add: demo_env_def demo_request_def demo_world_def new_pctx_def EnsureDirectoryRecursive_def
      DirectoryExists_def Let_def)

lemma demo_copy:
  "CopyFileBinary (pe_os demo_plain) ''r'' ''o/original.jpg'' (pc_world (new_pctx demo_plain demo_world)) =
     (True, demo_world\<lparr>w_files := [''r'' \<mapsto> ''x'', ''o/original.jpg'' \<mapsto> ''x''], w_calls := 3\<rparr>)"
  unfolding demo_start
  by (simp add: demo_env_def demo_world_def CopyFileBinary_def syscall_def Let_def fun_upd_twist eval_nat_numeral)

theorem run_without_graphic_provider_witness:
  "pr_status (projr (fst (Run demo_plain demo_world))) = ''succeeded'' \<and>
   has_final ''o/original.jpg'' (pr_assets (projr (fst (Run demo_plain demo_world))))"
  using run_without_graphic_provider [OF demo_facts(1-5) _ demo_facts(6) _ demo_copy] by auto

theorem pipeline_run_well_formed_witness:
  "pr_stages (projr (fst (Run demo_plain demo_world))) =
     finished (fst (snd (Run demo_plain demo_world))) \<and>
   finalized (pr_stages (projr (fst (Run demo_plain demo_world))))
     (pr_assets (projr (fst (Run demo_plain demo_world))))"
proof -
  obtain r evs w' where run: "Run demo_plain demo_world = (Inr r, evs, w')" "pr_status r = ''succeeded''"
    using plain_run [OF demo_facts(1-5) _ demo_facts(6) _ demo_copy] by auto
  show ?thesis using pipeline_run_well_formed [OF run(1)] run by auto
qed

definition demo_scaled :: "unit pipe_env" where
  "demo_scaled = demo_env None
     (default_SdkCaptureProfile\<lparr>cp_output_target_width := 1600, cp_output_target_height := 1200\<rparr>)"

theorem output_scale_fits_witness:
  "ScaledDimension 4608 (OutputScale demo_scaled
     ((new_pctx demo_plain demo_world)\<lparr>pc_original_width := 4608, pc_original_height := 3456\<rparr>)) \<le> 1600"
  using output_scale_fits [of demo_scaled
      "(new_pctx demo_plain demo_world)\<lparr>pc_original_width := 4608, pc_original_height := 3456\<rparr>"]
  by (simp add: demo_scaled_def demo_env_def demo_request_def)

section \<open>Where the code misses its intent\<close>

text \<open>A format conversion that the provider declines with code 0, neither converted nor passed
  through, makes the run fail with code 0: the result's status is \<open>failed\<close> but its code says
  success, and the capture task, which looks at the code only, goes on to enhance it.\<close>

theorem declined_conversion_fails_with_code_ok:
  assumes "graphic_provider (pe_providers cx) = Some gp"
    and "\<And>rq w. \<exists>res w'. gp_ConvertImageFormat gp rq w = (Inr res, w') \<and> fcs_code res = ToCode Ok \<and>
           \<not> fcs_converted res \<and> \<not> fcs_passthrough res"
    and "cp_output_quality (pq_profile (pe_request cx)) > 0"
    and "IsJpegFormat (cp_output_format (pq_profile (pe_request cx)))"
  shows "\<exists>info t. FormatConvertForOutput cx i single s = (Inr (Some info), t) \<and>
    pr_status (run_result (Some info) t) = ''failed'' \<and> IsOkStatusCode (pr_code (run_result (Some info) t))"
proof -
  have conv: "wp_io (in_world (ConvertImageFormat (pe_providers cx) rq)) Q E t"
    if "\<And>res w. fcs_code res = 0 \<Longrightarrow> \<not> fcs_converted res \<Longrightarrow> \<not> fcs_passthrough res \<Longrightarrow>
        Q res (t\<lparr>pc_world := w\<rparr>)" for rq Q E t
    using assms(1) assms(2) [of rq "pc_world t"] that
    by (auto simp: ConvertImageFormat_def wp_io_def in_world_def)
  have "wp_io (FormatConvertForOutput cx i single)
      (\<lambda>st t. \<exists>info. st = Some info \<and> pr_status (pc_result t) = ''failed'' \<and> pr_code (pc_result t) = 0)
      (\<lambda>_. False) s"
    using assms(3, 4)
    by (auto simp: FormatConvertForOutput_def convert_for_output_def wp_simps intro!: conv)
  then show ?thesis
    by (auto simp: wp_io_def run_result_def Result_def split: prod.splits sum.splits)
qed

definition declining :: "'e ISdkGraphicProvider" where
  "declining = \<lparr> gp_ProviderName = ''declining'',
     gp_Process = (\<lambda>_. ret default_SdkImageProcessResult),
     gp_ProcessPage = (\<lambda>_. ret default_SdkPageProcessResult),
     gp_ApplyColorMode = (\<lambda>_. ret default_SdkColorModeResult),
     gp_ConvertImageFormat = (\<lambda>_. ret default_SdkFormatConvertResult),
     gp_GenerateThumbnail = (\<lambda>_. ret default_SdkThumbnailResult) \<rparr>"

definition demo_declined :: "unit pipe_env" where
  "demo_declined = demo_env (Some declining) (default_SdkCaptureProfile\<lparr>cp_output_quality := 80\<rparr>)"

theorem declined_conversion_fails_with_code_ok_witness:
  "\<exists>info t. FormatConvertForOutput demo_declined 0 True (new_pctx demo_declined demo_world) = (Inr (Some info), t) \<and>
    pr_status (run_result (Some info) t) = ''failed'' \<and> IsOkStatusCode (pr_code (run_result (Some info) t))"
  by (rule declined_conversion_fails_with_code_ok [of _ declining])
     (auto simp: demo_declined_def demo_env_def demo_request_def declining_def ret_def default_SdkFormatConvertResult_def
       default_SdkCaptureProfile_def IsJpegFormat_def)

lemma put_asset_last:
  "distinct (asset_ids bs) \<Longrightarrow> x \<in> set (put_asset a bs) \<Longrightarrow> as_asset_id x = as_asset_id a \<Longrightarrow> x = a"
proof (induction bs)
  case (Cons b bs)
  show ?case
  proof (cases "as_asset_id b = as_asset_id a")
    case True
    with Cons.prems(1) have "\<forall>y \<in> set bs. as_asset_id y \<noteq> as_asset_id a"
      by (force simp: asset_ids_def image_iff)
    with True Cons.prems(2, 3) show ?thesis by auto
  next
    case False
    with Cons show ?thesis by (auto simp: asset_ids_def)
  qed
qed simp

text \<open>Two page outputs whose ids differ only in case or in dropped characters get the same token,
  and with it the same asset ids and file names: the second page's asset replaces the first's, so
  of two processed pages the result keeps one.\<close>

theorem colliding_output_ids_lose_a_page:
  assumes "asset_token (po_output_id a) = asset_token (po_output_id b)"
    and "asset_token (po_output_id a) \<noteq> []" and "distinct (asset_ids (pc_assets s))"
  shows "\<exists>t oa ob. seq_io (AddPageOutputFromProvider cx a False) (AddPageOutputFromProvider cx b False) s = (Inr (), t) \<and>
    pc_page_outputs t = pc_page_outputs s @ [oa, ob] \<and>
    out_page_path oa = po_path a \<and> out_page_path ob = po_path b \<and>
    out_output_id oa = out_output_id ob \<and> out_page_asset_id oa = out_page_asset_id ob \<and>
    (\<forall>x \<in> set (pc_assets t). as_asset_id x = out_page_asset_id oa \<longrightarrow> as_path x = po_path b)"
proof -
  have "wp_io (seq_io (AddPageOutputFromProvider cx a False) (AddPageOutputFromProvider cx b False))
    (\<lambda>_ t. \<exists>oa ob. pc_page_outputs t = pc_page_outputs s @ [oa, ob] \<and>
      out_page_path oa = po_path a \<and> out_page_path ob = po_path b \<and>
      out_output_id oa = out_output_id ob \<and> out_page_asset_id oa = out_page_asset_id ob \<and>
      (\<forall>x \<in> set (pc_assets t). as_asset_id x = out_page_asset_id oa \<longrightarrow> as_path x = po_path b))
    (\<lambda>_. False) s"
    using assms
    by (auto simp: AddPageOutputFromProvider_def wp_simps SanitizeAssetToken_def MakeAsset_def
        dest!: put_asset_last [rotated] intro: distinct_put_asset)
  then show ?thesis by (auto simp: wp_io_def split: prod.splits sum.splits)
qed

definition demo_page :: "string \<Rightarrow> string \<Rightarrow> SdkPageOutput" where
  "demo_page output_id path = default_SdkPageOutput\<lparr>po_output_id := output_id, po_path := path\<rparr>"

theorem colliding_output_ids_lose_a_page_witness:
  "\<exists>t oa ob. seq_io (AddPageOutputFromProvider demo_plain (demo_page ''Left'' ''1.jpg'') False)
      (AddPageOutputFromProvider demo_plain (demo_page ''left!'' ''2.jpg'') False)
      (new_pctx demo_plain demo_world) = (Inr (), t) \<and>
    pc_page_outputs t = [oa, ob] \<and> out_page_path oa = ''1.jpg'' \<and>
    (\<forall>x \<in> set (pc_assets t). as_asset_id x = out_page_asset_id oa \<longrightarrow> as_path x = ''2.jpg'')"
proof -
  have ids: "asset_token ''Left'' = ''left''" "asset_token ''left!'' = ''left''" by code_simp+
  have "pc_page_outputs (new_pctx demo_plain demo_world) = []"
    by (simp add: new_pctx_def Let_def)
  then show ?thesis
    using colliding_output_ids_lose_a_page [of "demo_page ''Left'' ''1.jpg''" "demo_page ''left!'' ''2.jpg''"
        "new_pctx demo_plain demo_world" demo_plain] ids
    by (simp add: demo_page_def asset_ids_def) blast
qed

end
