(* ===== verification/Capture_Task.thy ===== *)
theory Capture_Task
  imports Capture_Pipeline "HOL-Library.Multiset"
begin

text \<open>
  The capture task service (\<open>application/capture_task_service.cpp\<close>): its state and every operation
  that runs under \<open>mu_\<close>, each as one function, and the two actions its workers perform outside the
  lock, capturing and staging the original and running the processing pipeline.  The object is the
  record \<open>CaptureTaskService\<close>; \<open>workers_\<close> and \<open>event_sink_\<close> are not in it: the live threads are part
  of the machine of \<open>Capture_Machine\<close>, and an event is the value the sink is called with, before it
  is printed as JSON.  The monotonic clock counts nanoseconds.
\<close>

section \<open>Requests, snapshots and results\<close>

record CaptureTaskStartRequest =
  tq_connection_id :: string
  tq_session_token :: string
  tq_device_id :: string
  tq_output_dir :: string
  tq_include_base64 :: bool
  tq_timeout_ms :: int
  tq_auth_context :: AuthContext
  tq_profile :: SdkCaptureProfile
  tq_raw_capture :: SdkCaptureResult
  tq_pipeline :: SdkImageEnhancePipeline
  tq_online_api_key :: string
  tq_online_base_url :: string

definition default_CaptureTaskStartRequest :: CaptureTaskStartRequest where
  "default_CaptureTaskStartRequest = \<lparr> tq_connection_id = [], tq_session_token = [], tq_device_id = [],
     tq_output_dir = [], tq_include_base64 = False, tq_timeout_ms = kDefaultCaptureTimeoutMs,
     tq_auth_context = default_AuthContext, tq_profile = default_SdkCaptureProfile,
     tq_raw_capture = default_SdkCaptureResult, tq_pipeline = default_SdkImageEnhancePipeline,
     tq_online_api_key = [], tq_online_base_url = [] \<rparr>"

record CaptureTaskSnapshot =
  ts_code :: int
  ts_message :: string
  ts_task_id :: string
  ts_connection_id :: string
  ts_session_token :: string
  ts_device_id :: string
  ts_status :: string
  ts_capture_source :: string
  ts_acquisition_status :: string
  ts_processing_status :: string
  ts_profile_revision :: int
  ts_stages :: "SdkCaptureStageResult list"
  ts_assets :: "SdkCaptureAsset list"
  ts_warnings :: "string list"
  ts_error :: string

definition default_CaptureTaskSnapshot :: CaptureTaskSnapshot where
  "default_CaptureTaskSnapshot = \<lparr> ts_code = ToCode Ok, ts_message = ''ok'', ts_task_id = [],
     ts_connection_id = [], ts_session_token = [], ts_device_id = [], ts_status = ''queued'',
     ts_capture_source = ''manual'', ts_acquisition_status = ''queued'',
     ts_processing_status = ''not_started'', ts_profile_revision = 1, ts_stages = [], ts_assets = [],
     ts_warnings = [], ts_error = [] \<rparr>"

record CaptureAssetResult =
  ar_code :: int
  ar_message :: string
  ar_asset :: SdkCaptureAsset

definition default_CaptureAssetResult :: CaptureAssetResult where
  "default_CaptureAssetResult =
     \<lparr> ar_code = ToCode Ok, ar_message = ''ok'', ar_asset = default_SdkCaptureAsset \<rparr>"

record CaptureTaskStartResult =
  sr_code :: int
  sr_message :: string
  sr_accepted :: bool
  sr_retry_after_ms :: int
  sr_task :: CaptureTaskSnapshot

definition default_CaptureTaskStartResult :: CaptureTaskStartResult where
  "default_CaptureTaskStartResult = \<lparr> sr_code = ToCode Ok, sr_message = ''ok'', sr_accepted = False,
     sr_retry_after_ms = 0, sr_task = default_CaptureTaskSnapshot \<rparr>"

text \<open>The counters are \<open>uint64_t\<close>; they count captures and stay far below its range.\<close>

record CaptureSessionDeviceSummary =
  sd_device_id :: string
  sd_captured_count :: nat
  sd_processed_count :: nat
  sd_failed_count :: nat
  sd_pending_count :: nat

definition default_CaptureSessionDeviceSummary :: CaptureSessionDeviceSummary where
  "default_CaptureSessionDeviceSummary = \<lparr> sd_device_id = [], sd_captured_count = 0,
     sd_processed_count = 0, sd_failed_count = 0, sd_pending_count = 0 \<rparr>"

record CaptureSessionSummary =
  ss_captured_count :: nat
  ss_processed_count :: nat
  ss_failed_count :: nat
  ss_pending_count :: nat
  ss_devices :: "CaptureSessionDeviceSummary list"

definition default_CaptureSessionSummary :: CaptureSessionSummary where
  "default_CaptureSessionSummary = \<lparr> ss_captured_count = 0, ss_processed_count = 0,
     ss_failed_count = 0, ss_pending_count = 0, ss_devices = [] \<rparr>"

section \<open>State\<close>

record CaptureTaskService =
  ct_asset_base_url :: string
  ct_tasks :: "(string, CaptureTaskSnapshot) smap"
  ct_requests :: "(string, CaptureTaskStartRequest) smap"
  ct_processing_queues :: "(string, string list) smap"
  ct_active_capture_devices :: "string set"
  ct_active_processing_devices :: "string set"
  ct_capture_cooldown_until :: "(string, int) smap"
  ct_session_summaries :: "(string, (string, CaptureSessionDeviceSummary) smap) smap"
  ct_active_worker_task_ids :: "string set"
  ct_next_task_seq :: nat

definition TrimTrailingSlash :: "string \<Rightarrow> string" where
  "TrimTrailingSlash value = (if value \<noteq> [] \<and> last value = CHR ''/'' then butlast value else value)"

definition new_CaptureTaskService :: "string \<Rightarrow> CaptureTaskService" where
  "new_CaptureTaskService asset_base_url = \<lparr> ct_asset_base_url = TrimTrailingSlash asset_base_url,
     ct_tasks = [], ct_requests = [], ct_processing_queues = [], ct_active_capture_devices = {},
     ct_active_processing_devices = {}, ct_capture_cooldown_until = [], ct_session_summaries = [],
     ct_active_worker_task_ids = {}, ct_next_task_seq = 1 \<rparr>"

text \<open>\<open>kCaptureCooldownMs\<close>, in milliseconds, and a duration of that many milliseconds.\<close>

definition kCaptureCooldownMs :: int where
  "kCaptureCooldownMs = 1500"

definition milliseconds :: "int \<Rightarrow> int" where
  "milliseconds ms = ms * 1000000"

section \<open>Reserving, starting and aborting\<close>

definition NextTaskId :: "int \<Rightarrow> CaptureTaskService \<Rightarrow> string \<times> CaptureTaskService" where
  "NextTaskId wall s = (''cap-'' @ to_string wall @ ''-'' @ dec (ct_next_task_seq s),
                        s\<lparr>ct_next_task_seq := ct_next_task_seq s + 1\<rparr>)"

definition new_task :: "string \<Rightarrow> CaptureTaskStartRequest \<Rightarrow> CaptureTaskSnapshot" where
  "new_task task_id request = default_CaptureTaskSnapshot
     \<lparr> ts_task_id := task_id, ts_connection_id := tq_connection_id request,
       ts_session_token := tq_session_token request, ts_device_id := tq_device_id request,
       ts_capture_source := (if cs_captured (tq_raw_capture request) then ''hardgrab'' else ''manual''),
       ts_profile_revision := cp_revision (tq_profile request) \<rparr>"

definition start_error :: "SdkStatusCode \<Rightarrow> string \<Rightarrow> CaptureTaskStartResult" where
  "start_error code message =
     default_CaptureTaskStartResult\<lparr> sr_code := ToCode code, sr_message := message \<rparr>"

text \<open>A manual capture occupies the device; a hard grab carries its image already and only takes part
  in the rate limit.\<close>

definition register_task ::
    "int \<Rightarrow> CaptureTaskStartRequest \<Rightarrow> CaptureTaskSnapshot \<Rightarrow> CaptureTaskService \<Rightarrow> CaptureTaskService" where
  "register_task now request task s = s
     \<lparr> ct_active_capture_devices :=
         (if \<not> cs_captured (tq_raw_capture request)
          then insert (tq_device_id request) (ct_active_capture_devices s)
          else ct_active_capture_devices s),
       ct_capture_cooldown_until := smap_put (tq_device_id request) (now + milliseconds kCaptureCooldownMs)
         (ct_capture_cooldown_until s),
       ct_tasks := smap_put (ts_task_id task) task (ct_tasks s),
       ct_requests := smap_put (ts_task_id task) request (ct_requests s) \<rparr>"

definition cooldown_left :: "int \<Rightarrow> string \<Rightarrow> CaptureTaskService \<Rightarrow> int option" where
  "cooldown_left now device s =
     (case map_of (ct_capture_cooldown_until s) device of
        None \<Rightarrow> None
      | Some until \<Rightarrow> if now < until then Some (until - now) else None)"

definition ReserveTask ::
    "int \<Rightarrow> int \<Rightarrow> CaptureTaskStartRequest \<Rightarrow> CaptureTaskService \<Rightarrow>
     CaptureTaskStartResult \<times> CaptureTaskService" where
  "ReserveTask now wall request s =
     (if tq_device_id request = [] then (start_error InvalidParams ''device_id required'', s)
      else if cp_profile_version (tq_profile request) \<noteq> ''capture.profile.v1'' then
        (start_error InvalidParams ''unsupported capture profile'', s)
      else
        let (task_id, s) = NextTaskId wall s;
            task = new_task task_id request
        in if tq_device_id request \<in> ct_active_capture_devices s then
             (start_error DeviceBusy ''device has an active capture action'', s)
           else case cooldown_left now (tq_device_id request) s of
             Some left \<Rightarrow>
               ((start_error RateLimited ''capture is rate limited'')
                  \<lparr>sr_retry_after_ms := max 1 (left div 1000000)\<rparr>, s)
           | None \<Rightarrow>
               (default_CaptureTaskStartResult\<lparr> sr_accepted := True, sr_task := task \<rparr>,
                register_task now request task s))"

text \<open>Undoing a reservation, in the failure branches of \<open>StartReservedTask\<close> and in
  \<open>AbortReservedTask\<close>.\<close>

definition drop_task :: "string \<Rightarrow> string \<Rightarrow> CaptureTaskService \<Rightarrow> CaptureTaskService" where
  "drop_task task_id device_id s = s
     \<lparr> ct_active_capture_devices := ct_active_capture_devices s - {device_id},
       ct_capture_cooldown_until := smap_erase device_id (ct_capture_cooldown_until s),
       ct_requests := smap_erase task_id (ct_requests s),
       ct_tasks := smap_erase task_id (ct_tasks s) \<rparr>"

text \<open>\<open>thread\<close> is what creating the worker thread does: nothing, or throw.\<close>

definition StartReservedTask ::
    "string \<Rightarrow> exn option \<Rightarrow> CaptureTaskService \<Rightarrow> CaptureTaskStartResult \<times> CaptureTaskService" where
  "StartReservedTask task_id thread s =
     (case map_of (ct_tasks s) task_id of
        None \<Rightarrow> (start_error InvalidParams ''capture task not found'', s)
      | Some task \<Rightarrow>
          if map_of (ct_requests s) task_id = None then
            (start_error InvalidParams ''capture task not found'', s)
          else if ts_acquisition_status task \<noteq> ''queued'' then
            (start_error InvalidParams ''capture task is not pending'', s)
          else
            let s = s\<lparr>ct_active_worker_task_ids := insert task_id (ct_active_worker_task_ids s)\<rparr> in
            case thread of
              Some e \<Rightarrow>
                (start_error InternalError (what e ''failed to start capture task''),
                 drop_task task_id (ts_device_id task)
                   (s\<lparr>ct_active_worker_task_ids := ct_active_worker_task_ids s - {task_id}\<rparr>))
            | None \<Rightarrow> (default_CaptureTaskStartResult\<lparr> sr_accepted := True, sr_task := task \<rparr>, s))"

definition AbortReservedTask :: "string \<Rightarrow> CaptureTaskService \<Rightarrow> CaptureTaskService" where
  "AbortReservedTask task_id s =
     (case map_of (ct_tasks s) task_id of
        None \<Rightarrow> s
      | Some task \<Rightarrow>
          if ts_acquisition_status task \<noteq> ''queued'' then s
          else drop_task task_id (ts_device_id task) s)"

section \<open>Queries\<close>

definition GetTaskUnlocked :: "string \<Rightarrow> CaptureTaskService \<Rightarrow> CaptureTaskSnapshot" where
  "GetTaskUnlocked task_id s =
     (case map_of (ct_tasks s) task_id of
        None \<Rightarrow> default_CaptureTaskSnapshot\<lparr> ts_code := ToCode InvalidParams, ts_message := ''task not found'' \<rparr>
      | Some task \<Rightarrow> task)"

definition GetTask :: "string \<Rightarrow> string \<Rightarrow> CaptureTaskService \<Rightarrow> CaptureTaskSnapshot" where
  "GetTask connection_id task_id s =
     (let task = GetTaskUnlocked task_id s in
      if IsOkStatusCode (ts_code task) \<and> ts_connection_id task \<noteq> connection_id
      then task\<lparr> ts_code := ToCode CapabilityNotAllowed, ts_message := ''task belongs to another connection'' \<rparr>
      else task)"

definition GetAsset :: "string \<Rightarrow> string \<Rightarrow> string \<Rightarrow> CaptureTaskService \<Rightarrow> CaptureAssetResult" where
  "GetAsset connection_id task_id asset_id s =
     (let task = GetTaskUnlocked task_id s in
      if \<not> IsOkStatusCode (ts_code task) then
        default_CaptureAssetResult\<lparr> ar_code := ts_code task, ar_message := ts_message task \<rparr>
      else if ts_connection_id task \<noteq> connection_id then
        default_CaptureAssetResult
          \<lparr> ar_code := ToCode CapabilityNotAllowed, ar_message := ''task belongs to another connection'' \<rparr>
      else case find (\<lambda>a. as_asset_id a = asset_id) (ts_assets task) of
        Some a \<Rightarrow> default_CaptureAssetResult\<lparr>ar_asset := a\<rparr>
      | None \<Rightarrow> default_CaptureAssetResult
          \<lparr> ar_code := ToCode InvalidParams, ar_message := ''asset not found'' \<rparr>)"

definition add_device_summary ::
    "CaptureSessionDeviceSummary \<Rightarrow> CaptureSessionSummary \<Rightarrow> CaptureSessionSummary" where
  "add_device_summary d summary =
     \<lparr> ss_captured_count = ss_captured_count summary + sd_captured_count d,
       ss_processed_count = ss_processed_count summary + sd_processed_count d,
       ss_failed_count = ss_failed_count summary + sd_failed_count d,
       ss_pending_count = ss_pending_count summary + sd_pending_count d,
       ss_devices = ss_devices summary @ [d] \<rparr>"

definition GetSessionSummaryUnlocked :: "string \<Rightarrow> CaptureTaskService \<Rightarrow> CaptureSessionSummary" where
  "GetSessionSummaryUnlocked connection_id s =
     (case map_of (ct_session_summaries s) connection_id of
        None \<Rightarrow> default_CaptureSessionSummary
      | Some session \<Rightarrow> fold (\<lambda>p summary. add_device_summary (snd p) summary) session default_CaptureSessionSummary)"

definition unfinished :: "CaptureTaskSnapshot \<Rightarrow> bool" where
  "unfinished task \<longleftrightarrow> ts_status task \<noteq> ''succeeded'' \<and> ts_status task \<noteq> ''failed''"

definition ActiveTaskCount :: "CaptureTaskService \<Rightarrow> nat" where
  "ActiveTaskCount s = length (filter (\<lambda>p. unfinished (snd p)) (ct_tasks s))"

definition ClearFinishedTasks :: "CaptureTaskService \<Rightarrow> nat \<times> CaptureTaskService" where
  "ClearFinishedTasks s =
     (let gone = filter (\<lambda>p. fst p \<notin> ct_active_worker_task_ids s) (ct_tasks s) in
      (length gone,
       s\<lparr> ct_tasks := filter (\<lambda>p. fst p \<in> ct_active_worker_task_ids s) (ct_tasks s),
          ct_requests := filter (\<lambda>p. fst p \<notin> fst ` set gone) (ct_requests s) \<rparr>))"

section \<open>What the workers do under the lock\<close>

text \<open>\<open>session_summaries_[connection][device]\<close>: a missing entry is created by default.\<close>

definition device_summary :: "string \<Rightarrow> string \<Rightarrow> CaptureTaskService \<Rightarrow> CaptureSessionDeviceSummary" where
  "device_summary connection_id device_id s =
     (case map_of (ct_session_summaries s) connection_id of
        None \<Rightarrow> default_CaptureSessionDeviceSummary
      | Some session \<Rightarrow> (case map_of session device_id of
          None \<Rightarrow> default_CaptureSessionDeviceSummary | Some d \<Rightarrow> d))"

definition update_summary ::
    "string \<Rightarrow> string \<Rightarrow> (CaptureSessionDeviceSummary \<Rightarrow> CaptureSessionDeviceSummary) \<Rightarrow>
     CaptureTaskService \<Rightarrow> CaptureTaskService" where
  "update_summary connection_id device_id f s =
     (let session = (case map_of (ct_session_summaries s) connection_id of None \<Rightarrow> [] | Some m \<Rightarrow> m);
          d = f ((device_summary connection_id device_id s)\<lparr>sd_device_id := device_id\<rparr>)
      in s\<lparr>ct_session_summaries :=
             smap_put connection_id (smap_put device_id d session) (ct_session_summaries s)\<rparr>)"

definition update_task :: "string \<Rightarrow> CaptureTaskSnapshot \<Rightarrow> CaptureTaskService \<Rightarrow> CaptureTaskService" where
  "update_task task_id task s = s\<lparr>ct_tasks := smap_put task_id task (ct_tasks s)\<rparr>"

text \<open>The head of \<open>RunCaptureTask\<close>: the request and the running snapshot, or the worker ends.\<close>

definition begin_capture ::
    "string \<Rightarrow> CaptureTaskService \<Rightarrow> (CaptureTaskStartRequest \<times> CaptureTaskSnapshot) option \<times> CaptureTaskService" where
  "begin_capture task_id s =
     (case (map_of (ct_requests s) task_id, map_of (ct_tasks s) task_id) of
        (Some request, Some task) \<Rightarrow>
          let running = task\<lparr> ts_status := ''running'', ts_acquisition_status := ''capturing'' \<rparr>
          in (Some (request, running), update_task task_id running s)
      | _ \<Rightarrow> (None, s))"

definition or_text :: "string \<Rightarrow> string \<Rightarrow> string" where
  "or_text message fallback = (if message = [] then fallback else message)"

definition CompleteCaptureFailure ::
    "string \<Rightarrow> CaptureTaskStartRequest \<Rightarrow> string \<Rightarrow> CaptureTaskService \<Rightarrow>
     CaptureTaskSnapshot option \<times> CaptureTaskService" where
  "CompleteCaptureFailure task_id request message s =
     (case map_of (ct_tasks s) task_id of
        None \<Rightarrow> (None, s)
      | Some task \<Rightarrow>
          let task = task\<lparr> ts_status := ''failed'', ts_acquisition_status := ''failed'',
                 ts_processing_status := ''skipped'', ts_code := ToCode CaptureFailed,
                 ts_message := or_text message ''capture failed'', ts_error := or_text message ''capture failed'' \<rparr>;
              s = update_task task_id task s;
              s = s\<lparr> ct_active_capture_devices := ct_active_capture_devices s - {tq_device_id request},
                     ct_active_worker_task_ids := ct_active_worker_task_ids s - {task_id} \<rparr>
          in (Some task, update_summary (tq_connection_id request) (tq_device_id request)
                (\<lambda>d. d\<lparr>sd_failed_count := sd_failed_count d + 1\<rparr>) s))"

text \<open>The tail of \<open>RunCaptureTask\<close>: the captured task joins its device's queue, and a processing worker
  is started unless the device has one.  \<open>thread_ok\<close> tells whether that thread could be created.\<close>

datatype captured = Gone | Joined | Spawned | SpawnFailed

definition queue_of :: "string \<Rightarrow> CaptureTaskService \<Rightarrow> string list" where
  "queue_of device_id s =
     (case map_of (ct_processing_queues s) device_id of None \<Rightarrow> [] | Some q \<Rightarrow> q)"

definition set_queue :: "string \<Rightarrow> string list \<Rightarrow> CaptureTaskService \<Rightarrow> CaptureTaskService" where
  "set_queue device_id q s = s\<lparr>ct_processing_queues := smap_put device_id q (ct_processing_queues s)\<rparr>"

definition finish_capture ::
    "string \<Rightarrow> CaptureTaskStartRequest \<Rightarrow> SdkCaptureResult \<Rightarrow> bool \<Rightarrow> CaptureTaskService \<Rightarrow>
     captured \<times> CaptureTaskService" where
  "finish_capture task_id request raw thread_ok s =
     (case (map_of (ct_tasks s) task_id, map_of (ct_requests s) task_id) of
        (Some task, Some stored) \<Rightarrow>
          let device = tq_device_id request;
              s = s\<lparr>ct_requests := smap_put task_id (stored\<lparr>tq_raw_capture := raw\<rparr>) (ct_requests s)\<rparr>;
              s = update_task task_id
                    (task\<lparr> ts_acquisition_status := ''captured'', ts_processing_status := ''queued'' \<rparr>) s;
              s = s\<lparr>ct_active_capture_devices := ct_active_capture_devices s - {device}\<rparr>;
              s = update_summary (tq_connection_id request) device
                    (\<lambda>d. d\<lparr> sd_captured_count := sd_captured_count d + 1,
                            sd_pending_count := sd_pending_count d + 1 \<rparr>) s;
              s = set_queue device (queue_of device s @ [task_id]) s
          in if device \<in> ct_active_processing_devices s then (Joined, s)
             else if thread_ok then
               (Spawned, s\<lparr>ct_active_processing_devices := insert device (ct_active_processing_devices s)\<rparr>)
             else (SpawnFailed, set_queue device (butlast (queue_of device s)) s)
      | _ \<Rightarrow> (Gone, s))"

definition spawn_failure :: CapturePipelineResult where
  "spawn_failure = default_CapturePipelineResult
     \<lparr> pr_code := ToCode InternalError, pr_message := ''failed to start capture processing worker'',
       pr_status := ''failed'' \<rparr>"

text \<open>One round of \<open>RunProcessingQueue\<close>: the queue is empty and the worker ends, the front task has
  disappeared and is skipped, or it is to be processed.\<close>

datatype next_task = QueueEmpty | Skip | Work string CaptureTaskStartRequest

definition take_next :: "string \<Rightarrow> CaptureTaskService \<Rightarrow> next_task \<times> CaptureTaskService" where
  "take_next device_id s =
     (case queue_of device_id s of
        [] \<Rightarrow> (QueueEmpty, s
          \<lparr> ct_active_processing_devices := ct_active_processing_devices s - {device_id},
            ct_processing_queues := smap_erase device_id (ct_processing_queues s) \<rparr>)
      | task_id # rest \<Rightarrow>
          let s = set_queue device_id rest s in
          case (map_of (ct_requests s) task_id, map_of (ct_tasks s) task_id) of
            (Some request, Some task) \<Rightarrow>
              (Work task_id request, update_task task_id (task\<lparr>ts_processing_status := ''running''\<rparr>) s)
          | _ \<Rightarrow> (Skip, s))"

text \<open>The stage callback of the processing pipeline.\<close>

definition record_stage ::
    "string \<Rightarrow> SdkCaptureStageResult \<Rightarrow> CaptureTaskService \<Rightarrow> CaptureTaskSnapshot option \<times> CaptureTaskService" where
  "record_stage task_id stage s =
     (case map_of (ct_tasks s) task_id of
        None \<Rightarrow> (None, s)
      | Some task \<Rightarrow>
          let task = (if sg_status stage \<noteq> ''running'' then task\<lparr>ts_stages := ts_stages task @ [stage]\<rparr> else task)
          in (Some task, update_task task_id task s))"

definition AttachAssetUrls :: "string \<Rightarrow> string \<Rightarrow> SdkCaptureAsset list \<Rightarrow> SdkCaptureAsset list" where
  "AttachAssetUrls base task_id assets =
     map (\<lambda>a. let url = base @ ''/api/assets/'' @ task_id @ ''/'' @ as_asset_id a
              in a\<lparr> as_url := url, as_download_url := url @ ''/download'' \<rparr>) assets"

definition final_status :: "CapturePipelineResult \<Rightarrow> string" where
  "final_status result =
     (if pr_status result = [] then (if IsOkStatusCode (pr_code result) then ''succeeded'' else ''failed'')
      else pr_status result)"

definition CompleteProcessingTask ::
    "string \<Rightarrow> CaptureTaskStartRequest \<Rightarrow> CapturePipelineResult \<Rightarrow> CaptureTaskService \<Rightarrow>
     (bool \<times> CaptureTaskSnapshot) option \<times> CaptureTaskService" where
  "CompleteProcessingTask task_id request result s =
     (case map_of (ct_tasks s) task_id of
        None \<Rightarrow> (None, s)
      | Some task \<Rightarrow>
          let succeeded = (IsOkStatusCode (pr_code result) \<and> final_status result = ''succeeded'');
              task = task\<lparr> ts_status := final_status result,
                 ts_processing_status := (if succeeded then ''succeeded'' else ''failed''),
                 ts_stages := pr_stages result,
                 ts_assets := AttachAssetUrls (ct_asset_base_url s) task_id (pr_assets result),
                 ts_warnings := pr_warnings result, ts_code := pr_code result, ts_message := pr_message result,
                 ts_error := (if succeeded then ts_error task else pr_message result) \<rparr>;
              s = update_task task_id task s;
              s = s\<lparr>ct_active_worker_task_ids := ct_active_worker_task_ids s - {task_id}\<rparr>;
              s = update_summary (tq_connection_id request) (tq_device_id request)
                    (\<lambda>d. let d = (if sd_pending_count d > 0 then d\<lparr>sd_pending_count := sd_pending_count d - 1\<rparr> else d)
                         in if succeeded then d\<lparr>sd_processed_count := sd_processed_count d + 1\<rparr>
                            else d\<lparr>sd_failed_count := sd_failed_count d + 1\<rparr>) s
          in (Some (succeeded, task), s))"

section \<open>Events\<close>

text \<open>The values the event sink receives; a null sink receives nothing.\<close>

datatype task_event =
    TaskEvent string string CaptureTaskSnapshot "SdkCaptureStageResult option"
  | SessionEvent string string string string CaptureSessionSummary

definition PublishEvent ::
    "bool \<Rightarrow> string \<Rightarrow> string \<Rightarrow> CaptureTaskSnapshot \<Rightarrow> SdkCaptureStageResult option \<Rightarrow> task_event list" where
  "PublishEvent sink connection_id event task stage =
     (if \<not> sink then [] else [TaskEvent connection_id event task stage])"

definition PublishSessionUpdate ::
    "bool \<Rightarrow> string \<Rightarrow> string \<Rightarrow> string \<Rightarrow> string \<Rightarrow> CaptureTaskService \<Rightarrow> task_event list" where
  "PublishSessionUpdate sink connection_id device_id task_id reason s =
     (if \<not> sink then []
      else [SessionEvent connection_id device_id task_id reason (GetSessionSummaryUnlocked connection_id s)])"

end
