(* ===== verification/Capture_Machine.thy ===== *)
theory Capture_Machine
  imports Capture_Task
begin

text \<open>
  The capture task service with its threads, as a state machine: a step is one critical section of
  \<open>mu_\<close>, so the reachable states are those of every interleaving.  A machine state is the service,
  the multiset of live worker threads with their program points, and the multiset of ids a caller
  has reserved and neither started nor aborted yet.

  Two facts about the callers are built into the steps.  A reserved id is started or aborted once,
  which is the contract stated in \<open>capture_task_service.h\<close>; and finished tasks are cleared only
  when no task is active, which the cleanup of the command service checks under its storage lock.
  What a capture or a pipeline run returns is arbitrary, except that the pipeline's status is one
  of the two it can have.
\<close>

section \<open>The machine\<close>

text \<open>The program points between critical sections: about to begin a capture, capturing, completing a
  task whose processing thread could not be created, at the head of the loop of a processing
  worker, and processing a task.\<close>

datatype worker =
    CaptureBegin string
  | CaptureAct string CaptureTaskStartRequest
  | FailProcessing string CaptureTaskStartRequest
  | ProcessLoop string
  | ProcessAct string string CaptureTaskStartRequest

record machine =
  mc_service :: CaptureTaskService
  mc_workers :: "worker multiset"
  mc_reserved :: "string multiset"

definition init_machine :: "machine \<Rightarrow> bool" where
  "init_machine m \<longleftrightarrow> (\<exists>base. m = \<lparr> mc_service = new_CaptureTaskService base, mc_workers = {#}, mc_reserved = {#} \<rparr>)"

datatype label =
    Reserve int int CaptureTaskStartRequest
  | Start string "exn option"
  | Abort string
  | Clear
  | Begin string
  | CaptureFails string string
  | CaptureDone string SdkCaptureResult bool
  | FailDone string
  | Take string
  | Stage string SdkCaptureStageResult
  | ProcessDone string CapturePipelineResult

definition plain_status :: "CapturePipelineResult \<Rightarrow> bool" where
  "plain_status r \<longleftrightarrow> pr_status r = ''succeeded'' \<or> pr_status r = ''failed''"

text \<open>The worker that replaces one after its critical section.\<close>

definition after_finish :: "string \<Rightarrow> CaptureTaskStartRequest \<Rightarrow> captured \<Rightarrow> worker multiset" where
  "after_finish task_id rq c =
     (case c of Gone \<Rightarrow> {#} | Joined \<Rightarrow> {#} | Spawned \<Rightarrow> {#ProcessLoop (tq_device_id rq)#}
      | SpawnFailed \<Rightarrow> {#FailProcessing task_id rq#})"

definition after_take :: "string \<Rightarrow> next_task \<Rightarrow> worker multiset" where
  "after_take device n =
     (case n of QueueEmpty \<Rightarrow> {#} | Skip \<Rightarrow> {#ProcessLoop device#} | Work task_id rq \<Rightarrow> {#ProcessAct device task_id rq#})"

inductive ct_step :: "machine \<Rightarrow> label \<Rightarrow> machine \<Rightarrow> bool" where
  step_Reserve: "ReserveTask now wall rq s = (r, s') \<Longrightarrow>
    ct_step \<lparr>mc_service = s, mc_workers = W, mc_reserved = R\<rparr> (Reserve now wall rq)
      \<lparr>mc_service = s', mc_workers = W,
       mc_reserved = (if sr_accepted r then add_mset (ts_task_id (sr_task r)) R else R)\<rparr>"
| step_Start: "StartReservedTask i thread s = (r, s') \<Longrightarrow>
    ct_step \<lparr>mc_service = s, mc_workers = W, mc_reserved = add_mset i R\<rparr> (Start i thread)
      \<lparr>mc_service = s', mc_workers = (if sr_accepted r then add_mset (CaptureBegin i) W else W), mc_reserved = R\<rparr>"
| step_Abort:
    "ct_step \<lparr>mc_service = s, mc_workers = W, mc_reserved = add_mset i R\<rparr> (Abort i)
      \<lparr>mc_service = AbortReservedTask i s, mc_workers = W, mc_reserved = R\<rparr>"
| step_Clear: "ActiveTaskCount s = 0 \<Longrightarrow> ClearFinishedTasks s = (n, s') \<Longrightarrow>
    ct_step \<lparr>mc_service = s, mc_workers = W, mc_reserved = R\<rparr> Clear
      \<lparr>mc_service = s', mc_workers = W, mc_reserved = R\<rparr>"
| step_Begin: "begin_capture i s = (b, s') \<Longrightarrow>
    ct_step \<lparr>mc_service = s, mc_workers = add_mset (CaptureBegin i) W, mc_reserved = R\<rparr> (Begin i)
      \<lparr>mc_service = s',
       mc_workers = (case b of None \<Rightarrow> W | Some (rq, _) \<Rightarrow> add_mset (CaptureAct i rq) W), mc_reserved = R\<rparr>"
| step_CaptureFails: "CompleteCaptureFailure i rq msg s = (b, s') \<Longrightarrow>
    ct_step \<lparr>mc_service = s, mc_workers = add_mset (CaptureAct i rq) W, mc_reserved = R\<rparr> (CaptureFails i msg)
      \<lparr>mc_service = s', mc_workers = W, mc_reserved = R\<rparr>"
| step_CaptureDone: "finish_capture i rq raw thread_ok s = (c, s') \<Longrightarrow>
    ct_step \<lparr>mc_service = s, mc_workers = add_mset (CaptureAct i rq) W, mc_reserved = R\<rparr>
      (CaptureDone i raw thread_ok)
      \<lparr>mc_service = s', mc_workers = after_finish i rq c + W, mc_reserved = R\<rparr>"
| step_FailDone: "CompleteProcessingTask i rq spawn_failure s = (b, s') \<Longrightarrow>
    ct_step \<lparr>mc_service = s, mc_workers = add_mset (FailProcessing i rq) W, mc_reserved = R\<rparr> (FailDone i)
      \<lparr>mc_service = s', mc_workers = W, mc_reserved = R\<rparr>"
| step_Take: "take_next d s = (n, s') \<Longrightarrow>
    ct_step \<lparr>mc_service = s, mc_workers = add_mset (ProcessLoop d) W, mc_reserved = R\<rparr> (Take d)
      \<lparr>mc_service = s', mc_workers = after_take d n + W, mc_reserved = R\<rparr>"
| step_Stage: "ProcessAct d i rq \<in># W \<Longrightarrow> record_stage i stage s = (b, s') \<Longrightarrow>
    ct_step \<lparr>mc_service = s, mc_workers = W, mc_reserved = R\<rparr> (Stage i stage)
      \<lparr>mc_service = s', mc_workers = W, mc_reserved = R\<rparr>"
| step_ProcessDone: "plain_status result \<Longrightarrow> CompleteProcessingTask i rq result s = (b, s') \<Longrightarrow>
    ct_step \<lparr>mc_service = s, mc_workers = add_mset (ProcessAct d i rq) W, mc_reserved = R\<rparr> (ProcessDone i result)
      \<lparr>mc_service = s', mc_workers = add_mset (ProcessLoop d) W, mc_reserved = R\<rparr>"

inductive_cases ct_stepE: "ct_step m e m'"

abbreviation ct_reach :: "machine \<Rightarrow> bool" where
  "ct_reach \<equiv> reach init_machine ct_step"

section \<open>Who owns a task\<close>

text \<open>Every unfinished task is owned once: by its reservation, by a worker, or by its device's queue.\<close>

fun worker_task :: "worker \<Rightarrow> string multiset" where
  "worker_task (CaptureBegin i) = {#i#}"
| "worker_task (CaptureAct i rq) = {#i#}"
| "worker_task (FailProcessing i rq) = {#i#}"
| "worker_task (ProcessLoop d) = {#}"
| "worker_task (ProcessAct d i rq) = {#i#}"

fun worker_device :: "worker \<Rightarrow> string multiset" where
  "worker_device (ProcessLoop d) = {#d#}"
| "worker_device (ProcessAct d i rq) = {#d#}"
| "worker_device _ = {#}"

definition worker_tasks :: "worker multiset \<Rightarrow> string multiset" where
  "worker_tasks W = (\<Sum>w \<in># W. worker_task w)"

definition worker_devices :: "worker multiset \<Rightarrow> string multiset" where
  "worker_devices W = (\<Sum>w \<in># W. worker_device w)"

definition queued :: "(string, string list) smap \<Rightarrow> string multiset" where
  "queued qs = mset (concat (map snd qs))"

definition open_tasks :: "(string, CaptureTaskSnapshot) smap \<Rightarrow> string multiset" where
  "open_tasks ts = mset (map fst (filter (\<lambda>p. unfinished (snd p)) ts))"

lemma worker_sums [simp]:
  "worker_tasks {#} = {#}" "worker_tasks (add_mset w W) = worker_task w + worker_tasks W"
  "worker_tasks (V + W) = worker_tasks V + worker_tasks W"
  "worker_devices {#} = {#}" "worker_devices (add_mset w W) = worker_device w + worker_devices W"
  "worker_devices (V + W) = worker_devices V + worker_devices W"
  by (simp_all add: worker_tasks_def worker_devices_def)

lemma worker_task_mem: "w \<in># W \<Longrightarrow> i \<in># worker_task w \<Longrightarrow> i \<in># worker_tasks W"
  by (auto simp: worker_tasks_def)

text \<open>Updating an ordered map, in multisets: what was under the key leaves, what is put arrives.\<close>

definition open_at :: "(string, CaptureTaskSnapshot) smap \<Rightarrow> string \<Rightarrow> string multiset" where
  "open_at ts i = (case map_of ts i of Some t \<Rightarrow> if unfinished t then {#i#} else {#} | None \<Rightarrow> {#})"

lemma open_tasks_put:
  "smap_ok ts \<Longrightarrow>
   open_tasks (smap_put i t ts) + open_at ts i = open_tasks ts + (if unfinished t then {#i#} else {#})"
proof (induction ts)
  case Nil
  then show ?case by (simp add: open_tasks_def open_at_def)
next
  case (Cons p ts)
  have "map_of ts (fst p) = None"
    using Cons.prems by (auto simp: smap_ok_Cons map_of_eq_None_iff)
  moreover have "map_of ts i = None" if "i < fst p"
    using Cons.prems that by (force simp: smap_ok_Cons map_of_eq_None_iff)
  ultimately show ?case
    using Cons by (cases p) (auto simp: smap_ok_Cons open_tasks_def open_at_def)
qed

lemma open_tasks_erase:
  "smap_ok ts \<Longrightarrow> open_tasks (smap_erase i ts) + open_at ts i = open_tasks ts"
proof (induction ts)
  case Nil
  then show ?case by (simp add: open_tasks_def open_at_def smap_erase_def)
next
  case (Cons p ts)
  have "map_of ts (fst p) = None"
    using Cons.prems by (auto simp: smap_ok_Cons map_of_eq_None_iff)
  then have "smap_erase (fst p) ts = ts" by (rule smap_erase_absent)
  with Cons \<open>map_of ts (fst p) = None\<close> show ?case
    by (cases p) (auto simp: smap_ok_Cons open_tasks_def open_at_def smap_erase_def filter_filter_mset)
qed

abbreviation look_queue :: "(string, string list) smap \<Rightarrow> string \<Rightarrow> string list" where
  "look_queue qs d \<equiv> (case map_of qs d of None \<Rightarrow> [] | Some q \<Rightarrow> q)"

lemma queued_put:
  "smap_ok qs \<Longrightarrow> queued (smap_put d q qs) + mset (look_queue qs d) = queued qs + mset q"
proof (induction qs)
  case Nil
  then show ?case by (simp add: queued_def)
next
  case (Cons p qs)
  have "map_of qs (fst p) = None"
    using Cons.prems by (auto simp: smap_ok_Cons map_of_eq_None_iff)
  moreover have "map_of qs d = None" if "d < fst p"
    using Cons.prems that by (force simp: smap_ok_Cons map_of_eq_None_iff)
  ultimately show ?case
    using Cons by (cases p) (auto simp: smap_ok_Cons queued_def ac_simps)
qed

lemma queued_erase:
  "smap_ok qs \<Longrightarrow> queued (smap_erase d qs) + mset (look_queue qs d) = queued qs"
proof (induction qs)
  case Nil
  then show ?case by (simp add: queued_def smap_erase_def)
next
  case (Cons p qs)
  have "map_of qs (fst p) = None"
    using Cons.prems by (auto simp: smap_ok_Cons map_of_eq_None_iff)
  then have "smap_erase (fst p) qs = qs" by (rule smap_erase_absent)
  with Cons \<open>map_of qs (fst p) = None\<close> show ?case
    by (cases p) (auto simp: smap_ok_Cons queued_def smap_erase_def ac_simps)
qed

lemma open_tasks_mem: "smap_ok ts \<Longrightarrow> i \<in># open_tasks ts \<longleftrightarrow> (\<exists>t. map_of ts i = Some t \<and> unfinished t)"
  by (force simp: open_tasks_def smap_mem_set)

lemma open_tasks_count: "smap_ok ts \<Longrightarrow> count (open_tasks ts) i \<le> 1"
proof -
  assume "smap_ok ts"
  then have "distinct (map fst (filter (\<lambda>p. unfinished (snd p)) ts))"
    by (intro distinct_map_filter) (rule smap_ok_distinct)
  then show ?thesis unfolding open_tasks_def by (metis distinct_count_atmost_1 le_numeral_extra(4) zero_le_one)
qed

lemma queued_mem: "smap_ok qs \<Longrightarrow> i \<in># queued qs \<longleftrightarrow> (\<exists>d. i \<in> set (look_queue qs d))"
proof
  assume ok: "smap_ok qs" and "i \<in># queued qs"
  then obtain d q where "(d, q) \<in> set qs" "i \<in> set q" by (auto simp: queued_def)
  with ok have "map_of qs d = Some q" by (simp add: smap_mem_set)
  with \<open>i \<in> set q\<close> show "\<exists>d. i \<in> set (look_queue qs d)" by (intro exI [of _ d]) simp
next
  assume ok: "smap_ok qs" and "\<exists>d. i \<in> set (look_queue qs d)"
  then obtain d where d: "i \<in> set (look_queue qs d)" by blast
  show "i \<in># queued qs"
  proof (cases "map_of qs d")
    case None
    with d show ?thesis by simp
  next
    case (Some q)
    with ok have "(d, q) \<in> set qs" by (simp add: smap_mem_set)
    with d Some show ?thesis by (force simp: queued_def)
  qed
qed

section \<open>The invariant\<close>

definition same_key :: "CaptureTaskStartRequest \<Rightarrow> CaptureTaskSnapshot \<Rightarrow> bool" where
  "same_key rq t \<longleftrightarrow> tq_device_id rq = ts_device_id t \<and> tq_connection_id rq = ts_connection_id t"

definition task_id_at :: "nat \<Rightarrow> string \<Rightarrow> bool" where
  "task_id_at next i \<longleftrightarrow> (\<exists>wall n. n < next \<and> i = ''cap-'' @ to_string wall @ ''-'' @ dec n)"

text \<open>The maps agree: a task has its request, under the same id, device and connection.  The predicate
  speaks of the fields it depends on, so that it sees through updates of the others.\<close>

definition maps_ok ::
    "(string, CaptureTaskSnapshot) smap \<Rightarrow> (string, CaptureTaskStartRequest) smap \<Rightarrow>
     (string, string list) smap \<Rightarrow> nat \<Rightarrow> bool" where
  "maps_ok ts rs qs next \<longleftrightarrow> smap_ok ts \<and> smap_ok rs \<and> smap_ok qs \<and>
     (\<forall>i. (map_of rs i = None) = (map_of ts i = None)) \<and>
     (\<forall>i t. map_of ts i = Some t \<longrightarrow> ts_task_id t = i \<and> task_id_at next i \<and>
        (\<exists>rq. map_of rs i = Some rq \<and> same_key rq t))"

abbreviation service_maps_ok :: "CaptureTaskService \<Rightarrow> bool" where
  "service_maps_ok s \<equiv> maps_ok (ct_tasks s) (ct_requests s) (ct_processing_queues s) (ct_next_task_seq s)"

text \<open>What a worker carries belongs to its task.\<close>

fun worker_ok :: "(string \<Rightarrow> CaptureTaskSnapshot option) \<Rightarrow> worker \<Rightarrow> bool" where
  "worker_ok ts (CaptureAct i rq) = (\<exists>t. ts i = Some t \<and> same_key rq t)"
| "worker_ok ts (FailProcessing i rq) = (\<exists>t. ts i = Some t \<and> same_key rq t)"
| "worker_ok ts (ProcessAct d i rq) = (\<exists>t. ts i = Some t \<and> same_key rq t \<and> tq_device_id rq = d)"
| "worker_ok ts _ = True"

definition ct_inv :: "CaptureTaskService \<Rightarrow> worker multiset \<Rightarrow> string multiset \<Rightarrow> bool" where
  "ct_inv s W R \<longleftrightarrow> service_maps_ok s \<and>
     open_tasks (ct_tasks s) = R + worker_tasks W + queued (ct_processing_queues s) \<and>
     (\<forall>d. count (worker_devices W) d = (if d \<in> ct_active_processing_devices s then 1 else 0)) \<and>
     (\<forall>d. d \<notin> ct_active_processing_devices s \<longrightarrow> queue_of d s = []) \<and>
     (\<forall>d. \<forall>i \<in> set (queue_of d s). \<exists>t. map_of (ct_tasks s) i = Some t \<and> ts_device_id t = d) \<and>
     (\<forall>w \<in># W. worker_ok (map_of (ct_tasks s)) w) \<and>
     (\<forall>i \<in># R. \<exists>t. map_of (ct_tasks s) i = Some t \<and> ts_acquisition_status t = ''queued'')"

lemma ct_invD:
  assumes "ct_inv s W R"
  shows "service_maps_ok s" and "open_tasks (ct_tasks s) = R + worker_tasks W + queued (ct_processing_queues s)"
    and "\<And>d. count (worker_devices W) d = (if d \<in> ct_active_processing_devices s then 1 else 0)"
    and "\<And>d. d \<notin> ct_active_processing_devices s \<Longrightarrow> queue_of d s = []"
    and "\<And>d i. i \<in> set (queue_of d s) \<Longrightarrow> \<exists>t. map_of (ct_tasks s) i = Some t \<and> ts_device_id t = d"
    and "\<And>w. w \<in># W \<Longrightarrow> worker_ok (map_of (ct_tasks s)) w"
    and "\<And>i. i \<in># R \<Longrightarrow> \<exists>t. map_of (ct_tasks s) i = Some t \<and> ts_acquisition_status t = ''queued''"
  using assms by (auto simp: ct_inv_def)

lemma maps_okD:
  assumes "service_maps_ok s"
  shows "smap_ok (ct_tasks s)" and "smap_ok (ct_requests s)" and "smap_ok (ct_processing_queues s)"
    and "(map_of (ct_requests s) i = None) = (map_of (ct_tasks s) i = None)"
    and "map_of (ct_tasks s) i = Some t \<Longrightarrow> ts_task_id t = i \<and> task_id_at (ct_next_task_seq s) i"
  using assms unfolding maps_ok_def by blast+

lemma maps_ok_key:
  assumes "service_maps_ok s" and "map_of (ct_tasks s) i = Some t" and "map_of (ct_requests s) i = Some rq"
  shows "same_key rq t"
proof -
  obtain rq' where "map_of (ct_requests s) i = Some rq'" "same_key rq' t"
    using assms(1, 2) unfolding maps_ok_def by blast
  with assms(3) show ?thesis by simp
qed

lemma queue_of_look: "queue_of d s = look_queue (ct_processing_queues s) d"
  by (simp add: queue_of_def)

lemma worker_ok_ext:
  "worker_ok ts w \<Longrightarrow>
   (\<And>i t. ts i = Some t \<Longrightarrow> i \<in># worker_task w \<Longrightarrow> \<exists>t'. ts' i = Some t' \<and>
      ts_device_id t' = ts_device_id t \<and> ts_connection_id t' = ts_connection_id t) \<Longrightarrow> worker_ok ts' w"
  by (cases w) (fastforce simp: same_key_def)+

text \<open>An owned id is in the task map, its task is unfinished, and it has no other owner.\<close>

lemma owned_once:
  assumes "ct_inv s W R"
  shows "count (R + worker_tasks W + queued (ct_processing_queues s)) i \<le> 1"
  using open_tasks_count [OF maps_okD(1) [OF ct_invD(1) [OF assms]], of i] ct_invD(2) [OF assms] by simp

lemma owned_task:
  assumes "ct_inv s W R" and "i \<in># R + worker_tasks W + queued (ct_processing_queues s)"
  obtains t rq where "map_of (ct_tasks s) i = Some t" "unfinished t"
    "map_of (ct_requests s) i = Some rq" "same_key rq t" "ts_task_id t = i"
proof -
  note maps = ct_invD(1) [OF assms(1)]
  have "i \<in># open_tasks (ct_tasks s)" using assms(2) ct_invD(2) [OF assms(1)] by simp
  then obtain t where t: "map_of (ct_tasks s) i = Some t" "unfinished t"
    using open_tasks_mem [OF maps_okD(1) [OF maps]] by blast
  then obtain rq where "map_of (ct_requests s) i = Some rq" "same_key rq t"
    using maps unfolding maps_ok_def by blast
  with t maps_okD(5) [OF maps t(1)] show ?thesis by (auto intro: that)
qed

section \<open>Fresh ids\<close>

lemma last_dash:
  assumes "xs @ CHR ''-'' # ys = xs' @ CHR ''-'' # ys'" and "CHR ''-'' \<notin> set ys" and "CHR ''-'' \<notin> set ys'"
  shows "ys = ys'"
proof -
  have "takeWhile (\<lambda>c. c \<noteq> CHR ''-'') (rev (xs @ CHR ''-'' # ys)) = rev ys"
    using assms(2) by (simp add: takeWhile_append)
  moreover have "takeWhile (\<lambda>c. c \<noteq> CHR ''-'') (rev (xs' @ CHR ''-'' # ys')) = rev ys'"
    using assms(3) by (simp add: takeWhile_append)
  ultimately show ?thesis using assms(1) by (metis rev_rev_ident)
qed

lemma dash_not_digit: "CHR ''-'' \<notin> set (dec n)"
  using is_digit_dec [of n] by (auto dest!: bspec)

lemma task_id_inject:
  "''cap-'' @ to_string a @ ''-'' @ dec m = ''cap-'' @ to_string b @ ''-'' @ dec n \<Longrightarrow> m = n"
  using last_dash [of "''cap-'' @ to_string a" "dec m" "''cap-'' @ to_string b" "dec n"] dash_not_digit
  by simp

lemma NextTaskId_fresh:
  assumes "service_maps_ok s" and "NextTaskId wall s = (i, s')"
  shows "map_of (ct_tasks s) i = None" and "task_id_at (ct_next_task_seq s') i"
    and "s' = s\<lparr>ct_next_task_seq := Suc (ct_next_task_seq s)\<rparr>"
proof -
  have i: "i = ''cap-'' @ to_string wall @ ''-'' @ dec (ct_next_task_seq s)"
    and s': "s' = s\<lparr>ct_next_task_seq := Suc (ct_next_task_seq s)\<rparr>"
    using assms(2) by (auto simp: NextTaskId_def)
  show "s' = s\<lparr>ct_next_task_seq := Suc (ct_next_task_seq s)\<rparr>" by (rule s')
  show "task_id_at (ct_next_task_seq s') i" by (auto simp: task_id_at_def i s')
  show "map_of (ct_tasks s) i = None"
  proof (rule ccontr)
    assume "map_of (ct_tasks s) i \<noteq> None"
    then have "task_id_at (ct_next_task_seq s) i"
      using maps_okD(5) [OF assms(1)] by blast
    then obtain wall' n where "n < ct_next_task_seq s" "i = ''cap-'' @ to_string wall' @ ''-'' @ dec n"
      unfolding task_id_at_def by blast
    with i task_id_inject [of wall "ct_next_task_seq s" wall' n] show False by simp
  qed
qed

section \<open>Updates of the maps\<close>

definition same_task :: "CaptureTaskSnapshot \<Rightarrow> CaptureTaskSnapshot \<Rightarrow> bool" where
  "same_task t t' \<longleftrightarrow> ts_task_id t' = ts_task_id t \<and> ts_device_id t' = ts_device_id t \<and>
     ts_connection_id t' = ts_connection_id t"

lemma same_key_task [simp]: "same_task t t' \<Longrightarrow> same_key rq t' = same_key rq t"
  by (simp add: same_key_def same_task_def)

lemma maps_put_task:
  "maps_ok ts rs qs next \<Longrightarrow> map_of ts i = Some t \<Longrightarrow> same_task t t' \<Longrightarrow> maps_ok (smap_put i t' ts) rs qs next"
  unfolding maps_ok_def by (auto simp: same_task_def same_key_def)

lemma maps_put_request:
  assumes "maps_ok ts rs qs next" and "map_of rs i = Some rq"
    and "tq_device_id rq' = tq_device_id rq" and "tq_connection_id rq' = tq_connection_id rq"
  shows "maps_ok ts (smap_put i rq' rs) qs next"
proof -
  have key: "same_key rq' = same_key rq" using assms(3, 4) by (simp add: same_key_def fun_eq_iff)
  have none: "(map_of rs j = None) = (map_of ts j = None)" for j
    using assms(1) by (simp add: maps_ok_def)
  have "ts_task_id t = j \<and> task_id_at next j \<and> (\<exists>r. map_of (smap_put i rq' rs) j = Some r \<and> same_key r t)"
    if t: "map_of ts j = Some t" for j t
  proof -
    obtain r where r: "map_of rs j = Some r" "same_key r t" "ts_task_id t = j" "task_id_at next j"
      using assms(1) t unfolding maps_ok_def by blast
    then show ?thesis using assms(2) key by (cases "j = i") auto
  qed
  moreover have "(map_of (smap_put i rq' rs) j = None) = (map_of ts j = None)" for j
    using none [of j] assms(2) by auto
  ultimately show ?thesis using assms(1) by (simp add: maps_ok_def)
qed

lemma maps_queue: "maps_ok ts rs qs next \<Longrightarrow> smap_ok qs' \<Longrightarrow> maps_ok ts rs qs' next"
  by (simp add: maps_ok_def)

lemma task_id_at_mono: "task_id_at n i \<Longrightarrow> n \<le> m \<Longrightarrow> task_id_at m i"
  unfolding task_id_at_def by (metis less_le_trans)

lemma maps_next: "maps_ok ts rs qs n \<Longrightarrow> n \<le> m \<Longrightarrow> maps_ok ts rs qs m"
  unfolding maps_ok_def by (blast intro: task_id_at_mono)

lemma maps_new:
  "maps_ok ts rs qs next \<Longrightarrow> map_of ts i = None \<Longrightarrow> task_id_at next i \<Longrightarrow> ts_task_id t = i \<Longrightarrow> same_key rq t \<Longrightarrow>
   maps_ok (smap_put i t ts) (smap_put i rq rs) qs next"
  unfolding maps_ok_def by auto

lemma maps_erase: "maps_ok ts rs qs next \<Longrightarrow> maps_ok (smap_erase i ts) (smap_erase i rs) qs next"
  unfolding maps_ok_def by auto

lemma maps_filter:
  assumes "maps_ok ts rs qs next"
  shows "maps_ok (filter (\<lambda>p. fst p \<in> A) ts)
    (filter (\<lambda>p. fst p \<notin> fst ` set (filter (\<lambda>p. fst p \<notin> A) ts)) rs) qs next"
proof -
  have ok: "smap_ok ts" "smap_ok rs" using assms by (simp_all add: maps_ok_def)
  have gone: "i \<in> fst ` set (filter (\<lambda>p. fst p \<notin> A) ts) \<longleftrightarrow> i \<notin> A \<and> map_of ts i \<noteq> None" for i
    by (auto simp: map_of_eq_None_iff)
  have rs: "map_of (filter (\<lambda>p. fst p \<notin> fst ` set (filter (\<lambda>p. fst p \<notin> A) ts)) rs) i =
      (if i \<in> A then map_of rs i else None)" for i
  proof -
    have "(map_of rs i = None) = (map_of ts i = None)" using assms by (simp add: maps_ok_def)
    then show ?thesis
      by (cases "map_of rs i") (auto simp: map_of_filter_smap [OF ok(2)] gone simp del: set_filter)
  qed
  have ts: "map_of (filter (\<lambda>p. fst p \<in> A) ts) i = (if i \<in> A then map_of ts i else None)" for i
    by (simp add: map_of_filter_smap [OF ok(1)] split: option.splits)
  show ?thesis
    using assms ok unfolding maps_ok_def rs ts by auto
qed

section \<open>Preservation\<close>

lemma queue_of_frame [simp]:
  "queue_of d (s\<lparr>ct_tasks := ts\<rparr>) = queue_of d s"
  "queue_of d (s\<lparr>ct_requests := rs\<rparr>) = queue_of d s"
  "queue_of d (s\<lparr>ct_next_task_seq := n\<rparr>) = queue_of d s"
  "queue_of d (s\<lparr>ct_active_capture_devices := x\<rparr>) = queue_of d s"
  "queue_of d (s\<lparr>ct_active_processing_devices := x\<rparr>) = queue_of d s"
  "queue_of d (s\<lparr>ct_active_worker_task_ids := x\<rparr>) = queue_of d s"
  "queue_of d (s\<lparr>ct_capture_cooldown_until := cd\<rparr>) = queue_of d s"
  "queue_of d (s\<lparr>ct_session_summaries := u\<rparr>) = queue_of d s"
  by (simp_all add: queue_of_def)

text \<open>The invariant does not see the occupied devices, the cooldowns, the summaries and the ids of
  active workers.\<close>

lemma ct_inv_frame [simp]:
  "ct_inv (s\<lparr>ct_active_capture_devices := x\<rparr>) W R = ct_inv s W R"
  "ct_inv (s\<lparr>ct_capture_cooldown_until := cd\<rparr>) W R = ct_inv s W R"
  "ct_inv (s\<lparr>ct_session_summaries := u\<rparr>) W R = ct_inv s W R"
  "ct_inv (s\<lparr>ct_active_worker_task_ids := x\<rparr>) W R = ct_inv s W R"
  "ct_inv (s\<lparr>ct_active_capture_devices := x, ct_active_worker_task_ids := y\<rparr>) W R = ct_inv s W R"
  "ct_inv (update_summary c d f s) W R = ct_inv s W R"
  by (simp_all add: ct_inv_def update_summary_def Let_def)

lemma ct_inv_next: "ct_inv s W R \<Longrightarrow> ct_inv (s\<lparr>ct_next_task_seq := Suc (ct_next_task_seq s)\<rparr>) W R"
  by (auto simp: ct_inv_def intro: maps_next)

lemma sole_owner:
  assumes "ct_inv s W R" and "{#i#} + M = R + worker_tasks W + queued (ct_processing_queues s)"
  shows "i \<notin># M"
  using owned_once [OF assms(1), of i] unfolding assms(2) [symmetric] by (simp add: not_in_iff)

lemma queue_device:
  "ct_inv s W R \<Longrightarrow> map_of (ct_tasks s) i = Some t \<Longrightarrow> i \<in> set (queue_of d s) \<Longrightarrow> ts_device_id t = d"
  using ct_invD(5) [of s W R i d] by auto

text \<open>Changing an owned task's progress.\<close>

lemma ct_inv_put:
  assumes inv: "ct_inv s W R" and t: "map_of (ct_tasks s) i = Some t" "same_task t t'"
    and "unfinished t' = unfinished t" and "i \<in># R \<Longrightarrow> ts_acquisition_status t' = ''queued''"
  shows "ct_inv (update_task i t' s) W R"
proof -
  have "open_tasks (smap_put i t' (ct_tasks s)) = open_tasks (ct_tasks s)"
    using open_tasks_put [OF maps_okD(1) [OF ct_invD(1) [OF inv]], of i t'] assms(2, 4)
    by (auto simp: open_at_def)
  moreover have "worker_ok (map_of (smap_put i t' (ct_tasks s))) w" if "w \<in># W" for w
    by (rule worker_ok_ext [OF ct_invD(6) [OF inv that]]) (use t in \<open>auto simp: same_task_def\<close>)
  ultimately show ?thesis
    using ct_invD [OF inv] t assms(5) queue_device [OF inv t(1)]
    by (auto simp: ct_inv_def update_task_def same_task_def intro: maps_put_task)
qed

lemma ct_inv_requests:
  assumes "ct_inv s W R" and "map_of (ct_requests s) i = Some rq"
    and "tq_device_id rq' = tq_device_id rq" and "tq_connection_id rq' = tq_connection_id rq"
  shows "ct_inv (s\<lparr>ct_requests := smap_put i rq' (ct_requests s)\<rparr>) W R"
  using assms by (auto simp: ct_inv_def intro: maps_put_request)

lemma ct_inv_swap:
  assumes "ct_inv s (add_mset w W) R" and "worker_tasks V = worker_task w"
    and "worker_devices V = worker_device w" and "\<And>v. v \<in># V \<Longrightarrow> worker_ok (map_of (ct_tasks s)) v"
  shows "ct_inv s (V + W) R"
  using assms unfolding ct_inv_def by (auto simp: ac_simps)

text \<open>Finishing the task a worker owns; the worker is replaced by ones that own nothing.\<close>

lemma ct_inv_finish:
  assumes inv: "ct_inv s (add_mset w W) R" and w: "worker_task w = {#i#}"
    and t: "map_of (ct_tasks s) i = Some t" "same_task t t'" "\<not> unfinished t'"
    and V: "worker_tasks V = {#}" "worker_devices V = worker_device w" "\<And>v ts. v \<in># V \<Longrightarrow> worker_ok ts v"
  shows "ct_inv (update_task i t' s) (V + W) R"
proof -
  let ?M = "R + worker_tasks W + queued (ct_processing_queues s)"
  note maps = ct_invD(1) [OF inv]
  have own: "open_tasks (ct_tasks s) = {#i#} + ?M"
    using ct_invD(2) [OF inv] w by (simp add: ac_simps)
  then have "unfinished t"
    using open_tasks_mem [OF maps_okD(1) [OF maps], of i] t(1) by auto
  then have "open_tasks (smap_put i t' (ct_tasks s)) = ?M"
    using open_tasks_put [OF maps_okD(1) [OF maps], of i t'] own t by (simp add: open_at_def)
  moreover have "i \<notin># ?M"
    using sole_owner [OF inv, of i ?M] w by (simp add: ac_simps)
  moreover have "worker_ok (map_of (smap_put i t' (ct_tasks s))) v" if "v \<in># V + W" for v
  proof (cases "v \<in># V")
    case False
    then have "v \<in># add_mset w W" using that by simp
    then show ?thesis
      by (rule worker_ok_ext [OF ct_invD(6) [OF inv]]) (use t in \<open>auto simp: same_task_def\<close>)
  qed (rule V(3))
  ultimately show ?thesis
    using ct_invD [OF inv] t V(1, 2) queue_device [OF inv t(1)]
    by (auto simp: ct_inv_def update_task_def same_task_def intro: maps_put_task)
qed

text \<open>Giving up a reservation.\<close>

lemma ct_inv_drop:
  assumes inv: "ct_inv s W (add_mset i R)"
  shows "ct_inv (drop_task i d s) W R"
proof -
  let ?M = "R + worker_tasks W + queued (ct_processing_queues s)"
  note maps = ct_invD(1) [OF inv]
  have "i \<in># add_mset i R + worker_tasks W + queued (ct_processing_queues s)" by simp
  then obtain t where t: "map_of (ct_tasks s) i = Some t" "unfinished t"
    by (rule owned_task [OF inv])
  have other: "i \<notin># ?M" using sole_owner [OF inv, of i ?M] by simp
  have "open_tasks (smap_erase i (ct_tasks s)) = ?M"
    using open_tasks_erase [OF maps_okD(1) [OF maps], of i] ct_invD(2) [OF inv] t
    by (simp add: open_at_def)
  moreover have "worker_ok (map_of (smap_erase i (ct_tasks s))) w" if w: "w \<in># W" for w
  proof (rule worker_ok_ext [OF ct_invD(6) [OF inv w]])
    fix j u assume "map_of (ct_tasks s) j = Some u" "j \<in># worker_task w"
    with other worker_task_mem [OF w] show "\<exists>t'. map_of (smap_erase i (ct_tasks s)) j = Some t' \<and>
        ts_device_id t' = ts_device_id u \<and> ts_connection_id t' = ts_connection_id u" by auto
  qed
  moreover have "j \<noteq> i" if "j \<in> set (queue_of e s)" for e j
    using other that queued_mem [OF maps_okD(3) [OF maps], of j] by (auto simp: queue_of_look)
  ultimately show ?thesis
    using ct_invD [OF inv] other
    by (auto simp: ct_inv_def drop_task_def intro: maps_erase)
qed

lemma queue_of_set_queue [simp]: "queue_of e (set_queue d q s) = (if e = d then q else queue_of e s)"
  by (simp add: queue_of_def set_queue_def)

lemma set_queue_fields [simp]:
  "ct_active_processing_devices (set_queue d q s) = ct_active_processing_devices s"
  "ct_tasks (set_queue d q s) = ct_tasks s" "ct_requests (set_queue d q s) = ct_requests s"
  by (simp_all add: set_queue_def)

lemma smap_put_put [simp]: "smap_put k v (smap_put k w m) = smap_put k v m"
  by (induction m) auto

text \<open>Changing one device's queue, together with the workers and the devices being processed.\<close>

lemma ct_inv_queues:
  assumes inv: "ct_inv s W R"
    and s': "ct_tasks s' = ct_tasks s" "ct_requests s' = ct_requests s"
      "ct_processing_queues s' = smap_put d q (ct_processing_queues s)" "ct_next_task_seq s' = ct_next_task_seq s"
    and owners: "worker_tasks W' + mset q = worker_tasks W + mset (queue_of d s)"
    and devices: "\<And>e. count (worker_devices W') e = (if e \<in> ct_active_processing_devices s' then 1 else 0)"
    and idle: "\<And>e. e \<notin> ct_active_processing_devices s' \<Longrightarrow> (if e = d then q else queue_of e s) = []"
    and members: "\<And>i. i \<in> set q \<Longrightarrow> \<exists>t. map_of (ct_tasks s) i = Some t \<and> ts_device_id t = d"
    and workers: "\<And>w. w \<in># W' \<Longrightarrow> worker_ok (map_of (ct_tasks s)) w"
  shows "ct_inv s' W' R"
proof -
  note maps = ct_invD(1) [OF inv]
  have queue: "queue_of e s' = (if e = d then q else queue_of e s)" for e
    using s'(3) by (simp add: queue_of_def)
  have "queued (ct_processing_queues s') + mset (queue_of d s) = queued (ct_processing_queues s) + mset q"
    using queued_put [OF maps_okD(3) [OF maps], of d q] s'(3) by (simp add: queue_of_look)
  then have "open_tasks (ct_tasks s) + mset (queue_of d s) + mset q =
      R + worker_tasks W' + queued (ct_processing_queues s') + mset (queue_of d s) + mset q"
    using ct_invD(2) [OF inv] owners
    by (metis (no_types, lifting) add.assoc add.commute)
  then have "open_tasks (ct_tasks s) = R + worker_tasks W' + queued (ct_processing_queues s')"
    by simp
  moreover have "service_maps_ok s'"
    using maps s' maps_okD(3) [OF maps] by (auto intro: maps_queue)
  ultimately show ?thesis
    unfolding ct_inv_def queue s'(1)
    using devices idle members workers ct_invD(5, 7) [OF inv] by (auto split: if_splits)
qed

lemma ct_inv_Reserve:
  assumes inv: "ct_inv s W R" and r: "ReserveTask now wall rq s = (r, s')"
  shows "ct_inv s' W (if sr_accepted r then add_mset (ts_task_id (sr_task r)) R else R)"
proof -
  obtain i s1 where nx: "NextTaskId wall s = (i, s1)" by force
  note fresh = NextTaskId_fresh [OF ct_invD(1) [OF inv] nx]
  have inv1: "ct_inv s1 W R" using ct_inv_next [OF inv] fresh(3) by simp
  have none: "map_of (ct_tasks s1) i = None" using fresh(1, 3) by simp
  let ?t = "new_task i rq"
  have t: "ts_task_id ?t = i" "same_key rq ?t" "unfinished ?t" "ts_acquisition_status ?t = ''queued''"
    by (simp_all add: new_task_def default_CaptureTaskSnapshot_def same_key_def unfinished_def)
  have "open_tasks (smap_put i ?t (ct_tasks s1)) = add_mset i (open_tasks (ct_tasks s1))"
    using open_tasks_put [OF maps_okD(1) [OF ct_invD(1) [OF inv1]], of i ?t] none t(3)
    by (simp add: open_at_def)
  moreover have "worker_ok (map_of (smap_put i ?t (ct_tasks s1))) w" if "w \<in># W" for w
    by (rule worker_ok_ext [OF ct_invD(6) [OF inv1 that]]) (use none in auto)
  moreover have "j \<noteq> i" if "j \<in> set (queue_of d s1)" for d j
    using ct_invD(5) [OF inv1 that] none by auto
  moreover have "j \<noteq> i" if "j \<in># R" for j
    using ct_invD(7) [OF inv1 that] none by auto
  ultimately have reg: "ct_inv (register_task now rq ?t s1) W (add_mset i R)"
    using ct_invD [OF inv1] t none fresh(2)
    by (auto simp: ct_inv_def register_task_def intro!: maps_new)
  show ?thesis
    using r inv inv1 reg t(1)
    by (auto simp: ReserveTask_def nx Let_def start_error_def default_CaptureTaskStartResult_def
        split: if_splits option.splits)
qed

lemma ct_inv_Start:
  assumes inv: "ct_inv s W (add_mset i R)" and r: "StartReservedTask i thread s = (r, s')"
  shows "ct_inv s' (if sr_accepted r then add_mset (CaptureBegin i) W else W) R"
proof -
  have "i \<in># add_mset i R + worker_tasks W + queued (ct_processing_queues s)" by simp
  then obtain t rq where t: "map_of (ct_tasks s) i = Some t" "map_of (ct_requests s) i = Some rq"
    by (rule owned_task [OF inv])
  have q: "ts_acquisition_status t = ''queued''"
    using ct_invD(7) [OF inv, of i] t(1) by auto
  have "ct_inv s (add_mset (CaptureBegin i) W) R"
    using inv unfolding ct_inv_def by auto
  moreover have "ct_inv (drop_task i (ts_device_id t) (s\<lparr>ct_active_worker_task_ids := x\<rparr>)) W R" for x
    using inv by (intro ct_inv_drop) simp
  ultimately show ?thesis
    using r t q by (auto simp: StartReservedTask_def Let_def start_error_def
        default_CaptureTaskStartResult_def split: option.splits)
qed

lemma ct_inv_Abort:
  assumes inv: "ct_inv s W (add_mset i R)"
  shows "ct_inv (AbortReservedTask i s) W R"
proof -
  obtain t where "map_of (ct_tasks s) i = Some t" "ts_acquisition_status t = ''queued''"
    using ct_invD(7) [OF inv, of i] by auto
  with ct_inv_drop [OF inv] show ?thesis by (simp add: AbortReservedTask_def)
qed

lemma ct_inv_Clear:
  assumes inv: "ct_inv s W R" and idle: "ActiveTaskCount s = 0" and r: "ClearFinishedTasks s = (n, s')"
  shows "ct_inv s' W R"
proof -
  have none: "filter (\<lambda>p. unfinished (snd p)) (ct_tasks s) = []"
    using idle by (simp add: ActiveTaskCount_def)
  then have empty: "R = {#}" "worker_tasks W = {#}" "queued (ct_processing_queues s) = {#}"
    using ct_invD(2) [OF inv] by (simp_all add: open_tasks_def)
  have s': "ct_tasks s' = filter (\<lambda>p. fst p \<in> ct_active_worker_task_ids s) (ct_tasks s)"
    "service_maps_ok s'" "ct_processing_queues s' = ct_processing_queues s" "queue_of d s' = queue_of d s"
    "ct_active_processing_devices s' = ct_active_processing_devices s" for d
    using r maps_filter [OF ct_invD(1) [OF inv], of "ct_active_worker_task_ids s"]
    by (auto simp: ClearFinishedTasks_def Let_def)
  have "open_tasks (ct_tasks s') = {#}"
    using none unfolding open_tasks_def s'(1) by (simp add: filter_empty_conv)
  moreover have "queue_of d s = []" for d
    using queued_mem [OF maps_okD(3) [OF ct_invD(1) [OF inv]]] empty(3)
    by (metis empty_iff last_in_set queue_of_look set_mset_empty)
  moreover have "worker_ok ts w" if "w \<in># W" for w ts
    using worker_task_mem [OF that] empty(2) by (cases w) auto
  ultimately show ?thesis
    using ct_invD(3) [OF inv] empty s' by (simp add: ct_inv_def)
qed

section \<open>The steps of the workers\<close>

lemma ct_inv_Begin:
  assumes inv: "ct_inv s (add_mset (CaptureBegin i) W) R" and b: "begin_capture i s = (b, s')"
  shows "ct_inv s' (case b of None \<Rightarrow> W | Some (rq, _) \<Rightarrow> add_mset (CaptureAct i rq) W) R"
proof -
  have "i \<in># R + worker_tasks (add_mset (CaptureBegin i) W) + queued (ct_processing_queues s)" by simp
  then obtain t rq where t: "map_of (ct_tasks s) i = Some t" "unfinished t"
      "map_of (ct_requests s) i = Some rq" "same_key rq t"
    by (rule owned_task [OF inv])
  let ?t = "t\<lparr>ts_status := ''running'', ts_acquisition_status := ''capturing''\<rparr>"
  have same: "same_task t ?t" and un: "unfinished ?t" by (simp_all add: same_task_def unfinished_def)
  have b': "b = Some (rq, ?t)" "s' = update_task i ?t s"
    using b t by (auto simp: begin_capture_def Let_def)
  have "i \<notin># R"
    using sole_owner [OF inv, of i "R + worker_tasks W + queued (ct_processing_queues s)"] by auto
  then have inv': "ct_inv s' (add_mset (CaptureBegin i) W) R"
    unfolding b'(2) using ct_inv_put [OF inv t(1) same] un t(2) by blast
  have key: "map_of (ct_tasks s') i = Some ?t" "same_key rq ?t"
    using t(4) same by (simp_all add: b'(2) update_task_def)
  have "ct_inv s' ({#CaptureAct i rq#} + W) R"
    by (rule ct_inv_swap [OF inv']) (use key in auto)
  then show ?thesis by (simp add: b'(1))
qed

lemma ct_inv_CaptureFails:
  assumes inv: "ct_inv s (add_mset (CaptureAct i rq) W) R"
    and b: "CompleteCaptureFailure i rq msg s = (b, s')"
  shows "ct_inv s' W R"
proof -
  have "i \<in># R + worker_tasks (add_mset (CaptureAct i rq) W) + queued (ct_processing_queues s)" by simp
  then obtain t where t: "map_of (ct_tasks s) i = Some t" by (rule owned_task [OF inv])
  let ?t = "t\<lparr>ts_status := ''failed'', ts_acquisition_status := ''failed'', ts_processing_status := ''skipped'',
    ts_code := ToCode CaptureFailed, ts_message := or_text msg ''capture failed'', ts_error := or_text msg ''capture failed''\<rparr>"
  have "ct_inv (update_task i ?t s) ({#} + W) R"
    by (rule ct_inv_finish [OF inv _ t]) (simp_all add: same_task_def unfinished_def)
  moreover have "s' = update_summary (tq_connection_id rq) (tq_device_id rq)
      (\<lambda>d. d\<lparr>sd_failed_count := sd_failed_count d + 1\<rparr>) ((update_task i ?t s)
        \<lparr>ct_active_capture_devices := ct_active_capture_devices (update_task i ?t s) - {tq_device_id rq},
         ct_active_worker_task_ids := ct_active_worker_task_ids (update_task i ?t s) - {i}\<rparr>)"
    using b t by (auto simp: CompleteCaptureFailure_def Let_def)
  ultimately show ?thesis by simp
qed

lemma final_status_finished:
  "plain_status r \<Longrightarrow> final_status r = pr_status r"
  by (auto simp: plain_status_def final_status_def)

lemma ct_inv_Complete:
  assumes inv: "ct_inv s (add_mset w W) R" and w: "worker_task w = {#i#}"
    and r: "plain_status result" and b: "CompleteProcessingTask i rq result s = (b, s')"
    and V: "worker_tasks V = {#}" "worker_devices V = worker_device w" "\<And>v ts. v \<in># V \<Longrightarrow> worker_ok ts v"
  shows "ct_inv s' (V + W) R"
proof -
  have "i \<in># R + worker_tasks (add_mset w W) + queued (ct_processing_queues s)" using w by simp
  then obtain t where t: "map_of (ct_tasks s) i = Some t" by (rule owned_task [OF inv])
  define t' where "t' = snd (the b)"
  have "same_task t t'" "ts_status t' = pr_status result"
    using b t final_status_finished [OF r]
    by (auto simp: CompleteProcessingTask_def Let_def t'_def same_task_def)
  moreover from this r have "\<not> unfinished t'" by (auto simp: unfinished_def plain_status_def)
  ultimately have "ct_inv (update_task i t' s) (V + W) R"
    using ct_inv_finish [OF inv w t _ _ V] by blast
  moreover have "s' = update_summary (tq_connection_id rq) (tq_device_id rq)
      (\<lambda>d. let d = (if sd_pending_count d > 0 then d\<lparr>sd_pending_count := sd_pending_count d - 1\<rparr> else d)
           in if fst (the b) then d\<lparr>sd_processed_count := sd_processed_count d + 1\<rparr>
              else d\<lparr>sd_failed_count := sd_failed_count d + 1\<rparr>) ((update_task i t' s)
        \<lparr>ct_active_worker_task_ids := ct_active_worker_task_ids (update_task i t' s) - {i}\<rparr>)"
    using b t by (auto simp: CompleteProcessingTask_def Let_def t'_def)
  ultimately show ?thesis by simp
qed

lemma spawn_failure_plain [simp]: "plain_status spawn_failure"
  by (simp add: plain_status_def spawn_failure_def)

lemma ct_inv_Stage:
  assumes inv: "ct_inv s W R" and w: "ProcessAct d i rq \<in># W" and b: "record_stage i stage s = (b, s')"
  shows "ct_inv s' W R"
proof -
  have "i \<in># worker_tasks W" using worker_task_mem [OF w] by simp
  then have pos: "0 < count (worker_tasks W) i" by simp
  then have "count R i = 0" using owned_once [OF inv, of i, unfolded count_union] by linarith
  then have "i \<notin># R" by (simp add: not_in_iff)
  have "i \<in># R + worker_tasks W + queued (ct_processing_queues s)" using pos by simp
  then obtain t where t: "map_of (ct_tasks s) i = Some t" by (rule owned_task [OF inv])
  define t' where "t' = (if sg_status stage \<noteq> ''running'' then t\<lparr>ts_stages := ts_stages t @ [stage]\<rparr> else t)"
  have "same_task t t'" "unfinished t' = unfinished t" by (simp_all add: t'_def same_task_def unfinished_def)
  moreover have "s' = update_task i t' s" using b t by (simp add: record_stage_def Let_def t'_def)
  ultimately show ?thesis using ct_inv_put [OF inv t] \<open>i \<notin># R\<close> by blast
qed

lemma ct_inv_members:
  assumes inv: "ct_inv s W R" and i: "i \<in> set (queue_of d s)"
  obtains t rq where "map_of (ct_tasks s) i = Some t" "unfinished t" "map_of (ct_requests s) i = Some rq"
    "same_key rq t" "ts_device_id t = d" "d \<in> ct_active_processing_devices s" "i \<notin># R"
proof -
  have mem: "i \<in># queued (ct_processing_queues s)"
    using queued_mem [OF maps_okD(3) [OF ct_invD(1) [OF inv]], of i] i by (auto simp: queue_of_look)
  then have "i \<in># R + worker_tasks W + queued (ct_processing_queues s)" by simp
  then obtain t rq where t: "map_of (ct_tasks s) i = Some t" "unfinished t" "map_of (ct_requests s) i = Some rq"
      "same_key rq t" by (rule owned_task [OF inv])
  from mem have "0 < count (queued (ct_processing_queues s)) i" by simp
  then have "count R i = 0" using owned_once [OF inv, of i, unfolded count_union] by linarith
  then have "i \<notin># R" by (simp add: not_in_iff)
  moreover have "d \<in> ct_active_processing_devices s" using ct_invD(4) [OF inv, of d] i by force
  ultimately show ?thesis using that t queue_device [OF inv t(1) i] by blast
qed

text \<open>A processing worker takes the next task of its device; the queue never holds a stale id.\<close>

lemma ct_inv_Take:
  assumes inv: "ct_inv s (add_mset (ProcessLoop d) W) R" and n: "take_next d s = (n, s')"
  shows "n \<noteq> Skip \<and> ct_inv s' (after_take d n + W) R"
proof (cases "queue_of d s")
  case Nil
  have n': "n = QueueEmpty" "s' = s\<lparr>ct_active_processing_devices := ct_active_processing_devices s - {d},
      ct_processing_queues := smap_erase d (ct_processing_queues s)\<rparr>"
    using n Nil by (auto simp: take_next_def)
  have "queued (smap_erase d (ct_processing_queues s)) = queued (ct_processing_queues s)"
    using queued_erase [OF maps_okD(3) [OF ct_invD(1) [OF inv]], of d] Nil by (simp add: queue_of_look)
  moreover have "queue_of e s' = queue_of e s" for e
    using Nil by (auto simp: n'(2) queue_of_def)
  moreover have "count (worker_devices W) e = (if e \<in> ct_active_processing_devices s - {d} then 1 else 0)" for e
    using ct_invD(3) [OF inv, of e] by (auto split: if_splits)
  moreover have "service_maps_ok s'"
    using ct_invD(1) [OF inv] maps_okD(3) [OF ct_invD(1) [OF inv]] by (auto simp: n'(2) intro: maps_queue)
  ultimately show ?thesis
    using ct_invD [OF inv] Nil by (auto simp: ct_inv_def n' after_take_def)
next
  case (Cons i rest)
  then have mem: "i \<in> set (queue_of d s)" by simp
  obtain t rq where t: "map_of (ct_tasks s) i = Some t" "unfinished t" "map_of (ct_requests s) i = Some rq"
    "same_key rq t" "ts_device_id t = d" "d \<in> ct_active_processing_devices s" "i \<notin># R"
    by (rule ct_inv_members [OF inv mem])
  let ?t = "t\<lparr>ts_processing_status := ''running''\<rparr>"
  have n': "n = Work i rq" "s' = update_task i ?t (set_queue d rest s)"
    using n Cons t by (auto simp: take_next_def Let_def set_queue_def)
  have "ct_inv (set_queue d rest s) (add_mset (ProcessAct d i rq) W) R"
  proof (rule ct_inv_queues [OF inv, where d = d and q = rest])
    show "count (worker_devices (add_mset (ProcessAct d i rq) W)) e =
        (if e \<in> ct_active_processing_devices (set_queue d rest s) then 1 else 0)" for e
      using ct_invD(3) [OF inv, of e] by (simp add: set_queue_def)
    show "(if e = d then rest else queue_of e s) = []" if "e \<notin> ct_active_processing_devices (set_queue d rest s)" for e
      using that t(6) ct_invD(4) [OF inv, of e] by (auto simp: set_queue_def)
    show "\<exists>t. map_of (ct_tasks s) j = Some t \<and> ts_device_id t = d" if "j \<in> set rest" for j
      using ct_invD(5) [OF inv, of j d] that Cons by simp
    show "worker_ok (map_of (ct_tasks s)) w" if "w \<in># add_mset (ProcessAct d i rq) W" for w
      using that t ct_invD(6) [OF inv, of w] by (auto simp: same_key_def)
  qed (simp_all add: set_queue_def Cons)
  moreover have "map_of (ct_tasks (set_queue d rest s)) i = Some t" using t(1) by (simp add: set_queue_def)
  moreover have "same_task t ?t" "unfinished ?t = unfinished t" by (simp_all add: same_task_def unfinished_def)
  ultimately have "ct_inv s' (add_mset (ProcessAct d i rq) W) R"
    unfolding n'(2) using ct_inv_put t(7) by blast
  then show ?thesis by (simp add: n' after_take_def)
qed

lemma ct_inv_CaptureDone:
  assumes inv: "ct_inv s (add_mset (CaptureAct i rq) W) R"
    and c: "finish_capture i rq raw thread_ok s = (c, s')"
  shows "c \<noteq> Gone \<and> ct_inv s' (after_finish i rq c + W) R"
proof -
  let ?W = "add_mset (CaptureAct i rq) W" and ?d = "tq_device_id rq"
  have "i \<in># R + worker_tasks ?W + queued (ct_processing_queues s)" by simp
  then obtain t stored where t: "map_of (ct_tasks s) i = Some t" "unfinished t"
      "map_of (ct_requests s) i = Some stored" "same_key stored t"
    by (rule owned_task [OF inv])
  have rq: "same_key rq t" using ct_invD(6) [OF inv, of "CaptureAct i rq"] t(1) by auto
  have "0 < count (worker_tasks ?W) i" by simp
  then have "count R i = 0" using owned_once [OF inv, of i, unfolded count_union] by linarith
  then have R: "i \<notin># R" by (simp add: not_in_iff)
  define t' where "t' = t\<lparr>ts_acquisition_status := ''captured'', ts_processing_status := ''queued''\<rparr>"
  have t': "same_task t t'" "unfinished t' = unfinished t"
    by (simp_all add: t'_def same_task_def unfinished_def)
  define s1 where "s1 = s\<lparr>ct_requests := smap_put i (stored\<lparr>tq_raw_capture := raw\<rparr>) (ct_requests s)\<rparr>"
  define s2 where "s2 = update_summary (tq_connection_id rq) ?d
      (\<lambda>d. d\<lparr>sd_captured_count := sd_captured_count d + 1, sd_pending_count := sd_pending_count d + 1\<rparr>)
      ((update_task i t' s1)\<lparr>ct_active_capture_devices := ct_active_capture_devices (update_task i t' s1) - {?d}\<rparr>)"
  have "ct_inv s1 ?W R" unfolding s1_def by (rule ct_inv_requests [OF inv t(3)]) simp_all
  then have "ct_inv (update_task i t' s1) ?W R"
    by (rule ct_inv_put [OF _ _ t']) (use t(1) R in \<open>simp_all add: s1_def\<close>)
  then have inv2: "ct_inv s2 ?W R" unfolding s2_def by simp
  have task: "map_of (ct_tasks s2) i = Some t'"
    by (simp add: s2_def update_summary_def Let_def update_task_def)
  have key: "same_key rq t'" and dev: "ts_device_id t' = ?d"
    using rq t'(1) by (simp_all add: same_key_def same_task_def)
  have fields: "ct_active_processing_devices s2 = ct_active_processing_devices s" "queue_of e s2 = queue_of e s" for e
    by (simp_all add: s2_def s1_def update_summary_def Let_def update_task_def)
  have fin: "(c, s') = (let s3 = set_queue ?d (queue_of ?d s2 @ [i]) s2 in
      if ?d \<in> ct_active_processing_devices s2 then (Joined, s3)
      else if thread_ok then (Spawned, s3\<lparr>ct_active_processing_devices := insert ?d (ct_active_processing_devices s2)\<rparr>)
      else (SpawnFailed, set_queue ?d (butlast (queue_of ?d s3)) s3))"
    unfolding c [symmetric] using t by (simp add: finish_capture_def Let_def s2_def s1_def t'_def)
  have members: "\<exists>t. map_of (ct_tasks s2) j = Some t \<and> ts_device_id t = ?d" if "j \<in> set (queue_of ?d s2 @ [i])" for j
    using that ct_invD(5) [OF inv2, of j ?d] task dev by auto
  have devices: "count (worker_devices W) e = (if e \<in> ct_active_processing_devices s2 then 1 else 0)" for e
    using ct_invD(3) [OF inv2, of e] by simp
  have workers: "worker_ok (map_of (ct_tasks s2)) w" if "w \<in># W" for w
    using ct_invD(6) [OF inv2, of w] that by simp
  note idle = ct_invD(4) [OF inv2]
  consider (join) "?d \<in> ct_active_processing_devices s2" | (spawn) "?d \<notin> ct_active_processing_devices s2" thread_ok
    | (fail) "?d \<notin> ct_active_processing_devices s2" "\<not> thread_ok" by blast
  then show ?thesis
  proof cases
    case join
    then have c': "c = Joined" "s' = set_queue ?d (queue_of ?d s2 @ [i]) s2" using fin by (simp_all add: Let_def)
    have "ct_inv s' W R"
      by (rule ct_inv_queues [OF inv2, where d = ?d and q = "queue_of ?d s2 @ [i]"])
        (use c'(2) join members devices workers idle in \<open>auto simp: set_queue_def\<close>)
    then show ?thesis by (simp add: c'(1) after_finish_def)
  next
    case spawn
    then have c': "c = Spawned" "s' = (set_queue ?d (queue_of ?d s2 @ [i]) s2)
        \<lparr>ct_active_processing_devices := insert ?d (ct_active_processing_devices s2)\<rparr>"
      using fin by (simp_all add: Let_def)
    have "ct_inv s' (add_mset (ProcessLoop ?d) W) R"
      by (rule ct_inv_queues [OF inv2, where d = ?d and q = "queue_of ?d s2 @ [i]"])
        (use c'(2) spawn members devices workers idle in \<open>auto simp: set_queue_def\<close>)
    then show ?thesis by (simp add: c'(1) after_finish_def)
  next
    case fail
    then have c': "c = SpawnFailed" "s' = set_queue ?d (queue_of ?d s2) (set_queue ?d (queue_of ?d s2 @ [i]) s2)"
      using fin by (simp_all add: Let_def)
    have empty: "queue_of ?d s2 = []" using idle fail(1) by simp
    have "ct_inv s' (add_mset (FailProcessing i rq) W) R"
      by (rule ct_inv_queues [OF inv2, where d = ?d and q = "[]"])
        (use c'(2) empty fail devices workers idle task key in \<open>auto simp: set_queue_def\<close>)
    then show ?thesis by (simp add: c'(1) after_finish_def)
  qed
qed

section \<open>Every reachable state is well formed\<close>

definition machine_inv :: "machine \<Rightarrow> bool" where
  "machine_inv m = ct_inv (mc_service m) (mc_workers m) (mc_reserved m)"

lemma machine_inv_init: "init_machine m \<Longrightarrow> machine_inv m"
  by (auto simp: init_machine_def machine_inv_def ct_inv_def new_CaptureTaskService_def maps_ok_def
      open_tasks_def queued_def queue_of_def smap_ok_def)

lemma machine_inv_step: "ct_step m e m' \<Longrightarrow> machine_inv m \<Longrightarrow> machine_inv m'"
proof (induction rule: ct_step.induct)
  case (step_Reserve now wall rq s r s' W R)
  then show ?case using ct_inv_Reserve by (simp add: machine_inv_def)
next
  case (step_Start i thread s r s' W R)
  then show ?case using ct_inv_Start by (simp add: machine_inv_def)
next
  case (step_Abort s W i R)
  then show ?case using ct_inv_Abort by (simp add: machine_inv_def)
next
  case (step_Clear s n s' W R)
  then show ?case using ct_inv_Clear by (simp add: machine_inv_def)
next
  case (step_Begin i s b s' W R)
  then show ?case using ct_inv_Begin by (simp add: machine_inv_def)
next
  case (step_CaptureFails i rq msg s b s' W R)
  then show ?case using ct_inv_CaptureFails by (simp add: machine_inv_def)
next
  case (step_CaptureDone i rq raw thread_ok s c s' W R)
  then show ?case using ct_inv_CaptureDone by (simp add: machine_inv_def)
next
  case (step_FailDone i rq s b s' W R)
  then show ?case
    using ct_inv_Complete [where V = "{#}" and w = "FailProcessing i rq" and result = spawn_failure] by (simp add: machine_inv_def)
next
  case (step_Take d s n s' W R)
  then show ?case using ct_inv_Take by (simp add: machine_inv_def)
next
  case (step_Stage d i rq W stage s b s' R)
  then show ?case using ct_inv_Stage by (simp add: machine_inv_def)
next
  case (step_ProcessDone result i rq s b s' d W R)
  then show ?case
    using ct_inv_Complete [where V = "{#ProcessLoop d#}" and w = "ProcessAct d i rq"]
    by (simp add: machine_inv_def)
qed

interpretation capture: guarded_machine init_machine ct_step machine_inv
  by unfold_locales (auto intro: machine_inv_init machine_inv_step)

lemma reach_ct_inv: "ct_reach m \<Longrightarrow> ct_inv (mc_service m) (mc_workers m) (mc_reserved m)"
  using capture.inv_reach [of m] by (simp add: machine_inv_def)

section \<open>The workers come to an end\<close>

text \<open>A bound on the number of critical sections the workers still enter, stage callbacks aside, if
  nothing new is started.\<close>

fun worker_rank :: "worker \<Rightarrow> nat" where
  "worker_rank (CaptureBegin i) = 6"
| "worker_rank (CaptureAct i rq) = 5"
| "worker_rank (FailProcessing i rq) = 1"
| "worker_rank (ProcessLoop d) = 1"
| "worker_rank (ProcessAct d i rq) = 3"

definition work_left :: "machine \<Rightarrow> nat" where
  "work_left m = (\<Sum>w \<in># mc_workers m. worker_rank w) + 3 * size (queued (ct_processing_queues (mc_service m)))"

fun worker_label :: "label \<Rightarrow> bool" where
  "worker_label (Begin i) = True"
| "worker_label (CaptureFails i msg) = True"
| "worker_label (CaptureDone i raw ok) = True"
| "worker_label (FailDone i) = True"
| "worker_label (Take d) = True"
| "worker_label (ProcessDone i r) = True"
| "worker_label _ = False"

lemma size_queued_put:
  "smap_ok qs \<Longrightarrow> size (queued (smap_put d q qs)) + length (look_queue qs d) = size (queued qs) + length q"
  using arg_cong [OF queued_put, of qs size] by simp

lemma size_queued_erase:
  "smap_ok qs \<Longrightarrow> size (queued (smap_erase d qs)) + length (look_queue qs d) = size (queued qs)"
  using arg_cong [OF queued_erase, of qs size] by simp

text \<open>What each handler of a worker does to the queues.\<close>

lemma update_fields [simp]:
  "ct_processing_queues (update_task i t s) = ct_processing_queues s"
  "ct_processing_queues (update_summary c d f s) = ct_processing_queues s"
  "queue_of e (update_task i t s) = queue_of e s"
  "queue_of e (update_summary c d f s) = queue_of e s"
  by (simp_all add: update_task_def update_summary_def Let_def)

lemma handlers_keep_queues:
  "begin_capture i s = (b, s') \<Longrightarrow> ct_processing_queues s' = ct_processing_queues s"
  "CompleteCaptureFailure i rq msg s = (c, s') \<Longrightarrow> ct_processing_queues s' = ct_processing_queues s"
  "CompleteProcessingTask i rq result s = (d, s') \<Longrightarrow> ct_processing_queues s' = ct_processing_queues s"
  by (auto simp: begin_capture_def CompleteCaptureFailure_def CompleteProcessingTask_def Let_def
      split: option.splits)

lemma size_finish_capture:
  assumes "smap_ok (ct_processing_queues s)" and "finish_capture i rq raw ok s = (c, s')"
  shows "size (queued (ct_processing_queues s')) =
    size (queued (ct_processing_queues s)) + (if c = Joined \<or> c = Spawned then 1 else 0)"
  using assms size_queued_put [OF assms(1), of "tq_device_id rq" "queue_of (tq_device_id rq) s"]
    size_queued_put [OF assms(1), of "tq_device_id rq" "queue_of (tq_device_id rq) s @ [i]"]
  by (auto simp: finish_capture_def Let_def set_queue_def queue_of_look split: option.splits if_splits)

lemma size_take_next:
  assumes "smap_ok (ct_processing_queues s)" and "take_next d s = (n, s')"
  shows "size (queued (ct_processing_queues s)) =
    size (queued (ct_processing_queues s')) + (if n = QueueEmpty then 0 else 1)"
  using assms size_queued_put [OF assms(1), of d "tl (queue_of d s)"] size_queued_erase [OF assms(1), of d]
  by (auto simp: take_next_def Let_def set_queue_def queue_of_look split: option.splits list.splits)

text \<open>Every critical section of a worker brings the machine closer to rest.\<close>

lemma work_left_decreases:
  assumes "machine_inv m" and "ct_step m e m'" and "worker_label e"
  shows "work_left m' < work_left m"
  using assms(2, 1, 3)
proof (induction rule: ct_step.induct)
  case (step_Begin i s b s' W R)
  then show ?case using handlers_keep_queues(1) [OF step_Begin(1)]
    by (auto simp: work_left_def split: option.split)
next
  case (step_CaptureFails i rq msg s b s' W R)
  then show ?case using handlers_keep_queues(2) [OF step_CaptureFails(1)] by (simp add: work_left_def)
next
  case (step_CaptureDone i rq raw thread_ok s c s' W R)
  then show ?case
    using size_finish_capture [OF _ step_CaptureDone(1)]
    by (auto simp: work_left_def machine_inv_def after_finish_def dest!: ct_invD(1) maps_okD(3) split: captured.split)
next
  case (step_FailDone i rq s b s' W R)
  then show ?case using handlers_keep_queues(3) [OF step_FailDone(1)] by (simp add: work_left_def)
next
  case (step_Take d s n s' W R)
  then show ?case
    using size_take_next [OF _ step_Take(1)]
    by (auto simp: work_left_def machine_inv_def after_take_def dest!: ct_invD(1) maps_okD(3) split: next_task.split)
next
  case (step_ProcessDone result i rq s b s' d W R)
  then show ?case using handlers_keep_queues(3) [OF step_ProcessDone(2)] by (simp add: work_left_def)
qed simp_all

end
