(* ===== verification/Capture_Summary.thy ===== *)
theory Capture_Summary
  imports Capture_Machine
begin

text \<open>
  The session summaries of the capture task service: the counters a client sees agree, in every
  reachable state, with the tasks the service holds.  The pending counter is the number of captured
  tasks that are not finished, so it never underflows; every captured image is accounted for.
\<close>

section \<open>Phases\<close>

fun worker_phase :: "worker \<Rightarrow> string" where
  "worker_phase (CaptureBegin i) = ''queued''"
| "worker_phase (CaptureAct i rq) = ''capturing''"
| "worker_phase _ = ''captured''"

definition acquired :: "(string, CaptureTaskSnapshot) smap \<Rightarrow> string \<Rightarrow> string \<Rightarrow> bool" where
  "acquired ts i st \<longleftrightarrow> (\<exists>t. map_of ts i = Some t \<and> ts_acquisition_status t = st)"

definition phase_inv ::
    "(string, CaptureTaskSnapshot) smap \<Rightarrow> worker multiset \<Rightarrow> string multiset \<Rightarrow> bool" where
  "phase_inv ts W Q \<longleftrightarrow>
     (\<forall>w \<in># W. \<forall>i \<in># worker_task w. acquired ts i (worker_phase w)) \<and> (\<forall>i \<in># Q. acquired ts i ''captured'')"

lemma phase_inv_add [simp]:
  "phase_inv ts (add_mset w W) Q \<longleftrightarrow> (\<forall>i \<in># worker_task w. acquired ts i (worker_phase w)) \<and> phase_inv ts W Q"
  "phase_inv ts (V + W) Q \<longleftrightarrow> phase_inv ts V Q \<and> phase_inv ts W Q"
  by (auto simp: phase_inv_def)

lemma phase_inv_cong:
  assumes "phase_inv ts W Q" and "\<And>j. j \<in># worker_tasks W + Q \<Longrightarrow> map_of ts' j = map_of ts j"
  shows "phase_inv ts' W Q"
proof -
  have "map_of ts' i = map_of ts i" if "w \<in># W" "i \<in># worker_task w" for w i
    using assms(2) worker_task_mem [OF that] by simp
  with assms show ?thesis by (simp add: phase_inv_def acquired_def)
qed

lemma phase_inv_put:
  "phase_inv ts W Q \<Longrightarrow> i \<notin># worker_tasks W + Q \<Longrightarrow> phase_inv (smap_put i t ts) W Q"
  by (erule phase_inv_cong) auto

text \<open>What an owned id has.\<close>

lemma worker_owns:
  assumes inv: "ct_inv s (add_mset w W) R" and w: "worker_task w = {#i#}"
  obtains t rq where "map_of (ct_tasks s) i = Some t" "unfinished t" "map_of (ct_requests s) i = Some rq"
    "same_key rq t" "i \<notin># worker_tasks W + queued (ct_processing_queues s)"
proof -
  have "i \<in># R + worker_tasks (add_mset w W) + queued (ct_processing_queues s)" using w by simp
  then obtain t rq where "map_of (ct_tasks s) i = Some t" "unfinished t" "map_of (ct_requests s) i = Some rq"
      "same_key rq t" by (rule owned_task [OF inv])
  moreover have "i \<notin># R + worker_tasks W + queued (ct_processing_queues s)"
    using sole_owner [OF inv, of i "R + worker_tasks W + queued (ct_processing_queues s)"] w by (simp add: ac_simps)
  ultimately show ?thesis using that by simp
qed

section \<open>Counters\<close>

definition pending_task :: "string \<Rightarrow> string \<Rightarrow> string \<Rightarrow> CaptureTaskSnapshot \<Rightarrow> bool" where
  "pending_task c d i t \<longleftrightarrow> ts_connection_id t = c \<and> ts_device_id t = d \<and>
     ts_acquisition_status t = ''captured'' \<and> unfinished t"

definition balanced :: "CaptureSessionDeviceSummary \<Rightarrow> nat \<Rightarrow> bool" where
  "balanced u n \<longleftrightarrow> sd_pending_count u = n \<and>
     sd_processed_count u + sd_pending_count u \<le> sd_captured_count u \<and>
     sd_captured_count u \<le> sd_processed_count u + sd_pending_count u + sd_failed_count u"

definition pending_of :: "string \<Rightarrow> string \<Rightarrow> (string, CaptureTaskSnapshot) smap \<Rightarrow> nat" where
  "pending_of c d ts = length (filter (\<lambda>p. pending_task c d (fst p) (snd p)) ts)"

definition summary_inv :: "CaptureTaskService \<Rightarrow> bool" where
  "summary_inv s \<longleftrightarrow> (\<forall>c d. balanced (device_summary c d s) (pending_of c d (ct_tasks s)))"

lemma pending_of_count: "smap_ok ts \<Longrightarrow> pending_of c d ts = smap.count (pending_task c d) ts"
  by (simp add: smap.count_filter pending_of_def split_def)

lemma summary_inv_cong:
  "ct_session_summaries s' = ct_session_summaries s \<Longrightarrow>
   (\<And>c d. pending_of c d (ct_tasks s') = pending_of c d (ct_tasks s)) \<Longrightarrow> summary_inv s \<Longrightarrow> summary_inv s'"
  by (simp add: summary_inv_def device_summary_def)

lemma device_summary_update [simp]:
  "device_summary c d (update_summary c' d' f s) =
     (if c = c' \<and> d = d' then f ((device_summary c d s)\<lparr>sd_device_id := d\<rparr>) else device_summary c d s)"
  by (auto simp: device_summary_def update_summary_def Let_def split: option.split)

lemma device_summary_frame [simp]:
  "device_summary c d (update_task i t s) = device_summary c d s"
  "device_summary c d (s\<lparr>ct_active_capture_devices := x\<rparr>) = device_summary c d s"
  "device_summary c d (s\<lparr>ct_active_worker_task_ids := x\<rparr>) = device_summary c d s"
  "device_summary c d (s\<lparr>ct_active_capture_devices := x, ct_active_worker_task_ids := y\<rparr>) = device_summary c d s"
  "device_summary c d (s\<lparr>ct_requests := rs\<rparr>) = device_summary c d s"
  "device_summary c d (s\<lparr>ct_active_processing_devices := ad\<rparr>) = device_summary c d s"
  "device_summary c d (set_queue e q s) = device_summary c d s"
  by (simp_all add: device_summary_def update_task_def set_queue_def)

lemma update_summary_tasks [simp]: "ct_tasks (update_summary c d f s) = ct_tasks s"
  by (simp add: update_summary_def Let_def)

lemma update_task_tasks [simp]: "ct_tasks (update_task i t s) = smap_put i t (ct_tasks s)"
  by (simp add: update_task_def)

text \<open>How a changed task changes the number of pending tasks of its connection and device.\<close>

abbreviation pends :: "CaptureTaskSnapshot \<Rightarrow> bool" where
  "pends t \<equiv> ts_acquisition_status t = ''captured'' \<and> unfinished t"

lemma pending_put:
  assumes ok: "smap_ok ts" and t: "map_of ts i = Some t" "same_task t t'"
  shows "pending_of c d (smap_put i t' ts) + (if pends t \<and> pending_task c d i t then 1 else 0) =
    pending_of c d ts + (if pends t' \<and> ts_connection_id t = c \<and> ts_device_id t = d then 1 else 0)"
  using smap.count_put_old [OF ok t(1), of "pending_task c d" t'] smap.count_put_leave [OF ok t(1), of "pending_task c d" t']
    smap.count_put_enter [OF ok t(1), of "pending_task c d" t'] t(2)
  by (auto simp: pending_of_count ok pending_task_def same_task_def)

lemma pending_new: "smap_ok ts \<Longrightarrow> map_of ts i = None \<Longrightarrow> \<not> pends t \<Longrightarrow>
    pending_of c d (smap_put i t ts) = pending_of c d ts"
  by (simp add: pending_of_count smap.count_put_new pending_task_def)

lemma pending_erase: "smap_ok ts \<Longrightarrow> map_of ts i = Some t \<Longrightarrow> \<not> pends t \<Longrightarrow>
    pending_of c d (smap_erase i ts) = pending_of c d ts"
  using smap.count_erase [of ts i t "pending_task c d"] by (simp add: pending_of_count pending_task_def)

section \<open>The steps\<close>

definition summary_ok :: "CaptureTaskService \<Rightarrow> worker multiset \<Rightarrow> bool" where
  "summary_ok s W \<longleftrightarrow> phase_inv (ct_tasks s) W (queued (ct_processing_queues s)) \<and> summary_inv s"

text \<open>A step that changes one owned task, without changing whether it is pending.\<close>

lemma summary_ok_put:
  assumes ok: "smap_ok (ct_tasks s)" and sum: "summary_inv s"
    and t: "map_of (ct_tasks s) i = Some t" "same_task t t'" "pends t' = pends t"
    and s': "ct_tasks s' = smap_put i t' (ct_tasks s)" "ct_session_summaries s' = ct_session_summaries s"
  shows "summary_inv s'"
proof (rule summary_inv_cong [OF s'(2) _ sum])
  show "pending_of c d (ct_tasks s') = pending_of c d (ct_tasks s)" for c d
    using pending_put [OF ok t(1, 2), of c d] t(3) by (auto simp: s'(1) pending_task_def split: if_splits)
qed

lemma summary_Reserve:
  assumes inv: "ct_inv s W R" and sum: "summary_ok s W" and r: "ReserveTask now wall rq s = (r, s')"
  shows "summary_ok s' W"
proof -
  obtain i s1 where nx: "NextTaskId wall s = (i, s1)" by force
  note fresh = NextTaskId_fresh [OF ct_invD(1) [OF inv] nx]
  let ?t = "new_task i rq"
  have np: "\<not> pends ?t" "ts_task_id ?t = i"
    by (simp_all add: new_task_def default_CaptureTaskSnapshot_def)
  have ok: "smap_ok (ct_tasks s)" using maps_okD(1) [OF ct_invD(1) [OF inv]] .
  have sum1: "summary_ok s1 W"
    using sum by (simp add: fresh(3) summary_ok_def summary_inv_def device_summary_def)
  have "phase_inv (smap_put i ?t (ct_tasks s)) W (queued (ct_processing_queues s))"
  proof (rule phase_inv_cong)
    show "phase_inv (ct_tasks s) W (queued (ct_processing_queues s))" using sum by (simp add: summary_ok_def)
    fix j assume "j \<in># worker_tasks W + queued (ct_processing_queues s)"
    then have "j \<in># R + worker_tasks W + queued (ct_processing_queues s)" by simp
    then obtain u where "map_of (ct_tasks s) j = Some u" by (rule owned_task [OF inv])
    with fresh(1) show "map_of (smap_put i ?t (ct_tasks s)) j = map_of (ct_tasks s) j" by auto
  qed
  moreover have "summary_inv (register_task now rq ?t s1)"
    by (rule summary_inv_cong [of _ s]) (use sum np fresh ok in \<open>simp_all add: register_task_def pending_new summary_ok_def\<close>)
  ultimately have "summary_ok (register_task now rq ?t s1) W"
    using np fresh(3) by (simp add: summary_ok_def register_task_def)
  then show ?thesis
    using r sum sum1 by (auto simp: ReserveTask_def nx Let_def split: if_splits option.splits)
qed

lemma summary_drop:
  assumes inv: "ct_inv s W (add_mset i R)" and sum: "summary_ok s W"
  shows "summary_ok (drop_task i d s) W"
proof -
  obtain t where t: "map_of (ct_tasks s) i = Some t" "ts_acquisition_status t = ''queued''"
    using ct_invD(7) [OF inv, of i] by auto
  have ok: "smap_ok (ct_tasks s)" using maps_okD(1) [OF ct_invD(1) [OF inv]] .
  have "i \<notin># R + worker_tasks W + queued (ct_processing_queues s)"
    by (rule sole_owner [OF inv]) simp
  then have "phase_inv (smap_erase i (ct_tasks s)) W (queued (ct_processing_queues s))"
    using sum unfolding summary_ok_def by (auto elim!: phase_inv_cong)
  moreover have "summary_inv (drop_task i d s)"
    by (rule summary_inv_cong [of _ s]) (use sum t ok in \<open>simp_all add: drop_task_def pending_erase summary_ok_def\<close>)
  ultimately show ?thesis by (simp add: summary_ok_def drop_task_def)
qed

lemma summary_frame [simp]:
  "summary_ok (s\<lparr>ct_active_worker_task_ids := x\<rparr>) W = summary_ok s W"
  by (simp add: summary_ok_def summary_inv_def)

lemma summary_Start:
  assumes inv: "ct_inv s W (add_mset i R)" and sum: "summary_ok s W"
    and r: "StartReservedTask i thread s = (r, s')"
  shows "summary_ok s' (if sr_accepted r then add_mset (CaptureBegin i) W else W)"
proof -
  have "i \<in># add_mset i R + worker_tasks W + queued (ct_processing_queues s)" by simp
  then obtain t rq where t: "map_of (ct_tasks s) i = Some t" "map_of (ct_requests s) i = Some rq"
    by (rule owned_task [OF inv])
  have q: "ts_acquisition_status t = ''queued''"
    using ct_invD(7) [OF inv, of i] t(1) by auto
  have "summary_ok s (add_mset (CaptureBegin i) W)"
    using sum t(1) q by (simp add: summary_ok_def acquired_def)
  moreover have "summary_ok (drop_task i (ts_device_id t) (s\<lparr>ct_active_worker_task_ids := x\<rparr>)) W" for x
    using inv sum by (intro summary_drop) simp_all
  ultimately show ?thesis
    using r t q by (auto simp: StartReservedTask_def Let_def start_error_def
        default_CaptureTaskStartResult_def split: option.splits)
qed

lemma summary_Abort:
  assumes inv: "ct_inv s W (add_mset i R)" and sum: "summary_ok s W"
  shows "summary_ok (AbortReservedTask i s) W"
  using summary_drop [OF inv sum] sum by (auto simp: AbortReservedTask_def split: option.split)

lemma pending_of_idle:
  "filter (\<lambda>p. unfinished (snd p)) ts = [] \<Longrightarrow> pending_of c d (filter P ts) = 0"
  by (auto simp: pending_of_def pending_task_def filter_empty_conv)

lemma summary_Clear:
  assumes inv: "ct_inv s W R" and sum: "summary_ok s W" and idle: "ActiveTaskCount s = 0"
    and r: "ClearFinishedTasks s = (n, s')"
  shows "summary_ok s' W"
proof -
  have none: "filter (\<lambda>p. unfinished (snd p)) (ct_tasks s) = []"
    using idle by (simp add: ActiveTaskCount_def)
  then have "worker_tasks W = {#}" "queued (ct_processing_queues s) = {#}"
    using ct_invD(2) [OF inv] by (simp_all add: open_tasks_def)
  moreover from this have "phase_inv ts W {#}" for ts
    by (auto simp: phase_inv_def dest: worker_task_mem)
  moreover have "summary_inv s'"
    by (rule summary_inv_cong [of _ s])
      (use r sum none pending_of_idle [OF none] pending_of_idle [OF none, of _ _ "\<lambda>_. True"]
        in \<open>auto simp: ClearFinishedTasks_def Let_def summary_ok_def\<close>)
  ultimately show ?thesis using r by (auto simp: summary_ok_def ClearFinishedTasks_def Let_def)
qed

lemma summary_Begin:
  assumes inv: "ct_inv s (add_mset (CaptureBegin i) W) R" and sum: "summary_ok s (add_mset (CaptureBegin i) W)"
    and b: "begin_capture i s = (b, s')"
  shows "summary_ok s' (case b of None \<Rightarrow> W | Some (rq, _) \<Rightarrow> add_mset (CaptureAct i rq) W)"
proof -
  obtain t rq where t: "map_of (ct_tasks s) i = Some t" "unfinished t" "map_of (ct_requests s) i = Some rq"
    "same_key rq t" "i \<notin># worker_tasks W + queued (ct_processing_queues s)"
    by (rule worker_owns [OF inv]) simp_all
  define t' where "t' = t\<lparr>ts_status := ''running'', ts_acquisition_status := ''capturing''\<rparr>"
  have b': "b = Some (rq, t')" "s' = update_task i t' s"
    using b t by (auto simp: begin_capture_def Let_def t'_def)
  have "ts_acquisition_status t = ''queued''" using sum t(1) by (simp add: summary_ok_def acquired_def)
  moreover have "same_task t t'" "ts_acquisition_status t' = ''capturing''"
    by (simp_all add: t'_def same_task_def)
  moreover have "ct_session_summaries (update_task i t' s) = ct_session_summaries s" by (simp add: update_task_def)
  ultimately have "summary_inv s'"
    using summary_ok_put [OF maps_okD(1) [OF ct_invD(1) [OF inv]], of i t t' s'] sum t(1)
    by (simp add: b'(2) summary_ok_def)
  moreover have "phase_inv (smap_put i t' (ct_tasks s)) W (queued (ct_processing_queues s))"
    using sum t(5) by (intro phase_inv_put) (simp_all add: summary_ok_def)
  ultimately show ?thesis
    using \<open>ts_acquisition_status t' = _\<close> by (simp add: b' summary_ok_def acquired_def)
qed

text \<open>A step that also counts: the counters of the task's connection and device change as the task
  does.\<close>

lemma summary_inv_count:
  assumes ok: "smap_ok (ct_tasks s)" and sum: "summary_inv s"
    and t: "map_of (ct_tasks s) i = Some t" "same_task t t'" "same_key rq t"
    and s': "ct_tasks s' = smap_put i t' (ct_tasks s)"
      "\<And>c d. device_summary c d s' = (if c = tq_connection_id rq \<and> d = tq_device_id rq
         then f ((device_summary c d s)\<lparr>sd_device_id := d\<rparr>) else device_summary c d s)"
    and f: "\<And>u n m. balanced u n \<Longrightarrow> m + (if pends t then 1 else 0) = n + (if pends t' then 1 else 0) \<Longrightarrow> balanced (f u) m"
  shows "summary_inv s'"
  unfolding summary_inv_def
proof (intro allI)
  fix c d
  let ?key = "c = tq_connection_id rq \<and> d = tq_device_id rq"
  have key: "?key \<longleftrightarrow> ts_connection_id t = c \<and> ts_device_id t = d" using t(3) by (auto simp: same_key_def)
  note put = pending_put [OF ok t(1, 2), of c d]
  have bal: "balanced (device_summary c d s) (pending_of c d (ct_tasks s))" using sum by (simp add: summary_inv_def)
  show "balanced (device_summary c d s') (pending_of c d (ct_tasks s'))"
  proof (cases ?key)
    case True
    then have key': "ts_connection_id t = c" "ts_device_id t = d" using key by simp_all
    have "balanced ((device_summary c d s)\<lparr>sd_device_id := d\<rparr>) (pending_of c d (ct_tasks s))"
      using bal by (simp add: balanced_def)
    moreover have "pending_of c d (ct_tasks s') + (if pends t then 1 else 0) =
        pending_of c d (ct_tasks s) + (if pends t' then 1 else 0)"
      using put key' by (simp add: s'(1) pending_task_def split: if_splits)
    ultimately have "balanced (f ((device_summary c d s)\<lparr>sd_device_id := d\<rparr>)) (pending_of c d (ct_tasks s'))"
      by (rule f)
    then show ?thesis using True by (simp add: s'(2))
  next
    case False
    then have "\<not> (ts_connection_id t = c \<and> ts_device_id t = d)" using key by simp
    then have "pending_of c d (ct_tasks s') = pending_of c d (ct_tasks s)"
      using put by (auto simp: s'(1) pending_task_def split: if_splits)
    then show ?thesis using bal False by (simp add: s'(2) del: de_Morgan_conj)
  qed
qed

lemma summary_CaptureFails:
  assumes inv: "ct_inv s (add_mset (CaptureAct i rq) W) R" and sum: "summary_ok s (add_mset (CaptureAct i rq) W)"
    and b: "CompleteCaptureFailure i rq msg s = (b, s')"
  shows "summary_ok s' W"
proof -
  obtain t rq' where t: "map_of (ct_tasks s) i = Some t" "i \<notin># worker_tasks W + queued (ct_processing_queues s)"
    by (rule worker_owns [OF inv]) simp_all
  have key: "same_key rq t" using ct_invD(6) [OF inv, of "CaptureAct i rq"] t(1) by auto
  have st: "ts_acquisition_status t = ''capturing''" using sum t(1) by (simp add: summary_ok_def acquired_def)
  define t' where "t' = the b"
  have t': "same_task t t'" "ts_acquisition_status t' = ''failed''" "ct_tasks s' = smap_put i t' (ct_tasks s)"
    "ct_processing_queues s' = ct_processing_queues s"
    "\<And>c d. device_summary c d s' = (if c = tq_connection_id rq \<and> d = tq_device_id rq
       then (\<lambda>u. u\<lparr>sd_failed_count := sd_failed_count u + 1\<rparr>) ((device_summary c d s)\<lparr>sd_device_id := d\<rparr>)
       else device_summary c d s)"
    using b t(1) by (auto simp: CompleteCaptureFailure_def Let_def t'_def same_task_def)
  have "summary_inv s'"
    by (rule summary_inv_count [OF maps_okD(1) [OF ct_invD(1) [OF inv]] _ t(1) t'(1) key t'(3) t'(5)])
      (use sum st t'(2) in \<open>auto simp: summary_ok_def balanced_def\<close>)
  moreover have "phase_inv (smap_put i t' (ct_tasks s)) W (queued (ct_processing_queues s))"
    using sum t(2) by (intro phase_inv_put) (simp_all add: summary_ok_def)
  ultimately show ?thesis by (simp add: summary_ok_def t'(3, 4))
qed

lemma summary_Complete:
  assumes inv: "ct_inv s (add_mset w W) R" and sum: "summary_ok s (add_mset w W)"
    and w: "worker_task w = {#i#}" "worker_phase w = ''captured''"
      "worker_ok (map_of (ct_tasks s)) w \<Longrightarrow> \<exists>t. map_of (ct_tasks s) i = Some t \<and> same_key rq t"
    and r: "plain_status result" and b: "CompleteProcessingTask i rq result s = (b, s')"
    and V: "worker_tasks V = {#}"
  shows "summary_ok s' (V + W)"
proof -
  obtain t rq' where t: "map_of (ct_tasks s) i = Some t" "unfinished t" "map_of (ct_requests s) i = Some rq'"
    "same_key rq' t" "i \<notin># worker_tasks W + queued (ct_processing_queues s)"
    by (rule worker_owns [OF inv w(1)])
  have key: "same_key rq t" using w(3) ct_invD(6) [OF inv, of w] t(1) by auto
  have "ts_acquisition_status t = ''captured''" using sum w t(1) by (simp add: summary_ok_def acquired_def)
  then have pends: "pends t" using t(2) by simp
  define t' where "t' = snd (the b)"
  define f where "f = (\<lambda>d :: CaptureSessionDeviceSummary. let d = (if sd_pending_count d > 0 then d\<lparr>sd_pending_count := sd_pending_count d - 1\<rparr> else d)
           in if fst (the b) then d\<lparr>sd_processed_count := sd_processed_count d + 1\<rparr>
              else d\<lparr>sd_failed_count := sd_failed_count d + 1\<rparr>)"
  have t': "same_task t t'" "ts_status t' = pr_status result" "ct_tasks s' = smap_put i t' (ct_tasks s)"
    "ct_processing_queues s' = ct_processing_queues s"
    "\<And>c d. device_summary c d s' = (if c = tq_connection_id rq \<and> d = tq_device_id rq
       then f ((device_summary c d s)\<lparr>sd_device_id := d\<rparr>) else device_summary c d s)"
    using b t(1) final_status_finished [OF r]
    by (auto simp: CompleteProcessingTask_def Let_def t'_def f_def same_task_def)
  from t'(2) r have np: "\<not> pends t'" by (auto simp: unfinished_def plain_status_def)
  have "summary_inv s'"
    by (rule summary_inv_count [OF maps_okD(1) [OF ct_invD(1) [OF inv]] _ t(1) t'(1) key t'(3) t'(5)])
      (use sum pends np in \<open>auto simp: summary_ok_def balanced_def f_def Let_def\<close>)
  moreover have "phase_inv (smap_put i t' (ct_tasks s)) W (queued (ct_processing_queues s))"
    using sum t(5) by (intro phase_inv_put) (simp_all add: summary_ok_def)
  moreover have "worker_task v = {#}" if "v \<in># V" for v
    using V worker_task_mem [OF that] by (cases v) auto
  ultimately show ?thesis by (auto simp: summary_ok_def t'(3, 4) phase_inv_def)
qed

lemma summary_Stage:
  assumes inv: "ct_inv s W R" and sum: "summary_ok s W" and w: "ProcessAct d i rq \<in># W"
    and b: "record_stage i stage s = (b, s')"
  shows "summary_ok s' W"
proof -
  have "i \<in># worker_tasks W" using worker_task_mem [OF w] by simp
  then have "i \<in># R + worker_tasks W + queued (ct_processing_queues s)" by simp
  then obtain t where t: "map_of (ct_tasks s) i = Some t" by (rule owned_task [OF inv])
  define t' where "t' = (if sg_status stage \<noteq> ''running'' then t\<lparr>ts_stages := ts_stages t @ [stage]\<rparr> else t)"
  have t': "same_task t t'" "pends t' = pends t" "ts_acquisition_status t' = ts_acquisition_status t"
    by (simp_all add: t'_def same_task_def unfinished_def)
  have s': "s' = update_task i t' s" using b t by (simp add: record_stage_def Let_def t'_def)
  have "summary_inv s'"
    using summary_ok_put [OF maps_okD(1) [OF ct_invD(1) [OF inv]] _ t t'(1, 2), of s'] sum
    by (simp add: s' summary_ok_def update_task_def)
  moreover have "acquired (smap_put i t' (ct_tasks s)) j st = acquired (ct_tasks s) j st" for j st
    using t t'(3) by (auto simp: acquired_def)
  ultimately show ?thesis using sum by (simp add: summary_ok_def phase_inv_def s')
qed

lemma queued_put_eq:
  assumes "smap_ok qs" and "mset q + X = mset (look_queue qs d) + Y"
  shows "queued (smap_put d q qs) + X = queued qs + Y"
proof -
  have "queued (smap_put d q qs) + X + mset (look_queue qs d) =
      queued (smap_put d q qs) + mset (look_queue qs d) + X" by (simp add: ac_simps)
  also have "\<dots> = queued qs + (mset q + X)" by (simp add: queued_put [OF assms(1)] ac_simps)
  also have "\<dots> = queued qs + Y + mset (look_queue qs d)" using assms(2) by (simp add: ac_simps)
  finally show ?thesis by simp
qed

lemma summary_Take:
  assumes inv: "ct_inv s (add_mset (ProcessLoop d) W) R" and sum: "summary_ok s (add_mset (ProcessLoop d) W)"
    and n: "take_next d s = (n, s')"
  shows "summary_ok s' (after_take d n + W)"
proof (cases "queue_of d s")
  case Nil
  note ok = maps_okD(3) [OF ct_invD(1) [OF inv]]
  have "queued (smap_erase d (ct_processing_queues s)) = queued (ct_processing_queues s)"
    using queued_erase [OF ok, of d] Nil by (simp add: queue_of_look)
  then show ?thesis
    using n Nil sum by (auto simp: take_next_def after_take_def summary_ok_def summary_inv_def device_summary_def)
next
  case (Cons i rest)
  then have mem: "i \<in> set (queue_of d s)" by simp
  note ok = maps_okD(3) [OF ct_invD(1) [OF inv]]
  obtain t rq where t: "map_of (ct_tasks s) i = Some t" "map_of (ct_requests s) i = Some rq"
    by (rule ct_inv_members [OF inv mem])
  define t' where "t' = t\<lparr>ts_processing_status := ''running''\<rparr>"
  have t': "same_task t t'" "pends t' = pends t" "ts_acquisition_status t' = ts_acquisition_status t"
    by (simp_all add: t'_def same_task_def unfinished_def)
  have n': "n = Work i rq" "s' = update_task i t' (set_queue d rest s)"
    using n Cons t by (auto simp: take_next_def Let_def set_queue_def t'_def)
  have "queued (ct_processing_queues s') + {#i#} = queued (ct_processing_queues s)"
    using queued_put_eq [OF ok, of rest "{#i#}" d "{#}"] Cons by (simp add: n'(2) set_queue_def queue_of_look)
  then have q: "queued (ct_processing_queues s) = add_mset i (queued (ct_processing_queues s'))" by simp
  have acq: "acquired (smap_put i t' (ct_tasks s)) j st = acquired (ct_tasks s) j st" for j st
    using t(1) t'(3) by (auto simp: acquired_def)
  have "summary_inv s'"
    using summary_ok_put [OF maps_okD(1) [OF ct_invD(1) [OF inv]] _ t(1) t'(1, 2), of s'] sum
    by (simp add: n'(2) summary_ok_def update_task_def set_queue_def)
  moreover have "ct_tasks s' = smap_put i t' (ct_tasks s)" by (simp add: n'(2))
  ultimately show ?thesis
    using sum q by (simp add: summary_ok_def n'(1) after_take_def phase_inv_def acq)
qed

lemma summary_CaptureDone:
  assumes inv: "ct_inv s (add_mset (CaptureAct i rq) W) R" and sum: "summary_ok s (add_mset (CaptureAct i rq) W)"
    and c: "finish_capture i rq raw thread_ok s = (c, s')"
  shows "summary_ok s' (after_finish i rq c + W)"
proof -
  let ?d = "tq_device_id rq"
  note ok = maps_okD(1, 3) [OF ct_invD(1) [OF inv]]
  obtain t stored where t: "map_of (ct_tasks s) i = Some t" "unfinished t" "map_of (ct_requests s) i = Some stored"
    "same_key stored t" "i \<notin># worker_tasks W + queued (ct_processing_queues s)"
    by (rule worker_owns [OF inv]) simp_all
  have key: "same_key rq t" using ct_invD(6) [OF inv, of "CaptureAct i rq"] t(1) by auto
  have st: "ts_acquisition_status t = ''capturing''" using sum t(1) by (simp add: summary_ok_def acquired_def)
  define t' where "t' = t\<lparr>ts_acquisition_status := ''captured'', ts_processing_status := ''queued''\<rparr>"
  have t': "same_task t t'" "unfinished t'" "ts_acquisition_status t' = ''captured''"
    using t(2) by (simp_all add: t'_def same_task_def unfinished_def)
  have tasks: "ct_tasks s' = smap_put i t' (ct_tasks s)"
    and sums: "\<And>c d. device_summary c d s' = (if c = tq_connection_id rq \<and> d = ?d
       then (\<lambda>u. u\<lparr>sd_captured_count := sd_captured_count u + 1, sd_pending_count := sd_pending_count u + 1\<rparr>)
         ((device_summary c d s)\<lparr>sd_device_id := d\<rparr>) else device_summary c d s)"
    using arg_cong [OF c, of "\<lambda>x. ct_tasks (snd x)"] arg_cong [OF c, of "\<lambda>x. device_summary _ _ (snd x)"] t(1, 3)
    by (auto simp: finish_capture_def Let_def t'_def if_distrib [of snd] if_distrib [of ct_tasks]
        if_distrib [of "device_summary _ _"] split del: if_split cong: if_cong)
  have "summary_inv s'"
    by (rule summary_inv_count [OF ok(1) _ t(1) t'(1) key tasks sums])
      (use sum st t' in \<open>auto simp: summary_ok_def balanced_def\<close>)
  moreover have "c \<noteq> Gone" using ct_inv_CaptureDone [OF inv c] by simp
  moreover have "queued (ct_processing_queues s') =
      (if c = SpawnFailed then {#} else {#i#}) + queued (ct_processing_queues s)"
    using queued_put_eq [OF ok(2), of "queue_of ?d s @ [i]" "{#}" ?d "{#i#}"]
      queued_put_eq [OF ok(2), of "queue_of ?d s" "{#}" ?d "{#}"] c t(1, 3)
    by (auto simp: finish_capture_def Let_def set_queue_def queue_of_look split: if_splits)
  moreover have "phase_inv (smap_put i t' (ct_tasks s)) W (queued (ct_processing_queues s))"
    using sum t(5) by (intro phase_inv_put) (simp_all add: summary_ok_def)
  moreover have "acquired (smap_put i t' (ct_tasks s)) i ''captured''"
    using t'(3) by (simp add: acquired_def)
  ultimately show ?thesis
    by (cases c) (simp_all add: summary_ok_def tasks phase_inv_def after_finish_def)
qed

section \<open>Every reachable state\<close>

definition summary_machine_inv :: "machine \<Rightarrow> bool" where
  "summary_machine_inv m \<longleftrightarrow> machine_inv m \<and> summary_ok (mc_service m) (mc_workers m)"

lemma summary_machine_init: "init_machine m \<Longrightarrow> summary_machine_inv m"
  by (auto simp: summary_machine_inv_def machine_inv_init)
    (auto simp: init_machine_def summary_ok_def phase_inv_def summary_inv_def new_CaptureTaskService_def queued_def
      device_summary_def balanced_def default_CaptureSessionDeviceSummary_def pending_of_def)

lemma summary_ok_step:
  "ct_step m e m' \<Longrightarrow> machine_inv m \<Longrightarrow> summary_ok (mc_service m) (mc_workers m) \<Longrightarrow>
   summary_ok (mc_service m') (mc_workers m')"
proof (induction rule: ct_step.induct)
  case (step_Reserve now wall rq s r s' W R)
  then show ?case using summary_Reserve by (simp add: machine_inv_def)
next
  case (step_Start i thread s r s' W R)
  then show ?case using summary_Start by (simp add: machine_inv_def)
next
  case (step_Abort s W i R)
  then show ?case using summary_Abort by (simp add: machine_inv_def)
next
  case (step_Clear s n s' W R)
  then show ?case using summary_Clear by (simp add: machine_inv_def)
next
  case (step_Begin i s b s' W R)
  then show ?case using summary_Begin by (simp add: machine_inv_def)
next
  case (step_CaptureFails i rq msg s b s' W R)
  then show ?case using summary_CaptureFails by (simp add: machine_inv_def)
next
  case (step_CaptureDone i rq raw thread_ok s c s' W R)
  then show ?case using summary_CaptureDone by (simp add: machine_inv_def)
next
  case (step_FailDone i rq s b s' W R)
  then show ?case
    using summary_Complete [where V = "{#}" and w = "FailProcessing i rq" and result = spawn_failure]
    by (simp add: machine_inv_def)
next
  case (step_Take d s n s' W R)
  then show ?case using summary_Take by (simp add: machine_inv_def)
next
  case (step_Stage d i rq W stage s b s' R)
  then show ?case using summary_Stage by (simp add: machine_inv_def)
next
  case (step_ProcessDone result i rq s b s' d W R)
  then show ?case
    using summary_Complete [of s "ProcessAct d i rq" W R i rq result b s' "{#ProcessLoop d#}"]
    by (auto simp: machine_inv_def)
qed

interpretation summary: guarded_machine init_machine ct_step summary_machine_inv
  by unfold_locales
    (erule summary_machine_init, auto simp: summary_machine_inv_def intro: machine_inv_step summary_ok_step)

end
