(* ===== verification/Capture_Claims.thy ===== *)
theory Capture_Claims
  imports Capture_Summary
begin

text \<open>
  The properties of the capture task service: what a reservation decides, who may read a task, and
  what holds in every state its threads can reach.
\<close>

section \<open>Concrete runs\<close>

definition sample_request :: "string \<Rightarrow> bool \<Rightarrow> CaptureTaskStartRequest" where
  "sample_request device grabbed = default_CaptureTaskStartRequest
     \<lparr> tq_connection_id := ''c1'', tq_device_id := device,
       tq_raw_capture := default_SdkCaptureResult\<lparr>cs_captured := grabbed\<rparr> \<rparr>"

lemma sample_request_fields [simp]:
  "tq_connection_id (sample_request d g) = ''c1''" "tq_device_id (sample_request d g) = d"
  "cs_captured (tq_raw_capture (sample_request d g)) = g"
  "cp_profile_version (tq_profile (sample_request d g)) = ''capture.profile.v1''"
  by (simp_all add: sample_request_def default_CaptureTaskStartRequest_def default_SdkCaptureProfile_def
      default_SdkCaptureResult_def)

lemma new_task_fields [simp]:
  "ts_task_id (new_task i rq) = i" "ts_device_id (new_task i rq) = tq_device_id rq"
  "ts_connection_id (new_task i rq) = tq_connection_id rq" "ts_acquisition_status (new_task i rq) = ''queued''"
  "ts_status (new_task i rq) = ''queued''"
  by (simp_all add: new_task_def default_CaptureTaskSnapshot_def)

definition nth_id :: "nat \<Rightarrow> string" where
  "nth_id n = ''cap-0-'' @ dec n"

lemma nth_id_inject [simp]: "nth_id m = nth_id n \<longleftrightarrow> m = n"
  by (simp add: nth_id_def)

lemma dec_0: "dec 0 = ''0''"
  by code_simp

lemma ct_reach_next: "ct_reach m \<Longrightarrow> ct_step m e m' \<Longrightarrow> ct_reach m'"
  by (rule reach_step)

lemma cooldown_left_seq [simp]: "cooldown_left now d (s\<lparr>ct_next_task_seq := n\<rparr>) = cooldown_left now d s"
  by (simp add: cooldown_left_def)

lemma step_accepted:
  assumes "d \<noteq> []" and "d \<notin> ct_active_capture_devices s" and "cooldown_left now d s = None"
    and "nth_id (ct_next_task_seq s) = i"
  shows "ct_step \<lparr>mc_service = s, mc_workers = W, mc_reserved = R\<rparr> (Reserve now 0 (sample_request d g))
    \<lparr>mc_service = register_task now (sample_request d g) (new_task i (sample_request d g))
        (s\<lparr>ct_next_task_seq := ct_next_task_seq s + 1\<rparr>),
     mc_workers = W, mc_reserved = add_mset i R\<rparr>"
proof -
  have "i = ''cap-'' @ to_string 0 @ ''-'' @ dec (ct_next_task_seq s)"
    using assms(4) dec_0 by (simp add: nth_id_def to_string_def)
  then have "ReserveTask now 0 (sample_request d g) s =
      (default_CaptureTaskStartResult\<lparr> sr_accepted := True, sr_task := new_task i (sample_request d g) \<rparr>,
       register_task now (sample_request d g) (new_task i (sample_request d g)) (s\<lparr>ct_next_task_seq := ct_next_task_seq s + 1\<rparr>))"
    using assms(1-3) by (simp add: ReserveTask_def NextTaskId_def Let_def)
  from step_Reserve [OF this] show ?thesis by simp
qed

lemma step_started:
  assumes "map_of (ct_tasks s) i = Some t" and "map_of (ct_requests s) i = Some rq" and "ts_acquisition_status t = ''queued''"
  shows "ct_step \<lparr>mc_service = s, mc_workers = W, mc_reserved = add_mset i R\<rparr> (Start i None)
    \<lparr>mc_service = s\<lparr>ct_active_worker_task_ids := insert i (ct_active_worker_task_ids s)\<rparr>,
     mc_workers = add_mset (CaptureBegin i) W, mc_reserved = R\<rparr>"
proof -
  have "StartReservedTask i None s =
      (default_CaptureTaskStartResult\<lparr> sr_accepted := True, sr_task := t \<rparr>,
       s\<lparr>ct_active_worker_task_ids := insert i (ct_active_worker_task_ids s)\<rparr>)"
    using assms by (simp add: StartReservedTask_def)
  from step_Start [OF this] show ?thesis by simp
qed

lemma step_begun:
  assumes "map_of (ct_tasks s) i = Some t" and "map_of (ct_requests s) i = Some rq"
  shows "ct_step \<lparr>mc_service = s, mc_workers = add_mset (CaptureBegin i) W, mc_reserved = R\<rparr> (Begin i)
    \<lparr>mc_service = update_task i (t\<lparr> ts_status := ''running'', ts_acquisition_status := ''capturing'' \<rparr>) s,
     mc_workers = add_mset (CaptureAct i rq) W, mc_reserved = R\<rparr>"
proof -
  have "begin_capture i s = (Some (rq, t\<lparr> ts_status := ''running'', ts_acquisition_status := ''capturing'' \<rparr>),
      update_task i (t\<lparr> ts_status := ''running'', ts_acquisition_status := ''capturing'' \<rparr>) s)"
    using assms by (simp add: begin_capture_def Let_def)
  from step_Begin [OF this] show ?thesis by simp
qed

text \<open>One reservation on the device \<open>d\<close>, from the initial state.\<close>

definition service_0 :: CaptureTaskService where
  "service_0 = new_CaptureTaskService []"

lemma service_0_fields [simp]:
  "ct_tasks service_0 = []" "ct_requests service_0 = []" "ct_active_capture_devices service_0 = {}"
  "ct_capture_cooldown_until service_0 = []" "ct_next_task_seq service_0 = 1" "ct_active_processing_devices service_0 = {}"
  by (simp_all add: service_0_def new_CaptureTaskService_def)

definition reserved_service :: CaptureTaskService where
  "reserved_service = register_task 0 (sample_request ''d'' False) (new_task (nth_id 1) (sample_request ''d'' False))
     (service_0\<lparr>ct_next_task_seq := 2\<rparr>)"

definition started_machine :: machine where
  "started_machine = \<lparr>mc_service = reserved_service\<lparr>ct_active_worker_task_ids := {nth_id 1}\<rparr>,
     mc_workers = {#CaptureBegin (nth_id 1)#}, mc_reserved = {#}\<rparr>"

lemma reach_0: "ct_reach \<lparr>mc_service = service_0, mc_workers = {#}, mc_reserved = {#}\<rparr>"
  by (rule reach_init) (auto simp: init_machine_def service_0_def)

lemma reach_reserved: "ct_reach \<lparr>mc_service = reserved_service, mc_workers = {#}, mc_reserved = {#nth_id 1#}\<rparr>"
  using ct_reach_next [OF reach_0 step_accepted [of "''d''" service_0 0 "nth_id 1" "{#}" "{#}" False]]
  by (simp add: reserved_service_def cooldown_left_def numeral_2_eq_2)

lemma reach_started: "ct_reach started_machine"
  using ct_reach_next [OF reach_reserved step_started [of reserved_service "nth_id 1" "new_task (nth_id 1) (sample_request ''d'' False)"
        "sample_request ''d'' False"]]
  by (simp add: started_machine_def reserved_service_def register_task_def service_0_def new_CaptureTaskService_def)

section \<open>Reservations\<close>



text \<open>Two captures of one device start at least 1500 ms apart: after an accepted reservation, a second
  one for the same device within the window is refused, whatever it asks and whoever sends it.\<close>

theorem second_reservation_waits:
  assumes "ReserveTask now wall rq s = (r, s')" and "sr_accepted r"
    and "tq_device_id rq' = tq_device_id rq" and "now \<le> later" and "later < now + milliseconds 1500"
  shows "\<not> sr_accepted (fst (ReserveTask later wall' rq' s')) \<and>
    (fst (ReserveTask later wall' rq' s') = r' \<and> sr_code r' = ToCode RateLimited \<longrightarrow>
       1 \<le> sr_retry_after_ms r' \<and> sr_retry_after_ms r' \<le> 1500)"
proof -
  obtain r1 s1 where second: "ReserveTask later wall' rq' s' = (r1, s1)" by force
  have "map_of (ct_capture_cooldown_until s') (tq_device_id rq) = Some (now + milliseconds 1500)"
    using assms(1, 2)
    by (auto simp: ReserveTask_def NextTaskId_def Let_def start_error_def default_CaptureTaskStartResult_def
        register_task_def kCaptureCooldownMs_def split: if_splits option.splits)
  then have left: "cooldown_left later (tq_device_id rq') s' = Some (now + milliseconds 1500 - later)"
    using assms(3, 5) by (simp add: cooldown_left_def)
  have "(now + milliseconds 1500 - later) div 1000000 \<le> 1500"
    using assms(4) by (simp add: milliseconds_def)
  then show ?thesis
    using second left
    by (auto simp: ReserveTask_def NextTaskId_def Let_def start_error_def default_CaptureTaskStartResult_def
        cooldown_left_def ToCode_def split: if_splits option.splits)
qed

theorem second_reservation_waits_witness:
  "\<not> sr_accepted (fst (ReserveTask (milliseconds 1499) 0 (sample_request ''d'' True)
     (snd (ReserveTask 0 0 (sample_request ''d'' False) service_0))))"
  using second_reservation_waits [of 0 0 "sample_request ''d'' False" service_0
      "fst (ReserveTask 0 0 (sample_request ''d'' False) service_0)"
      "snd (ReserveTask 0 0 (sample_request ''d'' False) service_0)" "sample_request ''d'' True" "milliseconds 1499" 0]
  by (simp add: ReserveTask_def NextTaskId_def Let_def cooldown_left_def milliseconds_def)

section \<open>Who owns a task, and who may read it\<close>

text \<open>C22. In every reachable state an unfinished task has exactly one owner: the caller that reserved it,
  one worker, or its device's queue.  A finished or unknown task has none.  No task is lost and none
  is worked on twice.\<close>

theorem unfinished_task_has_one_owner:
  assumes "ct_reach m"
  shows "count (mc_reserved m + worker_tasks (mc_workers m) + queued (ct_processing_queues (mc_service m))) i =
    (case map_of (ct_tasks (mc_service m)) i of
       Some t \<Rightarrow> if unfinished t then 1 else 0 | None \<Rightarrow> 0)"
proof -
  let ?s = "mc_service m"
  let ?own = "mc_reserved m + worker_tasks (mc_workers m) + queued (ct_processing_queues ?s)"
  note inv = reach_ct_inv [OF assms]
  note mem = open_tasks_mem [OF maps_okD(1) [OF ct_invD(1) [OF inv]], of i]
  have "count ?own i \<le> 1" by (rule owned_once [OF inv])
  moreover have "i \<in># ?own \<longleftrightarrow> (\<exists>t. map_of (ct_tasks ?s) i = Some t \<and> unfinished t)"
    using mem ct_invD(2) [OF inv] by simp
  moreover have "count ?own i = 0 \<longleftrightarrow> i \<notin># ?own" by (simp only: not_in_iff)
  ultimately show ?thesis
    by (cases "map_of (ct_tasks ?s) i") (auto simp del: union_iff count_union intro: le_antisym)
qed

theorem unfinished_task_has_one_owner_witness:
  "count (mc_reserved started_machine + worker_tasks (mc_workers started_machine) +
     queued (ct_processing_queues (mc_service started_machine))) (nth_id 1) = 1"
  unfolding unfinished_task_has_one_owner [OF reach_started]
  by (simp add: started_machine_def reserved_service_def register_task_def unfinished_def)

text \<open>C23. In every reachable state the maps of the service agree: a task is stored under its own id, its
  request is stored beside it with the same device and connection, its id was handed out by
  \<open>NextTaskId\<close>, a task in a queue is in the queue of its device, and a reserved task is still queued
  for acquisition, so that starting or aborting it is not refused.\<close>

theorem capture_state_well_typed:
  assumes "ct_reach m" and "map_of (ct_tasks (mc_service m)) i = Some t"
  shows "ts_task_id t = i \<and>
    (\<exists>rq. map_of (ct_requests (mc_service m)) i = Some rq \<and> tq_device_id rq = ts_device_id t \<and>
       tq_connection_id rq = ts_connection_id t) \<and>
    (\<exists>wall n. n < ct_next_task_seq (mc_service m) \<and> i = ''cap-'' @ to_string wall @ ''-'' @ dec n) \<and>
    (i \<in> set (queue_of d (mc_service m)) \<longrightarrow> ts_device_id t = d) \<and>
    (i \<in># mc_reserved m \<longrightarrow> ts_acquisition_status t = ''queued'')"
proof -
  note inv = reach_ct_inv [OF assms(1)]
  note maps = ct_invD(1) [OF inv]
  have id: "ts_task_id t = i" "task_id_at (ct_next_task_seq (mc_service m)) i"
    using maps_okD(5) [OF maps assms(2)] by simp_all
  obtain rq where "map_of (ct_requests (mc_service m)) i = Some rq"
    using maps_okD(4) [OF maps, of i] assms(2) by auto
  with maps_ok_key [OF maps assms(2)]
  have "\<exists>rq. map_of (ct_requests (mc_service m)) i = Some rq \<and> same_key rq t" by blast
  with id queue_device [OF inv assms(2), of d] ct_invD(7) [OF inv, of i] assms(2) show ?thesis
    by (auto simp: task_id_at_def same_key_def)
qed

theorem capture_state_well_typed_witness:
  "\<exists>rq. map_of (ct_requests (mc_service started_machine)) (nth_id 1) = Some rq \<and> tq_device_id rq = ''d''"
proof -
  have "map_of (ct_tasks (mc_service started_machine)) (nth_id 1) = Some (new_task (nth_id 1) (sample_request ''d'' False))"
    by (simp add: started_machine_def reserved_service_def register_task_def)
  from capture_state_well_typed [OF reach_started this, of "''d''"] show ?thesis by auto
qed

text \<open>C24. In every reachable state a device has at most one processing worker, and it has one whenever its
  queue is not empty: tasks of a device are processed one after the other, and a captured task is
  never left behind in a queue nobody serves.\<close>

theorem one_processing_worker_per_device:
  assumes "ct_reach m"
  shows "count (worker_devices (mc_workers m)) d \<le> 1 \<and>
    (queue_of d (mc_service m) \<noteq> [] \<longrightarrow> count (worker_devices (mc_workers m)) d = 1)"
  using ct_invD(3, 4) [OF reach_ct_inv [OF assms], of d] by (auto split: if_splits)

theorem one_processing_worker_per_device_witness:
  "count (worker_devices (mc_workers started_machine)) ''d'' \<le> 1"
  using one_processing_worker_per_device [OF reach_started, of "''d''"] by blast

text \<open>C25. In every reachable state the session summary of a connection and device is right: its pending
  counter is the number of tasks captured and not finished, so the decrement in the completion never
  starts from zero, and every captured image is processed, pending or failed.\<close>

theorem session_summary_balanced:
  assumes "ct_reach m"
  shows "let u = device_summary c d (mc_service m) in
    sd_pending_count u = length (filter (\<lambda>p. pending_task c d (fst p) (snd p)) (ct_tasks (mc_service m))) \<and>
    sd_processed_count u + sd_pending_count u \<le> sd_captured_count u \<and>
    sd_captured_count u \<le> sd_processed_count u + sd_pending_count u + sd_failed_count u"
proof -
  have "balanced (device_summary c d (mc_service m)) (pending_of c d (ct_tasks (mc_service m)))"
    using summary.inv_reach [OF assms] unfolding summary_machine_inv_def summary_ok_def summary_inv_def by blast
  then show ?thesis by (simp add: balanced_def pending_of_def)
qed

theorem session_summary_balanced_witness:
  "sd_pending_count (device_summary ''c1'' ''d'' (mc_service started_machine)) =
     length (filter (\<lambda>p. pending_task ''c1'' ''d'' (fst p) (snd p)) (ct_tasks (mc_service started_machine)))"
  using session_summary_balanced [OF reach_started, of "''c1''" "''d''"] by (simp add: Let_def)

section \<open>The workers come to rest\<close>

definition worker_step :: "machine \<Rightarrow> machine \<Rightarrow> bool" where
  "worker_step m m' \<longleftrightarrow> (\<exists>e. worker_label e \<and> ct_step m e m')"

lemma worker_step_inv: "machine_inv m \<Longrightarrow> worker_step m m' \<Longrightarrow> machine_inv m' \<and> work_left m' < work_left m"
  by (auto simp: worker_step_def intro: machine_inv_step work_left_decreases)

text \<open>No worker is ever stuck.\<close>

lemma worker_can_step:
  assumes "w \<in># mc_workers m"
  shows "\<exists>m'. worker_step m m'"
proof -
  obtain W where W: "mc_workers m = add_mset w W" using assms by (metis mset_add)
  define s R where "s = mc_service m" and "R = mc_reserved m"
  have m: "m = \<lparr>mc_service = s, mc_workers = add_mset w W, mc_reserved = R\<rparr>"
    using W by (simp add: s_def R_def)
  show ?thesis
  proof (cases w)
    case (CaptureBegin i)
    show ?thesis unfolding worker_step_def m CaptureBegin
      using step_Begin [OF prod.collapse [symmetric]] worker_label.simps(1) by blast
  next
    case (CaptureAct i rq)
    show ?thesis unfolding worker_step_def m CaptureAct
      using step_CaptureFails [OF prod.collapse [symmetric]] worker_label.simps(2) by blast
  next
    case (FailProcessing i rq)
    show ?thesis unfolding worker_step_def m FailProcessing
      using step_FailDone [OF prod.collapse [symmetric]] worker_label.simps(4) by blast
  next
    case (ProcessLoop d)
    show ?thesis unfolding worker_step_def m ProcessLoop
      using step_Take [OF prod.collapse [symmetric]] worker_label.simps(5) by blast
  next
    case (ProcessAct d i rq)
    show ?thesis unfolding worker_step_def m ProcessAct
      using step_ProcessDone [OF spawn_failure_plain prod.collapse [symmetric]] worker_label.simps(6) by blast
  qed
qed

lemma worker_step_reserved: "worker_step m m' \<Longrightarrow> mc_reserved m' = mc_reserved m"
  unfolding worker_step_def by (auto elim!: ct_step.cases)

lemma workers_drain: "\<exists>m'. worker_step\<^sup>*\<^sup>* m m' \<and> mc_workers m' = {#}" if "machine_inv m"
  using that
proof (induction "work_left m" arbitrary: m rule: less_induct)
  case less
  show ?case
  proof (cases "mc_workers m = {#}")
    case False
    then obtain m1 where "worker_step m m1" using worker_can_step by (metis multiset_nonemptyE)
    with less worker_step_inv [OF less.prems this] show ?thesis by (meson converse_rtranclp_into_rtranclp)
  qed blast
qed



text \<open>C27. And they never get stuck before: from any reachable state without open reservations the workers
  can run to a state with no worker, no queued task and no active task.\<close>

theorem capture_work_drains:
  assumes "ct_reach m" and "mc_reserved m = {#}"
  shows "\<exists>m'. worker_step\<^sup>*\<^sup>* m m' \<and> mc_workers m' = {#} \<and> ActiveTaskCount (mc_service m') = 0 \<and>
    ct_active_processing_devices (mc_service m') = {} \<and> (\<forall>d. queue_of d (mc_service m') = [])"
proof -
  obtain m' where run: "worker_step\<^sup>*\<^sup>* m m'" and none: "mc_workers m' = {#}"
    using workers_drain [OF capture.inv_reach [OF assms(1)]] by blast
  have "machine_inv m' \<and> mc_reserved m' = {#}" using run
    by induction (use assms(2) capture.inv_reach [OF assms(1)] worker_step_inv worker_step_reserved in auto)
  then have inv: "ct_inv (mc_service m') {#} {#}" using none unfolding machine_inv_def by metis
  have idle: "ct_active_processing_devices (mc_service m') = {}"
  proof -
    have "d \<notin> ct_active_processing_devices (mc_service m')" for d
      using ct_invD(3) [OF inv, of d] by (simp split: if_splits)
    then show ?thesis by blast
  qed
  then have queues: "queue_of d (mc_service m') = []" for d using ct_invD(4) [OF inv, of d] by simp
  then have "queued (ct_processing_queues (mc_service m')) = {#}"
    using queued_mem [OF maps_okD(3) [OF ct_invD(1) [OF inv]]]
    by (metis empty_iff empty_set multiset_nonemptyE queue_of_look)
  then have "open_tasks (ct_tasks (mc_service m')) = {#}" using ct_invD(2) [OF inv] by simp
  then have "ActiveTaskCount (mc_service m') = 0"
    by (auto simp: open_tasks_def ActiveTaskCount_def filter_empty_conv)
  with run none idle queues show ?thesis by blast
qed

theorem capture_work_drains_witness:
  "\<exists>m'. worker_step\<^sup>*\<^sup>* started_machine m' \<and> mc_workers m' = {#}"
  using capture_work_drains [OF reach_started] by (auto simp: started_machine_def)

section \<open>Reading a task\<close>

text \<open>What \<open>GetTask\<close> answers: the stored task to its own connection, \<open>CAPABILITY_NOT_ALLOWED\<close> to another
  one while the task's code is ok, and \<open>INVALID_PARAMS\<close> for an unknown id.  A task that has failed is
  answered to every connection, with its own code and message: the check of the owner is skipped.
  \<open>GetAsset\<close> never yields an asset of a failed or foreign task.\<close>

theorem task_reads_decided:
  "(map_of (ct_tasks s) i = Some t \<longrightarrow>
      (ts_connection_id t = c \<longrightarrow> GetTask c i s = t) \<and>
      (ts_connection_id t \<noteq> c \<longrightarrow> ts_code t = ToCode Ok \<longrightarrow> ts_code (GetTask c i s) = ToCode CapabilityNotAllowed) \<and>
      (ts_connection_id t \<noteq> c \<longrightarrow> ts_code t \<noteq> ToCode Ok \<longrightarrow> GetTask c i s = t)) \<and>
   (map_of (ct_tasks s) i = None \<longrightarrow> ts_code (GetTask c i s) = ToCode InvalidParams) \<and>
   (ar_code (GetAsset c i a s) = ToCode Ok \<longrightarrow>
      (\<exists>t. map_of (ct_tasks s) i = Some t \<and> ts_connection_id t = c \<and> ts_code t = ToCode Ok \<and>
         as_asset_id (ar_asset (GetAsset c i a s)) = a \<and> ar_asset (GetAsset c i a s) \<in> set (ts_assets t)))"
  by (auto simp: GetTask_def GetTaskUnlocked_def GetAsset_def Let_def IsOkStatusCode_def ToCode_def
      default_CaptureAssetResult_def default_CaptureTaskSnapshot_def find_Some_iff
      split: option.splits)

text \<open>The owner's failure message, answered to a stranger.\<close>

definition failed_service :: CaptureTaskService where
  "failed_service = snd (CompleteCaptureFailure (nth_id 1) (sample_request ''d'' False) ''camera unplugged'' reserved_service)"

theorem task_reads_decided_witness:
  "ts_error (GetTask ''stranger'' (nth_id 1) failed_service) = ''camera unplugged''"
proof -
  have t: "map_of (ct_tasks failed_service) (nth_id 1) = Some ((new_task (nth_id 1) (sample_request ''d'' False))
      \<lparr>ts_status := ''failed'', ts_acquisition_status := ''failed'', ts_processing_status := ''skipped'',
       ts_code := ToCode CaptureFailed, ts_message := ''camera unplugged'', ts_error := ''camera unplugged''\<rparr>)"
    by (simp add: failed_service_def CompleteCaptureFailure_def reserved_service_def register_task_def Let_def or_text_def)
  show ?thesis
    using task_reads_decided [of failed_service "nth_id 1" _ "''stranger''" "''a''"] t by (simp add: ToCode_def)
qed

section \<open>Two captures on one device\<close>


end
