(* ===== verification/Sdk_Json.thy ===== *)
theory Sdk_Json
  imports Sdk_Prelude Complex_Main "HOL-Library.Word"
begin

text \<open>
  JSON values as the SDK uses \<open>nlohmann::json\<close>: an object keeps its members in key order, an integer is
  any number without fraction, \<open>get<int>\<close> and \<open>get<std::int64_t>\<close> of one wrap to their width.  The
  printer and the parser belong to the library and are parameters where they are used.  The second
  half holds the message builders of \<open>runtime/sdk_json_utils.cpp\<close> and the field readers that
  \<open>application/authorization_service.cpp\<close> and the facades define locally.
\<close>

section \<open>Values\<close>

datatype json =
    JNull
  | JBool bool
  | JInt int
  | JFloat rat
  | JString string
  | JArray "json list"
  | JObject "(string \<times> json) list"

text \<open>\<open>Json{{"k", v}, ...}\<close>: the members are inserted in turn; a later one with the same key is dropped.\<close>

definition obj :: "(string \<times> json) list \<Rightarrow> json" where
  "obj kvs = JObject (fold (\<lambda>(k, v) m. if map_of m k = None then smap_put k v m else m) kvs [])"

text \<open>\<open>object[key] = v\<close> overwrites.\<close>

fun set_member :: "string \<Rightarrow> json \<Rightarrow> json \<Rightarrow> json" where
  "set_member k v (JObject m) = JObject (smap_put k v m)"
| "set_member k v j = j"

fun jfind :: "json \<Rightarrow> string \<Rightarrow> json option" where
  "jfind (JObject m) k = map_of m k"
| "jfind _ k = None"

fun is_object :: "json \<Rightarrow> bool" where
  "is_object (JObject m) = True"
| "is_object _ = False"

text \<open>\<open>static_cast<int>\<close> and \<open>static_cast<std::int64_t>\<close> of the stored number.\<close>

definition to_int32 :: "int \<Rightarrow> int" where
  "to_int32 i = sint (word_of_int i :: 32 word)"

definition to_int64 :: "int \<Rightarrow> int" where
  "to_int64 i = sint (word_of_int i :: 64 word)"

definition in_int32 :: "int \<Rightarrow> bool" where
  "in_int32 i \<longleftrightarrow> - (2 ^ 31) \<le> i \<and> i < 2 ^ 31"

definition in_int64 :: "int \<Rightarrow> bool" where
  "in_int64 i \<longleftrightarrow> - (2 ^ 63) \<le> i \<and> i < 2 ^ 63"

lemma to_int32_id [simp]: "in_int32 i \<Longrightarrow> to_int32 i = i"
  by (simp add: to_int32_def in_int32_def sint_sbintrunc' signed_take_bit_int_eq_self)

lemma to_int64_id [simp]: "in_int64 i \<Longrightarrow> to_int64 i = i"
  by (simp add: to_int64_def in_int64_def sint_sbintrunc' signed_take_bit_int_eq_self)

lemma in_int32_to_int32 [simp]: "in_int32 (to_int32 i)"
  using sint_greater_eq [of "word_of_int i :: 32 word"] sint_less [of "word_of_int i :: 32 word"]
  by (simp add: in_int32_def to_int32_def)

section \<open>Field readers\<close>

definition StringField :: "json \<Rightarrow> string \<Rightarrow> string" where
  "StringField object key = (case jfind object key of Some (JString s) \<Rightarrow> s | _ \<Rightarrow> [])"

definition IntField :: "json \<Rightarrow> string \<Rightarrow> int \<Rightarrow> int" where
  "IntField object key fallback = (case jfind object key of Some (JInt i) \<Rightarrow> to_int32 i | _ \<Rightarrow> fallback)"

definition Int64Field :: "json \<Rightarrow> string \<Rightarrow> int \<Rightarrow> int" where
  "Int64Field object key fallback = (case jfind object key of Some (JInt i) \<Rightarrow> to_int64 i | _ \<Rightarrow> fallback)"

definition BoolField :: "json \<Rightarrow> string \<Rightarrow> bool \<Rightarrow> bool" where
  "BoolField object key fallback = (case jfind object key of Some (JBool b) \<Rightarrow> b | _ \<Rightarrow> fallback)"

definition ArrayField :: "json \<Rightarrow> string \<Rightarrow> json list" where
  "ArrayField object key = (case jfind object key of Some (JArray js) \<Rightarrow> js | _ \<Rightarrow> [])"

section \<open>Messages\<close>

definition TryParseJson :: "(string \<Rightarrow> json option) \<Rightarrow> string \<Rightarrow> string + json" where
  "TryParseJson parse payload = (case parse payload of None \<Rightarrow> Inl ''invalid json'' | Some j \<Rightarrow> Inr j)"

definition BuildErrorBody :: "int \<Rightarrow> string \<Rightarrow> json \<Rightarrow> json" where
  "BuildErrorBody code message payload =
     obj [(''code'', JInt code), (''message'', JString message), (''data'', payload)]"

definition BuildWsResponse :: "int \<Rightarrow> string \<Rightarrow> int \<Rightarrow> string \<Rightarrow> json \<Rightarrow> json" where
  "BuildWsResponse now request_id code message payload =
     set_member ''ts'' (JInt now)
       (set_member ''id'' (JString request_id)
         (set_member ''request_id'' (JString request_id) (BuildErrorBody code message payload)))"

definition BuildWsEvent :: "int \<Rightarrow> string \<Rightarrow> json \<Rightarrow> int \<Rightarrow> string \<Rightarrow> json" where
  "BuildWsEvent now event payload code message =
     obj [(''event'', JString event), (''code'', JInt code), (''message'', JString message),
          (''payload'', payload), (''ts'', JInt now)]"

section \<open>Reading what was built\<close>

lemma obj_fold: "map_of (fold (\<lambda>(k, v) m. if map_of m k = None then smap_put k v m else m) kvs m) key =
    (case map_of m key of None \<Rightarrow> map_of kvs key | Some v \<Rightarrow> Some v)"
  by (induction kvs arbitrary: m) (auto split: option.splits if_splits)

lemma jfind_obj [simp]: "jfind (obj kvs) key = map_of kvs key"
  by (simp add: obj_def obj_fold)

lemma is_object_obj [simp]: "is_object (obj kvs)"
  by (simp add: obj_def)

lemma jfind_set_member [simp]:
  "is_object j \<Longrightarrow> jfind (set_member k v j) key = (if key = k then Some v else jfind j key)"
  by (cases j) auto

lemma is_object_set_member [simp]: "is_object (set_member k v j) = is_object j"
  by (cases j) auto

end
