(* ===== verification/Auth_Json.thy ===== *)
theory Auth_Json
  imports Sdk_Json Entitlement
begin

text \<open>
  The authorisation context on the wire (\<open>application/authorization_service.cpp\<close>): the field copies
  across the boundary of the private module, the JSON the service answers with, and the JSON it
  reads from the private module.
\<close>

section \<open>Copies\<close>

definition copy_grant :: "SdkDeviceGrant \<Rightarrow> SdkDeviceGrant" where
  "copy_grant g = \<lparr> grant_vid = grant_vid g, grant_pid = grant_pid g \<rparr>"

definition copy_bucket :: "AuthQuotaBucket \<Rightarrow> AuthQuotaBucket" where
  "copy_bucket b = \<lparr> qb_bucket = qb_bucket b, qb_methods = map (\<lambda>m. m) (qb_methods b),
     qb_limit = qb_limit b, qb_remaining = qb_remaining b, qb_enforcement = qb_enforcement b \<rparr>"

definition CopyAuthContextFields :: "AuthContext \<Rightarrow> AuthContext \<Rightarrow> AuthContext" where
  "CopyAuthContextFields source target = target
     \<lparr> ac_is_valid := ac_is_valid source,
       ac_account_type := ac_account_type source,
       ac_account_type_code := ac_account_type_code source,
       ac_licensed_account_type := ac_licensed_account_type source,
       ac_licensed_account_type_code := ac_licensed_account_type_code source,
       ac_auth_scene := ac_auth_scene source,
       ac_license_mode := ac_license_mode source,
       ac_host_auth_mode := ac_host_auth_mode source,
       ac_entitlement_state := ac_entitlement_state source,
       ac_commercial_authorized := ac_commercial_authorized source,
       ac_machine_code := ac_machine_code source,
       ac_expires_at := ac_expires_at source,
       ac_device_scope := map copy_grant (ac_device_scope source),
       ac_capabilities := map (\<lambda>c. c) (ac_capabilities source),
       ac_quota_buckets := map copy_bucket (ac_quota_buckets source) \<rparr>"

lemma copy_grant_id [simp]: "copy_grant g = g"
  by (simp add: copy_grant_def)

lemma copy_bucket_id [simp]: "copy_bucket b = b"
  by (simp add: copy_bucket_def)

text \<open>No field is forgotten: the copy is the source, whatever the target held.\<close>

lemma CopyAuthContextFields_source [simp]: "CopyAuthContextFields source target = source"
  by (simp add: CopyAuthContextFields_def map_idI)

section \<open>Writing\<close>

definition grant_json :: "SdkDeviceGrant \<Rightarrow> json" where
  "grant_json g = obj [(''vid'', JInt (grant_vid g)), (''pid'', JInt (grant_pid g))]"

definition bucket_json :: "AuthQuotaBucket \<Rightarrow> json" where
  "bucket_json b = obj [(''bucket'', JString (qb_bucket b)), (''limit'', JInt (qb_limit b)),
     (''remaining'', JInt (qb_remaining b)), (''enforcement'', JString (qb_enforcement b)),
     (''methods'', JArray (map JString (qb_methods b)))]"

definition AuthContextDataToJson :: "AuthContext \<Rightarrow> json" where
  "AuthContextDataToJson ac = obj
     [(''is_valid'', JBool (ac_is_valid ac)),
      (''account_type'', JString (ToAccountTypeString (ac_account_type ac))),
      (''account_type_code'', JInt (ac_account_type_code ac)),
      (''licensed_account_type'', JString (ToAccountTypeString (ac_licensed_account_type ac))),
      (''licensed_account_type_code'', JInt (ac_licensed_account_type_code ac)),
      (''auth_scene'', JString (ac_auth_scene ac)),
      (''license_mode'', JString (ac_license_mode ac)),
      (''host_auth_mode'', JString (ac_host_auth_mode ac)),
      (''entitlement_state'', JString (ac_entitlement_state ac)),
      (''commercial_authorized'', JBool (ac_commercial_authorized ac)),
      (''machine_code'', JString (ac_machine_code ac)),
      (''device_scope'', JArray (map grant_json (ac_device_scope ac))),
      (''expires_at'', JInt (ac_expires_at ac)),
      (''capabilities'', JArray (map JString (ac_capabilities ac))),
      (''quota_buckets'', JArray (map bucket_json (ac_quota_buckets ac))),
      (''capability_count'', JInt (int (length (ac_capabilities ac)))),
      (''quota_bucket_count'', JInt (int (length (ac_quota_buckets ac))))]"

section \<open>Reading\<close>

fun string_items :: "json list \<Rightarrow> string list" where
  "string_items [] = []"
| "string_items (JString s # js) = s # string_items js"
| "string_items (_ # js) = string_items js"

definition grant_from :: "json \<Rightarrow> SdkDeviceGrant" where
  "grant_from j = \<lparr> grant_vid = IntField j ''vid'' 0, grant_pid = IntField j ''pid'' 0 \<rparr>"

definition bucket_from :: "json \<Rightarrow> AuthQuotaBucket" where
  "bucket_from j = \<lparr> qb_bucket = StringField j ''bucket'', qb_methods = string_items (take 128 (ArrayField j ''methods'')),
     qb_limit = IntField j ''limit'' 0, qb_remaining = IntField j ''remaining'' 0,
     qb_enforcement = StringField j ''enforcement'' \<rparr>"

text \<open>The loops skip the items that are not objects; at most 64 buckets and 128 methods of each are read.\<close>

definition AuthContextFromJson :: "json \<Rightarrow> AuthContext" where
  "AuthContextFromJson value =
     (if \<not> is_object value then default_AuthContext
      else let account = AccountTypeFromString (StringField value ''account_type'');
               licensed = AccountTypeFromString (StringField value ''licensed_account_type'')
      in \<lparr> ac_is_valid = BoolField value ''is_valid'' False,
           ac_account_type = account,
           ac_account_type_code = IntField value ''account_type_code'' (AccountTypeCode account),
           ac_licensed_account_type = licensed,
           ac_licensed_account_type_code = IntField value ''licensed_account_type_code'' (AccountTypeCode licensed),
           ac_auth_scene = StringField value ''auth_scene'',
           ac_license_mode = StringField value ''license_mode'',
           ac_host_auth_mode = StringField value ''host_auth_mode'',
           ac_entitlement_state = StringField value ''entitlement_state'',
           ac_commercial_authorized = BoolField value ''commercial_authorized'' False,
           ac_machine_code = StringField value ''machine_code'',
           ac_device_scope = map grant_from (filter is_object (ArrayField value ''device_scope'')),
           ac_expires_at = Int64Field value ''expires_at'' 0,
           ac_capabilities = string_items (ArrayField value ''capabilities''),
           ac_quota_buckets = map bucket_from (filter is_object (take 64 (ArrayField value ''quota_buckets''))) \<rparr>)"

section \<open>The round trip\<close>

definition bucket_fits :: "AuthQuotaBucket \<Rightarrow> bool" where
  "bucket_fits b \<longleftrightarrow> in_int32 (qb_limit b) \<and> in_int32 (qb_remaining b) \<and> length (qb_methods b) \<le> 128"

definition context_fits :: "AuthContext \<Rightarrow> bool" where
  "context_fits ac \<longleftrightarrow> in_int32 (ac_account_type_code ac) \<and> in_int32 (ac_licensed_account_type_code ac) \<and>
     in_int64 (ac_expires_at ac) \<and> length (ac_quota_buckets ac) \<le> 64 \<and>
     (\<forall>g \<in> set (ac_device_scope ac). in_int32 (grant_vid g) \<and> in_int32 (grant_pid g)) \<and>
     (\<forall>b \<in> set (ac_quota_buckets ac). bucket_fits b)"

lemma string_items_strings [simp]: "string_items (map JString ss) = ss"
  by (induction ss) simp_all

lemma grant_from_json [simp]: "in_int32 (grant_vid g) \<Longrightarrow> in_int32 (grant_pid g) \<Longrightarrow> grant_from (grant_json g) = g"
  by (simp add: grant_from_def grant_json_def IntField_def)

lemma bucket_from_json [simp]: "bucket_fits b \<Longrightarrow> bucket_from (bucket_json b) = b"
  by (simp add: bucket_from_def bucket_json_def IntField_def StringField_def ArrayField_def bucket_fits_def
      flip: map_map take_map)

lemma objects [simp]: "is_object (grant_json g)" "is_object (bucket_json b)"
  by (simp_all add: grant_json_def bucket_json_def)

lemma filter_objects [simp]:
  "filter is_object (map grant_json gs) = map grant_json gs"
  "filter is_object (map bucket_json bs) = map bucket_json bs"
  by (simp_all add: filter_id_conv)

text \<open>C32. The authorisation context survives its JSON form: what the service writes, the reader of the
  private module's answers reads back exactly, as long as the integers fit their C++ types and
  there are at most 64 quota buckets of at most 128 methods; the two counts are redundant.\<close>

theorem auth_context_roundtrip:
  assumes "context_fits ac"
  shows "AuthContextFromJson (AuthContextDataToJson ac) = ac"
  using assms
  by (simp add: AuthContextFromJson_def AuthContextDataToJson_def Let_def context_fits_def IntField_def Int64Field_def
      StringField_def BoolField_def ArrayField_def comp_def map_idI cong: map_cong)

theorem auth_context_roundtrip_witness:
  "AuthContextFromJson (AuthContextDataToJson (default_AuthContext
     \<lparr> ac_account_type := Svip, ac_account_type_code := 1, ac_device_scope := [\<lparr>grant_vid = 7, grant_pid = 9\<rparr>] \<rparr>)) =
   default_AuthContext
     \<lparr> ac_account_type := Svip, ac_account_type_code := 1, ac_device_scope := [\<lparr>grant_vid = 7, grant_pid = 9\<rparr>] \<rparr>"
  by (rule auth_context_roundtrip)
    (simp add: context_fits_def default_AuthContext_def in_int32_def in_int64_def)

end
