(* ===== verification/Auth_Service.thy ===== *)
theory Auth_Service
  imports Auth_Json Sdk_Effects
begin

text \<open>
  The authorization service (\<open>application/authorization_service.cpp\<close>): one session per connection,
  created, refreshed, activated and charged through the authentication provider, or, in the Windows
  build with the private module, through that module's JSON interface (\<open>ae_private_build\<close>).  The
  provider, the module, the JSON printer and parser and the supplier of the base URL are parameters;
  the system clock is an argument.  Every operation is a computation on the sessions and the state
  of the outside; what it does under \<open>sessions_mu_\<close> is one update of the sessions.
\<close>

section \<open>Sessions\<close>

record SessionResult =
  sn_code :: int
  sn_message :: string
  sn_token :: string
  sn_session_token :: string
  sn_connection_id :: string
  sn_expires_in :: int
  sn_created_at :: int
  sn_last_seen_at :: int
  sn_auth_context :: AuthContext

definition default_SessionResult :: SessionResult where
  "default_SessionResult = \<lparr> sn_code = ToCode Ok, sn_message = ''ok'', sn_token = [], sn_session_token = [],
     sn_connection_id = [], sn_expires_in = 0, sn_created_at = 0, sn_last_seen_at = 0,
     sn_auth_context = default_AuthContext \<rparr>"

record ContextDataResult =
  cd_code :: int
  cd_message :: string
  cd_data :: json

definition CopySessionResultForStorage :: "SessionResult \<Rightarrow> SessionResult" where
  "CopySessionResultForStorage source = default_SessionResult
     \<lparr> sn_code := sn_code source, sn_message := sn_message source, sn_token := sn_token source,
       sn_session_token := sn_session_token source, sn_connection_id := sn_connection_id source,
       sn_expires_in := sn_expires_in source, sn_created_at := sn_created_at source,
       sn_last_seen_at := sn_last_seen_at source,
       sn_auth_context := CopyAuthContextFields (sn_auth_context source) default_AuthContext \<rparr>"

definition CopySessionResultForReturn :: "SessionResult \<Rightarrow> SessionResult" where
  "CopySessionResultForReturn source = CopySessionResultForStorage source"

lemma copy_session [simp]: "CopySessionResultForStorage s = s" "CopySessionResultForReturn s = s"
  by (simp_all add: CopySessionResultForReturn_def CopySessionResultForStorage_def)

definition SessionContextDataToJson :: "SessionResult \<Rightarrow> json" where
  "SessionContextDataToJson session = obj [(''session_token'', JString (sn_session_token session)),
     (''expires_in'', JInt (sn_expires_in session)),
     (''auth_context'', AuthContextDataToJson (sn_auth_context session))]"

definition session_error :: "SdkStatusCode \<Rightarrow> string \<Rightarrow> SessionResult" where
  "session_error code message = default_SessionResult\<lparr> sn_code := ToCode code, sn_message := message \<rparr>"

section \<open>The outside\<close>

text \<open>The operations of the provider interface that the service calls.\<close>

record 'e ISdkAuthProvider =
  ap_CreateSession :: "AuthValidateRequest \<Rightarrow> ('e, AuthRefreshResult) io"
  ap_RefreshSession :: "AuthRefreshRequest \<Rightarrow> ('e, AuthRefreshResult) io"
  ap_ActivateOffline :: "OfflineActivateRequest \<Rightarrow> ('e, OfflineActivateResult) io"
  ap_ConsumeQuota :: "QuotaConsumeRequest \<Rightarrow> ('e, QuotaConsumeResult) io"

text \<open>A function of the private module takes the printed request and may answer null; a function that
  was not resolved is \<^const>\<open>None\<close>.\<close>

type_synonym 'e json_fn = "(string \<Rightarrow> ('e, string option) io) option"

record 'e PrivateAuthCApi =
  pa_create_session :: "'e json_fn"
  pa_activate_offline :: "'e json_fn"
  pa_consume_quota :: "'e json_fn"
  pa_free_string :: bool

record 'e auth_env =
  ae_private_build :: bool
  ae_auth_provider :: "'e ISdkAuthProvider option"
  ae_api :: "'e PrivateAuthCApi"
  ae_dump :: "json \<Rightarrow> string"
  ae_parse :: "string \<Rightarrow> json option"
  ae_base_url :: "('e \<Rightarrow> string) option"

record 'e auth_state =
  au_sessions :: "(string, SessionResult) smap"
  au_outside :: 'e

type_synonym ('e, 'a) auth = "('e auth_state, 'a) io"

definition outside :: "('e, 'a) io \<Rightarrow> ('e, 'a) auth" where
  "outside m s = (case m (au_outside s) of (r, e) \<Rightarrow> (r, s\<lparr>au_outside := e\<rparr>))"

definition AuthzBaseUrl :: "'e auth_env \<Rightarrow> ('e, string) auth" where
  "AuthzBaseUrl env = gets_io (\<lambda>s. case ae_base_url env of Some supply \<Rightarrow> supply (au_outside s) | None \<Rightarrow> [])"

definition store_session :: "string \<Rightarrow> SessionResult \<Rightarrow> ('e, unit) auth" where
  "store_session connection_id session =
     modify_io (\<lambda>s. s\<lparr>au_sessions := smap_put connection_id session (au_sessions s)\<rparr>)"

section \<open>The private module\<close>

definition InvokePrivateAuthCApi :: "'e auth_env \<Rightarrow> 'e json_fn \<Rightarrow> json \<Rightarrow> ('e, string + json) io" where
  "InvokePrivateAuthCApi env fn request =
     (case fn of
        None \<Rightarrow> ret (Inl ''private auth c api not ready'')
      | Some call \<Rightarrow>
          if \<not> pa_free_string (ae_api env) then ret (Inl ''private auth c api not ready'')
          else bind_io (call (ae_dump env request)) (\<lambda>response.
            case response of
              None \<Rightarrow> ret (Inl ''private auth c api returned null'')
            | Some text \<Rightarrow>
                (case TryParseJson (ae_parse env) text of
                   Inr j \<Rightarrow> if is_object j then ret (Inr j)
                            else ret (Inl ''private auth c api returned invalid json'')
                 | Inl _ \<Rightarrow> ret (Inl ''private auth c api returned invalid json''))))"

definition reply_message :: "json \<Rightarrow> int \<Rightarrow> string" where
  "reply_message response code =
     (let message = StringField response ''message'' in
      if message \<noteq> [] then message else if IsOkStatusCode code then ''ok'' else ''private auth failed'')"

definition reply_context :: "json \<Rightarrow> AuthContext \<Rightarrow> AuthContext" where
  "reply_context response ac =
     (case jfind response ''auth_context'' of Some j \<Rightarrow> AuthContextFromJson j | None \<Rightarrow> ac)"

text \<open>Creating a session calls the module directly, and only this failure of it is not
  \<open>PROVIDER_NOT_READY\<close>.\<close>

definition CreatePrivateSessionWithCApi ::
    "'e auth_env \<Rightarrow> string \<Rightarrow> string \<Rightarrow> string \<Rightarrow> int \<Rightarrow> ('e, SessionResult) io" where
  "CreatePrivateSessionWithCApi env connection_id token base_url now =
     (case pa_create_session (ae_api env) of
        None \<Rightarrow> ret (session_error ProviderNotReady ''private auth c api not ready'')
      | Some call \<Rightarrow>
          if \<not> pa_free_string (ae_api env) then
            ret (session_error ProviderNotReady ''private auth c api not ready'')
          else bind_io (call (ae_dump env (obj [(''token'', JString token),
              (''authz_base_url'', JString base_url), (''now_ts'', JInt now)]))) (\<lambda>response.
            case response of
              None \<Rightarrow> ret (session_error InternalError ''private auth c api returned null'')
            | Some text \<Rightarrow>
                (case TryParseJson (ae_parse env) text of
                   Inl _ \<Rightarrow> ret (session_error InternalError ''private auth c api returned invalid json'')
                 | Inr j \<Rightarrow>
                     if \<not> is_object j then
                       ret (session_error InternalError ''private auth c api returned invalid json'')
                     else let code = IntField j ''code'' 0 in
                       ret \<lparr> sn_code = code, sn_message = reply_message j code, sn_token = token,
                         sn_session_token = StringField j ''session_token'', sn_connection_id = connection_id,
                         sn_expires_in = IntField j ''expires_in'' 0, sn_created_at = now, sn_last_seen_at = now,
                         sn_auth_context = reply_context j default_AuthContext \<rparr>)))"

definition ConsumeQuotaWithCApi ::
    "'e auth_env \<Rightarrow> SessionResult \<Rightarrow> string \<Rightarrow> string \<Rightarrow> string \<Rightarrow> int \<Rightarrow> int \<Rightarrow> ('e, SessionResult) io" where
  "ConsumeQuotaWithCApi env bound base_url capability request_id units now =
     bind_io (InvokePrivateAuthCApi env (pa_consume_quota (ae_api env)) (obj
       [(''token'', JString (sn_token bound)), (''session_token'', JString (sn_session_token bound)),
        (''authz_base_url'', JString base_url), (''capability'', JString capability),
        (''request_id'', JString request_id), (''units'', JInt units), (''now_ts'', JInt now)])) (\<lambda>response.
     case response of
       Inl message \<Rightarrow> ret (bound\<lparr> sn_code := ToCode ProviderNotReady, sn_message := message \<rparr>)
     | Inr j \<Rightarrow> let code = IntField j ''code'' 0 in
         ret (bound\<lparr> sn_code := code, sn_message := reply_message j code,
                     sn_auth_context := reply_context j (sn_auth_context bound), sn_last_seen_at := now \<rparr>))"

definition ActivateOfflineWithCApi ::
    "'e auth_env \<Rightarrow> SessionResult \<Rightarrow> string \<Rightarrow> string \<Rightarrow> int \<Rightarrow> ('e, SessionResult) io" where
  "ActivateOfflineWithCApi env bound connection_id auth_code now =
     bind_io (InvokePrivateAuthCApi env (pa_activate_offline (ae_api env)) (obj
       [(''token'', JString (sn_token bound)), (''session_token'', JString (sn_session_token bound)),
        (''auth_code'', JString auth_code), (''now_ts'', JInt now)])) (\<lambda>response.
     case response of
       Inl message \<Rightarrow> ret (bound\<lparr> sn_code := ToCode ProviderNotReady, sn_message := message \<rparr>)
     | Inr j \<Rightarrow> let code = IntField j ''code'' 0 in
         ret \<lparr> sn_code = code, sn_message = reply_message j code, sn_token = sn_token bound,
           sn_session_token = StringField j ''session_token'', sn_connection_id = connection_id,
           sn_expires_in = IntField j ''expires_in'' 0, sn_created_at = sn_created_at bound,
           sn_last_seen_at = now, sn_auth_context = reply_context j default_AuthContext \<rparr>)"

definition RebuildLocalCapabilities :: "AuthContext \<Rightarrow> AuthContext" where
  "RebuildLocalCapabilities ac = ac\<lparr>ac_capabilities := BuildEntitledCapabilities (ac_account_type ac)\<rparr>"

section \<open>Looking sessions up\<close>

definition RequireSession :: "string \<Rightarrow> 'e auth_state \<Rightarrow> SessionResult" where
  "RequireSession connection_id s =
     (case map_of (au_sessions s) connection_id of
        None \<Rightarrow> session_error AuthRequired ''session required''
      | Some session \<Rightarrow> CopySessionResultForReturn session)"

definition GetContext :: "string \<Rightarrow> 'e auth_state \<Rightarrow> SessionResult" where
  "GetContext connection_id s = RequireSession connection_id s"

definition GetContextData :: "string \<Rightarrow> 'e auth_state \<Rightarrow> ContextDataResult" where
  "GetContextData connection_id s =
     (case map_of (au_sessions s) connection_id of
        None \<Rightarrow> \<lparr> cd_code = ToCode AuthRequired, cd_message = ''session required'', cd_data = obj [] \<rparr>
      | Some session \<Rightarrow> \<lparr> cd_code = ToCode Ok, cd_message = ''ok'', cd_data = SessionContextDataToJson session \<rparr>)"

text \<open>A result handed out names its connection, even if the stored one does not.\<close>

definition with_connection :: "string \<Rightarrow> SessionResult \<Rightarrow> SessionResult" where
  "with_connection key result =
     (if sn_connection_id result = [] then result\<lparr>sn_connection_id := key\<rparr> else result)"

definition RequireSessionToken :: "string \<Rightarrow> 'e auth_state \<Rightarrow> SessionResult" where
  "RequireSessionToken session_token s =
     (if session_token = [] then session_error AuthRequired ''session token required''
      else case find (\<lambda>p. sn_session_token (snd p) = session_token) (au_sessions s) of
        Some (key, session) \<Rightarrow> with_connection key (CopySessionResultForReturn session)
      | None \<Rightarrow> session_error AuthRequired ''session token invalid'')"

definition HasCapability :: "'e auth_env \<Rightarrow> AuthContext \<Rightarrow> string \<Rightarrow> bool" where
  "HasCapability env ac capability =
     (if capability \<in> set (ac_capabilities ac) then True
      else if ae_private_build env then capability \<in> set (BuildEntitledCapabilities (ac_account_type ac))
      else False)"

definition RequireCapability :: "'e auth_env \<Rightarrow> string \<Rightarrow> string \<Rightarrow> 'e auth_state \<Rightarrow> SessionResult" where
  "RequireCapability env connection_id capability s =
     (let result = RequireSession connection_id s in
      if \<not> IsOkStatusCode (sn_code result) then result
      else if \<not> HasCapability env (sn_auth_context result) capability then
        result\<lparr> sn_code := ToCode CapabilityNotAllowed, sn_message := ''capability not allowed'' \<rparr>
      else result)"

definition ActiveSessionCount :: "'e auth_state \<Rightarrow> nat" where
  "ActiveSessionCount s = length (au_sessions s)"

definition SnapshotSessions :: "'e auth_state \<Rightarrow> SessionResult list" where
  "SnapshotSessions s = map (\<lambda>p. with_connection (fst p) (snd p)) (au_sessions s)"

section \<open>Changing sessions\<close>

text \<open>What the provider answers, as a session of the connection.\<close>

definition session_of ::
    "string \<Rightarrow> string \<Rightarrow> int \<Rightarrow> int \<Rightarrow> AuthRefreshResult \<Rightarrow> SessionResult" where
  "session_of connection_id token created now r =
     \<lparr> sn_code = rr_code r, sn_message = rr_message r, sn_token = token,
       sn_session_token = rr_session_token r, sn_connection_id = connection_id,
       sn_expires_in = rr_expires_in r, sn_created_at = created, sn_last_seen_at = now,
       sn_auth_context = rr_auth_context r \<rparr>"

definition keep_if_ok :: "string \<Rightarrow> SessionResult \<Rightarrow> ('e, SessionResult) auth" where
  "keep_if_ok connection_id result =
     seq_io (when_io (IsOkStatusCode (sn_code result)) (store_session connection_id result)) (ret result)"

text \<open>In the private build the capabilities are rebuilt locally before the session is stored.\<close>

definition keep_rebuilt :: "string \<Rightarrow> SessionResult \<Rightarrow> ('e, SessionResult) auth" where
  "keep_rebuilt connection_id result =
     (if IsOkStatusCode (sn_code result) then
        let result = result\<lparr>sn_auth_context := RebuildLocalCapabilities (sn_auth_context result)\<rparr>
        in seq_io (store_session connection_id (CopySessionResultForStorage result)) (ret result)
      else ret result)"

definition CreateSession :: "'e auth_env \<Rightarrow> string \<Rightarrow> string \<Rightarrow> int \<Rightarrow> ('e, SessionResult) auth" where
  "CreateSession env connection_id token now =
     (if \<not> ae_private_build env \<and> ae_auth_provider env = None then
        ret (session_error ProviderNotReady ''provider not ready'')
      else if token = [] then ret (session_error AuthRequired ''token required'')
      else bind_io (AuthzBaseUrl env) (\<lambda>base_url.
        if ae_private_build env then
          bind_io (outside (CreatePrivateSessionWithCApi env connection_id token base_url now))
            (keep_rebuilt connection_id)
        else bind_io (outside (ap_CreateSession (the (ae_auth_provider env))
            \<lparr> av_token = token, av_authz_base_url = base_url, av_now_ts = now \<rparr>)) (\<lambda>r.
          keep_if_ok connection_id (session_of connection_id token now now r))))"

text \<open>An API key session is refreshed by creating it again.  In a build without the private module the
  provider pointer is used unchecked: a session can only have been created through it.\<close>

definition with_auth_provider ::
    "'e auth_env \<Rightarrow> ('e ISdkAuthProvider \<Rightarrow> ('e, 'a) auth) \<Rightarrow> ('e, 'a) auth" where
  "with_auth_provider env f =
     (case ae_auth_provider env of Some p \<Rightarrow> f p | None \<Rightarrow> throw UnknownException)"

definition recreates :: "SessionResult \<Rightarrow> bool" where
  "recreates bound \<longleftrightarrow> (ac_license_mode (sn_auth_context bound) = ''online_api_key'' \<or>
     ac_license_mode (sn_auth_context bound) = ''offline_api_key'') \<and> sn_token bound \<noteq> []"

definition RefreshSession :: "'e auth_env \<Rightarrow> string \<Rightarrow> int \<Rightarrow> ('e, SessionResult) auth" where
  "RefreshSession env connection_id now =
     bind_io (gets_io (RequireSession connection_id)) (\<lambda>bound.
     if \<not> IsOkStatusCode (sn_code bound) then ret bound
     else if recreates bound then
       bind_io (AuthzBaseUrl env) (\<lambda>base_url.
       if ae_private_build env then
         bind_io (outside (CreatePrivateSessionWithCApi env connection_id (sn_token bound) base_url now)) (\<lambda>result.
         keep_rebuilt connection_id (result\<lparr>sn_created_at := sn_created_at bound\<rparr>))
       else with_auth_provider env (\<lambda>p.
         bind_io (outside (ap_CreateSession p
           \<lparr> av_token = sn_token bound, av_authz_base_url = base_url, av_now_ts = now \<rparr>)) (\<lambda>r.
         keep_if_ok connection_id (session_of connection_id (sn_token bound) (sn_created_at bound) now r))))
     else with_auth_provider env (\<lambda>p.
       bind_io (outside (ap_RefreshSession p
         \<lparr> rf_session_token = sn_session_token bound, rf_now_ts = now \<rparr>)) (\<lambda>r.
       keep_if_ok connection_id (session_of connection_id (sn_token bound) (sn_created_at bound) now r))))"

definition DestroySession :: "string \<Rightarrow> ('e, SessionResult) auth" where
  "DestroySession connection_id =
     seq_io (modify_io (\<lambda>s. s\<lparr>au_sessions := smap_erase connection_id (au_sessions s)\<rparr>))
            (ret default_SessionResult)"

definition ClearConnection_auth :: "string \<Rightarrow> ('e, unit) auth" where
  "ClearConnection_auth connection_id =
     modify_io (\<lambda>s. s\<lparr>au_sessions := smap_erase connection_id (au_sessions s)\<rparr>)"

definition provider_missing :: "SessionResult \<Rightarrow> SessionResult" where
  "provider_missing bound =
     bound\<lparr> sn_code := ToCode ProviderNotReady, sn_message := ''provider not ready'' \<rparr>"

definition ActivateOffline :: "'e auth_env \<Rightarrow> string \<Rightarrow> string \<Rightarrow> int \<Rightarrow> ('e, SessionResult) auth" where
  "ActivateOffline env connection_id auth_code now =
     bind_io (gets_io (RequireSession connection_id)) (\<lambda>bound.
     if \<not> IsOkStatusCode (sn_code bound) then ret bound
     else if ae_private_build env then
       bind_io (outside (ActivateOfflineWithCApi env bound connection_id auth_code now)) (keep_rebuilt connection_id)
     else case ae_auth_provider env of
       None \<Rightarrow> ret (provider_missing bound)
     | Some p \<Rightarrow>
         bind_io (outside (ap_ActivateOffline p \<lparr> oa_token = sn_token bound,
           oa_session_token = sn_session_token bound, oa_auth_code = auth_code, oa_now_ts = now \<rparr>)) (\<lambda>r.
         keep_if_ok connection_id \<lparr> sn_code = or_code r, sn_message = or_message r, sn_token = sn_token bound,
           sn_session_token = or_session_token r, sn_connection_id = connection_id,
           sn_expires_in = or_expires_in r, sn_created_at = sn_created_at bound, sn_last_seen_at = now,
           sn_auth_context = or_auth_context r \<rparr>))"

text \<open>Charging updates the stored session only if it is still there, and answers with it; the answer of
  the private build is always the plain success.\<close>

definition charge_session ::
    "string \<Rightarrow> SessionResult \<Rightarrow> int \<Rightarrow> int \<Rightarrow> string \<Rightarrow> ('e, SessionResult) auth" where
  "charge_session connection_id result now code message =
     (if \<not> IsOkStatusCode (sn_code result) then ret result
      else bind_io (gets_io (\<lambda>s. map_of (au_sessions s) connection_id)) (\<lambda>stored.
        case stored of
          None \<Rightarrow> ret result
        | Some session \<Rightarrow>
            let session = session\<lparr> sn_auth_context := sn_auth_context result, sn_last_seen_at := now \<rparr>
            in seq_io (store_session connection_id session)
                      (ret (session\<lparr> sn_code := code, sn_message := message \<rparr>))))"

definition ConsumeQuota ::
    "'e auth_env \<Rightarrow> string \<Rightarrow> string \<Rightarrow> string \<Rightarrow> int \<Rightarrow> int \<Rightarrow> ('e, SessionResult) auth" where
  "ConsumeQuota env connection_id capability request_id units now =
     bind_io (gets_io (RequireSession connection_id)) (\<lambda>bound.
     if \<not> IsOkStatusCode (sn_code bound) then ret bound
     else bind_io (AuthzBaseUrl env) (\<lambda>base_url.
       if ae_private_build env then
         bind_io (outside (ConsumeQuotaWithCApi env bound base_url capability request_id units now)) (\<lambda>result.
         charge_session connection_id result now (ToCode Ok) ''ok'')
       else case ae_auth_provider env of
         None \<Rightarrow> ret (provider_missing bound)
       | Some p \<Rightarrow>
           bind_io (outside (ap_ConsumeQuota p \<lparr> qc_token = sn_token bound,
             qc_session_token = sn_session_token bound, qc_authz_base_url = base_url,
             qc_capability = capability, qc_request_id = request_id, qc_units = units, qc_now_ts = now \<rparr>)) (\<lambda>r.
           charge_session connection_id (bound\<lparr> sn_code := qr_code r, sn_message := qr_message r,
             sn_auth_context := qr_auth_context r, sn_last_seen_at := now \<rparr>) now (qr_code r) (qr_message r))))"

end
