(* ===== verification/Auth_Claims.thy ===== *)
theory Auth_Claims
  imports Auth_Service
begin

text \<open>
  The properties of the authorization service: what each operation does to the sessions, what holds of
  the sessions after any sequence of operations, and who is let through.
\<close>

section \<open>Calls\<close>

lemma wp_outside [wp_simps]:
  "wp_io (outside m) Q E s =
   wp_io m (\<lambda>a e. Q a (s\<lparr>au_outside := e\<rparr>)) (\<lambda>e. E (s\<lparr>au_outside := e\<rparr>)) (au_outside s)"
  by (auto simp: wp_io_def outside_def split: prod.splits sum.splits)

lemma wp_any: "(\<And>a t. Q a t) \<Longrightarrow> (\<And>t. E t) \<Longrightarrow> wp_io m Q E s"
  by (auto simp: wp_io_def split: prod.splits sum.splits)

lemma wp_AuthzBaseUrl [wp_simps]:
  "wp_io (AuthzBaseUrl env) Q E s = Q (case ae_base_url env of Some supply \<Rightarrow> supply (au_outside s) | None \<Rightarrow> []) s"
  by (simp add: AuthzBaseUrl_def wp_gets)

lemma wp_store [wp_simps]:
  "wp_io (store_session c x) Q E s = Q () (s\<lparr>au_sessions := smap_put c x (au_sessions s)\<rparr>)"
  by (simp add: store_session_def wp_modify)

lemma error_not_ok [simp]: "IsOkStatusCode (sn_code (session_error code m)) \<longleftrightarrow> code = Ok"
  by (simp add: session_error_def)

text \<open>What the private module answers is a session of the connection it was asked for.\<close>

lemma wp_CreatePrivate:
  "wp_io (CreatePrivateSessionWithCApi env c token url now)
     (\<lambda>r _. IsOkStatusCode (sn_code r) \<longrightarrow> sn_token r = token \<and> sn_connection_id r = c) (\<lambda>_. True) e"
proof (cases "pa_create_session (ae_api env)")
  case None
  then show ?thesis by (simp add: CreatePrivateSessionWithCApi_def wp_simps)
next
  case (Some call)
  have reply: "wp_io (case body of None \<Rightarrow> ret (session_error InternalError m)
      | Some text \<Rightarrow> (case TryParseJson (ae_parse env) text of
           Inl _ \<Rightarrow> ret (session_error InternalError m')
         | Inr j \<Rightarrow> if \<not> is_object j then ret (session_error InternalError m') else f j)) Q E e"
    if "\<And>r. \<not> IsOkStatusCode (sn_code r) \<Longrightarrow> Q r e" "\<And>j. wp_io (f j) Q E e" for body f m m' Q E e
    using that by (auto simp: wp_simps split: option.split sum.split)
  show ?thesis
    using Some by (auto simp: CreatePrivateSessionWithCApi_def wp_simps Let_def intro!: wp_any [where m = "call x" for x] reply)
qed

lemma wp_Invoke:
  "(\<And>a t. Q a t) \<Longrightarrow> (\<And>t. E t) \<Longrightarrow> wp_io (InvokePrivateAuthCApi env fn request) Q E e"
  by (rule wp_any)

lemma wp_ActivatePrivate:
  "wp_io (ActivateOfflineWithCApi env bound c code now)
     (\<lambda>r _. IsOkStatusCode (sn_code r) \<longrightarrow> sn_token r = sn_token bound \<and> sn_connection_id r = c) (\<lambda>_. True) e"
  unfolding ActivateOfflineWithCApi_def wpio_bind
  by (rule wp_Invoke) (auto simp: wp_simps Let_def split: sum.split)

section \<open>What an operation does to the sessions\<close>

text \<open>An operation that yields a session: on success the session it returns is stored, on failure and
  on an exception nothing changes.\<close>

definition stored :: "string \<Rightarrow> 'e auth_state \<Rightarrow> SessionResult \<Rightarrow> 'e auth_state \<Rightarrow> bool" where
  "stored c s r t \<longleftrightarrow>
     (if IsOkStatusCode (sn_code r) then au_sessions t = smap_put c r (au_sessions s) \<and>
        sn_connection_id r = c \<and> sn_token r \<noteq> []
      else au_sessions t = au_sessions s)"

definition same_sessions :: "'e auth_state \<Rightarrow> 'e auth_state \<Rightarrow> bool" where
  "same_sessions s t \<longleftrightarrow> au_sessions t = au_sessions s"

lemma wp_keep_if_ok:
  assumes "IsOkStatusCode (sn_code r) \<Longrightarrow> sn_connection_id r = c \<and> sn_token r \<noteq> []"
    and "au_sessions t = au_sessions s"
  shows "wp_io (keep_if_ok c r) (stored c s) (same_sessions s) t"
  using assms by (simp add: keep_if_ok_def wp_simps stored_def)

lemma wp_keep_rebuilt:
  assumes "IsOkStatusCode (sn_code r) \<Longrightarrow> sn_connection_id r = c \<and> sn_token r \<noteq> []"
    and "au_sessions t = au_sessions s"
  shows "wp_io (keep_rebuilt c r) (stored c s) (same_sessions s) t"
  using assms by (simp add: keep_rebuilt_def wp_simps stored_def Let_def)

lemma wp_CreateSession: "wp_io (CreateSession env c token now) (stored c s) (same_sessions s) s"
proof (cases "ae_private_build env")
  case True
  have "wp_io (CreatePrivateSessionWithCApi env c token url now)
      (\<lambda>r e. wp_io (keep_rebuilt c r) (stored c s) (same_sessions s) (s\<lparr>au_outside := e\<rparr>))
      (\<lambda>e. same_sessions s (s\<lparr>au_outside := e\<rparr>)) (au_outside s)" if "token \<noteq> []" for url
    by (rule wpio_mono [OF wp_CreatePrivate])
      (use that in \<open>auto simp: same_sessions_def intro!: wp_keep_rebuilt\<close>)
  then show ?thesis using True by (auto simp: CreateSession_def wp_simps stored_def)
next
  case False
  then show ?thesis
    by (auto simp: CreateSession_def wp_simps stored_def same_sessions_def session_of_def
        intro!: wp_any wp_keep_if_ok)
qed

text \<open>Every stored session is a success of its own connection, with the token it was created from.\<close>

definition auth_inv :: "'e auth_state \<Rightarrow> bool" where
  "auth_inv s \<longleftrightarrow> smap_ok (au_sessions s) \<and>
     (\<forall>c r. map_of (au_sessions s) c = Some r \<longrightarrow>
        IsOkStatusCode (sn_code r) \<and> sn_connection_id r = c \<and> sn_token r \<noteq> [])"

lemma RequireSession_ok:
  "auth_inv s \<Longrightarrow> IsOkStatusCode (sn_code (RequireSession c s)) \<longleftrightarrow> map_of (au_sessions s) c = Some (RequireSession c s)"
  by (auto simp: RequireSession_def auth_inv_def split: option.splits)

lemma bound_token: "auth_inv s \<Longrightarrow> IsOkStatusCode (sn_code (RequireSession c s)) \<Longrightarrow> sn_token (RequireSession c s) \<noteq> []"
  using RequireSession_ok unfolding auth_inv_def by blast

lemma wp_with_provider:
  "(\<And>p. ae_auth_provider env = Some p \<Longrightarrow> wp_io (f p) Q E s) \<Longrightarrow> (ae_auth_provider env = None \<Longrightarrow> E s) \<Longrightarrow>
   wp_io (with_auth_provider env f) Q E s"
  by (auto simp: with_auth_provider_def wp_io_def throw_def split: option.split)

lemma wp_RefreshSession:
  assumes inv: "auth_inv s"
  shows "wp_io (RefreshSession env c now) (stored c s) (same_sessions s) s"
proof (cases "IsOkStatusCode (sn_code (RequireSession c s))")
  case False
  then show ?thesis by (simp add: RefreshSession_def wp_simps stored_def)
next
  case True
  let ?b = "RequireSession c s"
  have token: "sn_token ?b \<noteq> []" by (rule bound_token [OF inv True])
  have priv: "wp_io (CreatePrivateSessionWithCApi env c (sn_token ?b) url now)
      (\<lambda>r e. wp_io (keep_rebuilt c (r\<lparr>sn_created_at := sn_created_at ?b\<rparr>)) (stored c s) (same_sessions s) (s\<lparr>au_outside := e\<rparr>))
      (\<lambda>e. same_sessions s (s\<lparr>au_outside := e\<rparr>)) (au_outside s)" for url
    by (rule wpio_mono [OF wp_CreatePrivate])
      (use token in \<open>auto simp: same_sessions_def intro!: wp_keep_rebuilt\<close>)
  have keep: "wp_io m (\<lambda>r e. wp_io (keep_if_ok c (session_of c (sn_token ?b) created now r)) (stored c s) (same_sessions s)
      (s\<lparr>au_outside := e\<rparr>)) (\<lambda>e. same_sessions s (s\<lparr>au_outside := e\<rparr>)) e" for m created e
    using token by (auto intro!: wp_any wp_keep_if_ok simp: session_of_def same_sessions_def)
  show ?thesis
    using True priv keep
    by (auto simp: RefreshSession_def wp_simps same_sessions_def intro!: wp_with_provider)
qed

lemma wp_ActivateOffline:
  assumes inv: "auth_inv s"
  shows "wp_io (ActivateOffline env c code now) (stored c s) (same_sessions s) s"
proof (cases "IsOkStatusCode (sn_code (RequireSession c s))")
  case False
  then show ?thesis by (simp add: ActivateOffline_def wp_simps stored_def)
next
  case True
  let ?b = "RequireSession c s"
  have token: "sn_token ?b \<noteq> []" by (rule bound_token [OF inv True])
  have priv: "wp_io (ActivateOfflineWithCApi env ?b c code now)
      (\<lambda>r e. wp_io (keep_rebuilt c r) (stored c s) (same_sessions s) (s\<lparr>au_outside := e\<rparr>))
      (\<lambda>e. same_sessions s (s\<lparr>au_outside := e\<rparr>)) (au_outside s)"
    by (rule wpio_mono [OF wp_ActivatePrivate])
      (use token in \<open>auto simp: same_sessions_def intro!: wp_keep_rebuilt\<close>)
  show ?thesis
    using True priv token
    by (auto simp: ActivateOffline_def wp_simps same_sessions_def stored_def provider_missing_def
        intro!: wp_any wp_keep_if_ok split: option.split)
qed

text \<open>Charging changes the context of the stored session and nothing else.\<close>

definition charged :: "string \<Rightarrow> 'e auth_state \<Rightarrow> SessionResult \<Rightarrow> 'e auth_state \<Rightarrow> bool" where
  "charged c s r t \<longleftrightarrow>
     (if IsOkStatusCode (sn_code r) then
        (\<exists>old ac now. map_of (au_sessions s) c = Some old \<and>
           au_sessions t = smap_put c (old\<lparr>sn_auth_context := ac, sn_last_seen_at := now\<rparr>) (au_sessions s) \<and>
           sn_auth_context r = ac \<and> sn_session_token r = sn_session_token old)
      else au_sessions t = au_sessions s)"

lemma wp_charge_session:
  assumes "map_of (au_sessions s) c = Some old" and "au_sessions t = au_sessions s" and "IsOkStatusCode code"
  shows "wp_io (charge_session c r now code m) (charged c s) (same_sessions s) t"
  using assms by (auto simp: charge_session_def wp_simps charged_def Let_def)

lemma wp_ConsumeQuota:
  assumes inv: "auth_inv s"
  shows "wp_io (ConsumeQuota env c capability request_id units now) (charged c s) (same_sessions s) s"
proof (cases "IsOkStatusCode (sn_code (RequireSession c s))")
  case False
  then show ?thesis by (simp add: ConsumeQuota_def wp_simps charged_def)
next
  case True
  note old = RequireSession_ok [OF inv, THEN iffD1, OF True]
  have fail: "wp_io (charge_session c r now code m) (charged c s) (same_sessions s) t"
    if "\<not> IsOkStatusCode (sn_code r)" "au_sessions t = au_sessions s" for r code m t
    using that by (simp add: charge_session_def wp_simps charged_def)
  have provider: "wp_io (charge_session c (b\<lparr>sn_code := qr_code r, sn_message := m, sn_auth_context := ac, sn_last_seen_at := now\<rparr>)
      now (qr_code r) m') (charged c s) (same_sessions s) t" if "au_sessions t = au_sessions s" for b r m m' ac t
    by (cases "IsOkStatusCode (qr_code r)") (use that old in \<open>auto intro: wp_charge_session fail\<close>)
  have priv: "wp_io (charge_session c r now 0 m) (charged c s) (same_sessions s) t"
    if "au_sessions t = au_sessions s" for r m t
    using wp_charge_session [OF old that] by simp
  show ?thesis
    using True
    by (auto simp: ConsumeQuota_def wp_simps same_sessions_def charged_def provider_missing_def
        intro!: wp_any [where m = "ConsumeQuotaWithCApi env b u cc rq n k" for b u cc rq n k]
          wp_any [where m = "ap_ConsumeQuota p rq" for p rq] priv provider split: option.split)
qed

section \<open>Sequences of operations\<close>

datatype 'e auth_label =
    AuthCreate string string int
  | AuthRefresh string int
  | AuthActivate string string int
  | AuthConsume string string string int int
  | AuthDestroy string
  | AuthClear string
  | AuthOutside 'e

fun auth_next :: "'e auth_env \<Rightarrow> 'e auth_label \<Rightarrow> 'e auth_state \<Rightarrow> 'e auth_state" where
  "auth_next env (AuthCreate c token now) s = snd (CreateSession env c token now s)"
| "auth_next env (AuthRefresh c now) s = snd (RefreshSession env c now s)"
| "auth_next env (AuthActivate c code now) s = snd (ActivateOffline env c code now s)"
| "auth_next env (AuthConsume c capability rid units now) s = snd (ConsumeQuota env c capability rid units now s)"
| "auth_next env (AuthDestroy c) s = snd (DestroySession c s)"
| "auth_next env (AuthClear c) s = snd (ClearConnection_auth c s)"
| "auth_next env (AuthOutside e) s = s\<lparr>au_outside := e\<rparr>"

abbreviation auth_reach :: "'e auth_env \<Rightarrow> 'e auth_state \<Rightarrow> bool" where
  "auth_reach env \<equiv> reach (\<lambda>s. au_sessions s = []) (\<lambda>s l t. t = auth_next env l s)"

lemma wp_result:
  "wp_io m Q E s \<Longrightarrow> (case m s of (Inl x, t) \<Rightarrow> E t | (Inr a, t) \<Rightarrow> Q a t)"
  by (simp add: wp_io_def)

lemma wp_final: "wp_io m (\<lambda>_. P) P s \<Longrightarrow> P (snd (m s))"
  by (auto simp: wp_io_def split: prod.splits sum.splits)

lemma auth_inv_same: "auth_inv s \<Longrightarrow> same_sessions s t \<Longrightarrow> auth_inv t"
  by (simp add: auth_inv_def same_sessions_def)

lemma auth_inv_stored: "auth_inv s \<Longrightarrow> stored c s r t \<Longrightarrow> auth_inv t"
  by (auto simp: auth_inv_def stored_def split: if_splits)

lemma auth_inv_charged: "auth_inv s \<Longrightarrow> charged c s r t \<Longrightarrow> auth_inv t"
  by (auto simp: auth_inv_def charged_def split: if_splits)

lemma auth_inv_erase: "auth_inv s \<Longrightarrow> auth_inv (s\<lparr>au_sessions := smap_erase c (au_sessions s)\<rparr>)"
  by (auto simp: auth_inv_def)

lemma auth_inv_next:
  assumes inv: "auth_inv s"
  shows "auth_inv (auth_next env l s)"
proof (cases l)
  case (AuthCreate c token now)
  show ?thesis unfolding AuthCreate auth_next.simps
    by (rule wp_final, rule wpio_mono [OF wp_CreateSession]) (auto intro: inv auth_inv_stored auth_inv_same)
next
  case (AuthRefresh c now)
  show ?thesis unfolding AuthRefresh auth_next.simps
    by (rule wp_final, rule wpio_mono [OF wp_RefreshSession [OF inv]]) (auto intro: inv auth_inv_stored auth_inv_same)
next
  case (AuthActivate c code now)
  show ?thesis unfolding AuthActivate auth_next.simps
    by (rule wp_final, rule wpio_mono [OF wp_ActivateOffline [OF inv]]) (auto intro: inv auth_inv_stored auth_inv_same)
next
  case (AuthConsume c capability rid units now)
  show ?thesis unfolding AuthConsume auth_next.simps
    by (rule wp_final, rule wpio_mono [OF wp_ConsumeQuota [OF inv]]) (auto intro: inv auth_inv_charged auth_inv_same)
next
  case (AuthDestroy c)
  then show ?thesis
    using auth_inv_erase [OF inv] by (simp add: DestroySession_def seq_io_def bind_io_def modify_io_def ret_def)
next
  case (AuthClear c)
  then show ?thesis using auth_inv_erase [OF inv] by (simp add: ClearConnection_auth_def modify_io_def)
next
  case (AuthOutside e)
  then show ?thesis using inv by (simp add: auth_inv_def)
qed

interpretation auth: guarded_machine "\<lambda>s. au_sessions s = []" "\<lambda>s l t. t = auth_next env l s" auth_inv for env
  by unfold_locales (auto simp: auth_inv_next, simp add: auth_inv_def smap_ok_def)

section \<open>A concrete provider\<close>

definition grants_all :: "nat ISdkAuthProvider" where
  "grants_all =
     (let granted = default_AuthContext\<lparr> ac_is_valid := True, ac_capabilities := [''device.list''] \<rparr>;
          refreshed = (\<lambda>n. \<lparr> rr_code = ToCode Ok, rr_message = ''ok'', rr_session_token = ''st-'' @ dec n,
            rr_expires_in = 7200, rr_auth_context = granted \<rparr>)
      in \<lparr> ap_CreateSession = (\<lambda>_ n. (Inr (refreshed n), Suc n)), ap_RefreshSession = (\<lambda>_ n. (Inr (refreshed n), Suc n)),
           ap_ActivateOffline = (\<lambda>_. throw (StdException ''offline'')),
           ap_ConsumeQuota = (\<lambda>_. throw (StdException ''quota'')) \<rparr>)"

definition no_module :: "'e PrivateAuthCApi" where
  "no_module = \<lparr> pa_create_session = None, pa_activate_offline = None, pa_consume_quota = None, pa_free_string = False \<rparr>"

definition demo_auth :: "nat auth_env" where
  "demo_auth = \<lparr> ae_private_build = False, ae_auth_provider = Some grants_all, ae_api = no_module,
     ae_dump = (\<lambda>_. []), ae_parse = (\<lambda>_. None), ae_base_url = None \<rparr>"

definition logged_in :: "nat auth_state" where
  "logged_in = snd (CreateSession demo_auth ''c1'' ''key'' 0 \<lparr> au_sessions = [], au_outside = 0 \<rparr>)"

lemma reach_logged_in: "auth_reach demo_auth logged_in"
  using reach_step [OF reach_init, of "\<lambda>s. au_sessions s = []" "\<lparr> au_sessions = [], au_outside = 0 \<rparr>"
      "\<lambda>s l t. t = auth_next demo_auth l s" "AuthCreate ''c1'' ''key'' 0"]
  by (simp add: logged_in_def)

lemma logged_in_sessions: "map_of (au_sessions logged_in) ''c1'' = Some
    \<lparr> sn_code = 0, sn_message = ''ok'', sn_token = ''key'', sn_session_token = ''st-'' @ dec 0, sn_connection_id = ''c1'',
      sn_expires_in = 7200, sn_created_at = 0, sn_last_seen_at = 0,
      sn_auth_context = default_AuthContext\<lparr> ac_is_valid := True, ac_capabilities := [''device.list''] \<rparr> \<rparr>"
  by (simp add: logged_in_def CreateSession_def demo_auth_def grants_all_def AuthzBaseUrl_def gets_io_def bind_io_def
      outside_def keep_if_ok_def seq_io_def when_io_def store_session_def modify_io_def ret_def session_of_def Let_def)

section \<open>Properties\<close>

text \<open>C30. What every operation does to the sessions, in every state the service can reach and whatever the
  provider or the private module answers: creating, refreshing and activating store the session they
  return when its code is ok, under its own connection and with its token, and change nothing
  otherwise or when they throw; charging a quota changes the context of the stored session only, and
  never creates one; destroying and closing remove the connection's session and no other.\<close>

theorem session_operations_decided:
  assumes "auth_reach env s"
  shows "wp_io (CreateSession env c token now) (stored c s) (same_sessions s) s \<and>
    wp_io (RefreshSession env c now) (stored c s) (same_sessions s) s \<and>
    wp_io (ActivateOffline env c code now) (stored c s) (same_sessions s) s \<and>
    wp_io (ConsumeQuota env c capability request_id units now) (charged c s) (same_sessions s) s \<and>
    map_of (au_sessions (snd (DestroySession c s))) = (map_of (au_sessions s))(c := None) \<and>
    map_of (au_sessions (snd (ClearConnection_auth c s))) = (map_of (au_sessions s))(c := None)"
proof -
  have inv: "auth_inv s" by (rule auth.inv_reach [OF assms])
  then have "smap_ok (au_sessions s)" by (simp add: auth_inv_def)
  then show ?thesis
    using wp_CreateSession wp_RefreshSession [OF inv] wp_ActivateOffline [OF inv] wp_ConsumeQuota [OF inv]
    by (simp add: DestroySession_def ClearConnection_auth_def seq_io_def bind_io_def modify_io_def ret_def)
qed

theorem session_operations_decided_witness:
  "map_of (au_sessions (snd (DestroySession ''c1'' logged_in))) ''c1'' = None"
  using session_operations_decided [OF reach_logged_in, of "''c1''" "[]" 0 "[]" "[]" "[]" 0] by simp



text \<open>Refreshing a session that is not an API key session calls the provider without asking whether there
  is one.  The bundle of the private build has none, so there the refresh of such a session is a call
  through a null pointer (the exception of the model stands for it).\<close>

theorem refresh_calls_missing_provider:
  assumes "ae_auth_provider env = None" and "map_of (au_sessions s) c = Some r"
    and "IsOkStatusCode (sn_code r)" and "\<not> recreates r"
  shows "RefreshSession env c now s = (Inl UnknownException, s)"
  using assms by (simp add: RefreshSession_def bind_io_def gets_io_def RequireSession_def with_auth_provider_def throw_def)

definition offline_reply :: json where
  "offline_reply = obj [(''code'', JInt 0), (''session_token'', JString ''st''),
     (''auth_context'', obj [(''license_mode'', JString ''offline_license'')])]"

definition private_auth :: "unit auth_env" where
  "private_auth = \<lparr> ae_private_build = True, ae_auth_provider = None,
     ae_api = no_module\<lparr> pa_create_session := Some (\<lambda>_. ret (Some [])), pa_free_string := True \<rparr>,
     ae_dump = (\<lambda>_. []), ae_parse = (\<lambda>_. Some offline_reply), ae_base_url = None \<rparr>"

theorem refresh_calls_missing_provider_witness:
  "fst (RefreshSession private_auth ''c1'' 1 (snd (CreateSession private_auth ''c1'' ''key'' 0
     \<lparr> au_sessions = [], au_outside = () \<rparr>))) = Inl UnknownException"
proof -
  obtain r where "map_of (au_sessions (snd (CreateSession private_auth ''c1'' ''key'' 0
     \<lparr> au_sessions = [], au_outside = () \<rparr>))) ''c1'' = Some r" "IsOkStatusCode (sn_code r)" "\<not> recreates r"
    by (simp add: CreateSession_def private_auth_def no_module_def CreatePrivateSessionWithCApi_def offline_reply_def
        TryParseJson_def AuthzBaseUrl_def gets_io_def bind_io_def outside_def keep_rebuilt_def seq_io_def Let_def
        store_session_def modify_io_def ret_def IntField_def StringField_def reply_context_def recreates_def
        RebuildLocalCapabilities_def AuthContextFromJson_def to_int32_def)
  from refresh_calls_missing_provider [OF _ this] show ?thesis by (simp add: private_auth_def)
qed

end
