(* ===== verification/Capture_Actions.thy ===== *)
theory Capture_Actions
  imports Capture_Task
begin

text \<open>
  What the workers of the capture task service do outside the lock: capture and stage the original
  (\<open>CaptureRaw\<close>, \<open>StageCapturedRaw\<close>) and process it (\<open>RunProcessingPipeline\<close>), over the world of
  \<open>Sdk_Effects\<close>.  A wait for the provider's callback is \<open>await_capture\<close>, as in the pipeline.
\<close>

section \<open>Capturing the original\<close>

definition CaptureRaw_task ::
    "os_env \<Rightarrow> string \<Rightarrow> 'e ProviderBundle \<Rightarrow> string \<Rightarrow> CaptureTaskStartRequest \<Rightarrow> ('e world, SdkCaptureResult) io" where
  "CaptureRaw_task os work_dir providers task_id request =
     (if cs_captured (tq_raw_capture request) then ret (tq_raw_capture request)
      else let dir = GetSdkOpenTaskAssetDir work_dir ''capture'' task_id ''raw'' in
        bind_io (world_op (EnsureDirectoryRecursive os dir)) (\<lambda>made.
        if \<not> made then
          ret (default_SdkCaptureResult
            \<lparr> cs_code := ToCode InternalError, cs_message := ''failed to create capture raw directory'' \<rparr>)
        else bind_io (CaptureStill providers (tq_auth_context request)
            \<lparr> cr_device_id = tq_device_id request, cr_output_dir = dir,
              cr_include_base64 = tq_include_base64 request, cr_timeout_ms = tq_timeout_ms request \<rparr>) (\<lambda>calls.
          ret (await_capture (tq_timeout_ms request) calls))))"

text \<open>The provider's file becomes the task's own \<open>original.jpg\<close>; a provider that names no file may have
  written it there itself.\<close>

definition capture_source :: "os_env \<Rightarrow> string \<Rightarrow> SdkCaptureResult \<Rightarrow> 'e world \<Rightarrow> string" where
  "capture_source os original raw w =
     (let source = (if cs_original_path raw \<noteq> [] then cs_original_path raw else cs_output_path raw)
      in if source = [] \<and> FileExists os original w then original else source)"

definition stage_original :: "os_env \<Rightarrow> string \<Rightarrow> SdkCaptureResult \<Rightarrow> ('e world, bool) io" where
  "stage_original os original raw =
     bind_io (gets_io (capture_source os original raw)) (\<lambda>source.
     bind_io (gets_io (FileExists os source)) (\<lambda>source_exists.
     bind_io (if source = [] \<or> \<not> source_exists then ret False
              else if source = original then ret True
              else world_op (CopyFileBinary os source original)) (\<lambda>persisted.
     bind_io (gets_io (FileExists os original)) (\<lambda>there. ret (persisted \<and> there)))))"

definition stage_laser_file :: "os_env \<Rightarrow> string \<Rightarrow> string \<Rightarrow> ('e world, bool) io" where
  "stage_laser_file os laser path =
     (if path \<noteq> laser then world_op (CopyFileBinary os path laser) else gets_io (FileExists os laser))"

text \<open>With the original in place, the result names it, and the laser image is staged if there is one.\<close>

definition stage_rest :: "os_env \<Rightarrow> string \<Rightarrow> string \<Rightarrow> SdkCaptureResult \<Rightarrow> ('e world, string + SdkCaptureResult) io" where
  "stage_rest os original laser raw =
     (let raw = raw\<lparr> cs_original_path := original, cs_output_path := original \<rparr> in
      if cs_laser_path raw = [] then ret (Inr raw)
      else bind_io (stage_laser_file os laser (cs_laser_path raw)) (\<lambda>ok.
        if \<not> ok then ret (Inl ''failed to persist captured laser image'')
        else ret (Inr (raw\<lparr>cs_laser_path := laser\<rparr>))))"

definition StageCapturedRaw ::
    "os_env \<Rightarrow> string \<Rightarrow> string \<Rightarrow> SdkCaptureResult \<Rightarrow> ('e world, string + SdkCaptureResult) io" where
  "StageCapturedRaw os work_dir task_id raw =
     (let raw_dir = GetSdkOpenTaskAssetDir work_dir ''capture'' task_id ''raw'';
          original = JoinPath raw_dir ''original.jpg'';
          laser = JoinPath raw_dir ''laser.jpg'' in
      bind_io (world_op (EnsureDirectoryRecursive os raw_dir)) (\<lambda>made.
      if \<not> made then ret (Inl ''failed to create capture raw directory'')
      else bind_io (stage_original os original raw) (\<lambda>staged.
        if \<not> staged then ret (Inl ''failed to persist captured original'')
        else stage_rest os original laser raw)))"

text \<open>The body of \<open>RunCaptureTask\<close> between its two critical sections: the message of the failure, or the
  staged capture.\<close>

definition capture_action ::
    "os_env \<Rightarrow> string \<Rightarrow> 'e ProviderBundle \<Rightarrow> string \<Rightarrow> CaptureTaskStartRequest \<Rightarrow>
     ('e world, string + SdkCaptureResult) io" where
  "capture_action os work_dir providers task_id request =
     bind_io (catch_io (bind_io (CaptureRaw_task os work_dir providers task_id request) (\<lambda>raw. ret (Inr raw)))
                (\<lambda>e. ret (Inl (what e ''capture action failed'')))) (\<lambda>result.
     case result of
       Inl message \<Rightarrow> ret (Inl message)
     | Inr raw \<Rightarrow>
         if \<not> IsOkStatusCode (cs_code raw) \<or> \<not> cs_captured raw then
           ret (Inl (or_text (cs_message raw) ''capture failed''))
         else StageCapturedRaw os work_dir task_id raw)"

section \<open>Processing the original\<close>

definition LocalFileSize :: "os_env \<Rightarrow> (string \<Rightarrow> nat) \<Rightarrow> string \<Rightarrow> 'e world \<Rightarrow> nat" where
  "LocalFileSize os dir_size path w =
     (if path = [] then 0
      else case w_files w (os_canon os path) of
        Some content \<Rightarrow> length content
      | None \<Rightarrow> if w_dirs w (os_canon os path) then dir_size (os_canon os path) else 0)"

definition CaptureEnhanceStepDir :: "string \<Rightarrow> string \<Rightarrow> nat \<Rightarrow> string" where
  "CaptureEnhanceStepDir work_dir task_id index =
     JoinPath (GetSdkOpenTaskAssetDir work_dir ''capture'' task_id ''assets'') (''enhance-step-'' @ pad3 (index + 1))"

definition is_final_asset :: "SdkCaptureAsset \<Rightarrow> bool" where
  "is_final_asset a \<longleftrightarrow> as_path a \<noteq> [] \<and> (as_kind a = ''final'' \<or> starts_with ''final_'' (as_kind a))"

definition enhance_pages :: "SdkCaptureAsset list \<Rightarrow> SdkImageEnhancePage list" where
  "enhance_pages assets =
     map (\<lambda>(n, a). default_SdkImageEnhancePage
            \<lparr> ep_source_index := int n, ep_output_index := int n, ep_path := as_path a \<rparr>)
       (enumerate 1 (filter is_final_asset assets))"

text \<open>One enabled step after the other; a failing step is skipped with a warning or ends the loop with its
  message.  The result is that message, the pages and the warnings.\<close>

fun enhance_steps ::
    "os_env \<Rightarrow> string \<Rightarrow> 'e ISdkImageEnhanceProvider \<Rightarrow> string \<Rightarrow> CaptureTaskStartRequest \<Rightarrow>
     (nat \<times> SdkImageEnhanceStep) list \<Rightarrow> SdkImageEnhancePage list \<Rightarrow> string list \<Rightarrow>
     ('e world, string option \<times> SdkImageEnhancePage list \<times> string list) io" where
  "enhance_steps os work_dir ip task_id request [] pages warnings = ret (None, pages, warnings)"
| "enhance_steps os work_dir ip task_id request ((index, step) # steps) pages warnings =
     (if \<not> es_enabled step then enhance_steps os work_dir ip task_id request steps pages warnings
      else let dir = CaptureEnhanceStepDir work_dir task_id index in
        seq_io (world_op (EnsureDirectoryRecursive os dir))
        (bind_io (ip_RunStep ip \<lparr> er_task_id = task_id, er_step = step, er_pages = pages, er_output_dir = dir,
            er_online_api_key = tq_online_api_key request, er_online_base_url = tq_online_base_url request \<rparr>) (\<lambda>result.
         if \<not> IsOkStatusCode (ers_code result) then
           if es_on_error step = ''skip'' then
             enhance_steps os work_dir ip task_id request steps pages
               (warnings @ [es_type step @ '' skipped: '' @ ers_message result])
           else ret (Some (ers_message result), pages, warnings)
         else enhance_steps os work_dir ip task_id request steps (ers_pages result) warnings)))"

definition enhance_stage :: "'e ISdkImageEnhanceProvider \<Rightarrow> string \<Rightarrow> string \<Rightarrow> SdkCaptureStageResult" where
  "enhance_stage ip status message = default_SdkCaptureStageResult
     \<lparr> sg_name := ''image_enhance'', sg_status := status, sg_provider := ip_ProviderName ip, sg_message := message \<rparr>"

definition enhanced_assets ::
    "os_env \<Rightarrow> (string \<Rightarrow> nat) \<Rightarrow> SdkImageEnhancePage list \<Rightarrow> 'e world \<Rightarrow> SdkCaptureAsset list" where
  "enhanced_assets os dir_size pages w =
     map (\<lambda>(n, p). default_SdkCaptureAsset
            \<lparr> as_asset_id := ''asset-enhanced-final-'' @ dec n, as_kind := ''final'', as_path := ep_path p,
              as_content_type := ''image/jpeg'', as_size := LocalFileSize os dir_size (ep_path p) w \<rparr>)
       (enumerate 1 pages)"

definition enhance_result ::
    "os_env \<Rightarrow> (string \<Rightarrow> nat) \<Rightarrow> string \<Rightarrow> 'e ISdkImageEnhanceProvider \<Rightarrow> string \<Rightarrow> CaptureTaskStartRequest \<Rightarrow>
     SdkImageEnhancePage list \<Rightarrow> CapturePipelineResult \<Rightarrow> ('e world, CapturePipelineResult) io" where
  "enhance_result os dir_size work_dir ip task_id request pages result =
     bind_io (enhance_steps os work_dir ip task_id request (enumerate 0 (el_steps (tq_pipeline request))) pages
                (pr_warnings result)) (\<lambda>(failure, pages, warnings).
     let stage = (case failure of Some m \<Rightarrow> enhance_stage ip ''failed'' m | None \<Rightarrow> enhance_stage ip ''succeeded'' ''ok'');
         result = result\<lparr> pr_warnings := warnings, pr_stages := pr_stages result @ [stage] \<rparr> in
     if failure \<noteq> None \<or> pages = [] then
       ret (result\<lparr> pr_code := ToCode ProviderCallFailed,
         pr_message := (case failure of Some m \<Rightarrow> m | None \<Rightarrow> ''image enhance produced no output pages''),
         pr_status := ''failed'' \<rparr>)
     else bind_io (gets_io (enhanced_assets os dir_size pages)) (\<lambda>assets. ret (result\<lparr>pr_assets := assets\<rparr>)))"

definition pipeline_request :: "string \<Rightarrow> CaptureTaskStartRequest \<Rightarrow> CapturePipelineRequest" where
  "pipeline_request task_id request =
     \<lparr> pq_task_id = task_id, pq_device_id = tq_device_id request, pq_output_dir = tq_output_dir request,
       pq_include_base64 = tq_include_base64 request, pq_timeout_ms = tq_timeout_ms request,
       pq_auth_context = tq_auth_context request, pq_profile = tq_profile request,
       pq_raw_capture = tq_raw_capture request \<rparr>"

text \<open>The result, the calls of the stage callback, and the stage events published beside it: the
  announcement of the enhancement is published without going through the callback.\<close>

definition RunProcessingPipeline ::
    "os_env \<Rightarrow> (string \<Rightarrow> nat) \<Rightarrow> string \<Rightarrow> 'e ProviderBundle \<Rightarrow> string \<Rightarrow> CaptureTaskStartRequest \<Rightarrow> 'e world \<Rightarrow>
     (exn + CapturePipelineResult) \<times> SdkCaptureStageResult list \<times> SdkCaptureStageResult list \<times> 'e world" where
  "RunProcessingPipeline os dir_size work_dir providers task_id request w =
     (case Run \<lparr> pe_os = os, pe_work_dir = work_dir, pe_providers = providers,
                 pe_request = pipeline_request task_id request \<rparr> w of
        (Inl e, calls, w) \<Rightarrow> (Inl e, calls, [], w)
      | (Inr result, calls, w) \<Rightarrow>
          if \<not> IsOkStatusCode (pr_code result) \<or> el_steps (tq_pipeline request) = [] then (Inr result, calls, [], w)
          else case image_enhance_provider providers of
            None \<Rightarrow> (Inr result, calls, [], w)
          | Some ip \<Rightarrow>
              let pages = enhance_pages (pr_assets result) in
              if pages = [] then (Inr result, calls, [], w)
              else (case enhance_result os dir_size work_dir ip task_id request pages result w of
                (r, w) \<Rightarrow> (r, calls, [enhance_stage ip ''running'' ''running''], w)))"

text \<open>What \<open>RunProcessingQueue\<close> completes the task with.\<close>

definition processing_outcome :: "exn + CapturePipelineResult \<Rightarrow> CapturePipelineResult" where
  "processing_outcome r =
     (case r of
        Inr result \<Rightarrow> result
      | Inl e \<Rightarrow> default_CapturePipelineResult
          \<lparr> pr_code := ToCode InternalError, pr_message := what e ''capture processing failed'',
            pr_status := ''failed'' \<rparr>)"

end
