(* ===== verification/Action_Claims.thy ===== *)
theory Action_Claims
  imports Capture_Actions Capture_Machine Pipeline_Props
begin

text \<open>
  The properties of the actions of the capture workers: what a staged capture guarantees, how staging
  can destroy an original, which pages are enhanced, and that a processing run ends in one of the two
  statuses the machine of \<open>Capture_Machine\<close> takes for granted.
\<close>

section \<open>Staging\<close>

definition original_of :: "string \<Rightarrow> string \<Rightarrow> string" where
  "original_of work_dir task_id = JoinPath (GetSdkOpenTaskAssetDir work_dir ''capture'' task_id ''raw'') ''original.jpg''"

definition laser_of :: "string \<Rightarrow> string \<Rightarrow> string" where
  "laser_of work_dir task_id = JoinPath (GetSdkOpenTaskAssetDir work_dir ''capture'' task_id ''raw'') ''laser.jpg''"

lemma wp_stage_original:
  "wp_io (stage_original os original raw)
     (\<lambda>staged w'. staged \<longrightarrow> original \<noteq> [] \<and> (\<exists>c. w_files w (os_canon os (capture_source os original raw w)) = Some c \<and>
        w_files w' = (w_files w)(os_canon os original \<mapsto> c)))
     (\<lambda>_. False) w"
proof (cases "capture_source os original raw w = [] \<or> \<not> FileExists os (capture_source os original raw w) w")
  case True
  then show ?thesis by (auto simp: stage_original_def wp_simps)
next
  case False
  then obtain c where c: "w_files w (os_canon os (capture_source os original raw w)) = Some c"
    by (auto simp: FileExists_def)
  show ?thesis
  proof (cases "capture_source os original raw w = original")
    case True
    with False c show ?thesis by (auto simp: stage_original_def wp_simps fun_upd_idem)
  next
    case other: False
    obtain b w' where copy: "CopyFileBinary os (capture_source os original raw w) original w = (b, w')" by force
    show ?thesis
    proof (cases b)
      case True
      with copy have "CopyFileBinary os (capture_source os original raw w) original w = (True, w')" by simp
      from CopyFileBinary_True [OF this] c have "w_files w' = (w_files w)(os_canon os original \<mapsto> c)" by auto
      with True False other copy c show ?thesis by (auto simp: stage_original_def wp_simps FileExists_def)
    next
      case b: False
      with False other copy show ?thesis by (auto simp: stage_original_def wp_simps)
    qed
  qed
qed

lemma wp_stage_laser_file:
  assumes "os_canon os laser \<noteq> os_canon os original"
  shows "wp_io (stage_laser_file os laser path) (\<lambda>ok w'. ok \<longrightarrow>
    w_files w' (os_canon os original) = w_files w (os_canon os original) \<and> w_files w' (os_canon os laser) \<noteq> None)
    (\<lambda>_. False) w"
proof -
  obtain b w' where copy: "CopyFileBinary os path laser w = (b, w')" by force
  then show ?thesis
    using CopyFileBinary_True [of os path laser w w'] assms
    by (cases b) (auto simp: stage_laser_file_def wp_simps FileExists_def)
qed

definition staged_result :: "string \<Rightarrow> string \<Rightarrow> SdkCaptureResult \<Rightarrow> SdkCaptureResult" where
  "staged_result original laser raw = raw\<lparr> cs_original_path := original, cs_output_path := original,
     cs_laser_path := (if cs_laser_path raw = [] then [] else laser) \<rparr>"

lemma wp_stage_rest:
  assumes "os_canon os laser \<noteq> os_canon os original"
  shows "wp_io (stage_rest os original laser raw) (\<lambda>r w'. \<forall>raw'. r = Inr raw' \<longrightarrow> raw' = staged_result original laser raw \<and>
    w_files w' (os_canon os original) = w_files w (os_canon os original) \<and>
    (cs_laser_path raw \<noteq> [] \<longrightarrow> w_files w' (os_canon os laser) \<noteq> None)) (\<lambda>_. False) w"
proof (cases "cs_laser_path raw = []")
  case True
  then show ?thesis by (simp add: stage_rest_def Let_def wp_simps staged_result_def)
next
  case False
  then show ?thesis
    by (simp add: stage_rest_def Let_def wpio_bind)
      (rule wpio_mono [OF wp_stage_laser_file [OF assms]], auto simp: wp_simps staged_result_def)
qed

text \<open>C33. A capture that is staged is on disk: the result names the task's own \<open>original.jpg\<close> as both of its
  paths, and that file has the content of the file the provider named (or wrote there); if there is a
  laser image, it is at the task's own \<open>laser.jpg\<close>, as a file.  Nothing else of the result changes.\<close>

theorem staged_capture_is_on_disk:
  assumes "StageCapturedRaw os work_dir task_id raw w = (Inr (Inr raw'), w')"
    and "os_canon os (laser_of work_dir task_id) \<noteq> os_canon os (original_of work_dir task_id)"
  shows "(\<exists>c. w_files w (os_canon os (capture_source os (original_of work_dir task_id) raw w)) = Some c \<and>
      w_files w' (os_canon os (original_of work_dir task_id)) = Some c) \<and>
    FileExists os (original_of work_dir task_id) w' \<and>
    (cs_laser_path raw \<noteq> [] \<longrightarrow> w_files w' (os_canon os (laser_of work_dir task_id)) \<noteq> None) \<and>
    raw' = raw\<lparr> cs_original_path := original_of work_dir task_id, cs_output_path := original_of work_dir task_id,
      cs_laser_path := (if cs_laser_path raw = [] then [] else laser_of work_dir task_id) \<rparr>"
proof -
  let ?o = "original_of work_dir task_id" and ?l = "laser_of work_dir task_id"
  let ?dir = "GetSdkOpenTaskAssetDir work_dir ''capture'' task_id ''raw''"
  obtain made w1 where dir: "EnsureDirectoryRecursive os ?dir w = (made, w1)" by force
  have files: "w_files w1 = w_files w"
    using EnsureDirectoryRecursive_frame(1) [of os ?dir w] dir by simp
  then have source: "capture_source os ?o raw w1 = capture_source os ?o raw w"
    by (simp add: capture_source_def FileExists_def)
  obtain w2 where made and staged: "stage_original os ?o raw w1 = (Inr True, w2)"
    and rest: "stage_rest os ?o ?l raw w2 = (Inr (Inr raw'), w')"
    using assms(1) dir
    by (auto simp: StageCapturedRaw_def Let_def bind_io_def world_op_def ret_def original_of_def laser_of_def
        split: if_splits prod.splits sum.splits)
  obtain c where "?o \<noteq> []" "w_files w (os_canon os (capture_source os ?o raw w)) = Some c"
      "w_files w2 (os_canon os ?o) = Some c"
    using wp_stage_original [of os ?o raw w1] staged by (auto simp: wp_io_def files source)
  with wp_stage_rest [OF assms(2), of raw w2] rest show ?thesis
    by (auto simp: wp_io_def staged_result_def FileExists_def)
qed

text \<open>Staging can destroy the original it is meant to keep: when the provider names the task's own
  \<open>original.jpg\<close> by another spelling of its path, the file is truncated before it is read, nothing is
  left of it, and the capture fails.\<close>

theorem respelled_original_is_destroyed:
  assumes "cs_original_path raw \<noteq> []" and "cs_original_path raw \<noteq> original_of work_dir task_id"
    and "os_canon os (cs_original_path raw) = os_canon os (original_of work_dir task_id)"
    and "FileExists os (cs_original_path raw) w" and "\<not> w_dirs w' (os_canon os (original_of work_dir task_id))"
    and "EnsureDirectoryRecursive os (GetSdkOpenTaskAssetDir work_dir ''capture'' task_id ''raw'') w = (True, w')"
    and "\<And>n. \<not> os_refuses os n"
  shows "\<exists>w''. StageCapturedRaw os work_dir task_id raw w = (Inr (Inl ''failed to persist captured original''), w'') \<and>
    w_files w'' (os_canon os (original_of work_dir task_id)) = Some []"
proof -
  let ?o = "original_of work_dir task_id"
  have files: "w_files w' = w_files w"
    using EnsureDirectoryRecursive_frame(1) [of os _ w] assms(6) by (metis snd_conv)
  obtain b w'' where copy: "CopyFileBinary os (cs_original_path raw) ?o w' = (b, w'')" by force
  have "\<not> b \<and> w_files w'' (os_canon os ?o) = Some []"
    using copy assms(3-5, 7) files
    by (auto simp: CopyFileBinary_def syscall_def Let_def FileExists_def split: if_splits)
  then show ?thesis
    using assms(1, 2, 4, 6) copy files
    by (auto simp: StageCapturedRaw_def Let_def bind_io_def world_op_def ret_def stage_original_def gets_io_def
        capture_source_def FileExists_def original_of_def split: if_splits)
qed

definition demo_os :: os_env where
  "demo_os = \<lparr> os_canon = (\<lambda>p. if p = ''./o'' then ''/w/tasks/capture/t/raw/original.jpg'' else p), os_refuses = (\<lambda>_. False) \<rparr>"

definition demo_files :: "string \<Rightarrow> unit world" where
  "demo_files p = \<lparr> w_files = [p \<mapsto> ''jpg''], w_dirs = (\<lambda>d. d = ''/w/tasks/capture/t/raw''), w_calls = 0, w_ext = () \<rparr>"

lemma demo_paths [simp]:
  "GetSdkOpenTaskAssetDir ''/w'' ''capture'' ''t'' ''raw'' = ''/w/tasks/capture/t/raw''"
  "original_of ''/w'' ''t'' = ''/w/tasks/capture/t/raw/original.jpg''"
  "laser_of ''/w'' ''t'' = ''/w/tasks/capture/t/raw/laser.jpg''"
  by code_simp+

lemma demo_dir: "EnsureDirectoryRecursive demo_os ''/w/tasks/capture/t/raw'' (demo_files p) = (True, demo_files p)"
  by (simp add: EnsureDirectoryRecursive_def DirectoryExists_def demo_os_def demo_files_def)

lemma demo_dir_fields [simp]: "w_dirs (demo_files p) d \<longleftrightarrow> d = ''/w/tasks/capture/t/raw''"
  "w_files (demo_files p) = [p \<mapsto> ''jpg'']" "os_refuses demo_os n = False" "os_canon demo_os ''/tmp/a.jpg'' = ''/tmp/a.jpg''"
  "os_canon demo_os ''/w/tasks/capture/t/raw/original.jpg'' = ''/w/tasks/capture/t/raw/original.jpg''"
  "os_canon demo_os ''/w/tasks/capture/t/raw/laser.jpg'' = ''/w/tasks/capture/t/raw/laser.jpg''"
  "os_canon demo_os ''./o'' = ''/w/tasks/capture/t/raw/original.jpg''"
  by (simp_all add: demo_files_def demo_os_def)

theorem staged_capture_is_on_disk_witness:
  "\<exists>raw' w'. StageCapturedRaw demo_os ''/w'' ''t'' (default_SdkCaptureResult\<lparr>cs_original_path := ''/tmp/a.jpg''\<rparr>)
       (demo_files ''/tmp/a.jpg'') = (Inr (Inr raw'), w') \<and>
     w_files w' ''/w/tasks/capture/t/raw/original.jpg'' = Some ''jpg''"
proof -
  let ?raw = "default_SdkCaptureResult\<lparr>cs_original_path := ''/tmp/a.jpg''\<rparr>"
  have "\<exists>raw' w'. StageCapturedRaw demo_os ''/w'' ''t'' ?raw (demo_files ''/tmp/a.jpg'') = (Inr (Inr raw'), w')"
    by (simp add: StageCapturedRaw_def Let_def bind_io_def world_op_def ret_def demo_dir stage_original_def gets_io_def
        capture_source_def FileExists_def CopyFileBinary_def syscall_def stage_rest_def default_SdkCaptureResult_def
        flip: original_of_def)
      (simp add: original_of_def JoinPath_def is_sep_def PreferredPathSeparator_def)
  then obtain raw' w' where run: "StageCapturedRaw demo_os ''/w'' ''t'' ?raw (demo_files ''/tmp/a.jpg'') = (Inr (Inr raw'), w')"
    by blast
  from staged_capture_is_on_disk [OF run] have "w_files w' ''/w/tasks/capture/t/raw/original.jpg'' = Some ''jpg''"
    by (auto simp: capture_source_def FileExists_def)
  with run show ?thesis by blast
qed

theorem respelled_original_is_destroyed_witness:
  "\<exists>w''. StageCapturedRaw demo_os ''/w'' ''t'' (default_SdkCaptureResult\<lparr>cs_original_path := ''./o''\<rparr>)
      (demo_files ''/w/tasks/capture/t/raw/original.jpg'') = (Inr (Inl ''failed to persist captured original''), w'') \<and>
    w_files w'' ''/w/tasks/capture/t/raw/original.jpg'' = Some []"
  using respelled_original_is_destroyed [of "default_SdkCaptureResult\<lparr>cs_original_path := ''./o''\<rparr>" "''/w''" "''t''" demo_os
      "demo_files ''/w/tasks/capture/t/raw/original.jpg''" "demo_files ''/w/tasks/capture/t/raw/original.jpg''"]
  by (simp add: demo_dir FileExists_def)

section \<open>Enhancement\<close>

text \<open>The enhancement takes the thumbnail of the final page for a page: every asset of the kind of a final
  thumbnail that has a path becomes an input page of the first step, next to the page it shows.\<close>

theorem final_thumbnail_is_enhanced:
  assumes "as_kind a = tn_kind (BuildThumbnailSpecForOutput cx Final output single)"
    and "as_path a \<noteq> []" and "a \<in> set assets"
  shows "\<exists>p \<in> set (enhance_pages assets). ep_path p = as_path a"
proof -
  have "is_final_asset a"
    using assms(1, 2) by (simp add: is_final_asset_def BuildThumbnailSpecForOutput_def Let_def starts_with_def)
  with assms(3) have "a \<in> set (filter is_final_asset assets)" by simp
  then obtain n where "(n, a) \<in> set (enumerate 1 (filter is_final_asset assets))"
    by (metis in_set_conv_nth in_set_enumerate_eq le_add1 nth_enumerate_eq add.commute
        length_enumerate nth_mem)
  then show ?thesis by (force simp: enhance_pages_def)
qed

theorem final_thumbnail_is_enhanced_witness:
  "\<exists>p \<in> set (enhance_pages [MakeAsset ''asset-thumbnail-final'' ''final_thumbnail'' ''/o/t.jpg'' ''image/jpeg'' 0 0 9]).
     ep_path p = ''/o/t.jpg''"
  using final_thumbnail_is_enhanced [of "MakeAsset ''asset-thumbnail-final'' ''final_thumbnail'' ''/o/t.jpg'' ''image/jpeg'' 0 0 9"
      undefined undefined True "[MakeAsset ''asset-thumbnail-final'' ''final_thumbnail'' ''/o/t.jpg'' ''image/jpeg'' 0 0 9]"]
  by (simp add: MakeAsset_def BuildThumbnailSpecForOutput_def Let_def)

lemma run_status:
  assumes "Run cx w = (Inr r, evs, w')"
  shows "pr_status r = ''succeeded'' \<or> pr_status r = ''failed''"
proof -
  obtain st s where run: "pipeline_body cx (new_pctx cx w) = (Inr st, s)" and r: "r = run_result st s"
    using assms by (auto simp: Run_def split: prod.splits sum.splits)
  have "run_post st s" using pipeline_body_post [of cx w] run by (simp add: wp_io_def)
  then show ?thesis
    by (cases st) (auto simp: run_post_def r run_result_def Result_def default_CapturePipelineResult_def Let_def finalized_def)
qed

definition enhanced :: "CapturePipelineResult \<Rightarrow> bool" where
  "enhanced r \<longleftrightarrow> pr_assets r \<noteq> [] \<and> (\<forall>a \<in> set (pr_assets r). as_kind a = ''final'') \<and>
     map as_asset_id (pr_assets r) = map (\<lambda>n. ''asset-enhanced-final-'' @ dec n) [1..<length (pr_assets r) + 1]"

lemma enhanced_ids:
  "map as_asset_id (enhanced_assets os dir_size pages w) =
   map (\<lambda>n. ''asset-enhanced-final-'' @ dec n) (map fst (enumerate 1 pages))"
  by (simp add: enhanced_assets_def comp_def split_def del: map_fst_enumerate)

lemma enhanced_result: "pages \<noteq> [] \<Longrightarrow> enhanced (r\<lparr>pr_assets := enhanced_assets os dir_size pages w\<rparr>)"
proof -
  have "length (enhanced_assets os dir_size pages w) = length pages" by (simp add: enhanced_assets_def)
  moreover assume "pages \<noteq> []"
  ultimately show ?thesis
    unfolding enhanced_def
    by (auto simp: enhanced_ids map_fst_enumerate simp del: upt_Suc) (auto simp: enhanced_assets_def)
qed

lemma wp_enhance_result:
  "wp_io (enhance_result os dir_size work_dir ip task_id request pages result)
     (\<lambda>r _. pr_status r = ''failed'' \<and> pr_code r = ToCode ProviderCallFailed \<or>
        pr_status r = pr_status result \<and> pr_code r = pr_code result \<and> enhanced r) (\<lambda>_. True) w"
  unfolding enhance_result_def wpio_bind
  by (rule wpio_mono [where Q = "\<lambda>_ _. True" and E = "\<lambda>_. True"], simp add: wp_io_def split: prod.split sum.split)
    (auto simp: wp_simps Let_def split_def intro: enhanced_result)



end
