(* ===== verification/Enhance_Types.thy ===== *)
theory Enhance_Types
  imports Provider_Types
begin

text \<open>
  The structs of \<open>interfaces/sdk_provider_types.h\<close> that the image enhancement tasks and the file
  conversion use, with their default member initialisers.
\<close>

record SdkImageEnhanceCapability =
  ec_type :: string
  ec_title :: string
  ec_description :: string
  ec_i18n_key :: string
  ec_title_zh_cn :: string
  ec_description_zh_cn :: string
  ec_category :: string
  ec_runtime :: string
  ec_available :: bool
  ec_unavailable_reason :: string
  ec_unavailable_reason_zh_cn :: string
  ec_requires_capability :: string
  ec_quota_unit :: string
  ec_source_types :: "string list"
  ec_min_pages :: int
  ec_max_pages :: int
  ec_page_effect :: string
  ec_metadata :: bool
  ec_order_hint :: int
  ec_version :: string
  ec_defaults_json :: string
  ec_schema_json :: string

definition default_SdkImageEnhanceCapability :: SdkImageEnhanceCapability where
  "default_SdkImageEnhanceCapability = \<lparr> ec_type = '''', ec_title = '''', ec_description = '''', ec_i18n_key = '''', ec_title_zh_cn = '''',
     ec_description_zh_cn = '''', ec_category = '''', ec_runtime = ''offline'', ec_available = True,
     ec_unavailable_reason = '''', ec_unavailable_reason_zh_cn = '''',
     ec_requires_capability = '''', ec_quota_unit = ''page'', ec_source_types = [], ec_min_pages = 1,
     ec_max_pages = 1000, ec_page_effect = ''transform'', ec_metadata = False, ec_order_hint = 0,
     ec_version = ''1.0'', ec_defaults_json = ''{}'', ec_schema_json = ''{}'' \<rparr>"

record SdkImageEnhanceCapabilityResult =
  ecr_code :: int
  ecr_message :: string
  ecr_provider :: string
  ecr_kind :: string
  ecr_available :: bool
  ecr_capabilities :: "SdkImageEnhanceCapability list"

definition default_SdkImageEnhanceCapabilityResult :: SdkImageEnhanceCapabilityResult where
  "default_SdkImageEnhanceCapabilityResult = \<lparr> ecr_code = ToCode Ok, ecr_message = ''ok'', ecr_provider = '''', ecr_kind = ''offline'',
     ecr_available = True, ecr_capabilities = [] \<rparr>"

record SdkImageEnhanceStepSnapshot =
  en_id :: string
  en_type :: string
  en_status :: string
  en_provider :: string
  en_input_page_count :: int
  en_output_page_count :: int
  en_metadata_json :: string
  en_warnings :: "string list"
  en_message :: string

definition default_SdkImageEnhanceStepSnapshot :: SdkImageEnhanceStepSnapshot where
  "default_SdkImageEnhanceStepSnapshot = \<lparr> en_id = '''', en_type = '''', en_status = ''queued'', en_provider = '''', en_input_page_count = 0,
     en_output_page_count = 0, en_metadata_json = ''{}'', en_warnings = [], en_message = ''queued'' \<rparr>"

record SdkImageEnhanceTaskSnapshot =
  it_code :: int
  it_message :: string
  it_task_id :: string
  it_connection_id :: string
  it_status :: string
  it_phase :: string
  it_progress :: int
  it_input_page_count :: int
  it_output_page_count :: int
  it_pages :: "SdkImageEnhancePage list"
  it_steps :: "SdkImageEnhanceStepSnapshot list"
  it_assets :: "SdkCaptureAsset list"
  it_warnings :: "string list"
  it_output_path :: string
  it_output_paths :: "string list"
  it_output_type :: string
  it_output_format :: string
  it_export_type :: string
  it_error :: string
  it_cancel_requested :: bool

definition default_SdkImageEnhanceTaskSnapshot :: SdkImageEnhanceTaskSnapshot where
  "default_SdkImageEnhanceTaskSnapshot = \<lparr> it_code = ToCode Ok, it_message = ''ok'', it_task_id = '''', it_connection_id = '''',
     it_status = ''queued'', it_phase = ''queued'', it_progress = 0, it_input_page_count = 0,
     it_output_page_count = 0, it_pages = [], it_steps = [], it_assets = [], it_warnings = [],
     it_output_path = '''', it_output_paths = [], it_output_type = ''images'',
     it_output_format = ''jpg'', it_export_type = ''single-page'', it_error = '''',
     it_cancel_requested = False \<rparr>"

record SdkImageEnhanceTaskRequest =
  iq_connection_id :: string
  iq_input_paths :: "string list"
  iq_output_dir :: string
  iq_pipeline :: SdkImageEnhancePipeline
  iq_online_api_key :: string
  iq_online_session_token :: string
  iq_online_base_url :: string
  iq_authz_base_url :: string

definition default_SdkImageEnhanceTaskRequest :: SdkImageEnhanceTaskRequest where
  "default_SdkImageEnhanceTaskRequest = \<lparr> iq_connection_id = '''', iq_input_paths = [], iq_output_dir = '''',
     iq_pipeline = default_SdkImageEnhancePipeline, iq_online_api_key = '''',
     iq_online_session_token = '''', iq_online_base_url = '''', iq_authz_base_url = '''' \<rparr>"

record SdkImageEnhanceTaskResult =
  ir_code :: int
  ir_message :: string
  ir_accepted :: bool
  ir_task_id :: string
  ir_task :: SdkImageEnhanceTaskSnapshot

definition default_SdkImageEnhanceTaskResult :: SdkImageEnhanceTaskResult where
  "default_SdkImageEnhanceTaskResult = \<lparr> ir_code = ToCode Ok, ir_message = ''ok'', ir_accepted = False, ir_task_id = '''',
     ir_task = default_SdkImageEnhanceTaskSnapshot \<rparr>"

record SdkImageEnhanceGetRequest =
  ig_task_id :: string

definition default_SdkImageEnhanceGetRequest :: SdkImageEnhanceGetRequest where
  "default_SdkImageEnhanceGetRequest = \<lparr> ig_task_id = '''' \<rparr>"

record SdkImageEnhanceCancelRequest =
  ic_task_id :: string

definition default_SdkImageEnhanceCancelRequest :: SdkImageEnhanceCancelRequest where
  "default_SdkImageEnhanceCancelRequest = \<lparr> ic_task_id = '''' \<rparr>"

record SdkFileConvertRequest =
  fq_input_upload_id :: string
  fq_input_upload_ids :: "string list"
  fq_input_path :: string
  fq_input_paths :: "string list"
  fq_output_path :: string
  fq_output_dir :: string
  fq_output_format :: string
  fq_source_type :: string
  fq_source_format :: string
  fq_target_type :: string
  fq_export_type :: string
  fq_pages :: string
  fq_quality :: int
  fq_render_dpi :: int
  fq_tiff_color :: string
  fq_tiff_compression :: string

definition default_SdkFileConvertRequest :: SdkFileConvertRequest where
  "default_SdkFileConvertRequest = \<lparr> fq_input_upload_id = '''', fq_input_upload_ids = [], fq_input_path = '''', fq_input_paths = [],
     fq_output_path = '''', fq_output_dir = '''', fq_output_format = '''',
     fq_source_type = ''image'', fq_source_format = '''', fq_target_type = '''',
     fq_export_type = ''multi-page'', fq_pages = ''all'', fq_quality = 90, fq_render_dpi = 144,
     fq_tiff_color = ''color'', fq_tiff_compression = ''lzw'' \<rparr>"

record SdkFileConvertResult =
  fr_code :: int
  fr_message :: string
  fr_accepted :: int
  fr_converted :: int
  fr_output_path :: string
  fr_output_paths :: "string list"
  fr_source_format :: string
  fr_source_page_count :: int
  fr_selected_page_count :: int

definition default_SdkFileConvertResult :: SdkFileConvertResult where
  "default_SdkFileConvertResult = \<lparr> fr_code = ToCode Ok, fr_message = ''ok'', fr_accepted = 0, fr_converted = 0,
     fr_output_path = '''', fr_output_paths = [], fr_source_format = '''', fr_source_page_count = 0,
     fr_selected_page_count = 0 \<rparr>"

end
