(* ===== verification/Enhance_Task.thy ===== *)
theory Enhance_Task
  imports Enhance_Types Device_Facade Auth_Service
begin

text \<open>
  The image enhancement task service (\<open>application/image_enhance_task_service.cpp\<close>).  A worker thread
  runs a task from begin to end (\<open>RunTask\<close>) while other threads start, cancel and clear tasks.  Each
  critical section is one function on the service; \<open>locked\<close> enters it, after whatever the other threads
  did to the service since the last one: \<open>sy_others\<close> holds these interferences in order, as arbitrary
  functions, so that a theorem about every list of them covers every interleaving.
\<close>

section \<open>Formats and paths\<close>

definition FileSize_enhance :: "os_env \<Rightarrow> (string \<Rightarrow> nat) \<Rightarrow> string \<Rightarrow> 'e world \<Rightarrow> nat" where
  "FileSize_enhance os dir_size path w =
     (if path = [] then 0
      else case w_files w (os_canon os path) of
        Some content \<Rightarrow> length content
      | None \<Rightarrow> if w_dirs w (os_canon os path) then dir_size (os_canon os path) else 0)"

definition JoinLocalPath :: "string \<Rightarrow> string \<Rightarrow> string" where
  "JoinLocalPath dir name =
     (if dir = [] \<or> dir = ''.'' then name
      else if last dir = CHR ''/'' then dir @ name
      else dir @ ''/'' @ name)"

definition short_format :: "string \<Rightarrow> string" where
  "short_format value = (if value = ''jpeg'' then ''jpg'' else if value = ''tif'' then ''tiff'' else value)"

definition leaf_of :: "string \<Rightarrow> string" where
  "leaf_of path = rev (takeWhile (\<lambda>c. \<not> is_sep c) (rev path))"

definition ExtensionFromPath :: "string \<Rightarrow> string" where
  "ExtensionFromPath path =
     (let leaf = leaf_of path; extension = rev (takeWhile (\<lambda>c. c \<noteq> CHR ''.'') (rev leaf))
      in if CHR ''.'' \<notin> set leaf \<or> extension = [] then [] else short_format (to_lower extension))"

definition NormalizeFormat :: "string \<Rightarrow> string" where
  "NormalizeFormat format =
     (let value = to_lower format in if value = [] then ''jpg'' else short_format value)"

definition ExtensionForFormat_enhance :: "string \<Rightarrow> string" where
  "ExtensionForFormat_enhance format =
     (let normalized = NormalizeFormat format in if normalized = ''jpeg'' then ''jpg'' else normalized)"

definition ContentTypeForFormat_enhance :: "string \<Rightarrow> string" where
  "ContentTypeForFormat_enhance format =
     (let normalized = NormalizeFormat format in
      if normalized = ''png'' then ''image/png''
      else if normalized = ''tiff'' then ''image/tiff''
      else if normalized = ''pdf'' then ''application/pdf''
      else if normalized = ''ofd'' then ''application/ofd''
      else ''image/jpeg'')"

definition IsDocumentTarget :: "string \<Rightarrow> bool" where
  "IsDocumentTarget target = (NormalizeFormat target \<in> {''pdf'', ''ofd'', ''tiff''})"

definition PageOutputPath :: "string \<Rightarrow> nat \<Rightarrow> string \<Rightarrow> string" where
  "PageOutputPath output_dir index format =
     JoinLocalPath output_dir (''enhanced-page-'' @ pad3 index @ ''.'' @ ExtensionForFormat_enhance format)"

text \<open>\<open>CopyFile\<close> opens, and so truncates, its output before it looks at the input.\<close>

definition CopyFile :: "os_env \<Rightarrow> string \<Rightarrow> string \<Rightarrow> 'e world \<Rightarrow> bool \<times> 'e world" where
  "CopyFile os input_path output_path w =
     (let i = os_canon os input_path; out = os_canon os output_path;
          (granted_in, w) = syscall os w;
          opened_in = (granted_in \<and> w_files w i \<noteq> None);
          (granted_out, w) = syscall os w;
          opened_out = (granted_out \<and> \<not> w_dirs w out);
          w = (if opened_out then w\<lparr>w_files := (w_files w)(out \<mapsto> [])\<rparr> else w)
      in if \<not> opened_in \<or> \<not> opened_out then (False, w)
         else let content = the (w_files w i); (written, w) = syscall os w
         in if content = [] \<or> \<not> written then (False, w)
            else (True, w\<lparr>w_files := (w_files w)(out \<mapsto> content)\<rparr>))"

section \<open>JSON of the capabilities and tasks\<close>

definition ParseJsonOrObject :: "(string \<Rightarrow> json option) \<Rightarrow> string \<Rightarrow> json" where
  "ParseJsonOrObject parse value =
     (if value = [] then JObject [] else case parse value of Some j \<Rightarrow> j | None \<Rightarrow> JObject [])"

definition strings_json :: "string list \<Rightarrow> json" where
  "strings_json xs = JArray (map JString xs)"

definition BuildAssetJsonLocal :: "SdkCaptureAsset \<Rightarrow> json" where
  "BuildAssetJsonLocal asset = obj
     [(''asset_id'', JString (as_asset_id asset)), (''kind'', JString (as_kind asset)),
      (''path'', JString (as_path asset)), (''url'', JString (as_url asset)),
      (''download_url'', JString (as_download_url asset)),
      (''content_type'', JString (as_content_type asset)), (''width'', JInt (as_width asset)),
      (''height'', JInt (as_height asset)), (''size'', JInt (int (as_size asset)))]"

definition localized_en :: "SdkImageEnhanceCapability \<Rightarrow> json" where
  "localized_en c =
     (let j = obj [(''title'', JString (ec_title c)), (''description'', JString (ec_description c))]
      in if ec_unavailable_reason c \<noteq> [] then set_member ''unavailable_reason'' (JString (ec_unavailable_reason c)) j
         else j)"

definition localized_zh :: "SdkImageEnhanceCapability \<Rightarrow> json" where
  "localized_zh c =
     (let j = obj
        [(''title'', JString (if ec_title_zh_cn c = [] then ec_title c else ec_title_zh_cn c)),
         (''description'', JString (if ec_description_zh_cn c = [] then ec_description c else ec_description_zh_cn c))]
      in if ec_unavailable_reason c \<noteq> [] \<or> ec_unavailable_reason_zh_cn c \<noteq> [] then
           set_member ''unavailable_reason''
             (JString (if ec_unavailable_reason_zh_cn c = [] then ec_unavailable_reason c
                       else ec_unavailable_reason_zh_cn c)) j
         else j)"

definition capability_json :: "(string \<Rightarrow> json option) \<Rightarrow> SdkImageEnhanceCapability \<Rightarrow> json" where
  "capability_json parse c = obj
     [(''type'', JString (ec_type c)), (''title'', JString (ec_title c)),
      (''description'', JString (ec_description c)), (''i18n_key'', JString (ec_i18n_key c)),
      (''localized'', obj [(''en'', localized_en c), (''zh-CN'', localized_zh c)]),
      (''category'', JString (ec_category c)), (''runtime'', JString (ec_runtime c)),
      (''available'', JBool (ec_available c)), (''unavailable_reason'', JString (ec_unavailable_reason c)),
      (''requires_capability'', JString (ec_requires_capability c)), (''quota_unit'', JString (ec_quota_unit c)),
      (''input'', obj [(''source_types'', strings_json (ec_source_types c)),
                       (''min_pages'', JInt (ec_min_pages c)), (''max_pages'', JInt (ec_max_pages c))]),
      (''output'', obj [(''page_effect'', JString (ec_page_effect c)), (''metadata'', JBool (ec_metadata c))]),
      (''defaults'', ParseJsonOrObject parse (ec_defaults_json c)),
      (''schema'', ParseJsonOrObject parse (ec_schema_json c)),
      (''order_hint'', JInt (ec_order_hint c)), (''version'', JString (ec_version c))]"

definition BuildImageEnhanceCapabilityProviderJson ::
    "(string \<Rightarrow> json option) \<Rightarrow> SdkImageEnhanceCapabilityResult \<Rightarrow> json" where
  "BuildImageEnhanceCapabilityProviderJson parse provider = obj
     [(''provider'', JString (ecr_provider provider)), (''kind'', JString (ecr_kind provider)),
      (''available'', JBool (ecr_available provider)),
      (''capabilities'', JArray (map (capability_json parse) (ecr_capabilities provider)))]"

definition page_json :: "(string \<Rightarrow> json option) \<Rightarrow> SdkImageEnhancePage \<Rightarrow> json" where
  "page_json parse p = obj
     [(''source_index'', JInt (ep_source_index p)), (''output_index'', JInt (ep_output_index p)),
      (''path'', JString (ep_path p)), (''dropped'', JBool (ep_dropped p)),
      (''metadata'', ParseJsonOrObject parse (ep_metadata_json p))]"

definition step_json :: "(string \<Rightarrow> json option) \<Rightarrow> SdkImageEnhanceStepSnapshot \<Rightarrow> json" where
  "step_json parse s = obj
     [(''id'', JString (en_id s)), (''type'', JString (en_type s)), (''status'', JString (en_status s)),
      (''provider'', JString (en_provider s)), (''input_page_count'', JInt (en_input_page_count s)),
      (''output_page_count'', JInt (en_output_page_count s)),
      (''metadata'', ParseJsonOrObject parse (en_metadata_json s)),
      (''warnings'', strings_json (en_warnings s)), (''message'', JString (en_message s))]"

definition BuildImageEnhanceTaskJson ::
    "(string \<Rightarrow> json option) \<Rightarrow> SdkImageEnhanceTaskSnapshot \<Rightarrow> json" where
  "BuildImageEnhanceTaskJson parse task = obj
     [(''task_id'', JString (it_task_id task)), (''status'', JString (it_status task)),
      (''phase'', JString (it_phase task)), (''progress'', JInt (it_progress task)),
      (''input_page_count'', JInt (it_input_page_count task)),
      (''output_page_count'', JInt (it_output_page_count task)),
      (''pages'', JArray (map (page_json parse) (it_pages task))),
      (''steps'', JArray (map (step_json parse) (it_steps task))),
      (''output_path'', JString (it_output_path task)), (''output_paths'', strings_json (it_output_paths task)),
      (''output_type'', JString (it_output_type task)), (''output_format'', JString (it_output_format task)),
      (''export_type'', JString (it_export_type task)),
      (''assets'', JArray (map BuildAssetJsonLocal (it_assets task))),
      (''warnings'', strings_json (it_warnings task)), (''error'', JString (it_error task)),
      (''cancel_requested'', JBool (it_cancel_requested task))]"

section \<open>State\<close>

record ImageEnhanceTaskService =
  ie_tasks :: "(string, SdkImageEnhanceTaskSnapshot) smap"
  ie_cancel_requested :: "string set"
  ie_active_worker_task_ids :: "string set"
  ie_next_task_seq :: nat

definition new_ImageEnhanceTaskService :: ImageEnhanceTaskService where
  "new_ImageEnhanceTaskService = \<lparr> ie_tasks = [], ie_cancel_requested = {},
     ie_active_worker_task_ids = {}, ie_next_task_seq = 1 \<rparr>"

text \<open>The conversion of documents (\<open>i_sdk_ofd_provider.h\<close>).  The authentication provider works on the
  same world as the others.\<close>

record 'e ISdkOfdProvider =
  op_ProviderName :: string
  op_Convert :: "SdkFileConvertRequest \<Rightarrow> ('e world, SdkFileConvertResult) io"

text \<open>What a task does not change: the system, the providers, the sink of the events (\<open>None\<close> while
  none is set), the JSON parser, and the clock of the events.\<close>

record 'e enhance_env =
  ev_os :: os_env
  ev_dir_size :: "string \<Rightarrow> nat"
  ev_work_dir :: string
  ev_asset_base_url :: string
  ev_providers :: "'e ProviderBundle"
  ev_auth_provider :: "'e world ISdkAuthProvider option"
  ev_ofd_provider :: "'e ISdkOfdProvider option"
  ev_event_sink :: "(string \<Rightarrow> json \<Rightarrow> ('e world, unit) io) option"
  ev_parse :: "string \<Rightarrow> json option"
  ev_now :: "'e world \<Rightarrow> int"

record 'e enhance_sys =
  sy_service :: ImageEnhanceTaskService
  sy_world :: "'e world"
  sy_others :: "(ImageEnhanceTaskService \<Rightarrow> ImageEnhanceTaskService) list"

type_synonym ('e, 'a) enhance = "('e enhance_sys, 'a) io"

definition locked :: "(ImageEnhanceTaskService \<Rightarrow> 'a \<times> ImageEnhanceTaskService) \<Rightarrow> ('e, 'a) enhance" where
  "locked f s =
     (let svc = (case sy_others s of [] \<Rightarrow> sy_service s | other # _ \<Rightarrow> other (sy_service s));
          (a, svc) = f svc
      in (Inr a, s\<lparr> sy_service := svc, sy_others := tl (sy_others s) \<rparr>))"

definition on_world :: "('e world, 'a) io \<Rightarrow> ('e, 'a) enhance" where
  "on_world m s = (case m (sy_world s) of (r, w) \<Rightarrow> (r, s\<lparr>sy_world := w\<rparr>))"

section \<open>Ids, events and queries\<close>

definition NextTaskId_enhance :: "ImageEnhanceTaskService \<Rightarrow> string \<times> ImageEnhanceTaskService" where
  "NextTaskId_enhance s =
     (''image-enhance-'' @ dec (ie_next_task_seq s), s\<lparr>ie_next_task_seq := ie_next_task_seq s + 1\<rparr>)"

definition attach_url :: "string \<Rightarrow> string \<Rightarrow> SdkCaptureAsset \<Rightarrow> SdkCaptureAsset" where
  "attach_url base task_id a =
     (let url = (if as_url a = [] then base @ ''/api/assets/'' @ task_id @ ''/'' @ as_asset_id a else as_url a)
      in a\<lparr> as_url := url,
            as_download_url := (if as_download_url a = [] then url @ ''/download'' else as_download_url a) \<rparr>)"

definition AttachAssetUrls_enhance :: "string \<Rightarrow> string \<Rightarrow> SdkCaptureAsset list \<Rightarrow> SdkCaptureAsset list" where
  "AttachAssetUrls_enhance base task_id assets =
     (if base = [] then assets else map (attach_url base task_id) assets)"

definition PublishEvent_enhance :: "'e enhance_env \<Rightarrow> SdkImageEnhanceTaskSnapshot \<Rightarrow> ('e, unit) enhance" where
  "PublishEvent_enhance env task =
     (case ev_event_sink env of
        None \<Rightarrow> ret ()
      | Some sink \<Rightarrow>
          if it_connection_id task = [] then ret ()
          else let task = task\<lparr>it_assets :=
                 AttachAssetUrls_enhance (ev_asset_base_url env) (it_task_id task) (it_assets task)\<rparr> in
            bind_io (gets_io (\<lambda>s. ev_now env (sy_world s))) (\<lambda>now.
            on_world (sink (it_connection_id task)
              (BuildWsEvent now ''image.enhance_changed''
                (obj [(''task_id'', JString (it_task_id task)),
                      (''task'', BuildImageEnhanceTaskJson (ev_parse env) task)])
                (it_code task) (it_message task)))))"

definition GetTaskUnlocked_enhance :: "string \<Rightarrow> ImageEnhanceTaskService \<Rightarrow> SdkImageEnhanceTaskSnapshot" where
  "GetTaskUnlocked_enhance task_id s =
     (case map_of (ie_tasks s) task_id of
        None \<Rightarrow> default_SdkImageEnhanceTaskSnapshot
          \<lparr> it_code := ToCode InvalidParams, it_message := ''image enhance task not found'' \<rparr>
      | Some task \<Rightarrow> task)"

definition GetTask_enhance ::
    "string \<Rightarrow> string \<Rightarrow> string \<Rightarrow> ImageEnhanceTaskService \<Rightarrow> SdkImageEnhanceTaskSnapshot" where
  "GetTask_enhance base connection_id task_id s =
     (let task = GetTaskUnlocked_enhance task_id s in
      if \<not> IsOkStatusCode (it_code task) then task
      else if it_connection_id task \<noteq> connection_id then
        task\<lparr> it_code := ToCode CapabilityNotAllowed, it_message := ''task belongs to another connection'' \<rparr>
      else task\<lparr>it_assets := AttachAssetUrls_enhance base (it_task_id task) (it_assets task)\<rparr>)"

definition ActiveTaskCount_enhance :: "ImageEnhanceTaskService \<Rightarrow> nat" where
  "ActiveTaskCount_enhance s = card (ie_active_worker_task_ids s)"

definition ClearFinishedTasks_enhance :: "ImageEnhanceTaskService \<Rightarrow> nat \<times> ImageEnhanceTaskService" where
  "ClearFinishedTasks_enhance s =
     (let gone = filter (\<lambda>p. fst p \<notin> ie_active_worker_task_ids s) (ie_tasks s)
      in (length gone,
          s\<lparr> ie_tasks := filter (\<lambda>p. fst p \<in> ie_active_worker_task_ids s) (ie_tasks s),
             ie_cancel_requested := ie_cancel_requested s - fst ` set gone \<rparr>))"

section \<open>Cancelling\<close>

definition put_task :: "string \<Rightarrow> SdkImageEnhanceTaskSnapshot \<Rightarrow> ImageEnhanceTaskService \<Rightarrow> ImageEnhanceTaskService" where
  "put_task task_id task s = s\<lparr>ie_tasks := smap_put task_id task (ie_tasks s)\<rparr>"

definition ended :: "string \<Rightarrow> SdkImageEnhanceTaskSnapshot \<Rightarrow> SdkImageEnhanceTaskSnapshot" where
  "ended status task = task\<lparr> it_status := status, it_phase := status, it_progress := 100 \<rparr>"

definition enhance_error :: "SdkStatusCode \<Rightarrow> string \<Rightarrow> SdkImageEnhanceTaskResult" where
  "enhance_error code message =
     default_SdkImageEnhanceTaskResult\<lparr> ir_code := ToCode code, ir_message := message \<rparr>"

definition accepted_enhance :: "string \<Rightarrow> SdkImageEnhanceTaskSnapshot \<Rightarrow> SdkImageEnhanceTaskResult" where
  "accepted_enhance task_id task =
     default_SdkImageEnhanceTaskResult\<lparr> ir_accepted := True, ir_task_id := task_id, ir_task := task \<rparr>"

text \<open>\<open>CancelTask\<close> under the lock: an error, or the marked task.\<close>

definition request_cancel ::
    "string \<Rightarrow> string \<Rightarrow> ImageEnhanceTaskService \<Rightarrow>
     (SdkImageEnhanceTaskResult + SdkImageEnhanceTaskSnapshot) \<times> ImageEnhanceTaskService" where
  "request_cancel connection_id task_id s =
     (case map_of (ie_tasks s) task_id of
        None \<Rightarrow> (Inl (enhance_error InvalidParams ''image enhance task not found''), s)
      | Some task \<Rightarrow>
          if it_connection_id task \<noteq> connection_id then
            (Inl (enhance_error CapabilityNotAllowed ''task belongs to another connection''), s)
          else
            let task = task\<lparr>it_cancel_requested := True\<rparr>;
                task = (if it_status task = ''queued'' then ended ''cancelled'' task else task)
            in (Inr task, put_task task_id task
                  (s\<lparr>ie_cancel_requested := insert task_id (ie_cancel_requested s)\<rparr>)))"

definition CancelTask ::
    "'e enhance_env \<Rightarrow> string \<Rightarrow> SdkImageEnhanceCancelRequest \<Rightarrow> ('e, SdkImageEnhanceTaskResult) enhance" where
  "CancelTask env connection_id request =
     bind_io (locked (request_cancel connection_id (ic_task_id request))) (\<lambda>r.
     case r of
       Inl error \<Rightarrow> ret error
     | Inr task \<Rightarrow> seq_io (PublishEvent_enhance env task) (ret (accepted_enhance (ic_task_id request) task)))"

section \<open>Starting\<close>

definition task_target :: "string \<Rightarrow> SdkImageEnhanceTarget \<Rightarrow> SdkImageEnhanceTarget" where
  "task_target output_dir t =
     (let t = (if et_output_dir t = [] then t\<lparr>et_output_dir := output_dir\<rparr> else t);
          t = (if et_type t = [] then t\<lparr>et_type := ''images''\<rparr> else t);
          t = (if et_format t = [] then t\<lparr>et_format := ''jpg''\<rparr> else t)
      in if et_export_type t = [] then
           t\<lparr>et_export_type := (if IsDocumentTarget (et_type t) then ''multi-page'' else ''single-page'')\<rparr>
         else t)"

definition task_request :: "string \<Rightarrow> SdkImageEnhanceTaskRequest \<Rightarrow> SdkImageEnhanceTaskRequest" where
  "task_request output_dir request = request
     \<lparr> iq_output_dir := output_dir,
       iq_pipeline := (iq_pipeline request)\<lparr>el_target := task_target output_dir (el_target (iq_pipeline request))\<rparr> \<rparr>"

definition input_page :: "nat \<times> string \<Rightarrow> SdkImageEnhancePage" where
  "input_page p = default_SdkImageEnhancePage
     \<lparr> ep_source_index := int (fst p), ep_output_index := int (fst p), ep_path := snd p \<rparr>"

definition new_enhance_task :: "string \<Rightarrow> SdkImageEnhanceTaskRequest \<Rightarrow> SdkImageEnhanceTaskSnapshot" where
  "new_enhance_task task_id request =
     (let target = el_target (iq_pipeline request); output_type = NormalizeFormat (et_type target)
      in default_SdkImageEnhanceTaskSnapshot
        \<lparr> it_task_id := task_id, it_connection_id := iq_connection_id request,
          it_status := ''queued'', it_phase := ''queued'',
          it_input_page_count := int (length (iq_input_paths request)),
          it_output_type := output_type,
          it_output_format := NormalizeFormat (if IsDocumentTarget output_type then output_type else et_format target),
          it_export_type := et_export_type target,
          it_pages := map input_page (enumerate 1 (iq_input_paths request)) \<rparr>)"

definition register_enhance ::
    "string \<Rightarrow> SdkImageEnhanceTaskSnapshot \<Rightarrow> exn option \<Rightarrow> ImageEnhanceTaskService \<Rightarrow> unit \<times> ImageEnhanceTaskService" where
  "register_enhance task_id task thread s =
     (let s = put_task task_id task s;
          s = s\<lparr>ie_active_worker_task_ids := insert task_id (ie_active_worker_task_ids s)\<rparr>
      in ((), case thread of
            None \<Rightarrow> s
          | Some _ \<Rightarrow> s\<lparr> ie_active_worker_task_ids := ie_active_worker_task_ids s - {task_id},
                         ie_tasks := smap_erase task_id (ie_tasks s) \<rparr>))"

text \<open>\<open>thread\<close> is what creating the thread does.  The result comes with what the thread runs.\<close>

definition StartTask ::
    "'e enhance_env \<Rightarrow> exn option \<Rightarrow> SdkImageEnhanceTaskRequest \<Rightarrow>
     ('e, SdkImageEnhanceTaskResult \<times> (string \<times> SdkImageEnhanceTaskRequest) option) enhance" where
  "StartTask env thread request =
     (if iq_input_paths request = [] then
        ret (enhance_error InvalidParams ''image.enhance source is empty'', None)
      else bind_io (gets_io (\<lambda>s. find (\<lambda>p. \<not> FileExists (ev_os env) p (sy_world s)) (iq_input_paths request))) (\<lambda>missing.
      case missing of
        Some p \<Rightarrow> ret (enhance_error InvalidParams (''image.enhance input file does not exist: '' @ p), None)
      | None \<Rightarrow>
      if image_enhance_provider (ev_providers env) = None then
        ret (enhance_error ProviderNotReady ''image enhance provider is not available'', None)
      else bind_io (locked NextTaskId_enhance) (\<lambda>task_id.
        let output_dir = (if iq_output_dir request = []
              then GetSdkOpenTaskAssetDir (ev_work_dir env) ''image-enhance'' task_id ''assets''
              else iq_output_dir request) in
        bind_io (on_world (world_op (EnsureDirectoryRecursive (ev_os env) output_dir))) (\<lambda>made.
        if \<not> made then
          ret (enhance_error InternalError ''failed to create image enhance output directory'', None)
        else let run = task_request output_dir request; task = new_enhance_task task_id run in
          seq_io (locked (register_enhance task_id task thread))
            (case thread of
               Some e \<Rightarrow> throw e
             | None \<Rightarrow> seq_io (PublishEvent_enhance env task)
                         (ret (accepted_enhance task_id task, Some (task_id, run))))))))"

section \<open>The steps of a task\<close>

text \<open>\<open>tasks_[task_id]\<close> creates a missing entry.\<close>

definition task_at :: "string \<Rightarrow> ImageEnhanceTaskService \<Rightarrow> SdkImageEnhanceTaskSnapshot" where
  "task_at task_id s =
     (case map_of (ie_tasks s) task_id of Some t \<Rightarrow> t | None \<Rightarrow> default_SdkImageEnhanceTaskSnapshot)"

definition cancel_now ::
    "string \<Rightarrow> ImageEnhanceTaskService \<Rightarrow> SdkImageEnhanceTaskSnapshot \<times> ImageEnhanceTaskService" where
  "cancel_now task_id s =
     (let task = (ended ''cancelled'' (task_at task_id s))\<lparr>it_cancel_requested := True\<rparr>
      in (task, put_task task_id task s))"

text \<open>The head of \<open>RunTaskImpl\<close>: whether the task is cancelled, and the snapshot to publish.\<close>

definition begin_task ::
    "string \<Rightarrow> ImageEnhanceTaskService \<Rightarrow> (bool \<times> SdkImageEnhanceTaskSnapshot) \<times> ImageEnhanceTaskService" where
  "begin_task task_id s =
     (if task_id \<in> ie_cancel_requested s then
        (case cancel_now task_id s of (task, s) \<Rightarrow> ((True, task), s))
      else let task = (task_at task_id s)\<lparr> it_status := ''running'', it_phase := ''enhancing'',
                 it_progress := 5, it_message := ''running'' \<rparr>
           in ((False, task), put_task task_id task s))"

definition step_progress :: "nat \<Rightarrow> nat \<Rightarrow> int" where
  "step_progress i step_count = 10 + 70 * int i div int step_count"

definition running_step :: "string \<Rightarrow> nat \<Rightarrow> SdkImageEnhanceStep \<Rightarrow> nat \<Rightarrow> SdkImageEnhanceStepSnapshot" where
  "running_step provider i step page_count = default_SdkImageEnhanceStepSnapshot
     \<lparr> en_id := (if es_id step = [] then ''step-'' @ dec (i + 1) else es_id step),
       en_type := es_type step, en_status := ''running'', en_provider := provider,
       en_input_page_count := int page_count, en_message := ''running'' \<rparr>"

definition begin_step ::
    "string \<Rightarrow> nat \<Rightarrow> nat \<Rightarrow> SdkImageEnhanceStep \<Rightarrow> nat \<Rightarrow> string \<Rightarrow> ImageEnhanceTaskService \<Rightarrow>
     (bool \<times> SdkImageEnhanceTaskSnapshot) \<times> ImageEnhanceTaskService" where
  "begin_step provider step_count i step page_count task_id s =
     (if task_id \<in> ie_cancel_requested s then
        (case cancel_now task_id s of (task, s) \<Rightarrow> ((True, task), s))
      else let task = task_at task_id s;
               task = task\<lparr> it_steps := it_steps task @ [running_step provider i step page_count],
                            it_progress := step_progress i step_count \<rparr>
           in ((False, task), put_task task_id task s))"

definition NormalizeOnlineEnhanceCapability :: "string \<Rightarrow> string" where
  "NormalizeOnlineEnhanceCapability type =
     (if type = ''document_rectify_enhance'' then ''doc_crop_enhance''
      else if type = ''remove_background_texture'' then ''doc_repair''
      else type)"

definition IsOnlineEnhanceCapability :: "string \<Rightarrow> bool" where
  "IsOnlineEnhanceCapability type \<longleftrightarrow> NormalizeOnlineEnhanceCapability type \<in>
     {''doc_crop_enhance'', ''remove_handwriting'', ''doc_repair'', ''remove_moire''}"

text \<open>A step fails the task unless it succeeded or is skipped on error.\<close>

definition should_fail :: "SdkImageEnhanceStep \<Rightarrow> SdkImageEnhanceStepResult \<Rightarrow> bool" where
  "should_fail step result \<longleftrightarrow> \<not> IsOkStatusCode (ers_code result) \<and> es_on_error step \<noteq> ''skip''"

definition finished_step ::
    "SdkImageEnhanceStep \<Rightarrow> SdkImageEnhanceStepResult \<Rightarrow> nat \<Rightarrow> SdkImageEnhanceStepSnapshot \<Rightarrow> SdkImageEnhanceStepSnapshot" where
  "finished_step step result page_count snapshot = snapshot
     \<lparr> en_status := (if should_fail step result then ''failed''
                     else if IsOkStatusCode (ers_code result) then ''completed'' else ''skipped''),
       en_output_page_count := (if should_fail step result \<or> \<not> IsOkStatusCode (ers_code result)
                                then int page_count else int (length (ers_pages result))),
       en_metadata_json := ers_metadata_json result, en_warnings := ers_warnings result,
       en_message := ers_message result \<rparr>"

definition step_warnings :: "SdkImageEnhanceStep \<Rightarrow> SdkImageEnhanceStepResult \<Rightarrow> string list" where
  "step_warnings step result = ers_warnings result @
     (if \<not> IsOkStatusCode (ers_code result) \<and> es_on_error step = ''skip''
      then [es_type step @ '' skipped: '' @ ers_message result] else [])"

text \<open>\<open>task.steps.back()\<close> is the snapshot the same worker pushed in \<open>begin_step\<close>.\<close>

definition finish_step ::
    "nat \<Rightarrow> nat \<Rightarrow> SdkImageEnhanceStep \<Rightarrow> SdkImageEnhanceStepResult \<Rightarrow> nat \<Rightarrow> string \<Rightarrow> ImageEnhanceTaskService \<Rightarrow>
     (bool \<times> SdkImageEnhanceTaskSnapshot) \<times> ImageEnhanceTaskService" where
  "finish_step step_count i step result page_count task_id s =
     (let task = task_at task_id s;
          task = task\<lparr> it_steps := butlast (it_steps task) @ [finished_step step result page_count (last (it_steps task))],
                       it_warnings := it_warnings task @ step_warnings step result \<rparr>;
          task = (if should_fail step result then (ended ''failed'' task)\<lparr>it_error := ers_message result\<rparr>
                  else let task = (if IsOkStatusCode (ers_code result)
                         then task\<lparr> it_pages := ers_pages result,
                                    it_output_page_count := int (length (ers_pages result)) \<rparr>
                         else task)
                       in task\<lparr>it_progress := step_progress (i + 1) step_count\<rparr>)
      in ((should_fail step result, task), put_task task_id task s))"

definition usage_amount :: "SdkImageEnhanceStepResult \<Rightarrow> SdkImageEnhancePage list \<Rightarrow> int" where
  "usage_amount result pages =
     (let amount = int (if ers_pages result = [] then length pages else length (ers_pages result))
      in if amount > 0 then amount else 1)"

definition add_usage :: "string \<Rightarrow> int \<Rightarrow> (string, int) smap \<Rightarrow> (string, int) smap" where
  "add_usage capability amount usage =
     smap_put capability ((case map_of usage capability of None \<Rightarrow> 0 | Some n \<Rightarrow> n) + amount) usage"

text \<open>The local variables of the worker after a step: the pages and what is to be charged.\<close>

definition after_step ::
    "SdkImageEnhanceStep \<Rightarrow> SdkImageEnhanceStepResult \<Rightarrow> SdkImageEnhancePage list \<times> (string, int) smap \<Rightarrow>
     SdkImageEnhancePage list \<times> (string, int) smap" where
  "after_step step result = (\<lambda>(pages, usage).
     if \<not> IsOkStatusCode (ers_code result) then (pages, usage)
     else (ers_pages result,
           if IsOnlineEnhanceCapability (es_type step)
           then add_usage (NormalizeOnlineEnhanceCapability (es_type step)) (usage_amount result pages) usage
           else usage))"

definition step_request ::
    "string \<Rightarrow> SdkImageEnhanceTaskRequest \<Rightarrow> nat \<Rightarrow> SdkImageEnhanceStep \<Rightarrow> SdkImageEnhancePage list \<Rightarrow> SdkImageEnhanceStepRequest" where
  "step_request task_id request i step pages =
     \<lparr> er_task_id = task_id, er_step = step, er_pages = pages,
       er_output_dir = JoinLocalPath (iq_output_dir request) (''step-'' @ dec (i + 1)),
       er_online_api_key = iq_online_api_key request, er_online_base_url = iq_online_base_url request \<rparr>"

text \<open>The loop over the steps; \<^const>\<open>None\<close> if the task was cancelled or failed on the way.\<close>

fun run_steps ::
    "'e enhance_env \<Rightarrow> 'e ISdkImageEnhanceProvider \<Rightarrow> string \<Rightarrow> SdkImageEnhanceTaskRequest \<Rightarrow> nat \<Rightarrow>
     (nat \<times> SdkImageEnhanceStep) list \<Rightarrow> SdkImageEnhancePage list \<times> (string, int) smap \<Rightarrow>
     ('e, (SdkImageEnhancePage list \<times> (string, int) smap) option) enhance" where
  "run_steps env ip task_id request step_count [] vars = ret (Some vars)"
| "run_steps env ip task_id request step_count ((i, step) # steps) vars =
     (if \<not> es_enabled step then run_steps env ip task_id request step_count steps vars
      else bind_io (locked (begin_step (ip_ProviderName ip) step_count i step (length (fst vars)) task_id)) (\<lambda>(cancelled, task).
        seq_io (PublishEvent_enhance env task)
        (if cancelled then ret None
         else let sr = step_request task_id request i step (fst vars) in
           seq_io (on_world (world_op (EnsureDirectoryRecursive (ev_os env) (er_output_dir sr))))
           (bind_io (on_world (ip_RunStep ip sr)) (\<lambda>result.
            bind_io (locked (finish_step step_count i step result (length (fst vars)) task_id)) (\<lambda>(failed, task).
            seq_io (PublishEvent_enhance env task)
            (if failed then ret None
             else run_steps env ip task_id request step_count steps (after_step step result vars))))))))"

section \<open>The outputs of a task\<close>

definition begin_convert ::
    "SdkImageEnhancePage list \<Rightarrow> string \<Rightarrow> ImageEnhanceTaskService \<Rightarrow> SdkImageEnhanceTaskSnapshot \<times> ImageEnhanceTaskService" where
  "begin_convert pages task_id s =
     (let task = (task_at task_id s)\<lparr> it_phase := ''converting'', it_progress := 90, it_pages := pages,
            it_output_page_count := int (length pages) \<rparr>
      in (task, put_task task_id task s))"

definition fail_task ::
    "string \<Rightarrow> string \<Rightarrow> ImageEnhanceTaskService \<Rightarrow> SdkImageEnhanceTaskSnapshot \<times> ImageEnhanceTaskService" where
  "fail_task error task_id s =
     (let task = (ended ''failed'' (task_at task_id s))\<lparr>it_error := error\<rparr> in (task, put_task task_id task s))"

definition document_request ::
    "SdkImageEnhanceTaskRequest \<Rightarrow> string \<Rightarrow> SdkImageEnhancePage list \<Rightarrow> SdkFileConvertRequest" where
  "document_request request target_type pages =
     (let t = el_target (iq_pipeline request);
          r = default_SdkFileConvertRequest
            \<lparr> fq_input_paths := map ep_path pages, fq_source_type := ''images'', fq_source_format := ''image'',
              fq_target_type := target_type, fq_output_format := target_type,
              fq_export_type := (if et_export_type t = [] then ''multi-page'' else et_export_type t),
              fq_output_dir := (if et_output_dir t = [] then iq_output_dir request else et_output_dir t),
              fq_output_path := et_output_path t, fq_quality := et_quality t,
              fq_tiff_color := et_tiff_color t, fq_tiff_compression := et_tiff_compression t \<rparr>
      in if fq_output_path r = [] \<and> fq_export_type r \<noteq> ''single-page'' then
           r\<lparr>fq_output_path := JoinLocalPath (fq_output_dir r) (''enhanced.'' @ ExtensionForFormat_enhance target_type)\<rparr>
         else r)"

definition finish_document ::
    "SdkFileConvertResult \<Rightarrow> string \<Rightarrow> ImageEnhanceTaskService \<Rightarrow> SdkImageEnhanceTaskSnapshot \<times> ImageEnhanceTaskService" where
  "finish_document result task_id s =
     (if \<not> IsOkStatusCode (fr_code result) then fail_task (fr_message result) task_id s
      else let paths = (if fr_output_paths result = [] \<and> fr_output_path result \<noteq> []
                 then [fr_output_path result] else fr_output_paths result);
               task = (ended ''completed'' (task_at task_id s))
                 \<lparr> it_output_path := fr_output_path result, it_output_paths := paths \<rparr>
           in (task, put_task task_id task s))"

definition convert_document ::
    "'e enhance_env \<Rightarrow> string \<Rightarrow> SdkImageEnhanceTaskRequest \<Rightarrow> string \<Rightarrow> SdkImageEnhancePage list \<Rightarrow>
     ('e, SdkImageEnhanceTaskSnapshot) enhance" where
  "convert_document env task_id request target_type pages =
     bind_io (case ev_ofd_provider env of
         Some p \<Rightarrow> on_world (op_Convert p (document_request request target_type pages))
       | None \<Rightarrow> ret (default_SdkFileConvertResult
           \<lparr> fr_code := ToCode ProviderNotReady, fr_message := ''file convert provider is not available'' \<rparr>)) (\<lambda>result.
     locked (finish_document result task_id))"

definition write_page ::
    "'e enhance_env \<Rightarrow> int \<Rightarrow> string \<Rightarrow> string \<Rightarrow> string \<Rightarrow> ('e world, bool) io" where
  "write_page env quality format final_path path =
     (if NormalizeFormat (ExtensionFromPath path) = format then
        if path = final_path then ret True else world_op (CopyFile (ev_os env) path final_path)
      else case graphic_provider (ev_providers env) of
        Some gp \<Rightarrow> bind_io (gp_ConvertImageFormat gp (default_SdkFormatConvertRequest
            \<lparr> fcr_input_path := path, fcr_output_path := final_path, fcr_output_format := format,
              fcr_quality := quality \<rparr>)) (\<lambda>r. ret (IsOkStatusCode (fcs_code r)))
      | None \<Rightarrow> world_op (CopyFile (ev_os env) path final_path))"

text \<open>A page that cannot be written is passed over; the pages afterwards and the paths written.\<close>

fun write_pages ::
    "'e enhance_env \<Rightarrow> int \<Rightarrow> string \<Rightarrow> string \<Rightarrow> nat \<Rightarrow> SdkImageEnhancePage list \<Rightarrow>
     ('e world, SdkImageEnhancePage list \<times> string list) io" where
  "write_pages env quality format output_dir index [] = ret ([], [])"
| "write_pages env quality format output_dir index (page # pages) =
     (let final_path = PageOutputPath output_dir index format in
      bind_io (write_page env quality format final_path (ep_path page)) (\<lambda>written.
      if \<not> written then
        bind_io (write_pages env quality format output_dir index pages) (\<lambda>(ps, paths). ret (page # ps, paths))
      else
        bind_io (write_pages env quality format output_dir (index + 1) pages) (\<lambda>(ps, paths).
        ret (page\<lparr> ep_path := final_path, ep_output_index := int index \<rparr> # ps, final_path # paths))))"

definition finish_images ::
    "SdkImageEnhancePage list \<Rightarrow> string list \<Rightarrow> string \<Rightarrow> ImageEnhanceTaskService \<Rightarrow>
     SdkImageEnhanceTaskSnapshot \<times> ImageEnhanceTaskService" where
  "finish_images pages paths task_id s =
     (case paths of
        [] \<Rightarrow> fail_task ''failed to write enhanced image outputs'' task_id s
      | path # _ \<Rightarrow>
          let task = (ended ''completed'' (task_at task_id s))
                \<lparr> it_pages := pages, it_output_path := path, it_output_paths := paths \<rparr>
          in (task, put_task task_id task s))"

definition write_images ::
    "'e enhance_env \<Rightarrow> string \<Rightarrow> SdkImageEnhanceTaskRequest \<Rightarrow> string \<Rightarrow> SdkImageEnhancePage list \<Rightarrow>
     ('e, SdkImageEnhanceTaskSnapshot) enhance" where
  "write_images env task_id request format pages =
     (let t = el_target (iq_pipeline request);
          output_dir = (if et_output_dir t = [] then iq_output_dir request else et_output_dir t) in
      seq_io (on_world (world_op (EnsureDirectoryRecursive (ev_os env) output_dir)))
      (bind_io (on_world (write_pages env (et_quality t) format output_dir 1 pages)) (\<lambda>(pages, paths).
       locked (finish_images pages paths task_id))))"

section \<open>Charging\<close>

definition quota_request ::
    "SdkImageEnhanceTaskRequest \<Rightarrow> string \<Rightarrow> string \<Rightarrow> int \<Rightarrow> QuotaConsumeRequest" where
  "quota_request request task_id capability units =
     \<lparr> qc_token = iq_online_api_key request, qc_session_token = iq_online_session_token request,
       qc_authz_base_url = iq_authz_base_url request, qc_capability = capability,
       qc_request_id = ''image.enhance:'' @ task_id @ '':'' @ capability,
       qc_units = (if units > 0 then units else 1), qc_now_ts = 0 \<rparr>"

fun charge_all ::
    "'e world ISdkAuthProvider \<Rightarrow> SdkImageEnhanceTaskRequest \<Rightarrow> string \<Rightarrow> (string, int) smap \<Rightarrow> QuotaConsumeResult \<Rightarrow>
     ('e world, QuotaConsumeResult) io" where
  "charge_all p request task_id [] result = ret result"
| "charge_all p request task_id ((capability, units) # usage) result =
     bind_io (ap_ConsumeQuota p (quota_request request task_id capability units)) (\<lambda>quota_result.
     if \<not> IsOkStatusCode (qr_code quota_result) then ret quota_result
     else charge_all p request task_id usage quota_result)"

definition ConfirmOnlineEnhanceQuota ::
    "'e world ISdkAuthProvider option \<Rightarrow> SdkImageEnhanceTaskRequest \<Rightarrow> string \<Rightarrow> (string, int) smap \<Rightarrow>
     ('e world, QuotaConsumeResult) io" where
  "ConfirmOnlineEnhanceQuota auth_provider request task_id usage =
     (if usage = [] then ret default_QuotaConsumeResult
      else case auth_provider of
        None \<Rightarrow> ret (default_QuotaConsumeResult
          \<lparr> qr_code := ToCode ProviderNotReady, qr_message := ''auth provider is not available'' \<rparr>)
      | Some p \<Rightarrow> charge_all p request task_id usage default_QuotaConsumeResult)"

definition output_assets ::
    "'e enhance_env \<Rightarrow> string \<Rightarrow> string list \<Rightarrow> 'e world \<Rightarrow> SdkCaptureAsset list" where
  "output_assets env format paths w =
     map (\<lambda>(n, path). default_SdkCaptureAsset
            \<lparr> as_asset_id := ''asset-enhance-output-'' @ dec n, as_kind := ''image_enhance_output'', as_path := path,
              as_content_type := ContentTypeForFormat_enhance format,
              as_size := FileSize_enhance (ev_os env) (ev_dir_size env) path w \<rparr>)
       (enumerate 1 paths)"

definition charged :: "QuotaConsumeResult \<Rightarrow> SdkImageEnhanceTaskSnapshot \<Rightarrow> SdkImageEnhanceTaskSnapshot" where
  "charged quota task =
     (if IsOkStatusCode (qr_code quota) then task
      else (ended ''failed'' task)
        \<lparr> it_code := qr_code quota, it_message := qr_message quota,
          it_error := (if qr_message quota = [] then ''online image enhance quota confirm failed'' else qr_message quota),
          it_assets := [] \<rparr>)"

text \<open>The tail of \<open>RunTaskImpl\<close>: a completed task gets its assets, is charged and stored again.\<close>

definition settle_task ::
    "'e enhance_env \<Rightarrow> string \<Rightarrow> SdkImageEnhanceTaskRequest \<Rightarrow> string \<Rightarrow> (string, int) smap \<Rightarrow>
     SdkImageEnhanceTaskSnapshot \<Rightarrow> ('e, SdkImageEnhanceTaskSnapshot) enhance" where
  "settle_task env task_id request format usage task =
     (if it_status task \<noteq> ''completed'' then ret task
      else bind_io (gets_io (\<lambda>s. output_assets env format (it_output_paths task) (sy_world s))) (\<lambda>assets.
        let task = task\<lparr>it_assets := AttachAssetUrls_enhance (ev_asset_base_url env) task_id assets\<rparr> in
        bind_io (on_world (ConfirmOnlineEnhanceQuota (ev_auth_provider env) request task_id usage)) (\<lambda>quota.
        let task = charged quota task in
        locked (\<lambda>s. (task, put_task task_id task s)))))"

section \<open>The worker\<close>

definition make_outputs ::
    "'e enhance_env \<Rightarrow> string \<Rightarrow> SdkImageEnhanceTaskRequest \<Rightarrow> SdkImageEnhancePage list \<times> (string, int) smap \<Rightarrow>
     ('e, SdkImageEnhanceTaskSnapshot) enhance" where
  "make_outputs env task_id request vars =
     (let target = el_target (iq_pipeline request); pages = fst vars;
          target_type = NormalizeFormat (et_type target);
          output_format = NormalizeFormat (if IsDocumentTarget target_type then target_type else et_format target) in
      bind_io (if pages = [] then locked (fail_task ''image enhance produced no output pages'' task_id)
               else if IsDocumentTarget target_type then convert_document env task_id request target_type pages
               else write_images env task_id request output_format pages) (\<lambda>task.
      settle_task env task_id request output_format (snd vars) task))"

definition finish_task ::
    "'e enhance_env \<Rightarrow> string \<Rightarrow> SdkImageEnhanceTaskRequest \<Rightarrow> SdkImageEnhancePage list \<times> (string, int) smap \<Rightarrow>
     ('e, unit) enhance" where
  "finish_task env task_id request vars =
     bind_io (locked (begin_convert (fst vars) task_id)) (\<lambda>task.
     seq_io (PublishEvent_enhance env task)
     (bind_io (make_outputs env task_id request vars) (PublishEvent_enhance env)))"

definition RunTaskImpl ::
    "'e enhance_env \<Rightarrow> string \<Rightarrow> SdkImageEnhanceTaskRequest \<Rightarrow> ('e, unit) enhance" where
  "RunTaskImpl env task_id request =
     bind_io (locked (begin_task task_id)) (\<lambda>(cancelled, task).
     seq_io (PublishEvent_enhance env task)
     (if cancelled then ret ()
      else case image_enhance_provider (ev_providers env) of
        None \<Rightarrow> throw UnknownException
      | Some ip \<Rightarrow>
        (let steps = el_steps (iq_pipeline request) in
         bind_io (run_steps env ip task_id request (length steps) (enumerate 0 steps) (it_pages task, [])) (\<lambda>vars.
         case vars of
           None \<Rightarrow> ret ()
         | Some vars \<Rightarrow> finish_task env task_id request vars))))"

definition worker_done :: "string \<Rightarrow> ImageEnhanceTaskService \<Rightarrow> unit \<times> ImageEnhanceTaskService" where
  "worker_done task_id s = ((), s\<lparr>ie_active_worker_task_ids := ie_active_worker_task_ids s - {task_id}\<rparr>)"

definition RunTask :: "'e enhance_env \<Rightarrow> string \<Rightarrow> SdkImageEnhanceTaskRequest \<Rightarrow> ('e, unit) enhance" where
  "RunTask env task_id request =
     seq_io (catch_io (RunTaskImpl env task_id request)
               (\<lambda>e. seq_io (locked (fail_task (what e ''image enhance task failed'') task_id)) (ret ())))
       (locked (worker_done task_id))"

end
