(* ===== verification/Enhance_Claims.thy ===== *)
theory Enhance_Claims
  imports Enhance_Task
begin

text \<open>
  The properties of the image enhancement tasks.  What the other threads may do to a task while its
  worker runs is \<open>interferes\<close>; the operations of the service are shown to be within it.  \<open>live\<close> is the
  assertion the worker keeps about its task, and the rules \<open>wp_locked\<close> and \<open>wp_world\<close> carry it through
  the worker's program.
\<close>

section \<open>Interference\<close>

definition touched :: "SdkImageEnhanceTaskSnapshot \<Rightarrow> SdkImageEnhanceTaskSnapshot \<Rightarrow> bool" where
  "touched t t' \<longleftrightarrow> t' = t \<or> t' = t\<lparr>it_cancel_requested := True\<rparr> \<or>
     it_status t = ''queued'' \<and> t' = ended ''cancelled'' (t\<lparr>it_cancel_requested := True\<rparr>)"

definition interferes :: "string \<Rightarrow> (ImageEnhanceTaskService \<Rightarrow> ImageEnhanceTaskService) \<Rightarrow> bool" where
  "interferes k f \<longleftrightarrow> (\<forall>s t. k \<in> ie_active_worker_task_ids s \<and> map_of (ie_tasks s) k = Some t \<longrightarrow>
     k \<in> ie_active_worker_task_ids (f s) \<and> (\<exists>t'. map_of (ie_tasks (f s)) k = Some t' \<and> touched t t'))"

lemma interferesI:
  "(\<And>s t. k \<in> ie_active_worker_task_ids s \<Longrightarrow> map_of (ie_tasks s) k = Some t \<Longrightarrow>
     k \<in> ie_active_worker_task_ids (f s) \<and> (\<exists>t'. map_of (ie_tasks (f s)) k = Some t' \<and> touched t t')) \<Longrightarrow>
   interferes k f"
  by (auto simp: interferes_def)

lemma touched_refl [simp]: "touched t t"
  by (simp add: touched_def)

text \<open>Cancelling any task, clearing the finished ones, handing out an id, registering and running other
  tasks.\<close>

lemma interferes_cancel: "interferes k (\<lambda>s. snd (request_cancel connection_id task_id s))"
  by (rule interferesI) (auto simp: request_cancel_def put_task_def Let_def touched_def split: option.splits)

lemma map_of_filter_key: "P k \<Longrightarrow> map_of (filter (\<lambda>p. P (fst p)) m) k = map_of m k"
  by (induction m) auto

lemma interferes_clear: "interferes k (\<lambda>s. snd (ClearFinishedTasks_enhance s))"
  by (rule interferesI) (auto simp: ClearFinishedTasks_enhance_def Let_def
      map_of_filter_key [where P = "\<lambda>x. x \<in> ie_active_worker_task_ids s" for s :: ImageEnhanceTaskService])

lemma interferes_next: "interferes k (\<lambda>s. snd (NextTaskId_enhance s))"
  by (rule interferesI) (simp add: NextTaskId_enhance_def)

definition other_task :: "string \<Rightarrow> (ImageEnhanceTaskService \<Rightarrow> 'a \<times> ImageEnhanceTaskService) \<Rightarrow> bool" where
  "other_task k f \<longleftrightarrow> interferes k (\<lambda>s. snd (f s))"

lemma interferes_other:
  assumes "other \<noteq> k"
  shows "other_task k (register_enhance other task thread)" "other_task k (begin_task other)"
    "other_task k (begin_step provider n i step m other)" "other_task k (finish_step n i step result m other)"
    "other_task k (begin_convert pages other)" "other_task k (fail_task error other)"
    "other_task k (finish_document document other)" "other_task k (finish_images pages paths other)"
    "other_task k (\<lambda>s. (t, put_task other t s))" "other_task k (worker_done other)"
proof -
  note other = assms assms [symmetric]
  show "other_task k (register_enhance other task thread)"
    unfolding other_task_def using other
    by (intro interferesI) (auto simp: register_enhance_def put_task_def Let_def split: option.splits)
  show "other_task k (begin_task other)" "other_task k (begin_step provider n i step m other)"
    "other_task k (finish_step n i step result m other)" "other_task k (begin_convert pages other)"
    "other_task k (fail_task error other)" "other_task k (finish_document document other)"
    "other_task k (finish_images pages paths other)" "other_task k (\<lambda>s. (t, put_task other t s))"
    "other_task k (worker_done other)"
    unfolding other_task_def using other
    by (intro interferesI; simp add: begin_task_def begin_step_def finish_step_def begin_convert_def fail_task_def
        finish_document_def finish_images_def cancel_now_def put_task_def worker_done_def Let_def
        split: option.splits list.splits)+
qed

section \<open>The worker's assertion\<close>

definition live :: "string \<Rightarrow> (SdkImageEnhanceTaskSnapshot \<Rightarrow> bool) \<Rightarrow> 'e enhance_sys \<Rightarrow> bool" where
  "live k P s \<longleftrightarrow> (\<forall>f \<in> set (sy_others s). interferes k f) \<and> k \<in> ie_active_worker_task_ids (sy_service s) \<and>
     (\<exists>t. map_of (ie_tasks (sy_service s)) k = Some t \<and> P t)"

definition stable :: "(SdkImageEnhanceTaskSnapshot \<Rightarrow> bool) \<Rightarrow> bool" where
  "stable P \<longleftrightarrow> (\<forall>t t'. P t \<and> touched t t' \<longrightarrow> P t')"

lemma live_mono: "live k P s \<Longrightarrow> (\<And>t. P t \<Longrightarrow> P' t) \<Longrightarrow> live k P' s"
  by (auto simp: live_def)

lemma live_world [simp]: "live k P (s\<lparr>sy_world := w\<rparr>) = live k P s"
  by (simp add: live_def)

lemma live_interfere:
  assumes "live k P s" "stable P"
  shows "\<exists>svc t. (case sy_others s of [] \<Rightarrow> sy_service s | f # _ \<Rightarrow> f (sy_service s)) = svc \<and>
    k \<in> ie_active_worker_task_ids svc \<and> map_of (ie_tasks svc) k = Some t \<and> P t \<and>
    (\<forall>f \<in> set (tl (sy_others s)). interferes k f)"
  using assms
  by (cases "sy_others s") (auto simp: live_def interferes_def stable_def, blast)

lemma wp_locked:
  assumes "live k P s" and "stable P"
    and "\<And>svc t. k \<in> ie_active_worker_task_ids svc \<Longrightarrow> map_of (ie_tasks svc) k = Some t \<Longrightarrow> P t \<Longrightarrow>
      k \<in> ie_active_worker_task_ids (snd (f svc)) \<and>
      (\<exists>t'. map_of (ie_tasks (snd (f svc))) k = Some t' \<and> P' (fst (f svc)) t')"
    and "\<And>a s'. live k (P' a) s' \<Longrightarrow> Q a s'"
  shows "wp_io (locked f) Q E s"
proof -
  obtain svc t where svc: "(case sy_others s of [] \<Rightarrow> sy_service s | f # _ \<Rightarrow> f (sy_service s)) = svc"
    and t: "k \<in> ie_active_worker_task_ids svc" "map_of (ie_tasks svc) k = Some t" "P t"
    and others: "\<forall>f \<in> set (tl (sy_others s)). interferes k f"
    using live_interfere [OF assms(1, 2)] by blast
  let ?s = "s\<lparr> sy_service := snd (f svc), sy_others := tl (sy_others s) \<rparr>"
  have "live k (P' (fst (f svc))) ?s" using assms(3) [OF t] others by (auto simp: live_def)
  then show ?thesis using assms(4) [of "fst (f svc)" ?s] svc
    by (simp add: wp_io_def locked_def Let_def split_def)
qed

lemma wp_world:
  "live k P s \<Longrightarrow> (\<And>a s'. live k P s' \<Longrightarrow> Q a s') \<Longrightarrow> (\<And>s'. live k P s' \<Longrightarrow> E s') \<Longrightarrow> wp_io (on_world m) Q E s"
  by (auto simp: wp_io_def on_world_def split: prod.splits sum.splits)

lemma wp_publish:
  assumes "live k P s" "\<And>s'. live k P s' \<Longrightarrow> Q () s'" "\<And>s'. live k P s' \<Longrightarrow> E s'"
  shows "wp_io (PublishEvent_enhance env task) Q E s"
  using assms
  by (auto simp: PublishEvent_enhance_def Let_def wp_simps intro!: wp_world [where k = k and P = P] split: option.split)

section \<open>A task ends\<close>

definition ends_in :: "string set \<Rightarrow> SdkImageEnhanceTaskSnapshot \<Rightarrow> bool" where
  "ends_in X t \<longleftrightarrow> it_status t \<in> X \<and> it_phase t = it_status t \<and> it_progress t = 100"

abbreviation any_task :: "SdkImageEnhanceTaskSnapshot \<Rightarrow> bool" where
  "any_task \<equiv> \<lambda>_. True"

lemma stable_any [simp]: "stable any_task"
  by (simp add: stable_def)

lemma stable_ends_in [simp]: "''queued'' \<notin> X \<Longrightarrow> stable (ends_in X)"
  by (auto simp: stable_def touched_def ends_in_def)

lemma ends_in_ended [simp]: "ends_in X (ended status t) \<longleftrightarrow> status \<in> X"
  by (simp add: ends_in_def ended_def)

lemma ends_in_update [simp]:
  "ends_in X (t\<lparr>it_error := e\<rparr>) = ends_in X t" "ends_in X (t\<lparr>it_cancel_requested := c\<rparr>) = ends_in X t"
  "ends_in X (t\<lparr>it_pages := p\<rparr>) = ends_in X t" "ends_in X (t\<lparr>it_output_path := o1\<rparr>) = ends_in X t"
  "ends_in X (t\<lparr>it_output_paths := ps\<rparr>) = ends_in X t" "ends_in X (t\<lparr>it_assets := as\<rparr>) = ends_in X t"
  "ends_in X (t\<lparr>it_code := c1\<rparr>) = ends_in X t" "ends_in X (t\<lparr>it_message := m\<rparr>) = ends_in X t"
  by (simp_all add: ends_in_def)

lemma ends_in_mono: "ends_in X t \<Longrightarrow> X \<subseteq> Y \<Longrightarrow> ends_in Y t"
  by (auto simp: ends_in_def)

lemmas section_defs = begin_task_def begin_step_def finish_step_def begin_convert_def fail_task_def
  finish_document_def finish_images_def cancel_now_def put_task_def Let_def

text \<open>What the critical sections leave behind.\<close>

lemma wp_begin_task:
  assumes "live k P s" "stable P"
    "\<And>a s'. live k (\<lambda>t. fst a \<longrightarrow> ends_in {''cancelled''} t) s' \<Longrightarrow> Q a s'"
  shows "wp_io (locked (begin_task k)) Q E s"
  by (rule wp_locked [OF assms(1, 2) _ assms(3), where P' = "\<lambda>a t. fst a \<longrightarrow> ends_in {''cancelled''} t"])
    (auto simp: section_defs)

lemma wp_begin_step:
  assumes "live k any_task s" "\<And>a s'. live k (\<lambda>t. fst a \<longrightarrow> ends_in {''cancelled''} t) s' \<Longrightarrow> Q a s'"
  shows "wp_io (locked (begin_step provider n i step m k)) Q E s"
  by (rule wp_locked [OF assms(1) stable_any _ assms(2), where P' = "\<lambda>a t. fst a \<longrightarrow> ends_in {''cancelled''} t"])
    (auto simp: section_defs)

lemma wp_finish_step:
  assumes "live k any_task s"
    "\<And>a s'. fst a = should_fail step result \<Longrightarrow> live k (\<lambda>t. fst a \<longrightarrow> ends_in {''failed''} t) s' \<Longrightarrow> Q a s'"
  shows "wp_io (locked (finish_step n i step result m k)) Q E s"
proof (rule wp_locked [OF assms(1) stable_any, where P' = "\<lambda>a t. fst a = should_fail step result \<and> (fst a \<longrightarrow> ends_in {''failed''} t)"])
  show "Q a s'" if "live k (\<lambda>t. fst a = should_fail step result \<and> (fst a \<longrightarrow> ends_in {''failed''} t)) s'" for a s'
    using that by (intro assms(2)) (auto simp: live_def)
qed (auto simp: section_defs)

lemma wp_section:
  assumes "live k any_task s" "\<And>a s'. live k any_task s' \<Longrightarrow> Q a s'"
    and "\<And>svc t. k \<in> ie_active_worker_task_ids svc \<Longrightarrow> map_of (ie_tasks svc) k = Some t \<Longrightarrow>
      k \<in> ie_active_worker_task_ids (snd (f svc)) \<and> map_of (ie_tasks (snd (f svc))) k \<noteq> None"
  shows "wp_io (locked f) Q E s"
  by (rule wp_locked [OF assms(1) stable_any _ assms(2), where P' = "\<lambda>_. any_task"]) (use assms(3) in auto)

text \<open>Sections that return the snapshot they store: the status of the one is that of the other.\<close>

definition stored :: "string set \<Rightarrow> SdkImageEnhanceTaskSnapshot \<Rightarrow> SdkImageEnhanceTaskSnapshot \<Rightarrow> bool" where
  "stored X a t \<longleftrightarrow> t = a \<and> ends_in X a"

lemma wp_stored:
  assumes "live k any_task s" "\<And>a s'. live k (stored X a) s' \<Longrightarrow> Q a s'"
    and "\<And>svc. map_of (ie_tasks svc) k \<noteq> None \<Longrightarrow> k \<in> ie_active_worker_task_ids svc \<Longrightarrow>
      k \<in> ie_active_worker_task_ids (snd (f svc)) \<and>
      map_of (ie_tasks (snd (f svc))) k = Some (fst (f svc)) \<and> ends_in X (fst (f svc))"
  shows "wp_io (locked f) Q E s"
  by (rule wp_locked [OF assms(1) stable_any _ assms(2), where P' = "stored X"])
    (use assms(3) in \<open>auto simp: stored_def\<close>)

lemma wp_fail_task:
  assumes "live k any_task s" "\<And>a s'. live k (stored {''completed'', ''failed''} a) s' \<Longrightarrow> Q a s'"
  shows "wp_io (locked (fail_task error k)) Q E s"
  by (rule wp_stored [OF assms]) (auto simp: section_defs)

lemma wp_convert_document:
  assumes "live k any_task s" "\<And>a s'. live k (stored {''completed'', ''failed''} a) s' \<Longrightarrow> Q a s'"
    "\<And>s'. live k any_task s' \<Longrightarrow> E s'"
  shows "wp_io (convert_document env k request target_type pages) Q E s"
  unfolding convert_document_def wpio_bind using assms(1)
  by (auto simp: wp_ret section_defs intro!: wp_world [where P = any_task and k = k] assms(3)
      wp_stored [OF _ assms(2)] split: option.split)

lemma wp_write_images:
  assumes "live k any_task s" "\<And>a s'. live k (stored {''completed'', ''failed''} a) s' \<Longrightarrow> Q a s'"
    "\<And>s'. live k any_task s' \<Longrightarrow> E s'"
  shows "wp_io (write_images env k request format pages) Q E s"
  unfolding write_images_def Let_def wp_seq wpio_bind using assms(1)
  by (auto simp: section_defs split_def intro!: wp_world [where P = any_task and k = k] assms(3)
      wp_stored [OF _ assms(2)] split: list.split)

definition charged_step :: "SdkImageEnhanceStep \<Rightarrow> bool" where
  "charged_step step \<longleftrightarrow> es_enabled step \<and> IsOnlineEnhanceCapability (es_type step) \<and> es_on_error step \<noteq> ''skip''"

definition refuses_quota :: "'e enhance_env \<Rightarrow> bool" where
  "refuses_quota env \<longleftrightarrow> (\<forall>p request w r w'. ev_auth_provider env = Some p \<and> ap_ConsumeQuota p request w = (Inr r, w') \<longrightarrow>
     \<not> IsOkStatusCode (qr_code r))"

lemma after_step_usage:
  "snd vars \<noteq> [] \<or> charged_step step \<and> \<not> should_fail step result \<Longrightarrow> snd (after_step step result vars) \<noteq> []"
  by (cases vars) (auto simp: after_step_def add_usage_def charged_step_def should_fail_def)

definition steps_post :: "string \<Rightarrow> bool \<Rightarrow> (SdkImageEnhancePage list \<times> (string, int) smap) option \<Rightarrow> 'e enhance_sys \<Rightarrow> bool" where
  "steps_post k charges r s \<longleftrightarrow> (case r of
     None \<Rightarrow> live k (ends_in {''failed'', ''cancelled''}) s
   | Some vars \<Rightarrow> live k any_task s \<and> (charges \<longrightarrow> snd vars \<noteq> []))"

lemma steps_post_None: "live k (ends_in X) s \<Longrightarrow> X \<subseteq> {''failed'', ''cancelled''} \<Longrightarrow> steps_post k c None s"
  unfolding steps_post_def by (auto elim!: live_mono intro: ends_in_mono)

lemma live_any [elim]: "live k P s \<Longrightarrow> live k any_task s"
  by (erule live_mono) simp

lemma wp_run_steps:
  "live k any_task s \<Longrightarrow> wp_io (run_steps env ip k request n steps vars)
     (steps_post k (snd vars \<noteq> [] \<or> (\<exists>p \<in> set steps. charged_step (snd p)))) (live k any_task) s"
proof (induction steps arbitrary: vars s)
  case Nil
  then show ?case by (simp add: wp_ret steps_post_def)
next
  case (Cons p steps)
  obtain i step where p: "p = (i, step)" by force
  show ?case
  proof (cases "es_enabled step")
    case False
    then show ?thesis using Cons.IH [OF Cons.prems] by (simp add: p charged_step_def)
  next
    case True
    let ?post = "steps_post k (snd vars \<noteq> [] \<or> charged_step step \<or> (\<exists>p \<in> set steps. charged_step (snd p)))"
    have rest: "wp_io (run_steps env ip k request n steps (after_step step result vars)) ?post (live k any_task) s'"
      if "live k any_task s'" "\<not> should_fail step result" for s' result
      using after_step_usage [of vars step result] that(2)
      by (intro wpio_mono [OF Cons.IH [OF that(1), of "after_step step result vars"]])
        (auto simp: steps_post_def split: option.splits)
    have ends: "wp_io (PublishEvent_enhance env task) (\<lambda>_. wp_io (if c then ret None else m) ?post (live k any_task)) (live k any_task) s'"
      if "live k (\<lambda>t. c \<longrightarrow> ends_in X t) s'" "X \<subseteq> {''failed'', ''cancelled''}"
        "\<And>s'. live k any_task s' \<Longrightarrow> \<not> c \<Longrightarrow> wp_io m ?post (live k any_task) s'" for task c X m s'
      using that by (intro wp_publish [OF that(1)]) (auto simp: wp_ret intro: steps_post_None)
    have worked: "wp_io (bind_io (locked (finish_step n i step result m k)) (\<lambda>(failed, task).
        seq_io (PublishEvent_enhance env task)
          (if failed then ret None else run_steps env ip k request n steps (after_step step result vars))))
        ?post (live k any_task) s'" if "live k any_task s'" for result m s'
      unfolding wpio_bind split_def wp_seq
      by (rule wp_finish_step [OF that], erule ends) (auto intro: rest [simplified])
    have "wp_io (run_steps env ip k request n (p # steps) vars) ?post (live k any_task) s"
      unfolding p run_steps.simps if_not_P [OF not_not [THEN iffD2, OF True]] wpio_bind [of "locked (begin_step _ _ _ _ _ _)"]
        split_def wp_seq [of "PublishEvent_enhance _ _"]
      by (rule wp_begin_step [OF Cons.prems], erule ends)
        (auto simp: Let_def wp_seq wpio_bind [of "on_world _"] intro!: wp_world [where k = k and P = any_task]
          intro: worked [unfolded split_def, simplified])
    then show ?thesis by (simp add: p)
  qed
qed

lemma refused_quota:
  "refuses_quota env \<Longrightarrow> usage \<noteq> [] \<Longrightarrow>
   ConfirmOnlineEnhanceQuota (ev_auth_provider env) request k usage w = (Inr quota, w') \<Longrightarrow>
   \<not> IsOkStatusCode (qr_code quota)"
proof (cases "ev_auth_provider env")
  case None
  moreover assume "usage \<noteq> []" "ConfirmOnlineEnhanceQuota (ev_auth_provider env) request k usage w = (Inr quota, w')"
  ultimately show ?thesis
    by (auto simp: ConfirmOnlineEnhanceQuota_def ret_def IsOkStatusCode_def)
next
  case (Some p)
  moreover assume "refuses_quota env" "usage \<noteq> []"
    "ConfirmOnlineEnhanceQuota (ev_auth_provider env) request k usage w = (Inr quota, w')"
  ultimately show ?thesis
    by (cases usage) (auto simp: ConfirmOnlineEnhanceQuota_def ret_def bind_io_def refuses_quota_def
        split: prod.splits sum.splits if_splits, blast+)
qed

definition outcomes :: "bool \<Rightarrow> string set" where
  "outcomes unpaid = (if unpaid then {''failed'', ''cancelled''} else {''completed'', ''failed'', ''cancelled''})"

lemma wp_settle_task:
  assumes "live k (stored {''completed'', ''failed''} task) s"
    and "\<And>a s'. live k (ends_in (outcomes (refuses_quota env \<and> usage \<noteq> []))) s' \<Longrightarrow> Q a s'"
    and "\<And>s'. live k any_task s' \<Longrightarrow> E s'"
  shows "wp_io (settle_task env k request format usage task) Q E s"
proof (cases "it_status task = ''completed''")
  case False
  with assms(1) have "live k (ends_in (outcomes (refuses_quota env \<and> usage \<noteq> []))) s"
    by (elim live_mono) (auto simp: stored_def ends_in_def outcomes_def)
  then show ?thesis using assms(2) False by (simp add: settle_task_def wp_ret)
next
  case True
  let ?X = "outcomes (refuses_quota env \<and> usage \<noteq> [])"
  let ?confirm = "ConfirmOnlineEnhanceQuota (ev_auth_provider env) request k usage"
  have done_task: "ends_in {''completed'', ''failed''} task" using assms(1) by (auto simp: live_def stored_def)
  have store: "wp_io (locked (\<lambda>s. (t, put_task k t s))) Q E s'" if "live k any_task s'" "ends_in ?X t" for s' t
    by (rule wp_locked [OF that(1) stable_any _ assms(2), where P' = "\<lambda>_. ends_in ?X"])
      (use that(2) in \<open>auto simp: put_task_def\<close>)
  have "ends_in ?X (charged quota (task\<lparr>it_assets := assets\<rparr>))" if "?confirm w = (Inr quota, w')" for quota w w' assets
    using refused_quota [OF _ _ that] done_task True
    by (auto simp: charged_def outcomes_def ends_in_def ended_def)
  moreover have "live k any_task s" using assms(1) by (rule live_any)
  ultimately show ?thesis
    using True assms(3) store
    by (auto simp: settle_task_def Let_def wpio_bind wp_gets wp_io_def [of "on_world _"] on_world_def
        split: prod.split sum.split)
qed

lemma wp_make_outputs:
  assumes "live k any_task s"
    and "\<And>a s'. live k (ends_in (outcomes (refuses_quota env \<and> snd vars \<noteq> []))) s' \<Longrightarrow> Q a s'"
    and "\<And>s'. live k any_task s' \<Longrightarrow> E s'"
  shows "wp_io (make_outputs env k request vars) Q E s"
  unfolding make_outputs_def Let_def wpio_bind wpio_if using assms(1)
  by (auto intro!: wp_fail_task wp_convert_document wp_write_images wp_settle_task assms(2, 3))

definition unpaid :: "'e enhance_env \<Rightarrow> SdkImageEnhanceTaskRequest \<Rightarrow> bool" where
  "unpaid env request \<longleftrightarrow> refuses_quota env \<and> (\<exists>step \<in> set (el_steps (iq_pipeline request)). charged_step step)"

lemma stable_outcomes [simp]: "stable (ends_in (outcomes u))"
  by (simp add: outcomes_def)

lemma enumerate_snd: "(\<exists>p \<in> set (enumerate n xs). P (snd p)) \<longleftrightarrow> (\<exists>x \<in> set xs. P x)"
  by (metis (no_types, lifting) imageE image_eqI map_snd_enumerate set_map)

definition task_ends :: "'e enhance_env \<Rightarrow> SdkImageEnhanceTaskRequest \<Rightarrow> string \<Rightarrow> 'e enhance_sys \<Rightarrow> bool" where
  "task_ends env request k = live k (ends_in (outcomes (unpaid env request)))"

lemma task_endsI: "live k (ends_in X) s \<Longrightarrow> X \<subseteq> outcomes (unpaid env request) \<Longrightarrow> task_ends env request k s"
  unfolding task_ends_def by (auto elim!: live_mono intro: ends_in_mono)

lemma early_ends:
  "live k (ends_in {''failed'', ''cancelled''}) s \<Longrightarrow> task_ends env request k s"
  "live k (ends_in {''cancelled''}) s \<Longrightarrow> task_ends env request k s"
  by (erule task_endsI, simp add: outcomes_def)+

lemma wp_publish_end:
  "live k (ends_in X) s \<Longrightarrow> X \<subseteq> outcomes (unpaid env request) \<Longrightarrow>
   wp_io (PublishEvent_enhance env' task) (\<lambda>_. task_ends env request k) (live k any_task) s"
  by (auto intro!: wp_publish [where k = k and P = "ends_in X"] intro: task_endsI)

lemma wp_finish_task:
  assumes "live k any_task s"
    and "(\<exists>step \<in> set (el_steps (iq_pipeline request)). charged_step step) \<longrightarrow> snd vars \<noteq> []"
  shows "wp_io (finish_task env k request vars) (\<lambda>_. task_ends env request k) (live k any_task) s"
proof -
  have sub: "outcomes (refuses_quota env \<and> snd vars \<noteq> []) \<subseteq> outcomes (unpaid env request)"
    using assms(2) by (auto simp: outcomes_def unpaid_def)
  have "wp_io (make_outputs env k request vars)
      (\<lambda>task. wp_io (PublishEvent_enhance env task) (\<lambda>_. task_ends env request k) (live k any_task)) (live k any_task) t"
    if "live k any_task t" for t
    by (rule wp_make_outputs [OF that]) (auto intro: wp_publish_end [OF _ sub])
  then show ?thesis
    unfolding finish_task_def wpio_bind wp_seq
    by (intro wp_section [OF assms(1)], elim wp_publish) (auto simp: begin_convert_def put_task_def Let_def)
qed

lemma wp_steps_and_finish:
  fixes env :: "'e enhance_env"
  assumes "live k any_task s"
  shows "wp_io (bind_io (run_steps env ip k request n (enumerate 0 (el_steps (iq_pipeline request))) vars) (\<lambda>vars.
      case vars of None \<Rightarrow> ret () | Some vars \<Rightarrow> finish_task env k request vars))
    (\<lambda>_. task_ends env request k) (live k any_task) s"
  unfolding wpio_bind
proof (rule wpio_mono [OF wp_run_steps [OF assms]])
  fix r and t :: "'e enhance_sys"
  assume "steps_post k (snd vars \<noteq> [] \<or> (\<exists>p \<in> set (enumerate 0 (el_steps (iq_pipeline request))). charged_step (snd p))) r t"
  then show "wp_io (case r of None \<Rightarrow> ret () | Some vars \<Rightarrow> finish_task env k request vars)
      (\<lambda>_. task_ends env request k) (live k any_task) t"
    by (cases r) (auto simp: steps_post_def wp_ret enumerate_snd intro: early_ends intro!: wp_finish_task)
qed

lemma wp_RunTaskImpl:
  assumes "live k any_task s"
  shows "wp_io (RunTaskImpl env k request) (\<lambda>_. task_ends env request k) (live k any_task) s"
proof -
  have start: "wp_io (PublishEvent_enhance env (snd a)) (\<lambda>_. wp_io (if fst a then ret () else m) (\<lambda>_. task_ends env request k)
      (live k any_task)) (live k any_task) t"
    if "live k (\<lambda>t. fst a \<longrightarrow> ends_in {''cancelled''} t) t"
      "\<And>t. live k any_task t \<Longrightarrow> wp_io m (\<lambda>_. task_ends env request k) (live k any_task) t"
    for a :: "bool \<times> SdkImageEnhanceTaskSnapshot" and m t
    using that by (intro wp_publish [OF that(1)]) (auto simp: wp_ret intro: live_any early_ends)
  show ?thesis
    unfolding RunTaskImpl_def wpio_bind [of "locked _"] split_def wp_seq [of "PublishEvent_enhance _ _"]
    by (rule wp_begin_task [OF assms stable_any], erule start)
      (auto simp: throw_def wp_io_def [of "throw _"] Let_def intro!: wp_steps_and_finish split: option.split)
qed

lemma wp_worker_done:
  assumes "live k P s" "stable P"
    "\<And>s'. k \<notin> ie_active_worker_task_ids (sy_service s') \<Longrightarrow>
      (\<exists>t. map_of (ie_tasks (sy_service s')) k = Some t \<and> P t) \<Longrightarrow> Q () s'"
  shows "wp_io (locked (worker_done k)) Q E s"
  using live_interfere [OF assms(1, 2)] assms(3) [of "s\<lparr>sy_service := _, sy_others := _\<rparr>"]
  by (auto simp: wp_io_def locked_def worker_done_def Let_def)

lemma wp_catch:
  "wp_io m Q (\<lambda>s. \<forall>e. wp_io (h e) Q E s) s \<Longrightarrow> wp_io (catch_io m h) Q E s"
  by (cases "m s"; cases "fst (m s)") (auto simp: wp_io_def catch_io_def)

lemma wp_RunTask:
  assumes "live k any_task s"
  shows "wp_io (RunTask env k request) (\<lambda>_ s'. k \<notin> ie_active_worker_task_ids (sy_service s') \<and>
    (\<exists>t. map_of (ie_tasks (sy_service s')) k = Some t \<and> ends_in (outcomes (unpaid env request)) t)) (\<lambda>_. False) s"
  unfolding RunTask_def wp_seq
proof (rule wp_catch, rule wpio_mono [OF wp_RunTaskImpl [OF assms]])
  let ?Q = "\<lambda>_ s'. k \<notin> ie_active_worker_task_ids (sy_service s') \<and>
    (\<exists>t. map_of (ie_tasks (sy_service s')) k = Some t \<and> ends_in (outcomes (unpaid env request)) t)"
  have done_task: "wp_io (locked (worker_done k)) ?Q (\<lambda>_. False) t" if "live k (ends_in (outcomes (unpaid env request))) t" for t
    by (rule wp_worker_done [OF that stable_outcomes]) auto
  then show "wp_io (locked (worker_done k)) ?Q (\<lambda>_. False) t" if "task_ends env request k t" for t
    using that by (simp add: task_ends_def)
  show "\<forall>e. wp_io (seq_io (locked (fail_task (what e ''image enhance task failed'') k)) (ret ()))
      (\<lambda>_. wp_io (locked (worker_done k)) ?Q (\<lambda>_. False)) (\<lambda>_. False) t" if "live k any_task t" for t
    unfolding wp_seq wp_ret
    by (intro allI wp_locked [OF that stable_any _ done_task, where P' = "\<lambda>_. ends_in (outcomes (unpaid env request))"])
      (auto simp: section_defs outcomes_def)
qed

section \<open>Every task ends\<close>

lemma RunTask_result:
  assumes "k \<in> ie_active_worker_task_ids (sy_service s)" "map_of (ie_tasks (sy_service s)) k \<noteq> None"
    "\<forall>f \<in> set (sy_others s). interferes k f"
  shows "\<exists>s' t. RunTask env k request s = (Inr (), s') \<and> k \<notin> ie_active_worker_task_ids (sy_service s') \<and>
    map_of (ie_tasks (sy_service s')) k = Some t \<and> ends_in (outcomes (unpaid env request)) t"
proof -
  have "live k any_task s" using assms by (auto simp: live_def)
  from wp_RunTask [OF this, of env request] show ?thesis
    by (cases "RunTask env k request s"; cases "fst (RunTask env k request s)") (auto simp: wp_io_def)
qed

text \<open>C35. Whatever the providers answer or throw, and whatever other threads do to the service meanwhile
  (cancel, clear, start and run other tasks: \<open>interferes_cancel\<close>, \<open>interferes_clear\<close>, \<open>interferes_other\<close>),
  the worker of an enhancement task returns; its task is still there, in one of the three final statuses,
  with the phase of the same name and progress 100, and it no longer counts as active.\<close>

theorem enhance_task_ends:
  assumes "k \<in> ie_active_worker_task_ids (sy_service s)" "map_of (ie_tasks (sy_service s)) k \<noteq> None"
    "\<forall>f \<in> set (sy_others s). interferes k f"
  shows "\<exists>s' t. RunTask env k request s = (Inr (), s') \<and> k \<notin> ie_active_worker_task_ids (sy_service s') \<and>
    map_of (ie_tasks (sy_service s')) k = Some t \<and>
    it_status t \<in> {''completed'', ''failed'', ''cancelled''} \<and> it_phase t = it_status t \<and> it_progress t = 100"
proof -
  have sub: "outcomes (unpaid env request) \<subseteq> {''completed'', ''failed'', ''cancelled''}" by (auto simp: outcomes_def)
  show ?thesis
    using RunTask_result [OF assms, of env request] subsetD [OF sub] unfolding ends_in_def by metis
qed


section \<open>What can go wrong\<close>

lemma leaf_append: "\<forall>c \<in> set b. \<not> is_sep c \<Longrightarrow> leaf_of (a @ b) = leaf_of a @ b"
  by (simp add: leaf_of_def takeWhile_append)

lemma ExtensionFromPath_simple:
  assumes "ext \<noteq> []" "CHR ''.'' \<notin> set ext" "\<forall>c \<in> set ext. \<not> is_sep c"
  shows "ExtensionFromPath (a @ CHR ''.'' # ext) = short_format (to_lower ext)"
proof -
  have "leaf_of (a @ CHR ''.'' # ext) = leaf_of a @ CHR ''.'' # ext"
    using leaf_append [of "CHR ''.'' # ext" a] assms(3) by (simp add: is_sep_def)
  moreover have "takeWhile (\<lambda>c. c \<noteq> CHR ''.'') (rev ext @ CHR ''.'' # rev (leaf_of a)) = rev ext"
    using assms(2) by (subst takeWhile_append2) auto
  ultimately show ?thesis using assms(1) by (simp add: ExtensionFromPath_def Let_def)
qed

lemma PageOutputPath_jpg: "\<exists>a. PageOutputPath dir n ''jpg'' = a @ ''.jpg''"
proof -
  have "ExtensionForFormat_enhance ''jpg'' = ''jpg''" by code_simp
  then show ?thesis by (auto simp: PageOutputPath_def JoinLocalPath_def)
qed

lemma output_is_jpg: "NormalizeFormat (ExtensionFromPath (PageOutputPath dir n ''jpg'')) = ''jpg''"
proof -
  have "NormalizeFormat (short_format (to_lower ''jpg'')) = ''jpg''" by code_simp
  moreover obtain a where "PageOutputPath dir n ''jpg'' = a @ ''.jpg''" using PageOutputPath_jpg by blast
  ultimately show ?thesis using ExtensionFromPath_simple [of "''jpg''" a] by (simp add: is_sep_def)
qed

text \<open>C37. Writing the outputs can overwrite a page that is still to be written: with the outputs of an
  earlier task as inputs in the opposite order, both outputs end up with the content of the first
  input, both copies are reported as written, and the other page is gone.\<close>

theorem reordered_pages_overwrite_each_other:
  fixes env :: "'e enhance_env" and dir :: string
  defines "p \<equiv> \<lambda>n. PageOutputPath dir n ''jpg''" and "c \<equiv> os_canon (ev_os env)"
  assumes "c (p 1) \<noteq> c (p 2)" "\<And>n. \<not> os_refuses (ev_os env) n" "\<not> w_dirs w (c (p 1))" "\<not> w_dirs w (c (p 2))"
    and "w_files w (c (p 1)) = Some first" "w_files w (c (p 2)) = Some other" "other \<noteq> []"
    and "ep_path page1 = p 2" "ep_path page2 = p 1"
  shows "\<exists>pages w'. write_pages env quality ''jpg'' dir 1 [page1, page2] w = (Inr (pages, [p 1, p 2]), w') \<and>
    w_files w' (c (p 1)) = Some other \<and> w_files w' (c (p 2)) = Some other"
proof -
  have distinct: "p 1 \<noteq> p 2" using assms(3) by auto
  have jpg: "NormalizeFormat (ExtensionFromPath (p n)) = ''jpg''" for n by (simp add: p_def output_is_jpg)
  obtain w1 where copy1: "CopyFile (ev_os env) (p 2) (p 1) w = (True, w1)"
    and files1: "w_files w1 = (w_files w)(c (p 1) \<mapsto> other)" and dirs1: "w_dirs w1 = w_dirs w"
    using assms(3-9) by (simp add: CopyFile_def syscall_def Let_def c_def)
  obtain w2 where copy2: "CopyFile (ev_os env) (p 1) (p 2) w1 = (True, w2)"
    and files2: "w_files w2 = (w_files w1)(c (p 2) \<mapsto> other)"
    using assms(3-9) files1 dirs1 by (simp add: CopyFile_def syscall_def Let_def c_def)
  have p_eq: "PageOutputPath dir n ''jpg'' = p n" for n by (simp add: p_def)
  have write1: "write_page env quality ''jpg'' (p 1) (p 2) w = (Inr True, w1)"
    using distinct jpg copy1 by (simp add: write_page_def world_op_def)
  have write2: "write_page env quality ''jpg'' (p 2) (p 1) w1 = (Inr True, w2)"
    using distinct jpg copy2 by (simp add: write_page_def world_op_def)
  have "\<exists>pages. write_pages env quality ''jpg'' dir 1 [page1, page2] w = (Inr (pages, [p 1, p 2]), w2)"
    unfolding write_pages.simps Let_def one_add_one p_eq assms(10, 11)
    by (simp add: bind_io_def write1 write2 ret_def del: One_nat_def)
  with files1 files2 assms(3) show ?thesis by auto
qed

text \<open>A cancellation accepted while a completed task is being charged is undone: the client is told that
  the task is marked, but the worker then stores the snapshot it took before, unmarked and completed.\<close>

theorem cancel_while_charging_is_lost:
  assumes "it_status task = ''completed''" "\<not> it_cancel_requested task"
    and "map_of (ie_tasks (sy_service s)) k = Some task"
    and "sy_others s = [\<lambda>svc. snd (request_cancel (it_connection_id task) k svc)]"
    and "ConfirmOnlineEnhanceQuota (ev_auth_provider env) request k usage (sy_world s) = (Inr quota, w')"
    and "IsOkStatusCode (qr_code quota)"
  shows "(\<exists>marked. fst (request_cancel (it_connection_id task) k (sy_service s)) = Inr marked \<and> it_cancel_requested marked) \<and>
    (\<exists>final s'. settle_task env k request format usage task s = (Inr final, s') \<and>
      map_of (ie_tasks (sy_service s')) k = Some final \<and> it_status final = ''completed'' \<and>
      \<not> it_cancel_requested final \<and> k \<in> ie_cancel_requested (sy_service s'))"
  using assms
  by (auto simp: request_cancel_def settle_task_def bind_io_def gets_io_def on_world_def locked_def charged_def
      put_task_def Let_def)

section \<open>Instances\<close>

definition idle_env :: "unit enhance_env" where
  "idle_env = \<lparr> ev_os = \<lparr> os_canon = (\<lambda>p. p), os_refuses = (\<lambda>_. False) \<rparr>, ev_dir_size = (\<lambda>_. 0),
     ev_work_dir = ''/w'', ev_asset_base_url = [],
     ev_providers = \<lparr> device_provider = None, graphic_provider = None, image_enhance_provider = None \<rparr>,
     ev_auth_provider = None, ev_ofd_provider = None, ev_event_sink = None, ev_parse = (\<lambda>_. None), ev_now = (\<lambda>_. 0) \<rparr>"

definition demo_task :: SdkImageEnhanceTaskSnapshot where
  "demo_task = default_SdkImageEnhanceTaskSnapshot\<lparr> it_task_id := ''t'', it_connection_id := ''c'' \<rparr>"

definition demo_sys :: "unit enhance_sys" where
  "demo_sys = \<lparr> sy_service = \<lparr> ie_tasks = [(''t'', demo_task)], ie_cancel_requested = {},
       ie_active_worker_task_ids = {''t''}, ie_next_task_seq = 2 \<rparr>,
     sy_world = \<lparr> w_files = (\<lambda>_. None), w_dirs = (\<lambda>_. False), w_calls = 0, w_ext = () \<rparr>,
     sy_others = [\<lambda>s. snd (request_cancel ''c'' ''t'' s)] \<rparr>"

lemma demo_sys_ready:
  "''t'' \<in> ie_active_worker_task_ids (sy_service demo_sys)" "map_of (ie_tasks (sy_service demo_sys)) ''t'' \<noteq> None"
  "\<forall>f \<in> set (sy_others demo_sys). interferes ''t'' f"
  using interferes_cancel by (auto simp: demo_sys_def)

theorem enhance_task_ends_witness:
  "\<exists>s' t. RunTask idle_env ''t'' default_SdkImageEnhanceTaskRequest demo_sys = (Inr (), s') \<and>
     map_of (ie_tasks (sy_service s')) ''t'' = Some t \<and> it_progress t = 100"
  using enhance_task_ends [OF demo_sys_ready, of idle_env default_SdkImageEnhanceTaskRequest] by blast

definition online_request :: SdkImageEnhanceTaskRequest where
  "online_request = default_SdkImageEnhanceTaskRequest
     \<lparr> iq_pipeline := default_SdkImageEnhancePipeline
         \<lparr> el_steps := [default_SdkImageEnhanceStep\<lparr> es_type := ''remove_moire'' \<rparr>] \<rparr> \<rparr>"


theorem reordered_pages_overwrite_each_other_witness:
  "\<exists>pages w'. write_pages idle_env 90 ''jpg'' ''/o'' 1
      [default_SdkImageEnhancePage\<lparr>ep_path := PageOutputPath ''/o'' 2 ''jpg''\<rparr>,
       default_SdkImageEnhancePage\<lparr>ep_path := PageOutputPath ''/o'' 1 ''jpg''\<rparr>]
      \<lparr> w_files = [PageOutputPath ''/o'' 1 ''jpg'' \<mapsto> ''first'', PageOutputPath ''/o'' 2 ''jpg'' \<mapsto> ''other''],
        w_dirs = (\<lambda>_. False), w_calls = 0, w_ext = () \<rparr> =
      (Inr (pages, [PageOutputPath ''/o'' 1 ''jpg'', PageOutputPath ''/o'' 2 ''jpg'']), w') \<and>
    w_files w' (PageOutputPath ''/o'' 1 ''jpg'') = Some ''other''"
proof -
  have "PageOutputPath ''/o'' 1 ''jpg'' \<noteq> PageOutputPath ''/o'' 2 ''jpg''" by code_simp
  with reordered_pages_overwrite_each_other [of idle_env "''/o''"
      "\<lparr> w_files = [PageOutputPath ''/o'' 1 ''jpg'' \<mapsto> ''first'', PageOutputPath ''/o'' 2 ''jpg'' \<mapsto> ''other''],
         w_dirs = (\<lambda>_. False), w_calls = 0, w_ext = () \<rparr>" "''first''" "''other''"
      "default_SdkImageEnhancePage\<lparr>ep_path := PageOutputPath ''/o'' 2 ''jpg''\<rparr>"
      "default_SdkImageEnhancePage\<lparr>ep_path := PageOutputPath ''/o'' 1 ''jpg''\<rparr>" 90]
  show ?thesis by (auto simp: idle_env_def)
qed

theorem cancel_while_charging_is_lost_witness:
  "\<exists>final s'. settle_task idle_env ''t'' default_SdkImageEnhanceTaskRequest ''jpg'' [] (ended ''completed'' demo_task)
       (demo_sys\<lparr>sy_service := put_task ''t'' (ended ''completed'' demo_task) (sy_service demo_sys)\<rparr>) = (Inr final, s') \<and>
     \<not> it_cancel_requested final \<and> ''t'' \<in> ie_cancel_requested (sy_service s')"
proof -
  let ?t = "ended ''completed'' demo_task"
  let ?s = "demo_sys\<lparr>sy_service := put_task ''t'' ?t (sy_service demo_sys)\<rparr>"
  note fields = ended_def demo_task_def demo_sys_def put_task_def default_SdkImageEnhanceTaskSnapshot_def
  have "it_status ?t = ''completed''" "\<not> it_cancel_requested ?t" "map_of (ie_tasks (sy_service ?s)) ''t'' = Some ?t"
    "sy_others ?s = [\<lambda>svc. snd (request_cancel (it_connection_id ?t) ''t'' svc)]"
    by (simp_all add: fields)
  moreover have "ConfirmOnlineEnhanceQuota (ev_auth_provider idle_env) default_SdkImageEnhanceTaskRequest ''t'' [] (sy_world ?s) =
      (Inr default_QuotaConsumeResult, sy_world ?s)" "IsOkStatusCode (qr_code default_QuotaConsumeResult)"
    by (simp_all add: ConfirmOnlineEnhanceQuota_def ret_def default_QuotaConsumeResult_def IsOkStatusCode_def ToCode_def)
  ultimately show ?thesis
    using cancel_while_charging_is_lost [of ?t ?s "''t''" idle_env] by blast
qed

end
