(* ===== verification/Scan_Types.thy ===== *)
theory Scan_Types
  imports Provider_Types
begin

text \<open>
  The structs of the SANE and TWAIN interfaces in \<open>interfaces/sdk_provider_types.h\<close>, with their default
  member initialisers.  A \<open>double\<close> is its exact value.
\<close>

record SdkSaneStatusResult =
  saneStatusResult_code :: int
  saneStatusResult_message :: string
  saneStatusResult_available :: bool
  saneStatusResult_platform :: string
  saneStatusResult_supported_platforms :: "string list"
  saneStatusResult_sane_major :: int
  saneStatusResult_sane_minor :: int
  saneStatusResult_sane_version :: string
  saneStatusResult_reason :: string

definition default_SdkSaneStatusResult :: SdkSaneStatusResult where
  "default_SdkSaneStatusResult = \<lparr> saneStatusResult_code = ToCode Ok, saneStatusResult_message = ''ok'',
     saneStatusResult_available = False, saneStatusResult_platform = '''',
     saneStatusResult_supported_platforms = [], saneStatusResult_sane_major = 0,
     saneStatusResult_sane_minor = 0, saneStatusResult_sane_version = '''',
     saneStatusResult_reason = '''' \<rparr>"

record SdkSaneDevice =
  saneDevice_device_id :: string
  saneDevice_device_name :: string
  saneDevice_vendor :: string
  saneDevice_model :: string
  saneDevice_type :: string
  saneDevice_backend :: string
  saneDevice_status :: string
  saneDevice_discovery_source :: string
  saneDevice_openable :: bool

definition default_SdkSaneDevice :: SdkSaneDevice where
  "default_SdkSaneDevice = \<lparr> saneDevice_device_id = '''', saneDevice_device_name = '''', saneDevice_vendor = '''',
     saneDevice_model = '''', saneDevice_type = '''', saneDevice_backend = '''',
     saneDevice_status = ''online'', saneDevice_discovery_source = '''', saneDevice_openable = True \<rparr>"

record SdkSaneListRequest =
  saneListRequest_refresh :: bool
  saneListRequest_include_detected :: bool

definition default_SdkSaneListRequest :: SdkSaneListRequest where
  "default_SdkSaneListRequest = \<lparr> saneListRequest_refresh = True, saneListRequest_include_detected = False \<rparr>"

record SdkSaneListResult =
  saneListResult_code :: int
  saneListResult_message :: string
  saneListResult_generation :: int
  saneListResult_devices :: "SdkSaneDevice list"
  saneListResult_detected_devices :: "SdkSaneDevice list"

definition default_SdkSaneListResult :: SdkSaneListResult where
  "default_SdkSaneListResult = \<lparr> saneListResult_code = ToCode Ok, saneListResult_message = ''ok'',
     saneListResult_generation = 0, saneListResult_devices = [],
     saneListResult_detected_devices = [] \<rparr>"

record SdkSaneWatchRequest =
  saneWatchRequest_connection_id :: string
  saneWatchRequest_enabled :: bool

definition default_SdkSaneWatchRequest :: SdkSaneWatchRequest where
  "default_SdkSaneWatchRequest = \<lparr> saneWatchRequest_connection_id = '''', saneWatchRequest_enabled = True \<rparr>"

record SdkSaneWatchResult =
  saneWatchResult_code :: int
  saneWatchResult_message :: string
  saneWatchResult_watching :: bool
  saneWatchResult_generation :: int

definition default_SdkSaneWatchResult :: SdkSaneWatchResult where
  "default_SdkSaneWatchResult = \<lparr> saneWatchResult_code = ToCode Ok, saneWatchResult_message = ''ok'',
     saneWatchResult_watching = False, saneWatchResult_generation = 0 \<rparr>"

record SdkSaneDeviceEvent =
  saneDeviceEvent_code :: int
  saneDeviceEvent_message :: string
  saneDeviceEvent_connection_id :: string
  saneDeviceEvent_event_name :: string
  saneDeviceEvent_generation :: int
  saneDeviceEvent_devices :: "SdkSaneDevice list"
  saneDeviceEvent_detected_devices :: "SdkSaneDevice list"
  saneDeviceEvent_added_devices :: "SdkSaneDevice list"
  saneDeviceEvent_removed_devices :: "SdkSaneDevice list"

definition default_SdkSaneDeviceEvent :: SdkSaneDeviceEvent where
  "default_SdkSaneDeviceEvent = \<lparr> saneDeviceEvent_code = ToCode Ok, saneDeviceEvent_message = ''ok'',
     saneDeviceEvent_connection_id = '''', saneDeviceEvent_event_name = '''',
     saneDeviceEvent_generation = 0, saneDeviceEvent_devices = [],
     saneDeviceEvent_detected_devices = [], saneDeviceEvent_added_devices = [],
     saneDeviceEvent_removed_devices = [] \<rparr>"

record SdkSaneOpenRequest =
  saneOpenRequest_device_id :: string
  saneOpenRequest_device_name :: string
  saneOpenRequest_profile_id :: string
  saneOpenRequest_option_keys :: "string list"
  saneOpenRequest_option_values_json :: "string list"

definition default_SdkSaneOpenRequest :: SdkSaneOpenRequest where
  "default_SdkSaneOpenRequest = \<lparr> saneOpenRequest_device_id = '''', saneOpenRequest_device_name = '''',
     saneOpenRequest_profile_id = '''', saneOpenRequest_option_keys = [],
     saneOpenRequest_option_values_json = [] \<rparr>"

record SdkSaneOpenResult =
  saneOpenResult_code :: int
  saneOpenResult_message :: string
  saneOpenResult_opened :: bool
  saneOpenResult_session_id :: string
  saneOpenResult_device :: SdkSaneDevice

definition default_SdkSaneOpenResult :: SdkSaneOpenResult where
  "default_SdkSaneOpenResult = \<lparr> saneOpenResult_code = ToCode Ok, saneOpenResult_message = ''ok'',
     saneOpenResult_opened = False, saneOpenResult_session_id = '''',
     saneOpenResult_device = default_SdkSaneDevice \<rparr>"

record SdkSaneCloseRequest =
  saneCloseRequest_session_id :: string

definition default_SdkSaneCloseRequest :: SdkSaneCloseRequest where
  "default_SdkSaneCloseRequest = \<lparr> saneCloseRequest_session_id = '''' \<rparr>"

record SdkSaneCloseResult =
  saneCloseResult_code :: int
  saneCloseResult_message :: string
  saneCloseResult_closed :: bool
  saneCloseResult_was_opened :: bool

definition default_SdkSaneCloseResult :: SdkSaneCloseResult where
  "default_SdkSaneCloseResult = \<lparr> saneCloseResult_code = ToCode Ok, saneCloseResult_message = ''ok'',
     saneCloseResult_closed = False, saneCloseResult_was_opened = False \<rparr>"

record SdkSaneOptionConstraint =
  saneOptionConstraint_type :: string
  saneOptionConstraint_min :: rat
  saneOptionConstraint_max :: rat
  saneOptionConstraint_quant :: rat
  saneOptionConstraint_values_json :: "string list"

definition default_SdkSaneOptionConstraint :: SdkSaneOptionConstraint where
  "default_SdkSaneOptionConstraint = \<lparr> saneOptionConstraint_type = ''none'', saneOptionConstraint_min = 0,
     saneOptionConstraint_max = 0, saneOptionConstraint_quant = 0,
     saneOptionConstraint_values_json = [] \<rparr>"

record SdkSaneOption =
  saneOption_index :: int
  saneOption_name :: string
  saneOption_title :: string
  saneOption_description :: string
  saneOption_group :: string
  saneOption_type :: string
  saneOption_unit :: string
  saneOption_value_json :: string
  saneOption_constraint :: SdkSaneOptionConstraint
  saneOption_readonly :: bool
  saneOption_settable :: bool
  saneOption_automatic :: bool
  saneOption_inactive :: bool
  saneOption_advanced :: bool
  saneOption_requires_reload :: bool

definition default_SdkSaneOption :: SdkSaneOption where
  "default_SdkSaneOption = \<lparr> saneOption_index = - 1, saneOption_name = '''', saneOption_title = '''',
     saneOption_description = '''', saneOption_group = '''', saneOption_type = '''',
     saneOption_unit = '''', saneOption_value_json = '''',
     saneOption_constraint = default_SdkSaneOptionConstraint, saneOption_readonly = False,
     saneOption_settable = True, saneOption_automatic = False, saneOption_inactive = False,
     saneOption_advanced = False, saneOption_requires_reload = False \<rparr>"

record SdkSaneGetOptionsRequest =
  saneGetOptionsRequest_session_id :: string

definition default_SdkSaneGetOptionsRequest :: SdkSaneGetOptionsRequest where
  "default_SdkSaneGetOptionsRequest = \<lparr> saneGetOptionsRequest_session_id = '''' \<rparr>"

record SdkSaneGetOptionsResult =
  saneGetOptionsResult_code :: int
  saneGetOptionsResult_message :: string
  saneGetOptionsResult_options :: "SdkSaneOption list"

definition default_SdkSaneGetOptionsResult :: SdkSaneGetOptionsResult where
  "default_SdkSaneGetOptionsResult = \<lparr> saneGetOptionsResult_code = ToCode Ok, saneGetOptionsResult_message = ''ok'',
     saneGetOptionsResult_options = [] \<rparr>"

record SdkSaneOptionSetItem =
  saneOptionSetItem_key :: string
  saneOptionSetItem_index :: int
  saneOptionSetItem_value_json :: string

definition default_SdkSaneOptionSetItem :: SdkSaneOptionSetItem where
  "default_SdkSaneOptionSetItem = \<lparr> saneOptionSetItem_key = '''', saneOptionSetItem_index = - 1,
     saneOptionSetItem_value_json = '''' \<rparr>"

record SdkSaneSetOptionsRequest =
  saneSetOptionsRequest_session_id :: string
  saneSetOptionsRequest_options :: "SdkSaneOptionSetItem list"

definition default_SdkSaneSetOptionsRequest :: SdkSaneSetOptionsRequest where
  "default_SdkSaneSetOptionsRequest = \<lparr> saneSetOptionsRequest_session_id = '''', saneSetOptionsRequest_options = [] \<rparr>"

record SdkSaneOptionSetResultItem =
  saneOptionSetResultItem_key :: string
  saneOptionSetResultItem_index :: int
  saneOptionSetResultItem_status :: string
  saneOptionSetResultItem_message :: string
  saneOptionSetResultItem_value_json :: string
  saneOptionSetResultItem_inexact :: bool
  saneOptionSetResultItem_requires_reload :: bool

definition default_SdkSaneOptionSetResultItem :: SdkSaneOptionSetResultItem where
  "default_SdkSaneOptionSetResultItem = \<lparr> saneOptionSetResultItem_key = '''', saneOptionSetResultItem_index = - 1,
     saneOptionSetResultItem_status = '''', saneOptionSetResultItem_message = '''',
     saneOptionSetResultItem_value_json = '''', saneOptionSetResultItem_inexact = False,
     saneOptionSetResultItem_requires_reload = False \<rparr>"

record SdkSaneSetOptionsResult =
  saneSetOptionsResult_code :: int
  saneSetOptionsResult_message :: string
  saneSetOptionsResult_applied :: bool
  saneSetOptionsResult_requires_reload :: bool
  saneSetOptionsResult_results :: "SdkSaneOptionSetResultItem list"

definition default_SdkSaneSetOptionsResult :: SdkSaneSetOptionsResult where
  "default_SdkSaneSetOptionsResult = \<lparr> saneSetOptionsResult_code = ToCode Ok, saneSetOptionsResult_message = ''ok'',
     saneSetOptionsResult_applied = False, saneSetOptionsResult_requires_reload = False,
     saneSetOptionsResult_results = [] \<rparr>"

record SdkSaneProfile =
  saneProfile_profile_id :: string
  saneProfile_device_key :: string
  saneProfile_name :: string
  saneProfile_options :: "SdkSaneOptionSetItem list"
  saneProfile_created_at :: string
  saneProfile_updated_at :: string

definition default_SdkSaneProfile :: SdkSaneProfile where
  "default_SdkSaneProfile = \<lparr> saneProfile_profile_id = '''', saneProfile_device_key = '''', saneProfile_name = '''',
     saneProfile_options = [], saneProfile_created_at = '''', saneProfile_updated_at = '''' \<rparr>"

record SdkSaneProfileRequest =
  saneProfileRequest_session_id :: string
  saneProfileRequest_device_id :: string
  saneProfileRequest_device_name :: string
  saneProfileRequest_device_key :: string
  saneProfileRequest_profile_id :: string
  saneProfileRequest_name :: string
  saneProfileRequest_options :: "SdkSaneOptionSetItem list"

definition default_SdkSaneProfileRequest :: SdkSaneProfileRequest where
  "default_SdkSaneProfileRequest = \<lparr> saneProfileRequest_session_id = '''', saneProfileRequest_device_id = '''',
     saneProfileRequest_device_name = '''', saneProfileRequest_device_key = '''',
     saneProfileRequest_profile_id = '''', saneProfileRequest_name = '''',
     saneProfileRequest_options = [] \<rparr>"

record SdkSaneProfileListResult =
  saneProfileListResult_code :: int
  saneProfileListResult_message :: string
  saneProfileListResult_profiles :: "SdkSaneProfile list"

definition default_SdkSaneProfileListResult :: SdkSaneProfileListResult where
  "default_SdkSaneProfileListResult = \<lparr> saneProfileListResult_code = ToCode Ok, saneProfileListResult_message = ''ok'',
     saneProfileListResult_profiles = [] \<rparr>"

record SdkSaneProfileResult =
  saneProfileResult_code :: int
  saneProfileResult_message :: string
  saneProfileResult_applied :: bool
  saneProfileResult_saved :: bool
  saneProfileResult_deleted :: bool
  saneProfileResult_profile :: SdkSaneProfile

definition default_SdkSaneProfileResult :: SdkSaneProfileResult where
  "default_SdkSaneProfileResult = \<lparr> saneProfileResult_code = ToCode Ok, saneProfileResult_message = ''ok'',
     saneProfileResult_applied = False, saneProfileResult_saved = False,
     saneProfileResult_deleted = False, saneProfileResult_profile = default_SdkSaneProfile \<rparr>"

record SdkSaneScanRequest =
  saneScanRequest_connection_id :: string
  saneScanRequest_session_id :: string
  saneScanRequest_options :: "SdkSaneOptionSetItem list"
  saneScanRequest_output_type :: string
  saneScanRequest_output_format :: string
  saneScanRequest_output_path :: string
  saneScanRequest_output_dir :: string
  saneScanRequest_export_type :: string

definition default_SdkSaneScanRequest :: SdkSaneScanRequest where
  "default_SdkSaneScanRequest = \<lparr> saneScanRequest_connection_id = '''', saneScanRequest_session_id = '''',
     saneScanRequest_options = [], saneScanRequest_output_type = ''images'',
     saneScanRequest_output_format = ''jpg'', saneScanRequest_output_path = '''',
     saneScanRequest_output_dir = '''', saneScanRequest_export_type = ''multi-page'' \<rparr>"

record SdkSaneScanTask =
  saneScanTask_task_id :: string
  saneScanTask_connection_id :: string
  saneScanTask_session_id :: string
  saneScanTask_status :: string
  saneScanTask_phase :: string
  saneScanTask_progress :: int
  saneScanTask_page_count :: int
  saneScanTask_current_page :: int
  saneScanTask_output_type :: string
  saneScanTask_output_format :: string
  saneScanTask_output_dir :: string
  saneScanTask_export_type :: string
  saneScanTask_output_path :: string
  saneScanTask_output_paths :: "string list"
  saneScanTask_last_page_path :: string
  saneScanTask_assets :: "SdkCaptureAsset list"
  saneScanTask_message :: string
  saneScanTask_error :: string
  saneScanTask_started_at :: string
  saneScanTask_updated_at :: string
  saneScanTask_cancel_requested :: bool

definition default_SdkSaneScanTask :: SdkSaneScanTask where
  "default_SdkSaneScanTask = \<lparr> saneScanTask_task_id = '''', saneScanTask_connection_id = '''',
     saneScanTask_session_id = '''', saneScanTask_status = ''queued'',
     saneScanTask_phase = ''queued'', saneScanTask_progress = 0, saneScanTask_page_count = 0,
     saneScanTask_current_page = 0, saneScanTask_output_type = ''images'',
     saneScanTask_output_format = ''jpg'', saneScanTask_output_dir = '''',
     saneScanTask_export_type = ''multi-page'', saneScanTask_output_path = '''',
     saneScanTask_output_paths = [], saneScanTask_last_page_path = '''', saneScanTask_assets = [],
     saneScanTask_message = ''queued'', saneScanTask_error = '''', saneScanTask_started_at = '''',
     saneScanTask_updated_at = '''', saneScanTask_cancel_requested = False \<rparr>"

record SdkSaneScanResult =
  saneScanResult_code :: int
  saneScanResult_message :: string
  saneScanResult_accepted :: bool
  saneScanResult_task_id :: string
  saneScanResult_task :: SdkSaneScanTask

definition default_SdkSaneScanResult :: SdkSaneScanResult where
  "default_SdkSaneScanResult = \<lparr> saneScanResult_code = ToCode Ok, saneScanResult_message = ''ok'',
     saneScanResult_accepted = False, saneScanResult_task_id = '''',
     saneScanResult_task = default_SdkSaneScanTask \<rparr>"

record SdkSaneScanTaskEvent =
  saneScanTaskEvent_code :: int
  saneScanTaskEvent_message :: string
  saneScanTaskEvent_connection_id :: string
  saneScanTaskEvent_event_name :: string
  saneScanTaskEvent_task :: SdkSaneScanTask

definition default_SdkSaneScanTaskEvent :: SdkSaneScanTaskEvent where
  "default_SdkSaneScanTaskEvent = \<lparr> saneScanTaskEvent_code = ToCode Ok, saneScanTaskEvent_message = ''ok'',
     saneScanTaskEvent_connection_id = '''',
     saneScanTaskEvent_event_name = ''sane.scan_changed'',
     saneScanTaskEvent_task = default_SdkSaneScanTask \<rparr>"

record SdkSaneScanGetRequest =
  saneScanGetRequest_task_id :: string

definition default_SdkSaneScanGetRequest :: SdkSaneScanGetRequest where
  "default_SdkSaneScanGetRequest = \<lparr> saneScanGetRequest_task_id = '''' \<rparr>"

record SdkSaneScanCancelRequest =
  saneScanCancelRequest_task_id :: string

definition default_SdkSaneScanCancelRequest :: SdkSaneScanCancelRequest where
  "default_SdkSaneScanCancelRequest = \<lparr> saneScanCancelRequest_task_id = '''' \<rparr>"

record SdkTwainStatusResult =
  twStatusResult_code :: int
  twStatusResult_message :: string
  twStatusResult_available :: bool
  twStatusResult_platform :: string
  twStatusResult_supported_platforms :: "string list"
  twStatusResult_dsm_loaded :: bool
  twStatusResult_dsm_path :: string
  twStatusResult_twain_version :: string
  twStatusResult_reason :: string

definition default_SdkTwainStatusResult :: SdkTwainStatusResult where
  "default_SdkTwainStatusResult = \<lparr> twStatusResult_code = ToCode Ok, twStatusResult_message = ''ok'',
     twStatusResult_available = False, twStatusResult_platform = '''',
     twStatusResult_supported_platforms = [], twStatusResult_dsm_loaded = False,
     twStatusResult_dsm_path = '''', twStatusResult_twain_version = '''',
     twStatusResult_reason = '''' \<rparr>"

record SdkTwainSource =
  twSource_source_id :: string
  twSource_source_name :: string
  twSource_manufacturer :: string
  twSource_product_family :: string
  twSource_product_name :: string
  twSource_protocol_major :: int
  twSource_protocol_minor :: int
  twSource_status :: string
  twSource_openable :: bool

definition default_SdkTwainSource :: SdkTwainSource where
  "default_SdkTwainSource = \<lparr> twSource_source_id = '''', twSource_source_name = '''', twSource_manufacturer = '''',
     twSource_product_family = '''', twSource_product_name = '''', twSource_protocol_major = 0,
     twSource_protocol_minor = 0, twSource_status = ''online'', twSource_openable = True \<rparr>"

record SdkTwainListRequest =
  twListRequest_refresh :: bool

definition default_SdkTwainListRequest :: SdkTwainListRequest where
  "default_SdkTwainListRequest = \<lparr> twListRequest_refresh = True \<rparr>"

record SdkTwainListResult =
  twListResult_code :: int
  twListResult_message :: string
  twListResult_generation :: int
  twListResult_sources :: "SdkTwainSource list"

definition default_SdkTwainListResult :: SdkTwainListResult where
  "default_SdkTwainListResult = \<lparr> twListResult_code = ToCode Ok, twListResult_message = ''ok'', twListResult_generation = 0,
     twListResult_sources = [] \<rparr>"

record SdkTwainWatchRequest =
  twWatchRequest_connection_id :: string
  twWatchRequest_enabled :: bool

definition default_SdkTwainWatchRequest :: SdkTwainWatchRequest where
  "default_SdkTwainWatchRequest = \<lparr> twWatchRequest_connection_id = '''', twWatchRequest_enabled = True \<rparr>"

record SdkTwainWatchResult =
  twWatchResult_code :: int
  twWatchResult_message :: string
  twWatchResult_watching :: bool
  twWatchResult_generation :: int

definition default_SdkTwainWatchResult :: SdkTwainWatchResult where
  "default_SdkTwainWatchResult = \<lparr> twWatchResult_code = ToCode Ok, twWatchResult_message = ''ok'',
     twWatchResult_watching = False, twWatchResult_generation = 0 \<rparr>"

record SdkTwainSourceEvent =
  twSourceEvent_code :: int
  twSourceEvent_message :: string
  twSourceEvent_connection_id :: string
  twSourceEvent_event_name :: string
  twSourceEvent_generation :: int
  twSourceEvent_sources :: "SdkTwainSource list"
  twSourceEvent_added_sources :: "SdkTwainSource list"
  twSourceEvent_removed_sources :: "SdkTwainSource list"

definition default_SdkTwainSourceEvent :: SdkTwainSourceEvent where
  "default_SdkTwainSourceEvent = \<lparr> twSourceEvent_code = ToCode Ok, twSourceEvent_message = ''ok'',
     twSourceEvent_connection_id = '''', twSourceEvent_event_name = ''twain.source_snapshot'',
     twSourceEvent_generation = 0, twSourceEvent_sources = [], twSourceEvent_added_sources = [],
     twSourceEvent_removed_sources = [] \<rparr>"

record SdkTwainOpenRequest =
  twOpenRequest_source_id :: string

definition default_SdkTwainOpenRequest :: SdkTwainOpenRequest where
  "default_SdkTwainOpenRequest = \<lparr> twOpenRequest_source_id = '''' \<rparr>"

record SdkTwainOpenResult =
  twOpenResult_code :: int
  twOpenResult_message :: string
  twOpenResult_opened :: bool
  twOpenResult_session_id :: string
  twOpenResult_source :: SdkTwainSource

definition default_SdkTwainOpenResult :: SdkTwainOpenResult where
  "default_SdkTwainOpenResult = \<lparr> twOpenResult_code = ToCode Ok, twOpenResult_message = ''ok'', twOpenResult_opened = False,
     twOpenResult_session_id = '''', twOpenResult_source = default_SdkTwainSource \<rparr>"

record SdkTwainCloseRequest =
  twCloseRequest_session_id :: string

definition default_SdkTwainCloseRequest :: SdkTwainCloseRequest where
  "default_SdkTwainCloseRequest = \<lparr> twCloseRequest_session_id = '''' \<rparr>"

record SdkTwainCloseResult =
  twCloseResult_code :: int
  twCloseResult_message :: string
  twCloseResult_closed :: bool
  twCloseResult_was_opened :: bool

definition default_SdkTwainCloseResult :: SdkTwainCloseResult where
  "default_SdkTwainCloseResult = \<lparr> twCloseResult_code = ToCode Ok, twCloseResult_message = ''ok'', twCloseResult_closed = False,
     twCloseResult_was_opened = False \<rparr>"

record SdkTwainCapabilityConstraint =
  twCapabilityConstraint_type :: string
  twCapabilityConstraint_min :: rat
  twCapabilityConstraint_max :: rat
  twCapabilityConstraint_quant :: rat
  twCapabilityConstraint_values_json :: "string list"

definition default_SdkTwainCapabilityConstraint :: SdkTwainCapabilityConstraint where
  "default_SdkTwainCapabilityConstraint = \<lparr> twCapabilityConstraint_type = ''none'', twCapabilityConstraint_min = 0,
     twCapabilityConstraint_max = 0, twCapabilityConstraint_quant = 0,
     twCapabilityConstraint_values_json = [] \<rparr>"

record SdkTwainCapability =
  twCapability_cap :: string
  twCapability_cap_id :: int
  twCapability_name :: string
  twCapability_title :: string
  twCapability_type :: string
  twCapability_value_json :: string
  twCapability_constraint :: SdkTwainCapabilityConstraint
  twCapability_readonly :: bool
  twCapability_settable :: bool
  twCapability_advanced :: bool

definition default_SdkTwainCapability :: SdkTwainCapability where
  "default_SdkTwainCapability = \<lparr> twCapability_cap = '''', twCapability_cap_id = 0, twCapability_name = '''',
     twCapability_title = '''', twCapability_type = '''', twCapability_value_json = '''',
     twCapability_constraint = default_SdkTwainCapabilityConstraint,
     twCapability_readonly = False, twCapability_settable = True, twCapability_advanced = False \<rparr>"

record SdkTwainGetCapabilitiesRequest =
  twGetCapabilitiesRequest_session_id :: string

definition default_SdkTwainGetCapabilitiesRequest :: SdkTwainGetCapabilitiesRequest where
  "default_SdkTwainGetCapabilitiesRequest = \<lparr> twGetCapabilitiesRequest_session_id = '''' \<rparr>"

record SdkTwainGetCapabilitiesResult =
  twGetCapabilitiesResult_code :: int
  twGetCapabilitiesResult_message :: string
  twGetCapabilitiesResult_capabilities :: "SdkTwainCapability list"

definition default_SdkTwainGetCapabilitiesResult :: SdkTwainGetCapabilitiesResult where
  "default_SdkTwainGetCapabilitiesResult = \<lparr> twGetCapabilitiesResult_code = ToCode Ok, twGetCapabilitiesResult_message = ''ok'',
     twGetCapabilitiesResult_capabilities = [] \<rparr>"

record SdkTwainCapabilitySetItem =
  twCapabilitySetItem_cap :: string
  twCapabilitySetItem_name :: string
  twCapabilitySetItem_value_json :: string

definition default_SdkTwainCapabilitySetItem :: SdkTwainCapabilitySetItem where
  "default_SdkTwainCapabilitySetItem = \<lparr> twCapabilitySetItem_cap = '''', twCapabilitySetItem_name = '''',
     twCapabilitySetItem_value_json = '''' \<rparr>"

record SdkTwainSetCapabilitiesRequest =
  twSetCapabilitiesRequest_session_id :: string
  twSetCapabilitiesRequest_capabilities :: "SdkTwainCapabilitySetItem list"

definition default_SdkTwainSetCapabilitiesRequest :: SdkTwainSetCapabilitiesRequest where
  "default_SdkTwainSetCapabilitiesRequest = \<lparr> twSetCapabilitiesRequest_session_id = '''', twSetCapabilitiesRequest_capabilities = [] \<rparr>"

record SdkTwainCapabilitySetResultItem =
  twCapabilitySetResultItem_cap :: string
  twCapabilitySetResultItem_name :: string
  twCapabilitySetResultItem_status :: string
  twCapabilitySetResultItem_message :: string
  twCapabilitySetResultItem_value_json :: string

definition default_SdkTwainCapabilitySetResultItem :: SdkTwainCapabilitySetResultItem where
  "default_SdkTwainCapabilitySetResultItem = \<lparr> twCapabilitySetResultItem_cap = '''', twCapabilitySetResultItem_name = '''',
     twCapabilitySetResultItem_status = '''', twCapabilitySetResultItem_message = '''',
     twCapabilitySetResultItem_value_json = '''' \<rparr>"

record SdkTwainSetCapabilitiesResult =
  twSetCapabilitiesResult_code :: int
  twSetCapabilitiesResult_message :: string
  twSetCapabilitiesResult_applied :: bool
  twSetCapabilitiesResult_requires_reload :: bool
  twSetCapabilitiesResult_results :: "SdkTwainCapabilitySetResultItem list"

definition default_SdkTwainSetCapabilitiesResult :: SdkTwainSetCapabilitiesResult where
  "default_SdkTwainSetCapabilitiesResult = \<lparr> twSetCapabilitiesResult_code = ToCode Ok, twSetCapabilitiesResult_message = ''ok'',
     twSetCapabilitiesResult_applied = False, twSetCapabilitiesResult_requires_reload = False,
     twSetCapabilitiesResult_results = [] \<rparr>"

record SdkTwainProfile =
  twProfile_profile_id :: string
  twProfile_source_key :: string
  twProfile_name :: string
  twProfile_capabilities :: "SdkTwainCapabilitySetItem list"
  twProfile_created_at :: string
  twProfile_updated_at :: string

definition default_SdkTwainProfile :: SdkTwainProfile where
  "default_SdkTwainProfile = \<lparr> twProfile_profile_id = '''', twProfile_source_key = '''', twProfile_name = '''',
     twProfile_capabilities = [], twProfile_created_at = '''', twProfile_updated_at = '''' \<rparr>"

record SdkTwainProfileRequest =
  twProfileRequest_session_id :: string
  twProfileRequest_source_id :: string
  twProfileRequest_source_key :: string
  twProfileRequest_profile_id :: string
  twProfileRequest_name :: string
  twProfileRequest_capabilities :: "SdkTwainCapabilitySetItem list"

definition default_SdkTwainProfileRequest :: SdkTwainProfileRequest where
  "default_SdkTwainProfileRequest = \<lparr> twProfileRequest_session_id = '''', twProfileRequest_source_id = '''',
     twProfileRequest_source_key = '''', twProfileRequest_profile_id = '''',
     twProfileRequest_name = '''', twProfileRequest_capabilities = [] \<rparr>"

record SdkTwainProfileListResult =
  twProfileListResult_code :: int
  twProfileListResult_message :: string
  twProfileListResult_profiles :: "SdkTwainProfile list"

definition default_SdkTwainProfileListResult :: SdkTwainProfileListResult where
  "default_SdkTwainProfileListResult = \<lparr> twProfileListResult_code = ToCode Ok, twProfileListResult_message = ''ok'',
     twProfileListResult_profiles = [] \<rparr>"

record SdkTwainProfileResult =
  twProfileResult_code :: int
  twProfileResult_message :: string
  twProfileResult_applied :: bool
  twProfileResult_saved :: bool
  twProfileResult_deleted :: bool
  twProfileResult_profile :: SdkTwainProfile

definition default_SdkTwainProfileResult :: SdkTwainProfileResult where
  "default_SdkTwainProfileResult = \<lparr> twProfileResult_code = ToCode Ok, twProfileResult_message = ''ok'',
     twProfileResult_applied = False, twProfileResult_saved = False,
     twProfileResult_deleted = False, twProfileResult_profile = default_SdkTwainProfile \<rparr>"

record SdkTwainScanRequest =
  twScanRequest_connection_id :: string
  twScanRequest_session_id :: string
  twScanRequest_show_ui :: bool
  twScanRequest_transfer_mechanism :: string
  twScanRequest_capabilities :: "SdkTwainCapabilitySetItem list"
  twScanRequest_output_type :: string
  twScanRequest_output_format :: string
  twScanRequest_output_path :: string
  twScanRequest_output_dir :: string
  twScanRequest_export_type :: string

definition default_SdkTwainScanRequest :: SdkTwainScanRequest where
  "default_SdkTwainScanRequest = \<lparr> twScanRequest_connection_id = '''', twScanRequest_session_id = '''',
     twScanRequest_show_ui = False, twScanRequest_transfer_mechanism = ''native'',
     twScanRequest_capabilities = [], twScanRequest_output_type = ''images'',
     twScanRequest_output_format = '''', twScanRequest_output_path = '''',
     twScanRequest_output_dir = '''', twScanRequest_export_type = ''multi-page'' \<rparr>"

record SdkTwainScanTask =
  twScanTask_task_id :: string
  twScanTask_connection_id :: string
  twScanTask_session_id :: string
  twScanTask_status :: string
  twScanTask_phase :: string
  twScanTask_progress :: int
  twScanTask_page_count :: int
  twScanTask_current_page :: int
  twScanTask_output_type :: string
  twScanTask_output_format :: string
  twScanTask_output_dir :: string
  twScanTask_export_type :: string
  twScanTask_output_path :: string
  twScanTask_output_paths :: "string list"
  twScanTask_last_page_path :: string
  twScanTask_assets :: "SdkCaptureAsset list"
  twScanTask_message :: string
  twScanTask_error :: string
  twScanTask_started_at :: string
  twScanTask_updated_at :: string
  twScanTask_cancel_requested :: bool
  twScanTask_ui_required :: bool
  twScanTask_transfer_mechanism :: string

definition default_SdkTwainScanTask :: SdkTwainScanTask where
  "default_SdkTwainScanTask = \<lparr> twScanTask_task_id = '''', twScanTask_connection_id = '''', twScanTask_session_id = '''',
     twScanTask_status = ''queued'', twScanTask_phase = ''queued'', twScanTask_progress = 0,
     twScanTask_page_count = 0, twScanTask_current_page = 0, twScanTask_output_type = ''images'',
     twScanTask_output_format = '''', twScanTask_output_dir = '''',
     twScanTask_export_type = ''multi-page'', twScanTask_output_path = '''',
     twScanTask_output_paths = [], twScanTask_last_page_path = '''', twScanTask_assets = [],
     twScanTask_message = ''queued'', twScanTask_error = '''', twScanTask_started_at = '''',
     twScanTask_updated_at = '''', twScanTask_cancel_requested = False,
     twScanTask_ui_required = False, twScanTask_transfer_mechanism = ''native'' \<rparr>"

record SdkTwainScanResult =
  twScanResult_code :: int
  twScanResult_message :: string
  twScanResult_accepted :: bool
  twScanResult_task_id :: string
  twScanResult_task :: SdkTwainScanTask

definition default_SdkTwainScanResult :: SdkTwainScanResult where
  "default_SdkTwainScanResult = \<lparr> twScanResult_code = ToCode Ok, twScanResult_message = ''ok'', twScanResult_accepted = False,
     twScanResult_task_id = '''', twScanResult_task = default_SdkTwainScanTask \<rparr>"

record SdkTwainScanTaskEvent =
  twScanTaskEvent_code :: int
  twScanTaskEvent_message :: string
  twScanTaskEvent_connection_id :: string
  twScanTaskEvent_event_name :: string
  twScanTaskEvent_task :: SdkTwainScanTask

definition default_SdkTwainScanTaskEvent :: SdkTwainScanTaskEvent where
  "default_SdkTwainScanTaskEvent = \<lparr> twScanTaskEvent_code = ToCode Ok, twScanTaskEvent_message = ''ok'',
     twScanTaskEvent_connection_id = '''', twScanTaskEvent_event_name = ''twain.scan_changed'',
     twScanTaskEvent_task = default_SdkTwainScanTask \<rparr>"

record SdkTwainScanGetRequest =
  twScanGetRequest_task_id :: string

definition default_SdkTwainScanGetRequest :: SdkTwainScanGetRequest where
  "default_SdkTwainScanGetRequest = \<lparr> twScanGetRequest_task_id = '''' \<rparr>"

record SdkTwainScanCancelRequest =
  twScanCancelRequest_task_id :: string

definition default_SdkTwainScanCancelRequest :: SdkTwainScanCancelRequest where
  "default_SdkTwainScanCancelRequest = \<lparr> twScanCancelRequest_task_id = '''' \<rparr>"

end
