(* ===== verification/Scan_Facades.thy ===== *)
theory Scan_Facades
  imports Scan_Types Sdk_Effects
begin

text \<open>
  The scanner interfaces (\<open>interfaces/i_sdk_sane_provider.h\<close>, \<open>i_sdk_twain_provider.h\<close>) as records of
  operations, and the facades over them (\<open>facade/sane_facade.cpp\<close>, \<open>facade/twain_facade.cpp\<close>), which
  answer for a provider that is not there.  Registering an event sink is left out.
\<close>

section \<open>SANE\<close>

record 'e ISdkSaneProvider =
  sp_ProviderName :: string
  sp_GetStatus :: "('e world, SdkSaneStatusResult) io"
  sp_ListDevices :: "SdkSaneListRequest \<Rightarrow> ('e world, SdkSaneListResult) io"
  sp_WatchStart :: "SdkSaneWatchRequest \<Rightarrow> ('e world, SdkSaneWatchResult) io"
  sp_WatchStop :: "SdkSaneWatchRequest \<Rightarrow> ('e world, SdkSaneWatchResult) io"
  sp_OpenDevice :: "SdkSaneOpenRequest \<Rightarrow> ('e world, SdkSaneOpenResult) io"
  sp_CloseDevice :: "SdkSaneCloseRequest \<Rightarrow> ('e world, SdkSaneCloseResult) io"
  sp_GetOptions :: "SdkSaneGetOptionsRequest \<Rightarrow> ('e world, SdkSaneGetOptionsResult) io"
  sp_SetOptions :: "SdkSaneSetOptionsRequest \<Rightarrow> ('e world, SdkSaneSetOptionsResult) io"
  sp_ListProfiles :: "SdkSaneProfileRequest \<Rightarrow> ('e world, SdkSaneProfileListResult) io"
  sp_SaveProfile :: "SdkSaneProfileRequest \<Rightarrow> ('e world, SdkSaneProfileResult) io"
  sp_ApplyProfile :: "SdkSaneProfileRequest \<Rightarrow> ('e world, SdkSaneProfileResult) io"
  sp_DeleteProfile :: "SdkSaneProfileRequest \<Rightarrow> ('e world, SdkSaneProfileResult) io"
  sp_Scan :: "SdkSaneScanRequest \<Rightarrow> ('e world, SdkSaneScanResult) io"
  sp_GetScan :: "SdkSaneScanGetRequest \<Rightarrow> ('e world, SdkSaneScanResult) io"
  sp_CancelScan :: "SdkSaneScanCancelRequest \<Rightarrow> ('e world, SdkSaneScanResult) io"

definition missing_sane :: string where
  "missing_sane = ''SANE is only available on Linux and the SANE provider is not ready''"

definition sane_GetStatus ::
    "'e ISdkSaneProvider option \<Rightarrow> ('e world, SdkSaneStatusResult) io" where
  "sane_GetStatus provider =
     (case provider of
        None \<Rightarrow> ret (default_SdkSaneStatusResult\<lparr> saneStatusResult_code := ToCode SaneNotAvailable, saneStatusResult_message := missing_sane \<rparr>)
      | Some p \<Rightarrow> sp_GetStatus p)"

definition sane_ListDevices ::
    "'e ISdkSaneProvider option \<Rightarrow> SdkSaneListRequest \<Rightarrow> ('e world, SdkSaneListResult) io" where
  "sane_ListDevices provider request =
     (case provider of
        None \<Rightarrow> ret (default_SdkSaneListResult\<lparr> saneListResult_code := ToCode SaneNotAvailable, saneListResult_message := missing_sane \<rparr>)
      | Some p \<Rightarrow> sp_ListDevices p request)"

definition sane_WatchStart ::
    "'e ISdkSaneProvider option \<Rightarrow> SdkSaneWatchRequest \<Rightarrow> ('e world, SdkSaneWatchResult) io" where
  "sane_WatchStart provider request =
     (case provider of
        None \<Rightarrow> ret (default_SdkSaneWatchResult\<lparr> saneWatchResult_code := ToCode SaneNotAvailable, saneWatchResult_message := missing_sane \<rparr>)
      | Some p \<Rightarrow> sp_WatchStart p request)"

definition sane_WatchStop ::
    "'e ISdkSaneProvider option \<Rightarrow> SdkSaneWatchRequest \<Rightarrow> ('e world, SdkSaneWatchResult) io" where
  "sane_WatchStop provider request =
     (case provider of
        None \<Rightarrow> ret (default_SdkSaneWatchResult\<lparr> saneWatchResult_code := ToCode SaneNotAvailable, saneWatchResult_message := missing_sane \<rparr>)
      | Some p \<Rightarrow> sp_WatchStop p request)"

definition sane_OpenDevice ::
    "'e ISdkSaneProvider option \<Rightarrow> SdkSaneOpenRequest \<Rightarrow> ('e world, SdkSaneOpenResult) io" where
  "sane_OpenDevice provider request =
     (case provider of
        None \<Rightarrow> ret (default_SdkSaneOpenResult\<lparr> saneOpenResult_code := ToCode SaneNotAvailable, saneOpenResult_message := missing_sane \<rparr>)
      | Some p \<Rightarrow> sp_OpenDevice p request)"

definition sane_CloseDevice ::
    "'e ISdkSaneProvider option \<Rightarrow> SdkSaneCloseRequest \<Rightarrow> ('e world, SdkSaneCloseResult) io" where
  "sane_CloseDevice provider request =
     (case provider of
        None \<Rightarrow> ret (default_SdkSaneCloseResult\<lparr> saneCloseResult_code := ToCode SaneNotAvailable, saneCloseResult_message := missing_sane \<rparr>)
      | Some p \<Rightarrow> sp_CloseDevice p request)"

definition sane_GetOptions ::
    "'e ISdkSaneProvider option \<Rightarrow> SdkSaneGetOptionsRequest \<Rightarrow> ('e world, SdkSaneGetOptionsResult) io" where
  "sane_GetOptions provider request =
     (case provider of
        None \<Rightarrow> ret (default_SdkSaneGetOptionsResult\<lparr> saneGetOptionsResult_code := ToCode SaneNotAvailable, saneGetOptionsResult_message := missing_sane \<rparr>)
      | Some p \<Rightarrow> sp_GetOptions p request)"

definition sane_SetOptions ::
    "'e ISdkSaneProvider option \<Rightarrow> SdkSaneSetOptionsRequest \<Rightarrow> ('e world, SdkSaneSetOptionsResult) io" where
  "sane_SetOptions provider request =
     (case provider of
        None \<Rightarrow> ret (default_SdkSaneSetOptionsResult\<lparr> saneSetOptionsResult_code := ToCode SaneNotAvailable, saneSetOptionsResult_message := missing_sane \<rparr>)
      | Some p \<Rightarrow> sp_SetOptions p request)"

definition sane_ListProfiles ::
    "'e ISdkSaneProvider option \<Rightarrow> SdkSaneProfileRequest \<Rightarrow> ('e world, SdkSaneProfileListResult) io" where
  "sane_ListProfiles provider request =
     (case provider of
        None \<Rightarrow> ret (default_SdkSaneProfileListResult\<lparr> saneProfileListResult_code := ToCode SaneNotAvailable, saneProfileListResult_message := missing_sane \<rparr>)
      | Some p \<Rightarrow> sp_ListProfiles p request)"

definition sane_SaveProfile ::
    "'e ISdkSaneProvider option \<Rightarrow> SdkSaneProfileRequest \<Rightarrow> ('e world, SdkSaneProfileResult) io" where
  "sane_SaveProfile provider request =
     (case provider of
        None \<Rightarrow> ret (default_SdkSaneProfileResult\<lparr> saneProfileResult_code := ToCode SaneNotAvailable, saneProfileResult_message := missing_sane \<rparr>)
      | Some p \<Rightarrow> sp_SaveProfile p request)"

definition sane_ApplyProfile ::
    "'e ISdkSaneProvider option \<Rightarrow> SdkSaneProfileRequest \<Rightarrow> ('e world, SdkSaneProfileResult) io" where
  "sane_ApplyProfile provider request =
     (case provider of
        None \<Rightarrow> ret (default_SdkSaneProfileResult\<lparr> saneProfileResult_code := ToCode SaneNotAvailable, saneProfileResult_message := missing_sane \<rparr>)
      | Some p \<Rightarrow> sp_ApplyProfile p request)"

definition sane_DeleteProfile ::
    "'e ISdkSaneProvider option \<Rightarrow> SdkSaneProfileRequest \<Rightarrow> ('e world, SdkSaneProfileResult) io" where
  "sane_DeleteProfile provider request =
     (case provider of
        None \<Rightarrow> ret (default_SdkSaneProfileResult\<lparr> saneProfileResult_code := ToCode SaneNotAvailable, saneProfileResult_message := missing_sane \<rparr>)
      | Some p \<Rightarrow> sp_DeleteProfile p request)"

definition sane_Scan ::
    "'e ISdkSaneProvider option \<Rightarrow> SdkSaneScanRequest \<Rightarrow> ('e world, SdkSaneScanResult) io" where
  "sane_Scan provider request =
     (case provider of
        None \<Rightarrow> ret (default_SdkSaneScanResult\<lparr> saneScanResult_code := ToCode SaneNotAvailable, saneScanResult_message := missing_sane \<rparr>)
      | Some p \<Rightarrow> sp_Scan p request)"

definition sane_GetScan ::
    "'e ISdkSaneProvider option \<Rightarrow> SdkSaneScanGetRequest \<Rightarrow> ('e world, SdkSaneScanResult) io" where
  "sane_GetScan provider request =
     (case provider of
        None \<Rightarrow> ret (default_SdkSaneScanResult\<lparr> saneScanResult_code := ToCode SaneNotAvailable, saneScanResult_message := missing_sane \<rparr>)
      | Some p \<Rightarrow> sp_GetScan p request)"

definition sane_CancelScan ::
    "'e ISdkSaneProvider option \<Rightarrow> SdkSaneScanCancelRequest \<Rightarrow> ('e world, SdkSaneScanResult) io" where
  "sane_CancelScan provider request =
     (case provider of
        None \<Rightarrow> ret (default_SdkSaneScanResult\<lparr> saneScanResult_code := ToCode SaneNotAvailable, saneScanResult_message := missing_sane \<rparr>)
      | Some p \<Rightarrow> sp_CancelScan p request)"

section \<open>TWAIN\<close>

record 'e ISdkTwainProvider =
  tp_ProviderName :: string
  tp_GetStatus :: "('e world, SdkTwainStatusResult) io"
  tp_ListSources :: "SdkTwainListRequest \<Rightarrow> ('e world, SdkTwainListResult) io"
  tp_WatchStart :: "SdkTwainWatchRequest \<Rightarrow> ('e world, SdkTwainWatchResult) io"
  tp_WatchStop :: "SdkTwainWatchRequest \<Rightarrow> ('e world, SdkTwainWatchResult) io"
  tp_OpenSource :: "SdkTwainOpenRequest \<Rightarrow> ('e world, SdkTwainOpenResult) io"
  tp_CloseSource :: "SdkTwainCloseRequest \<Rightarrow> ('e world, SdkTwainCloseResult) io"
  tp_GetCapabilities :: "SdkTwainGetCapabilitiesRequest \<Rightarrow> ('e world, SdkTwainGetCapabilitiesResult) io"
  tp_SetCapabilities :: "SdkTwainSetCapabilitiesRequest \<Rightarrow> ('e world, SdkTwainSetCapabilitiesResult) io"
  tp_ListProfiles :: "SdkTwainProfileRequest \<Rightarrow> ('e world, SdkTwainProfileListResult) io"
  tp_SaveProfile :: "SdkTwainProfileRequest \<Rightarrow> ('e world, SdkTwainProfileResult) io"
  tp_ApplyProfile :: "SdkTwainProfileRequest \<Rightarrow> ('e world, SdkTwainProfileResult) io"
  tp_DeleteProfile :: "SdkTwainProfileRequest \<Rightarrow> ('e world, SdkTwainProfileResult) io"
  tp_Scan :: "SdkTwainScanRequest \<Rightarrow> ('e world, SdkTwainScanResult) io"
  tp_GetScan :: "SdkTwainScanGetRequest \<Rightarrow> ('e world, SdkTwainScanResult) io"
  tp_CancelScan :: "SdkTwainScanCancelRequest \<Rightarrow> ('e world, SdkTwainScanResult) io"

definition missing_twain :: string where
  "missing_twain = ''TWAIN is only available on Windows and the TWAIN provider is not ready''"

definition twain_GetStatus ::
    "'e ISdkTwainProvider option \<Rightarrow> ('e world, SdkTwainStatusResult) io" where
  "twain_GetStatus provider =
     (case provider of
        None \<Rightarrow> ret (default_SdkTwainStatusResult\<lparr> twStatusResult_code := ToCode TwainNotAvailable, twStatusResult_message := missing_twain \<rparr>)
      | Some p \<Rightarrow> tp_GetStatus p)"

definition twain_ListSources ::
    "'e ISdkTwainProvider option \<Rightarrow> SdkTwainListRequest \<Rightarrow> ('e world, SdkTwainListResult) io" where
  "twain_ListSources provider request =
     (case provider of
        None \<Rightarrow> ret (default_SdkTwainListResult\<lparr> twListResult_code := ToCode TwainNotAvailable, twListResult_message := missing_twain \<rparr>)
      | Some p \<Rightarrow> tp_ListSources p request)"

definition twain_WatchStart ::
    "'e ISdkTwainProvider option \<Rightarrow> SdkTwainWatchRequest \<Rightarrow> ('e world, SdkTwainWatchResult) io" where
  "twain_WatchStart provider request =
     (case provider of
        None \<Rightarrow> ret (default_SdkTwainWatchResult\<lparr> twWatchResult_code := ToCode TwainNotAvailable, twWatchResult_message := missing_twain \<rparr>)
      | Some p \<Rightarrow> tp_WatchStart p request)"

definition twain_WatchStop ::
    "'e ISdkTwainProvider option \<Rightarrow> SdkTwainWatchRequest \<Rightarrow> ('e world, SdkTwainWatchResult) io" where
  "twain_WatchStop provider request =
     (case provider of
        None \<Rightarrow> ret (default_SdkTwainWatchResult\<lparr> twWatchResult_code := ToCode TwainNotAvailable, twWatchResult_message := missing_twain \<rparr>)
      | Some p \<Rightarrow> tp_WatchStop p request)"

definition twain_OpenSource ::
    "'e ISdkTwainProvider option \<Rightarrow> SdkTwainOpenRequest \<Rightarrow> ('e world, SdkTwainOpenResult) io" where
  "twain_OpenSource provider request =
     (case provider of
        None \<Rightarrow> ret (default_SdkTwainOpenResult\<lparr> twOpenResult_code := ToCode TwainNotAvailable, twOpenResult_message := missing_twain \<rparr>)
      | Some p \<Rightarrow> tp_OpenSource p request)"

definition twain_CloseSource ::
    "'e ISdkTwainProvider option \<Rightarrow> SdkTwainCloseRequest \<Rightarrow> ('e world, SdkTwainCloseResult) io" where
  "twain_CloseSource provider request =
     (case provider of
        None \<Rightarrow> ret (default_SdkTwainCloseResult\<lparr> twCloseResult_code := ToCode TwainNotAvailable, twCloseResult_message := missing_twain \<rparr>)
      | Some p \<Rightarrow> tp_CloseSource p request)"

definition twain_GetCapabilities ::
    "'e ISdkTwainProvider option \<Rightarrow> SdkTwainGetCapabilitiesRequest \<Rightarrow> ('e world, SdkTwainGetCapabilitiesResult) io" where
  "twain_GetCapabilities provider request =
     (case provider of
        None \<Rightarrow> ret (default_SdkTwainGetCapabilitiesResult\<lparr> twGetCapabilitiesResult_code := ToCode TwainNotAvailable, twGetCapabilitiesResult_message := missing_twain \<rparr>)
      | Some p \<Rightarrow> tp_GetCapabilities p request)"

definition twain_SetCapabilities ::
    "'e ISdkTwainProvider option \<Rightarrow> SdkTwainSetCapabilitiesRequest \<Rightarrow> ('e world, SdkTwainSetCapabilitiesResult) io" where
  "twain_SetCapabilities provider request =
     (case provider of
        None \<Rightarrow> ret (default_SdkTwainSetCapabilitiesResult\<lparr> twSetCapabilitiesResult_code := ToCode TwainNotAvailable, twSetCapabilitiesResult_message := missing_twain \<rparr>)
      | Some p \<Rightarrow> tp_SetCapabilities p request)"

definition twain_ListProfiles ::
    "'e ISdkTwainProvider option \<Rightarrow> SdkTwainProfileRequest \<Rightarrow> ('e world, SdkTwainProfileListResult) io" where
  "twain_ListProfiles provider request =
     (case provider of
        None \<Rightarrow> ret (default_SdkTwainProfileListResult\<lparr> twProfileListResult_code := ToCode TwainNotAvailable, twProfileListResult_message := missing_twain \<rparr>)
      | Some p \<Rightarrow> tp_ListProfiles p request)"

definition twain_SaveProfile ::
    "'e ISdkTwainProvider option \<Rightarrow> SdkTwainProfileRequest \<Rightarrow> ('e world, SdkTwainProfileResult) io" where
  "twain_SaveProfile provider request =
     (case provider of
        None \<Rightarrow> ret (default_SdkTwainProfileResult\<lparr> twProfileResult_code := ToCode TwainNotAvailable, twProfileResult_message := missing_twain \<rparr>)
      | Some p \<Rightarrow> tp_SaveProfile p request)"

definition twain_ApplyProfile ::
    "'e ISdkTwainProvider option \<Rightarrow> SdkTwainProfileRequest \<Rightarrow> ('e world, SdkTwainProfileResult) io" where
  "twain_ApplyProfile provider request =
     (case provider of
        None \<Rightarrow> ret (default_SdkTwainProfileResult\<lparr> twProfileResult_code := ToCode TwainNotAvailable, twProfileResult_message := missing_twain \<rparr>)
      | Some p \<Rightarrow> tp_ApplyProfile p request)"

definition twain_DeleteProfile ::
    "'e ISdkTwainProvider option \<Rightarrow> SdkTwainProfileRequest \<Rightarrow> ('e world, SdkTwainProfileResult) io" where
  "twain_DeleteProfile provider request =
     (case provider of
        None \<Rightarrow> ret (default_SdkTwainProfileResult\<lparr> twProfileResult_code := ToCode TwainNotAvailable, twProfileResult_message := missing_twain \<rparr>)
      | Some p \<Rightarrow> tp_DeleteProfile p request)"

definition twain_Scan ::
    "'e ISdkTwainProvider option \<Rightarrow> SdkTwainScanRequest \<Rightarrow> ('e world, SdkTwainScanResult) io" where
  "twain_Scan provider request =
     (case provider of
        None \<Rightarrow> ret (default_SdkTwainScanResult\<lparr> twScanResult_code := ToCode TwainNotAvailable, twScanResult_message := missing_twain \<rparr>)
      | Some p \<Rightarrow> tp_Scan p request)"

definition twain_GetScan ::
    "'e ISdkTwainProvider option \<Rightarrow> SdkTwainScanGetRequest \<Rightarrow> ('e world, SdkTwainScanResult) io" where
  "twain_GetScan provider request =
     (case provider of
        None \<Rightarrow> ret (default_SdkTwainScanResult\<lparr> twScanResult_code := ToCode TwainNotAvailable, twScanResult_message := missing_twain \<rparr>)
      | Some p \<Rightarrow> tp_GetScan p request)"

definition twain_CancelScan ::
    "'e ISdkTwainProvider option \<Rightarrow> SdkTwainScanCancelRequest \<Rightarrow> ('e world, SdkTwainScanResult) io" where
  "twain_CancelScan provider request =
     (case provider of
        None \<Rightarrow> ret (default_SdkTwainScanResult\<lparr> twScanResult_code := ToCode TwainNotAvailable, twScanResult_message := missing_twain \<rparr>)
      | Some p \<Rightarrow> tp_CancelScan p request)"

end
