(* ===== verification/Ocr_Types.thy ===== *)
theory Ocr_Types
  imports Provider_Types
begin

text \<open>
  The structs of text and barcode recognition and of the device events in
  \<open>interfaces/sdk_provider_types.h\<close>, with their default member initialisers.
\<close>

datatype SdkDeviceActionType = PageTurn | HardGrab

record SdkDeviceActionEvent =
  evDeviceActionEvent_device_id :: string
  evDeviceActionEvent_type :: SdkDeviceActionType
  evDeviceActionEvent_auto_capture :: bool
  evDeviceActionEvent_timestamp_ms :: int
  evDeviceActionEvent_capture :: SdkCaptureResult

definition default_SdkDeviceActionEvent :: SdkDeviceActionEvent where
  "default_SdkDeviceActionEvent = \<lparr> evDeviceActionEvent_device_id = '''',
     evDeviceActionEvent_type = PageTurn,
     evDeviceActionEvent_auto_capture = False, evDeviceActionEvent_timestamp_ms = 0,
     evDeviceActionEvent_capture = default_SdkCaptureResult \<rparr>"

record SdkDeviceEvent =
  evDeviceEvent_device_id :: string
  evDeviceEvent_type :: string
  evDeviceEvent_reason :: string
  evDeviceEvent_was_opened :: bool
  evDeviceEvent_was_streaming :: bool
  evDeviceEvent_timestamp_ms :: int

definition default_SdkDeviceEvent :: SdkDeviceEvent where
  "default_SdkDeviceEvent = \<lparr> evDeviceEvent_device_id = '''', evDeviceEvent_type = ''removed'', evDeviceEvent_reason = '''',
     evDeviceEvent_was_opened = False, evDeviceEvent_was_streaming = False,
     evDeviceEvent_timestamp_ms = 0 \<rparr>"

record SdkOcrRecognizeRequest =
  ocrRecognizeRequest_input_upload_ids :: "string list"
  ocrRecognizeRequest_input_files :: "string list"
  ocrRecognizeRequest_output_path :: string
  ocrRecognizeRequest_output_dir :: string
  ocrRecognizeRequest_format :: string
  ocrRecognizeRequest_export_type :: string
  ocrRecognizeRequest_language :: string
  ocrRecognizeRequest_ext_params_json :: string

definition default_SdkOcrRecognizeRequest :: SdkOcrRecognizeRequest where
  "default_SdkOcrRecognizeRequest = \<lparr> ocrRecognizeRequest_input_upload_ids = [], ocrRecognizeRequest_input_files = [],
     ocrRecognizeRequest_output_path = '''', ocrRecognizeRequest_output_dir = '''',
     ocrRecognizeRequest_format = ''docx'', ocrRecognizeRequest_export_type = ''multi-page'',
     ocrRecognizeRequest_language = ''auto'', ocrRecognizeRequest_ext_params_json = '''' \<rparr>"

record SdkOcrTaskSnapshot =
  ocrTaskSnapshot_task_id :: string
  ocrTaskSnapshot_status :: string
  ocrTaskSnapshot_progress :: int
  ocrTaskSnapshot_output_path :: string
  ocrTaskSnapshot_output_paths :: "string list"
  ocrTaskSnapshot_assets :: "SdkCaptureAsset list"
  ocrTaskSnapshot_format :: string
  ocrTaskSnapshot_export_type :: string
  ocrTaskSnapshot_message :: string
  ocrTaskSnapshot_error :: string

definition default_SdkOcrTaskSnapshot :: SdkOcrTaskSnapshot where
  "default_SdkOcrTaskSnapshot = \<lparr> ocrTaskSnapshot_task_id = '''', ocrTaskSnapshot_status = ''queued'',
     ocrTaskSnapshot_progress = 0, ocrTaskSnapshot_output_path = '''',
     ocrTaskSnapshot_output_paths = [], ocrTaskSnapshot_assets = [], ocrTaskSnapshot_format = '''',
     ocrTaskSnapshot_export_type = ''multi-page'', ocrTaskSnapshot_message = ''queued'',
     ocrTaskSnapshot_error = '''' \<rparr>"

record SdkOcrRecognizeResult =
  ocrRecognizeResult_code :: int
  ocrRecognizeResult_message :: string
  ocrRecognizeResult_task_id :: string
  ocrRecognizeResult_task :: SdkOcrTaskSnapshot

definition default_SdkOcrRecognizeResult :: SdkOcrRecognizeResult where
  "default_SdkOcrRecognizeResult = \<lparr> ocrRecognizeResult_code = ToCode Ok, ocrRecognizeResult_message = ''ok'',
     ocrRecognizeResult_task_id = '''', ocrRecognizeResult_task = default_SdkOcrTaskSnapshot \<rparr>"

record SdkOcrGetRequest =
  ocrGetRequest_task_id :: string

definition default_SdkOcrGetRequest :: SdkOcrGetRequest where
  "default_SdkOcrGetRequest = \<lparr> ocrGetRequest_task_id = '''' \<rparr>"

record SdkOcrGetResult =
  ocrGetResult_code :: int
  ocrGetResult_message :: string
  ocrGetResult_task :: SdkOcrTaskSnapshot

definition default_SdkOcrGetResult :: SdkOcrGetResult where
  "default_SdkOcrGetResult = \<lparr> ocrGetResult_code = ToCode Ok, ocrGetResult_message = ''ok'',
     ocrGetResult_task = default_SdkOcrTaskSnapshot \<rparr>"

record SdkOcrCancelRequest =
  ocrCancelRequest_task_id :: string

definition default_SdkOcrCancelRequest :: SdkOcrCancelRequest where
  "default_SdkOcrCancelRequest = \<lparr> ocrCancelRequest_task_id = '''' \<rparr>"

record SdkOcrCancelResult =
  ocrCancelResult_code :: int
  ocrCancelResult_message :: string
  ocrCancelResult_cancelled :: bool
  ocrCancelResult_task :: SdkOcrTaskSnapshot

definition default_SdkOcrCancelResult :: SdkOcrCancelResult where
  "default_SdkOcrCancelResult = \<lparr> ocrCancelResult_code = ToCode Ok, ocrCancelResult_message = ''ok'',
     ocrCancelResult_cancelled = False, ocrCancelResult_task = default_SdkOcrTaskSnapshot \<rparr>"

record SdkOcrTextBlock =
  ocrTextBlock_text :: string
  ocrTextBlock_x :: float32
  ocrTextBlock_y :: float32
  ocrTextBlock_width :: float32
  ocrTextBlock_height :: float32
  ocrTextBlock_confidence :: float32
  ocrTextBlock_font_size :: float32

definition default_SdkOcrTextBlock :: SdkOcrTextBlock where
  "default_SdkOcrTextBlock = \<lparr> ocrTextBlock_text = '''', ocrTextBlock_x = 0, ocrTextBlock_y = 0, ocrTextBlock_width = 0,
     ocrTextBlock_height = 0, ocrTextBlock_confidence = 0, ocrTextBlock_font_size = 0 \<rparr>"

record SdkOcrExtractTextRequest =
  ocrExtractTextRequest_input_upload_id :: string
  ocrExtractTextRequest_input_path :: string
  ocrExtractTextRequest_language :: string

definition default_SdkOcrExtractTextRequest :: SdkOcrExtractTextRequest where
  "default_SdkOcrExtractTextRequest = \<lparr> ocrExtractTextRequest_input_upload_id = '''', ocrExtractTextRequest_input_path = '''',
     ocrExtractTextRequest_language = ''auto'' \<rparr>"

record SdkOcrExtractTextResult =
  ocrExtractTextResult_code :: int
  ocrExtractTextResult_message :: string
  ocrExtractTextResult_recognized :: bool
  ocrExtractTextResult_input_path :: string
  ocrExtractTextResult_width :: int
  ocrExtractTextResult_height :: int
  ocrExtractTextResult_blocks :: "SdkOcrTextBlock list"

definition default_SdkOcrExtractTextResult :: SdkOcrExtractTextResult where
  "default_SdkOcrExtractTextResult = \<lparr> ocrExtractTextResult_code = ToCode Ok, ocrExtractTextResult_message = ''ok'',
     ocrExtractTextResult_recognized = False, ocrExtractTextResult_input_path = '''',
     ocrExtractTextResult_width = 0, ocrExtractTextResult_height = 0,
     ocrExtractTextResult_blocks = [] \<rparr>"

record SdkBarcodeResult =
  bcResult_format_name :: string
  bcResult_format :: int
  bcResult_text :: string
  bcResult_points :: "SdkPoint2f list"

definition default_SdkBarcodeResult :: SdkBarcodeResult where
  "default_SdkBarcodeResult = \<lparr> bcResult_format_name = '''', bcResult_format = 0, bcResult_text = '''', bcResult_points = [] \<rparr>"

record SdkBarcodeDetectRequest =
  bcDetectRequest_input_upload_id :: string
  bcDetectRequest_input_path :: string
  bcDetectRequest_formats :: "string list"

definition default_SdkBarcodeDetectRequest :: SdkBarcodeDetectRequest where
  "default_SdkBarcodeDetectRequest = \<lparr> bcDetectRequest_input_upload_id = '''', bcDetectRequest_input_path = '''',
     bcDetectRequest_formats = [] \<rparr>"

record SdkBarcodeDetectResult =
  bcDetectResult_code :: int
  bcDetectResult_message :: string
  bcDetectResult_detected :: bool
  bcDetectResult_input_path :: string
  bcDetectResult_width :: int
  bcDetectResult_height :: int
  bcDetectResult_barcodes :: "SdkBarcodeResult list"

definition default_SdkBarcodeDetectResult :: SdkBarcodeDetectResult where
  "default_SdkBarcodeDetectResult = \<lparr> bcDetectResult_code = ToCode Ok, bcDetectResult_message = ''ok'',
     bcDetectResult_detected = False, bcDetectResult_input_path = '''', bcDetectResult_width = 0,
     bcDetectResult_height = 0, bcDetectResult_barcodes = [] \<rparr>"

end
