(* ===== verification/Ocr_Facades.thy ===== *)
theory Ocr_Facades
  imports Ocr_Types Enhance_Task
begin

text \<open>
  The facades over text recognition, barcodes, file conversion and storage (\<open>facade/ocr_facade.cpp\<close>,
  \<open>recognition_facade.cpp\<close>, \<open>ofd_facade.cpp\<close>, \<open>storage_facade.cpp\<close>) with their provider interfaces and
  the OCR languages (\<open>interfaces/sdk_ocr_language.h\<close>).  In the Windows build with the private module,
  barcodes and file conversion go through its JSON interface (\<open>c_api\<close>) instead of a provider.
\<close>

section \<open>OCR languages\<close>

definition kSupportedSdkOcrLanguages :: "string list" where
  "kSupportedSdkOcrLanguages =
     [''auto'', ''ch'', ''hu'', ''en'', ''rs_latin'', ''fr'', ''id'', ''de'', ''oc'', ''japan'',
      ''is'', ''korean'', ''lt'', ''chinese_cht'', ''mi'', ''af'', ''ms'', ''it'', ''nl'', ''es'',
      ''no'', ''bs'', ''pl'', ''pt'', ''sk'', ''cs'', ''sl'', ''cy'', ''sq'', ''da'', ''sv'', ''et'',
      ''sw'', ''ga'', ''tl'', ''hr'', ''tr'', ''uz'', ''la'', ''ru'', ''be'', ''uk'', ''th'', ''el'',
      ''ku'', ''lv'', ''mt'', ''ro'', ''fi'', ''eu'', ''gl'', ''lb'', ''rm'', ''ca'', ''qu'', ''te'',
      ''rs_cyrillic'', ''bg'', ''mn'', ''ady'', ''kbd'', ''av'', ''inh'', ''ce'', ''lki'', ''lez'',
      ''kk'', ''ky'', ''tg'', ''mk'', ''tt'', ''ba'', ''udm'', ''kv'', ''bua'', ''xal'', ''tyv'',
      ''sah'', ''kaa'', ''ar'', ''hi'', ''mr'', ''ne'', ''bh'', ''mai'', ''bho'', ''mah'', ''new'',
      ''gom'', ''ta'']"

definition IsSupportedSdkOcrLanguage :: "string \<Rightarrow> bool" where
  "IsSupportedSdkOcrLanguage language = (language \<in> set kSupportedSdkOcrLanguages)"

definition SdkOcrEngineLanguage :: "string \<Rightarrow> string" where
  "SdkOcrEngineLanguage language = (if language = ''auto'' then ''ch'' else language)"

definition ReadSdkOcrLanguage :: "json \<Rightarrow> string + string" where
  "ReadSdkOcrLanguage params =
     (case jfind params ''language'' of
        None \<Rightarrow> Inr ''auto''
      | Some (JString value) \<Rightarrow>
          if value = [] then Inl ''language must not be empty''
          else if \<not> IsSupportedSdkOcrLanguage value then Inl ''unsupported ocr language''
          else Inr value
      | Some _ \<Rightarrow> Inl ''language must be a string'')"

section \<open>OCR\<close>

record 'e ISdkOcrProvider =
  rp_ProviderName :: string
  rp_Recognize :: "SdkOcrRecognizeRequest \<Rightarrow> ('e world, SdkOcrRecognizeResult) io"
  rp_GetTask :: "SdkOcrGetRequest \<Rightarrow> ('e world, SdkOcrGetResult) io"
  rp_Cancel :: "SdkOcrCancelRequest \<Rightarrow> ('e world, SdkOcrCancelResult) io"
  rp_ExtractText :: "SdkOcrExtractTextRequest \<Rightarrow> ('e world, SdkOcrExtractTextResult) io"

definition ocr_Recognize ::
    "'e ISdkOcrProvider option \<Rightarrow> SdkOcrRecognizeRequest \<Rightarrow> ('e world, SdkOcrRecognizeResult) io" where
  "ocr_Recognize provider request =
     (if \<not> IsSupportedSdkOcrLanguage (ocrRecognizeRequest_language request) then
        ret (default_SdkOcrRecognizeResult
          \<lparr> ocrRecognizeResult_code := ToCode InvalidParams, ocrRecognizeResult_message := ''unsupported ocr language'' \<rparr>)
      else case provider of
        None \<Rightarrow> ret (default_SdkOcrRecognizeResult
          \<lparr> ocrRecognizeResult_code := ToCode ProviderNotReady, ocrRecognizeResult_message := ''provider not ready'' \<rparr>)
      | Some p \<Rightarrow> rp_Recognize p request)"

definition ocr_GetTask :: "'e ISdkOcrProvider option \<Rightarrow> SdkOcrGetRequest \<Rightarrow> ('e world, SdkOcrGetResult) io" where
  "ocr_GetTask provider request =
     (case provider of
        None \<Rightarrow> ret (default_SdkOcrGetResult
          \<lparr> ocrGetResult_code := ToCode ProviderNotReady, ocrGetResult_message := ''provider not ready'' \<rparr>)
      | Some p \<Rightarrow> rp_GetTask p request)"

definition ocr_Cancel :: "'e ISdkOcrProvider option \<Rightarrow> SdkOcrCancelRequest \<Rightarrow> ('e world, SdkOcrCancelResult) io" where
  "ocr_Cancel provider request =
     (case provider of
        None \<Rightarrow> ret (default_SdkOcrCancelResult
          \<lparr> ocrCancelResult_code := ToCode ProviderNotReady, ocrCancelResult_message := ''provider not ready'' \<rparr>)
      | Some p \<Rightarrow> rp_Cancel p request)"

definition ocr_ExtractText ::
    "'e ISdkOcrProvider option \<Rightarrow> SdkOcrExtractTextRequest \<Rightarrow> ('e world, SdkOcrExtractTextResult) io" where
  "ocr_ExtractText provider request =
     (if \<not> IsSupportedSdkOcrLanguage (ocrExtractTextRequest_language request) then
        ret (default_SdkOcrExtractTextResult
          \<lparr> ocrExtractTextResult_code := ToCode InvalidParams, ocrExtractTextResult_message := ''unsupported ocr language'' \<rparr>)
      else case provider of
        None \<Rightarrow> ret (default_SdkOcrExtractTextResult
          \<lparr> ocrExtractTextResult_code := ToCode ProviderNotReady, ocrExtractTextResult_message := ''provider not ready'' \<rparr>)
      | Some p \<Rightarrow> rp_ExtractText p request)"

section \<open>The private module\<close>

record 'e c_api =
  ca_call :: "'e world json_fn"
  ca_free_string :: bool
  ca_dump :: "json \<Rightarrow> string"
  ca_parse :: "string \<Rightarrow> json option"

text \<open>The two invokers differ in the name their messages start with.\<close>

definition invoke_c_api :: "string \<Rightarrow> 'e c_api \<Rightarrow> json \<Rightarrow> ('e world, string + json) io" where
  "invoke_c_api name api request =
     (case ca_call api of
        None \<Rightarrow> ret (Inl (name @ '' c api not ready''))
      | Some call \<Rightarrow>
          if \<not> ca_free_string api then ret (Inl (name @ '' c api not ready''))
          else bind_io (call (ca_dump api request)) (\<lambda>response.
            case response of
              None \<Rightarrow> ret (Inl (name @ '' c api returned null''))
            | Some text \<Rightarrow>
                (case TryParseJson (ca_parse api) text of
                   Inr j \<Rightarrow> if is_object j then ret (Inr j) else ret (Inl (name @ '' c api returned invalid json''))
                 | Inl _ \<Rightarrow> ret (Inl (name @ '' c api returned invalid json'')))))"

definition InvokePrivateRecognitionCApi :: "'e c_api \<Rightarrow> json \<Rightarrow> ('e world, string + json) io" where
  "InvokePrivateRecognitionCApi = invoke_c_api ''private recognition''"

definition InvokePrivateFileConvertCApi :: "'e c_api \<Rightarrow> json \<Rightarrow> ('e world, string + json) io" where
  "InvokePrivateFileConvertCApi = invoke_c_api ''private file convert''"

section \<open>Barcodes\<close>

record 'e ISdkRecognitionProvider =
  bp_ProviderName :: string
  bp_DetectBarcode :: "SdkBarcodeDetectRequest \<Rightarrow> ('e world, SdkBarcodeDetectResult) io"

definition FloatField :: "json \<Rightarrow> string \<Rightarrow> float32 \<Rightarrow> float32" where
  "FloatField object key fallback =
     (case jfind object key of Some (JInt i) \<Rightarrow> round32 (of_int i) | Some (JFloat r) \<Rightarrow> round32 r | _ \<Rightarrow> fallback)"

definition BarcodeDetectRequestToJson :: "SdkBarcodeDetectRequest \<Rightarrow> json" where
  "BarcodeDetectRequestToJson request = obj
     [(''input_upload_id'', JString (bcDetectRequest_input_upload_id request)),
      (''input_path'', JString (bcDetectRequest_input_path request)),
      (''formats'', strings_json (bcDetectRequest_formats request))]"

definition PointFromJson :: "json \<Rightarrow> SdkPoint2f" where
  "PointFromJson value = default_SdkPoint2f\<lparr> pt_x := FloatField value ''x'' 0, pt_y := FloatField value ''y'' 0 \<rparr>"

definition BarcodeFromJson :: "json \<Rightarrow> SdkBarcodeResult" where
  "BarcodeFromJson value =
     \<lparr> bcResult_format_name = StringField value ''format_name'', bcResult_format = IntField value ''format'' 0,
       bcResult_text = StringField value ''text'', bcResult_points = map PointFromJson (ArrayField value ''points'') \<rparr>"

definition DetectBarcode ::
    "bool \<Rightarrow> 'e c_api \<Rightarrow> 'e ISdkRecognitionProvider option \<Rightarrow> SdkBarcodeDetectRequest \<Rightarrow>
     ('e world, SdkBarcodeDetectResult) io" where
  "DetectBarcode private_build api provider request =
     (if private_build then
        bind_io (InvokePrivateRecognitionCApi api (BarcodeDetectRequestToJson request)) (\<lambda>response.
        case response of
          Inl error \<Rightarrow> ret (default_SdkBarcodeDetectResult
            \<lparr> bcDetectResult_code := ToCode ProviderNotReady, bcDetectResult_message := error \<rparr>)
        | Inr j \<Rightarrow> ret
            \<lparr> bcDetectResult_code = IntField j ''code'' 0, bcDetectResult_message = StringField j ''message'',
              bcDetectResult_detected = BoolField j ''detected'' False,
              bcDetectResult_input_path = StringField j ''input_path'',
              bcDetectResult_width = IntField j ''width'' 0, bcDetectResult_height = IntField j ''height'' 0,
              bcDetectResult_barcodes = map BarcodeFromJson (ArrayField j ''barcodes'') \<rparr>)
      else case provider of
        None \<Rightarrow> ret (default_SdkBarcodeDetectResult
          \<lparr> bcDetectResult_code := ToCode ProviderNotReady, bcDetectResult_message := ''provider not ready'' \<rparr>)
      | Some p \<Rightarrow> bp_DetectBarcode p request)"

section \<open>File conversion\<close>

definition StringArrayField :: "json \<Rightarrow> string \<Rightarrow> string list" where
  "StringArrayField object key = string_items (ArrayField object key)"

definition FileConvertRequestToJson :: "SdkFileConvertRequest \<Rightarrow> json" where
  "FileConvertRequestToJson request = obj
     [(''input_upload_id'', JString (fq_input_upload_id request)),
      (''input_upload_ids'', strings_json (fq_input_upload_ids request)),
      (''input_path'', JString (fq_input_path request)), (''input_paths'', strings_json (fq_input_paths request)),
      (''output_path'', JString (fq_output_path request)), (''output_dir'', JString (fq_output_dir request)),
      (''output_format'', JString (fq_output_format request)), (''source_type'', JString (fq_source_type request)),
      (''source_format'', JString (fq_source_format request)), (''target_type'', JString (fq_target_type request)),
      (''export_type'', JString (fq_export_type request)), (''pages'', JString (fq_pages request)),
      (''quality'', JInt (fq_quality request)), (''render_dpi'', JInt (fq_render_dpi request)),
      (''tiff_color'', JString (fq_tiff_color request)), (''tiff_compression'', JString (fq_tiff_compression request))]"

definition Convert_ofd ::
    "bool \<Rightarrow> 'e c_api \<Rightarrow> 'e ISdkOfdProvider option \<Rightarrow> SdkFileConvertRequest \<Rightarrow> ('e world, SdkFileConvertResult) io" where
  "Convert_ofd private_build api provider request =
     (if private_build then
        bind_io (InvokePrivateFileConvertCApi api (FileConvertRequestToJson request)) (\<lambda>response.
        case response of
          Inl error \<Rightarrow> ret (default_SdkFileConvertResult\<lparr> fr_code := ToCode ProviderNotReady, fr_message := error \<rparr>)
        | Inr j \<Rightarrow> ret
            \<lparr> fr_code = IntField j ''code'' 0, fr_message = StringField j ''message'',
              fr_accepted = IntField j ''accepted'' 0, fr_converted = IntField j ''converted'' 0,
              fr_output_path = StringField j ''output_path'', fr_output_paths = StringArrayField j ''output_paths'',
              fr_source_format = StringField j ''source_format'',
              fr_source_page_count = IntField j ''source_page_count'' 0,
              fr_selected_page_count = IntField j ''selected_page_count'' 0 \<rparr>)
      else case provider of
        None \<Rightarrow> ret (default_SdkFileConvertResult\<lparr> fr_code := ToCode ProviderNotReady, fr_message := ''provider not ready'' \<rparr>)
      | Some p \<Rightarrow> op_Convert p request)"

section \<open>Storage\<close>

record SdkStorageActiveTasks =
  sa_capture :: nat
  sa_image_enhance :: nat
  sa_ocr :: nat
  sa_sane :: nat
  sa_twain :: nat

definition default_SdkStorageActiveTasks :: SdkStorageActiveTasks where
  "default_SdkStorageActiveTasks = \<lparr> sa_capture = 0, sa_image_enhance = 0, sa_ocr = 0, sa_sane = 0, sa_twain = 0 \<rparr>"

definition Total :: "SdkStorageActiveTasks \<Rightarrow> nat" where
  "Total a = sa_capture a + sa_image_enhance a + sa_ocr a + sa_sane a + sa_twain a"

record SdkStorageCleanupRequest =
  sq_work_dir :: string

record SdkStorageCleanupResult =
  sc_code :: int
  sc_message :: string
  sc_capture_removed :: bool
  sc_tasks_removed :: bool
  sc_cleared_task_count :: nat
  sc_cleared_ocr_task_count :: nat
  sc_cleared_twain_task_count :: nat
  sc_active :: SdkStorageActiveTasks

definition default_SdkStorageCleanupResult :: SdkStorageCleanupResult where
  "default_SdkStorageCleanupResult = \<lparr> sc_code = ToCode Ok, sc_message = ''ok'', sc_capture_removed = False,
     sc_tasks_removed = False, sc_cleared_task_count = 0, sc_cleared_ocr_task_count = 0,
     sc_cleared_twain_task_count = 0, sc_active = default_SdkStorageActiveTasks \<rparr>"

record 'e ISdkStorageProvider =
  stp_ProviderName :: string
  stp_CleanupTemp :: "SdkStorageCleanupRequest \<Rightarrow> ('e world, SdkStorageCleanupResult) io"

definition CleanupTemp ::
    "'e ISdkStorageProvider option \<Rightarrow> SdkStorageCleanupRequest \<Rightarrow> ('e world, SdkStorageCleanupResult) io" where
  "CleanupTemp provider request =
     (case provider of
        None \<Rightarrow> ret (default_SdkStorageCleanupResult
          \<lparr> sc_code := ToCode ProviderNotReady, sc_message := ''storage provider is not available'' \<rparr>)
      | Some p \<Rightarrow> stp_CleanupTemp p request)"

end
