(* ===== verification/Command_Params.thy ===== *)
theory Command_Params
  imports Sdk_Json Provider_Types
begin

text \<open>
  Reading the parameters of commands (\<open>application/command_application_service.cpp\<close>): the optional
  fields, the capture profile and the enhancement pipeline.  \<open>find\<close> on a value that is not an object
  finds nothing, so a reader needs no check of its argument.
\<close>

section \<open>Optional fields\<close>

definition GetOptionalStringField :: "json \<Rightarrow> string \<Rightarrow> string" where
  "GetOptionalStringField object key = (case jfind object key of Some (JString s) \<Rightarrow> s | _ \<Rightarrow> [])"

definition GetOptionalObjectField :: "json \<Rightarrow> string \<Rightarrow> json" where
  "GetOptionalObjectField object key = (case jfind object key of Some (JObject m) \<Rightarrow> JObject m | _ \<Rightarrow> JObject [])"

definition GetOptionalIntField :: "json \<Rightarrow> string \<Rightarrow> int \<Rightarrow> int" where
  "GetOptionalIntField object key fallback = (case jfind object key of Some (JInt i) \<Rightarrow> to_int32 i | _ \<Rightarrow> fallback)"

definition GetOptionalBoolField :: "json \<Rightarrow> string \<Rightarrow> bool \<Rightarrow> bool" where
  "GetOptionalBoolField object key fallback = (case jfind object key of Some (JBool b) \<Rightarrow> b | _ \<Rightarrow> fallback)"

definition GetOptionalFloatField :: "json \<Rightarrow> string \<Rightarrow> float32 \<Rightarrow> float32" where
  "GetOptionalFloatField object key fallback =
     (case jfind object key of Some (JInt i) \<Rightarrow> round32 (of_int i) | Some (JFloat r) \<Rightarrow> round32 r | _ \<Rightarrow> fallback)"

fun GetOptionalStringAnyField :: "json \<Rightarrow> string list \<Rightarrow> string \<Rightarrow> string" where
  "GetOptionalStringAnyField object [] fallback = fallback"
| "GetOptionalStringAnyField object (key # keys) fallback =
     (let value = GetOptionalStringField object key
      in if value \<noteq> [] then value else GetOptionalStringAnyField object keys fallback)"

fun GetOptionalIntAnyField :: "json \<Rightarrow> string list \<Rightarrow> int \<Rightarrow> int" where
  "GetOptionalIntAnyField object [] fallback = fallback"
| "GetOptionalIntAnyField object (key # keys) fallback =
     (case jfind object key of Some (JInt i) \<Rightarrow> to_int32 i | _ \<Rightarrow> GetOptionalIntAnyField object keys fallback)"

fun GetOptionalBoolAnyField :: "json \<Rightarrow> string list \<Rightarrow> bool \<Rightarrow> bool" where
  "GetOptionalBoolAnyField object [] fallback = fallback"
| "GetOptionalBoolAnyField object (key # keys) fallback =
     (case jfind object key of Some (JBool b) \<Rightarrow> b | _ \<Rightarrow> GetOptionalBoolAnyField object keys fallback)"

fun jempty :: "json \<Rightarrow> bool" where
  "jempty (JObject m) = (m = [])"
| "jempty (JArray js) = (js = [])"
| "jempty JNull = True"
| "jempty _ = False"

section \<open>Options\<close>

definition ClampCropMargin :: "int \<Rightarrow> int" where
  "ClampCropMargin value = (if value < -100 then -100 else if value > 100 then 100 else value)"

definition crop_border_fields :: "json \<Rightarrow> SdkCropBorderOptions \<Rightarrow> SdkCropBorderOptions" where
  "crop_border_fields j options = options
     \<lparr> cbo_enabled := GetOptionalBoolAnyField j [''enabled'', ''crop''] (cbo_enabled options),
       cbo_width := GetOptionalIntAnyField j [''width'', ''widthCutMargin''] (cbo_width options),
       cbo_height := GetOptionalIntAnyField j [''height'', ''heightCutMargin''] (cbo_height options) \<rparr>"

definition crop_adjust_fields :: "json \<Rightarrow> SdkCropBorderOptions \<Rightarrow> SdkCropBorderOptions" where
  "crop_adjust_fields j options =
     (let param = GetOptionalObjectField j ''param'' in options
        \<lparr> cbo_enabled := GetOptionalBoolField j ''crop'' (cbo_enabled options),
          cbo_width := GetOptionalIntField param ''width'' (cbo_width options),
          cbo_height := GetOptionalIntField param ''height'' (cbo_height options) \<rparr>)"

definition ParseCropBorderOptions :: "json \<Rightarrow> bool \<Rightarrow> int \<Rightarrow> int \<Rightarrow> SdkCropBorderOptions" where
  "ParseCropBorderOptions object default_enabled default_width default_height =
     (let options = \<lparr> cbo_enabled = default_enabled, cbo_width = default_width, cbo_height = default_height \<rparr>;
          crop = GetOptionalObjectField object ''crop_border'';
          options = (if \<not> jempty crop then crop_border_fields crop options else options);
          adjust = GetOptionalObjectField object ''cropAdjust'';
          options = (if \<not> jempty adjust then crop_adjust_fields adjust options else options);
          enabled = GetOptionalBoolAnyField object [''cropBorder'', ''crop_border_enabled''] (cbo_enabled options);
          width = GetOptionalIntAnyField object [''cropBorderWidth'', ''crop_border_width''] (cbo_width options);
          height = GetOptionalIntAnyField object [''cropBorderHeight'', ''crop_border_height''] (cbo_height options)
      in \<lparr> cbo_enabled = enabled, cbo_width = (if enabled then ClampCropMargin width else 0),
           cbo_height = (if enabled then ClampCropMargin height else 0) \<rparr>)"

definition ParseCropCenterOptions :: "json \<Rightarrow> bool \<Rightarrow> int \<Rightarrow> SdkCropCenterOptions" where
  "ParseCropCenterOptions object default_enabled default_margin =
     (let crop = GetOptionalObjectField object ''crop_center'';
          enabled = (if \<not> jempty crop then GetOptionalBoolField crop ''enabled'' default_enabled else default_enabled);
          margin = (if \<not> jempty crop then GetOptionalIntField crop ''margin'' default_margin else default_margin)
      in \<lparr> cco_enabled = enabled, cco_margin = (if enabled then ClampCropMargin margin else 0) \<rparr>)"

definition parse_crop_border :: "json \<Rightarrow> SdkCropBorderOptions \<Rightarrow> SdkCropBorderOptions" where
  "parse_crop_border object defaults =
     ParseCropBorderOptions object (cbo_enabled defaults) (cbo_width defaults) (cbo_height defaults)"

definition ParseSinglePageOptions :: "json \<Rightarrow> SdkSinglePageOptions \<Rightarrow> SdkSinglePageOptions" where
  "ParseSinglePageOptions object defaults =
     \<lparr> spo_realtime_detect_rects = GetOptionalBoolField object ''realtime_detect_rects'' (spo_realtime_detect_rects defaults),
       spo_crop_border = parse_crop_border object (spo_crop_border defaults),
       spo_id_card_round_corner = GetOptionalBoolAnyField object
         [''id_card_round_corner'', ''idCardRoundCorner'', ''roundedCorner''] (spo_id_card_round_corner defaults),
       spo_auto_rotate = GetOptionalBoolAnyField object
         [''auto_rotate'', ''autoRotate'', ''automaticConversion''] (spo_auto_rotate defaults),
       spo_smart_black_edge_optimize = GetOptionalBoolAnyField object
         [''smart_black_edge_optimize'', ''smartBlackEdgeOptimize'', ''optiBlackEdges''] (spo_smart_black_edge_optimize defaults),
       spo_multi_target_paging = GetOptionalBoolAnyField object
         [''multi_target_paging'', ''multiTargetPaging'', ''multiTagets''] (spo_multi_target_paging defaults) \<rparr>"

text \<open>The finger options: the object \<open>remove_finger\<close>, the older \<open>removeFinger\<close>, and then the flat fields.\<close>

definition remove_finger_fields :: "json \<Rightarrow> SdkCurvedBookOptions \<Rightarrow> SdkCurvedBookOptions" where
  "remove_finger_fields j options = options
     \<lparr> cuo_remove_finger := GetOptionalBoolAnyField j [''enabled'', ''remove''] (cuo_remove_finger options),
       cuo_finger_type := GetOptionalStringAnyField j [''finger_type'', ''type''] (cuo_finger_type options) \<rparr>"

definition legacy_remove_finger_fields :: "json \<Rightarrow> SdkCurvedBookOptions \<Rightarrow> SdkCurvedBookOptions" where
  "legacy_remove_finger_fields j options =
     (let type = GetOptionalIntField j ''type'' (if cuo_finger_type options = ''with_sleeve'' then 1 else 0) in options
        \<lparr> cuo_remove_finger := GetOptionalBoolField j ''remove'' (cuo_remove_finger options),
          cuo_finger_type := (if jfind j ''type'' \<noteq> None
            then if type = 0 then ''without_sleeve'' else ''with_sleeve'' else cuo_finger_type options) \<rparr>)"

definition finger_options :: "json \<Rightarrow> SdkCurvedBookOptions \<Rightarrow> SdkCurvedBookOptions" where
  "finger_options object options =
     (let j = GetOptionalObjectField object ''remove_finger'';
          options = (if \<not> jempty j then remove_finger_fields j options else options);
          legacy = GetOptionalObjectField object ''removeFinger'';
          options = (if \<not> jempty legacy then legacy_remove_finger_fields legacy options else options);
          with_sleeve = GetOptionalBoolField object ''withFingerSleeve'' (cuo_finger_type options \<noteq> ''without_sleeve'');
          explicit = GetOptionalStringField object ''finger_type'';
          finger_type = (if explicit \<noteq> [] then explicit else if with_sleeve then ''with_sleeve'' else ''without_sleeve'')
      in options
        \<lparr> cuo_remove_finger := GetOptionalBoolAnyField object [''removeFingerEnabled'', ''removeFinger''] (cuo_remove_finger options),
          cuo_finger_type := (if finger_type \<noteq> ''without_sleeve'' then ''with_sleeve'' else finger_type) \<rparr>)"

definition ParseCurvedBookOptions :: "json \<Rightarrow> SdkCurvedBookOptions \<Rightarrow> SdkCurvedBookOptions" where
  "ParseCurvedBookOptions object defaults =
     (let options = finger_options object defaults;
          paging = GetOptionalBoolAnyField object [''smart_paging'', ''smartPaging''] (cuo_smart_paging options);
          split = GetOptionalObjectField object ''smartSplit''
      in options
        \<lparr> cuo_smart_paging := (if \<not> jempty split then GetOptionalBoolField split ''split'' paging else paging),
          cuo_crop_border := parse_crop_border object (cuo_crop_border options),
          cuo_crop_center := ParseCropCenterOptions object (cco_enabled (cuo_crop_center options))
            (cco_margin (cuo_crop_center options)),
          cuo_auto_complete := GetOptionalBoolAnyField object [''auto_complete'', ''autoComplete''] (cuo_auto_complete options) \<rparr>)"

definition ParsePoint :: "json \<Rightarrow> SdkPoint2f" where
  "ParsePoint object = \<lparr> pt_x = GetOptionalFloatField object ''x'' 0, pt_y = GetOptionalFloatField object ''y'' 0 \<rparr>"

definition ParseRect4P :: "json \<Rightarrow> SdkRect4P" where
  "ParseRect4P object =
     \<lparr> rc_left_top = ParsePoint (GetOptionalObjectField object ''left_top''),
       rc_right_top = ParsePoint (GetOptionalObjectField object ''right_top''),
       rc_right_down = ParsePoint (GetOptionalObjectField object ''right_down''),
       rc_left_down = ParsePoint (GetOptionalObjectField object ''left_down'') \<rparr>"

definition IsSupportedVideoPixelFormat :: "string \<Rightarrow> bool" where
  "IsSupportedVideoPixelFormat pixel_format = (pixel_format \<in> {[], ''mjpeg'', ''jpeg'', ''bgr24''})"

definition NormalizeVideoPixelFormat :: "string \<Rightarrow> string" where
  "NormalizeVideoPixelFormat pixel_format = (if pixel_format = ''bgr24'' then ''bgr24'' else ''mjpeg'')"

section \<open>The capture profile\<close>

definition or_field :: "json \<Rightarrow> string \<Rightarrow> string \<Rightarrow> string" where
  "or_field object key fallback =
     (let value = GetOptionalStringField object key in if value \<noteq> [] then value else fallback)"

definition profile_device :: "json \<Rightarrow> SdkCaptureProfile \<Rightarrow> SdkCaptureProfile" where
  "profile_device j profile =
     (if jempty j then profile
      else let resolution = GetOptionalObjectField j ''resolution'' in profile
        \<lparr> cp_device_id := or_field j ''device_id'' (cp_device_id profile),
          cp_width := GetOptionalIntField resolution ''width'' 0,
          cp_height := GetOptionalIntField resolution ''height'' 0,
          cp_fps := GetOptionalIntField resolution ''fps'' 0 \<rparr>)"

definition profile_area :: "json \<Rightarrow> SdkCaptureProfile \<Rightarrow> SdkCaptureProfile" where
  "profile_area j profile =
     (if jempty j then profile
      else let source = GetOptionalObjectField j ''source'' in profile
        \<lparr> cp_selected_area_rect := ParseRect4P (GetOptionalObjectField j ''points''),
          cp_selected_area_source_width := GetOptionalIntField source ''width'' 0,
          cp_selected_area_source_height := GetOptionalIntField source ''height'' 0 \<rparr>)"

definition profile_capture :: "json \<Rightarrow> SdkCaptureProfile \<Rightarrow> SdkCaptureProfile" where
  "profile_capture j profile =
     (if jempty j then profile
      else let single = ParseSinglePageOptions (GetOptionalObjectField j ''single_page'') (cp_single_page profile) in
        profile_area (GetOptionalObjectField j ''selected_area'') (profile
          \<lparr> cp_page_processing := or_field j ''page_processing'' (cp_page_processing profile),
            cp_color_mode := or_field j ''color_mode'' (cp_color_mode profile),
            cp_single_page := single,
            cp_single_page_realtime_detect_rects := spo_realtime_detect_rects single,
            cp_curved_book := ParseCurvedBookOptions (GetOptionalObjectField j ''curved_book'') (cp_curved_book profile) \<rparr>))"

definition profile_quality :: "json \<Rightarrow> SdkCaptureProfile \<Rightarrow> string + SdkCaptureProfile" where
  "profile_quality j profile =
     (case jfind j ''quality'' of
        None \<Rightarrow> Inr profile
      | Some (JInt i) \<Rightarrow> let quality = to_int32 i in
          if quality < 1 \<or> quality > 100 then Inl ''output.quality must be between 1 and 100''
          else Inr (profile\<lparr>cp_output_quality := quality\<rparr>)
      | Some _ \<Rightarrow> Inl ''output.quality must be an integer between 1 and 100'')"

definition profile_target_size :: "json \<Rightarrow> SdkCaptureProfile \<Rightarrow> string + SdkCaptureProfile" where
  "profile_target_size j profile =
     (case jfind j ''target_size'' of
        None \<Rightarrow> Inr profile
      | Some (JInt i) \<Rightarrow> let target_size = to_int32 i in
          if target_size \<le> 0 then Inl ''output.target_size must be a positive integer pixel bucket''
          else Inr (profile\<lparr>cp_output_target_size := target_size\<rparr>)
      | Some _ \<Rightarrow> Inl ''output.target_size must be an integer pixel bucket'')"

definition profile_thumbnails :: "json \<Rightarrow> SdkCaptureProfile \<Rightarrow> SdkCaptureProfile" where
  "profile_thumbnails j profile = profile
     \<lparr> cp_thumbnail_original := GetOptionalBoolField j ''original'' (cp_thumbnail_original profile),
       cp_thumbnail_page_processed := GetOptionalBoolField j ''page_processed'' (cp_thumbnail_page_processed profile),
       cp_thumbnail_color_processed := GetOptionalBoolField j ''color_processed'' (cp_thumbnail_color_processed profile),
       cp_thumbnail_final := GetOptionalBoolField j ''final'' (cp_thumbnail_final profile) \<rparr>"

definition profile_output :: "json \<Rightarrow> SdkCaptureProfile \<Rightarrow> string + SdkCaptureProfile" where
  "profile_output j profile =
     (if jempty j then Inr profile
      else let format = GetOptionalStringField j ''format'';
               profile = (if format \<noteq> [] then profile\<lparr>cp_output_format := to_lower format\<rparr> else profile) in
        case profile_quality j profile of
          Inl e \<Rightarrow> Inl e
        | Inr profile \<Rightarrow>
            (case profile_target_size j profile of
               Inl e \<Rightarrow> Inl e
             | Inr profile \<Rightarrow> Inr (profile_thumbnails (GetOptionalObjectField j ''thumbnails'') profile)))"

definition TryParseCaptureProfile :: "json \<Rightarrow> string \<Rightarrow> string + SdkCaptureProfile" where
  "TryParseCaptureProfile params device_id =
     (let profile = default_SdkCaptureProfile\<lparr>cp_device_id := device_id\<rparr>;
          j = GetOptionalObjectField params ''profile'' in
      if jempty j then Inr profile
      else let profile = profile
             \<lparr> cp_profile_version := or_field j ''profile_version'' ''capture.profile.v1'',
               cp_revision := GetOptionalIntField j ''revision'' 1 \<rparr>;
             profile = profile_device (GetOptionalObjectField j ''device'') profile;
             profile = profile_capture (GetOptionalObjectField j ''capture'') profile
           in profile_output (GetOptionalObjectField j ''output'') profile)"

section \<open>The enhancement pipeline\<close>

definition pipeline_target :: "json \<Rightarrow> SdkImageEnhanceTarget \<Rightarrow> SdkImageEnhanceTarget" where
  "pipeline_target j t =
     (if jempty j then t
      else t\<lparr> et_type := or_field j ''type'' (et_type t), et_format := or_field j ''format'' (et_format t),
              et_export_type := or_field j ''export_type'' (et_export_type t),
              et_output_path := or_field j ''path'' (GetOptionalStringField j ''output_path''),
              et_output_dir := or_field j ''dir'' (GetOptionalStringField j ''output_dir''),
              et_quality := GetOptionalIntField j ''quality'' (et_quality t),
              et_tiff_color := or_field j ''tiff_color'' (et_tiff_color t),
              et_tiff_compression := or_field j ''tiff_compression'' (et_tiff_compression t) \<rparr>)"

definition pipeline_step :: "(json \<Rightarrow> string) \<Rightarrow> nat \<Rightarrow> json \<Rightarrow> SdkImageEnhanceStep" where
  "pipeline_step dump index j =
     \<lparr> es_id = or_field j ''id'' (''step-'' @ dec index), es_type = GetOptionalStringField j ''type'',
       es_provider = or_field j ''provider'' ''auto'', es_enabled = GetOptionalBoolField j ''enabled'' True,
       es_on_error = or_field j ''on_error'' ''fail'',
       es_params_json = (let params = GetOptionalObjectField j ''params'' in if jempty params then ''{}'' else dump params) \<rparr>"

text \<open>A step without a type is dropped and does not count.\<close>

fun pipeline_steps :: "(json \<Rightarrow> string) \<Rightarrow> nat \<Rightarrow> json list \<Rightarrow> SdkImageEnhanceStep list" where
  "pipeline_steps dump index [] = []"
| "pipeline_steps dump index (j # js) =
     (let step = pipeline_step dump index j in
      if \<not> is_object j \<or> es_type step = [] then pipeline_steps dump index js
      else step # pipeline_steps dump (index + 1) js)"

definition ParseImageEnhancePipeline :: "(json \<Rightarrow> string) \<Rightarrow> json \<Rightarrow> SdkImageEnhancePipeline" where
  "ParseImageEnhancePipeline dump j =
     (let pipeline = default_SdkImageEnhancePipeline in
      if jempty j then pipeline
      else let options = GetOptionalObjectField j ''options'' in pipeline
        \<lparr> el_version := or_field j ''version'' (el_version pipeline),
          el_target := pipeline_target (GetOptionalObjectField j ''target'') (el_target pipeline),
          el_keep_intermediate := GetOptionalBoolField options ''keep_intermediate'' (el_keep_intermediate pipeline),
          el_include_metadata := GetOptionalBoolField options ''include_metadata'' (el_include_metadata pipeline),
          el_steps := (case jfind j ''steps'' of Some (JArray js) \<Rightarrow> pipeline_steps dump 1 js | _ \<Rightarrow> []) \<rparr>)"

end
