(* ===== verification/Runtime_Services.thy ===== *)
theory Runtime_Services
  imports Sdk_Json Status_Auth
begin

text \<open>
  The runtime services behind the admin pages: the base URLs that can be set while the service runs
  (\<open>application/runtime_config_service.cpp\<close>) and the ring of recent commands and events
  (\<open>application/runtime_record_service.cpp\<close>).  An operation under \<open>mu_\<close> is one function of the
  state; the environment variables and the printer of JSON are parameters.
\<close>

section \<open>Base URLs\<close>

definition is_blank :: "char \<Rightarrow> bool" where
  "is_blank c \<longleftrightarrow> c \<in> {CHR '' '', CHR 0x09, CHR 0x0D, CHR 0x0A}"

definition Trim :: "string \<Rightarrow> string" where
  "Trim value = rev (dropWhile is_blank (rev (dropWhile is_blank value)))"

definition GetEnvString :: "(string \<Rightarrow> string option) \<Rightarrow> string \<Rightarrow> string" where
  "GetEnvString getenv name = (case getenv name of None \<Rightarrow> [] | Some value \<Rightarrow> Trim value)"

definition OptionalString :: "json \<Rightarrow> string \<Rightarrow> string" where
  "OptionalString object key = (case jfind object key of Some (JString s) \<Rightarrow> Trim s | _ \<Rightarrow> [])"

record RuntimeConfigService =
  rg_online_image_enhance_base_url :: string
  rg_authz_base_url :: string
  rg_central_auth_base_url :: string

definition new_RuntimeConfigService :: "string \<Rightarrow> string \<Rightarrow> RuntimeConfigService" where
  "new_RuntimeConfigService online authz =
     \<lparr> rg_online_image_enhance_base_url = Trim online, rg_authz_base_url = Trim authz,
       rg_central_auth_base_url = [] \<rparr>"

definition kDefaultBaseUrl :: string where
  "kDefaultBaseUrl = ''https://gateway.czur.com''"

text \<open>The environment wins over what the admin set, which wins over the default; the second
  component names the source.\<close>

definition effective_url ::
    "(string \<Rightarrow> string option) \<Rightarrow> string \<Rightarrow> string \<Rightarrow> string \<times> string" where
  "effective_url getenv name admin_value =
     (let env_value = GetEnvString getenv name in
      if env_value \<noteq> [] then (env_value, ''env'')
      else if admin_value \<noteq> [] then (admin_value, ''admin'')
      else (kDefaultBaseUrl, ''default''))"

definition EffectiveOnlineImageEnhanceBaseUrl ::
    "(string \<Rightarrow> string option) \<Rightarrow> RuntimeConfigService \<Rightarrow> string \<times> string" where
  "EffectiveOnlineImageEnhanceBaseUrl getenv s =
     effective_url getenv ''CZUR_SDK_IMAGE_ENHANCE_BASE_URL'' (rg_online_image_enhance_base_url s)"

definition EffectiveAuthzBaseUrl ::
    "(string \<Rightarrow> string option) \<Rightarrow> RuntimeConfigService \<Rightarrow> string \<times> string" where
  "EffectiveAuthzBaseUrl getenv s = effective_url getenv ''CZUR_SDK_AUTHZ_BASE_URL'' (rg_authz_base_url s)"

definition OnlineImageEnhanceBaseUrl :: "(string \<Rightarrow> string option) \<Rightarrow> RuntimeConfigService \<Rightarrow> string" where
  "OnlineImageEnhanceBaseUrl getenv s = fst (EffectiveOnlineImageEnhanceBaseUrl getenv s)"

definition AuthzBaseUrl_config :: "(string \<Rightarrow> string option) \<Rightarrow> RuntimeConfigService \<Rightarrow> string" where
  "AuthzBaseUrl_config getenv s = fst (EffectiveAuthzBaseUrl getenv s)"

definition endpoint_json :: "string \<Rightarrow> string \<times> string \<Rightarrow> json" where
  "endpoint_json admin_value effective =
     obj [(''base_url'', JString admin_value), (''effective_base_url'', JString (fst effective)),
          (''source'', JString (snd effective))]"

definition BuildConfigJson :: "(string \<Rightarrow> string option) \<Rightarrow> RuntimeConfigService \<Rightarrow> json" where
  "BuildConfigJson getenv s = obj
     [(''online_image_enhance'',
         endpoint_json (rg_online_image_enhance_base_url s) (EffectiveOnlineImageEnhanceBaseUrl getenv s)),
      (''authz'', endpoint_json (rg_authz_base_url s) (EffectiveAuthzBaseUrl getenv s)),
      (''central_auth'', obj [(''base_url'', JString (rg_central_auth_base_url s))])]"

definition requested_url :: "json \<Rightarrow> string \<Rightarrow> string \<Rightarrow> string" where
  "requested_url request section otherwise =
     (case jfind request section of
        Some j \<Rightarrow> if is_object j then OptionalString j ''base_url'' else otherwise
      | None \<Rightarrow> otherwise)"

text \<open>A missing section clears the first two addresses and keeps the third.\<close>

definition UpdateConfigJson ::
    "(string \<Rightarrow> string option) \<Rightarrow> json \<Rightarrow> RuntimeConfigService \<Rightarrow> json \<times> RuntimeConfigService" where
  "UpdateConfigJson getenv request s =
     (let s = \<lparr> rg_online_image_enhance_base_url = requested_url request ''online_image_enhance'' [],
                rg_authz_base_url = requested_url request ''authz'' [],
                rg_central_auth_base_url = requested_url request ''central_auth'' (rg_central_auth_base_url s) \<rparr>
      in (BuildConfigJson getenv s, s))"

section \<open>Redaction\<close>

definition IsSensitiveKey :: "string \<Rightarrow> bool" where
  "IsSensitiveKey key \<longleftrightarrow> to_lower key \<in>
     {''token'', ''apikey'', ''api_key'', ''session_token'', ''sessiontoken'', ''auth_code'', ''authcode'',
      ''authorization'', ''x-api-key''}"

definition MaskValue :: "string \<Rightarrow> string" where
  "MaskValue value =
     (if value = [] then []
      else if length value \<le> 10 then ''***''
      else take 6 value @ ''...'' @ drop (length value - 4) value)"

fun mask_json :: "json \<Rightarrow> json" where
  "mask_json (JString s) = JString (MaskValue s)"
| "mask_json _ = JString ''***''"

fun RedactJson :: "json \<Rightarrow> json" where
  "RedactJson (JObject m) =
     JObject (map (\<lambda>p. (fst p, if IsSensitiveKey (fst p) then mask_json (snd p) else RedactJson (snd p))) m)"
| "RedactJson (JArray js) = JArray (map RedactJson js)"
| "RedactJson j = j"

section \<open>Records\<close>

record record_entry =
  re_id :: nat
  re_ts :: int
  re_type :: string
  re_source :: string
  re_connection_id :: string
  re_method :: string
  re_request_id :: string
  re_status :: string
  re_code :: int
  re_message :: string
  re_duration_ms :: nat
  re_payload_preview :: string

definition default_record_entry :: record_entry where
  "default_record_entry = \<lparr> re_id = 0, re_ts = 0, re_type = [], re_source = [], re_connection_id = [],
     re_method = [], re_request_id = [], re_status = [], re_code = 0, re_message = [], re_duration_ms = 0,
     re_payload_preview = [] \<rparr>"

record RuntimeRecordService =
  rr_capacity :: nat
  rr_entries :: "record_entry list"
  rr_next_id :: nat

definition new_RuntimeRecordService :: "nat \<Rightarrow> RuntimeRecordService" where
  "new_RuntimeRecordService capacity =
     \<lparr> rr_capacity = (if capacity = 0 then 256 else capacity), rr_entries = [], rr_next_id = 1 \<rparr>"

text \<open>\<open>while (entries_.size() > capacity_) entries_.pop_front()\<close> drops the excess.\<close>

definition PushLocked :: "record_entry \<Rightarrow> RuntimeRecordService \<Rightarrow> RuntimeRecordService" where
  "PushLocked source s =
     (let entries = rr_entries s @ [source\<lparr>re_id := rr_next_id s\<rparr>] in
      s\<lparr> rr_entries := drop (length entries - rr_capacity s) entries, rr_next_id := rr_next_id s + 1 \<rparr>)"

definition kPreviewLimit :: nat where
  "kPreviewLimit = 1600"

definition PreviewJson :: "(json \<Rightarrow> string) \<Rightarrow> json \<Rightarrow> string" where
  "PreviewJson dump payload =
     (let preview = dump (RedactJson payload) in
      if length preview > kPreviewLimit then take kPreviewLimit preview @ ''...'' else preview)"

definition RecordCommandRequest ::
    "(json \<Rightarrow> string) \<Rightarrow> int \<Rightarrow> string \<Rightarrow> json \<Rightarrow> json \<Rightarrow> nat \<Rightarrow> RuntimeRecordService \<Rightarrow> RuntimeRecordService" where
  "RecordCommandRequest dump now connection_id request response duration_ms =
     (let code = IntField response ''code'' 0;
          request_id = StringField request ''request_id'' in
      PushLocked (default_record_entry
        \<lparr> re_ts := now, re_type := ''request'', re_source := ''command_ws'', re_connection_id := connection_id,
          re_method := StringField request ''method'',
          re_request_id := (if request_id = [] then StringField request ''id'' else request_id),
          re_code := code, re_message := StringField response ''message'',
          re_status := (if IsOkStatusCode code then ''success'' else ''error''), re_duration_ms := duration_ms,
          re_payload_preview := PreviewJson dump (obj [(''request'', request), (''response'', response)]) \<rparr>))"

definition RecordRuntimeEvent ::
    "(json \<Rightarrow> string) \<Rightarrow> int \<Rightarrow> string \<Rightarrow> string \<Rightarrow> string \<Rightarrow> string \<Rightarrow> int \<Rightarrow> json \<Rightarrow>
     RuntimeRecordService \<Rightarrow> RuntimeRecordService" where
  "RecordRuntimeEvent dump now source connection_id name message code payload =
     PushLocked (default_record_entry
        \<lparr> re_ts := now, re_type := (if IsOkStatusCode code then ''event'' else ''error''), re_source := source,
          re_connection_id := connection_id, re_method := name,
          re_request_id := StringField payload ''request_id'', re_code := code, re_message := message,
          re_status := (if IsOkStatusCode code then ''success'' else ''error''),
          re_payload_preview := PreviewJson dump payload \<rparr>)"

definition record_json :: "record_entry \<Rightarrow> json" where
  "record_json e = obj
     [(''id'', JInt (int (re_id e))), (''ts'', JInt (re_ts e)), (''type'', JString (re_type e)),
      (''source'', JString (re_source e)), (''connectionId'', JString (re_connection_id e)),
      (''method'', JString (re_method e)), (''requestId'', JString (re_request_id e)),
      (''status'', JString (re_status e)), (''code'', JInt (re_code e)), (''message'', JString (re_message e)),
      (''durationMs'', JInt (int (re_duration_ms e))), (''payloadPreview'', JString (re_payload_preview e))]"

text \<open>The loop walks the ring from its end and stops at the limit; counting only the records it takes,
  it takes the first \<open>limit\<close> that pass the filter.\<close>

definition record_limit :: "nat \<Rightarrow> nat" where
  "record_limit limit = (let limit = (if limit = 0 then 100 else limit) in if limit > 500 then 500 else limit)"

definition selected_records :: "string \<Rightarrow> nat \<Rightarrow> RuntimeRecordService \<Rightarrow> record_entry list" where
  "selected_records type_filter limit s =
     take (record_limit limit) (filter (\<lambda>e. type_filter = [] \<or> re_type e = type_filter) (rev (rr_entries s)))"

definition BuildRecordsJson :: "string \<Rightarrow> nat \<Rightarrow> RuntimeRecordService \<Rightarrow> json" where
  "BuildRecordsJson type_filter limit s = obj
     [(''records'', JArray (map record_json (selected_records type_filter limit s))),
      (''totalRetained'', JInt (int (length (rr_entries s)))), (''capacity'', JInt (int (rr_capacity s)))]"

end
