(* ===== verification/Sdk_Config.thy ===== *)
theory Sdk_Config
  imports Sdk_Prelude
begin

text \<open>
  The configuration of the service (\<open>runtime/sdk_config.cpp\<close>): a file of \<open>KEY=VALUE\<close> lines, the same
  keys as environment variables over it, and the address under which assets are published.  \<open>getenv\<close>
  and the content of the file are parameters; the log is left out.
\<close>

section \<open>Data\<close>

record SdkTlsConfig =
  tc_enabled :: bool
  tc_bind_host :: string
  tc_certificate_chain_file :: string
  tc_private_key_file :: string
  tc_private_key_password :: string
  tc_asset_https_port :: nat
  tc_command_wss_port :: nat
  tc_video_wss_port :: nat

definition default_SdkTlsConfig :: SdkTlsConfig where
  "default_SdkTlsConfig = \<lparr> tc_enabled = False, tc_bind_host = [], tc_certificate_chain_file = [],
     tc_private_key_file = [], tc_private_key_password = [], tc_asset_https_port = 18082,
     tc_command_wss_port = 18090, tc_video_wss_port = 18091 \<rparr>"

record SdkConfig =
  sc_bind_host :: string
  sc_admin_http_port :: nat
  sc_demo_http_port :: nat
  sc_asset_http_port :: nat
  sc_command_ws_port :: nat
  sc_video_ws_port :: nat
  sc_web_root :: string
  sc_asset_base_url :: string
  sc_auth_token :: string
  sc_online_image_enhance_base_url :: string
  sc_authz_base_url :: string
  sc_twain_work_dir :: string
  sc_tls :: SdkTlsConfig

definition default_SdkConfig :: SdkConfig where
  "default_SdkConfig = \<lparr> sc_bind_host = ''127.0.0.1'', sc_admin_http_port = 17080, sc_demo_http_port = 17081,
     sc_asset_http_port = 17082, sc_command_ws_port = 17090, sc_video_ws_port = 17091, sc_web_root = ''web'',
     sc_asset_base_url = [], sc_auth_token = [], sc_online_image_enhance_base_url = [], sc_authz_base_url = [],
     sc_twain_work_dir = [], sc_tls = default_SdkTlsConfig \<rparr>"

section \<open>Values\<close>

text \<open>A C string ends at its first NUL.\<close>

definition c_str :: "string \<Rightarrow> string" where
  "c_str s = takeWhile (\<lambda>c. c \<noteq> CHR 0x00) s"

text \<open>\<open>isspace\<close> in the C locale.\<close>

definition is_space :: "char \<Rightarrow> bool" where
  "is_space c \<longleftrightarrow> c = CHR '' '' \<or> (let n = (of_char c :: nat) in 9 \<le> n \<and> n \<le> 13)"

definition is_digit :: "char \<Rightarrow> bool" where
  "is_digit c \<longleftrightarrow> (let n = (of_char c :: nat) in 48 \<le> n \<and> n \<le> 57)"

text \<open>\<open>strtol\<close> in base 10, when it reads the text to its end: leading space, a sign, digits.  A negative
  number and one beyond \<open>long\<close> are refused by the check that follows, as any number beyond 65535 is.\<close>

definition TryReadPort :: "string \<Rightarrow> nat option" where
  "TryReadPort value =
     (case dropWhile is_space (c_str value) of
        [] \<Rightarrow> None
      | c # cs \<Rightarrow>
          let digits = (if c = CHR ''+'' then cs else c # cs) in
          if digits \<noteq> [] \<and> (\<forall>d \<in> set digits. is_digit d) then
            let n = undec digits in if n = 0 \<or> n > 65535 then None else Some n
          else None)"

definition TryReadBool :: "string \<Rightarrow> bool option" where
  "TryReadBool value =
     (let normalized = c_str value in
      if normalized \<in> {''1'', ''true'', ''TRUE'', ''on'', ''ON''} then Some True
      else if normalized \<in> {''0'', ''false'', ''FALSE'', ''off'', ''OFF''} then Some False
      else None)"

definition PublishedHost :: "string \<Rightarrow> string" where
  "PublishedHost host = (if host = [] \<or> host = ''0.0.0.0'' \<or> host = ''::'' then ''127.0.0.1'' else host)"

definition Trim_config :: "string \<Rightarrow> string" where
  "Trim_config value = rev (dropWhile is_space (rev (dropWhile is_space value)))"

section \<open>Setting a value\<close>

text \<open>The fields a key can name.  Each key of a port has one entry here, in the order of the code.\<close>

definition port_field :: "string \<Rightarrow> (nat \<Rightarrow> SdkConfig \<Rightarrow> SdkConfig) option" where
  "port_field key =
     (if key = ''SDK_ADMIN_HTTP_PORT'' then Some (\<lambda>n c. c\<lparr>sc_admin_http_port := n\<rparr>)
      else if key = ''SDK_DEMO_HTTP_PORT'' then Some (\<lambda>n c. c\<lparr>sc_demo_http_port := n\<rparr>)
      else if key = ''SDK_ASSET_HTTP_PORT'' then Some (\<lambda>n c. c\<lparr>sc_asset_http_port := n\<rparr>)
      else if key = ''SDK_COMMAND_WS_PORT'' then Some (\<lambda>n c. c\<lparr>sc_command_ws_port := n\<rparr>)
      else if key = ''SDK_VIDEO_WS_PORT'' then Some (\<lambda>n c. c\<lparr>sc_video_ws_port := n\<rparr>)
      else if key = ''SDK_ASSET_HTTPS_PORT'' then Some (\<lambda>n c. c\<lparr>sc_tls := (sc_tls c)\<lparr>tc_asset_https_port := n\<rparr>\<rparr>)
      else if key = ''SDK_COMMAND_WSS_PORT'' then Some (\<lambda>n c. c\<lparr>sc_tls := (sc_tls c)\<lparr>tc_command_wss_port := n\<rparr>\<rparr>)
      else if key = ''SDK_VIDEO_WSS_PORT'' then Some (\<lambda>n c. c\<lparr>sc_tls := (sc_tls c)\<lparr>tc_video_wss_port := n\<rparr>\<rparr>)
      else None)"

definition string_field :: "string \<Rightarrow> (string \<Rightarrow> SdkConfig \<Rightarrow> SdkConfig) option" where
  "string_field key =
     (if key = ''SDK_ASSET_BASE_URL'' then Some (\<lambda>v c. c\<lparr>sc_asset_base_url := v\<rparr>)
      else if key = ''SDK_AUTH_TOKEN'' then Some (\<lambda>v c. c\<lparr>sc_auth_token := v\<rparr>)
      else if key = ''CZUR_TWAIN_WORK_DIR'' then Some (\<lambda>v c. c\<lparr>sc_twain_work_dir := v\<rparr>)
      else if key = ''SDK_TLS_BIND_HOST'' then Some (\<lambda>v c. c\<lparr>sc_tls := (sc_tls c)\<lparr>tc_bind_host := v\<rparr>\<rparr>)
      else if key = ''SDK_TLS_CERT_FILE'' then Some (\<lambda>v c. c\<lparr>sc_tls := (sc_tls c)\<lparr>tc_certificate_chain_file := v\<rparr>\<rparr>)
      else if key = ''SDK_TLS_KEY_FILE'' then Some (\<lambda>v c. c\<lparr>sc_tls := (sc_tls c)\<lparr>tc_private_key_file := v\<rparr>\<rparr>)
      else if key = ''SDK_TLS_KEY_PASSWORD'' then Some (\<lambda>v c. c\<lparr>sc_tls := (sc_tls c)\<lparr>tc_private_key_password := v\<rparr>\<rparr>)
      else None)"

definition set_enabled :: "bool \<Rightarrow> SdkConfig \<Rightarrow> SdkConfig" where
  "set_enabled b c = c\<lparr>sc_tls := (sc_tls c)\<lparr>tc_enabled := b\<rparr>\<rparr>"

text \<open>\<open>None\<close> is \<open>false\<close>: the value is not usable or the key is not known, and nothing is set.\<close>

definition ApplyConfigValue :: "string \<Rightarrow> string \<Rightarrow> SdkConfig \<Rightarrow> SdkConfig option" where
  "ApplyConfigValue key value config =
     (case port_field key of
        Some f \<Rightarrow> map_option (\<lambda>n. f n config) (TryReadPort value)
      | None \<Rightarrow>
          if key = ''SDK_TLS_ENABLED'' then map_option (\<lambda>b. set_enabled b config) (TryReadBool value)
          else map_option (\<lambda>f. f value config) (string_field key))"

section \<open>The file\<close>

text \<open>\<open>std::getline\<close>: a last line need not end, and an empty rest is no line.\<close>

fun getlines :: "string \<Rightarrow> string list" where
  "getlines [] = []"
| "getlines (c # s) =
     (if c = CHR 0x0A then [] # getlines s
      else case getlines s of
        [] \<Rightarrow> [[c]]
      | l # ls \<Rightarrow> (c # l) # ls)"

definition config_line :: "string \<Rightarrow> SdkConfig \<Rightarrow> SdkConfig" where
  "config_line line config =
     (let trimmed = Trim_config line in
      if trimmed = [] \<or> hd trimmed = CHR ''#'' then config
      else if CHR ''='' \<notin> set trimmed then config
      else let key = Trim_config (takeWhile (\<lambda>c. c \<noteq> CHR ''='') trimmed);
               value = Trim_config (tl (dropWhile (\<lambda>c. c \<noteq> CHR ''='') trimmed))
           in if key = [] then config
              else case ApplyConfigValue key value config of None \<Rightarrow> config | Some c \<Rightarrow> c)"

text \<open>\<open>content\<close> is what opening and reading the file gives; \<^const>\<open>None\<close> when it cannot be opened.\<close>

definition FromFile :: "string \<Rightarrow> string option \<Rightarrow> SdkConfig" where
  "FromFile path content =
     (if path = [] then default_SdkConfig
      else case content of
        None \<Rightarrow> default_SdkConfig
      | Some text \<Rightarrow> fold config_line (getlines text) default_SdkConfig)"

section \<open>The environment\<close>

definition ApplyPortOverride ::
    "(string \<Rightarrow> string option) \<Rightarrow> string \<Rightarrow> (nat \<Rightarrow> SdkConfig \<Rightarrow> SdkConfig) \<Rightarrow> SdkConfig \<Rightarrow> SdkConfig" where
  "ApplyPortOverride getenv key f config =
     (case getenv key of None \<Rightarrow> config
      | Some value \<Rightarrow> (case TryReadPort value of None \<Rightarrow> config | Some n \<Rightarrow> f n config))"

definition ApplyStringOverride ::
    "(string \<Rightarrow> string option) \<Rightarrow> string \<Rightarrow> (string \<Rightarrow> SdkConfig \<Rightarrow> SdkConfig) \<Rightarrow> SdkConfig \<Rightarrow> SdkConfig" where
  "ApplyStringOverride getenv key f config =
     (case getenv key of None \<Rightarrow> config | Some value \<Rightarrow> f (c_str value) config)"

definition override_port :: "(string \<Rightarrow> string option) \<Rightarrow> string \<Rightarrow> SdkConfig \<Rightarrow> SdkConfig" where
  "override_port getenv key config =
     (case port_field key of None \<Rightarrow> config | Some f \<Rightarrow> ApplyPortOverride getenv key f config)"

definition override_string :: "(string \<Rightarrow> string option) \<Rightarrow> string \<Rightarrow> SdkConfig \<Rightarrow> SdkConfig" where
  "override_string getenv key config =
     (case string_field key of None \<Rightarrow> config | Some f \<Rightarrow> ApplyStringOverride getenv key f config)"

definition override_enabled :: "(string \<Rightarrow> string option) \<Rightarrow> SdkConfig \<Rightarrow> SdkConfig" where
  "override_enabled getenv config =
     (case getenv ''SDK_TLS_ENABLED'' of None \<Rightarrow> config
      | Some value \<Rightarrow> (case TryReadBool value of None \<Rightarrow> config | Some b \<Rightarrow> set_enabled b config))"

definition ApplySdkEnvironmentOverrides :: "(string \<Rightarrow> string option) \<Rightarrow> SdkConfig \<Rightarrow> SdkConfig" where
  "ApplySdkEnvironmentOverrides getenv config =
     fold (override_port getenv) [''SDK_ASSET_HTTPS_PORT'', ''SDK_COMMAND_WSS_PORT'', ''SDK_VIDEO_WSS_PORT'']
       (fold (override_string getenv)
          [''SDK_TLS_BIND_HOST'', ''SDK_TLS_CERT_FILE'', ''SDK_TLS_KEY_FILE'', ''SDK_TLS_KEY_PASSWORD'']
         (override_enabled getenv
           (fold (override_string getenv) [''SDK_ASSET_BASE_URL'', ''SDK_AUTH_TOKEN'']
             (fold (override_port getenv)
                [''SDK_ADMIN_HTTP_PORT'', ''SDK_DEMO_HTTP_PORT'', ''SDK_ASSET_HTTP_PORT'',
                 ''SDK_COMMAND_WS_PORT'', ''SDK_VIDEO_WS_PORT''] config))))"

section \<open>The published address\<close>

definition BuildSdkAssetBaseUrl :: "SdkConfig \<Rightarrow> string" where
  "BuildSdkAssetBaseUrl config =
     (if sc_asset_base_url config \<noteq> [] then sc_asset_base_url config
      else if tc_enabled (sc_tls config) then
        ''https://'' @ PublishedHost (if tc_bind_host (sc_tls config) = [] then sc_bind_host config
                                     else tc_bind_host (sc_tls config))
          @ '':'' @ dec (tc_asset_https_port (sc_tls config))
      else ''http://'' @ PublishedHost (sc_bind_host config) @ '':'' @ dec (sc_asset_http_port config))"

end
