(* ===== verification/Runtime_Claims.thy ===== *)
theory Runtime_Claims
  imports Runtime_Services Sdk_Config
begin

text \<open>
  What the records of the admin pages show, and which ports the service can be configured with.
\<close>

section \<open>Secrets in the records\<close>

text \<open>Two values of a sensitive key that the mask cannot tell apart: texts of one to ten bytes and values
  that are no text are one class; longer texts are told apart by their first six and last four bytes.\<close>

fun hidden :: "json \<Rightarrow> bool" where
  "hidden (JString s) \<longleftrightarrow> s \<noteq> [] \<and> length s \<le> 10"
| "hidden _ \<longleftrightarrow> True"

definition indistinct :: "json \<Rightarrow> json \<Rightarrow> bool" where
  "indistinct v w \<longleftrightarrow> v = w \<or> hidden v \<and> hidden w \<or>
     (\<exists>s t. v = JString s \<and> w = JString t \<and> 10 < length s \<and> 10 < length t \<and>
            take 6 s = take 6 t \<and> drop (length s - 4) s = drop (length t - 4) t)"

text \<open>Two messages that differ in such values only, at any depth.\<close>

inductive same_public :: "json \<Rightarrow> json \<Rightarrow> bool" where
  sp_same: "same_public j j"
| sp_object: "list_all2 (\<lambda>p q. fst p = fst q \<and>
      (IsSensitiveKey (fst p) \<and> indistinct (snd p) (snd q) \<or>
       \<not> IsSensitiveKey (fst p) \<and> same_public (snd p) (snd q))) m m'
    \<Longrightarrow> same_public (JObject m) (JObject m')"
| sp_array: "list_all2 same_public js js' \<Longrightarrow> same_public (JArray js) (JArray js')"
monos list_all2_mono

inductive_cases sp_stringE: "same_public (JString s) j"
inductive_cases sp_stringE2: "same_public j (JString s)"
inductive_cases sp_intE: "same_public (JInt i) j"
inductive_cases sp_intE2: "same_public j (JInt i)"
inductive_cases sp_objectE: "same_public (JObject m) j"

lemma mask_hidden: "hidden v \<Longrightarrow> mask_json v = JString ''***''"
  by (cases v) (auto simp: MaskValue_def)

lemma mask_indistinct: "indistinct v w \<Longrightarrow> mask_json v = mask_json w"
  by (auto simp: indistinct_def mask_hidden MaskValue_def)

lemma RedactJson_same: "same_public j j' \<Longrightarrow> RedactJson j = RedactJson j'"
proof (induction rule: same_public.induct)
  case (sp_same j)
  show ?case by (rule refl)
next
  case (sp_object m m')
  then have "map (\<lambda>p. (fst p, if IsSensitiveKey (fst p) then mask_json (snd p) else RedactJson (snd p))) m =
             map (\<lambda>p. (fst p, if IsSensitiveKey (fst p) then mask_json (snd p) else RedactJson (snd p))) m'"
    by (induction rule: list_all2_induct) (auto dest: mask_indistinct)
  then show ?case by simp
next
  case (sp_array js js')
  then have "map RedactJson js = map RedactJson js'"
    by (induction rule: list_all2_induct) auto
  then show ?case by simp
qed

lemma same_public_member:
  assumes "list_all2 (\<lambda>p q. fst p = fst q \<and>
      (IsSensitiveKey (fst p) \<and> indistinct (snd p) (snd q) \<or>
       \<not> IsSensitiveKey (fst p) \<and> same_public (snd p) (snd q))) m m'"
    and "\<not> IsSensitiveKey k"
  shows "rel_option same_public (map_of m k) (map_of m' k)"
  using assms(1)
proof (induction rule: list_all2_induct)
  case Nil
  show ?case by simp
next
  case (Cons p m q m')
  then show ?case using assms(2) by (cases p; cases q) auto
qed

lemma same_public_find:
  "same_public j j' \<Longrightarrow> \<not> IsSensitiveKey k \<Longrightarrow> rel_option same_public (jfind j k) (jfind j' k)"
  by (erule same_public.cases) (auto simp: option.rel_refl sp_same same_public_member)

lemma same_public_StringField:
  assumes "same_public j j'" and "\<not> IsSensitiveKey k"
  shows "StringField j k = StringField j' k"
  using same_public_find [OF assms]
  by (auto simp: StringField_def rel_option_iff split: option.splits json.splits
      elim: sp_stringE sp_stringE2)

lemma same_public_IntField:
  assumes "same_public j j'" and "\<not> IsSensitiveKey k"
  shows "IntField j k d = IntField j' k d"
  using same_public_find [OF assms]
  by (auto simp: IntField_def rel_option_iff split: option.splits json.splits
      elim: sp_intE sp_intE2)

lemma public_keys:
  "\<not> IsSensitiveKey ''method''" "\<not> IsSensitiveKey ''request_id''" "\<not> IsSensitiveKey ''id''"
  "\<not> IsSensitiveKey ''code''" "\<not> IsSensitiveKey ''message''" "\<not> IsSensitiveKey ''request''"
  "\<not> IsSensitiveKey ''response''"
  by code_simp+

lemma record_payload:
  "obj [(''request'', r), (''response'', s)] = JObject [(''request'', r), (''response'', s)]"
  by (simp add: obj_def)

lemma PreviewJson_same: "same_public j j' \<Longrightarrow> PreviewJson dump j = PreviewJson dump j'"
  by (simp add: PreviewJson_def RedactJson_same)


definition login :: "string \<Rightarrow> json" where
  "login token = JObject [(''method'', JString ''auth.create_session''),
     (''params'', JObject [(''token'', JString token)])]"

lemma login_public: "10 < length s \<Longrightarrow> 10 < length t \<Longrightarrow> take 6 s = take 6 t \<Longrightarrow>
    drop (length s - 4) s = drop (length t - 4) t \<Longrightarrow> same_public (login s) (login t)"
  unfolding login_def
  by (rule sp_object) (auto simp: IsSensitiveKey_def to_lower_def lower_char_def indistinct_def
      intro!: sp_same sp_object)


section \<open>The ring\<close>

lemma PushLocked_entries:
  "rr_entries (PushLocked e s) =
     drop (Suc (length (rr_entries s)) - rr_capacity s) (rr_entries s @ [e\<lparr>re_id := rr_next_id s\<rparr>])"
  by (simp add: PushLocked_def)

lemma PushLocked_frame [simp]:
  "rr_capacity (PushLocked e s) = rr_capacity s" "rr_next_id (PushLocked e s) = Suc (rr_next_id s)"
  by (simp_all add: PushLocked_def)

text \<open>All entries ever pushed, numbered from 1.\<close>

definition numbered :: "record_entry list \<Rightarrow> record_entry list" where
  "numbered es = map (\<lambda>(i, e). e\<lparr>re_id := i\<rparr>) (zip [1..<Suc (length es)] es)"

lemma numbered_snoc: "numbered (es @ [e]) = numbered es @ [e\<lparr>re_id := Suc (length es)\<rparr>]"
proof -
  have "[1..<Suc (length (es @ [e]))] = [1..<Suc (length es)] @ [Suc (length es)]" by simp
  then show ?thesis by (simp add: numbered_def zip_append del: upt_Suc)
qed

lemma length_numbered [simp]: "length (numbered es) = length es"
  by (simp add: numbered_def del: upt_Suc)

lemma ring_state:
  "rr_entries (fold PushLocked es (new_RuntimeRecordService c)) =
     drop (length es - rr_capacity (new_RuntimeRecordService c)) (numbered es) \<and>
   rr_next_id (fold PushLocked es (new_RuntimeRecordService c)) = Suc (length es) \<and>
   rr_capacity (fold PushLocked es (new_RuntimeRecordService c)) = rr_capacity (new_RuntimeRecordService c)"
proof (induction es rule: rev_induct)
  case Nil
  show ?case by (simp add: new_RuntimeRecordService_def numbered_def)
next
  case (snoc e es)
  let ?s = "fold PushLocked es (new_RuntimeRecordService c)" and ?cap = "rr_capacity (new_RuntimeRecordService c)"
  have cap: "0 < ?cap" by (simp add: new_RuntimeRecordService_def)
  have "rr_entries (PushLocked e ?s) = drop (Suc (length es) - ?cap) (numbered (es @ [e]))"
    using snoc cap by (cases "length es < ?cap") (auto simp: PushLocked_entries numbered_snoc Suc_diff_le)
  with snoc show ?case by simp
qed

text \<open>Whatever is recorded, the ring holds the last entries, as many as its capacity, under
  consecutive ids that never repeat; and a query answers the newest matching ones first, at most 500
  (100 when no limit is given), without missing a newer one for an older one.\<close>

theorem record_ring_holds_latest:
  fixes es :: "record_entry list" and c :: nat
  defines "s \<equiv> fold PushLocked es (new_RuntimeRecordService c)"
  defines "kept \<equiv> drop (length es - (if c = 0 then 256 else c)) (numbered es)"
  shows "rr_entries s = kept \<and>
    map re_id kept = [length es - length kept + 1 ..< length es + 1] \<and>
    selected_records t limit s =
      take (min 500 (if limit = 0 then 100 else limit)) (filter (\<lambda>e. t = [] \<or> re_type e = t) (rev kept))"
proof (intro conjI)
  show kept: "rr_entries s = kept"
    using ring_state [of es c] by (simp add: s_def kept_def new_RuntimeRecordService_def)
  have "map re_id (numbered es) = [1..<Suc (length es)]"
    by (rule nth_equalityI) (simp_all add: numbered_def del: upt_Suc)
  then show "map re_id kept = [length es - length kept + 1 ..< length es + 1]"
    by (simp add: kept_def drop_map [symmetric] drop_upt del: upt_Suc)
  have "record_limit limit = min 500 (if limit = 0 then 100 else limit)"
    by (simp add: record_limit_def Let_def)
  then show "selected_records t limit s =
      take (min 500 (if limit = 0 then 100 else limit)) (filter (\<lambda>e. t = [] \<or> re_type e = t) (rev kept))"
    by (simp only: selected_records_def kept)
qed
section \<open>Previews cut in the middle of a character\<close>

text \<open>Well-formed UTF-8 (RFC 3629), which the JSON library requires of a text it prints: \<open>dump\<close> throws
  on any other.  A character is a lead byte and as many continuation bytes as it announces; some lead
  bytes restrict the byte after them.\<close>

definition cont :: "char \<Rightarrow> bool" where
  "cont c \<longleftrightarrow> (let n = (of_char c :: nat) in 128 \<le> n \<and> n < 192)"

definition tail_length :: "char \<Rightarrow> nat option" where
  "tail_length a =
     (let n = (of_char a :: nat) in
      if n < 128 then Some 0 else if 194 \<le> n \<and> n \<le> 223 then Some 1
      else if 224 \<le> n \<and> n \<le> 239 then Some 2 else if 240 \<le> n \<and> n \<le> 244 then Some 3 else None)"

definition second_ok :: "char \<Rightarrow> string \<Rightarrow> bool" where
  "second_ok a s \<longleftrightarrow>
     (let n = (of_char a :: nat); b = (of_char (hd s) :: nat) in
      (n = 224 \<longrightarrow> 160 \<le> b) \<and> (n = 237 \<longrightarrow> b < 160) \<and> (n = 240 \<longrightarrow> 144 \<le> b) \<and> (n = 244 \<longrightarrow> b < 144))"

function utf8 :: "string \<Rightarrow> bool" where
  "utf8 [] = True"
| "utf8 (a # s) =
     (case tail_length a of None \<Rightarrow> False
      | Some k \<Rightarrow> k \<le> length s \<and> (\<forall>c \<in> set (take k s). cont c) \<and> second_ok a s \<and> utf8 (drop k s))"
  by pat_completeness auto
termination
  by (relation "measure length") simp_all

lemma utf8_prefix: "utf8 (xs @ a # ys) \<Longrightarrow> (of_char a :: nat) < 128 \<Longrightarrow> utf8 xs"
proof (induction xs rule: length_induct)
  case (1 xs)
  show ?case
  proof (cases xs)
    case (Cons b s)
    obtain k where k: "tail_length b = Some k" "\<forall>c \<in> set (take k (s @ a # ys)). cont c"
        "second_ok b (s @ a # ys)" "utf8 (drop k (s @ a # ys))"
      using 1(2) Cons by (auto split: option.splits)
    have "\<not> cont a" using 1(3) by (simp add: cont_def Let_def)
    then have le: "k \<le> length s"
      using k(2) by (intro leI notI) (auto simp: take_Cons')
    then have "utf8 (drop k s)"
      using 1 k(4) Cons by (simp add: le_imp_less_Suc)
    moreover have "second_ok b s"
    proof (cases s)
      case Nil
      with k(1) le show ?thesis by (auto simp: second_ok_def tail_length_def Let_def split: if_splits)
    next
      case (Cons c s')
      with k(3) show ?thesis by (simp add: second_ok_def)
    qed
    ultimately show ?thesis using Cons k(1,2) le by simp
  qed simp
qed

lemma utf8_suffix: "utf8 xs \<Longrightarrow> utf8 (xs @ ys) \<Longrightarrow> utf8 ys"
proof (induction xs rule: length_induct)
  case (1 xs)
  show ?case
  proof (cases xs)
    case Nil
    with 1 show ?thesis by simp
  next
    case (Cons b s)
    then obtain k where "tail_length b = Some k" "k \<le> length s" "utf8 (drop k s)"
      using 1(2) by (auto split: option.splits)
    moreover have "utf8 (drop k s @ ys)" using calculation 1(3) Cons by simp
    moreover have "length (drop k s) < length xs" using Cons by (simp add: le_imp_less_Suc)
    ultimately show ?thesis using 1(1) by blast
  qed
qed

lemma utf8_cont: "cont c \<Longrightarrow> \<not> utf8 (c # s)"
  by (auto simp: cont_def tail_length_def Let_def)

text \<open>A preview can be no UTF-8, and then the JSON library throws when the admin page's records are
  printed, for as long as the record stays in the ring: whenever the printed message is longer than 1600
  bytes and byte 1600 continues a character (in Chinese text, two positions of three), the cut splits
  that character, although the message itself is well-formed.\<close>

theorem preview_splits_a_character:
  assumes "utf8 (dump (RedactJson payload))" and "1600 < length (dump (RedactJson payload))"
    and "cont (dump (RedactJson payload) ! 1600)"
  shows "\<not> utf8 (re_payload_preview (last (rr_entries
           (RecordRuntimeEvent dump now source c name message code payload (new_RuntimeRecordService 0)))))"
proof
  let ?text = "dump (RedactJson payload)"
  assume "utf8 (re_payload_preview (last (rr_entries
           (RecordRuntimeEvent dump now source c name message code payload (new_RuntimeRecordService 0)))))"
  then have "utf8 (take 1600 ?text @ CHR ''.'' # ''..'')"
    using assms(2) by (simp add: RecordRuntimeEvent_def PushLocked_def new_RuntimeRecordService_def
        PreviewJson_def kPreviewLimit_def)
  then have "utf8 (take 1600 ?text)" by (rule utf8_prefix) simp
  moreover have "utf8 (take 1600 ?text @ drop 1600 ?text)" using assms(1) by simp
  ultimately have "utf8 (drop 1600 ?text)" by (rule utf8_suffix)
  moreover have "drop 1600 ?text = ?text ! 1600 # drop 1601 ?text"
    using assms(2) by (metis Cons_nth_drop_Suc numeral_plus_one semiring_norm(5) Suc_eq_plus1 one_plus_numeral add.commute eval_nat_numeral(3))
  ultimately show False using utf8_cont [OF assms(3)] by simp
qed

text \<open>600 times the character U+6D4B after one letter, quoted.\<close>

definition long_text :: string where
  "long_text = CHR 0x22 # CHR ''a'' # concat (replicate 600 [CHR 0xE6, CHR 0xB5, CHR 0x8B]) @ [CHR 0x22]"

lemma utf8_repeat: "utf8 s \<Longrightarrow> utf8 (concat (replicate n [CHR 0xE6, CHR 0xB5, CHR 0x8B]) @ s)"
  by (induction n) (simp_all add: tail_length_def second_ok_def cont_def Let_def)

lemma nth_repeat: "i < 3 * n \<Longrightarrow> concat (replicate n [a, b, c]) ! i = [a, b, c] ! (i mod 3)"
proof (induction n arbitrary: i)
  case (Suc n)
  have split: "concat (replicate (Suc n) [a, b, c]) = [a, b, c] @ concat (replicate n [a, b, c])" by simp
  show ?case
  proof (cases "i < 3")
    case True
    then show ?thesis unfolding split nth_append by simp
  next
    case False
    then have "(i - 3) mod 3 = i mod 3" "i - 3 < 3 * n" using Suc.prems by (simp_all add: le_mod_geq)
    then have "concat (replicate n [a, b, c]) ! (i - 3) = [a, b, c] ! (i mod 3)" using Suc.IH by metis
    moreover have "length [a, b, c] = 3" by simp
    ultimately show ?thesis using False unfolding split nth_append by metis
  qed
qed simp

lemma length_repeat [simp]: "length (concat (replicate n [a, b, c])) = 3 * n"
  by (induction n) simp_all

lemma preview_splits_a_character_witness:
  "\<not> utf8 (re_payload_preview (last (rr_entries
     (RecordRuntimeEvent (\<lambda>_. long_text) 0 [] [] [] [] 0 JNull (new_RuntimeRecordService 0)))))"
proof (rule preview_splits_a_character)
  have quote: "utf8 [CHR 0x22]" by (simp add: tail_length_def second_ok_def)
  show "utf8 long_text"
    unfolding long_text_def using utf8_repeat [OF quote, of 600]
    by (simp add: tail_length_def second_ok_def)
  show "1600 < length long_text" by (simp add: long_text_def)
  have "long_text ! 1600 = (concat (replicate 600 [CHR 0xE6, CHR 0xB5, CHR 0x8B]) @ [CHR 0x22]) ! 1598"
    by (simp add: long_text_def)
  also have "\<dots> = [CHR 0xE6, CHR 0xB5, CHR 0x8B] ! (1598 mod 3)"
    by (subst nth_append) (simp add: nth_repeat)
  finally show "cont (long_text ! 1600)" by (simp add: cont_def)
qed

section \<open>Ports\<close>

definition port_ok :: "nat \<Rightarrow> bool" where
  "port_ok n \<longleftrightarrow> 1 \<le> n \<and> n \<le> 65535"

definition ports_ok :: "SdkConfig \<Rightarrow> bool" where
  "ports_ok c \<longleftrightarrow> port_ok (sc_admin_http_port c) \<and> port_ok (sc_demo_http_port c) \<and>
     port_ok (sc_asset_http_port c) \<and> port_ok (sc_command_ws_port c) \<and> port_ok (sc_video_ws_port c) \<and>
     port_ok (tc_asset_https_port (sc_tls c)) \<and> port_ok (tc_command_wss_port (sc_tls c)) \<and>
     port_ok (tc_video_wss_port (sc_tls c))"

lemma TryReadPort_ok: "TryReadPort value = Some n \<Longrightarrow> port_ok n"
  by (auto simp: TryReadPort_def port_ok_def Let_def split: list.splits if_splits)

lemma port_field_ok: "port_field key = Some f \<Longrightarrow> port_ok n \<Longrightarrow> ports_ok c \<Longrightarrow> ports_ok (f n c)"
  by (auto simp: port_field_def ports_ok_def split: if_splits)

lemma string_field_ok: "string_field key = Some f \<Longrightarrow> ports_ok c \<Longrightarrow> ports_ok (f v c)"
  by (auto simp: string_field_def ports_ok_def split: if_splits)

lemma set_enabled_ok: "ports_ok c \<Longrightarrow> ports_ok (set_enabled b c)"
  by (simp add: set_enabled_def ports_ok_def)

lemma ApplyConfigValue_ok: "ApplyConfigValue key value c = Some c' \<Longrightarrow> ports_ok c \<Longrightarrow> ports_ok c'"
  by (auto simp: ApplyConfigValue_def TryReadPort_ok port_field_ok string_field_ok set_enabled_ok
      split: option.splits if_splits)

lemma config_line_ok: "ports_ok c \<Longrightarrow> ports_ok (config_line line c)"
  by (auto simp: config_line_def Let_def split: option.split intro: ApplyConfigValue_ok)

lemma fold_ok: "(\<And>x c. P c \<Longrightarrow> P (f x c)) \<Longrightarrow> P c \<Longrightarrow> P (fold f xs c)"
  by (induction xs arbitrary: c) simp_all

lemma default_ok: "ports_ok default_SdkConfig"
  by (simp add: ports_ok_def port_ok_def default_SdkConfig_def default_SdkTlsConfig_def)

lemma FromFile_ok: "ports_ok (FromFile path content)"
  using fold_ok [where P = ports_ok and f = config_line, OF config_line_ok default_ok] by (simp add: FromFile_def default_ok split: option.split)

lemma override_port_ok: "ports_ok c \<Longrightarrow> ports_ok (override_port getenv key c)"
  by (auto simp: override_port_def ApplyPortOverride_def TryReadPort_ok port_field_ok split: option.split)

lemma override_string_ok: "ports_ok c \<Longrightarrow> ports_ok (override_string getenv key c)"
  by (auto simp: override_string_def ApplyStringOverride_def string_field_ok split: option.split)

lemma override_enabled_ok: "ports_ok c \<Longrightarrow> ports_ok (override_enabled getenv c)"
  by (auto simp: override_enabled_def set_enabled_ok split: option.split)

lemma undec_digits: "\<forall>c \<in> set (dec n). is_digit c"
  using is_digit_dec [of n] by (auto simp: is_digit_def Let_def)

lemma dec_no_sign: "\<exists>c cs. dec n = c # cs \<and> \<not> is_space c \<and> c \<noteq> CHR ''+''"
  using undec_digits [of n] by (cases "dec n") (auto simp: is_digit_def is_space_def Let_def)

text \<open>Whatever the configuration file contains and the environment holds, every port the service is
  configured with is a valid one, and a port printed in decimal is read back: a text that is no number
  from 1 to 65535 leaves the value that was there.\<close>

theorem configured_ports_valid:
  "ports_ok (ApplySdkEnvironmentOverrides getenv (FromFile path content)) \<and>
   TryReadPort (dec n) = (if 1 \<le> n \<and> n \<le> 65535 then Some n else None)"
proof
  note port = fold_ok [where P = ports_ok and f = "override_port getenv", OF override_port_ok]
    and strings = fold_ok [where P = ports_ok and f = "override_string getenv", OF override_string_ok]
  show "ports_ok (ApplySdkEnvironmentOverrides getenv (FromFile path content))"
    unfolding ApplySdkEnvironmentOverrides_def
    by (rule port, assumption, rule strings, assumption, rule override_enabled_ok, rule strings, assumption,
        rule port, assumption, rule FromFile_ok)
  have "c_str (dec n) = dec n"
    using undec_digits [of n] by (auto simp: c_str_def is_digit_def takeWhile_eq_all_conv)
  moreover obtain c cs where c: "dec n = c # cs" "\<not> is_space c" "c \<noteq> CHR ''+''"
    using dec_no_sign by blast
  moreover have "undec (c # cs) = n" "\<forall>d \<in> set (c # cs). is_digit d"
    using undec_dec [of n] undec_digits [of n] unfolding c(1) by simp_all
  ultimately show "TryReadPort (dec n) = (if 1 \<le> n \<and> n \<le> 65535 then Some n else None)"
    by (simp add: TryReadPort_def Let_def)
qed

end
