(* ===== verification/Command_Json.thy ===== *)
theory Command_Json
  imports Capture_Task Ocr_Facades Command_Params Auth_Service
begin

text \<open>
  The answers of the command service as JSON (\<open>application/command_application_service.cpp\<close>): sessions,
  devices, captures, tasks and assets.  A container of the code becomes a JSON array in its order; a
  size is a non-negative integer.
\<close>

section \<open>Names and secrets\<close>

definition jnat :: "nat \<Rightarrow> json" where
  "jnat n = JInt (int n)"

definition ProviderNameOrEmpty :: "json \<Rightarrow> string \<Rightarrow> string" where
  "ProviderNameOrEmpty provider_names key =
     (case jfind provider_names key of Some (JString s) \<Rightarrow> s | _ \<Rightarrow> [])"

definition MaskSecret :: "string \<Rightarrow> string" where
  "MaskSecret value =
     (if value = [] then []
      else if length value \<le> 12 then take 3 value @ ''***''
      else take 6 value @ ''...'' @ drop (length value - 4) value)"

fun has_substring :: "string \<Rightarrow> string \<Rightarrow> bool" where
  "has_substring p [] = (p = [])"
| "has_substring p (c # s) = (starts_with p (c # s) \<or> has_substring p s)"

definition ApiKeyTypeFromToken :: "string \<Rightarrow> string" where
  "ApiKeyTypeFromToken token =
     (if starts_with ''sk-sq-v1-'' token then ''online_api_key''
      else if starts_with ''sk-offline-'' token \<or> has_substring ''offline'' token then ''offline_api_key''
      else if token = [] then ''none'' else ''token'')"

section \<open>Captures and tasks\<close>

definition BuildAssetJson :: "SdkCaptureAsset \<Rightarrow> json" where
  "BuildAssetJson asset = obj
     [(''asset_id'', JString (as_asset_id asset)), (''kind'', JString (as_kind asset)),
      (''path'', JString (as_path asset)), (''url'', JString (as_url asset)),
      (''download_url'', JString (as_download_url asset)),
      (''content_type'', JString (as_content_type asset)), (''width'', JInt (as_width asset)),
      (''height'', JInt (as_height asset)), (''size'', jnat (as_size asset))]"

definition BuildCaptureResultJson :: "SdkCaptureResult \<Rightarrow> json" where
  "BuildCaptureResultJson result = obj
     [(''captured'', JBool (cs_captured result)), (''code'', JInt (cs_code result)),
      (''message'', JString (cs_message result)), (''content_type'', JString (cs_content_type result)),
      (''path'', JString (cs_output_path result)), (''output_path'', JString (cs_output_path result)),
      (''original_path'', JString (cs_original_path result)),
      (''laser_path'', JString (cs_laser_path result)), (''width'', JInt (cs_width result)),
      (''height'', JInt (cs_height result)), (''dpi'', JInt (cs_dpi result)),
      (''size'', jnat (cs_size result)), (''scan_device_type'', JInt (cs_scan_device_type result))]"

text \<open>The event of a hard grab does not show the provider's temporary files.\<close>

definition BuildHardGrabEventCaptureJson :: "SdkCaptureResult \<Rightarrow> json" where
  "BuildHardGrabEventCaptureJson result =
     set_member ''laser_path'' (JString []) (set_member ''original_path'' (JString [])
       (set_member ''output_path'' (JString []) (set_member ''path'' (JString []) (BuildCaptureResultJson result))))"

definition BuildStageJson :: "SdkCaptureStageResult \<Rightarrow> json" where
  "BuildStageJson stage = obj
     [(''name'', JString (sg_name stage)), (''status'', JString (sg_status stage)),
      (''input'', strings_json (sg_input_assets stage)),
      (''output'', strings_json (sg_output_assets stage)), (''provider'', JString (sg_provider stage)),
      (''message'', JString (sg_message stage))]"

definition BuildImageProcessOutputJson :: "SdkImageProcessOutput \<Rightarrow> json" where
  "BuildImageProcessOutputJson output = obj
     [(''asset_id'', JString (ipo_asset_id output)), (''output_id'', JString (ipo_output_id output)),
      (''role'', JString (ipo_role output)), (''index'', JInt (ipo_index output)),
      (''path'', JString (ipo_path output)), (''url'', JString (ipo_url output)),
      (''download_url'', JString (ipo_download_url output)),
      (''content_type'', JString (ipo_content_type output)), (''width'', JInt (ipo_width output)),
      (''height'', JInt (ipo_height output)), (''size'', jnat (ipo_size output))]"

definition BuildCaptureTaskJson :: "CaptureTaskSnapshot \<Rightarrow> json" where
  "BuildCaptureTaskJson task = obj
     [(''task_id'', JString (ts_task_id task)), (''status'', JString (ts_status task)),
      (''code'', JInt (ts_code task)), (''message'', JString (ts_message task)),
      (''device_id'', JString (ts_device_id task)),
      (''capture_source'', JString (ts_capture_source task)),
      (''acquisition_status'', JString (ts_acquisition_status task)),
      (''processing_status'', JString (ts_processing_status task)),
      (''profile_revision'', JInt (ts_profile_revision task)),
      (''stages'', JArray (map BuildStageJson (ts_stages task))),
      (''assets'', JArray (map BuildAssetJson (ts_assets task))),
      (''warnings'', strings_json (ts_warnings task)), (''error'', JString (ts_error task))]"

definition device_summary_json :: "CaptureSessionDeviceSummary \<Rightarrow> json" where
  "device_summary_json d = obj
     [(''device_id'', JString (sd_device_id d)), (''captured_count'', jnat (sd_captured_count d)),
      (''processed_count'', jnat (sd_processed_count d)), (''failed_count'', jnat (sd_failed_count d)),
      (''pending_count'', jnat (sd_pending_count d))]"

definition BuildCaptureSessionSummaryJson :: "CaptureSessionSummary \<Rightarrow> json" where
  "BuildCaptureSessionSummaryJson summary = obj
     [(''captured_count'', jnat (ss_captured_count summary)),
      (''processed_count'', jnat (ss_processed_count summary)),
      (''failed_count'', jnat (ss_failed_count summary)),
      (''pending_count'', jnat (ss_pending_count summary)),
      (''devices'', JArray (map device_summary_json (ss_devices summary)))]"

section \<open>Recognition\<close>

definition BuildOcrTaskJson :: "SdkOcrTaskSnapshot \<Rightarrow> json" where
  "BuildOcrTaskJson task = obj
     [(''task_id'', JString (ocrTaskSnapshot_task_id task)),
      (''status'', JString (ocrTaskSnapshot_status task)),
      (''progress'', JInt (ocrTaskSnapshot_progress task)),
      (''output_path'', JString (ocrTaskSnapshot_output_path task)),
      (''output_paths'', strings_json (ocrTaskSnapshot_output_paths task)),
      (''assets'', JArray (map BuildAssetJson (ocrTaskSnapshot_assets task))),
      (''format'', JString (ocrTaskSnapshot_format task)),
      (''exportType'', JString (ocrTaskSnapshot_export_type task)),
      (''message'', JString (ocrTaskSnapshot_message task)),
      (''error'', JString (ocrTaskSnapshot_error task))]"

definition BuildOcrTextBlockJson :: "SdkOcrTextBlock \<Rightarrow> json" where
  "BuildOcrTextBlockJson block = obj
     [(''text'', JString (ocrTextBlock_text block)), (''x'', JFloat (ocrTextBlock_x block)),
      (''y'', JFloat (ocrTextBlock_y block)), (''width'', JFloat (ocrTextBlock_width block)),
      (''height'', JFloat (ocrTextBlock_height block)),
      (''confidence'', JFloat (ocrTextBlock_confidence block)),
      (''font_size'', JFloat (ocrTextBlock_font_size block))]"

definition point_json :: "SdkPoint2f \<Rightarrow> json" where
  "point_json p = obj [(''x'', JFloat (pt_x p)), (''y'', JFloat (pt_y p))]"

definition BuildBarcodeJson :: "SdkBarcodeResult \<Rightarrow> json" where
  "BuildBarcodeJson barcode = obj
     [(''format'', JInt (bcResult_format barcode)),
      (''format_name'', JString (bcResult_format_name barcode)),
      (''text'', JString (bcResult_text barcode)),
      (''points'', JArray (map point_json (bcResult_points barcode)))]"

text \<open>A value kept as text: the text itself when it is not JSON.\<close>

definition JsonFromEncodedValue :: "(string \<Rightarrow> json option) \<Rightarrow> string \<Rightarrow> json" where
  "JsonFromEncodedValue parse value_json =
     (if value_json = [] then JNull
      else case parse value_json of Some j \<Rightarrow> j | None \<Rightarrow> JString value_json)"

section \<open>Devices\<close>

definition BuildOutputTargetSizeJson :: "SdkOutputTargetSizeOption \<Rightarrow> json" where
  "BuildOutputTargetSizeJson t =
     (let value = obj [(''target_size'', JInt (tso_target_size t)), (''width'', JInt (tso_width t)),
                       (''height'', JInt (tso_height t))]
      in if tso_is_device_default t then set_member ''is_device_default'' (JBool True) value else value)"

definition BuildCaptureOutputCapabilitiesJson :: "SdkCaptureOutputCapabilities \<Rightarrow> json" where
  "BuildCaptureOutputCapabilitiesJson c = obj
     [(''target_size_supported'', JBool (coc_target_size_supported c)),
      (''target_sizes'', JArray (map BuildOutputTargetSizeJson (coc_target_sizes c)))]"

fun FormatOutputTargetSizeList :: "SdkOutputTargetSizeOption list \<Rightarrow> string" where
  "FormatOutputTargetSizeList [] = []"
| "FormatOutputTargetSizeList [t] = to_string (tso_target_size t)"
| "FormatOutputTargetSizeList (t # ts) = to_string (tso_target_size t) @ '','' @ FormatOutputTargetSizeList ts"

definition resolution_json :: "SdkVideoResolution \<Rightarrow> json" where
  "resolution_json r = obj
     [(''width'', JInt (vres_width r)), (''height'', JInt (vres_height r)),
      (''real_width'', JInt (vres_real_width r)), (''real_height'', JInt (vres_real_height r)),
      (''fps'', JInt (vres_fps r)), (''pixel_format'', JString (vres_pixel_format r)),
      (''is_default'', JBool (vres_is_default r))]"

definition BuildDeviceJson :: "SdkDeviceDescriptor \<Rightarrow> bool \<Rightarrow> json" where
  "BuildDeviceJson d include_capture_output =
     (let value = obj
        [(''device_id'', JString (dev_device_id d)), (''model'', JString (dev_model d)),
         (''display_name'', JString (dev_display_name d)), (''vid'', JInt (dev_vid d)),
         (''pid'', JInt (dev_pid d)), (''status'', JString (dev_status d)),
         (''authorized'', JBool (dev_authorized d)), (''supports_video'', JBool (dev_supports_video d)),
         (''features'', obj [(''image_transfer_protocol'', JBool (dev_image_transfer_protocol d))]),
         (''resolutions'', JArray (map resolution_json (dev_resolutions d)))]
      in if include_capture_output
         then set_member ''capture_output'' (BuildCaptureOutputCapabilitiesJson (dev_capture_output d)) value
         else value)"

section \<open>Sessions\<close>

definition BuildAuthContextJson :: "AuthContext \<Rightarrow> json" where
  "BuildAuthContextJson ac = obj
     [(''is_valid'', JBool (ac_is_valid ac)),
      (''account_type'', JString (ToAccountTypeString (ac_account_type ac))),
      (''account_type_code'', JInt (ac_account_type_code ac)),
      (''licensed_account_type'', JString (ToAccountTypeString (ac_licensed_account_type ac))),
      (''licensed_account_type_code'', JInt (ac_licensed_account_type_code ac)),
      (''auth_scene'', JString (ac_auth_scene ac)), (''license_mode'', JString (ac_license_mode ac)),
      (''host_auth_mode'', JString (ac_host_auth_mode ac)),
      (''entitlement_state'', JString (ac_entitlement_state ac)),
      (''commercial_authorized'', JBool (ac_commercial_authorized ac)),
      (''machine_code'', JString (ac_machine_code ac)),
      (''device_scope'', JArray (map grant_json (ac_device_scope ac))),
      (''expires_at'', JInt (ac_expires_at ac)),
      (''capability_count'', jnat (length (ac_capabilities ac))),
      (''quota_bucket_count'', jnat (length (ac_quota_buckets ac)))]"

definition BuildSessionJson :: "SessionResult \<Rightarrow> json" where
  "BuildSessionJson s = obj
     [(''session_token'', JString (sn_session_token s)), (''expires_in'', JInt (sn_expires_in s)),
      (''auth_context'', BuildAuthContextJson (sn_auth_context s))]"

definition quota_json :: "AuthQuotaBucket \<Rightarrow> json" where
  "quota_json b = obj
     [(''bucket'', JString (qb_bucket b)), (''limit'', JInt (qb_limit b)),
      (''remaining'', JInt (qb_remaining b)), (''enforcement'', JString (qb_enforcement b))]"

definition BuildAdminSessionJson :: "SessionResult \<Rightarrow> json" where
  "BuildAdminSessionJson s =
     (let c = sn_auth_context s;
          offline_mode = ac_license_mode c = ''offline_api_key'' \<or> ac_host_auth_mode c = ''offline'';
          activated = ac_entitlement_state c \<in> {''offline_unlocked'', ''active'', ''valid''}
      in obj
        [(''connectionId'', JString (sn_connection_id s)),
         (''apiKeyType'', JString (if ac_license_mode c = [] then ApiKeyTypeFromToken (sn_token s)
                                   else ac_license_mode c)),
         (''maskedToken'', JString (MaskSecret (sn_token s))),
         (''maskedSessionToken'', JString (MaskSecret (sn_session_token s))),
         (''licenseMode'', JString (ac_license_mode c)), (''hostAuthMode'', JString (ac_host_auth_mode c)),
         (''accountType'', JString (ToAccountTypeString (ac_account_type c))),
         (''accountTypeCode'', JInt (ac_account_type_code c)),
         (''licensedAccountType'', JString (ToAccountTypeString (ac_licensed_account_type c))),
         (''licensedAccountTypeCode'', JInt (ac_licensed_account_type_code c)),
         (''entitlementState'', JString (ac_entitlement_state c)),
         (''commercialAuthorized'', JBool (ac_commercial_authorized c)),
         (''machineCode'', JString (ac_machine_code c)),
         (''offlineActivationRequired'', JBool (offline_mode \<and> \<not> activated)),
         (''activationPayload'', JString (if offline_mode \<and> \<not> activated then ac_machine_code c else [])),
         (''createdAt'', JInt (sn_created_at s)), (''lastSeenAt'', JInt (sn_last_seen_at s)),
         (''expiresAt'', JInt (ac_expires_at c)), (''expiresIn'', JInt (sn_expires_in s)),
         (''capabilities'', strings_json (ac_capabilities c)),
         (''capabilityCount'', jnat (length (ac_capabilities c))),
         (''deviceScopeCount'', jnat (length (ac_device_scope c))),
         (''quotaBuckets'', JArray (map quota_json (ac_quota_buckets c)))])"

end
