(* ===== verification/Scan_Json.thy ===== *)
theory Scan_Json
  imports Command_Json Scan_Types
begin

text \<open>
  The scanners' messages (\<open>application/command_application_service.cpp\<close>): the SANE and TWAIN results as
  JSON, and the options, capabilities and profiles of a request.  A value of an option is kept as text
  and printed by the JSON library, which is the parameter \<open>dump\<close>, as its parser is \<open>parse\<close>.
\<close>

section \<open>SANE\<close>

definition BuildSaneStatusJson :: "SdkSaneStatusResult \<Rightarrow> string \<Rightarrow> json" where
  "BuildSaneStatusJson result provider = obj
     [(''available'', JBool (saneStatusResult_available result)),
      (''platform'', JString (saneStatusResult_platform result)),
      (''supported_platforms'', strings_json (saneStatusResult_supported_platforms result)),
      (''sane_version'', JString (saneStatusResult_sane_version result)),
      (''sane_major'', JInt (saneStatusResult_sane_major result)),
      (''sane_minor'', JInt (saneStatusResult_sane_minor result)),
      (''reason'', JString (saneStatusResult_reason result)), (''provider'', JString provider)]"

definition BuildSaneDeviceJson :: "SdkSaneDevice \<Rightarrow> json" where
  "BuildSaneDeviceJson device = obj
     [(''device_id'', JString (saneDevice_device_id device)),
      (''device_name'', JString (saneDevice_device_name device)),
      (''vendor'', JString (saneDevice_vendor device)), (''model'', JString (saneDevice_model device)),
      (''type'', JString (saneDevice_type device)), (''backend'', JString (saneDevice_backend device)),
      (''status'', JString (saneDevice_status device)),
      (''discovery_source'', JString (saneDevice_discovery_source device)),
      (''openable'', JBool (saneDevice_openable device))]"

definition BuildSaneDevicesJson :: "SdkSaneDevice list \<Rightarrow> json" where
  "BuildSaneDevicesJson devices = JArray (map BuildSaneDeviceJson devices)"

definition BuildSaneDeviceEventJson :: "SdkSaneDeviceEvent \<Rightarrow> json" where
  "BuildSaneDeviceEventJson event = obj
     [(''generation'', JInt (saneDeviceEvent_generation event)),
      (''devices'', BuildSaneDevicesJson (saneDeviceEvent_devices event)),
      (''detected_devices'', BuildSaneDevicesJson (saneDeviceEvent_detected_devices event)),
      (''detected_count'', jnat (length (saneDeviceEvent_detected_devices event))),
      (''added_devices'', BuildSaneDevicesJson (saneDeviceEvent_added_devices event)),
      (''removed_devices'', BuildSaneDevicesJson (saneDeviceEvent_removed_devices event))]"

definition BuildSaneOptionConstraintJson :: "(string \<Rightarrow> json option) \<Rightarrow> SdkSaneOptionConstraint \<Rightarrow> json" where
  "BuildSaneOptionConstraintJson parse constraint = obj
     [(''type'', JString (saneOptionConstraint_type constraint)),
      (''min'', JFloat (saneOptionConstraint_min constraint)),
      (''max'', JFloat (saneOptionConstraint_max constraint)),
      (''quant'', JFloat (saneOptionConstraint_quant constraint)),
      (''values'', JArray (map (JsonFromEncodedValue parse) (saneOptionConstraint_values_json constraint)))]"

definition BuildSaneOptionJson :: "(string \<Rightarrow> json option) \<Rightarrow> SdkSaneOption \<Rightarrow> json" where
  "BuildSaneOptionJson parse option = obj
     [(''index'', JInt (saneOption_index option)), (''name'', JString (saneOption_name option)),
      (''title'', JString (saneOption_title option)),
      (''description'', JString (saneOption_description option)),
      (''group'', JString (saneOption_group option)), (''type'', JString (saneOption_type option)),
      (''unit'', JString (saneOption_unit option)),
      (''value'', JsonFromEncodedValue parse (saneOption_value_json option)),
      (''constraint'', BuildSaneOptionConstraintJson parse (saneOption_constraint option)),
      (''readonly'', JBool (saneOption_readonly option)),
      (''settable'', JBool (saneOption_settable option)),
      (''automatic'', JBool (saneOption_automatic option)),
      (''inactive'', JBool (saneOption_inactive option)),
      (''advanced'', JBool (saneOption_advanced option)),
      (''requires_reload'', JBool (saneOption_requires_reload option))]"

definition BuildSaneOptionSetResultJson :: "(string \<Rightarrow> json option) \<Rightarrow> SdkSaneOptionSetResultItem \<Rightarrow> json" where
  "BuildSaneOptionSetResultJson parse item = obj
     [(''key'', JString (saneOptionSetResultItem_key item)),
      (''index'', JInt (saneOptionSetResultItem_index item)),
      (''status'', JString (saneOptionSetResultItem_status item)),
      (''message'', JString (saneOptionSetResultItem_message item)),
      (''value'', JsonFromEncodedValue parse (saneOptionSetResultItem_value_json item)),
      (''inexact'', JBool (saneOptionSetResultItem_inexact item)),
      (''requires_reload'', JBool (saneOptionSetResultItem_requires_reload item))]"

text \<open>\<open>options[key] = ...\<close>: of two options with one key the later one stays.\<close>

definition sane_item_key :: "SdkSaneOptionSetItem \<Rightarrow> string" where
  "sane_item_key item =
     (if saneOptionSetItem_key item \<noteq> [] then saneOptionSetItem_key item
      else to_string (saneOptionSetItem_index item))"

definition BuildSaneProfileJson :: "(string \<Rightarrow> json option) \<Rightarrow> SdkSaneProfile \<Rightarrow> json" where
  "BuildSaneProfileJson parse profile = obj
     [(''profile_id'', JString (saneProfile_profile_id profile)),
      (''device_key'', JString (saneProfile_device_key profile)), (''name'', JString (saneProfile_name profile)),
      (''options'', fold (\<lambda>item. set_member (sane_item_key item)
          (JsonFromEncodedValue parse (saneOptionSetItem_value_json item))) (saneProfile_options profile) (obj [])),
      (''created_at'', JString (saneProfile_created_at profile)),
      (''updated_at'', JString (saneProfile_updated_at profile))]"

definition BuildSaneScanTaskJson :: "SdkSaneScanTask \<Rightarrow> json" where
  "BuildSaneScanTaskJson task = obj
     [(''task_id'', JString (saneScanTask_task_id task)),
      (''connection_id'', JString (saneScanTask_connection_id task)),
      (''session_id'', JString (saneScanTask_session_id task)),
      (''status'', JString (saneScanTask_status task)), (''phase'', JString (saneScanTask_phase task)),
      (''progress'', JInt (saneScanTask_progress task)),
      (''page_count'', JInt (saneScanTask_page_count task)),
      (''current_page'', JInt (saneScanTask_current_page task)),
      (''output_type'', JString (saneScanTask_output_type task)),
      (''output_format'', JString (saneScanTask_output_format task)),
      (''output_dir'', JString (saneScanTask_output_dir task)),
      (''export_type'', JString (saneScanTask_export_type task)),
      (''output_path'', JString (saneScanTask_output_path task)),
      (''output_paths'', strings_json (saneScanTask_output_paths task)),
      (''last_page_path'', JString (saneScanTask_last_page_path task)),
      (''assets'', JArray (map BuildAssetJson (saneScanTask_assets task))),
      (''message'', JString (saneScanTask_message task)), (''error'', JString (saneScanTask_error task)),
      (''started_at'', JString (saneScanTask_started_at task)),
      (''updated_at'', JString (saneScanTask_updated_at task)),
      (''cancel_requested'', JBool (saneScanTask_cancel_requested task))]"

text \<open>The members of an object, in key order, or the usable entries of an array.\<close>

definition sane_option_item :: "(json \<Rightarrow> string) \<Rightarrow> json \<Rightarrow> SdkSaneOptionSetItem" where
  "sane_option_item dump j =
     \<lparr> saneOptionSetItem_key = or_field j ''key'' (GetOptionalStringField j ''name''),
       saneOptionSetItem_index = GetOptionalIntField j ''index'' (-1),
       saneOptionSetItem_value_json =
         (case jfind j ''value'' of Some v \<Rightarrow> dump v
          | None \<Rightarrow> GetOptionalStringField j ''value_json'') \<rparr>"

definition ParseSaneOptionSetItems :: "(json \<Rightarrow> string) \<Rightarrow> json \<Rightarrow> SdkSaneOptionSetItem list" where
  "ParseSaneOptionSetItems dump value =
     (case value of
        JObject m \<Rightarrow> map (\<lambda>(k, v). default_SdkSaneOptionSetItem
          \<lparr> saneOptionSetItem_key := k, saneOptionSetItem_value_json := dump v \<rparr>) m
      | JArray js \<Rightarrow> filter (\<lambda>item. saneOptionSetItem_key item \<noteq> [] \<or> saneOptionSetItem_index item \<ge> 0)
          (map (sane_option_item dump) (filter is_object js))
      | _ \<Rightarrow> [])"

text \<open>\<open>Json()\<close> for a member that is not there.\<close>

definition member_or_null :: "json \<Rightarrow> string \<Rightarrow> json" where
  "member_or_null params key = (case jfind params key of Some j \<Rightarrow> j | None \<Rightarrow> JNull)"

definition ParseSaneProfileRequest :: "(json \<Rightarrow> string) \<Rightarrow> json \<Rightarrow> SdkSaneProfileRequest" where
  "ParseSaneProfileRequest dump params =
     \<lparr> saneProfileRequest_session_id = GetOptionalStringField params ''session_id'',
       saneProfileRequest_device_id = GetOptionalStringField params ''device_id'',
       saneProfileRequest_device_name = GetOptionalStringField params ''device_name'',
       saneProfileRequest_device_key = GetOptionalStringField params ''device_key'',
       saneProfileRequest_profile_id = GetOptionalStringField params ''profile_id'',
       saneProfileRequest_name = GetOptionalStringField params ''name'',
       saneProfileRequest_options = ParseSaneOptionSetItems dump (member_or_null params ''options'') \<rparr>"

section \<open>TWAIN\<close>

definition BuildTwainStatusJson :: "SdkTwainStatusResult \<Rightarrow> string \<Rightarrow> json" where
  "BuildTwainStatusJson result provider = obj
     [(''available'', JBool (twStatusResult_available result)),
      (''platform'', JString (twStatusResult_platform result)),
      (''supported_platforms'', strings_json (twStatusResult_supported_platforms result)),
      (''dsm_loaded'', JBool (twStatusResult_dsm_loaded result)),
      (''dsm_path'', JString (twStatusResult_dsm_path result)),
      (''twain_version'', JString (twStatusResult_twain_version result)),
      (''reason'', JString (twStatusResult_reason result)), (''provider'', JString provider)]"

definition BuildTwainSourceJson :: "SdkTwainSource \<Rightarrow> json" where
  "BuildTwainSourceJson source = obj
     [(''source_id'', JString (twSource_source_id source)),
      (''source_name'', JString (twSource_source_name source)),
      (''manufacturer'', JString (twSource_manufacturer source)),
      (''product_family'', JString (twSource_product_family source)),
      (''product_name'', JString (twSource_product_name source)),
      (''protocol_major'', JInt (twSource_protocol_major source)),
      (''protocol_minor'', JInt (twSource_protocol_minor source)),
      (''status'', JString (twSource_status source)), (''openable'', JBool (twSource_openable source))]"

definition BuildTwainSourcesJson :: "SdkTwainSource list \<Rightarrow> json" where
  "BuildTwainSourcesJson sources = JArray (map BuildTwainSourceJson sources)"

definition BuildTwainSourceEventJson :: "SdkTwainSourceEvent \<Rightarrow> json" where
  "BuildTwainSourceEventJson event = obj
     [(''generation'', JInt (twSourceEvent_generation event)),
      (''sources'', BuildTwainSourcesJson (twSourceEvent_sources event)),
      (''added_sources'', BuildTwainSourcesJson (twSourceEvent_added_sources event)),
      (''removed_sources'', BuildTwainSourcesJson (twSourceEvent_removed_sources event))]"

definition BuildTwainCapabilityConstraintJson :: "(string \<Rightarrow> json option) \<Rightarrow> SdkTwainCapabilityConstraint \<Rightarrow> json" where
  "BuildTwainCapabilityConstraintJson parse constraint = obj
     [(''type'', JString (twCapabilityConstraint_type constraint)),
      (''min'', JFloat (twCapabilityConstraint_min constraint)),
      (''max'', JFloat (twCapabilityConstraint_max constraint)),
      (''quant'', JFloat (twCapabilityConstraint_quant constraint)),
      (''values'', JArray (map (JsonFromEncodedValue parse) (twCapabilityConstraint_values_json constraint)))]"

definition BuildTwainCapabilityJson :: "(string \<Rightarrow> json option) \<Rightarrow> SdkTwainCapability \<Rightarrow> json" where
  "BuildTwainCapabilityJson parse capability = obj
     [(''cap'', JString (twCapability_cap capability)),
      (''cap_id'', JInt (twCapability_cap_id capability)),
      (''name'', JString (twCapability_name capability)),
      (''title'', JString (twCapability_title capability)),
      (''type'', JString (twCapability_type capability)),
      (''value'', JsonFromEncodedValue parse (twCapability_value_json capability)),
      (''constraint'', BuildTwainCapabilityConstraintJson parse (twCapability_constraint capability)),
      (''readonly'', JBool (twCapability_readonly capability)),
      (''settable'', JBool (twCapability_settable capability)),
      (''advanced'', JBool (twCapability_advanced capability))]"

definition BuildTwainCapabilitySetResultJson :: "(string \<Rightarrow> json option) \<Rightarrow> SdkTwainCapabilitySetResultItem \<Rightarrow> json" where
  "BuildTwainCapabilitySetResultJson parse item = obj
     [(''cap'', JString (twCapabilitySetResultItem_cap item)),
      (''name'', JString (twCapabilitySetResultItem_name item)),
      (''status'', JString (twCapabilitySetResultItem_status item)),
      (''message'', JString (twCapabilitySetResultItem_message item)),
      (''value'', JsonFromEncodedValue parse (twCapabilitySetResultItem_value_json item))]"

definition twain_item_json :: "(string \<Rightarrow> json option) \<Rightarrow> SdkTwainCapabilitySetItem \<Rightarrow> json" where
  "twain_item_json parse item = obj
     [(''cap'', JString (twCapabilitySetItem_cap item)), (''name'', JString (twCapabilitySetItem_name item)),
      (''value'', JsonFromEncodedValue parse (twCapabilitySetItem_value_json item))]"

definition BuildTwainProfileJson :: "(string \<Rightarrow> json option) \<Rightarrow> SdkTwainProfile \<Rightarrow> json" where
  "BuildTwainProfileJson parse profile = obj
     [(''profile_id'', JString (twProfile_profile_id profile)),
      (''source_key'', JString (twProfile_source_key profile)), (''name'', JString (twProfile_name profile)),
      (''capabilities'', JArray (map (twain_item_json parse) (twProfile_capabilities profile))),
      (''created_at'', JString (twProfile_created_at profile)),
      (''updated_at'', JString (twProfile_updated_at profile))]"

definition IsTwainTaskTerminal :: "SdkTwainScanTask \<Rightarrow> bool" where
  "IsTwainTaskTerminal task \<longleftrightarrow> twScanTask_status task \<in> {''completed'', ''failed'', ''cancelled''}"

definition BuildTwainScanTaskJson :: "SdkTwainScanTask \<Rightarrow> json" where
  "BuildTwainScanTaskJson task = obj
     [(''task_id'', JString (twScanTask_task_id task)),
      (''connection_id'', JString (twScanTask_connection_id task)),
      (''session_id'', JString (twScanTask_session_id task)),
      (''status'', JString (twScanTask_status task)), (''phase'', JString (twScanTask_phase task)),
      (''progress'', JInt (twScanTask_progress task)),
      (''page_count'', JInt (twScanTask_page_count task)),
      (''current_page'', JInt (twScanTask_current_page task)),
      (''output_type'', JString (twScanTask_output_type task)),
      (''output_format'', JString (twScanTask_output_format task)),
      (''output_dir'', JString (twScanTask_output_dir task)),
      (''export_type'', JString (twScanTask_export_type task)),
      (''output_path'', JString (twScanTask_output_path task)),
      (''output_paths'', strings_json (twScanTask_output_paths task)),
      (''last_page_path'', JString (twScanTask_last_page_path task)),
      (''assets'', JArray (map BuildAssetJson (twScanTask_assets task))),
      (''message'', JString (twScanTask_message task)), (''error'', JString (twScanTask_error task)),
      (''started_at'', JString (twScanTask_started_at task)),
      (''updated_at'', JString (twScanTask_updated_at task)),
      (''cancel_requested'', JBool (twScanTask_cancel_requested task)),
      (''ui_required'', JBool (twScanTask_ui_required task)),
      (''transfer_mechanism'', JString (twScanTask_transfer_mechanism task))]"

definition BuildTwainScanCancelAckJson :: "SdkTwainScanResult \<Rightarrow> string \<Rightarrow> json" where
  "BuildTwainScanCancelAckJson result provider =
     (let task = twScanResult_task result in obj
     [(''accepted'', JBool (twScanResult_accepted result)),
      (''task_id'', JString (if twScanResult_task_id result \<noteq> [] then twScanResult_task_id result
                             else twScanTask_task_id task)),
      (''cancel_requested'', JBool (twScanTask_cancel_requested task \<or> twScanResult_accepted result)),
      (''status'', JString (if twScanTask_status task \<noteq> [] then twScanTask_status task else ''unknown'')),
      (''phase'', JString (if twScanTask_cancel_requested task \<and> \<not> IsTwainTaskTerminal task
                           then ''cancel_requested'' else twScanTask_phase task)),
      (''message'', JString (if twScanTask_message task \<noteq> [] then twScanTask_message task
                             else twScanResult_message result)),
      (''provider'', JString provider)])"

definition twain_capability_item :: "(json \<Rightarrow> string) \<Rightarrow> json \<Rightarrow> SdkTwainCapabilitySetItem" where
  "twain_capability_item dump j =
     \<lparr> twCapabilitySetItem_cap = GetOptionalStringField j ''cap'',
       twCapabilitySetItem_name = GetOptionalStringField j ''name'',
       twCapabilitySetItem_value_json =
         (case jfind j ''value'' of Some v \<Rightarrow> dump v
          | None \<Rightarrow> GetOptionalStringField j ''value_json'') \<rparr>"

definition ParseTwainCapabilitySetItems :: "(json \<Rightarrow> string) \<Rightarrow> json \<Rightarrow> SdkTwainCapabilitySetItem list" where
  "ParseTwainCapabilitySetItems dump value =
     (case value of
        JObject m \<Rightarrow> map (\<lambda>(k, v). default_SdkTwainCapabilitySetItem
          \<lparr> twCapabilitySetItem_cap := k, twCapabilitySetItem_value_json := dump v \<rparr>) m
      | JArray js \<Rightarrow> filter (\<lambda>item. twCapabilitySetItem_cap item \<noteq> [] \<or> twCapabilitySetItem_name item \<noteq> [])
          (map (twain_capability_item dump) (filter is_object js))
      | _ \<Rightarrow> [])"

definition ParseTwainProfileRequest :: "(json \<Rightarrow> string) \<Rightarrow> json \<Rightarrow> SdkTwainProfileRequest" where
  "ParseTwainProfileRequest dump params =
     \<lparr> twProfileRequest_session_id = GetOptionalStringField params ''session_id'',
       twProfileRequest_source_id = GetOptionalStringField params ''source_id'',
       twProfileRequest_source_key = GetOptionalStringField params ''source_key'',
       twProfileRequest_profile_id = GetOptionalStringField params ''profile_id'',
       twProfileRequest_name = GetOptionalStringField params ''name'',
       twProfileRequest_capabilities =
         ParseTwainCapabilitySetItems dump (member_or_null params ''capabilities'') \<rparr>"

end
