(* ===== verification/Command_State.thy ===== *)
theory Command_State
  imports Command_Json Scan_Json Video_Session Scan_Facades Runtime_Services Sdk_Config
begin

text \<open>
  The state of the command service (\<open>application/command_application_service.h\<close>) and what it keeps per
  connection: the connections, the watches, the opened devices and scanner sessions, the contexts of
  captures and the uploaded images.  The services it owns are the components of \<open>Auth_Service\<close>,
  \<open>Video_Session\<close>, \<open>Capture_Task\<close> and \<open>Enhance_Task\<close>.  A computation on this state runs alone: a
  handler sees no other handler between two of its steps.

  The environment \<open>cmd_env\<close> holds what the code does not change: the providers, the sinks (a null sink
  is \<^const>\<open>None\<close>), the clocks and the libraries.  \<open>ce_read_json\<close> and \<open>ce_print_json\<close> are the stream
  operator of the JSON library and \<open>dump(2)\<close>; \<open>ce_list_capabilities\<close> is \<open>ListCapabilities\<close> of the
  image enhancement provider; \<open>cm_next_workflow_seq\<close> is the static counter of \<open>NextWorkflowId\<close>.
\<close>

section \<open>State\<close>

record CaptureRuntimeContext =
  cx_has_profile :: bool
  cx_has_pipeline :: bool
  cx_profile :: SdkCaptureProfile
  cx_pipeline :: SdkImageEnhancePipeline
  cx_online_api_key :: string
  cx_online_base_url :: string

definition default_CaptureRuntimeContext :: CaptureRuntimeContext where
  "default_CaptureRuntimeContext = \<lparr> cx_has_profile = False, cx_has_pipeline = False,
     cx_profile = default_SdkCaptureProfile, cx_pipeline = default_SdkImageEnhancePipeline,
     cx_online_api_key = [], cx_online_base_url = [] \<rparr>"

text \<open>\<open>std::set\<close>, visited in order.\<close>

type_synonym 'k sset = "('k, unit) smap"

abbreviation sset_mem :: "'k \<Rightarrow> 'k sset \<Rightarrow> bool" where
  "sset_mem k s \<equiv> map_of s k \<noteq> None"

record 'e CommandApplicationService =
  cm_auth :: "'e world auth_state"
  cm_video :: VideoSessionService
  cm_capture :: CaptureTaskService
  cm_enhance :: ImageEnhanceTaskService
  cm_runtime_config :: "RuntimeConfigService option"
  cm_provider_names :: json
  cm_connections :: "string sset"
  cm_sane_watch :: "string set"
  cm_twain_watch :: "string set"
  cm_sane_tasks :: "(string, SdkSaneScanTask) smap"
  cm_sane_pipelines :: "(string, SdkImageEnhancePipeline) smap"
  cm_sane_api_keys :: "(string, string) smap"
  cm_sane_base_urls :: "(string, string) smap"
  cm_twain_tasks :: "(string, SdkTwainScanTask) smap"
  cm_twain_sessions :: "(string, string sset) smap"
  cm_opened :: "(string, string sset) smap"
  cm_contexts :: "(string, (string, CaptureRuntimeContext) smap) smap"
  cm_image_owner :: "(string, string) smap"
  cm_image_assets :: "(string, (string, SdkCaptureAsset) smap) smap"
  cm_next_image_task_seq :: nat
  cm_next_workflow_seq :: nat

record 'e cmd_env =
  ce_auth :: "'e world auth_env"
  ce_providers :: "'e ProviderBundle"
  ce_sane :: "'e ISdkSaneProvider option"
  ce_twain :: "'e ISdkTwainProvider option"
  ce_ocr :: "'e ISdkOcrProvider option"
  ce_recognition :: "'e ISdkRecognitionProvider option"
  ce_ofd :: "'e ISdkOfdProvider option"
  ce_storage :: "'e ISdkStorageProvider option"
  ce_private_build :: bool
  ce_recognition_api :: "'e c_api"
  ce_file_convert_api :: "'e c_api"
  ce_config :: SdkConfig
  ce_os :: os_env
  ce_work_dir :: string
  ce_getenv :: "string \<Rightarrow> string option"
  ce_dump :: "json \<Rightarrow> string"
  ce_parse :: "string \<Rightarrow> json option"
  ce_read_json :: "string \<Rightarrow> json option"
  ce_print_json :: "json \<Rightarrow> string"
  ce_status_supplier :: "('e world, json) io option"
  ce_stream_closed_sink :: "(string \<Rightarrow> ('e world, unit) io) option"
  ce_event_sink :: "(string \<Rightarrow> json \<Rightarrow> ('e world, unit) io) option"
  ce_now :: "'e world \<Rightarrow> int"
  ce_steady :: "'e world \<Rightarrow> int"
  ce_thread :: "'e world \<Rightarrow> exn option"
  ce_time :: "'e world \<Rightarrow> int"
  ce_dir_size :: "string \<Rightarrow> nat"
  ce_list_capabilities :: "('e world, SdkImageEnhanceCapabilityResult) io"

type_synonym ('e, 'a) cmd = "('e CommandApplicationService, 'a) io"

text \<open>The service before any request, over a given world.\<close>

definition new_CommandApplicationService ::
    "'e cmd_env \<Rightarrow> RuntimeConfigService option \<Rightarrow> 'e world \<Rightarrow> 'e CommandApplicationService" where
  "new_CommandApplicationService env runtime_config w =
     \<lparr> cm_auth = \<lparr> au_sessions = [], au_outside = w \<rparr>, cm_video = init_VideoSessionService,
       cm_capture = new_CaptureTaskService (BuildSdkAssetBaseUrl (ce_config env)),
       cm_enhance = new_ImageEnhanceTaskService, cm_runtime_config = runtime_config, cm_provider_names = JNull,
       cm_connections = [], cm_sane_watch = {}, cm_twain_watch = {}, cm_sane_tasks = [], cm_sane_pipelines = [],
       cm_sane_api_keys = [], cm_sane_base_urls = [], cm_twain_tasks = [], cm_twain_sessions = [],
       cm_opened = [], cm_contexts = [], cm_image_owner = [], cm_image_assets = [], cm_next_image_task_seq = 1,
       cm_next_workflow_seq = 1 \<rparr>"

definition SetProviderNames :: "json \<Rightarrow> 'e CommandApplicationService \<Rightarrow> 'e CommandApplicationService" where
  "SetProviderNames provider_names s =
     s\<lparr>cm_provider_names := if is_object provider_names then provider_names else obj []\<rparr>"

section \<open>Calling the parts\<close>

definition on_auth :: "('e world, 'a) auth \<Rightarrow> ('e, 'a) cmd" where
  "on_auth m s = (case m (cm_auth s) of (r, a) \<Rightarrow> (r, s\<lparr>cm_auth := a\<rparr>))"

definition on_outside :: "('e world, 'a) io \<Rightarrow> ('e, 'a) cmd" where
  "on_outside m = on_auth (outside m)"

definition on_video :: "(VideoSessionService \<Rightarrow> 'a \<times> VideoSessionService) \<Rightarrow> ('e, 'a) cmd" where
  "on_video f s = (case f (cm_video s) of (a, v) \<Rightarrow> (Inr a, s\<lparr>cm_video := v\<rparr>))"

definition on_capture :: "(CaptureTaskService \<Rightarrow> 'a \<times> CaptureTaskService) \<Rightarrow> ('e, 'a) cmd" where
  "on_capture f s = (case f (cm_capture s) of (a, c) \<Rightarrow> (Inr a, s\<lparr>cm_capture := c\<rparr>))"

definition step_io :: "('s \<Rightarrow> 'a \<times> 's) \<Rightarrow> ('s, 'a) io" where
  "step_io f s = (case f s of (a, t) \<Rightarrow> (Inr a, t))"

definition the_world :: "'e CommandApplicationService \<Rightarrow> 'e world" where
  "the_world s = au_outside (cm_auth s)"

text \<open>\<open>BuildWsResponse\<close> reads the clock.\<close>

definition respond :: "'e cmd_env \<Rightarrow> string \<Rightarrow> int \<Rightarrow> string \<Rightarrow> json \<Rightarrow> ('e, json) cmd" where
  "respond env request_id code message payload =
     gets_io (\<lambda>s. BuildWsResponse (ce_now env (the_world s)) request_id code message payload)"

definition reject :: "'e cmd_env \<Rightarrow> string \<Rightarrow> int \<Rightarrow> string \<Rightarrow> ('e, json) cmd" where
  "reject env request_id code message = respond env request_id code message (obj [])"

definition succeed :: "'e cmd_env \<Rightarrow> string \<Rightarrow> json \<Rightarrow> ('e, json) cmd" where
  "succeed env request_id payload = respond env request_id (ToCode Ok) ''ok'' payload"

definition stream_closed :: "'e cmd_env \<Rightarrow> string \<Rightarrow> ('e, unit) cmd" where
  "stream_closed env stream_id =
     (case ce_stream_closed_sink env of None \<Rightarrow> ret () | Some sink \<Rightarrow> on_outside (sink stream_id))"

text \<open>\<open>runtime_config_ ? runtime_config_->OnlineImageEnhanceBaseUrl() : ""\<close>.\<close>

definition online_base_url :: "'e cmd_env \<Rightarrow> 'e CommandApplicationService \<Rightarrow> string" where
  "online_base_url env s =
     (case cm_runtime_config s of None \<Rightarrow> [] | Some rc \<Rightarrow> OnlineImageEnhanceBaseUrl (ce_getenv env) rc)"

section \<open>Connections and watches\<close>

definition RememberCommandConnection :: "string \<Rightarrow> 'e CommandApplicationService \<Rightarrow> 'e CommandApplicationService" where
  "RememberCommandConnection connection_id s =
     (if connection_id = [] then s else s\<lparr>cm_connections := smap_put connection_id () (cm_connections s)\<rparr>)"

definition ForgetCommandConnection :: "string \<Rightarrow> 'e CommandApplicationService \<Rightarrow> 'e CommandApplicationService" where
  "ForgetCommandConnection connection_id s =
     (if connection_id = [] then s else s\<lparr>cm_connections := smap_erase connection_id (cm_connections s)\<rparr>)"

definition ListCommandConnections :: "'e CommandApplicationService \<Rightarrow> string list" where
  "ListCommandConnections s = map fst (cm_connections s)"

definition ClearCommandConnections :: "'e CommandApplicationService \<Rightarrow> string list \<times> 'e CommandApplicationService" where
  "ClearCommandConnections s = (map fst (cm_connections s), s\<lparr>cm_connections := []\<rparr>)"

definition RememberSaneWatchConnection :: "string \<Rightarrow> 'e CommandApplicationService \<Rightarrow> 'e CommandApplicationService" where
  "RememberSaneWatchConnection connection_id s =
     (if connection_id = [] then s else s\<lparr>cm_sane_watch := insert connection_id (cm_sane_watch s)\<rparr>)"

definition ForgetSaneWatchConnection :: "string \<Rightarrow> 'e CommandApplicationService \<Rightarrow> bool \<times> 'e CommandApplicationService" where
  "ForgetSaneWatchConnection connection_id s =
     (if connection_id = [] then (False, s)
      else (connection_id \<in> cm_sane_watch s, s\<lparr>cm_sane_watch := cm_sane_watch s - {connection_id}\<rparr>))"

definition RememberTwainWatchConnection :: "string \<Rightarrow> 'e CommandApplicationService \<Rightarrow> 'e CommandApplicationService" where
  "RememberTwainWatchConnection connection_id s =
     (if connection_id = [] then s else s\<lparr>cm_twain_watch := insert connection_id (cm_twain_watch s)\<rparr>)"

definition ForgetTwainWatchConnection :: "string \<Rightarrow> 'e CommandApplicationService \<Rightarrow> bool \<times> 'e CommandApplicationService" where
  "ForgetTwainWatchConnection connection_id s =
     (if connection_id = [] then (False, s)
      else (connection_id \<in> cm_twain_watch s, s\<lparr>cm_twain_watch := cm_twain_watch s - {connection_id}\<rparr>))"

section \<open>Two-level maps\<close>

text \<open>\<open>m[c].insert(x)\<close>, and erasing an element together with a set it leaves empty.\<close>

definition inner :: "string \<Rightarrow> (string, (string, 'v) smap) smap \<Rightarrow> (string, 'v) smap" where
  "inner c m = (case map_of m c of None \<Rightarrow> [] | Some i \<Rightarrow> i)"

definition inner_put :: "string \<Rightarrow> string \<Rightarrow> 'v \<Rightarrow> (string, (string, 'v) smap) smap \<Rightarrow> (string, (string, 'v) smap) smap" where
  "inner_put c x v m = smap_put c (smap_put x v (inner c m)) m"

definition inner_erase :: "string \<Rightarrow> string \<Rightarrow> (string, (string, 'v) smap) smap \<Rightarrow> (string, (string, 'v) smap) smap" where
  "inner_erase c x m =
     (case map_of m c of
        None \<Rightarrow> m
      | Some i \<Rightarrow> let i = smap_erase x i in if i = [] then smap_erase c m else smap_put c i m)"

text \<open>The elements of all the sets, once each, in order.\<close>

definition all_elements :: "(string, string sset) smap \<Rightarrow> string list" where
  "all_elements m = map fst (fold (\<lambda>p acc. fold (\<lambda>q. smap_put (fst q) ()) (snd p) acc) m [])"

section \<open>TWAIN sessions\<close>

definition RememberOpenedTwainSession ::
    "string \<Rightarrow> string \<Rightarrow> 'e CommandApplicationService \<Rightarrow> 'e CommandApplicationService" where
  "RememberOpenedTwainSession connection_id session_id s =
     (if connection_id = [] \<or> session_id = [] then s
      else s\<lparr>cm_twain_sessions := inner_put connection_id session_id () (cm_twain_sessions s)\<rparr>)"

definition ForgetOpenedTwainSession ::
    "string \<Rightarrow> string \<Rightarrow> 'e CommandApplicationService \<Rightarrow> 'e CommandApplicationService" where
  "ForgetOpenedTwainSession connection_id session_id s =
     (if connection_id = [] \<or> session_id = [] then s
      else s\<lparr>cm_twain_sessions := inner_erase connection_id session_id (cm_twain_sessions s)\<rparr>)"

definition ClearOpenedTwainSessions ::
    "string \<Rightarrow> 'e CommandApplicationService \<Rightarrow> string list \<times> 'e CommandApplicationService" where
  "ClearOpenedTwainSessions connection_id s =
     (map fst (inner connection_id (cm_twain_sessions s)),
      s\<lparr>cm_twain_sessions := smap_erase connection_id (cm_twain_sessions s)\<rparr>)"

definition ClearAllOpenedTwainSessions ::
    "'e CommandApplicationService \<Rightarrow> string list \<times> 'e CommandApplicationService" where
  "ClearAllOpenedTwainSessions s = (all_elements (cm_twain_sessions s), s\<lparr>cm_twain_sessions := []\<rparr>)"

definition put_twain_task :: "string \<Rightarrow> SdkTwainScanTask \<Rightarrow> 'e CommandApplicationService \<Rightarrow> 'e CommandApplicationService" where
  "put_twain_task task_id task s = s\<lparr>cm_twain_tasks := smap_put task_id task (cm_twain_tasks s)\<rparr>"

definition active_twain_tasks :: "string list \<Rightarrow> 'e CommandApplicationService \<Rightarrow> string list" where
  "active_twain_tasks session_ids s =
     map fst (filter (\<lambda>p. twScanTask_session_id (snd p) \<in> set session_ids \<and> \<not> IsTwainTaskTerminal (snd p))
       (cm_twain_tasks s))"

definition keep_twain_answer :: "SdkTwainScanResult \<Rightarrow> ('e, unit) cmd" where
  "keep_twain_answer r =
     when_io (twScanResult_task_id r \<noteq> []) (modify_io (put_twain_task (twScanResult_task_id r) (twScanResult_task r)))"

definition CancelActiveTwainTasksForSessions :: "'e cmd_env \<Rightarrow> string list \<Rightarrow> ('e, string list) cmd" where
  "CancelActiveTwainTasksForSessions env session_ids =
     bind_io (gets_io (active_twain_tasks session_ids)) (\<lambda>task_ids.
     seq_io (each_io (\<lambda>task_id.
         bind_io (on_outside (twain_CancelScan (ce_twain env) \<lparr> twScanCancelRequest_task_id = task_id \<rparr>))
           keep_twain_answer) task_ids)
       (ret task_ids))"

text \<open>At most 20 rounds; a task that is not known counts as ended.  The pause between two rounds does
  nothing the model sees.\<close>

definition twain_tasks_ended :: "string list \<Rightarrow> 'e CommandApplicationService \<Rightarrow> bool" where
  "twain_tasks_ended task_ids s \<longleftrightarrow>
     (\<forall>id \<in> set task_ids. case map_of (cm_twain_tasks s) id of None \<Rightarrow> True | Some t \<Rightarrow> IsTwainTaskTerminal t)"

fun wait_rounds :: "'e cmd_env \<Rightarrow> string list \<Rightarrow> nat \<Rightarrow> ('e, unit) cmd" where
  "wait_rounds env task_ids 0 = ret ()"
| "wait_rounds env task_ids (Suc n) =
     bind_io (gets_io (twain_tasks_ended task_ids)) (\<lambda>ended.
     if ended then ret ()
     else seq_io (each_io (\<lambda>task_id.
            bind_io (on_outside (twain_GetScan (ce_twain env) \<lparr> twScanGetRequest_task_id = task_id \<rparr>))
              keep_twain_answer) task_ids)
          (wait_rounds env task_ids n))"

definition WaitTwainTasksTerminal :: "'e cmd_env \<Rightarrow> string list \<Rightarrow> ('e, unit) cmd" where
  "WaitTwainTasksTerminal env task_ids = (if task_ids = [] then ret () else wait_rounds env task_ids 20)"

section \<open>Opened devices and capture contexts\<close>

definition RememberOpenedDevice ::
    "string \<Rightarrow> string \<Rightarrow> 'e CommandApplicationService \<Rightarrow> 'e CommandApplicationService" where
  "RememberOpenedDevice connection_id device_id s =
     (if connection_id = [] \<or> device_id = [] then s
      else s\<lparr>cm_opened := inner_put connection_id device_id () (cm_opened s)\<rparr>)"

definition ForgetCaptureProfile ::
    "string \<Rightarrow> string \<Rightarrow> 'e CommandApplicationService \<Rightarrow> 'e CommandApplicationService" where
  "ForgetCaptureProfile connection_id device_id s =
     s\<lparr>cm_contexts := inner_erase connection_id device_id (cm_contexts s)\<rparr>"

definition ClearCaptureProfiles :: "string \<Rightarrow> 'e CommandApplicationService \<Rightarrow> 'e CommandApplicationService" where
  "ClearCaptureProfiles connection_id s = s\<lparr>cm_contexts := smap_erase connection_id (cm_contexts s)\<rparr>"

text \<open>Both branches of the code forget the capture profile.\<close>

definition ForgetOpenedDevice ::
    "string \<Rightarrow> string \<Rightarrow> 'e CommandApplicationService \<Rightarrow> 'e CommandApplicationService" where
  "ForgetOpenedDevice connection_id device_id s =
     ForgetCaptureProfile connection_id device_id
       (s\<lparr>cm_opened := inner_erase connection_id device_id (cm_opened s)\<rparr>)"

text \<open>The loop also drops a connection whose set was empty before.\<close>

definition forget_device :: "string \<Rightarrow> (string, string sset) smap \<Rightarrow> (string, string sset) smap" where
  "forget_device device_id m =
     filter (\<lambda>p. snd p \<noteq> []) (map (\<lambda>p. (fst p, smap_erase device_id (snd p))) m)"

definition ForgetOpenedDeviceFromAllConnections ::
    "string \<Rightarrow> 'e CommandApplicationService \<Rightarrow> string list \<times> 'e CommandApplicationService" where
  "ForgetOpenedDeviceFromAllConnections device_id s =
     (if device_id = [] then ([], s)
      else (map fst (filter (\<lambda>p. sset_mem device_id (snd p)) (cm_opened s)),
            s\<lparr>cm_opened := forget_device device_id (cm_opened s)\<rparr>))"

text \<open>A connection without an opened device keeps its capture contexts.\<close>

definition ClearOpenedDevices ::
    "string \<Rightarrow> 'e CommandApplicationService \<Rightarrow> string list \<times> 'e CommandApplicationService" where
  "ClearOpenedDevices connection_id s =
     (case map_of (cm_opened s) connection_id of
        None \<Rightarrow> ([], s)
      | Some devices \<Rightarrow>
          (map fst devices,
           ClearCaptureProfiles connection_id (s\<lparr>cm_opened := smap_erase connection_id (cm_opened s)\<rparr>)))"

definition ClearAllOpenedDevices :: "'e CommandApplicationService \<Rightarrow> string list \<times> 'e CommandApplicationService" where
  "ClearAllOpenedDevices s = (all_elements (cm_opened s), s\<lparr> cm_opened := [], cm_contexts := [] \<rparr>)"

definition context_of :: "string \<Rightarrow> string \<Rightarrow> 'e CommandApplicationService \<Rightarrow> CaptureRuntimeContext" where
  "context_of connection_id device_id s =
     (case map_of (inner connection_id (cm_contexts s)) device_id of
        None \<Rightarrow> default_CaptureRuntimeContext | Some c \<Rightarrow> c)"

definition RememberCaptureProfile ::
    "string \<Rightarrow> string \<Rightarrow> SdkCaptureProfile \<Rightarrow> 'e CommandApplicationService \<Rightarrow> 'e CommandApplicationService" where
  "RememberCaptureProfile connection_id device_id profile s =
     (if connection_id = [] \<or> device_id = [] then s
      else s\<lparr>cm_contexts := inner_put connection_id device_id
             ((context_of connection_id device_id s)\<lparr> cx_profile := profile, cx_has_profile := True \<rparr>)
             (cm_contexts s)\<rparr>)"

definition RememberCapturePipeline ::
    "string \<Rightarrow> string \<Rightarrow> SdkImageEnhancePipeline \<Rightarrow> string \<Rightarrow> string \<Rightarrow>
     'e CommandApplicationService \<Rightarrow> 'e CommandApplicationService" where
  "RememberCapturePipeline connection_id device_id pipeline online_api_key online_url s =
     (if connection_id = [] \<or> device_id = [] then s
      else let has = (el_steps pipeline \<noteq> []) in
        s\<lparr>cm_contexts := inner_put connection_id device_id
             ((context_of connection_id device_id s)
                \<lparr> cx_pipeline := pipeline, cx_has_pipeline := has,
                  cx_online_api_key := (if has then online_api_key else []),
                  cx_online_base_url := (if has then online_url else []) \<rparr>)
             (cm_contexts s)\<rparr>)"

definition GetRememberedCaptureContext ::
    "string \<Rightarrow> string \<Rightarrow> 'e CommandApplicationService \<Rightarrow> CaptureRuntimeContext option" where
  "GetRememberedCaptureContext connection_id device_id s =
     (if connection_id = [] \<or> device_id = [] then None
      else map_of (inner connection_id (cm_contexts s)) device_id)"

end
