(* ===== verification/Command_Core.thy ===== *)
theory Command_Core
  imports Command_State
begin

text \<open>
  The handlers of the command service for the system, sessions, devices, captures and video
  (\<open>application/command_application_service.cpp\<close>), each with every early return of the code, and the
  checks they share.  \<open>SDK_OPEN_LOG_*\<close> and the locks are left out.
\<close>

record Request =
  rq_request_id :: string
  rq_method :: string
  rq_params :: json
  rq_client :: json

section \<open>Sessions and quotas\<close>

definition widens :: "string \<Rightarrow> bool" where
  "widens capability \<longleftrightarrow> capability = ''image.process_page'' \<or> capability = ''image.apply_color_mode''"

definition RequireCapability_cmd ::
    "'e cmd_env \<Rightarrow> string \<Rightarrow> string \<Rightarrow> 'e CommandApplicationService \<Rightarrow> SessionResult" where
  "RequireCapability_cmd env connection_id capability s =
     (let result = RequireCapability (ce_auth env) connection_id capability (cm_auth s) in
      if IsOkStatusCode (sn_code result) \<or> \<not> widens capability then result
      else RequireCapability (ce_auth env) connection_id ''image.process'' (cm_auth s))"

definition charge :: "'e cmd_env \<Rightarrow> string \<Rightarrow> string \<Rightarrow> string \<Rightarrow> int \<Rightarrow> ('e, SessionResult) cmd" where
  "charge env connection_id capability request_id units =
     bind_io (gets_io (\<lambda>s. ce_now env (the_world s))) (\<lambda>now.
     on_auth (ConsumeQuota (ce_auth env) connection_id capability request_id units now))"

definition ConsumeQuota_cmd :: "'e cmd_env \<Rightarrow> string \<Rightarrow> string \<Rightarrow> string \<Rightarrow> int \<Rightarrow> ('e, SessionResult) cmd" where
  "ConsumeQuota_cmd env connection_id capability request_id units =
     bind_io (charge env connection_id capability request_id units) (\<lambda>result.
     if IsOkStatusCode (sn_code result) \<or> \<not> widens capability then ret result
     else charge env connection_id ''image.process'' request_id units)"

definition RequireFeatureEntitlement ::
    "'e cmd_env \<Rightarrow> string \<Rightarrow> string \<Rightarrow> string \<Rightarrow> SdkAccountType \<Rightarrow> string \<Rightarrow> ('e, SessionResult) cmd" where
  "RequireFeatureEntitlement env connection_id m feature required request_id =
     bind_io (gets_io (\<lambda>s. RequireSession connection_id (cm_auth s))) (\<lambda>result.
     if \<not> IsOkStatusCode (sn_code result) then ret result
     else let check = CheckFeatureEntitlement (sn_auth_context result) feature required in
       if \<not> IsOkStatusCode (ec_code check) then
         ret (result\<lparr> sn_code := ec_code check, sn_message := ec_message check \<rparr>)
       else if \<not> ec_requires_trial_quota check then ret result
       else ConsumeQuota_cmd env connection_id (TrialQuotaCapabilityFor m required) request_id 1)"

text \<open>The first lines of every handler but the system and session ones.\<close>

definition with_capability ::
    "'e cmd_env \<Rightarrow> string \<Rightarrow> Request \<Rightarrow> (SessionResult \<Rightarrow> ('e, json) cmd) \<Rightarrow> ('e, json) cmd" where
  "with_capability env connection_id request f =
     bind_io (gets_io (RequireCapability_cmd env connection_id (rq_method request))) (\<lambda>session.
     if \<not> IsOkStatusCode (sn_code session)
     then reject env (rq_request_id request) (sn_code session) (sn_message session)
     else f session)"

definition bad_params :: "'e cmd_env \<Rightarrow> Request \<Rightarrow> string \<Rightarrow> ('e, json) cmd" where
  "bad_params env request message = reject env (rq_request_id request) (ToCode InvalidParams) message"

definition param :: "Request \<Rightarrow> string \<Rightarrow> string" where
  "param request key = GetOptionalStringField (rq_params request) key"

definition session_answer :: "'e cmd_env \<Rightarrow> Request \<Rightarrow> SessionResult \<Rightarrow> ('e, json) cmd" where
  "session_answer env request session =
     (if \<not> IsOkStatusCode (sn_code session)
      then reject env (rq_request_id request) (sn_code session) (sn_message session)
      else succeed env (rq_request_id request) (BuildSessionJson session))"

section \<open>System\<close>

definition HandleSystemPing :: "'e cmd_env \<Rightarrow> Request \<Rightarrow> ('e, json) cmd" where
  "HandleSystemPing env request = succeed env (rq_request_id request) (obj [(''pong'', JBool True)])"

definition HandleSystemInfo :: "'e cmd_env \<Rightarrow> Request \<Rightarrow> ('e, json) cmd" where
  "HandleSystemInfo env request =
     bind_io (case ce_status_supplier env of Some supply \<Rightarrow> on_outside supply | None \<Rightarrow> ret (obj []))
       (succeed env (rq_request_id request))"

section \<open>Sessions\<close>

definition HandleAuthCreateSession :: "'e cmd_env \<Rightarrow> string \<Rightarrow> Request \<Rightarrow> ('e, json) cmd" where
  "HandleAuthCreateSession env connection_id request =
     bind_io (gets_io (\<lambda>s. ce_now env (the_world s))) (\<lambda>now.
     bind_io (on_auth (CreateSession (ce_auth env) connection_id (param request ''token'') now))
       (session_answer env request))"

definition HandleAuthGetContext :: "'e cmd_env \<Rightarrow> string \<Rightarrow> Request \<Rightarrow> ('e, json) cmd" where
  "HandleAuthGetContext env connection_id request =
     bind_io (gets_io (\<lambda>s. GetContextData connection_id (cm_auth s))) (\<lambda>r.
     if \<not> IsOkStatusCode (cd_code r) then reject env (rq_request_id request) (cd_code r) (cd_message r)
     else succeed env (rq_request_id request) (set_member ''session_token'' (JString []) (cd_data r)))"

definition HandleAuthRefreshSession :: "'e cmd_env \<Rightarrow> string \<Rightarrow> Request \<Rightarrow> ('e, json) cmd" where
  "HandleAuthRefreshSession env connection_id request =
     bind_io (gets_io (\<lambda>s. ce_now env (the_world s))) (\<lambda>now.
     bind_io (on_auth (RefreshSession (ce_auth env) connection_id now)) (session_answer env request))"

definition HandleAuthActivateOffline :: "'e cmd_env \<Rightarrow> string \<Rightarrow> Request \<Rightarrow> ('e, json) cmd" where
  "HandleAuthActivateOffline env connection_id request =
     (let auth_code = param request ''auth_code'' in
      if auth_code = [] then bad_params env request ''auth_code required''
      else bind_io (gets_io (\<lambda>s. ce_now env (the_world s))) (\<lambda>now.
        bind_io (on_auth (ActivateOffline (ce_auth env) connection_id auth_code now))
          (session_answer env request)))"

text \<open>Ending a connection's streams and devices: the bookkeeping first, then the providers, with an
  empty authorisation context.\<close>

definition stop_streams :: "'e cmd_env \<Rightarrow> StreamBinding list \<Rightarrow> ('e, unit) cmd" where
  "stop_streams env bindings =
     each_io (\<lambda>b. seq_io (on_outside (StopVideo (ce_providers env) default_AuthContext
                            \<lparr> vpr_device_id = sb_device_id b \<rparr>))
                    (stream_closed env (sb_stream_id b))) bindings"

definition close_devices :: "'e cmd_env \<Rightarrow> string list \<Rightarrow> ('e, unit) cmd" where
  "close_devices env devices =
     each_io (\<lambda>d. seq_io (on_outside (CloseDevice (ce_providers env) default_AuthContext \<lparr> dcr_device_id = d \<rparr>))
                    (ret ())) devices"

definition HandleAuthDestroySession :: "'e cmd_env \<Rightarrow> string \<Rightarrow> Request \<Rightarrow> ('e, json) cmd" where
  "HandleAuthDestroySession env connection_id request =
     bind_io (on_video (ClearConnection connection_id)) (\<lambda>removed.
     seq_io (stop_streams env removed)
     (bind_io (step_io (ClearOpenedDevices connection_id)) (\<lambda>opened.
     seq_io (close_devices env opened)
     (bind_io (on_auth (DestroySession connection_id)) (\<lambda>session.
     respond env (rq_request_id request) (sn_code session) (sn_message session)
       (obj [(''destroyed'', JBool True)]))))))"
section \<open>Devices\<close>

definition device_provider_name :: "'e CommandApplicationService \<Rightarrow> json" where
  "device_provider_name s = JString (ProviderNameOrEmpty (cm_provider_names s) ''device'')"

definition HandleDeviceList :: "'e cmd_env \<Rightarrow> string \<Rightarrow> Request \<Rightarrow> ('e, json) cmd" where
  "HandleDeviceList env connection_id request =
     with_capability env connection_id request (\<lambda>session.
     bind_io (on_outside (ListDevices (ce_providers env) (sn_auth_context session))) (\<lambda>result.
     if \<not> IsOkStatusCode (dl_code result)
     then reject env (rq_request_id request) (dl_code result) (dl_message result)
     else succeed env (rq_request_id request)
       (obj [(''devices'', JArray (map (\<lambda>d. BuildDeviceJson d False) (dl_devices result))),
             (''count'', jnat (length (dl_devices result)))])))"

definition HandleDeviceGet :: "'e cmd_env \<Rightarrow> string \<Rightarrow> Request \<Rightarrow> ('e, json) cmd" where
  "HandleDeviceGet env connection_id request =
     with_capability env connection_id request (\<lambda>session.
     if param request ''device_id'' = [] then bad_params env request ''device_id required''
     else bind_io (on_outside (GetDevice (ce_providers env) (sn_auth_context session) (param request ''device_id'')))
       (\<lambda>result.
       if \<not> IsOkStatusCode (dg_code result)
       then reject env (rq_request_id request) (dg_code result) (dg_message result)
       else bind_io (gets_io device_provider_name) (\<lambda>provider.
         succeed env (rq_request_id request)
           (set_member ''provider'' provider (BuildDeviceJson (dg_device result) False)))))"

definition requested_pixel_format :: "Request \<Rightarrow> string" where
  "requested_pixel_format request = or_field (rq_params request) ''pixel_format'' ''mjpeg''"

definition open_request :: "Request \<Rightarrow> SdkDeviceOpenRequest" where
  "open_request request =
     \<lparr> dor_device_id = param request ''device_id'',
       dor_width = GetOptionalIntField (rq_params request) ''width'' 0,
       dor_height = GetOptionalIntField (rq_params request) ''height'' 0,
       dor_fps = GetOptionalIntField (rq_params request) ''fps'' 0,
       dor_pixel_format = NormalizeVideoPixelFormat (requested_pixel_format request) \<rparr>"

definition opened_json :: "string \<Rightarrow> json \<Rightarrow> SdkDeviceOpenResult \<Rightarrow> json" where
  "opened_json requested provider result =
     (let d = dos_device result;
          j = set_member ''device_id'' (JString (if dev_device_id d = [] then requested else dev_device_id d))
                (BuildDeviceJson d True);
          j = set_member ''provider'' provider (set_member ''opened'' (JBool (dos_opened result)) j)
      in if dos_device_sn result = [] then j else set_member ''device_sn'' (JString (dos_device_sn result)) j)"

definition HandleDeviceOpen :: "'e cmd_env \<Rightarrow> string \<Rightarrow> Request \<Rightarrow> ('e, json) cmd" where
  "HandleDeviceOpen env connection_id request =
     with_capability env connection_id request (\<lambda>session.
     if param request ''device_id'' = [] then bad_params env request ''device_id required''
     else if \<not> IsSupportedVideoPixelFormat (requested_pixel_format request)
       then bad_params env request ''unsupported pixel_format''
     else bind_io (on_outside (OpenDevice (ce_providers env) (sn_auth_context session) (open_request request)))
       (\<lambda>result.
       if \<not> IsOkStatusCode (dos_code result)
       then reject env (rq_request_id request) (dos_code result) (dos_message result)
       else bind_io (gets_io device_provider_name) (\<lambda>provider.
         seq_io (when_io (dos_opened result)
                  (modify_io (RememberOpenedDevice connection_id (param request ''device_id''))))
           (succeed env (rq_request_id request) (opened_json (param request ''device_id'') provider result)))))"

text \<open>Closing first stops the connection's stream on the device: \<open>Inl\<close> is the answer of a failure,
  \<open>Inr\<close> the stream that was stopped, if there was one.\<close>

definition stop_before_close ::
    "'e cmd_env \<Rightarrow> string \<Rightarrow> SessionResult \<Rightarrow> string \<Rightarrow> ('e, (int \<times> string) + string option) cmd" where
  "stop_before_close env connection_id session device_id =
     bind_io (on_video (StopStream connection_id device_id)) (\<lambda>stream.
     if IsOkStatusCode (st_code stream) then
       bind_io (on_outside (StopVideo (ce_providers env) (sn_auth_context session) \<lparr> vpr_device_id = device_id \<rparr>))
         (\<lambda>stopped.
         if \<not> IsOkStatusCode (vps_code stopped) then ret (Inl (vps_code stopped, vps_message stopped))
         else seq_io (stream_closed env (sb_stream_id (st_binding stream)))
                (ret (Inr (Some (sb_stream_id (st_binding stream))))))
     else if st_code stream \<noteq> ToCode StreamNotFound then ret (Inl (st_code stream, st_message stream))
     else ret (Inr None))"

definition HandleDeviceClose :: "'e cmd_env \<Rightarrow> string \<Rightarrow> Request \<Rightarrow> ('e, json) cmd" where
  "HandleDeviceClose env connection_id request =
     with_capability env connection_id request (\<lambda>session.
     let device_id = param request ''device_id'' in
     if device_id = [] then bad_params env request ''device_id required''
     else bind_io (stop_before_close env connection_id session device_id) (\<lambda>stopped.
       case stopped of
         Inl (code, message) \<Rightarrow> reject env (rq_request_id request) code message
       | Inr stream \<Rightarrow>
           bind_io (on_outside (CloseDevice (ce_providers env) (sn_auth_context session)
                                  \<lparr> dcr_device_id = device_id \<rparr>)) (\<lambda>closed.
           if \<not> IsOkStatusCode (dcs_code closed)
           then reject env (rq_request_id request) (dcs_code closed) (dcs_message closed)
           else seq_io (modify_io (ForgetOpenedDevice connection_id device_id))
             (bind_io (gets_io device_provider_name) (\<lambda>provider.
             succeed env (rq_request_id request)
               (obj [(''device_id'', JString device_id), (''closed'', JBool (dcs_closed closed)),
                     (''was_opened'', JBool (dcs_was_opened closed)),
                     (''stopped_stream'', JBool (stream \<noteq> None)),
                     (''stream_id'', JString (case stream of None \<Rightarrow> [] | Some i \<Rightarrow> i)),
                     (''provider'', provider)]))))))"

section \<open>The output size of a capture\<close>

definition profile_size :: "SdkCaptureProfile \<Rightarrow> int \<times> int \<Rightarrow> SdkCaptureProfile" where
  "profile_size profile dims = profile\<lparr> cp_output_target_width := fst dims, cp_output_target_height := snd dims \<rparr>"

definition unsupported_size :: "SdkCaptureProfile \<Rightarrow> string" where
  "unsupported_size profile = ''unsupported output.target_size: '' @ to_string (cp_output_target_size profile)"

definition pick_size ::
    "SdkCaptureProfile \<Rightarrow> SdkOutputTargetSizeOption list \<Rightarrow> (int \<times> string) + SdkCaptureProfile" where
  "pick_size profile sizes =
     (case find (\<lambda>t. tso_target_size t = cp_output_target_size profile) sizes of
        Some t \<Rightarrow>
          (let dims = (tso_width t, tso_height t);
               dims = (if fst dims \<le> 0 \<or> snd dims \<le> 0
                       then case ResolveSdkOutputTargetSize (tso_target_size t) of Some wh \<Rightarrow> wh | None \<Rightarrow> dims
                       else dims)
           in if fst dims \<le> 0 \<or> snd dims \<le> 0 then Inl (ToCode InvalidParams, unsupported_size profile)
              else Inr (profile_size profile dims))
      | None \<Rightarrow>
          (let allowed = FormatOutputTargetSizeList sizes in
           Inl (ToCode InvalidParams,
                if allowed = [] then unsupported_size profile
                else unsupported_size profile @ '', allowed: '' @ allowed)))"

definition ApplyCaptureOutputCapabilities ::
    "'e cmd_env \<Rightarrow> AuthContext \<Rightarrow> SdkCaptureProfile \<Rightarrow> ('e, (int \<times> string) + SdkCaptureProfile) cmd" where
  "ApplyCaptureOutputCapabilities env ac profile =
     (if cp_output_target_size profile \<le> 0 then ret (Inr profile)
      else if cp_device_id profile = [] then
        ret (Inl (ToCode InvalidParams, ''device_id required for output.target_size''))
      else bind_io (on_outside (GetDevice (ce_providers env) ac (cp_device_id profile))) (\<lambda>result.
        if \<not> IsOkStatusCode (dg_code result) then ret (Inl (dg_code result, dg_message result))
        else let capabilities = dev_capture_output (dg_device result) in
          if \<not> coc_target_size_supported capabilities \<or> coc_target_sizes capabilities = [] then
            ret (Inr (profile_size (profile\<lparr>cp_output_target_size := 0\<rparr>) (0, 0)))
          else ret (pick_size profile (coc_target_sizes capabilities))))"

end
