(* ===== verification/Command_Files.thy ===== *)
theory Command_Files
  imports Command_Core
begin

text \<open>
  Uploads and assets of the command service (\<open>application/command_application_service.cpp\<close>): which files
  are accepted, where they are kept, and who may read them.
\<close>

section \<open>Names and types of files\<close>

text \<open>The part after the last separator, and what follows its last dot, in lower case.\<close>

definition leaf_name :: "string \<Rightarrow> string" where
  "leaf_name filename = rev (takeWhile (\<lambda>c. \<not> is_sep c) (rev filename))"

definition after_last_dot :: "string \<Rightarrow> string" where
  "after_last_dot s = (if CHR ''.'' \<in> set s then rev (takeWhile (\<lambda>c. c \<noteq> CHR ''.'') (rev s)) else [])"

definition ExtensionFromFilename :: "string \<Rightarrow> string" where
  "ExtensionFromFilename filename = to_lower (after_last_dot (leaf_name filename))"

definition ImageExtensionForContentType :: "string \<Rightarrow> string \<Rightarrow> string" where
  "ImageExtensionForContentType content_type filename =
     (let type = to_lower content_type; extension = ExtensionFromFilename filename in
      if has_substring ''png'' type \<or> extension = ''png'' then ''png''
      else if has_substring ''bmp'' type \<or> extension = ''bmp'' then ''bmp''
      else if has_substring ''tiff'' type \<or> extension = ''tif'' \<or> extension = ''tiff'' then ''tiff''
      else if has_substring ''webp'' type \<or> extension = ''webp'' then ''webp''
      else ''jpg'')"

definition IsSupportedImageExtension :: "string \<Rightarrow> bool" where
  "IsSupportedImageExtension extension \<longleftrightarrow>
     to_lower extension \<in> {''jpg'', ''jpeg'', ''png'', ''bmp'', ''tif'', ''tiff'', ''webp''}"

definition IsSupportedImageMimeType :: "string \<Rightarrow> bool" where
  "IsSupportedImageMimeType content_type \<longleftrightarrow>
     starts_with ''image/'' (to_lower content_type) \<or>
     to_lower content_type \<in> {''application/bmp'', ''application/x-bmp'', ''application/tif'', ''application/tiff''}"

definition short_extension :: "string \<Rightarrow> string" where
  "short_extension e = (if e = ''jpeg'' then ''jpg'' else if e = ''tif'' then ''tiff'' else e)"

definition ResolveImageAssetExtension :: "string \<Rightarrow> string \<Rightarrow> string" where
  "ResolveImageAssetExtension content_type filename =
     (let extension = short_extension (to_lower (ExtensionFromFilename filename)) in
      if extension \<noteq> [] then extension
      else short_extension (to_lower (ImageExtensionForContentType content_type filename)))"

definition IsSupportedUploadExtension :: "string \<Rightarrow> bool" where
  "IsSupportedUploadExtension extension =
     (let value = short_extension (to_lower extension) in
      IsSupportedImageExtension value \<or> value = ''pdf'' \<or> value = ''ofd'')"

definition ContentTypeForImageExtension :: "string \<Rightarrow> string" where
  "ContentTypeForImageExtension extension =
     (let value = to_lower extension in
      if value = ''png'' then ''image/png'' else if value = ''bmp'' then ''image/bmp''
      else if value = ''tif'' \<or> value = ''tiff'' then ''image/tiff''
      else if value = ''webp'' then ''image/webp'' else ''image/jpeg'')"

definition ContentTypeForUploadExtension :: "string \<Rightarrow> string" where
  "ContentTypeForUploadExtension extension =
     (let value = short_extension (to_lower extension) in
      if value = ''pdf'' then ''application/pdf'' else if value = ''ofd'' then ''application/vnd.ofd''
      else ContentTypeForImageExtension value)"

definition UploadExtensionForContentType :: "string \<Rightarrow> string \<Rightarrow> string" where
  "UploadExtensionForContentType content_type filename =
     (let type = to_lower content_type; extension = short_extension (to_lower (ExtensionFromFilename filename)) in
      if has_substring ''pdf'' type \<or> extension = ''pdf'' then ''pdf''
      else if has_substring ''ofd'' type \<or> extension = ''ofd'' then ''ofd''
      else ImageExtensionForContentType content_type filename)"

definition ContentTypeForOutputFormat :: "string \<Rightarrow> string" where
  "ContentTypeForOutputFormat format =
     (let value = to_lower format in
      if value = ''png'' then ''image/png''
      else if value = ''tif'' \<or> value = ''tiff'' then ''image/tiff'' else ''image/jpeg'')"

text \<open>Opening truncates; a refused write leaves what was written, here nothing.\<close>

definition WriteBinaryFile :: "os_env \<Rightarrow> string \<Rightarrow> string \<Rightarrow> 'e world \<Rightarrow> bool \<times> 'e world" where
  "WriteBinaryFile os path content w =
     (let out = os_canon os path; (opened, w) = syscall os w in
      if \<not> opened \<or> w_dirs w out then (False, w)
      else let w = w\<lparr>w_files := (w_files w)(out \<mapsto> [])\<rparr>; (written, w) = syscall os w in
        if \<not> written then (False, w) else (True, w\<lparr>w_files := (w_files w)(out \<mapsto> content)\<rparr>))"

section \<open>Assets of images\<close>

record AssetAccessResult =
  aa_code :: int
  aa_message :: string
  aa_asset :: SdkCaptureAsset

definition default_AssetAccessResult :: AssetAccessResult where
  "default_AssetAccessResult = \<lparr> aa_code = ToCode Ok, aa_message = ''ok'', aa_asset = default_SdkCaptureAsset \<rparr>"

definition asset_error :: "int \<Rightarrow> string \<Rightarrow> AssetAccessResult" where
  "asset_error code message = default_AssetAccessResult\<lparr> aa_code := code, aa_message := message \<rparr>"

definition NextImageTaskId :: "'e cmd_env \<Rightarrow> ('e, string) cmd" where
  "NextImageTaskId env = step_io (\<lambda>s.
     (''img-'' @ to_string (ce_now env (the_world s)) @ ''-'' @ dec (cm_next_image_task_seq s),
      s\<lparr>cm_next_image_task_seq := cm_next_image_task_seq s + 1\<rparr>))"

definition AttachImageAssetUrls :: "'e cmd_env \<Rightarrow> string \<Rightarrow> SdkCaptureAsset \<Rightarrow> SdkCaptureAsset" where
  "AttachImageAssetUrls env task_id asset =
     (let url = BuildSdkAssetBaseUrl (ce_config env) @ ''/api/assets/'' @ task_id @ ''/'' @ as_asset_id asset
      in asset\<lparr> as_url := url, as_download_url := url @ ''/download'' \<rparr>)"

definition RegisterImageAsset ::
    "string \<Rightarrow> string \<Rightarrow> SdkCaptureAsset \<Rightarrow> 'e CommandApplicationService \<Rightarrow> 'e CommandApplicationService" where
  "RegisterImageAsset connection_id task_id asset s = s
     \<lparr> cm_image_owner := smap_put task_id connection_id (cm_image_owner s),
       cm_image_assets := inner_put task_id (as_asset_id asset) asset (cm_image_assets s) \<rparr>"

definition ResolveImageAsset ::
    "string \<Rightarrow> string \<Rightarrow> string \<Rightarrow> 'e CommandApplicationService \<Rightarrow> AssetAccessResult" where
  "ResolveImageAsset connection_id task_id asset_id s =
     (case map_of (cm_image_owner s) task_id of
        None \<Rightarrow> asset_error (ToCode InvalidParams) ''image asset task not found''
      | Some owner \<Rightarrow>
          if owner \<noteq> connection_id then asset_error (ToCode CapabilityNotAllowed) ''asset belongs to another connection''
          else case map_of (cm_image_assets s) task_id of
            None \<Rightarrow> asset_error (ToCode InvalidParams) ''image asset task not found''
          | Some assets \<Rightarrow> (case map_of assets asset_id of
              None \<Rightarrow> asset_error (ToCode InvalidParams) ''image asset not found''
            | Some asset \<Rightarrow> default_AssetAccessResult\<lparr>aa_asset := asset\<rparr>))"

text \<open>The original of an upload, when it is an image: \<open>Inl\<close> is the answer of a failure, \<open>Inr\<close> the path
  and the extension.\<close>

definition ResolveImageInputAsset ::
    "string \<Rightarrow> string \<Rightarrow> string \<Rightarrow> 'e CommandApplicationService \<Rightarrow> (int \<times> string) + (string \<times> string)" where
  "ResolveImageInputAsset connection_id input_upload_id method_name s =
     (let input = ResolveImageAsset connection_id input_upload_id ''asset-original'' s;
          path = as_path (aa_asset input); type = as_content_type (aa_asset input);
          extension = ResolveImageAssetExtension type path
      in if \<not> IsOkStatusCode (aa_code input) then Inl (aa_code input, aa_message input)
         else if ExtensionFromFilename path = [] \<and> \<not> IsSupportedImageMimeType type \<or> extension = [] \<or>
                 \<not> IsSupportedImageExtension extension
           then Inl (ToCode InvalidParams, method_name @ '' only supports image inputs'')
         else Inr (path, extension))"

definition ResolveImageInputPath ::
    "string \<Rightarrow> string \<Rightarrow> string \<Rightarrow> 'e CommandApplicationService \<Rightarrow> (int \<times> string) + string" where
  "ResolveImageInputPath connection_id input_upload_id method_name s =
     map_sum id fst (ResolveImageInputAsset connection_id input_upload_id method_name s)"

section \<open>Reading an asset over HTTP\<close>

definition has_capability :: "'e cmd_env \<Rightarrow> string \<Rightarrow> 'e CommandApplicationService \<Rightarrow> string \<Rightarrow> bool" where
  "has_capability env connection_id s capability =
     IsOkStatusCode (sn_code (RequireCapability (ce_auth env) connection_id capability (cm_auth s)))"

definition capture_asset ::
    "'e cmd_env \<Rightarrow> string \<Rightarrow> string \<Rightarrow> string \<Rightarrow> 'e CommandApplicationService \<Rightarrow> AssetAccessResult" where
  "capture_asset env connection_id task_id asset_id s =
     (if \<not> has_capability env connection_id s ''capture.get''
      then asset_error (ToCode CapabilityNotAllowed) ''capability not allowed''
      else let r = GetAsset connection_id task_id asset_id (cm_capture s)
           in \<lparr> aa_code = ar_code r, aa_message = ar_message r, aa_asset = ar_asset r \<rparr>)"

definition enhance_asset ::
    "'e cmd_env \<Rightarrow> string \<Rightarrow> string \<Rightarrow> string \<Rightarrow> 'e CommandApplicationService \<Rightarrow> SdkCaptureAsset option" where
  "enhance_asset env connection_id task_id asset_id s =
     (if \<not> has_capability env connection_id s ''image.enhance'' then None
      else let task = GetTask_enhance (BuildSdkAssetBaseUrl (ce_config env)) connection_id task_id (cm_enhance s) in
        if IsOkStatusCode (it_code task) then find (\<lambda>a. as_asset_id a = asset_id) (it_assets task) else None)"

definition ResolveAsset ::
    "'e cmd_env \<Rightarrow> string \<Rightarrow> string \<Rightarrow> string \<Rightarrow> 'e CommandApplicationService \<Rightarrow> AssetAccessResult" where
  "ResolveAsset env session_token task_id asset_id s =
     (let session = RequireSessionToken session_token (cm_auth s); c = sn_connection_id session;
          image = ResolveImageAsset c task_id asset_id s
      in if \<not> IsOkStatusCode (sn_code session) then asset_error (sn_code session) (sn_message session)
         else if IsOkStatusCode (aa_code image) then
           (if list_ex (has_capability env c s)
                 [''image.process'', ''image.enhance'', ''file.convert'', ''ocr.recognize'', ''sane.scan'']
            then image else asset_error (ToCode CapabilityNotAllowed) ''capability not allowed'')
         else case enhance_asset env c task_id asset_id s of
           Some asset \<Rightarrow> default_AssetAccessResult\<lparr>aa_asset := asset\<rparr>
         | None \<Rightarrow> capture_asset env c task_id asset_id s)"

section \<open>Uploading\<close>

record ImageUploadResult =
  up_code :: int
  up_message :: string
  up_upload_id :: string
  up_asset :: SdkCaptureAsset

definition default_ImageUploadResult :: ImageUploadResult where
  "default_ImageUploadResult =
     \<lparr> up_code = ToCode Ok, up_message = ''ok'', up_upload_id = [], up_asset = default_SdkCaptureAsset \<rparr>"

definition upload_error :: "int \<Rightarrow> string \<Rightarrow> ImageUploadResult" where
  "upload_error code message = default_ImageUploadResult\<lparr> up_code := code, up_message := message \<rparr>"

text \<open>An upload with an extension needs a supported one; without, a type that is not reliable or is
  supported.\<close>

definition upload_accepted :: "string \<Rightarrow> string \<Rightarrow> bool" where
  "upload_accepted filename content_type =
     (let type = to_lower content_type; extension = to_lower (ExtensionFromFilename filename);
          typed = (IsSupportedImageMimeType type \<or> has_substring ''pdf'' type \<or> has_substring ''ofd'' type);
          reliable = (type \<noteq> [] \<and> type \<noteq> ''application/octet-stream'')
      in extension \<noteq> [] \<and> IsSupportedUploadExtension extension \<or>
         extension = [] \<and> (\<not> reliable \<or> typed))"

definition uploaded_asset :: "string \<Rightarrow> string \<Rightarrow> string \<Rightarrow> nat \<Rightarrow> SdkCaptureAsset" where
  "uploaded_asset path content_type extension bytes = default_SdkCaptureAsset
     \<lparr> as_asset_id := ''asset-original'', as_kind := ''original'', as_path := path,
       as_content_type := (if content_type = [] \<or> content_type = ''application/octet-stream''
                           then ContentTypeForUploadExtension extension else content_type),
       as_size := bytes \<rparr>"

definition kMaxUploadBytes :: nat where
  "kMaxUploadBytes = 50 * 1024 * 1024"

definition check_upload ::
    "'e cmd_env \<Rightarrow> string \<Rightarrow> string \<Rightarrow> string \<Rightarrow> string \<Rightarrow> 'e CommandApplicationService \<Rightarrow> (int \<times> string) + string" where
  "check_upload env session_token filename content_type content s =
     (let session = RequireSessionToken session_token (cm_auth s); c = sn_connection_id session in
      if \<not> IsOkStatusCode (sn_code session) then Inl (sn_code session, sn_message session)
      else if \<not> list_ex (has_capability env c s) [''image.process'', ''image.enhance'', ''file.convert'']
        then Inl (ToCode CapabilityNotAllowed, ''capability not allowed'')
      else if content = [] then Inl (ToCode UploadFileEmpty, ''uploaded file is empty'')
      else if length content > kMaxUploadBytes then Inl (ToCode UploadFileTooLarge, ''uploaded file exceeds 50MB limit'')
      else if \<not> upload_accepted filename content_type
        then Inl (ToCode InvalidParams, ''uploaded file must be an image, PDF, OFD, or TIFF'')
      else Inr c)"

definition store_upload ::
    "'e cmd_env \<Rightarrow> string \<Rightarrow> string \<Rightarrow> string \<Rightarrow> string \<Rightarrow> ('e, ImageUploadResult) cmd" where
  "store_upload env connection_id filename content_type content =
     bind_io (NextImageTaskId env) (\<lambda>task_id.
     let asset_dir = GetSdkOpenTaskAssetDir (ce_work_dir env) ''image'' task_id ''assets'';
         extension = UploadExtensionForContentType content_type filename;
         path = JoinPath asset_dir (''original.'' @ extension) in
     bind_io (on_outside (world_op (EnsureDirectoryRecursive (ce_os env) asset_dir))) (\<lambda>made.
     if \<not> made then ret (upload_error (ToCode InternalError) ''failed to create image upload directory'')
     else bind_io (on_outside (world_op (WriteBinaryFile (ce_os env) path content))) (\<lambda>written.
       if \<not> written then ret (upload_error (ToCode InternalError) ''failed to write uploaded file'')
       else bind_io (gets_io (\<lambda>s. FileSize (ce_os env) path (the_world s))) (\<lambda>bytes.
         let asset = AttachImageAssetUrls env task_id (uploaded_asset path content_type extension bytes) in
         seq_io (modify_io (RegisterImageAsset connection_id task_id asset))
           (ret (default_ImageUploadResult\<lparr> up_upload_id := task_id, up_asset := asset \<rparr>))))))"

definition UploadImage ::
    "'e cmd_env \<Rightarrow> string \<Rightarrow> string \<Rightarrow> string \<Rightarrow> string \<Rightarrow> ('e, ImageUploadResult) cmd" where
  "UploadImage env session_token filename content_type content =
     bind_io (gets_io (check_upload env session_token filename content_type content)) (\<lambda>r. case r of
       Inl (code, message) \<Rightarrow> ret (upload_error code message)
     | Inr connection_id \<Rightarrow> store_upload env connection_id filename content_type content)"

end
