(* ===== verification/Command_Tools.thy ===== *)
theory Command_Tools
  imports Command_Files
begin

text \<open>
  The small functions the handlers of \<open>application/command_application_service.cpp\<close> share: paths,
  formats of images, documents and texts, and images sent as base64.  The Windows branches of the
  path functions are left out: on the other platforms they find nothing wrong and change nothing.
\<close>

definition or_keep :: "string \<Rightarrow> string \<Rightarrow> string" where
  "or_keep value old = (if value \<noteq> [] then value else old)"

section \<open>Paths\<close>

definition drop_trailing_seps :: "string \<Rightarrow> string" where
  "drop_trailing_seps path = rev (dropWhile is_sep (rev path))"

definition LastPathSegment :: "string \<Rightarrow> string" where
  "LastPathSegment path = leaf_name (drop_trailing_seps path)"

definition LooksLikeFilePathWithSuffix :: "string \<Rightarrow> bool" where
  "LooksLikeFilePathWithSuffix path =
     (let leaf = LastPathSegment path in
      leaf \<noteq> [] \<and> leaf \<noteq> ''.'' \<and> leaf \<noteq> ''..'' \<and> after_last_dot leaf \<noteq> [])"

text \<open>\<open>Inl\<close> is the error of the function, \<open>Inr\<close> the directory.\<close>

definition ValidateTwainOutputDirectoryPath :: "string \<Rightarrow> string \<Rightarrow> string + string" where
  "ValidateTwainOutputDirectoryPath raw_path field_name =
     (if raw_path \<noteq> [] \<and> LooksLikeFilePathWithSuffix raw_path
      then Inl (''TWAIN output path must be a directory without file extension: field='' @ field_name @
                '', path='' @ raw_path)
      else Inr raw_path)"

definition LooksLikeDirectoryOutputPath :: "string \<Rightarrow> bool" where
  "LooksLikeDirectoryOutputPath path \<longleftrightarrow>
     path \<noteq> [] \<and> (is_sep (last path) \<or> CHR ''.'' \<notin> set (leaf_name path))"

text \<open>A hint that is there replaces the directory and clears the path.\<close>

definition ApplyTwainOutputPathHint :: "string \<Rightarrow> string \<Rightarrow> SdkTwainScanRequest \<Rightarrow> string + SdkTwainScanRequest" where
  "ApplyTwainOutputPathHint path field_name request =
     (if path = [] then Inr request
      else map_sum id (\<lambda>dir. request\<lparr> twScanRequest_output_dir := dir, twScanRequest_output_path := [] \<rparr>)
        (ValidateTwainOutputDirectoryPath path field_name))"

definition EnsureTwainOutputDirectoryReady :: "os_env \<Rightarrow> string \<Rightarrow> 'e world \<Rightarrow> (string + string) \<times> 'e world" where
  "EnsureTwainOutputDirectoryReady os raw_dir w =
     (if raw_dir = [] then (Inr [], w)
      else case EnsureDirectoryRecursive os raw_dir w of (made, w) \<Rightarrow>
        (if made then Inr raw_dir
         else Inl (''failed to create TWAIN output directory: output_dir='' @ raw_dir), w))"

definition parent_of :: "string \<Rightarrow> string" where
  "parent_of path = take (length path - length (leaf_name path) - 1) path"

definition ParentPath :: "string \<Rightarrow> string" where
  "ParentPath path =
     (let dir = parent_of path in
      if \<not> list_ex is_sep path then ''.''
      else if length dir = 2 \<and> is_alpha (path ! 0) \<and> path ! 1 = CHR '':'' then take 3 path
      else if dir = [] then take 1 path
      else dir)"

definition slash_style :: "char \<Rightarrow> char" where
  "slash_style c = (if c = CHR 0x5C then CHR ''/'' else c)"

definition StringEqualsIgnoreSlashStyle :: "string \<Rightarrow> string \<Rightarrow> bool" where
  "StringEqualsIgnoreSlashStyle lhs rhs \<longleftrightarrow> map slash_style lhs = map slash_style rhs"

fun drop_slashes :: "string \<Rightarrow> string" where
  "drop_slashes (c # d # s) = (if c = CHR ''/'' then drop_slashes (d # s) else c # d # s)"
| "drop_slashes s = s"

definition NormalizePathSlashStyle :: "string \<Rightarrow> string" where
  "NormalizePathSlashStyle path = rev (drop_slashes (rev (map slash_style path)))"

definition EndsWithPathSegment :: "string \<Rightarrow> string \<Rightarrow> bool" where
  "EndsWithPathSegment path segment \<longleftrightarrow>
     starts_with (rev (CHR ''/'' # to_lower segment)) (rev (to_lower (NormalizePathSlashStyle path)))"

definition ContainsPath :: "string list \<Rightarrow> string \<Rightarrow> bool" where
  "ContainsPath paths path = list_ex (\<lambda>p. StringEqualsIgnoreSlashStyle p path) paths"

section \<open>Formats\<close>

definition InferOutputFormatFromPath :: "string \<Rightarrow> string" where
  "InferOutputFormatFromPath output_path =
     (if after_last_dot output_path = [] then ''jpg''
      else short_extension (to_lower (after_last_dot output_path)))"

definition NormalizeImageFormat :: "string \<Rightarrow> string" where
  "NormalizeImageFormat format = short_extension (to_lower format)"

definition ExtensionForImageFormat :: "string \<Rightarrow> string" where
  "ExtensionForImageFormat format = NormalizeImageFormat format"

definition IsGraphicConvertFormat :: "string \<Rightarrow> bool" where
  "IsGraphicConvertFormat format \<longleftrightarrow> NormalizeImageFormat format \<in> {''jpg'', ''png'', ''tiff''}"

definition IsFileConvertFormat :: "string \<Rightarrow> bool" where
  "IsFileConvertFormat format \<longleftrightarrow> NormalizeImageFormat format \<in> {''jpg'', ''png'', ''tiff'', ''pdf'', ''ofd''}"

definition IsFileConvertDocumentSourceFormat :: "string \<Rightarrow> bool" where
  "IsFileConvertDocumentSourceFormat format \<longleftrightarrow> NormalizeImageFormat format \<in> {''pdf'', ''ofd'', ''tiff''}"

definition IsFileConvertSourceType :: "string \<Rightarrow> bool" where
  "IsFileConvertSourceType source_type \<longleftrightarrow>
     NormalizeImageFormat source_type \<in> {''image'', ''images'', ''base64'', ''pdf'', ''ofd'', ''tiff''}"

definition IsFileConvertImageSourceType :: "string \<Rightarrow> bool" where
  "IsFileConvertImageSourceType source_type \<longleftrightarrow> NormalizeImageFormat source_type \<in> {''image'', ''images'', ''base64''}"

definition IsTwainDocumentOutputFinal :: "SdkTwainScanTask \<Rightarrow> string \<Rightarrow> bool" where
  "IsTwainDocumentOutputFinal task document_target \<longleftrightarrow>
     twScanTask_status task = ''completed'' \<and> twScanTask_output_paths task \<noteq> [] \<and>
     NormalizeImageFormat (twScanTask_output_format task) = document_target \<and>
     list_all (\<lambda>p. NormalizeImageFormat (ExtensionFromFilename p) = document_target) (twScanTask_output_paths task)"

definition IsTwainDocumentTarget :: "string \<Rightarrow> bool" where
  "IsTwainDocumentTarget document_target \<longleftrightarrow> document_target \<in> {''pdf'', ''ofd'', ''tiff''}"

definition IsTwainDocumentConversionInProgress :: "SdkTwainScanTask \<Rightarrow> string \<Rightarrow> bool" where
  "IsTwainDocumentConversionInProgress task document_target \<longleftrightarrow>
     twScanTask_status task = ''converting'' \<and>
     NormalizeImageFormat (twScanTask_output_type task) = document_target \<and> twScanTask_output_paths task \<noteq> []"

definition ShouldUseCachedTwainDocumentTask :: "SdkTwainScanTask \<Rightarrow> string \<Rightarrow> bool" where
  "ShouldUseCachedTwainDocumentTask task document_target \<longleftrightarrow>
     IsTwainDocumentOutputFinal task document_target \<or> IsTwainDocumentConversionInProgress task document_target"

definition IsTwainImageTargetFormat :: "string \<Rightarrow> bool" where
  "IsTwainImageTargetFormat value \<longleftrightarrow> NormalizeImageFormat value \<in> {''jpg'', ''png'', ''bmp'', ''tiff''}"

definition IsTwainOutputType :: "string \<Rightarrow> bool" where
  "IsTwainOutputType value \<longleftrightarrow> NormalizeImageFormat value \<in> {''images'', ''pdf'', ''ofd'', ''tiff''}"

definition IsTwainExportType :: "string \<Rightarrow> bool" where
  "IsTwainExportType value \<longleftrightarrow> value = ''multi-page'' \<or> value = ''single-page''"

definition FormatTwainPageIndex :: "nat \<Rightarrow> string" where
  "FormatTwainPageIndex index = pad3 index"

definition IsTwainInternalPagesDir :: "string \<Rightarrow> SdkTwainScanTask \<Rightarrow> string \<Rightarrow> bool" where
  "IsTwainInternalPagesDir work_dir task dir =
     (if twScanTask_task_id task = [] \<or> dir = [] then False
      else let in_tasks = has_substring ''/tasks/twain/'' (to_lower (NormalizePathSlashStyle dir)) in
        StringEqualsIgnoreSlashStyle dir (GetSdkOpenTaskAssetDir work_dir ''twain'' (twScanTask_task_id task) ''pages'') \<or>
        in_tasks \<and> EndsWithPathSegment dir ''pages'' \<or>
        list_ex (\<lambda>p. StringEqualsIgnoreSlashStyle (ParentPath p) dir \<and> in_tasks \<and> EndsWithPathSegment dir ''pages'')
          (twScanTask_output_paths task))"

definition IsTwainIntermediatePagePath :: "SdkTwainScanTask \<Rightarrow> string \<Rightarrow> bool" where
  "IsTwainIntermediatePagePath task path \<longleftrightarrow>
     path \<noteq> [] \<and> (ContainsPath (twScanTask_output_paths task) path \<or>
       NormalizeImageFormat (ExtensionFromFilename path) \<in> {''bmp'', ''jpg'', ''png'', ''webp''})"

definition ExtensionForFileConvertFormat :: "string \<Rightarrow> string" where
  "ExtensionForFileConvertFormat format = NormalizeImageFormat format"

definition ContentTypeForFileConvertFormat :: "string \<Rightarrow> string" where
  "ContentTypeForFileConvertFormat format =
     (let value = NormalizeImageFormat format in
      if value = ''pdf'' then ''application/pdf'' else if value = ''ofd'' then ''application/vnd.ofd''
      else ContentTypeForImageExtension value)"

definition ContentTypeForOcrFormat :: "string \<Rightarrow> string" where
  "ContentTypeForOcrFormat format =
     (let value = to_lower format in
      if value = ''pdf'' then ''application/pdf''
      else if value = ''ofd'' then ''application/vnd.ofd''
      else if value = ''txt'' then ''text/plain''
      else if value = ''docx'' then ''application/vnd.openxmlformats-officedocument.wordprocessingml.document''
      else if value = ''xlsx'' then ''application/vnd.openxmlformats-officedocument.spreadsheetml.sheet''
      else if value = ''json'' then ''application/json'' else ''application/octet-stream'')"

definition NormalizeExportType :: "string \<Rightarrow> string" where
  "NormalizeExportType value =
     (let v = to_lower value in
      if v = ''single_page'' then ''single-page'' else if v = ''multi_page'' then ''multi-page'' else v)"

definition DefaultExportTypeForFileConvert :: "string \<Rightarrow> string" where
  "DefaultExportTypeForFileConvert output_format =
     (if NormalizeImageFormat output_format \<in> {''jpg'', ''png''} then ''single-page'' else ''multi-page'')"

definition OutputPathForIndexedAsset :: "string \<Rightarrow> string \<Rightarrow> string \<Rightarrow> int \<Rightarrow> string \<Rightarrow> string" where
  "OutputPathForIndexedAsset output_dir output_path prefix index extension =
     (if index = 0 \<and> output_path \<noteq> [] then output_path
      else JoinPath output_dir
        (prefix @ (if 0 < index then CHR ''-'' # pad3 (nat (index + 1)) else []) @ ''.'' @ extension))"

end
