(* ===== verification/Command_Capture.thy ===== *)
theory Command_Capture
  imports Command_Core
begin

text \<open>
  The capture and video handlers of the command service and the captures a device starts itself
  (\<open>application/command_application_service.cpp\<close>).
\<close>

section \<open>Taking a capture\<close>

definition retry_data :: "int \<Rightarrow> json" where
  "retry_data retry_after_ms =
     (if retry_after_ms > 0 then obj [(''retry_after_ms'', JInt retry_after_ms)] else obj [])"

definition take_request ::
    "'e cmd_env \<Rightarrow> string \<Rightarrow> Request \<Rightarrow> SessionResult \<Rightarrow> SdkCaptureProfile \<Rightarrow> string \<Rightarrow> CaptureTaskStartRequest" where
  "take_request env connection_id request session profile url =
     (let params = rq_params request in default_CaptureTaskStartRequest
      \<lparr> tq_connection_id := connection_id, tq_session_token := sn_session_token session,
        tq_device_id := param request ''device_id'', tq_output_dir := param request ''output_dir'',
        tq_include_base64 := GetOptionalBoolField params ''include_base64'' False,
        tq_timeout_ms := GetOptionalIntField params ''timeout_ms'' kDefaultCaptureTimeoutMs,
        tq_auth_context := sn_auth_context session, tq_profile := profile,
        tq_pipeline := ParseImageEnhancePipeline (ce_dump env) (GetOptionalObjectField params ''pipeline''),
        tq_online_api_key := sn_token session, tq_online_base_url := url \<rparr>)"

text \<open>The first \<open>try\<close> block: every exception becomes an answer.\<close>

definition prepare_take ::
    "'e cmd_env \<Rightarrow> string \<Rightarrow> Request \<Rightarrow> SessionResult \<Rightarrow> ('e, (int \<times> string) + CaptureTaskStartRequest) cmd" where
  "prepare_take env connection_id request session = catch_io
     (let device_id = param request ''device_id'' in
      case TryParseCaptureProfile (rq_params request) device_id of
        Inl e \<Rightarrow> ret (Inl (ToCode InvalidParams, e))
      | Inr profile \<Rightarrow>
          bind_io (ApplyCaptureOutputCapabilities env (sn_auth_context session) (profile\<lparr>cp_device_id := device_id\<rparr>))
            (\<lambda>r. case r of
               Inl e \<Rightarrow> ret (Inl e)
             | Inr profile \<Rightarrow> bind_io (gets_io (online_base_url env)) (\<lambda>url.
                 ret (Inr (take_request env connection_id request session profile url)))))
     (\<lambda>e. ret (Inl (ToCode InternalError, what e ''capture.take parse failed'')))"

definition reserve :: "'e cmd_env \<Rightarrow> CaptureTaskStartRequest \<Rightarrow> ('e, CaptureTaskStartResult) cmd" where
  "reserve env start =
     bind_io (gets_io the_world) (\<lambda>w. on_capture (ReserveTask (ce_steady env w) (ce_now env w) start))"

definition launch :: "'e cmd_env \<Rightarrow> string \<Rightarrow> ('e, CaptureTaskStartResult) cmd" where
  "launch env task_id =
     bind_io (gets_io the_world) (\<lambda>w. on_capture (StartReservedTask task_id (ce_thread env w)))"

definition abort :: "string \<Rightarrow> ('e, unit) cmd" where
  "abort task_id = on_capture (\<lambda>c. ((), AbortReservedTask task_id c))"

definition remember_take :: "CaptureTaskStartRequest \<Rightarrow> 'e CommandApplicationService \<Rightarrow> 'e CommandApplicationService" where
  "remember_take start s =
     RememberCapturePipeline (tq_connection_id start) (tq_device_id start) (tq_pipeline start)
       (tq_online_api_key start) (tq_online_base_url start)
       (RememberCaptureProfile (tq_connection_id start) (tq_device_id start) (tq_profile start) s)"

text \<open>Reserve, charge, start: a refused charge gives the reservation back.\<close>

definition submit_take :: "'e cmd_env \<Rightarrow> Request \<Rightarrow> CaptureTaskStartRequest \<Rightarrow> ('e, json) cmd" where
  "submit_take env request start =
     bind_io (reserve env start) (\<lambda>reserved.
     let rid = rq_request_id request; task_id = ts_task_id (sr_task reserved) in
     if \<not> IsOkStatusCode (sr_code reserved)
     then respond env rid (sr_code reserved) (sr_message reserved) (retry_data (sr_retry_after_ms reserved))
     else bind_io (ConsumeQuota_cmd env (tq_connection_id start) (rq_method request) rid 1) (\<lambda>quota.
       if \<not> IsOkStatusCode (sn_code quota)
       then seq_io (abort task_id) (reject env rid (sn_code quota) (sn_message quota))
       else bind_io (launch env task_id) (\<lambda>started.
         if \<not> IsOkStatusCode (sr_code started) then reject env rid (sr_code started) (sr_message started)
         else seq_io (modify_io (remember_take start))
           (succeed env rid (obj [(''accepted'', JBool (sr_accepted started)),
                                  (''task_id'', JString (ts_task_id (sr_task started))),
                                  (''status'', JString (ts_status (sr_task started)))])))))"

definition HandleCaptureTake :: "'e cmd_env \<Rightarrow> string \<Rightarrow> Request \<Rightarrow> ('e, json) cmd" where
  "HandleCaptureTake env connection_id request =
     with_capability env connection_id request (\<lambda>session.
     if param request ''device_id'' = [] then bad_params env request ''device_id required''
     else if jempty (GetOptionalObjectField (rq_params request) ''profile'')
       then bad_params env request ''profile required''
     else bind_io (prepare_take env connection_id request session) (\<lambda>r. case r of
         Inl (code, message) \<Rightarrow> reject env (rq_request_id request) code message
       | Inr start \<Rightarrow> submit_take env request start))"

section \<open>Captures\<close>

definition capture_get_json :: "CaptureTaskSnapshot \<Rightarrow> json" where
  "capture_get_json task = obj
     [(''task'', BuildCaptureTaskJson task), (''task_id'', JString (ts_task_id task)),
      (''status'', JString (ts_status task)), (''code'', JInt (ts_code task)),
      (''message'', JString (ts_message task)), (''device_id'', JString (ts_device_id task)),
      (''capture_source'', JString (ts_capture_source task)),
      (''acquisition_status'', JString (ts_acquisition_status task)),
      (''processing_status'', JString (ts_processing_status task)),
      (''profile_revision'', JInt (ts_profile_revision task)),
      (''stages'', JArray (map BuildStageJson (ts_stages task))),
      (''assets'', JArray (map BuildAssetJson (ts_assets task))),
      (''warnings'', strings_json (ts_warnings task)), (''error'', JString (ts_error task))]"

definition HandleCaptureGet :: "'e cmd_env \<Rightarrow> string \<Rightarrow> Request \<Rightarrow> ('e, json) cmd" where
  "HandleCaptureGet env connection_id request =
     with_capability env connection_id request (\<lambda>session.
     if param request ''task_id'' = [] then bad_params env request ''task_id required''
     else bind_io (gets_io (\<lambda>s. GetTask connection_id (param request ''task_id'') (cm_capture s))) (\<lambda>task.
       if \<not> IsOkStatusCode (ts_code task)
       then reject env (rq_request_id request) (ts_code task) (ts_message task)
       else succeed env (rq_request_id request) (capture_get_json task)))"

definition HandleCaptureSessionGet :: "'e cmd_env \<Rightarrow> string \<Rightarrow> Request \<Rightarrow> ('e, json) cmd" where
  "HandleCaptureSessionGet env connection_id request =
     with_capability env connection_id request (\<lambda>session.
     bind_io (gets_io (\<lambda>s. GetSessionSummaryUnlocked connection_id (cm_capture s))) (\<lambda>summary.
     succeed env (rq_request_id request) (obj [(''summary'', BuildCaptureSessionSummaryJson summary)])))"

definition turn_request :: "Request \<Rightarrow> SdkTurnDetectRequest" where
  "turn_request request =
     (let params = rq_params request in
      \<lparr> tdr_device_id = param request ''device_id'', tdr_enabled = GetOptionalBoolField params ''enabled'' False,
        tdr_auto_capture = GetOptionalBoolField params ''auto_capture'' False,
        tdr_scan_device_type = GetOptionalIntField params ''scan_device_type'' (-1),
        tdr_cooldown_ms = GetOptionalIntField params ''cooldown_ms'' 1000 \<rparr>)"

definition HandleCaptureSetTurnDetect :: "'e cmd_env \<Rightarrow> string \<Rightarrow> Request \<Rightarrow> ('e, json) cmd" where
  "HandleCaptureSetTurnDetect env connection_id request =
     with_capability env connection_id request (\<lambda>session.
     let turn = turn_request request in
     if tdr_device_id turn = [] then bad_params env request ''device_id required''
     else if tdr_cooldown_ms turn < 0 then bad_params env request ''cooldown_ms must be non-negative''
     else bind_io (on_outside (SetTurnDetect (ce_providers env) (sn_auth_context session) turn)) (\<lambda>result.
       if \<not> IsOkStatusCode (tds_code result)
       then reject env (rq_request_id request) (tds_code result) (tds_message result)
       else succeed env (rq_request_id request)
         (obj [(''device_id'', JString (tdr_device_id turn)), (''enabled'', JBool (tds_enabled result)),
               (''auto_capture'', JBool (tds_auto_capture result)),
               (''scan_device_type'', JInt (tds_scan_device_type result)),
               (''cooldown_ms'', JInt (tds_cooldown_ms result)), (''applied'', JBool (tds_applied result))])))"

section \<open>Video\<close>

text \<open>The profile a video request carries: \<open>Inl\<close> is the answer of a failure.\<close>

definition video_profile ::
    "'e cmd_env \<Rightarrow> SessionResult \<Rightarrow> string \<Rightarrow> json \<Rightarrow> ('e, (int \<times> string) + SdkCaptureProfile) cmd" where
  "video_profile env session device_id params =
     (case TryParseCaptureProfile params device_id of
        Inl e \<Rightarrow> ret (Inl (ToCode InvalidParams, e))
      | Inr profile \<Rightarrow>
          ApplyCaptureOutputCapabilities env (sn_auth_context session) (profile\<lparr>cp_device_id := device_id\<rparr>))"

definition video_pipeline :: "'e cmd_env \<Rightarrow> Request \<Rightarrow> SdkImageEnhancePipeline option" where
  "video_pipeline env request =
     (if jfind (rq_params request) ''pipeline'' = None then None
      else Some (ParseImageEnhancePipeline (ce_dump env) (GetOptionalObjectField (rq_params request) ''pipeline'')))"

definition remember_video ::
    "'e cmd_env \<Rightarrow> string \<Rightarrow> string \<Rightarrow> SessionResult \<Rightarrow> SdkCaptureProfile \<Rightarrow> SdkImageEnhancePipeline option \<Rightarrow>
     'e CommandApplicationService \<Rightarrow> 'e CommandApplicationService" where
  "remember_video env connection_id device_id session profile pipeline s =
     (let t = RememberCaptureProfile connection_id device_id profile s in
      case pipeline of
        None \<Rightarrow> t
      | Some p \<Rightarrow> RememberCapturePipeline connection_id device_id p (sn_token session) (online_base_url env s) t)"

definition or_default :: "int \<Rightarrow> int \<Rightarrow> int" where
  "or_default value fallback = (if value > 0 then value else fallback)"

definition start_video_request :: "Request \<Rightarrow> SdkVideoStartRequest" where
  "start_video_request request =
     (let params = rq_params request in default_SdkVideoStartRequest
      \<lparr> vsr_device_id := param request ''device_id'', vsr_width := GetOptionalIntField params ''width'' 0,
        vsr_height := GetOptionalIntField params ''height'' 0, vsr_fps := GetOptionalIntField params ''fps'' 0,
        vsr_pixel_format := NormalizeVideoPixelFormat (requested_pixel_format request) \<rparr>)"

text \<open>Only a profile in the request changes the processing of the preview.\<close>

definition with_profile :: "SdkCaptureProfile option \<Rightarrow> SdkVideoStartRequest \<Rightarrow> SdkVideoStartRequest" where
  "with_profile profile start =
     (case profile of None \<Rightarrow> start
      | Some p \<Rightarrow> start
          \<lparr> vsr_page_processing := cp_page_processing p,
            vsr_single_page_realtime_detect_rects := cp_single_page_realtime_detect_rects p,
            vsr_single_page_multi_target_paging := spo_multi_target_paging (cp_single_page p) \<rparr>)"

definition stream_json :: "string \<Rightarrow> StreamBinding \<Rightarrow> json" where
  "stream_json device_id b = obj
     [(''device_id'', JString device_id), (''stream_id'', JString (sb_stream_id b)),
      (''session_token'', JString (sb_session_token b)), (''pixel_format'', JString (sb_pixel_format b)),
      (''width'', JInt (sb_width b)), (''height'', JInt (sb_height b)), (''fps'', JInt (sb_fps b))]"

definition run_video_start ::
    "'e cmd_env \<Rightarrow> string \<Rightarrow> Request \<Rightarrow> SessionResult \<Rightarrow> SdkCaptureProfile option \<Rightarrow> ('e, json) cmd" where
  "run_video_start env connection_id request session profile =
     (let start = with_profile profile (start_video_request request);
          device_id = vsr_device_id start; rid = rq_request_id request in
      bind_io (on_video (RegisterStream connection_id (sn_session_token session) device_id (vsr_pixel_format start)
        (or_default (vsr_width start) 1280) (or_default (vsr_height start) 720) (or_default (vsr_fps start) 15)))
        (\<lambda>stream.
      let stream_id = sb_stream_id (st_binding stream) in
      bind_io (on_outside (StartVideo (ce_providers env) (sn_auth_context session) (start\<lparr>vsr_stream_id := stream_id\<rparr>)))
        (\<lambda>started.
      if \<not> IsOkStatusCode (vss_code started)
      then bind_io (on_video (StopStreamById stream_id)) (\<lambda>_. reject env rid (vss_code started) (vss_message started))
      else bind_io (on_video (UpdateStreamFormat connection_id device_id (vss_pixel_format started)
             (vss_width started) (vss_height started) (vss_fps started))) (\<lambda>updated.
        if \<not> IsOkStatusCode (st_code updated) then reject env rid (st_code updated) (st_message updated)
        else seq_io (modify_io (remember_video env connection_id device_id session
               (case profile of None \<Rightarrow> default_SdkCaptureProfile\<lparr>cp_device_id := device_id\<rparr> | Some p \<Rightarrow> p)
               (video_pipeline env request)))
             (succeed env rid (stream_json device_id (st_binding updated)))))))"

definition HandleVideoStart :: "'e cmd_env \<Rightarrow> string \<Rightarrow> Request \<Rightarrow> ('e, json) cmd" where
  "HandleVideoStart env connection_id request =
     with_capability env connection_id request (\<lambda>session.
     if param request ''device_id'' = [] then bad_params env request ''device_id required''
     else if \<not> IsSupportedVideoPixelFormat (requested_pixel_format request)
       then bad_params env request ''unsupported pixel_format''
     else if jempty (GetOptionalObjectField (rq_params request) ''profile'')
       then run_video_start env connection_id request session None
     else bind_io (video_profile env session (param request ''device_id'') (rq_params request)) (\<lambda>r. case r of
         Inl (code, message) \<Rightarrow> reject env (rq_request_id request) code message
       | Inr profile \<Rightarrow> run_video_start env connection_id request session (Some profile)))"
definition HandleVideoStop :: "'e cmd_env \<Rightarrow> string \<Rightarrow> Request \<Rightarrow> ('e, json) cmd" where
  "HandleVideoStop env connection_id request =
     with_capability env connection_id request (\<lambda>session.
     let device_id = param request ''device_id''; rid = rq_request_id request in
     if device_id = [] then bad_params env request ''device_id required''
     else bind_io (on_outside (StopVideo (ce_providers env) (sn_auth_context session) \<lparr> vpr_device_id = device_id \<rparr>))
       (\<lambda>stopped.
       if \<not> IsOkStatusCode (vps_code stopped) then reject env rid (vps_code stopped) (vps_message stopped)
       else bind_io (on_video (StopStream connection_id device_id)) (\<lambda>stream.
         if \<not> IsOkStatusCode (st_code stream) then reject env rid (st_code stream) (st_message stream)
         else seq_io (stream_closed env (sb_stream_id (st_binding stream)))
           (seq_io (modify_io (ForgetCaptureProfile connection_id device_id))
             (succeed env rid (obj [(''device_id'', JString device_id),
                (''stream_id'', JString (sb_stream_id (st_binding stream))), (''stopped'', JBool True)]))))))"

definition format_request :: "Request \<Rightarrow> SdkVideoFormatRequest" where
  "format_request request =
     (let params = rq_params request in
      \<lparr> vfr_device_id = param request ''device_id'',
        vfr_pixel_format = NormalizeVideoPixelFormat (requested_pixel_format request),
        vfr_width = GetOptionalIntField params ''width'' 1280, vfr_height = GetOptionalIntField params ''height'' 720,
        vfr_fps = GetOptionalIntField params ''fps'' 15 \<rparr>)"

definition HandleVideoSetFormat :: "'e cmd_env \<Rightarrow> string \<Rightarrow> Request \<Rightarrow> ('e, json) cmd" where
  "HandleVideoSetFormat env connection_id request =
     with_capability env connection_id request (\<lambda>session.
     let f = format_request request; rid = rq_request_id request in
     if vfr_device_id f = [] then bad_params env request ''device_id required''
     else if \<not> IsSupportedVideoPixelFormat (requested_pixel_format request)
       then bad_params env request ''unsupported pixel_format''
     else bind_io (on_outside (SetVideoFormat (ce_providers env) (sn_auth_context session) f)) (\<lambda>result.
       if \<not> IsOkStatusCode (vfs_code result) then reject env rid (vfs_code result) (vfs_message result)
       else bind_io (on_video (UpdateStreamFormat connection_id (vfr_device_id f) (vfr_pixel_format f)
              (vfr_width f) (vfr_height f) (vfr_fps f))) (\<lambda>stream.
         if \<not> IsOkStatusCode (st_code stream) then reject env rid (st_code stream) (st_message stream)
         else let b = st_binding stream in succeed env rid
           (obj [(''device_id'', JString (vfr_device_id f)), (''stream_id'', JString (sb_stream_id b)),
                 (''pixel_format'', JString (sb_pixel_format b)), (''width'', JInt (sb_width b)),
                 (''height'', JInt (sb_height b)), (''fps'', JInt (sb_fps b))]))))"

text \<open>A profile may stand under \<open>profile\<close> or directly in the parameters.\<close>

definition profile_params :: "json \<Rightarrow> json option" where
  "profile_params params =
     (if \<not> jempty (GetOptionalObjectField params ''profile'') then Some params
      else if \<exists>k \<in> {''capture'', ''device'', ''output'', ''page_processing'', ''single_page''}. jfind params k \<noteq> None
        then Some (obj [(''profile'', params)])
      else None)"

definition set_profile_request :: "string \<Rightarrow> SdkCaptureProfile \<Rightarrow> SdkVideoProfileRequest" where
  "set_profile_request device_id p =
     \<lparr> vlr_device_id = device_id, vlr_page_processing = cp_page_processing p,
       vlr_single_page_realtime_detect_rects = cp_single_page_realtime_detect_rects p,
       vlr_single_page_multi_target_paging = spo_multi_target_paging (cp_single_page p) \<rparr>"

definition set_profile_json :: "string \<Rightarrow> SdkVideoProfileResult \<Rightarrow> json" where
  "set_profile_json device_id r = obj
     [(''device_id'', JString device_id), (''page_processing'', JString (vls_page_processing r)),
      (''single_page'', obj [(''realtime_detect_rects'', JBool (vls_single_page_realtime_detect_rects r)),
                             (''multi_target_paging'', JBool (vls_single_page_multi_target_paging r))]),
      (''applied'', JBool (vls_applied r))]"

definition HandleVideoSetProfile :: "'e cmd_env \<Rightarrow> string \<Rightarrow> Request \<Rightarrow> ('e, json) cmd" where
  "HandleVideoSetProfile env connection_id request =
     with_capability env connection_id request (\<lambda>session.
     let device_id = param request ''device_id''; rid = rq_request_id request in
     if device_id = [] then bad_params env request ''device_id required''
     else case profile_params (rq_params request) of
         None \<Rightarrow> bad_params env request ''profile required''
       | Some params \<Rightarrow> bind_io (video_profile env session device_id params) (\<lambda>r. case r of
           Inl (code, message) \<Rightarrow> reject env rid code message
         | Inr profile \<Rightarrow>
             bind_io (on_outside (SetVideoProfile (ce_providers env) (sn_auth_context session)
                                    (set_profile_request device_id profile))) (\<lambda>result.
             if \<not> IsOkStatusCode (vls_code result) then reject env rid (vls_code result) (vls_message result)
             else seq_io (modify_io (remember_video env connection_id device_id session profile
                                       (video_pipeline env request)))
               (succeed env rid (set_profile_json device_id result)))))"

section \<open>Captures the device starts\<close>

definition BuildHardGrabQuotaRequestId :: "SdkDeviceActionEvent \<Rightarrow> string" where
  "BuildHardGrabQuotaRequestId event =
     ''hardgrab:'' @ evDeviceActionEvent_device_id event @ '':'' @ to_string (evDeviceActionEvent_timestamp_ms event)"

definition action_json :: "SdkDeviceActionEvent \<Rightarrow> json" where
  "action_json event = obj
     [(''device_id'', JString (evDeviceActionEvent_device_id event)),
      (''auto_capture'', JBool (evDeviceActionEvent_auto_capture event)),
      (''ts_ms'', JInt (evDeviceActionEvent_timestamp_ms event))]"

text \<open>\<open>DeviceActionPayloadResult\<close>: code, message and payload.\<close>

type_synonym action_payload = "int \<times> string \<times> json"

definition grab_json :: "SdkDeviceActionEvent \<Rightarrow> json" where
  "grab_json event = set_member ''capture'' (BuildHardGrabEventCaptureJson (evDeviceActionEvent_capture event))
     (action_json event)"

definition grab_refused :: "SdkDeviceActionEvent \<Rightarrow> int \<Rightarrow> string \<Rightarrow> int \<Rightarrow> action_payload" where
  "grab_refused event code message retry_after_ms =
     (let j = set_member ''error'' (JString message) (set_member ''message'' (JString message)
                (set_member ''code'' (JInt code) (set_member ''accepted'' (JBool False) (grab_json event))));
          j = (if retry_after_ms > 0 then set_member ''retry_after_ms'' (JInt retry_after_ms) j else j)
      in (code, message,
          set_member ''warning'' (JString (''hardgrab image was not processed: '' @ message)) j))"

definition grab_not_captured :: "SdkDeviceActionEvent \<Rightarrow> action_payload" where
  "grab_not_captured event =
     (let capture = evDeviceActionEvent_capture event in
      (cs_code capture,
       if cs_message capture = [] then ''hardgrab image was not captured'' else cs_message capture,
       if evDeviceActionEvent_auto_capture event then grab_json event else action_json event))"

definition grab_started :: "SdkDeviceActionEvent \<Rightarrow> CaptureTaskStartResult \<Rightarrow> action_payload" where
  "grab_started event r =
     (let j = set_member ''message'' (JString (sr_message r)) (set_member ''code'' (JInt (sr_code r))
                (set_member ''accepted'' (JBool (sr_accepted r)) (grab_json event)));
          task = sr_task r;
          j = (if sr_accepted r \<or> ts_task_id task \<noteq> []
               then set_member ''status'' (JString (ts_status task))
                     (set_member ''task_id'' (JString (ts_task_id task))
                       (set_member ''task'' (BuildCaptureTaskJson task) j))
               else j);
          j = (if IsOkStatusCode (sr_code r) then j else set_member ''error'' (JString (sr_message r)) j)
      in (sr_code r, sr_message r, j))"

text \<open>The context remembered for the connection and device, or the default.\<close>

definition grab_context :: "string \<Rightarrow> string \<Rightarrow> 'e CommandApplicationService \<Rightarrow> CaptureRuntimeContext" where
  "grab_context connection_id device_id s =
     (case GetRememberedCaptureContext connection_id device_id s of
        None \<Rightarrow> default_CaptureRuntimeContext | Some c \<Rightarrow> c)"

definition grab_profile :: "CaptureRuntimeContext \<Rightarrow> string \<Rightarrow> SdkCaptureProfile" where
  "grab_profile context device_id =
     (if cx_has_profile context then cx_profile context else default_SdkCaptureProfile)\<lparr>cp_device_id := device_id\<rparr>"

definition grab_request ::
    "string \<Rightarrow> SdkDeviceActionEvent \<Rightarrow> SessionResult \<Rightarrow> CaptureRuntimeContext \<Rightarrow> SdkCaptureProfile \<Rightarrow>
     CaptureTaskStartRequest" where
  "grab_request connection_id event session context profile =
     (let start = default_CaptureTaskStartRequest
        \<lparr> tq_connection_id := connection_id, tq_session_token := sn_session_token session,
          tq_device_id := evDeviceActionEvent_device_id event, tq_timeout_ms := kDefaultCaptureTimeoutMs,
          tq_auth_context := sn_auth_context session, tq_profile := profile,
          tq_raw_capture := evDeviceActionEvent_capture event \<rparr>
      in if cx_has_pipeline context
         then start\<lparr> tq_pipeline := cx_pipeline context, tq_online_api_key := cx_online_api_key context,
                     tq_online_base_url := cx_online_base_url context \<rparr>
         else start)"

definition submit_grab ::
    "'e cmd_env \<Rightarrow> SdkDeviceActionEvent \<Rightarrow> CaptureTaskStartRequest \<Rightarrow> ('e, action_payload) cmd" where
  "submit_grab env event start =
     bind_io (reserve env start) (\<lambda>reserved.
     if \<not> IsOkStatusCode (sr_code reserved)
     then ret (grab_refused event (sr_code reserved) (sr_message reserved) (sr_retry_after_ms reserved))
     else bind_io (ConsumeQuota_cmd env (tq_connection_id start) ''capture.take'' (BuildHardGrabQuotaRequestId event) 1)
       (\<lambda>quota.
       if \<not> IsOkStatusCode (sn_code quota)
       then seq_io (abort (ts_task_id (sr_task reserved)))
              (ret (grab_refused event (sn_code quota) (sn_message quota) 0))
       else bind_io (launch env (ts_task_id (sr_task reserved))) (\<lambda>started. ret (grab_started event started))))"

definition BuildHardGrabPayload :: "'e cmd_env \<Rightarrow> string \<Rightarrow> SdkDeviceActionEvent \<Rightarrow> ('e, action_payload) cmd" where
  "BuildHardGrabPayload env connection_id event =
     (let device_id = evDeviceActionEvent_device_id event in
      if \<not> cs_captured (evDeviceActionEvent_capture event) then ret (grab_not_captured event)
      else bind_io (gets_io (grab_context connection_id device_id)) (\<lambda>context.
      bind_io (gets_io (RequireCapability_cmd env connection_id ''capture.take'')) (\<lambda>session.
      if \<not> IsOkStatusCode (sn_code session) then ret (grab_refused event (sn_code session) (sn_message session) 0)
      else bind_io (ApplyCaptureOutputCapabilities env (sn_auth_context session) (grab_profile context device_id))
        (\<lambda>r. case r of
           Inl (code, message) \<Rightarrow> ret (grab_refused event code message 0)
         | Inr profile \<Rightarrow> submit_grab env event (grab_request connection_id event session context profile)))))"

end
