(* ===== verification/Command_Lifecycle.thy ===== *)
theory Command_Lifecycle
  imports Command_Capture Command_Files
begin

text \<open>
  What happens to the command service from outside a request
  (\<open>application/command_application_service.cpp\<close>): a connection ends, the process shuts down, a device
  or a scanner reports an event; and what the admin pages ask for.
\<close>

section \<open>The end of a connection\<close>

definition stop_watches :: "'e cmd_env \<Rightarrow> string \<Rightarrow> ('e, unit) cmd" where
  "stop_watches env connection_id =
     bind_io (step_io (ForgetSaneWatchConnection connection_id)) (\<lambda>sane.
     seq_io (when_io sane (bind_io (on_outside (sane_WatchStop (ce_sane env)
         \<lparr> saneWatchRequest_connection_id = connection_id, saneWatchRequest_enabled = False \<rparr>)) (\<lambda>_. ret ())))
     (bind_io (step_io (ForgetTwainWatchConnection connection_id)) (\<lambda>twain.
     when_io twain (bind_io (on_outside (twain_WatchStop (ce_twain env)
         \<lparr> twWatchRequest_connection_id = connection_id, twWatchRequest_enabled = False \<rparr>)) (\<lambda>_. ret ())))))"

text \<open>A source that could not be closed stays registered.\<close>

definition close_twain_session :: "'e cmd_env \<Rightarrow> string \<Rightarrow> string \<Rightarrow> ('e, unit) cmd" where
  "close_twain_session env connection_id session_id =
     bind_io (on_outside (twain_CloseSource (ce_twain env) \<lparr> twCloseRequest_session_id = session_id \<rparr>)) (\<lambda>r.
     when_io (\<not> twCloseResult_closed r \<and> twCloseResult_code r \<noteq> ToCode TwainSourceNotFound)
       (modify_io (RememberOpenedTwainSession connection_id session_id)))"

definition end_twain_sessions :: "'e cmd_env \<Rightarrow> string \<Rightarrow> ('e, unit) cmd" where
  "end_twain_sessions env connection_id =
     bind_io (step_io (ClearOpenedTwainSessions connection_id)) (\<lambda>sessions.
     bind_io (CancelActiveTwainTasksForSessions env sessions) (\<lambda>cancelled.
     seq_io (WaitTwainTasksTerminal env cancelled)
       (each_io (close_twain_session env connection_id) sessions)))"

definition end_streams_and_devices :: "'e cmd_env \<Rightarrow> string \<Rightarrow> ('e, unit) cmd" where
  "end_streams_and_devices env connection_id =
     bind_io (on_video (ClearConnection connection_id)) (\<lambda>removed.
     seq_io (stop_streams env removed)
       (bind_io (step_io (ClearOpenedDevices connection_id)) (close_devices env)))"

definition OnConnectionClosed :: "'e cmd_env \<Rightarrow> string \<Rightarrow> ('e, unit) cmd" where
  "OnConnectionClosed env connection_id =
     seq_io (modify_io (ForgetCommandConnection connection_id))
     (seq_io (stop_watches env connection_id)
     (seq_io (end_twain_sessions env connection_id)
     (seq_io (on_auth (ClearConnection_auth connection_id))
       (end_streams_and_devices env connection_id))))"

section \<open>Shutdown\<close>

definition release_connection :: "'e cmd_env \<Rightarrow> string \<Rightarrow> ('e, unit) cmd" where
  "release_connection env connection_id =
     seq_io (on_auth (ClearConnection_auth connection_id)) (stop_watches env connection_id)"

definition ShutdownActiveSessions :: "'e cmd_env \<Rightarrow> ('e, unit) cmd" where
  "ShutdownActiveSessions env =
     bind_io (on_video ClearAll) (\<lambda>streams.
     seq_io (stop_streams env streams)
     (bind_io (step_io ClearAllOpenedDevices) (\<lambda>devices.
     seq_io (close_devices env devices)
     (bind_io (step_io ClearAllOpenedTwainSessions) (\<lambda>sessions.
     bind_io (CancelActiveTwainTasksForSessions env sessions) (\<lambda>cancelled.
     seq_io (WaitTwainTasksTerminal env cancelled)
     (seq_io (each_io (\<lambda>session_id. bind_io (on_outside (twain_CloseSource (ce_twain env)
                \<lparr> twCloseRequest_session_id = session_id \<rparr>)) (\<lambda>_. ret ())) sessions)
     (bind_io (step_io ClearCommandConnections) (each_io (release_connection env))))))))))"

section \<open>Events\<close>

definition emit :: "'e cmd_env \<Rightarrow> (string \<Rightarrow> json \<Rightarrow> ('e world, unit) io) \<Rightarrow> string \<Rightarrow> string \<Rightarrow> json \<Rightarrow> int \<Rightarrow> string \<Rightarrow>
    ('e, unit) cmd" where
  "emit env sink connection_id event payload code message =
     bind_io (gets_io (\<lambda>s. BuildWsEvent (ce_now env (the_world s)) event payload code message)) (\<lambda>j.
     on_outside (sink connection_id j))"

definition DispatchSaneDeviceEvent :: "'e cmd_env \<Rightarrow> SdkSaneDeviceEvent \<Rightarrow> ('e, unit) cmd" where
  "DispatchSaneDeviceEvent env event =
     (case ce_event_sink env of
        None \<Rightarrow> ret ()
      | Some sink \<Rightarrow>
          if saneDeviceEvent_connection_id event = [] \<or> saneDeviceEvent_event_name event = [] then ret ()
          else emit env sink (saneDeviceEvent_connection_id event) (saneDeviceEvent_event_name event)
            (BuildSaneDeviceEventJson event) (saneDeviceEvent_code event) (saneDeviceEvent_message event))"

definition DispatchTwainSourceEvent :: "'e cmd_env \<Rightarrow> SdkTwainSourceEvent \<Rightarrow> ('e, unit) cmd" where
  "DispatchTwainSourceEvent env event =
     (case ce_event_sink env of
        None \<Rightarrow> ret ()
      | Some sink \<Rightarrow>
          if twSourceEvent_connection_id event = [] \<or> twSourceEvent_event_name event = [] then ret ()
          else emit env sink (twSourceEvent_connection_id event) (twSourceEvent_event_name event)
            (BuildTwainSourceEventJson event) (twSourceEvent_code event) (twSourceEvent_message event))"

text \<open>The connections that have the device open, in order.\<close>

definition device_connections :: "string \<Rightarrow> 'e CommandApplicationService \<Rightarrow> string list" where
  "device_connections device_id s = map fst (filter (\<lambda>p. sset_mem device_id (snd p)) (cm_opened s))"

definition is_hardgrab :: "SdkDeviceActionEvent \<Rightarrow> bool" where
  "is_hardgrab event \<longleftrightarrow> evDeviceActionEvent_type event = HardGrab"

definition action_payload_for :: "'e cmd_env \<Rightarrow> SdkDeviceActionEvent \<Rightarrow> string \<Rightarrow> ('e, action_payload) cmd" where
  "action_payload_for env event connection_id =
     (if is_hardgrab event then BuildHardGrabPayload env connection_id event
      else ret (ToCode Ok, ''ok'', action_json event))"

definition DispatchDeviceActionEvent :: "'e cmd_env \<Rightarrow> SdkDeviceActionEvent \<Rightarrow> ('e, unit) cmd" where
  "DispatchDeviceActionEvent env event =
     (case ce_event_sink env of
        None \<Rightarrow> ret ()
      | Some sink \<Rightarrow>
          if evDeviceActionEvent_device_id event = [] then ret ()
          else bind_io (gets_io (device_connections (evDeviceActionEvent_device_id event))) (\<lambda>targets.
            each_io (\<lambda>connection_id.
              bind_io (action_payload_for env event connection_id) (\<lambda>(code, message, payload).
              emit env sink connection_id
                (if is_hardgrab event then ''capture.hardgrab_detected'' else ''capture.turn_detected'')
                payload code message)) targets))"

text \<open>A removal: every connection that had the device open or streamed from it is told, each once.\<close>

definition add_target :: "StreamBinding \<Rightarrow> string list \<Rightarrow> string list" where
  "add_target b targets = (if sb_connection_id b \<in> set targets then targets else targets @ [sb_connection_id b])"

definition forget_removed_device :: "'e cmd_env \<Rightarrow> string \<Rightarrow> ('e, string list) cmd" where
  "forget_removed_device env device_id =
     bind_io (step_io (ForgetOpenedDeviceFromAllConnections device_id)) (\<lambda>opened.
     bind_io (on_video (ClearDevice device_id)) (\<lambda>removed.
     seq_io (each_io (\<lambda>b. stream_closed env (sb_stream_id b)) removed)
       (let targets = fold add_target removed opened in
        seq_io (each_io (\<lambda>c. modify_io (ForgetCaptureProfile c device_id)) targets) (ret targets))))"

definition inventory_json :: "SdkDeviceEvent \<Rightarrow> json" where
  "inventory_json event = obj [(''reason'', JString (evDeviceEvent_reason event)),
     (''ts_ms'', JInt (evDeviceEvent_timestamp_ms event))]"

definition removed_json :: "SdkDeviceEvent \<Rightarrow> json" where
  "removed_json event = obj
     [(''device_id'', JString (evDeviceEvent_device_id event)), (''reason'', JString (evDeviceEvent_reason event)),
      (''was_opened'', JBool (evDeviceEvent_was_opened event)),
      (''was_streaming'', JBool (evDeviceEvent_was_streaming event)),
      (''ts_ms'', JInt (evDeviceEvent_timestamp_ms event))]"

text \<open>Who is told, and whether only that the inventory changed.\<close>

definition device_event_targets :: "'e cmd_env \<Rightarrow> SdkDeviceEvent \<Rightarrow> ('e, string list \<times> bool) cmd" where
  "device_event_targets env event =
     (if evDeviceEvent_type event = ''added'' then gets_io (\<lambda>s. (ListCommandConnections s, True))
      else bind_io (forget_removed_device env (evDeviceEvent_device_id event)) (\<lambda>targets.
        if targets = [] then gets_io (\<lambda>s. (ListCommandConnections s, True)) else ret (targets, False)))"

definition DispatchDeviceEvent :: "'e cmd_env \<Rightarrow> SdkDeviceEvent \<Rightarrow> ('e, unit) cmd" where
  "DispatchDeviceEvent env event =
     (let type = evDeviceEvent_type event in
      if type \<noteq> ''added'' \<and> type \<noteq> ''removed'' then ret ()
      else case ce_event_sink env of
        None \<Rightarrow> ret ()
      | Some sink \<Rightarrow>
          if type \<noteq> ''added'' \<and> evDeviceEvent_device_id event = [] then ret ()
          else bind_io (device_event_targets env event) (\<lambda>(targets, inventory).
            bind_io (gets_io (\<lambda>s. BuildWsEvent (ce_now env (the_world s))
                (if type = ''added'' then ''device.added'' else ''device.removed'')
                (if inventory then inventory_json event else removed_json event) (ToCode Ok) ''ok'')) (\<lambda>j.
            each_io (\<lambda>c. on_outside (sink c j)) targets)))"

section \<open>The admin pages\<close>

record MethodDescriptor =
  md_method :: string
  md_requires_session :: bool
  md_summary :: string

definition MakeMethod :: "string \<Rightarrow> bool \<Rightarrow> string \<Rightarrow> MethodDescriptor" where
  "MakeMethod m requires_session summary =
     \<lparr> md_method = m, md_requires_session = requires_session, md_summary = summary \<rparr>"

text \<open>\<open>value(key, "")\<close> of the JSON library throws unless it is called on an object, and when the member
  is no text.\<close>

fun type_name :: "json \<Rightarrow> string" where
  "type_name JNull = ''null''"
| "type_name (JBool _) = ''boolean''"
| "type_name (JInt _) = ''number''"
| "type_name (JFloat _) = ''number''"
| "type_name (JString _) = ''string''"
| "type_name (JArray _) = ''array''"
| "type_name (JObject _) = ''object''"

definition string_value :: "json \<Rightarrow> string \<Rightarrow> ('s, string) io" where
  "string_value j key =
     (if \<not> is_object j then
        throw (StdException (''[json.exception.type_error.306] cannot use value() with '' @ type_name j))
      else case jfind j key of
        None \<Rightarrow> ret []
      | Some (JString s) \<Rightarrow> ret s
      | Some other \<Rightarrow>
          throw (StdException (''[json.exception.type_error.302] type must be string, but is '' @ type_name other)))"

definition method_json :: "MethodDescriptor \<Rightarrow> json" where
  "method_json m = obj
     [(''method'', JString (md_method m)), (''requires_session'', JBool (md_requires_session m)),
      (''summary'', JString (md_summary m))]"

definition auth_model_json :: json where
  "auth_model_json = obj
     [(''connection_requires_token'', JBool False), (''session_field'', JString ''session_token''),
      (''session_binding'', JString ''connection_bound''), (''video_binding'', JString ''session_token + stream_id'')]"

end
