(* ===== verification/Command_Scan.thy ===== *)
theory Command_Scan
  imports Command_Tools Command_Lifecycle
begin

text \<open>
  The scanner commands of \<open>application/command_application_service.cpp\<close> that talk to a device: status,
  list, watch, open, close, options, capabilities and profiles of SANE and TWAIN.  A SANE answer names
  its provider with \<open>ProviderNameOrEmpty\<close>; a TWAIN answer with \<open>provider_names_.value\<close>, which throws when
  the names are not an object, after the scanner was already asked.
\<close>

section \<open>SANE\<close>

definition sane_provider :: "'e CommandApplicationService \<Rightarrow> json" where
  "sane_provider s = JString (ProviderNameOrEmpty (cm_provider_names s) ''sane'')"

text \<open>The answer with the members given and the provider.\<close>

definition sane_respond ::
    "'e cmd_env \<Rightarrow> Request \<Rightarrow> int \<Rightarrow> string \<Rightarrow> (string \<times> json) list \<Rightarrow> ('e, json) cmd" where
  "sane_respond env request code message members =
     bind_io (gets_io sane_provider) (\<lambda>provider.
     respond env (rq_request_id request) code message (obj (members @ [(''provider'', provider)])))"

text \<open>A handler with one argument that may not be empty.\<close>

definition with_param ::
    "'e cmd_env \<Rightarrow> string \<Rightarrow> Request \<Rightarrow> string \<Rightarrow> (string \<Rightarrow> ('e, json) cmd) \<Rightarrow> ('e, json) cmd" where
  "with_param env connection_id request key f =
     with_capability env connection_id request (\<lambda>_.
     if param request key = [] then bad_params env request (key @ '' required'') else f (param request key))"

definition HandleSaneStatus :: "'e cmd_env \<Rightarrow> string \<Rightarrow> Request \<Rightarrow> ('e, json) cmd" where
  "HandleSaneStatus env connection_id request =
     with_capability env connection_id request (\<lambda>_.
     bind_io (on_outside (sane_GetStatus (ce_sane env))) (\<lambda>result.
     bind_io (gets_io (\<lambda>s. ProviderNameOrEmpty (cm_provider_names s) ''sane'')) (\<lambda>provider.
     respond env (rq_request_id request) (saneStatusResult_code result) (saneStatusResult_message result)
       (BuildSaneStatusJson result provider))))"

definition HandleSaneList :: "'e cmd_env \<Rightarrow> string \<Rightarrow> Request \<Rightarrow> ('e, json) cmd" where
  "HandleSaneList env connection_id request =
     with_capability env connection_id request (\<lambda>_.
     let detected = GetOptionalBoolField (rq_params request) ''include_detected'' False in
     bind_io (on_outside (sane_ListDevices (ce_sane env)
       \<lparr> saneListRequest_refresh = GetOptionalBoolField (rq_params request) ''refresh'' True,
         saneListRequest_include_detected = detected \<rparr>)) (\<lambda>result.
     sane_respond env request (saneListResult_code result) (saneListResult_message result)
       ([(''devices'', BuildSaneDevicesJson (saneListResult_devices result)),
         (''count'', jnat (length (saneListResult_devices result))),
         (''generation'', JInt (saneListResult_generation result))] @
        (if detected then
           [(''detected_devices'', BuildSaneDevicesJson (saneListResult_detected_devices result)),
            (''detected_count'', jnat (length (saneListResult_detected_devices result)))]
         else []))))"

definition sane_watch_json :: "SdkSaneWatchResult \<Rightarrow> (string \<times> json) list" where
  "sane_watch_json result =
     [(''watching'', JBool (saneWatchResult_watching result)),
      (''generation'', JInt (saneWatchResult_generation result))]"

definition HandleSaneWatchStart :: "'e cmd_env \<Rightarrow> string \<Rightarrow> Request \<Rightarrow> ('e, json) cmd" where
  "HandleSaneWatchStart env connection_id request =
     with_capability env connection_id request (\<lambda>_.
     bind_io (on_outside (sane_WatchStart (ce_sane env)
       \<lparr> saneWatchRequest_connection_id = connection_id, saneWatchRequest_enabled = True \<rparr>)) (\<lambda>result.
     seq_io (when_io (IsOkStatusCode (saneWatchResult_code result) \<and> saneWatchResult_watching result)
              (modify_io (RememberSaneWatchConnection connection_id)))
       (sane_respond env request (saneWatchResult_code result) (saneWatchResult_message result)
         (sane_watch_json result))))"

definition HandleSaneWatchStop :: "'e cmd_env \<Rightarrow> string \<Rightarrow> Request \<Rightarrow> ('e, json) cmd" where
  "HandleSaneWatchStop env connection_id request =
     with_capability env connection_id request (\<lambda>_.
     bind_io (on_outside (sane_WatchStop (ce_sane env)
       \<lparr> saneWatchRequest_connection_id = connection_id, saneWatchRequest_enabled = False \<rparr>)) (\<lambda>result.
     seq_io (when_io (IsOkStatusCode (saneWatchResult_code result))
              (seq_io (step_io (ForgetSaneWatchConnection connection_id)) (ret ())))
       (sane_respond env request (saneWatchResult_code result) (saneWatchResult_message result)
         (sane_watch_json result))))"

text \<open>The device opened is not recorded for the connection.\<close>

definition sane_open_request :: "'e cmd_env \<Rightarrow> Request \<Rightarrow> SdkSaneOpenRequest" where
  "sane_open_request env request =
     (let items = ParseSaneOptionSetItems (ce_dump env) (member_or_null (rq_params request) ''options'') in
     \<lparr> saneOpenRequest_device_id = param request ''device_id'',
       saneOpenRequest_device_name = param request ''device_name'',
       saneOpenRequest_profile_id = param request ''profile_id'',
       saneOpenRequest_option_keys = map sane_item_key items,
       saneOpenRequest_option_values_json = map saneOptionSetItem_value_json items \<rparr>)"

definition HandleSaneOpen :: "'e cmd_env \<Rightarrow> string \<Rightarrow> Request \<Rightarrow> ('e, json) cmd" where
  "HandleSaneOpen env connection_id request =
     with_capability env connection_id request (\<lambda>_.
     if param request ''device_id'' = [] \<and> param request ''device_name'' = []
     then bad_params env request ''device_id or device_name required''
     else bind_io (on_outside (sane_OpenDevice (ce_sane env) (sane_open_request env request))) (\<lambda>result.
       sane_respond env request (saneOpenResult_code result) (saneOpenResult_message result)
         [(''opened'', JBool (saneOpenResult_opened result)),
          (''session_id'', JString (saneOpenResult_session_id result)),
          (''device'', BuildSaneDeviceJson (saneOpenResult_device result))]))"

definition HandleSaneClose :: "'e cmd_env \<Rightarrow> string \<Rightarrow> Request \<Rightarrow> ('e, json) cmd" where
  "HandleSaneClose env connection_id request =
     with_param env connection_id request ''session_id'' (\<lambda>session_id.
     bind_io (on_outside (sane_CloseDevice (ce_sane env) \<lparr> saneCloseRequest_session_id = session_id \<rparr>)) (\<lambda>result.
     respond env (rq_request_id request) (saneCloseResult_code result) (saneCloseResult_message result)
       (obj [(''closed'', JBool (saneCloseResult_closed result)),
             (''was_opened'', JBool (saneCloseResult_was_opened result))])))"

definition HandleSaneGetOptions :: "'e cmd_env \<Rightarrow> string \<Rightarrow> Request \<Rightarrow> ('e, json) cmd" where
  "HandleSaneGetOptions env connection_id request =
     with_param env connection_id request ''session_id'' (\<lambda>session_id.
     bind_io (on_outside (sane_GetOptions (ce_sane env) \<lparr> saneGetOptionsRequest_session_id = session_id \<rparr>)) (\<lambda>result.
     sane_respond env request (saneGetOptionsResult_code result) (saneGetOptionsResult_message result)
       [(''options'', JArray (map (BuildSaneOptionJson (ce_parse env)) (saneGetOptionsResult_options result))),
        (''count'', jnat (length (saneGetOptionsResult_options result)))]))"

definition HandleSaneSetOptions :: "'e cmd_env \<Rightarrow> string \<Rightarrow> Request \<Rightarrow> ('e, json) cmd" where
  "HandleSaneSetOptions env connection_id request =
     with_capability env connection_id request (\<lambda>_.
     bind_io (on_outside (sane_GetStatus (ce_sane env))) (\<lambda>status.
     if saneStatusResult_code status = ToCode SaneNotAvailable then
       bind_io (gets_io (\<lambda>s. ProviderNameOrEmpty (cm_provider_names s) ''sane'')) (\<lambda>provider.
       respond env (rq_request_id request) (saneStatusResult_code status) (saneStatusResult_message status)
         (BuildSaneStatusJson status provider))
     else
       let session_id = param request ''session_id'';
           options = ParseSaneOptionSetItems (ce_dump env) (member_or_null (rq_params request) ''options'')
       in if session_id = [] then bad_params env request ''session_id required''
          else if options = [] then bad_params env request ''options required''
          else bind_io (on_outside (sane_SetOptions (ce_sane env)
              \<lparr> saneSetOptionsRequest_session_id = session_id, saneSetOptionsRequest_options = options \<rparr>)) (\<lambda>result.
            sane_respond env request (saneSetOptionsResult_code result) (saneSetOptionsResult_message result)
              [(''applied'', JBool (saneSetOptionsResult_applied result)),
               (''requires_reload'', JBool (saneSetOptionsResult_requires_reload result)),
               (''results'', JArray (map (BuildSaneOptionSetResultJson (ce_parse env))
                  (saneSetOptionsResult_results result)))])))"

definition HandleSaneProfileList :: "'e cmd_env \<Rightarrow> string \<Rightarrow> Request \<Rightarrow> ('e, json) cmd" where
  "HandleSaneProfileList env connection_id request =
     with_capability env connection_id request (\<lambda>_.
     bind_io (on_outside (sane_ListProfiles (ce_sane env)
       (ParseSaneProfileRequest (ce_dump env) (rq_params request)))) (\<lambda>result.
     sane_respond env request (saneProfileListResult_code result) (saneProfileListResult_message result)
       [(''profiles'', JArray (map (BuildSaneProfileJson (ce_parse env)) (saneProfileListResult_profiles result))),
        (''count'', jnat (length (saneProfileListResult_profiles result)))]))"

text \<open>The three profile commands differ in the argument they need, the call and the flag they return.\<close>

definition sane_profile_answer ::
    "'e cmd_env \<Rightarrow> Request \<Rightarrow> string \<Rightarrow> (SdkSaneProfileResult \<Rightarrow> bool) \<Rightarrow> ('e world, SdkSaneProfileResult) io \<Rightarrow>
     ('e, json) cmd" where
  "sane_profile_answer env request flag get call =
     bind_io (on_outside call) (\<lambda>result.
     sane_respond env request (saneProfileResult_code result) (saneProfileResult_message result)
       [(flag, JBool (get result)), (''profile'', BuildSaneProfileJson (ce_parse env) (saneProfileResult_profile result))])"

definition HandleSaneProfileSave :: "'e cmd_env \<Rightarrow> string \<Rightarrow> Request \<Rightarrow> ('e, json) cmd" where
  "HandleSaneProfileSave env connection_id request =
     with_param env connection_id request ''name'' (\<lambda>_.
     sane_profile_answer env request ''saved'' saneProfileResult_saved
       (sane_SaveProfile (ce_sane env) (ParseSaneProfileRequest (ce_dump env) (rq_params request))))"

definition HandleSaneProfileApply :: "'e cmd_env \<Rightarrow> string \<Rightarrow> Request \<Rightarrow> ('e, json) cmd" where
  "HandleSaneProfileApply env connection_id request =
     with_param env connection_id request ''profile_id'' (\<lambda>_.
     sane_profile_answer env request ''applied'' saneProfileResult_applied
       (sane_ApplyProfile (ce_sane env) (ParseSaneProfileRequest (ce_dump env) (rq_params request))))"

definition HandleSaneProfileDelete :: "'e cmd_env \<Rightarrow> string \<Rightarrow> Request \<Rightarrow> ('e, json) cmd" where
  "HandleSaneProfileDelete env connection_id request =
     with_param env connection_id request ''profile_id'' (\<lambda>_.
     sane_profile_answer env request ''deleted'' saneProfileResult_deleted
       (sane_DeleteProfile (ce_sane env) (ParseSaneProfileRequest (ce_dump env) (rq_params request))))"

section \<open>TWAIN\<close>

text \<open>\<open>provider_names_.value("twain", "")\<close>.\<close>

definition twain_provider :: "('e, string) cmd" where
  "twain_provider = bind_io (gets_io cm_provider_names) (\<lambda>names. string_value names ''twain'')"

definition twain_respond ::
    "'e cmd_env \<Rightarrow> Request \<Rightarrow> int \<Rightarrow> string \<Rightarrow> (string \<times> json) list \<Rightarrow> ('e, json) cmd" where
  "twain_respond env request code message members =
     bind_io twain_provider (\<lambda>provider.
     respond env (rq_request_id request) code message (obj (members @ [(''provider'', JString provider)])))"

definition HandleTwainStatus :: "'e cmd_env \<Rightarrow> string \<Rightarrow> Request \<Rightarrow> ('e, json) cmd" where
  "HandleTwainStatus env connection_id request =
     with_capability env connection_id request (\<lambda>_.
     bind_io (on_outside (twain_GetStatus (ce_twain env))) (\<lambda>result.
     bind_io twain_provider (\<lambda>provider.
     respond env (rq_request_id request) (twStatusResult_code result) (twStatusResult_message result)
       (BuildTwainStatusJson result provider))))"

definition HandleTwainList :: "'e cmd_env \<Rightarrow> string \<Rightarrow> Request \<Rightarrow> ('e, json) cmd" where
  "HandleTwainList env connection_id request =
     with_capability env connection_id request (\<lambda>_.
     bind_io (on_outside (twain_ListSources (ce_twain env)
       \<lparr> twListRequest_refresh = GetOptionalBoolField (rq_params request) ''refresh'' True \<rparr>)) (\<lambda>result.
     twain_respond env request (twListResult_code result) (twListResult_message result)
       [(''sources'', BuildTwainSourcesJson (twListResult_sources result)),
        (''count'', jnat (length (twListResult_sources result))),
        (''generation'', JInt (twListResult_generation result))]))"

definition twain_watch_json :: "SdkTwainWatchResult \<Rightarrow> (string \<times> json) list" where
  "twain_watch_json result =
     [(''watching'', JBool (twWatchResult_watching result)),
      (''generation'', JInt (twWatchResult_generation result))]"

definition HandleTwainWatchStart :: "'e cmd_env \<Rightarrow> string \<Rightarrow> Request \<Rightarrow> ('e, json) cmd" where
  "HandleTwainWatchStart env connection_id request =
     with_capability env connection_id request (\<lambda>_.
     bind_io (on_outside (twain_WatchStart (ce_twain env)
       \<lparr> twWatchRequest_connection_id = connection_id, twWatchRequest_enabled = True \<rparr>)) (\<lambda>result.
     seq_io (when_io (IsOkStatusCode (twWatchResult_code result) \<and> twWatchResult_watching result)
              (modify_io (RememberTwainWatchConnection connection_id)))
       (twain_respond env request (twWatchResult_code result) (twWatchResult_message result)
         (twain_watch_json result))))"

definition HandleTwainWatchStop :: "'e cmd_env \<Rightarrow> string \<Rightarrow> Request \<Rightarrow> ('e, json) cmd" where
  "HandleTwainWatchStop env connection_id request =
     with_capability env connection_id request (\<lambda>_.
     bind_io (on_outside (twain_WatchStop (ce_twain env)
       \<lparr> twWatchRequest_connection_id = connection_id, twWatchRequest_enabled = False \<rparr>)) (\<lambda>result.
     seq_io (when_io (IsOkStatusCode (twWatchResult_code result))
              (seq_io (step_io (ForgetTwainWatchConnection connection_id)) (ret ())))
       (twain_respond env request (twWatchResult_code result) (twWatchResult_message result)
         (twain_watch_json result))))"

definition HandleTwainOpen :: "'e cmd_env \<Rightarrow> string \<Rightarrow> Request \<Rightarrow> ('e, json) cmd" where
  "HandleTwainOpen env connection_id request =
     with_param env connection_id request ''source_id'' (\<lambda>source_id.
     bind_io (on_outside (twain_OpenSource (ce_twain env) \<lparr> twOpenRequest_source_id = source_id \<rparr>)) (\<lambda>result.
     seq_io (when_io (IsOkStatusCode (twOpenResult_code result) \<and> twOpenResult_opened result \<and>
                      twOpenResult_session_id result \<noteq> [])
              (modify_io (RememberOpenedTwainSession connection_id (twOpenResult_session_id result))))
       (twain_respond env request (twOpenResult_code result) (twOpenResult_message result)
         [(''opened'', JBool (twOpenResult_opened result)),
          (''session_id'', JString (twOpenResult_session_id result)),
          (''source'', BuildTwainSourceJson (twOpenResult_source result))])))"

definition HandleTwainClose :: "'e cmd_env \<Rightarrow> string \<Rightarrow> Request \<Rightarrow> ('e, json) cmd" where
  "HandleTwainClose env connection_id request =
     with_param env connection_id request ''session_id'' (\<lambda>session_id.
     bind_io (on_outside (twain_CloseSource (ce_twain env) \<lparr> twCloseRequest_session_id = session_id \<rparr>)) (\<lambda>result.
     seq_io (when_io (twCloseResult_closed result \<or> twCloseResult_code result = ToCode TwainSourceNotFound)
              (modify_io (ForgetOpenedTwainSession connection_id session_id)))
       (respond env (rq_request_id request) (twCloseResult_code result) (twCloseResult_message result)
         (obj [(''closed'', JBool (twCloseResult_closed result)),
               (''was_opened'', JBool (twCloseResult_was_opened result))]))))"

definition HandleTwainGetCapabilities :: "'e cmd_env \<Rightarrow> string \<Rightarrow> Request \<Rightarrow> ('e, json) cmd" where
  "HandleTwainGetCapabilities env connection_id request =
     with_param env connection_id request ''session_id'' (\<lambda>session_id.
     bind_io (on_outside (twain_GetCapabilities (ce_twain env)
       \<lparr> twGetCapabilitiesRequest_session_id = session_id \<rparr>)) (\<lambda>result.
     twain_respond env request (twGetCapabilitiesResult_code result) (twGetCapabilitiesResult_message result)
       [(''capabilities'', JArray (map (BuildTwainCapabilityJson (ce_parse env))
          (twGetCapabilitiesResult_capabilities result))),
        (''count'', jnat (length (twGetCapabilitiesResult_capabilities result)))]))"

text \<open>\<open>items\<close> is read when \<open>capabilities\<close> is null or gives nothing.\<close>

definition requested_capabilities :: "'e cmd_env \<Rightarrow> Request \<Rightarrow> SdkTwainCapabilitySetItem list" where
  "requested_capabilities env request =
     (let capabilities = member_or_null (rq_params request) ''capabilities'';
          items = member_or_null (rq_params request) ''items'';
          first = ParseTwainCapabilitySetItems (ce_dump env) (if capabilities = JNull then items else capabilities)
      in if first = [] \<and> items \<noteq> JNull then ParseTwainCapabilitySetItems (ce_dump env) items else first)"

definition HandleTwainSetCapabilities :: "'e cmd_env \<Rightarrow> string \<Rightarrow> Request \<Rightarrow> ('e, json) cmd" where
  "HandleTwainSetCapabilities env connection_id request =
     with_param env connection_id request ''session_id'' (\<lambda>session_id.
     let capabilities = requested_capabilities env request in
     if capabilities = [] then bad_params env request ''capabilities required''
     else bind_io (on_outside (twain_SetCapabilities (ce_twain env)
         \<lparr> twSetCapabilitiesRequest_session_id = session_id, twSetCapabilitiesRequest_capabilities = capabilities \<rparr>))
       (\<lambda>result.
       twain_respond env request (twSetCapabilitiesResult_code result) (twSetCapabilitiesResult_message result)
         [(''applied'', JBool (twSetCapabilitiesResult_applied result)),
          (''requires_reload'', JBool (twSetCapabilitiesResult_requires_reload result)),
          (''results'', JArray (map (BuildTwainCapabilitySetResultJson (ce_parse env))
             (twSetCapabilitiesResult_results result)))]))"

definition HandleTwainProfileList :: "'e cmd_env \<Rightarrow> string \<Rightarrow> Request \<Rightarrow> ('e, json) cmd" where
  "HandleTwainProfileList env connection_id request =
     with_capability env connection_id request (\<lambda>_.
     bind_io (on_outside (twain_ListProfiles (ce_twain env)
       (ParseTwainProfileRequest (ce_dump env) (rq_params request)))) (\<lambda>result.
     twain_respond env request (twProfileListResult_code result) (twProfileListResult_message result)
       [(''profiles'', JArray (map (BuildTwainProfileJson (ce_parse env)) (twProfileListResult_profiles result))),
        (''count'', jnat (length (twProfileListResult_profiles result)))]))"

definition twain_profile_answer ::
    "'e cmd_env \<Rightarrow> Request \<Rightarrow> string \<Rightarrow> (SdkTwainProfileResult \<Rightarrow> bool) \<Rightarrow> ('e world, SdkTwainProfileResult) io \<Rightarrow>
     ('e, json) cmd" where
  "twain_profile_answer env request flag get call =
     bind_io (on_outside call) (\<lambda>result.
     twain_respond env request (twProfileResult_code result) (twProfileResult_message result)
       [(flag, JBool (get result)), (''profile'', BuildTwainProfileJson (ce_parse env) (twProfileResult_profile result))])"

definition HandleTwainProfileSave :: "'e cmd_env \<Rightarrow> string \<Rightarrow> Request \<Rightarrow> ('e, json) cmd" where
  "HandleTwainProfileSave env connection_id request =
     with_param env connection_id request ''name'' (\<lambda>_.
     twain_profile_answer env request ''saved'' twProfileResult_saved
       (twain_SaveProfile (ce_twain env) (ParseTwainProfileRequest (ce_dump env) (rq_params request))))"

definition HandleTwainProfileApply :: "'e cmd_env \<Rightarrow> string \<Rightarrow> Request \<Rightarrow> ('e, json) cmd" where
  "HandleTwainProfileApply env connection_id request =
     with_param env connection_id request ''profile_id'' (\<lambda>_.
     twain_profile_answer env request ''applied'' twProfileResult_applied
       (twain_ApplyProfile (ce_twain env) (ParseTwainProfileRequest (ce_dump env) (rq_params request))))"

definition HandleTwainProfileDelete :: "'e cmd_env \<Rightarrow> string \<Rightarrow> Request \<Rightarrow> ('e, json) cmd" where
  "HandleTwainProfileDelete env connection_id request =
     with_param env connection_id request ''profile_id'' (\<lambda>_.
     twain_profile_answer env request ''deleted'' twProfileResult_deleted
       (twain_DeleteProfile (ce_twain env) (ParseTwainProfileRequest (ce_dump env) (rq_params request))))"

end
