(* ===== verification/Command_Tasks.thy ===== *)
theory Command_Tasks
  imports Command_Scan
begin

text \<open>
  Scans as tasks (\<open>application/command_application_service.cpp\<close>): starting, asking, cancelling, the
  events of the scanner providers with the enhancement and the conversion of the pages, and the
  clean-up of the temporary storage.  The pages of a task become assets that are registered under the
  task's id, first for the connection of the task, later for whoever asks.
\<close>

section \<open>Pages as assets\<close>

definition image_output :: "string \<Rightarrow> string \<Rightarrow> bool" where
  "image_output output_type output_format \<longleftrightarrow>
     to_lower output_type = ''images'' \<or>
     to_lower output_format \<in> {''jpg'', ''jpeg'', ''png'', ''bmp'', ''webp'', ''tif'', ''tiff''}"

definition file_asset ::
    "os_env \<Rightarrow> string \<Rightarrow> string \<Rightarrow> string \<Rightarrow> string \<Rightarrow> 'e world \<Rightarrow> SdkCaptureAsset" where
  "file_asset os asset_id kind path content_type w = default_SdkCaptureAsset
     \<lparr> as_asset_id := asset_id, as_kind := kind, as_path := path, as_content_type := content_type,
       as_size := FileSize os path w \<rparr>"

text \<open>The images among the paths, numbered from 1.\<close>

definition page_assets :: "os_env \<Rightarrow> string \<Rightarrow> string list \<Rightarrow> 'e world \<Rightarrow> SdkCaptureAsset list" where
  "page_assets os family paths w =
     (let images = filter (\<lambda>p. IsSupportedImageExtension (ExtensionFromFilename p)) paths in
      map (\<lambda>(i, p). file_asset os (''asset-'' @ family @ ''-page-'' @ pad3 (i + 1)) (family @ ''_scan_page'') p
             (ContentTypeForImageExtension (ExtensionFromFilename p)) w)
        (enumerate 0 images))"

definition EnsureSaneImageAssets :: "os_env \<Rightarrow> 'e world \<Rightarrow> SdkSaneScanTask \<Rightarrow> SdkSaneScanTask" where
  "EnsureSaneImageAssets os w task =
     (if saneScanTask_assets task \<noteq> [] \<or> saneScanTask_output_paths task = [] \<or>
         \<not> image_output (saneScanTask_output_type task) (saneScanTask_output_format task) then task
      else task\<lparr>saneScanTask_assets := page_assets os ''sane'' (saneScanTask_output_paths task) w\<rparr>)"

definition EnsureTwainImageAssets :: "os_env \<Rightarrow> 'e world \<Rightarrow> SdkTwainScanTask \<Rightarrow> SdkTwainScanTask" where
  "EnsureTwainImageAssets os w task =
     (if twScanTask_assets task \<noteq> [] \<or> twScanTask_output_paths task = [] \<or>
         \<not> image_output (twScanTask_output_type task) (twScanTask_output_format task) then task
      else task\<lparr>twScanTask_assets := page_assets os ''twain'' (twScanTask_output_paths task) w\<rparr>)"

definition register_assets ::
    "'e cmd_env \<Rightarrow> string \<Rightarrow> string \<Rightarrow> SdkCaptureAsset list \<Rightarrow> ('e, SdkCaptureAsset list) cmd" where
  "register_assets env connection_id task_id assets =
     (let assets = map (AttachImageAssetUrls env task_id) assets in
      seq_io (modify_io (fold (RegisterImageAsset connection_id task_id) assets)) (ret assets))"

definition register_sane ::
    "'e cmd_env \<Rightarrow> string \<Rightarrow> string \<Rightarrow> SdkSaneScanTask \<Rightarrow> ('e, SdkSaneScanTask) cmd" where
  "register_sane env connection_id task_id task =
     bind_io (gets_io (\<lambda>s. EnsureSaneImageAssets (ce_os env) (the_world s) task)) (\<lambda>task.
     bind_io (register_assets env connection_id task_id (saneScanTask_assets task)) (\<lambda>assets.
     ret (task\<lparr>saneScanTask_assets := assets\<rparr>)))"

definition register_twain :: "'e cmd_env \<Rightarrow> SdkTwainScanTask \<Rightarrow> ('e, SdkTwainScanTask) cmd" where
  "register_twain env task =
     bind_io (gets_io (\<lambda>s. EnsureTwainImageAssets (ce_os env) (the_world s) task)) (\<lambda>task.
     bind_io (register_assets env (twScanTask_connection_id task) (twScanTask_task_id task) (twScanTask_assets task))
       (\<lambda>assets. ret (task\<lparr>twScanTask_assets := assets\<rparr>)))"

definition put_sane_task :: "string \<Rightarrow> SdkSaneScanTask \<Rightarrow> 'e CommandApplicationService \<Rightarrow> 'e CommandApplicationService" where
  "put_sane_task task_id task s = s\<lparr>cm_sane_tasks := smap_put task_id task (cm_sane_tasks s)\<rparr>"

section \<open>SANE scans\<close>

text \<open>The members of \<open>output\<close> override the flat ones, then the defaults, then the pipeline's target.\<close>

definition sane_output :: "Request \<Rightarrow> SdkSaneScanRequest \<Rightarrow> SdkSaneScanRequest" where
  "sane_output request r =
     (let output = GetOptionalObjectField (rq_params request) ''output'';
          get = (\<lambda>key. if jempty output then [] else GetOptionalStringField output key);
          type = or_keep (or_keep (get ''type'') (saneScanRequest_output_type r)) ''images'';
          format = or_keep (or_keep (get ''format'') (saneScanRequest_output_format r))
                     (if type = ''images'' then ''jpg'' else type);
          export = (if get ''export_type'' = [] then saneScanRequest_export_type r
                    else NormalizeExportType (get ''export_type''))
      in r\<lparr> saneScanRequest_output_type := type, saneScanRequest_output_format := format,
            saneScanRequest_output_path := or_keep (get ''path'') (saneScanRequest_output_path r),
            saneScanRequest_output_dir := or_keep (get ''dir'') (saneScanRequest_output_dir r),
            saneScanRequest_export_type := or_keep export ''multi-page'' \<rparr>)"

definition sane_target :: "Request \<Rightarrow> SdkImageEnhancePipeline \<Rightarrow> SdkSaneScanRequest \<Rightarrow> SdkSaneScanRequest" where
  "sane_target request pipeline r =
     (let pipeline_json = GetOptionalObjectField (rq_params request) ''pipeline'';
          type = et_type (el_target pipeline);
          output_type = (if type = ''jpg'' \<or> type = ''png'' then ''images'' else type)
      in if el_steps pipeline = [] \<or>
            GetOptionalStringField (GetOptionalObjectField pipeline_json ''target'') ''type'' = [] \<or>
            type \<notin> {''pdf'', ''ofd'', ''tiff'', ''images'', ''jpg'', ''png''} then r
         else r\<lparr> saneScanRequest_output_type := output_type,
                 saneScanRequest_output_format :=
                   (if type = ''images'' then et_format (el_target pipeline) else output_type),
                 saneScanRequest_export_type :=
                   (if et_export_type (el_target pipeline) = [] then saneScanRequest_export_type r
                    else NormalizeExportType (et_export_type (el_target pipeline))),
                 saneScanRequest_output_path :=
                   or_keep (et_output_path (el_target pipeline)) (saneScanRequest_output_path r),
                 saneScanRequest_output_dir :=
                   or_keep (et_output_dir (el_target pipeline)) (saneScanRequest_output_dir r) \<rparr>)"

definition sane_scan_request :: "'e cmd_env \<Rightarrow> string \<Rightarrow> Request \<Rightarrow> SdkImageEnhancePipeline \<Rightarrow> SdkSaneScanRequest" where
  "sane_scan_request env connection_id request pipeline =
     (sane_target request pipeline (sane_output request (default_SdkSaneScanRequest
        \<lparr> saneScanRequest_connection_id := connection_id,
          saneScanRequest_session_id := param request ''session_id'',
          saneScanRequest_output_type := param request ''output_type'',
          saneScanRequest_output_format := param request ''output_format'',
          saneScanRequest_output_path := param request ''output_path'',
          saneScanRequest_output_dir := param request ''output_dir'',
          saneScanRequest_export_type := NormalizeExportType (param request ''export_type'') \<rparr>)))
     \<lparr> saneScanRequest_options := ParseSaneOptionSetItems (ce_dump env) (member_or_null (rq_params request) ''options'') \<rparr>"

definition sane_pipeline_of :: "'e cmd_env \<Rightarrow> Request \<Rightarrow> SdkImageEnhancePipeline" where
  "sane_pipeline_of env request =
     ParseImageEnhancePipeline (ce_dump env) (GetOptionalObjectField (rq_params request) ''pipeline'')"

definition keep_sane_scan ::
    "'e cmd_env \<Rightarrow> SdkImageEnhancePipeline \<Rightarrow> string \<Rightarrow> string \<Rightarrow> SdkSaneScanTask \<Rightarrow> ('e, unit) cmd" where
  "keep_sane_scan env pipeline token task_id task =
     modify_io (\<lambda>s. let s = put_sane_task task_id task s in
       if el_steps pipeline = [] then s
       else s\<lparr> cm_sane_pipelines := smap_put task_id pipeline (cm_sane_pipelines s),
               cm_sane_api_keys := smap_put task_id token (cm_sane_api_keys s),
               cm_sane_base_urls := smap_put task_id (online_base_url env s) (cm_sane_base_urls s) \<rparr>)"

definition sane_scan_json :: "bool \<Rightarrow> string \<Rightarrow> SdkSaneScanTask \<Rightarrow> (string \<times> json) list" where
  "sane_scan_json accepted task_id task =
     [(''accepted'', JBool accepted), (''task_id'', JString task_id), (''task'', BuildSaneScanTaskJson task)]"

definition HandleSaneScan :: "'e cmd_env \<Rightarrow> string \<Rightarrow> Request \<Rightarrow> ('e, json) cmd" where
  "HandleSaneScan env connection_id request =
     bind_io (ConsumeQuota_cmd env connection_id (rq_method request) (rq_request_id request) 1) (\<lambda>session.
     if \<not> IsOkStatusCode (sn_code session)
     then reject env (rq_request_id request) (sn_code session) (sn_message session)
     else let pipeline = sane_pipeline_of env request;
              scan = sane_scan_request env connection_id request pipeline in
     if saneScanRequest_session_id scan = [] then bad_params env request ''session_id required''
     else bind_io (on_outside (sane_Scan (ce_sane env) scan)) (\<lambda>result.
       let task_id = saneScanResult_task_id result in
       bind_io (if task_id = [] then ret (saneScanResult_task result)
                else bind_io (register_sane env connection_id task_id (saneScanResult_task result)) (\<lambda>task.
                  seq_io (keep_sane_scan env pipeline (sn_token session) task_id task) (ret task))) (\<lambda>task.
       sane_respond env request (saneScanResult_code result) (saneScanResult_message result)
         (sane_scan_json (saneScanResult_accepted result) task_id task))))"

text \<open>A task that is known is answered from the table, for whoever asks.\<close>

definition HandleSaneScanGet :: "'e cmd_env \<Rightarrow> string \<Rightarrow> Request \<Rightarrow> ('e, json) cmd" where
  "HandleSaneScanGet env connection_id request =
     with_param env connection_id request ''task_id'' (\<lambda>task_id.
     bind_io (gets_io (\<lambda>s. map_of (cm_sane_tasks s) task_id)) (\<lambda>known.
     case known of
       Some task \<Rightarrow>
         bind_io (register_sane env connection_id task_id task) (\<lambda>task.
         seq_io (modify_io (put_sane_task task_id task))
           (sane_respond env request (ToCode Ok) ''ok'' (sane_scan_json True task_id task)))
     | None \<Rightarrow>
         bind_io (on_outside (sane_GetScan (ce_sane env) \<lparr> saneScanGetRequest_task_id = task_id \<rparr>)) (\<lambda>result.
         bind_io (register_sane env connection_id (saneScanResult_task_id result) (saneScanResult_task result)) (\<lambda>task.
         sane_respond env request (saneScanResult_code result) (saneScanResult_message result)
           (sane_scan_json (saneScanResult_accepted result) (saneScanResult_task_id result) task)))))"

definition HandleSaneScanCancel :: "'e cmd_env \<Rightarrow> string \<Rightarrow> Request \<Rightarrow> ('e, json) cmd" where
  "HandleSaneScanCancel env connection_id request =
     with_param env connection_id request ''task_id'' (\<lambda>task_id.
     bind_io (on_outside (sane_CancelScan (ce_sane env) \<lparr> saneScanCancelRequest_task_id = task_id \<rparr>)) (\<lambda>result.
     seq_io (modify_io (\<lambda>s. case map_of (cm_sane_tasks s) task_id of
               None \<Rightarrow> s
             | Some task \<Rightarrow> put_sane_task task_id
                 (task\<lparr> saneScanTask_status := ''cancelled'', saneScanTask_message := ''cancelled'' \<rparr>) s))
       (sane_respond env request (saneScanResult_code result) (saneScanResult_message result)
         (sane_scan_json (saneScanResult_accepted result) (saneScanResult_task_id result) (saneScanResult_task result)))))"

end
