(* ===== verification/Command_Events.thy ===== *)
theory Command_Events
  imports Command_Tasks
begin

text \<open>
  What happens when a scanner provider reports on a scan (\<open>application/command_application_service.cpp\<close>):
  the pages of a SANE scan are enhanced and converted, the pages of a TWAIN scan converted, the task is
  kept and the connection told.  A provider that throws ends the function where it is.
\<close>

section \<open>SANE\<close>

definition with_sink ::
    "'e cmd_env \<Rightarrow> string \<Rightarrow> ((string \<Rightarrow> json \<Rightarrow> ('e world, unit) io) \<Rightarrow> ('e, unit) cmd) \<Rightarrow> ('e, unit) cmd" where
  "with_sink env connection_id f =
     (case ce_event_sink env of None \<Rightarrow> ret () | Some sink \<Rightarrow> if connection_id = [] then ret () else f sink)"

definition tell_sane :: "'e cmd_env \<Rightarrow> string \<Rightarrow> SdkSaneScanTask \<Rightarrow> int \<Rightarrow> string \<Rightarrow> ('e, unit) cmd" where
  "tell_sane env event task code message =
     with_sink env (saneScanTask_connection_id task) (\<lambda>sink.
     bind_io (gets_io sane_provider) (\<lambda>provider.
     emit env sink (saneScanTask_connection_id task) event
       (obj [(''task_id'', JString (saneScanTask_task_id task)), (''task'', BuildSaneScanTaskJson task),
             (''provider'', provider)]) code message))"

text \<open>Putting the task into a phase the connection hears of.\<close>

definition announce_sane :: "'e cmd_env \<Rightarrow> SdkSaneScanTask \<Rightarrow> ('e, unit) cmd" where
  "announce_sane env task =
     seq_io (modify_io (put_sane_task (saneScanTask_task_id task) task))
       (tell_sane env ''sane.scan_changed'' task (ToCode Ok) (saneScanTask_message task))"

definition sane_phase :: "string \<Rightarrow> string \<Rightarrow> int \<Rightarrow> string \<Rightarrow> SdkSaneScanTask \<Rightarrow> SdkSaneScanTask" where
  "sane_phase status phase progress message task = task
     \<lparr> saneScanTask_status := status, saneScanTask_phase := phase, saneScanTask_progress := progress,
       saneScanTask_message := message \<rparr>"

definition sane_failed :: "string \<Rightarrow> SdkSaneScanTask \<Rightarrow> SdkSaneScanTask" where
  "sane_failed message task = (sane_phase ''failed'' ''failed'' 100 message task)\<lparr>saneScanTask_error := message\<rparr>"

definition sane_step_request ::
    "'e cmd_env \<Rightarrow> SdkSaneScanTask \<Rightarrow> string \<Rightarrow> string \<Rightarrow> nat \<Rightarrow> SdkImageEnhanceStep \<Rightarrow> SdkImageEnhancePage list \<Rightarrow>
     SdkImageEnhanceStepRequest" where
  "sane_step_request env task api_key base_url index step pages =
     \<lparr> er_task_id = saneScanTask_task_id task, er_step = step, er_pages = pages,
       er_output_dir = JoinPath
         (if saneScanTask_output_dir task = []
          then GetSdkOpenTaskAssetDir (ce_work_dir env) ''sane'' (saneScanTask_task_id task) ''enhance''
          else saneScanTask_output_dir task) (''enhance-step-'' @ dec (index + 1)),
       er_online_api_key = api_key, er_online_base_url = base_url \<rparr>"

text \<open>The steps in turn: \<open>Inl\<close> is the message of the step that failed the task.\<close>

fun run_sane_steps ::
    "'e cmd_env \<Rightarrow> 'e ISdkImageEnhanceProvider \<Rightarrow> SdkSaneScanTask \<Rightarrow> string \<Rightarrow> string \<Rightarrow> nat \<Rightarrow>
     SdkImageEnhanceStep list \<Rightarrow> SdkImageEnhancePage list \<Rightarrow> ('e, string + SdkImageEnhancePage list) cmd" where
  "run_sane_steps env ip task key url index [] pages = ret (Inr pages)"
| "run_sane_steps env ip task key url index (step # steps) pages =
     (if \<not> es_enabled step then run_sane_steps env ip task key url (index + 1) steps pages
      else let request = sane_step_request env task key url index step pages in
        seq_io (on_outside (world_op (EnsureDirectoryRecursive (ce_os env) (er_output_dir request))))
        (bind_io (on_outside (ip_RunStep ip request)) (\<lambda>result.
         if IsOkStatusCode (ers_code result)
         then run_sane_steps env ip task key url (index + 1) steps (ers_pages result)
         else if es_on_error step = ''skip'' then run_sane_steps env ip task key url (index + 1) steps pages
         else ret (Inl (ers_message result)))))"

definition sane_pages :: "string list \<Rightarrow> SdkImageEnhancePage list" where
  "sane_pages paths = map (\<lambda>(i, p). default_SdkImageEnhancePage
     \<lparr> ep_source_index := int i + 1, ep_output_index := int i + 1, ep_path := p \<rparr>) (enumerate 0 paths)"

text \<open>Outputs as assets, numbered from 1.\<close>

definition output_assets ::
    "os_env \<Rightarrow> string \<Rightarrow> string \<Rightarrow> (string \<Rightarrow> string) \<Rightarrow> string list \<Rightarrow> 'e world \<Rightarrow> SdkCaptureAsset list" where
  "output_assets os prefix kind type_of paths w =
     map (\<lambda>(i, p). file_asset os (prefix @ dec (i + 1)) kind p (type_of p) w) (enumerate 0 paths)"

definition sane_enhanced :: "string list \<Rightarrow> SdkCaptureAsset list \<Rightarrow> SdkSaneScanTask \<Rightarrow> SdkSaneScanTask" where
  "sane_enhanced paths assets task = (sane_phase ''completed'' ''enhanced'' 94 ''scan pages enhanced'' task)
     \<lparr> saneScanTask_output_paths := paths, saneScanTask_assets := assets,
       saneScanTask_output_path := hd paths, saneScanTask_page_count := int (length paths) \<rparr>"

definition finish_enhancing ::
    "'e cmd_env \<Rightarrow> SdkSaneScanTask \<Rightarrow> string + SdkImageEnhancePage list \<Rightarrow> ('e, SdkSaneScanTask) cmd" where
  "finish_enhancing env task outcome =
     (case outcome of
        Inl error \<Rightarrow> ret (sane_failed error task)
      | Inr pages \<Rightarrow>
          if pages = [] then ret (sane_failed ''image enhance produced no output pages'' task)
          else let paths = map ep_path pages in
            bind_io (gets_io (\<lambda>s. output_assets (ce_os env) ''asset-sane-enhanced-page-'' ''sane_scan_enhanced_page''
              (\<lambda>p. ContentTypeForImageExtension (ExtensionFromFilename p)) paths (the_world s))) (\<lambda>assets.
            bind_io (register_assets env (saneScanTask_connection_id task) (saneScanTask_task_id task) assets) (\<lambda>assets.
            ret (sane_enhanced paths assets task))))"

definition enhance_scan ::
    "'e cmd_env \<Rightarrow> SdkImageEnhancePipeline \<Rightarrow> string \<Rightarrow> string \<Rightarrow> SdkSaneScanTask \<Rightarrow> ('e, SdkSaneScanTask) cmd" where
  "enhance_scan env pipeline key url task =
     (if saneScanTask_status task \<noteq> ''completed'' \<or> el_steps pipeline = [] \<or> saneScanTask_output_paths task = []
      then ret task
      else let task = sane_phase ''enhancing'' ''enhancing'' 90 ''enhancing scan pages'' task in
        seq_io (announce_sane env task)
        (bind_io (case image_enhance_provider (ce_providers env) of
                    None \<Rightarrow> ret (Inl ''image enhance provider is not available'')
                  | Some ip \<Rightarrow> run_sane_steps env ip task key url 0 (el_steps pipeline)
                      (sane_pages (saneScanTask_output_paths task)))
           (finish_enhancing env task)))"

text \<open>The document: the path of the task, which after an enhancement is the first enhanced page.\<close>

definition sane_convert_request :: "'e cmd_env \<Rightarrow> SdkSaneScanTask \<Rightarrow> string \<Rightarrow> SdkFileConvertRequest" where
  "sane_convert_request env task target =
     (let export = or_keep (saneScanTask_export_type task) ''multi-page'';
          dir = (if saneScanTask_output_dir task = []
                 then GetSdkOpenTaskAssetDir (ce_work_dir env) ''sane'' (saneScanTask_task_id task) ''outputs''
                 else saneScanTask_output_dir task)
      in default_SdkFileConvertRequest
         \<lparr> fq_input_paths := saneScanTask_output_paths task, fq_source_type := ''images'', fq_source_format := ''image'',
           fq_target_type := target, fq_output_format := target, fq_export_type := export, fq_output_dir := dir,
           fq_output_path := (if export \<noteq> ''single-page'' \<and> saneScanTask_output_path task = []
             then JoinPath dir (''scan.'' @ ExtensionForFileConvertFormat target)
             else saneScanTask_output_path task) \<rparr>)"

definition sane_converted ::
    "string \<Rightarrow> SdkFileConvertRequest \<Rightarrow> SdkFileConvertResult \<Rightarrow> SdkCaptureAsset list \<Rightarrow> SdkSaneScanTask \<Rightarrow> SdkSaneScanTask" where
  "sane_converted target request result assets task = (sane_phase ''completed'' ''completed'' 100 ''scan converted'' task)
     \<lparr> saneScanTask_output_type := target, saneScanTask_output_format := target,
       saneScanTask_output_dir := fq_output_dir request, saneScanTask_output_path := fr_output_path result,
       saneScanTask_output_paths := fr_output_paths result, saneScanTask_assets := assets,
       saneScanTask_error := [] \<rparr>"

definition convert_scan :: "'e cmd_env \<Rightarrow> SdkSaneScanTask \<Rightarrow> ('e, SdkSaneScanTask) cmd" where
  "convert_scan env task =
     (let target = NormalizeImageFormat (saneScanTask_output_type task) in
      if saneScanTask_status task \<noteq> ''completed'' \<or> \<not> IsTwainDocumentTarget target \<or> saneScanTask_output_paths task = []
      then ret task
      else let request = sane_convert_request env task target in
        seq_io (announce_sane env (sane_phase ''converting'' ''converting'' 95 ''converting scan pages'' task))
        (bind_io (on_outside (world_op (EnsureDirectoryRecursive (ce_os env) (fq_output_dir request)))) (\<lambda>made.
         if \<not> made then ret (sane_failed ''failed to create SANE conversion output directory'' task)
         else bind_io (on_outside (Convert_ofd (ce_private_build env) (ce_file_convert_api env) (ce_ofd env) request))
           (\<lambda>result.
           if \<not> IsOkStatusCode (fr_code result) then ret (sane_failed (fr_message result) task)
           else bind_io (gets_io (\<lambda>s. output_assets (ce_os env) ''asset-sane-output-'' ''sane_scan_output''
                  (\<lambda>_. ContentTypeForFileConvertFormat target) (fr_output_paths result) (the_world s))) (\<lambda>assets.
             bind_io (register_assets env (saneScanTask_connection_id task) (saneScanTask_task_id task) assets) (\<lambda>assets.
             ret (sane_converted target request result assets task)))))))"

definition lookup_or_empty :: "string \<Rightarrow> (string, string) smap \<Rightarrow> string" where
  "lookup_or_empty k m = (case map_of m k of None \<Rightarrow> [] | Some v \<Rightarrow> v)"

definition DispatchSaneScanTaskEvent :: "'e cmd_env \<Rightarrow> SdkSaneScanTaskEvent \<Rightarrow> ('e, unit) cmd" where
  "DispatchSaneScanTaskEvent env event =
     (let task = saneScanTaskEvent_task event; task_id = saneScanTask_task_id task in
      bind_io (register_sane env (saneScanTask_connection_id task) task_id task) (\<lambda>task.
      bind_io (gets_io (\<lambda>s. case map_of (cm_sane_pipelines s) task_id of
                 None \<Rightarrow> default_SdkImageEnhancePipeline | Some p \<Rightarrow> p)) (\<lambda>pipeline.
      bind_io (gets_io (\<lambda>s. lookup_or_empty task_id (cm_sane_api_keys s))) (\<lambda>key.
      bind_io (gets_io (\<lambda>s. lookup_or_empty task_id (cm_sane_base_urls s))) (\<lambda>url.
      bind_io (enhance_scan env pipeline key url task) (\<lambda>task.
      bind_io (convert_scan env task) (\<lambda>task.
      seq_io (modify_io (put_sane_task task_id task))
        (tell_sane env (or_keep (saneScanTaskEvent_event_name event) ''sane.scan_changed'') task
           (saneScanTaskEvent_code event)
           (or_keep (saneScanTask_message task) (saneScanTaskEvent_message event))))))))))"

end
