(* ===== verification/Command_Twain.thy ===== *)
theory Command_Twain
  imports Command_Events
begin

text \<open>
  TWAIN scans as tasks and the clean-up of the temporary storage
  (\<open>application/command_application_service.cpp\<close>).  \<open>FinalizeTwainScanTask\<close> turns the pages a scanner left
  into the files the scan asked for: once, because a task that is being converted or is final is taken
  from the table.
\<close>

section \<open>Finishing a scan\<close>

definition twain_phase :: "string \<Rightarrow> string \<Rightarrow> int \<Rightarrow> string \<Rightarrow> SdkTwainScanTask \<Rightarrow> SdkTwainScanTask" where
  "twain_phase status phase progress message task = task
     \<lparr> twScanTask_status := status, twScanTask_phase := phase, twScanTask_progress := progress,
       twScanTask_message := message \<rparr>"

definition twain_failed :: "string \<Rightarrow> SdkTwainScanTask \<Rightarrow> SdkTwainScanTask" where
  "twain_failed message task = (twain_phase ''failed'' ''failed'' 100 message task)\<lparr>twScanTask_error := message\<rparr>"

definition twain_output_dir :: "'e cmd_env \<Rightarrow> SdkTwainScanTask \<Rightarrow> string" where
  "twain_output_dir env task =
     (if twScanTask_output_dir task = [] \<or> IsTwainInternalPagesDir (ce_work_dir env) task (twScanTask_output_dir task)
      then GetSdkOpenTaskAssetDir (ce_work_dir env) ''twain'' (twScanTask_task_id task) ''outputs''
      else twScanTask_output_dir task)"

definition keep_twain :: "SdkTwainScanTask \<Rightarrow> ('e, unit) cmd" where
  "keep_twain task = modify_io (put_twain_task (twScanTask_task_id task) task)"

text \<open>The pages one by one: \<open>Inl\<close> is the message of the page that could not be converted.\<close>

definition twain_page_request :: "string \<Rightarrow> string \<Rightarrow> nat \<Rightarrow> string \<Rightarrow> SdkFormatConvertRequest" where
  "twain_page_request dir format i path = default_SdkFormatConvertRequest
     \<lparr> fcr_input_path := path,
       fcr_output_path := JoinPath dir (''twain-page-'' @ FormatTwainPageIndex (i + 1) @ ''.'' @ ExtensionForImageFormat format),
       fcr_output_format := format \<rparr>"

fun convert_pages ::
    "'e cmd_env \<Rightarrow> SdkTwainScanTask \<Rightarrow> string \<Rightarrow> string \<Rightarrow> nat \<Rightarrow> string list \<Rightarrow> SdkCaptureAsset list \<Rightarrow>
     ('e, string + SdkCaptureAsset list) cmd" where
  "convert_pages env task dir format i [] done = ret (Inr done)"
| "convert_pages env task dir format i (path # paths) done =
     (let request = twain_page_request dir format i path in
      bind_io (on_outside (ConvertImageFormat (ce_providers env) request)) (\<lambda>result.
      if \<not> IsOkStatusCode (fcs_code result) then ret (Inl (fcs_message result))
      else let final = or_keep (fcs_output_path result) (fcr_output_path request) in
        bind_io (gets_io (\<lambda>s. file_asset (ce_os env) (''asset-twain-page-'' @ FormatTwainPageIndex (i + 1))
          ''twain_scan_page'' final (ContentTypeForImageExtension (ExtensionForImageFormat format)) (the_world s))) (\<lambda>asset.
        bind_io (register_assets env (twScanTask_connection_id task) (twScanTask_task_id task) [asset]) (\<lambda>assets.
        convert_pages env task dir format (i + 1) paths (done @ assets)))))"

definition last_or_empty :: "string list \<Rightarrow> string" where
  "last_or_empty xs = (if xs = [] then [] else last xs)"

definition first_or_empty :: "string list \<Rightarrow> string" where
  "first_or_empty xs = (if xs = [] then [] else hd xs)"

definition pages_converted :: "string \<Rightarrow> string \<Rightarrow> SdkCaptureAsset list \<Rightarrow> SdkTwainScanTask \<Rightarrow> SdkTwainScanTask" where
  "pages_converted dir format assets task =
     (let paths = map as_path assets in
      task\<lparr> twScanTask_output_format := format, twScanTask_output_dir := dir, twScanTask_output_paths := paths,
        twScanTask_output_path := first_or_empty paths, twScanTask_last_page_path := last_or_empty paths,
        twScanTask_assets := assets, twScanTask_export_type := ''single-page'', twScanTask_phase := ''completed'',
        twScanTask_progress := 100, twScanTask_message := ''TWAIN scan image pages converted'',
        twScanTask_error := [] \<rparr>)"

definition needs_page_conversion :: "SdkTwainScanTask \<Rightarrow> bool" where
  "needs_page_conversion task =
     (let format = NormalizeImageFormat (twScanTask_output_format task) in
      twScanTask_status task = ''completed'' \<and> NormalizeImageFormat (twScanTask_output_type task) = ''images'' \<and>
      format \<noteq> [] \<and> IsTwainImageTargetFormat format \<and>
      list_ex (\<lambda>p. NormalizeImageFormat (ExtensionFromFilename p) \<noteq> format) (twScanTask_output_paths task))"

text \<open>\<open>Inl\<close> ends the function with the failed task, which is kept.\<close>

definition convert_images :: "'e cmd_env \<Rightarrow> SdkTwainScanTask \<Rightarrow> ('e, SdkTwainScanTask + SdkTwainScanTask) cmd" where
  "convert_images env task =
     (if \<not> needs_page_conversion task then ret (Inr task)
      else let format = NormalizeImageFormat (twScanTask_output_format task); dir = twain_output_dir env task;
               give_up = (\<lambda>message. let failed = twain_failed message task in
                            seq_io (keep_twain failed) (ret (Inl failed))) in
        bind_io (on_outside (world_op (EnsureDirectoryRecursive (ce_os env) dir))) (\<lambda>made.
        if \<not> made then give_up (''failed to create TWAIN image output directory: output_dir='' @ dir)
        else bind_io (convert_pages env task dir format 0 (twScanTask_output_paths task) []) (\<lambda>outcome.
          case outcome of
            Inl message \<Rightarrow> give_up message
          | Inr assets \<Rightarrow> let t = pages_converted dir format assets task in
              seq_io (keep_twain t) (ret (Inr t)))))"

definition twain_convert_request :: "'e cmd_env \<Rightarrow> SdkTwainScanTask \<Rightarrow> string \<Rightarrow> SdkFileConvertRequest" where
  "twain_convert_request env task target =
     (let export = or_keep (twScanTask_export_type task) ''multi-page''; path = twScanTask_output_path task;
          dir = (if export = ''single-page'' \<and> path \<noteq> [] \<and> LooksLikeDirectoryOutputPath path \<and>
                    \<not> IsTwainInternalPagesDir (ce_work_dir env) task path then path else twain_output_dir env task);
          out = (if LooksLikeDirectoryOutputPath path \<or> IsTwainIntermediatePagePath task path then [] else path)
      in default_SdkFileConvertRequest
         \<lparr> fq_input_paths := twScanTask_output_paths task, fq_source_type := ''images'', fq_source_format := ''image'',
           fq_target_type := target, fq_output_format := target, fq_export_type := export, fq_output_dir := dir,
           fq_output_path := (if export \<noteq> ''single-page'' \<and> out = []
             then JoinPath dir (''scan.'' @ ExtensionForFileConvertFormat target) else out) \<rparr>)"

definition document_converted ::
    "string \<Rightarrow> SdkFileConvertRequest \<Rightarrow> SdkFileConvertResult \<Rightarrow> SdkCaptureAsset list \<Rightarrow> SdkTwainScanTask \<Rightarrow> SdkTwainScanTask" where
  "document_converted target request result assets task =
     (twain_phase ''completed'' ''completed'' 100 ''TWAIN scan converted'' task)
     \<lparr> twScanTask_output_type := target, twScanTask_output_format := target,
       twScanTask_output_dir := fq_output_dir request, twScanTask_output_path := fr_output_path result,
       twScanTask_output_paths := fr_output_paths result,
       twScanTask_last_page_path := last_or_empty (fr_output_paths result), twScanTask_assets := assets,
       twScanTask_error := [] \<rparr>"

definition convert_document :: "'e cmd_env \<Rightarrow> string \<Rightarrow> SdkTwainScanTask \<Rightarrow> ('e, SdkTwainScanTask) cmd" where
  "convert_document env target task =
     (let request = twain_convert_request env task target;
          task = twain_phase ''converting'' ''converting'' 95 ''converting TWAIN scan pages'' task in
      seq_io (keep_twain task)
      (bind_io (on_outside (world_op (EnsureDirectoryRecursive (ce_os env) (fq_output_dir request)))) (\<lambda>made.
       if \<not> made then
         ret (twain_failed (''failed to create TWAIN conversion output directory: output_dir='' @ fq_output_dir request) task)
       else bind_io (on_outside (Convert_ofd (ce_private_build env) (ce_file_convert_api env) (ce_ofd env) request)) (\<lambda>result.
         if \<not> IsOkStatusCode (fr_code result) then ret (twain_failed (fr_message result) task)
         else bind_io (gets_io (\<lambda>s. output_assets (ce_os env) ''asset-twain-output-'' ''twain_scan_output''
                (\<lambda>_. ContentTypeForFileConvertFormat target) (fr_output_paths result) (the_world s))) (\<lambda>assets.
           bind_io (register_assets env (twScanTask_connection_id task) (twScanTask_task_id task) assets) (\<lambda>assets.
           ret (document_converted target request result assets task)))))))"

text \<open>A task in the table that is being converted or is final, for a document target.\<close>

definition cached_document :: "SdkTwainScanTask \<Rightarrow> string \<Rightarrow> 'e CommandApplicationService \<Rightarrow> SdkTwainScanTask option" where
  "cached_document task target s =
     (case map_of (cm_twain_tasks s) (twScanTask_task_id task) of
        Some t \<Rightarrow> if ShouldUseCachedTwainDocumentTask t target then Some t else None
      | None \<Rightarrow> None)"

definition finish_pages :: "'e cmd_env \<Rightarrow> string \<Rightarrow> SdkTwainScanTask \<Rightarrow> ('e, bool \<times> SdkTwainScanTask) cmd" where
  "finish_pages env target task =
     (if twScanTask_status task = ''completed'' \<and> IsTwainDocumentTarget target \<and> twScanTask_output_paths task \<noteq> []
      then bind_io (convert_document env target task) (\<lambda>t. ret (True, t))
      else ret (False,
        if twScanTask_status task = ''completed'' \<and> target = ''images''
        then task\<lparr> twScanTask_output_path := first_or_empty (twScanTask_output_paths task),
                   twScanTask_last_page_path := last_or_empty (twScanTask_output_paths task) \<rparr>
        else task))"

definition FinalizeTwainScanTask :: "'e cmd_env \<Rightarrow> SdkTwainScanTask \<Rightarrow> ('e, bool \<times> SdkTwainScanTask) cmd" where
  "FinalizeTwainScanTask env task =
     (if twScanTask_task_id task = [] then ret (False, task)
      else bind_io (register_twain env task) (\<lambda>task.
        let target = NormalizeImageFormat (twScanTask_output_type task) in
        if IsTwainDocumentTarget target \<and> IsTwainDocumentOutputFinal task target then
          bind_io (register_twain env task) (\<lambda>task. ret (False, task))
        else bind_io (gets_io (\<lambda>s. if IsTwainDocumentTarget target then cached_document task target s else None))
          (\<lambda>cached. case cached of
            Some t \<Rightarrow> bind_io (register_twain env t) (\<lambda>t. ret (False, t))
          | None \<Rightarrow>
              bind_io (convert_images env task) (\<lambda>outcome.
              case outcome of
                Inl failed \<Rightarrow> ret (True, failed)
              | Inr task \<Rightarrow> finish_pages env target task))))"

section \<open>Commands and events\<close>

definition DispatchTwainScanTaskEvent :: "'e cmd_env \<Rightarrow> SdkTwainScanTaskEvent \<Rightarrow> ('e, unit) cmd" where
  "DispatchTwainScanTaskEvent env event =
     (if twScanTask_task_id (twScanTaskEvent_task event) = [] then ret ()
      else bind_io (FinalizeTwainScanTask env (twScanTaskEvent_task event)) (\<lambda>(_, task).
        seq_io (keep_twain task)
        (with_sink env (twScanTask_connection_id task) (\<lambda>sink.
         bind_io twain_provider (\<lambda>provider.
         emit env sink (twScanTask_connection_id task) (or_keep (twScanTaskEvent_event_name event) ''twain.scan_changed'')
           (obj [(''task_id'', JString (twScanTask_task_id task)), (''task'', BuildTwainScanTaskJson task),
                 (''provider'', JString provider)])
           (twScanTaskEvent_code event)
           (or_keep (twScanTask_message task) (twScanTaskEvent_message event)))))))"

definition twain_scan_json :: "bool \<Rightarrow> string \<Rightarrow> SdkTwainScanTask \<Rightarrow> (string \<times> json) list" where
  "twain_scan_json accepted task_id task =
     [(''accepted'', JBool accepted), (''task_id'', JString task_id), (''task'', BuildTwainScanTaskJson task)]"

text \<open>The hints of the request in the code's order, each either an error or the request with it.\<close>

definition hint_path :: "string \<Rightarrow> string \<Rightarrow> string + SdkTwainScanRequest \<Rightarrow> string + SdkTwainScanRequest" where
  "hint_path path field r = (case r of Inl e \<Rightarrow> Inl e | Inr scan \<Rightarrow> ApplyTwainOutputPathHint path field scan)"

definition hint_dir :: "string \<Rightarrow> string \<Rightarrow> string + SdkTwainScanRequest \<Rightarrow> string + SdkTwainScanRequest" where
  "hint_dir dir field r =
     (case r of
        Inl e \<Rightarrow> Inl e
      | Inr scan \<Rightarrow> if dir = [] then Inr scan
          else map_sum id (\<lambda>d. scan\<lparr>twScanRequest_output_dir := d\<rparr>) (ValidateTwainOutputDirectoryPath dir field))"

definition twain_scan_request :: "string \<Rightarrow> Request \<Rightarrow> string + SdkTwainScanRequest" where
  "twain_scan_request connection_id request =
     (let output = GetOptionalObjectField (rq_params request) ''output'';
          get = (\<lambda>key. if jempty output then [] else GetOptionalStringField output key);
          type = or_keep (or_keep (get ''type'') (param request ''output_type'')) ''images'';
          export = NormalizeExportType (or_keep (get ''export_type'') (param request ''export_type''));
          start = default_SdkTwainScanRequest
            \<lparr> twScanRequest_connection_id := connection_id, twScanRequest_session_id := param request ''session_id'',
              twScanRequest_show_ui := GetOptionalBoolField (rq_params request) ''show_ui'' False,
              twScanRequest_output_format := [] \<rparr>
      in map_sum id (\<lambda>scan. scan\<lparr> twScanRequest_output_type := NormalizeImageFormat type,
                                 twScanRequest_export_type := or_keep export ''multi-page'' \<rparr>)
         (hint_dir (get ''dir'') ''output.dir'' (hint_path (get ''path'') ''output.path''
           (hint_dir (param request ''output_dir'') ''output_dir''
             (hint_path (param request ''output_path'') ''output_path'' (Inr start))))))"

definition run_twain_scan :: "'e cmd_env \<Rightarrow> Request \<Rightarrow> SdkTwainScanRequest \<Rightarrow> ('e, json) cmd" where
  "run_twain_scan env request scan =
     bind_io (on_outside (twain_Scan (ce_twain env) scan)) (\<lambda>result.
     bind_io (if twScanResult_task_id result = [] then ret (twScanResult_task result)
              else bind_io (FinalizeTwainScanTask env (twScanResult_task result)) (\<lambda>(_, task).
                seq_io (modify_io (put_twain_task (twScanResult_task_id result) task)) (ret task))) (\<lambda>task.
     twain_respond env request (twScanResult_code result) (twScanResult_message result)
       (twain_scan_json (twScanResult_accepted result) (twScanResult_task_id result) task)))"

definition start_twain_scan :: "'e cmd_env \<Rightarrow> Request \<Rightarrow> SdkTwainScanRequest \<Rightarrow> ('e, json) cmd" where
  "start_twain_scan env request scan =
     (if \<not> IsTwainOutputType (twScanRequest_output_type scan)
      then bad_params env request ''TWAIN output type must be images, pdf, ofd, or tiff''
      else bind_io (on_outside (world_op (EnsureTwainOutputDirectoryReady (ce_os env) (twScanRequest_output_dir scan))))
        (\<lambda>ready. case ready of
          Inl error \<Rightarrow> bad_params env request error
        | Inr dir \<Rightarrow>
            if \<not> IsTwainExportType (twScanRequest_export_type scan)
            then bad_params env request ''TWAIN export_type must be multi-page or single-page''
            else if twScanRequest_session_id scan = [] then bad_params env request ''session_id required''
            else run_twain_scan env request (scan\<lparr> twScanRequest_output_dir := dir,
              twScanRequest_export_type := (if twScanRequest_output_type scan = ''images'' then ''single-page''
                                            else twScanRequest_export_type scan) \<rparr>)))"

definition HandleTwainScan :: "'e cmd_env \<Rightarrow> string \<Rightarrow> Request \<Rightarrow> ('e, json) cmd" where
  "HandleTwainScan env connection_id request =
     bind_io (ConsumeQuota_cmd env connection_id (rq_method request) (rq_request_id request) 1) (\<lambda>session.
     if \<not> IsOkStatusCode (sn_code session)
     then reject env (rq_request_id request) (sn_code session) (sn_message session)
     else case twain_scan_request connection_id request of
       Inl error \<Rightarrow> bad_params env request error
     | Inr scan \<Rightarrow> start_twain_scan env request scan)"

definition HandleTwainScanGet :: "'e cmd_env \<Rightarrow> string \<Rightarrow> Request \<Rightarrow> ('e, json) cmd" where
  "HandleTwainScanGet env connection_id request =
     with_param env connection_id request ''task_id'' (\<lambda>task_id.
     bind_io (gets_io (\<lambda>s. map_of (cm_twain_tasks s) task_id)) (\<lambda>known.
     case (case known of Some t \<Rightarrow> if IsTwainTaskTerminal t then Some t else None | None \<Rightarrow> None) of
       Some task \<Rightarrow>
         bind_io (FinalizeTwainScanTask env task) (\<lambda>(_, task).
         seq_io (modify_io (put_twain_task task_id task))
           (twain_respond env request (ToCode Ok) ''ok'' (twain_scan_json True task_id task)))
     | None \<Rightarrow>
         bind_io (on_outside (twain_GetScan (ce_twain env) \<lparr> twScanGetRequest_task_id = task_id \<rparr>)) (\<lambda>result.
         bind_io (FinalizeTwainScanTask env (twScanResult_task result)) (\<lambda>(_, task).
         seq_io (when_io (twScanResult_task_id result \<noteq> [])
                  (modify_io (put_twain_task (twScanResult_task_id result) task)))
           (twain_respond env request (twScanResult_code result) (twScanResult_message result)
             (twain_scan_json (twScanResult_accepted result) (twScanResult_task_id result) task))))))"

definition HandleTwainScanCancel :: "'e cmd_env \<Rightarrow> string \<Rightarrow> Request \<Rightarrow> ('e, json) cmd" where
  "HandleTwainScanCancel env connection_id request =
     with_param env connection_id request ''task_id'' (\<lambda>task_id.
     bind_io (on_outside (twain_CancelScan (ce_twain env) \<lparr> twScanCancelRequest_task_id = task_id \<rparr>)) (\<lambda>result.
     seq_io (modify_io (\<lambda>s. case map_of (cm_twain_tasks s) task_id of
               None \<Rightarrow> s
             | Some task \<Rightarrow> put_twain_task task_id
                 (task\<lparr> twScanTask_message := ''cancel requested'', twScanTask_cancel_requested := True \<rparr>) s))
     (bind_io twain_provider (\<lambda>provider.
      respond env (rq_request_id request) (twScanResult_code result) (twScanResult_message result)
        (BuildTwainScanCancelAckJson result provider)))))"

section \<open>Temporary storage\<close>

definition busy_status :: "string \<Rightarrow> bool" where
  "busy_status status \<longleftrightarrow> status \<in> {''queued'', ''running'', ''enhancing'', ''converting''}"

definition IsSaneTaskActive :: "SdkSaneScanTask \<Rightarrow> bool" where
  "IsSaneTaskActive task = busy_status (saneScanTask_status task)"

definition IsTwainTaskActiveForStorage :: "SdkTwainScanTask \<Rightarrow> bool" where
  "IsTwainTaskActiveForStorage task \<longleftrightarrow>
     busy_status (twScanTask_status task) \<or>
     twScanTask_cancel_requested task \<and> twScanTask_status task \<notin> {''completed'', ''failed'', ''cancelled''}"

definition active_tasks :: "'e CommandApplicationService \<Rightarrow> SdkStorageActiveTasks" where
  "active_tasks s = default_SdkStorageActiveTasks
     \<lparr> sa_capture := ActiveTaskCount (cm_capture s), sa_image_enhance := ActiveTaskCount_enhance (cm_enhance s),
       sa_sane := length (filter (\<lambda>p. IsSaneTaskActive (snd p)) (cm_sane_tasks s)),
       sa_twain := length (filter (\<lambda>p. IsTwainTaskActiveForStorage (snd p)) (cm_twain_tasks s)) \<rparr>"

definition active_json :: "SdkStorageActiveTasks \<Rightarrow> json" where
  "active_json a = obj
     [(''active'', obj [(''capture'', jnat (sa_capture a)), (''image_enhance'', jnat (sa_image_enhance a)),
       (''ocr'', jnat (sa_ocr a)), (''sane'', jnat (sa_sane a)), (''twain'', jnat (sa_twain a))])]"

text \<open>Forgetting what is finished.  A count is kept per kind.\<close>

definition clear_finished :: "'e CommandApplicationService \<Rightarrow> nat \<times> 'e CommandApplicationService" where
  "clear_finished s =
     (let (captures, capture) = ClearFinishedTasks (cm_capture s);
          (enhances, enhance) = ClearFinishedTasks_enhance (cm_enhance s) in
      (captures + enhances + length (cm_sane_tasks s) + length (cm_twain_tasks s),
       s\<lparr> cm_capture := capture, cm_enhance := enhance, cm_image_assets := [], cm_image_owner := [],
          cm_sane_tasks := [], cm_sane_pipelines := [], cm_sane_api_keys := [], cm_sane_base_urls := [],
          cm_twain_tasks := [] \<rparr>))"

definition storage_busy :: "'e cmd_env \<Rightarrow> Request \<Rightarrow> json \<Rightarrow> ('e, json) cmd" where
  "storage_busy env request payload =
     respond env (rq_request_id request) (ToCode StorageBusy) ''temporary storage is busy'' payload"

text \<open>\<open>lock_taken\<close>: another thread holds the lock of the storage.\<close>

definition HandleStorageCleanupTemp :: "'e cmd_env \<Rightarrow> bool \<Rightarrow> string \<Rightarrow> Request \<Rightarrow> ('e, json) cmd" where
  "HandleStorageCleanupTemp env lock_taken connection_id request =
     bind_io (gets_io (\<lambda>s. RequireSession connection_id (cm_auth s))) (\<lambda>session.
     if \<not> IsOkStatusCode (sn_code session)
     then reject env (rq_request_id request) (sn_code session) (sn_message session)
     else if lock_taken then storage_busy env request (obj [])
     else bind_io (gets_io active_tasks) (\<lambda>active.
       if Total active \<noteq> 0 then storage_busy env request (active_json active)
       else bind_io (on_outside (CleanupTemp (ce_storage env) \<lparr> sq_work_dir = ce_work_dir env \<rparr>)) (\<lambda>result.
         if \<not> IsOkStatusCode (sc_code result) then
           respond env (rq_request_id request) (sc_code result) (sc_message result)
             (active_json (active\<lparr> sa_ocr := sa_ocr (sc_active result), sa_sane := sa_sane (sc_active result),
                                   sa_twain := sa_twain (sc_active result) \<rparr>))
         else bind_io (step_io clear_finished) (\<lambda>cleared.
           succeed env (rq_request_id request)
             (obj [(''capture_removed'', JBool (sc_capture_removed result)),
                   (''tasks_removed'', JBool (sc_tasks_removed result)),
                   (''cleared_task_count'', jnat (sc_cleared_ocr_task_count result + cleared))])))))"

end
