(* ===== verification/Command_Image.thy ===== *)
theory Command_Image
  imports Command_Tools
begin

text \<open>
  Processing one image at once (\<open>application/command_application_service.cpp\<close>): \<open>image.process\<close>,
  \<open>image.process_page\<close> and \<open>image.apply_color_mode\<close>.  What a handler does before an error stays done:
  pages that were registered before one that fails remain registered.
\<close>

section \<open>What the handlers share\<close>

definition with_entitlement ::
    "'e cmd_env \<Rightarrow> string \<Rightarrow> Request \<Rightarrow> SdkAccountType \<Rightarrow> ('e, json) cmd \<Rightarrow> ('e, json) cmd" where
  "with_entitlement env connection_id request required k =
     bind_io (RequireFeatureEntitlement env connection_id (rq_method request) (rq_method request) required
         (rq_request_id request)) (\<lambda>entitlement.
     if \<not> IsOkStatusCode (sn_code entitlement)
     then reject env (rq_request_id request) (sn_code entitlement) (sn_message entitlement)
     else k)"

definition provider_named :: "string \<Rightarrow> 'e CommandApplicationService \<Rightarrow> json" where
  "provider_named key s = JString (ProviderNameOrEmpty (cm_provider_names s) key)"

definition or_error :: "'e cmd_env \<Rightarrow> Request \<Rightarrow> ('e, (int \<times> string) + 'a) cmd \<Rightarrow> ('a \<Rightarrow> ('e, json) cmd) \<Rightarrow> ('e, json) cmd" where
  "or_error env request m f =
     bind_io m (\<lambda>r. case r of
       Inl (code, message) \<Rightarrow> reject env (rq_request_id request) code message
     | Inr a \<Rightarrow> f a)"

text \<open>The image, with the extension of an upload (empty for a path).\<close>

definition image_input ::
    "'e cmd_env \<Rightarrow> string \<Rightarrow> string \<Rightarrow> string \<Rightarrow> string \<Rightarrow> 'e CommandApplicationService \<Rightarrow>
     (int \<times> string) + (string \<times> string)" where
  "image_input env connection_id method_name upload_id input_path s =
     (case (if upload_id = [] then Inr (input_path, [])
            else ResolveImageInputAsset connection_id upload_id method_name s) of
        Inl e \<Rightarrow> Inl e
      | Inr (path, extension) \<Rightarrow>
          if path = [] then Inl (ToCode InvalidParams, ''input_path or input_upload_id required'')
          else if \<not> FileExists (ce_os env) path (the_world s)
            then Inl (ToCode InvalidParams, ''input image does not exist'')
          else Inr (path, extension))"

definition image_task_id :: "'e cmd_env \<Rightarrow> string \<Rightarrow> ('e, string) cmd" where
  "image_task_id env upload_id = (if upload_id = [] then NextImageTaskId env else ret upload_id)"

definition image_dir :: "'e cmd_env \<Rightarrow> string \<Rightarrow> string \<Rightarrow> string" where
  "image_dir env task_id dir =
     (if dir = [] then GetSdkOpenTaskAssetDir (ce_work_dir env) ''image'' task_id ''assets'' else dir)"

definition make_dir :: "'e cmd_env \<Rightarrow> Request \<Rightarrow> string \<Rightarrow> string \<Rightarrow> ('e, json) cmd \<Rightarrow> ('e, json) cmd" where
  "make_dir env request dir message k =
     bind_io (on_outside (world_op (EnsureDirectoryRecursive (ce_os env) dir))) (\<lambda>made.
     if \<not> made then reject env (rq_request_id request) (ToCode InternalError) message else k)"

definition no_output_dir :: string where
  "no_output_dir = ''failed to create image process output directory''"

definition register_output ::
    "'e cmd_env \<Rightarrow> string \<Rightarrow> string \<Rightarrow> string \<Rightarrow> SdkImageProcessOutput \<Rightarrow>
     ('e, SdkImageProcessOutput \<times> SdkCaptureAsset) cmd" where
  "register_output env connection_id task_id kind output =
     (let asset = AttachImageAssetUrls env task_id (default_SdkCaptureAsset
            \<lparr> as_asset_id := ipo_asset_id output, as_kind := kind, as_path := ipo_path output,
              as_content_type := ipo_content_type output, as_width := ipo_width output,
              as_height := ipo_height output, as_size := ipo_size output \<rparr>)
      in seq_io (modify_io (RegisterImageAsset connection_id task_id asset))
           (ret (output\<lparr> ipo_url := as_url asset, ipo_download_url := as_download_url asset \<rparr>, asset)))"

definition selected_area :: "Request \<Rightarrow> (SdkRect4P \<times> int \<times> int) option" where
  "selected_area request =
     (let j = GetOptionalObjectField (rq_params request) ''selected_area'';
          source = GetOptionalObjectField j ''source'' in
      if jempty j then None
      else Some (ParseRect4P (GetOptionalObjectField j ''points''), GetOptionalIntField source ''width'' 0,
                 GetOptionalIntField source ''height'' 0))"

definition single_page_of :: "Request \<Rightarrow> SdkSinglePageOptions \<Rightarrow> SdkSinglePageOptions" where
  "single_page_of request options =
     (let j = GetOptionalObjectField (rq_params request) ''single_page'' in
      if jempty j then options else ParseSinglePageOptions j options)"

definition curved_book_of :: "Request \<Rightarrow> SdkCurvedBookOptions \<Rightarrow> SdkCurvedBookOptions" where
  "curved_book_of request options =
     (let j = GetOptionalObjectField (rq_params request) ''curved_book'' in
      if jempty j then options else ParseCurvedBookOptions j options)"

text \<open>The profile of the request, if it has one.\<close>

definition given_profile :: "Request \<Rightarrow> string + SdkCaptureProfile option" where
  "given_profile request =
     (if jempty (GetOptionalObjectField (rq_params request) ''profile'') then Inr None
      else map_sum id Some (TryParseCaptureProfile (rq_params request) []))"

section \<open>Processing\<close>

definition process_profile :: "SdkCaptureProfile \<Rightarrow> SdkImageProcessRequest \<Rightarrow> SdkImageProcessRequest" where
  "process_profile p r = r
     \<lparr> ipr_page_processing := cp_page_processing p, ipr_color_mode := cp_color_mode p,
       ipr_output_format := cp_output_format p, ipr_single_page := cp_single_page p,
       ipr_curved_book := cp_curved_book p, ipr_selected_area_rect := cp_selected_area_rect p,
       ipr_selected_area_source_width := cp_selected_area_source_width p,
       ipr_selected_area_source_height := cp_selected_area_source_height p \<rparr>"

definition process_format :: "Request \<Rightarrow> SdkImageProcessRequest \<Rightarrow> string" where
  "process_format request r =
     (if param request ''output_format'' \<noteq> [] then param request ''output_format''
      else if ipr_output_format r \<noteq> [] then ipr_output_format r
      else if ipr_output_path r \<noteq> [] then InferOutputFormatFromPath (ipr_output_path r) else ''jpg'')"

definition process_flat :: "Request \<Rightarrow> SdkImageProcessRequest \<Rightarrow> SdkImageProcessRequest" where
  "process_flat request r = r
     \<lparr> ipr_page_processing := or_field (rq_params request) ''page_processing'' (ipr_page_processing r),
       ipr_color_mode := or_field (rq_params request) ''color_mode'' (ipr_color_mode r),
       ipr_output_format := process_format request r,
       ipr_dpi := GetOptionalIntField (rq_params request) ''dpi'' (ipr_dpi r),
       ipr_scan_device_type := GetOptionalIntField (rq_params request) ''scan_device_type'' (ipr_scan_device_type r),
       ipr_single_page := single_page_of request (ipr_single_page r),
       ipr_curved_book := curved_book_of request (ipr_curved_book r) \<rparr>"

definition process_area :: "Request \<Rightarrow> SdkImageProcessRequest \<Rightarrow> SdkImageProcessRequest" where
  "process_area request r =
     (case selected_area request of
        None \<Rightarrow> r
      | Some (rect, width, height) \<Rightarrow> r
          \<lparr> ipr_page_processing := ''selected_area'', ipr_selected_area_rect := rect,
            ipr_selected_area_source_width := width, ipr_selected_area_source_height := height \<rparr>)"

definition image_process_request :: "Request \<Rightarrow> string + SdkImageProcessRequest" where
  "image_process_request request =
     map_sum id (\<lambda>profile.
       let r = default_SdkImageProcessRequest
             \<lparr> ipr_input_upload_id := param request ''input_upload_id'', ipr_input_path := param request ''input_path'',
               ipr_output_path := param request ''output_path'', ipr_output_dir := param request ''output_dir'' \<rparr>
       in process_area request (process_flat request
            (case profile of None \<Rightarrow> r | Some p \<Rightarrow> process_profile p r)))
     (given_profile request)"

text \<open>The name of an output: its own id, or its number from 1.\<close>

definition output_name :: "string \<Rightarrow> char \<Rightarrow> SdkImageProcessOutput \<Rightarrow> string" where
  "output_name base separator output =
     (if ipo_index output = 0 then base
      else base @ separator #
        (if ipo_output_id output = [] then to_string (ipo_index output + 1) else ipo_output_id output))"

definition process_output ::
    "'e cmd_env \<Rightarrow> string \<Rightarrow> string \<Rightarrow> string \<Rightarrow> SdkImageProcessOutput \<Rightarrow>
     ('e, SdkImageProcessOutput \<times> SdkCaptureAsset) cmd" where
  "process_output env connection_id task_id format output =
     bind_io (gets_io (\<lambda>s. if 0 < ipo_size output then ipo_size output
                           else FileSize (ce_os env) (ipo_path output) (the_world s))) (\<lambda>bytes.
     register_output env connection_id task_id (output_name ''final'' (CHR ''_'') output)
       (output\<lparr> ipo_asset_id := output_name ''asset-final'' (CHR ''-'') output,
                ipo_content_type := ContentTypeForOutputFormat format, ipo_size := bytes \<rparr>))"

definition process_json ::
    "string \<Rightarrow> SdkImageProcessRequest \<Rightarrow> SdkImageProcessResult \<Rightarrow> (SdkImageProcessOutput \<times> SdkCaptureAsset) list \<Rightarrow>
     json \<Rightarrow> json" where
  "process_json task_id r result outputs provider = obj
     [(''task_id'', JString task_id), (''input_upload_id'', JString (ipr_input_upload_id r)),
      (''input_path'', JString (ipr_input_path r)),
      (''output_path'', JString (if ips_output_path result = [] then ipr_output_path r else ips_output_path result)),
      (''outputs'', JArray (map (BuildImageProcessOutputJson \<circ> fst) outputs)),
      (''assets'', JArray (map (BuildAssetJson \<circ> snd) outputs)),
      (''page_processing'', JString (ipr_page_processing r)), (''color_mode'', JString (ipr_color_mode r)),
      (''output_format'', JString (ipr_output_format r)), (''processed'', JBool (ips_processed result)),
      (''provider'', provider)]"

definition run_process ::
    "'e cmd_env \<Rightarrow> string \<Rightarrow> Request \<Rightarrow> string \<Rightarrow> SdkImageProcessRequest \<Rightarrow> ('e, json) cmd" where
  "run_process env connection_id request task_id r =
     make_dir env request (ipr_output_dir r) no_output_dir (
     let r = (if ipr_output_path r = []
              then r\<lparr>ipr_output_path := JoinPath (ipr_output_dir r) (''final.'' @ ipr_output_format r)\<rparr> else r) in
     bind_io (on_outside (Process (ce_providers env) r)) (\<lambda>result.
     if \<not> IsOkStatusCode (ips_code result)
     then reject env (rq_request_id request) (ips_code result) (ips_message result)
     else bind_io (map_io (process_output env connection_id task_id (ipr_output_format r)) (ips_outputs result))
       (\<lambda>outputs. bind_io (gets_io (provider_named ''graphic'')) (\<lambda>provider.
       succeed env (rq_request_id request) (process_json task_id r result outputs provider)))))"

definition HandleImageProcess :: "'e cmd_env \<Rightarrow> string \<Rightarrow> Request \<Rightarrow> ('e, json) cmd" where
  "HandleImageProcess env connection_id request =
     with_capability env connection_id request (\<lambda>_.
     case image_process_request request of
       Inl error \<Rightarrow> bad_params env request error
     | Inr r \<Rightarrow>
         with_entitlement env connection_id request
           (RequiredTierForImageProcess (ipr_page_processing r) (ipr_color_mode r) (spo_auto_rotate (ipr_single_page r)))
         (or_error env request
           (gets_io (image_input env connection_id ''image.process'' (ipr_input_upload_id r) (ipr_input_path r)))
           (\<lambda>(path, _). bind_io (image_task_id env (ipr_input_upload_id r)) (\<lambda>task_id.
             run_process env connection_id request task_id
               (r\<lparr> ipr_input_path := path, ipr_output_dir := image_dir env task_id (ipr_output_dir r) \<rparr>)))))"

section \<open>Keeping the format\<close>

text \<open>The format of the input: by the upload, else by its name, else jpg.\<close>

definition source_format :: "string \<Rightarrow> string \<Rightarrow> string" where
  "source_format extension path =
     (let e = (if extension = [] then ExtensionFromFilename path else extension);
          e = (if e = [] \<or> \<not> IsSupportedImageExtension e then ''jpg'' else e)
      in NormalizeImageFormat e)"

definition keeps_format :: "string \<Rightarrow> string \<Rightarrow> bool" where
  "keeps_format format output_path \<longleftrightarrow>
     output_path = [] \<or> NormalizeImageFormat (InferOutputFormatFromPath output_path) \<in> {[], format}"

text \<open>\<open>std::remove\<close> of a file; what a provider names as its output is not an empty directory.\<close>

definition remove_file :: "os_env \<Rightarrow> string \<Rightarrow> 'e world \<Rightarrow> unit \<times> 'e world" where
  "remove_file os path w =
     (let (granted, w) = syscall os w in
      ((), if granted then w\<lparr>w_files := (w_files w)(os_canon os path := None)\<rparr> else w))"

section \<open>Pages\<close>

definition page_profile :: "SdkCaptureProfile \<Rightarrow> SdkPageProcessRequest \<Rightarrow> SdkPageProcessRequest" where
  "page_profile p r = r
     \<lparr> ppr_page_processing := cp_page_processing p, ppr_single_page := cp_single_page p,
       ppr_curved_book := cp_curved_book p, ppr_selected_area_rect := cp_selected_area_rect p,
       ppr_selected_area_source_width := cp_selected_area_source_width p,
       ppr_selected_area_source_height := cp_selected_area_source_height p \<rparr>"

definition page_area :: "Request \<Rightarrow> SdkPageProcessRequest \<Rightarrow> SdkPageProcessRequest" where
  "page_area request r =
     (case selected_area request of
        None \<Rightarrow> r
      | Some (rect, width, height) \<Rightarrow> r
          \<lparr> ppr_page_processing := ''selected_area'', ppr_selected_area_rect := rect,
            ppr_selected_area_source_width := width, ppr_selected_area_source_height := height \<rparr>)"

definition page_process_request :: "Request \<Rightarrow> string + SdkPageProcessRequest" where
  "page_process_request request =
     map_sum id (\<lambda>profile.
       let r = default_SdkPageProcessRequest
             \<lparr> ppr_input_path := param request ''input_path'', ppr_output_dir := param request ''output_dir'',
               ppr_output_path := param request ''output_path'',
               ppr_page_processing := or_field (rq_params request) ''page_processing'' ''single_page'',
               ppr_scan_device_type := GetOptionalIntField (rq_params request) ''scan_device_type''
                 (ppr_scan_device_type default_SdkPageProcessRequest) \<rparr>;
           r = (case profile of None \<Rightarrow> r | Some p \<Rightarrow> page_profile p r)
       in page_area request (r\<lparr> ppr_single_page := single_page_of request (ppr_single_page r),
                                ppr_curved_book := curved_book_of request (ppr_curved_book r) \<rparr>))
     (given_profile request)"

text \<open>A page in another format than the input is converted, when the format can be written.\<close>

definition page_in_format ::
    "'e cmd_env \<Rightarrow> SdkPageProcessRequest \<Rightarrow> string \<Rightarrow> SdkPageOutput \<Rightarrow> ('e, (int \<times> string) + string) cmd" where
  "page_in_format env r format page =
     (let path = OutputPathForIndexedAsset (ppr_output_dir r) (if po_index page = 0 then ppr_output_path r else [])
            ''page_processed'' (po_index page) (ExtensionForImageFormat format) in
      if NormalizeImageFormat (ExtensionFromFilename (po_path page)) = format then ret (Inr (po_path page))
      else if \<not> IsGraphicConvertFormat format then
        ret (Inl (ToCode UnsupportedMethod, ''input image format cannot be preserved for this page processing result''))
      else bind_io (on_outside (ConvertImageFormat (ce_providers env) (default_SdkFormatConvertRequest
             \<lparr> fcr_input_path := po_path page, fcr_output_path := path, fcr_output_format := format \<rparr>))) (\<lambda>result.
        ret (if \<not> IsOkStatusCode (fcs_code result) then Inl (fcs_code result, fcs_message result)
             else Inr (or_keep (fcs_output_path result) path))))"

definition page_output :: "string \<Rightarrow> string \<Rightarrow> SdkPageOutput \<Rightarrow> nat \<Rightarrow> SdkImageProcessOutput" where
  "page_output format path page bytes = default_SdkImageProcessOutput
     \<lparr> ipo_asset_id := (if po_index page = 0 then ''asset-page'' else ''asset-page-'' @ po_output_id page),
       ipo_output_id := po_output_id page, ipo_role := or_keep (po_role page) ''page'',
       ipo_index := po_index page, ipo_path := path,
       ipo_content_type := ContentTypeForImageExtension (ExtensionForImageFormat format),
       ipo_width := po_width page, ipo_height := po_height page, ipo_size := bytes \<rparr>"

definition publish_page ::
    "'e cmd_env \<Rightarrow> string \<Rightarrow> string \<Rightarrow> SdkPageProcessRequest \<Rightarrow> string \<Rightarrow> SdkPageOutput \<Rightarrow> string \<Rightarrow>
     ('e, SdkImageProcessOutput \<times> SdkCaptureAsset) cmd" where
  "publish_page env connection_id task_id r format page path =
     bind_io (gets_io (\<lambda>s. FileSize (ce_os env) path (the_world s))) (\<lambda>bytes.
     bind_io (register_output env connection_id task_id
         (if po_index page = 0 then ''page_processed'' else ''page_processed_'' @ po_output_id page)
         (page_output format path page bytes)) (\<lambda>published.
     seq_io (when_io (po_path page \<noteq> path \<and> po_path page \<noteq> ppr_input_path r)
               (on_outside (world_op (remove_file (ce_os env) (po_path page)))))
       (ret published)))"

fun publish_pages ::
    "'e cmd_env \<Rightarrow> string \<Rightarrow> string \<Rightarrow> SdkPageProcessRequest \<Rightarrow> string \<Rightarrow> SdkPageOutput list \<Rightarrow>
     ('e, (int \<times> string) + (SdkImageProcessOutput \<times> SdkCaptureAsset) list) cmd" where
  "publish_pages env connection_id task_id r format [] = ret (Inr [])"
| "publish_pages env connection_id task_id r format (page # pages) =
     bind_io (page_in_format env r format page) (\<lambda>formatted. case formatted of
       Inl e \<Rightarrow> ret (Inl e)
     | Inr path \<Rightarrow>
         bind_io (publish_page env connection_id task_id r format page path) (\<lambda>published.
         bind_io (publish_pages env connection_id task_id r format pages) (\<lambda>rest.
         ret (map_sum id (\<lambda>ps. published # ps) rest))))"

definition page_answer ::
    "string \<Rightarrow> string \<Rightarrow> SdkPageProcessRequest \<Rightarrow> string \<Rightarrow> SdkPageProcessResult \<Rightarrow>
     (SdkImageProcessOutput \<times> SdkCaptureAsset) list \<Rightarrow> json \<Rightarrow> json" where
  "page_answer task_id upload_id r format result outputs provider = obj
     [(''task_id'', JString task_id), (''input_upload_id'', JString upload_id),
      (''input_path'', JString (ppr_input_path r)),
      (''output_path'', JString (case find (\<lambda>p. p \<noteq> []) (map (ipo_path \<circ> fst) outputs) of
         None \<Rightarrow> pps_output_path result | Some path \<Rightarrow> path)),
      (''outputs'', JArray (map (BuildImageProcessOutputJson \<circ> fst) outputs)),
      (''assets'', JArray (map (BuildAssetJson \<circ> snd) outputs)),
      (''page_processing'', JString (ppr_page_processing r)), (''output_format'', JString format),
      (''processed'', JBool (pps_processed result)), (''provider'', provider)]"

definition run_page ::
    "'e cmd_env \<Rightarrow> string \<Rightarrow> Request \<Rightarrow> string \<Rightarrow> SdkPageProcessRequest \<Rightarrow> string \<Rightarrow> ('e, json) cmd" where
  "run_page env connection_id request task_id r format =
     make_dir env request (ppr_output_dir r) no_output_dir (
     let r = (if ppr_output_path r = [] then r\<lparr>ppr_output_path := JoinPath (ppr_output_dir r)
                (''page_processed.'' @ ExtensionForImageFormat format)\<rparr> else r) in
     bind_io (on_outside (ProcessPage (ce_providers env) r)) (\<lambda>result.
     if \<not> IsOkStatusCode (pps_code result)
     then reject env (rq_request_id request) (pps_code result) (pps_message result)
     else or_error env request (publish_pages env connection_id task_id r format (pps_outputs result)) (\<lambda>outputs.
       bind_io (gets_io (provider_named ''graphic'')) (\<lambda>provider.
       succeed env (rq_request_id request)
         (page_answer task_id (param request ''input_upload_id'') r format result outputs provider)))))"

definition HandleImageProcessPage :: "'e cmd_env \<Rightarrow> string \<Rightarrow> Request \<Rightarrow> ('e, json) cmd" where
  "HandleImageProcessPage env connection_id request =
     with_capability env connection_id request (\<lambda>_.
     case page_process_request request of
       Inl error \<Rightarrow> bad_params env request error
     | Inr r \<Rightarrow> let upload_id = param request ''input_upload_id'' in
         with_entitlement env connection_id request
           (RequiredTierForImageProcess (ppr_page_processing r) ''no_optimize'' (spo_auto_rotate (ppr_single_page r)))
         (or_error env request
           (gets_io (image_input env connection_id ''image.process_page'' upload_id (ppr_input_path r)))
           (\<lambda>(path, extension).
             let format = source_format extension path in
             if \<not> keeps_format format (ppr_output_path r)
             then bad_params env request ''image.process_page output_path must keep the input image format''
             else bind_io (image_task_id env upload_id) (\<lambda>task_id.
               run_page env connection_id request task_id
                 (r\<lparr> ppr_input_path := path, ppr_output_dir := image_dir env task_id (ppr_output_dir r) \<rparr>)
                 format))))"

section \<open>Colours\<close>

definition color_mode_of :: "Request \<Rightarrow> string + string" where
  "color_mode_of request =
     (if param request ''color_mode'' \<noteq> [] then Inr (param request ''color_mode'')
      else map_sum id (\<lambda>p. or_keep (cp_color_mode p) ''no_optimize'') (TryParseCaptureProfile (rq_params request) []))"

definition color_output :: "string \<Rightarrow> string \<Rightarrow> SdkColorModeResult \<Rightarrow> nat \<Rightarrow> SdkImageProcessOutput" where
  "color_output format path result bytes = default_SdkImageProcessOutput
     \<lparr> ipo_asset_id := ''asset-color'', ipo_output_id := ''color-001'', ipo_role := ''color'', ipo_index := 0,
       ipo_path := path, ipo_content_type := ContentTypeForImageExtension (ExtensionForImageFormat format),
       ipo_width := cms_width result, ipo_height := cms_height result,
       ipo_size := (if 0 < cms_size result then cms_size result else bytes) \<rparr>"

definition color_json ::
    "string \<Rightarrow> string \<Rightarrow> SdkColorModeRequest \<Rightarrow> string \<Rightarrow> SdkColorModeResult \<Rightarrow>
     SdkImageProcessOutput \<times> SdkCaptureAsset \<Rightarrow> json \<Rightarrow> json" where
  "color_json task_id upload_id r format result output provider = obj
     [(''task_id'', JString task_id), (''input_upload_id'', JString upload_id),
      (''input_path'', JString (cmr_input_path r)), (''output_path'', JString (ipo_path (fst output))),
      (''outputs'', JArray [BuildImageProcessOutputJson (fst output)]),
      (''assets'', JArray [BuildAssetJson (snd output)]), (''color_mode'', JString (cmr_color_mode r)),
      (''output_format'', JString format), (''processed'', JBool (cms_processed result)), (''provider'', provider)]"

definition run_color ::
    "'e cmd_env \<Rightarrow> string \<Rightarrow> Request \<Rightarrow> string \<Rightarrow> string \<Rightarrow> SdkColorModeRequest \<Rightarrow> string \<Rightarrow> ('e, json) cmd" where
  "run_color env connection_id request task_id dir r format =
     make_dir env request dir no_output_dir (
     let r = (if cmr_output_path r = [] then r\<lparr>cmr_output_path :=
                JoinPath dir (''color_processed.'' @ ExtensionForImageFormat format)\<rparr> else r) in
     bind_io (on_outside (ApplyColorMode (ce_providers env) r)) (\<lambda>result.
     if \<not> IsOkStatusCode (cms_code result)
     then reject env (rq_request_id request) (cms_code result) (cms_message result)
     else let path = or_keep (cms_output_path result) (cmr_output_path r) in
       bind_io (gets_io (\<lambda>s. FileSize (ce_os env) path (the_world s))) (\<lambda>bytes.
       bind_io (register_output env connection_id task_id ''color_processed'' (color_output format path result bytes))
         (\<lambda>output. bind_io (gets_io (provider_named ''graphic'')) (\<lambda>provider.
         succeed env (rq_request_id request)
           (color_json task_id (param request ''input_upload_id'') r format result output provider))))))"

definition HandleImageApplyColorMode :: "'e cmd_env \<Rightarrow> string \<Rightarrow> Request \<Rightarrow> ('e, json) cmd" where
  "HandleImageApplyColorMode env connection_id request =
     with_capability env connection_id request (\<lambda>_.
     case color_mode_of request of
       Inl error \<Rightarrow> bad_params env request error
     | Inr color_mode \<Rightarrow>
         let upload_id = param request ''input_upload_id''; output_path = param request ''output_path'' in
         with_entitlement env connection_id request (RequiredTierForColorMode color_mode)
         (or_error env request
           (gets_io (image_input env connection_id ''image.apply_color_mode'' upload_id (param request ''input_path'')))
           (\<lambda>(path, extension).
             let format = source_format extension path in
             if \<not> keeps_format format output_path
             then bad_params env request ''image.apply_color_mode output_path must keep the input image format''
             else bind_io (image_task_id env upload_id) (\<lambda>task_id.
               run_color env connection_id request task_id (image_dir env task_id (param request ''output_dir''))
                 (default_SdkColorModeRequest
                   \<lparr> cmr_input_path := path, cmr_output_path := output_path, cmr_color_mode := color_mode \<rparr>)
                 format))))"

end
