(* ===== verification/Command_Enhance.thy ===== *)
theory Command_Enhance
  imports Command_Image
begin

text \<open>
  Image enhancement tasks and the saved workflows (\<open>application/command_application_service.cpp\<close>).  The
  tasks themselves are run by the service of \<open>Enhance_Task\<close>: \<open>on_enhance\<close> calls it from a handler, and
  the worker thread it starts is the environment's.  The workflows are a JSON file.
\<close>

section \<open>Calling the task service\<close>

definition cmd_enhance_env :: "'e cmd_env \<Rightarrow> 'e enhance_env" where
  "cmd_enhance_env env =
     \<lparr> ev_os = ce_os env, ev_dir_size = ce_dir_size env, ev_work_dir = ce_work_dir env,
       ev_asset_base_url = BuildSdkAssetBaseUrl (ce_config env), ev_providers = ce_providers env,
       ev_auth_provider = ae_auth_provider (ce_auth env), ev_ofd_provider = ce_ofd env,
       ev_event_sink = ce_event_sink env, ev_parse = ce_parse env, ev_now = ce_now env \<rparr>"

definition on_enhance :: "('e, 'a) enhance \<Rightarrow> ('e, 'a) cmd" where
  "on_enhance m s =
     (case m \<lparr> sy_service = cm_enhance s, sy_world = the_world s, sy_others = [] \<rparr> of
        (r, t) \<Rightarrow> (r, s\<lparr> cm_enhance := sy_service t, cm_auth := (cm_auth s)\<lparr>au_outside := sy_world t\<rparr> \<rparr>))"

section \<open>Capabilities\<close>

definition HasOnlineImageEnhanceApiKey :: "SessionResult \<Rightarrow> bool" where
  "HasOnlineImageEnhanceApiKey session_result \<longleftrightarrow> sn_token session_result \<noteq> []"

text \<open>The bytes of the Chinese text, as the source file has them.\<close>

definition key_not_configured_zh :: string where
  "key_not_configured_zh = map char_of [0xE5, 0x9C, 0xA8, 0xE7, 0xBA, 0xBF, 0xE5, 0xA2, 0x9E, 0xE5, 0xBC, 0xBA :: nat] @
     '' API Key '' @ map char_of [0xE6, 0x9C, 0xAA, 0xE9, 0x85, 0x8D, 0xE7, 0xBD, 0xAE :: nat]"

definition online_availability :: "bool \<Rightarrow> SdkImageEnhanceCapability \<Rightarrow> SdkImageEnhanceCapability" where
  "online_availability online_available c =
     (if ec_runtime c \<noteq> ''online'' then c
      else c\<lparr> ec_available := online_available,
              ec_unavailable_reason :=
                (if online_available then [] else ''online enhance api key is not configured''),
              ec_unavailable_reason_zh_cn := (if online_available then [] else key_not_configured_zh) \<rparr>)"

definition ApplyOnlineImageEnhanceAvailability ::
    "bool \<Rightarrow> SdkImageEnhanceCapabilityResult \<Rightarrow> SdkImageEnhanceCapabilityResult" where
  "ApplyOnlineImageEnhanceAvailability online_available result =
     result\<lparr>ecr_capabilities := map (online_availability online_available) (ecr_capabilities result)\<rparr>"

text \<open>The capability \<open>image.enhance\<close> covers the questions about it.\<close>

definition with_enhance :: "'e cmd_env \<Rightarrow> string \<Rightarrow> Request \<Rightarrow> (SessionResult \<Rightarrow> ('e, json) cmd) \<Rightarrow> ('e, json) cmd" where
  "with_enhance env connection_id request f =
     bind_io (gets_io (RequireCapability_cmd env connection_id ''image.enhance'')) (\<lambda>session.
     if \<not> IsOkStatusCode (sn_code session)
     then reject env (rq_request_id request) (sn_code session) (sn_message session)
     else f session)"

definition capabilities_json :: "json list \<Rightarrow> json" where
  "capabilities_json providers = obj
     [(''providers'', JArray providers), (''pipeline_version'', JString ''image.enhance.pipeline.v1'')]"

definition HandleImageEnhanceCapabilities :: "'e cmd_env \<Rightarrow> string \<Rightarrow> Request \<Rightarrow> ('e, json) cmd" where
  "HandleImageEnhanceCapabilities env connection_id request =
     with_enhance env connection_id request (\<lambda>session.
     case image_enhance_provider (ce_providers env) of
       None \<Rightarrow> succeed env (rq_request_id request) (capabilities_json [])
     | Some _ \<Rightarrow>
         bind_io (on_outside (ce_list_capabilities env)) (\<lambda>result.
         if \<not> IsOkStatusCode (ecr_code result)
         then reject env (rq_request_id request) (ecr_code result) (ecr_message result)
         else succeed env (rq_request_id request) (capabilities_json
           [BuildImageEnhanceCapabilityProviderJson (ce_parse env)
              (ApplyOnlineImageEnhanceAvailability (HasOnlineImageEnhanceApiKey session) result)])))"

section \<open>Tasks\<close>

definition GetOptionalStringArrayField :: "json \<Rightarrow> string \<Rightarrow> string list" where
  "GetOptionalStringArrayField object key =
     (case jfind object key of Some (JArray js) \<Rightarrow> string_items js | _ \<Rightarrow> [])"

text \<open>A list with the single value of another field behind it.\<close>

definition with_single :: "json \<Rightarrow> string \<Rightarrow> string \<Rightarrow> string list" where
  "with_single j key single =
     GetOptionalStringArrayField j key @
     (let value = GetOptionalStringField j single in if value = [] then [] else [value])"

definition resolve_uploads ::
    "string \<Rightarrow> string \<Rightarrow> string list \<Rightarrow> 'e CommandApplicationService \<Rightarrow> (int \<times> string) + string list" where
  "resolve_uploads connection_id method_name ids s =
     foldr (\<lambda>i rest. case ResolveImageInputPath connection_id i method_name s of
              Inl e \<Rightarrow> Inl e
            | Inr path \<Rightarrow> map_sum id (\<lambda>paths. path # paths) rest) ids (Inr [])"

definition enhance_request ::
    "'e cmd_env \<Rightarrow> string \<Rightarrow> Request \<Rightarrow> SessionResult \<Rightarrow> string list \<Rightarrow> 'e CommandApplicationService \<Rightarrow>
     SdkImageEnhanceTaskRequest" where
  "enhance_request env connection_id request session paths s =
     \<lparr> iq_connection_id = connection_id, iq_input_paths = paths, iq_output_dir = param request ''output_dir'',
       iq_pipeline = ParseImageEnhancePipeline (ce_dump env) (GetOptionalObjectField (rq_params request) ''pipeline''),
       iq_online_api_key = sn_token session, iq_online_session_token = sn_session_token session,
       iq_online_base_url = online_base_url env s,
       iq_authz_base_url = (case cm_runtime_config s of
         None \<Rightarrow> [] | Some rc \<Rightarrow> AuthzBaseUrl_config (ce_getenv env) rc) \<rparr>"

definition pipeline_tier :: "SdkImageEnhancePipeline \<Rightarrow> SdkAccountType" where
  "pipeline_tier pipeline =
     RequiredTierForEnhancePipeline (map (\<lambda>step. (es_enabled step, es_type step)) (el_steps pipeline))"

definition submit_enhance :: "'e cmd_env \<Rightarrow> Request \<Rightarrow> SdkImageEnhanceTaskRequest \<Rightarrow> ('e, json) cmd" where
  "submit_enhance env request r =
     bind_io (gets_io (\<lambda>s. ce_thread env (the_world s))) (\<lambda>thread.
     bind_io (on_enhance (StartTask (cmd_enhance_env env) thread r)) (\<lambda>(result, _).
     if \<not> IsOkStatusCode (ir_code result)
     then reject env (rq_request_id request) (ir_code result) (ir_message result)
     else succeed env (rq_request_id request) (obj
       [(''accepted'', JBool (ir_accepted result)), (''task_id'', JString (ir_task_id result)),
        (''status'', JString (it_status (ir_task result))),
        (''task'', BuildImageEnhanceTaskJson (ce_parse env) (ir_task result))])))"

definition HandleImageEnhance :: "'e cmd_env \<Rightarrow> string \<Rightarrow> Request \<Rightarrow> ('e, json) cmd" where
  "HandleImageEnhance env connection_id request =
     with_capability env connection_id request (\<lambda>session.
     let source = GetOptionalObjectField (rq_params request) ''source'';
         source = (if jempty source then rq_params request else source);
         given = with_single source ''input_paths'' ''input_path'' in
     or_error env request
       (gets_io (resolve_uploads connection_id ''image.enhance'' (with_single source ''input_upload_ids'' ''input_upload_id'')))
       (\<lambda>uploaded.
       if given @ uploaded = [] then bad_params env request ''image.enhance source is empty''
       else bind_io (gets_io (enhance_request env connection_id request session (given @ uploaded))) (\<lambda>r.
         with_entitlement env connection_id request (pipeline_tier (iq_pipeline r))
           (submit_enhance env request r))))"

definition HandleImageEnhanceGet :: "'e cmd_env \<Rightarrow> string \<Rightarrow> Request \<Rightarrow> ('e, json) cmd" where
  "HandleImageEnhanceGet env connection_id request =
     with_capability env connection_id request (\<lambda>_.
     let task_id = param request ''task_id'' in
     if task_id = [] then bad_params env request ''task_id required''
     else bind_io (gets_io (\<lambda>s. GetTask_enhance (BuildSdkAssetBaseUrl (ce_config env)) connection_id task_id (cm_enhance s)))
       (\<lambda>task.
       if \<not> IsOkStatusCode (it_code task) then reject env (rq_request_id request) (it_code task) (it_message task)
       else succeed env (rq_request_id request)
         (obj [(''task_id'', JString task_id), (''task'', BuildImageEnhanceTaskJson (ce_parse env) task)])))"

definition HandleImageEnhanceCancel :: "'e cmd_env \<Rightarrow> string \<Rightarrow> Request \<Rightarrow> ('e, json) cmd" where
  "HandleImageEnhanceCancel env connection_id request =
     with_capability env connection_id request (\<lambda>_.
     let task_id = param request ''task_id'' in
     if task_id = [] then bad_params env request ''task_id required''
     else bind_io (on_enhance (CancelTask (cmd_enhance_env env) connection_id \<lparr> ic_task_id = task_id \<rparr>)) (\<lambda>result.
       if \<not> IsOkStatusCode (ir_code result)
       then reject env (rq_request_id request) (ir_code result) (ir_message result)
       else succeed env (rq_request_id request) (obj
         [(''accepted'', JBool (ir_accepted result)), (''task_id'', JString (ir_task_id result)),
          (''task'', BuildImageEnhanceTaskJson (ce_parse env) (ir_task result))])))"

end
