(* ===== verification/Command_Recognize.thy ===== *)
theory Command_Recognize
  imports Command_Tasks Command_Enhance
begin

text \<open>
  Reading texts and barcodes (\<open>application/command_application_service.cpp\<close>): \<open>ocr.*\<close> and
  \<open>recognition.barcode_detect\<close>.  The files a recognition leaves are registered as assets of its task.
\<close>

section \<open>The request of a recognition\<close>

definition ocr_format :: "Request \<Rightarrow> string" where
  "ocr_format request =
     (let output_path = param request ''output_path'';
          named = or_keep (to_lower (param request ''format'')) (to_lower (param request ''output_format''));
          named = (if named = [] \<and> output_path \<noteq> [] then to_lower (InferOutputFormatFromPath output_path) else named)
      in or_keep named ''docx'')"

definition ocr_export_type :: "Request \<Rightarrow> string" where
  "ocr_export_type request =
     or_keep (NormalizeExportType (or_keep (param request ''exportType'') (param request ''export_type''))) ''multi-page''"

fun erase_member :: "string \<Rightarrow> json \<Rightarrow> json" where
  "erase_member k (JObject m) = JObject (smap_erase k m)"
| "erase_member k j = j"

fun members :: "json \<Rightarrow> (string \<times> json) list" where
  "members (JObject m) = m"
| "members j = []"

definition set_members :: "(string \<times> json) list \<Rightarrow> json \<Rightarrow> json" where
  "set_members kvs j = fold (\<lambda>(k, v). set_member k v) kvs j"

definition ocr_ext_keys :: "string list" where
  "ocr_ext_keys = [''encoding'', ''paperSize'', ''exportType'', ''ocrPreference'', ''quality'', ''exportFormat'']"

definition flat_params :: "json \<Rightarrow> (string \<times> json) list" where
  "flat_params params = concat (map (\<lambda>k. case jfind params k of None \<Rightarrow> [] | Some v \<Rightarrow> [(k, v)]) ocr_ext_keys)"

text \<open>The validated language, format and export type win over the nested objects.\<close>

definition ocr_ext_params :: "Request \<Rightarrow> string \<Rightarrow> string \<Rightarrow> json" where
  "ocr_ext_params request format export_type =
     (let j = GetOptionalObjectField (rq_params request) ''params'';
          j = set_members (members (GetOptionalObjectField (rq_params request) ''ext_params'')) j;
          j = set_members (flat_params (rq_params request)) (erase_member ''language'' j)
      in set_members [(''format'', JString format), (''exportType'', JString export_type)] j)"

text \<open>\<open>Inl\<close> is the message of a refused parameter.\<close>

definition ocr_request :: "Request \<Rightarrow> string + SdkOcrRecognizeRequest" where
  "ocr_request request =
     (let format = ocr_format request; export_type = ocr_export_type request in
      case ReadSdkOcrLanguage (rq_params request) of
        Inl error \<Rightarrow> Inl error
      | Inr language \<Rightarrow>
          if format = ''jpeg'' \<or> format = ''jpg'' then Inl ''ocr format must be txt/pdf/docx/xlsx/ofd/json''
          else if format \<notin> {''txt'', ''pdf'', ''docx'', ''xlsx'', ''ofd'', ''json''} then Inl ''unsupported ocr format''
          else if export_type \<notin> {''multi-page'', ''single-page''}
            then Inl ''exportType must be multi-page or single-page''
          else Inr (default_SdkOcrRecognizeRequest
            \<lparr> ocrRecognizeRequest_language := language,
              ocrRecognizeRequest_input_upload_ids :=
                with_single (rq_params request) ''input_upload_ids'' ''input_upload_id'',
              ocrRecognizeRequest_input_files := with_single (rq_params request) ''input_files'' ''input_path'',
              ocrRecognizeRequest_output_path := param request ''output_path'',
              ocrRecognizeRequest_output_dir := param request ''output_dir'',
              ocrRecognizeRequest_format := format, ocrRecognizeRequest_export_type := export_type \<rparr>))"

text \<open>The originals of uploads, of whatever kind.\<close>

definition upload_paths ::
    "string \<Rightarrow> string list \<Rightarrow> 'e CommandApplicationService \<Rightarrow> (int \<times> string) + string list" where
  "upload_paths connection_id ids s =
     foldr (\<lambda>i rest. let input = ResolveImageAsset connection_id i ''asset-original'' s in
              if \<not> IsOkStatusCode (aa_code input) then Inl (aa_code input, aa_message input)
              else map_sum id (\<lambda>paths. as_path (aa_asset input) # paths) rest) ids (Inr [])"

section \<open>Where the results go\<close>

definition ocr_places :: "'e cmd_env \<Rightarrow> string \<Rightarrow> SdkOcrRecognizeRequest \<Rightarrow> SdkOcrRecognizeRequest" where
  "ocr_places env task_id r =
     (let dir = or_keep (ocrRecognizeRequest_output_dir r)
                  (GetSdkOpenTaskAssetDir (ce_work_dir env) ''ocr'' task_id ''assets'')
      in r\<lparr> ocrRecognizeRequest_output_dir := dir,
            ocrRecognizeRequest_output_path :=
              (if ocrRecognizeRequest_export_type r = ''multi-page'' \<and> ocrRecognizeRequest_output_path r = []
               then JoinPath dir (''recognized.'' @ ocrRecognizeRequest_format r)
               else ocrRecognizeRequest_output_path r) \<rparr>)"

definition ocr_page_dir :: "SdkOcrRecognizeRequest \<Rightarrow> string" where
  "ocr_page_dir r =
     (let dir = ocrRecognizeRequest_output_dir r; path = ocrRecognizeRequest_output_path r in
      if dir = [] \<and> path \<noteq> [] then (if ExtensionFromFilename path = [] then path else ParentPath path) else dir)"

definition no_ocr_dir :: string where
  "no_ocr_dir = ''failed to create ocr output directory''"

definition made_dir :: "'e cmd_env \<Rightarrow> string \<Rightarrow> ('e, bool) cmd" where
  "made_dir env dir = on_outside (world_op (EnsureDirectoryRecursive (ce_os env) dir))"

definition ocr_single_page ::
    "'e cmd_env \<Rightarrow> SdkOcrRecognizeRequest \<Rightarrow> ('e, (int \<times> string) + SdkOcrRecognizeRequest) cmd" where
  "ocr_single_page env r =
     (let dir = ocr_page_dir r in
      if ocrRecognizeRequest_export_type r \<noteq> ''single-page'' then ret (Inr r)
      else if dir = [] then ret (Inl (ToCode InvalidParams, ''output_dir or output_path required''))
      else bind_io (made_dir env dir) (\<lambda>made.
        ret (if \<not> made then Inl (ToCode InternalError, no_ocr_dir)
             else Inr (r\<lparr> ocrRecognizeRequest_output_dir := dir,
                          ocrRecognizeRequest_output_path := or_keep (ocrRecognizeRequest_output_path r) dir \<rparr>))))"

definition ocr_directories ::
    "'e cmd_env \<Rightarrow> SdkOcrRecognizeRequest \<Rightarrow> ('e, (int \<times> string) + SdkOcrRecognizeRequest) cmd" where
  "ocr_directories env r =
     bind_io (if ocrRecognizeRequest_output_dir r = [] then ret True
              else made_dir env (ocrRecognizeRequest_output_dir r)) (\<lambda>made.
     if \<not> made then ret (Inl (ToCode InternalError, no_ocr_dir)) else ocr_single_page env r)"

text \<open>A quality needs a place for temporary images.\<close>

definition ocr_parameters ::
    "'e cmd_env \<Rightarrow> string \<Rightarrow> json \<Rightarrow> SdkOcrRecognizeRequest \<Rightarrow>
     ('e, (int \<times> string) + SdkOcrRecognizeRequest) cmd" where
  "ocr_parameters env task_id params r =
     (let dir = GetSdkOpenTaskAssetDir (ce_work_dir env) ''ocr'' task_id ''tmp'';
          done = (\<lambda>j. r\<lparr>ocrRecognizeRequest_ext_params_json := ce_dump env j\<rparr>) in
      if ocrRecognizeRequest_format r \<notin> {''pdf'', ''ofd''} \<or> jfind params ''quality'' = None
      then ret (Inr (done params))
      else bind_io (made_dir env dir) (\<lambda>made.
        ret (if \<not> made then Inl (ToCode InternalError, ''failed to create ocr temp directory'')
             else Inr (done (set_member ''tmp_dir'' (JString dir) params)))))"

section \<open>The results\<close>

definition ocr_asset_id :: "nat \<Rightarrow> nat \<Rightarrow> string" where
  "ocr_asset_id paths i = (if 1 < paths then ''asset-ocr-'' @ pad3 (i + 1) else ''asset-ocr'')"

definition BuildOcrAssetsFromPaths :: "os_env \<Rightarrow> SdkOcrTaskSnapshot \<Rightarrow> 'e world \<Rightarrow> SdkCaptureAsset list" where
  "BuildOcrAssetsFromPaths os task w =
     (let paths = (if ocrTaskSnapshot_output_paths task = [] \<and> ocrTaskSnapshot_output_path task \<noteq> []
                   then [ocrTaskSnapshot_output_path task] else ocrTaskSnapshot_output_paths task)
      in map (\<lambda>(i, p). file_asset os (ocr_asset_id (length paths) i) ''ocr'' p
                (ContentTypeForOcrFormat (ocrTaskSnapshot_format task)) w)
           (filter (\<lambda>(i, p). p \<noteq> []) (enumerate 0 paths)))"

definition finish_ocr_task ::
    "string \<Rightarrow> SdkOcrRecognizeRequest \<Rightarrow> SdkOcrRecognizeResult \<Rightarrow> SdkOcrTaskSnapshot" where
  "finish_ocr_task asset_task_id r result =
     (let task = ocrRecognizeResult_task result;
          path = or_keep (ocrTaskSnapshot_output_path task) (ocrRecognizeRequest_output_path r)
      in task\<lparr> ocrTaskSnapshot_task_id := or_keep (ocrTaskSnapshot_task_id task)
                 (or_keep (ocrRecognizeResult_task_id result) asset_task_id),
               ocrTaskSnapshot_output_path := path,
               ocrTaskSnapshot_output_paths :=
                 (if ocrTaskSnapshot_output_paths task = [] \<and> path \<noteq> [] then [path]
                  else ocrTaskSnapshot_output_paths task),
               ocrTaskSnapshot_format := or_keep (ocrTaskSnapshot_format task) (ocrRecognizeRequest_format r),
               ocrTaskSnapshot_export_type :=
                 or_keep (ocrTaskSnapshot_export_type task) (ocrRecognizeRequest_export_type r) \<rparr>)"

definition register_ocr :: "'e cmd_env \<Rightarrow> string \<Rightarrow> SdkOcrTaskSnapshot \<Rightarrow> ('e, SdkOcrTaskSnapshot) cmd" where
  "register_ocr env connection_id task =
     bind_io (gets_io (\<lambda>s. if ocrTaskSnapshot_assets task = [] then BuildOcrAssetsFromPaths (ce_os env) task (the_world s)
                           else ocrTaskSnapshot_assets task)) (\<lambda>assets.
     bind_io (register_assets env connection_id (ocrTaskSnapshot_task_id task) assets) (\<lambda>assets.
     ret (task\<lparr>ocrTaskSnapshot_assets := assets\<rparr>)))"

definition ocr_json :: "SdkOcrTaskSnapshot \<Rightarrow> SdkOcrRecognizeRequest \<Rightarrow> json \<Rightarrow> json" where
  "ocr_json task r provider = obj
     [(''task_id'', JString (ocrTaskSnapshot_task_id task)), (''task'', BuildOcrTaskJson task),
      (''input_count'', jnat (length (ocrRecognizeRequest_input_files r))),
      (''output_path'', JString (ocrRecognizeRequest_output_path r)),
      (''output_dir'', JString (ocrRecognizeRequest_output_dir r)),
      (''output_paths'', strings_json (ocrTaskSnapshot_output_paths task)),
      (''format'', JString (ocrRecognizeRequest_format r)),
      (''exportType'', JString (ocrRecognizeRequest_export_type r)), (''provider'', provider)]"

section \<open>The handlers\<close>

text \<open>The uploads and directories of an accepted request, and the files that must be there.\<close>

definition ocr_ready ::
    "'e cmd_env \<Rightarrow> string \<Rightarrow> Request \<Rightarrow> string \<Rightarrow> SdkOcrRecognizeRequest \<Rightarrow>
     ('e, (int \<times> string) + SdkOcrRecognizeRequest) cmd" where
  "ocr_ready env connection_id request task_id r =
     (let params = ocr_ext_params request (ocrRecognizeRequest_format r) (ocrRecognizeRequest_export_type r) in
      bind_io (ocr_directories env (ocr_places env task_id r)) (\<lambda>placed. case placed of
        Inl e \<Rightarrow> ret (Inl e)
      | Inr r \<Rightarrow> bind_io (ocr_parameters env task_id params r) (\<lambda>ready. case ready of
          Inl e \<Rightarrow> ret (Inl e)
        | Inr r \<Rightarrow> gets_io (\<lambda>s.
            case find (\<lambda>p. \<not> FileExists (ce_os env) p (the_world s)) (ocrRecognizeRequest_input_files r) of
              Some p \<Rightarrow> Inl (ToCode InvalidParams, ''input file not found: '' @ p)
            | None \<Rightarrow> Inr r))))"

text \<open>An exception of the provider is an answer.\<close>

definition recognize ::
    "'e cmd_env \<Rightarrow> SdkOcrRecognizeRequest \<Rightarrow> ('e, (int \<times> string) + SdkOcrRecognizeResult) cmd" where
  "recognize env r =
     catch_io
       (bind_io (on_outside (ocr_Recognize (ce_ocr env) r)) (\<lambda>result.
        ret (if IsOkStatusCode (ocrRecognizeResult_code result) then Inr result
             else Inl (ocrRecognizeResult_code result, ocrRecognizeResult_message result))))
       (\<lambda>e. ret (Inl (ToCode InternalError, what e ''ocr.recognize provider failed'')))"

definition run_recognition :: "'e cmd_env \<Rightarrow> string \<Rightarrow> Request \<Rightarrow> SdkOcrRecognizeRequest \<Rightarrow> ('e, json) cmd" where
  "run_recognition env connection_id request r =
     bind_io (NextImageTaskId env) (\<lambda>task_id.
     or_error env request (ocr_ready env connection_id request task_id r) (\<lambda>r.
     or_error env request (recognize env r) (\<lambda>result.
     bind_io (register_ocr env connection_id (finish_ocr_task task_id r result)) (\<lambda>task.
     bind_io (gets_io (provider_named ''ocr'')) (\<lambda>provider.
     succeed env (rq_request_id request) (ocr_json task r provider))))))"

definition HandleOcrRecognize :: "'e cmd_env \<Rightarrow> string \<Rightarrow> Request \<Rightarrow> ('e, json) cmd" where
  "HandleOcrRecognize env connection_id request =
     with_capability env connection_id request (\<lambda>_.
     with_entitlement env connection_id request Vip (
     case ocr_request request of
       Inl error \<Rightarrow> bad_params env request error
     | Inr r \<Rightarrow>
         or_error env request (gets_io (upload_paths connection_id (ocrRecognizeRequest_input_upload_ids r))) (\<lambda>paths.
         let files = ocrRecognizeRequest_input_files r @ paths in
         if files = [] then bad_params env request ''input required''
         else run_recognition env connection_id request (r\<lparr>ocrRecognizeRequest_input_files := files\<rparr>))))"

definition HandleOcrGet :: "'e cmd_env \<Rightarrow> string \<Rightarrow> Request \<Rightarrow> ('e, json) cmd" where
  "HandleOcrGet env connection_id request =
     with_capability env connection_id request (\<lambda>_.
     let task_id = param request ''task_id'' in
     if task_id = [] then bad_params env request ''task_id required''
     else bind_io (on_outside (ocr_GetTask (ce_ocr env) \<lparr> ocrGetRequest_task_id = task_id \<rparr>)) (\<lambda>result.
       if \<not> IsOkStatusCode (ocrGetResult_code result)
       then reject env (rq_request_id request) (ocrGetResult_code result) (ocrGetResult_message result)
       else let task = ocrGetResult_task result in
         bind_io (register_ocr env connection_id
             (task\<lparr>ocrTaskSnapshot_task_id := or_keep (ocrTaskSnapshot_task_id task) task_id\<rparr>)) (\<lambda>task.
         bind_io (gets_io (provider_named ''ocr'')) (\<lambda>provider.
         succeed env (rq_request_id request) (obj [(''task'', BuildOcrTaskJson task), (''provider'', provider)])))))"

definition HandleOcrCancel :: "'e cmd_env \<Rightarrow> string \<Rightarrow> Request \<Rightarrow> ('e, json) cmd" where
  "HandleOcrCancel env connection_id request =
     with_capability env connection_id request (\<lambda>_.
     let task_id = param request ''task_id'' in
     if task_id = [] then bad_params env request ''task_id required''
     else bind_io (on_outside (ocr_Cancel (ce_ocr env) \<lparr> ocrCancelRequest_task_id = task_id \<rparr>)) (\<lambda>result.
       if \<not> IsOkStatusCode (ocrCancelResult_code result)
       then reject env (rq_request_id request) (ocrCancelResult_code result) (ocrCancelResult_message result)
       else bind_io (gets_io (provider_named ''ocr'')) (\<lambda>provider.
         succeed env (rq_request_id request)
           (obj [(''cancelled'', JBool (ocrCancelResult_cancelled result)),
                 (''task'', BuildOcrTaskJson (ocrCancelResult_task result)), (''provider'', provider)]))))"

text \<open>One image, from an upload or a path.\<close>

definition one_image ::
    "'e cmd_env \<Rightarrow> string \<Rightarrow> string \<Rightarrow> Request \<Rightarrow> 'e CommandApplicationService \<Rightarrow> (int \<times> string) + string" where
  "one_image env connection_id method_name request s =
     (let upload_id = param request ''input_upload_id'' in
      case (if upload_id = [] then Inr (param request ''input_path'')
            else ResolveImageInputPath connection_id upload_id method_name s) of
        Inl e \<Rightarrow> Inl e
      | Inr path \<Rightarrow>
          if path = [] then Inl (ToCode InvalidParams, ''input_upload_id or input_path required'')
          else if \<not> FileExists (ce_os env) path (the_world s) then Inl (ToCode InvalidParams, ''input file not found'')
          else Inr path)"

definition extract_json :: "SdkOcrExtractTextResult \<Rightarrow> json \<Rightarrow> json" where
  "extract_json result provider = obj
     [(''recognized'', JBool (ocrExtractTextResult_recognized result)),
      (''input_path'', JString (ocrExtractTextResult_input_path result)),
      (''width'', JInt (ocrExtractTextResult_width result)), (''height'', JInt (ocrExtractTextResult_height result)),
      (''blocks'', JArray (map BuildOcrTextBlockJson (ocrExtractTextResult_blocks result))),
      (''provider'', provider)]"

definition extract_request :: "Request \<Rightarrow> string \<Rightarrow> string \<Rightarrow> SdkOcrExtractTextRequest" where
  "extract_request request language path =
     \<lparr> ocrExtractTextRequest_input_upload_id = param request ''input_upload_id'',
       ocrExtractTextRequest_input_path = path, ocrExtractTextRequest_language = language \<rparr>"

definition HandleOcrExtractText :: "'e cmd_env \<Rightarrow> string \<Rightarrow> Request \<Rightarrow> ('e, json) cmd" where
  "HandleOcrExtractText env connection_id request =
     with_capability env connection_id request (\<lambda>_.
     with_entitlement env connection_id request Vip (
     case ReadSdkOcrLanguage (rq_params request) of
       Inl error \<Rightarrow> bad_params env request error
     | Inr language \<Rightarrow>
         or_error env request (gets_io (one_image env connection_id ''ocr.extract_text'' request)) (\<lambda>path.
         bind_io (on_outside (ocr_ExtractText (ce_ocr env) (extract_request request language path))) (\<lambda>result.
         if \<not> IsOkStatusCode (ocrExtractTextResult_code result)
         then reject env (rq_request_id request) (ocrExtractTextResult_code result) (ocrExtractTextResult_message result)
         else bind_io (gets_io (provider_named ''ocr'')) (\<lambda>provider.
           succeed env (rq_request_id request) (extract_json result provider))))))"

definition detect_request :: "Request \<Rightarrow> string \<Rightarrow> SdkBarcodeDetectRequest" where
  "detect_request request path =
     (let formats = GetOptionalStringArrayField (rq_params request) ''formats'' in
      \<lparr> bcDetectRequest_input_upload_id = param request ''input_upload_id'', bcDetectRequest_input_path = path,
        bcDetectRequest_formats =
          (if formats = [] then GetOptionalStringArrayField (rq_params request) ''detect_type'' else formats) \<rparr>)"

definition detect_json :: "SdkBarcodeDetectResult \<Rightarrow> json \<Rightarrow> json" where
  "detect_json result provider = obj
     [(''detected'', JBool (bcDetectResult_detected result)),
      (''count'', jnat (length (bcDetectResult_barcodes result))),
      (''input_path'', JString (bcDetectResult_input_path result)),
      (''width'', JInt (bcDetectResult_width result)), (''height'', JInt (bcDetectResult_height result)),
      (''barcodes'', JArray (map BuildBarcodeJson (bcDetectResult_barcodes result))), (''provider'', provider)]"

definition HandleBarcodeDetect :: "'e cmd_env \<Rightarrow> string \<Rightarrow> Request \<Rightarrow> ('e, json) cmd" where
  "HandleBarcodeDetect env connection_id request =
     with_capability env connection_id request (\<lambda>_.
     or_error env request (gets_io (one_image env connection_id ''recognition.barcode_detect'' request)) (\<lambda>path.
     bind_io (on_outside (DetectBarcode (ce_private_build env) (ce_recognition_api env) (ce_recognition env)
         (detect_request request path))) (\<lambda>result.
     if \<not> IsOkStatusCode (bcDetectResult_code result)
     then reject env (rq_request_id request) (bcDetectResult_code result) (bcDetectResult_message result)
     else bind_io (gets_io (provider_named ''recognition'')) (\<lambda>provider.
       succeed env (rq_request_id request) (detect_json result provider)))))"

end
