(* ===== verification/Command_Base64.thy ===== *)
theory Command_Base64
  imports Command_Tools
begin

text \<open>
  Images sent as text: \<open>DecodeBase64ImagePayload\<close> and \<open>DataUrlImageExtension\<close> of
  \<open>application/command_application_service.cpp\<close>.  The accumulator is an \<open>int\<close> that is shifted left for
  every character and never masked; as compiled it wraps at 32 bits.  \<open>b64_encode\<close> is the encoding of
  RFC 4648 with padding, the reference of the round trip.
\<close>

section \<open>The decoder\<close>

definition b64_alphabet :: string where
  "b64_alphabet = ''ABCDEFGHIJKLMNOPQRSTUVWXYZabcdefghijklmnopqrstuvwxyz0123456789+/''"

definition b64_value :: "char \<Rightarrow> nat option" where
  "b64_value = map_of (zip b64_alphabet [0..<64])"

definition b64_byte :: "32 word \<Rightarrow> nat \<Rightarrow> char" where
  "b64_byte acc n = char_of (unat (and (signed_drop_bit n acc) 0xFF))"

fun b64_loop :: "32 word \<Rightarrow> int \<Rightarrow> string \<Rightarrow> string \<Rightarrow> string option" where
  "b64_loop acc bit_count [] decoded = Some decoded"
| "b64_loop acc bit_count (ch # rest) decoded =
     (if ch = CHR ''='' then Some decoded
      else case b64_value ch of
        None \<Rightarrow> None
      | Some v \<Rightarrow>
          let acc = push_bit 6 acc + of_nat v; bit_count = bit_count + 6 in
          if bit_count \<ge> 0 then b64_loop acc (bit_count - 8) rest (decoded @ [b64_byte acc (nat bit_count)])
          else b64_loop acc bit_count rest decoded)"

text \<open>What follows the comma of a data URL, without white space.\<close>

definition after_comma :: "string \<Rightarrow> string" where
  "after_comma value =
     (if starts_with ''data:'' value \<and> CHR '','' \<in> set value then tl (dropWhile (\<lambda>c. c \<noteq> CHR '','') value) else value)"

definition DecodeBase64ImagePayload :: "string \<Rightarrow> string option" where
  "DecodeBase64ImagePayload value =
     (case b64_loop 0 (-8) (filter (\<lambda>c. \<not> is_space c) (after_comma value)) [] of
        None \<Rightarrow> None
      | Some decoded \<Rightarrow> if decoded = [] then None else Some decoded)"

definition DataUrlImageExtension :: "string \<Rightarrow> string" where
  "DataUrlImageExtension value =
     (let lower = to_lower (take 64 value) in
      if starts_with ''data:image/png'' lower then ''png''
      else if starts_with ''data:image/tiff'' lower \<or> starts_with ''data:image/tif'' lower then ''tiff''
      else if starts_with ''data:image/bmp'' lower then ''bmp''
      else if starts_with ''data:image/webp'' lower then ''webp'' else ''jpg'')"

section \<open>The reference\<close>

definition b64_digit :: "nat \<Rightarrow> char" where
  "b64_digit v = b64_alphabet ! v"

definition b64_quad :: "nat \<Rightarrow> nat \<Rightarrow> nat \<Rightarrow> string" where
  "b64_quad a b c = map b64_digit [a div 4, (a mod 4) * 16 + b div 16, (b mod 16) * 4 + c div 64, c mod 64]"

fun b64_encode :: "string \<Rightarrow> string" where
  "b64_encode [] = []"
| "b64_encode [a] = take 2 (b64_quad (of_char a) 0 0) @ ''==''"
| "b64_encode [a, b] = take 3 (b64_quad (of_char a) (of_char b) 0) @ ''=''"
| "b64_encode (a # b # c # s) = b64_quad (of_char a) (of_char b) (of_char c) @ b64_encode s"

section \<open>The round trip\<close>

lemma b64_alphabet_distinct: "distinct b64_alphabet"
  by code_simp

lemma b64_alphabet_length: "length b64_alphabet = 64"
  by code_simp

lemma b64_alphabet_out: "CHR ''='' \<notin> set b64_alphabet" "CHR '':'' \<notin> set b64_alphabet"
  by code_simp+

lemma b64_value_digit [simp]: "v < 64 \<Longrightarrow> b64_value (b64_digit v) = Some v"
  using map_of_zip_nth [OF _ b64_alphabet_distinct, of "[0..<64]" v]
  by (simp add: b64_value_def b64_digit_def b64_alphabet_length del: upt.simps upt_Suc upt_rec_numeral)

lemma b64_digit_in: "v < 64 \<Longrightarrow> b64_digit v \<in> set b64_alphabet"
  using b64_alphabet_length by (simp add: b64_digit_def)

lemma b64_digit_not_pad [simp]: "v < 64 \<Longrightarrow> b64_digit v \<noteq> CHR ''=''"
  using b64_digit_in b64_alphabet_out(1) by metis

lemma low_bits_of_shifted:
  assumes "m \<le> k"
  shows "take_bit m (push_bit k a + x :: nat) = take_bit m x"
proof -
  have "take_bit m (push_bit k a) = 0"
    using assms by (simp add: take_bit_push_bit)
  then show ?thesis
    using take_bit_add [of m "push_bit k a" x] by simp
qed

lemma unat_shift_add:
  "unat (push_bit k acc + of_nat x :: 32 word) = take_bit 32 (push_bit k (unat acc) + x)"
proof -
  have "push_bit k acc + of_nat x = (of_nat (push_bit k (unat acc) + x) :: 32 word)"
    by (simp add: push_bit_eq_mult)
  then show ?thesis
    by (simp only: unsigned_of_nat) simp
qed

lemma byte_mask: "and (w :: 32 word) 0xFF = take_bit 8 w"
proof -
  have "(0xFF :: 32 word) = mask 8" by (simp add: mask_eq_exp_minus_1)
  then show ?thesis by (simp only: take_bit_eq_mask)
qed

lemma signed_shift_byte:
  fixes w :: "32 word"
  assumes "n + 8 \<le> 32"
  shows "take_bit 8 (signed_drop_bit n w) = take_bit 8 (drop_bit n w)"
  using assms by (intro bit_word_eqI) (auto simp: bit_take_bit_iff bit_signed_drop_bit_iff bit_drop_bit_eq)

lemma b64_byte_low:
  fixes acc :: "32 word"
  assumes "n + 8 \<le> k" "k \<le> 32" "x < 2 ^ 32"
  shows "b64_byte (push_bit k acc + of_nat x) n = char_of (x div 2 ^ n mod 256)"
proof -
  let ?w = "push_bit k acc + of_nat x :: 32 word" and ?y = "push_bit k (unat acc) + x"
  have "unat (take_bit 8 (drop_bit n ?w)) = take_bit 8 (drop_bit n (take_bit 32 ?y))"
    by (simp only: unsigned_take_bit_eq unsigned_drop_bit_eq unat_shift_add) simp
  also have "\<dots> = drop_bit n (take_bit (n + 8) ?y)"
    using assms by (simp add: drop_bit_take_bit)
  also have "\<dots> = x div 2 ^ n mod 256"
    using assms by (simp add: low_bits_of_shifted drop_bit_take_bit) (simp add: drop_bit_eq_div take_bit_eq_mod)
  finally show ?thesis
    using assms by (simp add: b64_byte_def byte_mask signed_shift_byte)
qed

lemma b64_loop_digit:
  assumes "v < 64"
  shows "b64_loop (push_bit k acc + of_nat x) bc (b64_digit v # s) out =
    (let w = push_bit (k + 6) acc + of_nat (64 * x + v) in
     if bc + 6 \<ge> 0 then b64_loop w (bc - 2) s (out @ [b64_byte w (nat (bc + 6))])
     else b64_loop w (bc + 6) s out)"
proof -
  have "push_bit 6 (push_bit k acc + of_nat x) + of_nat v = push_bit (k + 6) acc + of_nat (64 * x + v)"
    by (simp add: push_bit_eq_mult power_add algebra_simps)
  then show ?thesis
    using assms by (simp only: b64_loop.simps b64_digit_not_pad b64_value_digit Let_def if_False option.case) simp
qed

lemma sextets_of_bytes:
  fixes a b c :: nat
  shows "64 * (a div 4) + ((a mod 4) * 16 + b div 16) = 16 * a + b div 16"
    and "64 * (16 * a + b div 16) + ((b mod 16) * 4 + c div 64) = 1024 * a + 4 * b + c div 64"
    and "64 * (1024 * a + 4 * b + c div 64) + c mod 64 = 65536 * a + 256 * b + c"
proof -
  obtain p q r u v w where split: "a div 4 = p" "a mod 4 = q" "b div 16 = r" "b mod 16 = u" "c div 64 = v" "c mod 64 = w"
    by blast
  then have whole: "a = p * 4 + q" "b = r * 16 + u" "c = v * 64 + w"
    using div_mult_mod_eq [of a 4] div_mult_mod_eq [of b 16] div_mult_mod_eq [of c 64] by simp_all
  show "64 * (a div 4) + ((a mod 4) * 16 + b div 16) = 16 * a + b div 16"
    "64 * (16 * a + b div 16) + ((b mod 16) * 4 + c div 64) = 1024 * a + 4 * b + c div 64"
    "64 * (1024 * a + 4 * b + c div 64) + c mod 64 = 65536 * a + 256 * b + c"
    unfolding split using whole by simp_all
qed

lemma sextets_small:
  fixes a b c :: nat
  assumes "a < 256" "b < 256" "c < 256"
  shows "a div 4 < 64" "(a mod 4) * 16 + b div 16 < 64" "(b mod 16) * 4 + c div 64 < 64" "c mod 64 < 64"
    "16 * a + b div 16 < 2 ^ 12" "1024 * a + 4 * b + c div 64 < 2 ^ 18" "65536 * a + 256 * b + c < 2 ^ 24"
    "(16 * a + b div 16) div 16 mod 256 = a" "(1024 * a + 4 * b + c div 64) div 4 mod 256 = b"
    "(65536 * a + 256 * b + c) mod 256 = c"
proof -
  have parts: "a div 4 < 64" "a mod 4 < 4" "b div 16 < 16" "b mod 16 < 16" "c div 64 < 4" "c mod 64 < 64"
    using assms by simp_all
  have "q < 4 \<Longrightarrow> r < 16 \<Longrightarrow> q * 16 + r < 64" "r < 16 \<Longrightarrow> q < 4 \<Longrightarrow> r * 4 + q < 64"
    "r < 16 \<Longrightarrow> 16 * a + r < 4096" "q < 4 \<Longrightarrow> 1024 * a + 4 * b + q < 262144" for q r :: nat
    using assms by linarith+
  note sums = this(1) [OF parts(2,3)] this(2) [OF parts(4,5)] this(3) [OF parts(3)] this(4) [OF parts(5)]
  show "a div 4 < 64" "(a mod 4) * 16 + b div 16 < 64" "(b mod 16) * 4 + c div 64 < 64" "c mod 64 < 64"
    by (rule parts(1) sums(1,2) parts(6))+
  have "16 * a + b div 16 < 4096" "1024 * a + 4 * b + c div 64 < 262144" "65536 * a + 256 * b + c < 16777216"
    using sums(3,4) assms by simp_all
  then show "16 * a + b div 16 < 2 ^ 12" "1024 * a + 4 * b + c div 64 < 2 ^ 18" "65536 * a + 256 * b + c < 2 ^ 24"
    by simp_all
  have "16 * a + b div 16 = b div 16 + 16 * a" by simp
  then show "(16 * a + b div 16) div 16 mod 256 = a"
    using assms parts by (simp only: div_mult_self2) simp
  have "1024 * a + 4 * b + c div 64 = (c div 64) + 4 * (256 * a + b)" by simp
  then show "(1024 * a + 4 * b + c div 64) div 4 mod 256 = b"
    using assms parts by (simp only: div_mult_self2) simp
  have "65536 * a + 256 * b + c = c + 256 * (256 * a + b)" by simp
  then show "(65536 * a + 256 * b + c) mod 256 = c"
    using assms by (simp only: mod_mult_self2) simp
qed

lemma b64_loop_quad:
  fixes a b c :: nat
  assumes "a < 256" "b < 256" "c < 256"
  defines "y \<equiv> 16 * a + b div 16" and "z \<equiv> 1024 * a + 4 * b + c div 64" and "t \<equiv> 65536 * a + 256 * b + c"
  shows "b64_loop acc (-8) (take 2 (b64_quad a b c) @ s) out =
      b64_loop (push_bit 12 acc + of_nat y) (-4) s (out @ [char_of a])"
    and "b64_loop acc (-8) (take 3 (b64_quad a b c) @ s) out =
      b64_loop (push_bit 18 acc + of_nat z) (-6) s (out @ [char_of a, char_of b])"
    and "b64_loop acc (-8) (b64_quad a b c @ s) out =
      b64_loop (push_bit 24 acc + of_nat t) (-8) s (out @ [char_of a, char_of b, char_of c])"
proof -
  note small = sextets_small [OF assms(1-3), folded y_def z_def t_def]
  note joined = sextets_of_bytes [of a b, folded y_def] sextets_of_bytes(2,3) [of a b c, folded y_def z_def t_def]
  have bytes: "b64_byte (push_bit 12 acc + of_nat y) 4 = char_of a"
    "b64_byte (push_bit 18 acc + of_nat z) 2 = char_of b" "b64_byte (push_bit 24 acc + of_nat t) 0 = char_of c"
    using small by (simp_all add: b64_byte_low)
  have first: "b64_loop acc (-8) (b64_digit (a div 4) # r) out =
      b64_loop (push_bit 6 acc + of_nat (a div 4)) (-2) r out" for r
    using small(1) b64_loop_digit [of "a div 4" 0 acc 0 "-8" r out] by simp
  have second: "b64_loop (push_bit 6 acc + of_nat (a div 4)) (-2) (b64_digit ((a mod 4) * 16 + b div 16) # r) out =
      b64_loop (push_bit 12 acc + of_nat y) (-4) r (out @ [char_of a])" for r
    using small(2) bytes(1) joined(1)
    by (subst b64_loop_digit) (simp_all add: Let_def del: of_nat_add of_nat_mult)
  have third: "b64_loop (push_bit 12 acc + of_nat y) (-4) (b64_digit ((b mod 16) * 4 + c div 64) # r) o' =
      b64_loop (push_bit 18 acc + of_nat z) (-6) r (o' @ [char_of b])" for r o'
    using small(3) bytes(2) joined
    by (subst b64_loop_digit) (simp_all add: Let_def del: of_nat_add of_nat_mult)
  have fourth: "b64_loop (push_bit 18 acc + of_nat z) (-6) (b64_digit (c mod 64) # r) o' =
      b64_loop (push_bit 24 acc + of_nat t) (-8) r (o' @ [char_of c])" for r o'
    using small(4) bytes(3) joined
    by (subst b64_loop_digit) (simp_all add: Let_def del: of_nat_add of_nat_mult)
  show "b64_loop acc (-8) (take 2 (b64_quad a b c) @ s) out =
      b64_loop (push_bit 12 acc + of_nat y) (-4) s (out @ [char_of a])"
    by (simp add: b64_quad_def first second del: b64_loop.simps)
  show "b64_loop acc (-8) (take 3 (b64_quad a b c) @ s) out =
      b64_loop (push_bit 18 acc + of_nat z) (-6) s (out @ [char_of a, char_of b])"
    by (simp add: b64_quad_def first second third numeral_3_eq_3 del: b64_loop.simps)
  show "b64_loop acc (-8) (b64_quad a b c @ s) out =
      b64_loop (push_bit 24 acc + of_nat t) (-8) s (out @ [char_of a, char_of b, char_of c])"
    by (simp add: b64_quad_def first second third fourth del: b64_loop.simps)
qed

lemma of_char_less [simp]: "(of_char c :: nat) < 256"
  using nat_of_char_less_256 [of c] by simp

lemma b64_loop_encode:
  "b64_loop acc (-8) (b64_encode bytes) out = Some (out @ bytes)"
proof (induction bytes arbitrary: acc out rule: b64_encode.induct)
  case 1
  then show ?case by simp
next
  case (2 a)
  have "b64_loop acc (-8) (take 2 (b64_quad (of_char a) 0 0) @ ''=='') out = Some (out @ [a])"
    by (subst b64_loop_quad(1)) simp_all
  then show ?case by simp
next
  case (3 a b)
  have "b64_loop acc (-8) (take 3 (b64_quad (of_char a) (of_char b) 0) @ ''='') out = Some (out @ [a, b])"
    by (subst b64_loop_quad(2)) simp_all
  then show ?case by simp
next
  case (4 a b c s)
  have "b64_loop acc (-8) (b64_quad (of_char a) (of_char b) (of_char c) @ b64_encode s) out =
      Some (out @ [a, b, c] @ s)"
    by (subst b64_loop_quad(3)) (simp_all add: 4)
  then show ?case by simp
qed

lemma b64_quad_chars: "a < 256 \<Longrightarrow> b < 256 \<Longrightarrow> c < 256 \<Longrightarrow> set (b64_quad a b c) \<subseteq> set b64_alphabet"
  using sextets_small(1-4) [of a b c] by (simp add: b64_quad_def b64_digit_in)

lemma b64_encode_chars: "set (b64_encode bytes) \<subseteq> insert CHR ''='' (set b64_alphabet)"
proof (induction bytes rule: b64_encode.induct)
  case (2 a)
  have "set (take 2 (b64_quad (of_char a) 0 0)) \<subseteq> set b64_alphabet"
    using set_take_subset b64_quad_chars [of "of_char a" 0 0] by fastforce
  then show ?case by auto
next
  case (3 a b)
  have "set (take 3 (b64_quad (of_char a) (of_char b) 0)) \<subseteq> set b64_alphabet"
    using set_take_subset b64_quad_chars [of "of_char a" "of_char b" 0] by fastforce
  then show ?case by auto
next
  case (4 a b c s)
  then show ?case using b64_quad_chars [of "of_char a" "of_char b" "of_char c"] by auto
qed simp

lemma not_a_data_url:
  assumes "filter (\<lambda>c. \<not> is_space c) s = b64_encode bytes"
  shows "\<not> starts_with ''data:'' s"
proof
  assume "starts_with ''data:'' s"
  then obtain t where "s = ''data:'' @ t"
    unfolding starts_with_iff ..
  then have "CHR '':'' \<in> set s"
    by simp
  moreover have "\<not> is_space CHR '':''"
    by (simp add: is_space_def Let_def)
  ultimately have "CHR '':'' \<in> set (filter (\<lambda>c. \<not> is_space c) s)"
    by simp
  then have "CHR '':'' \<in> set (b64_encode bytes)"
    by (simp only: assms)
  then show False
    using b64_encode_chars b64_alphabet_out(2) by fastforce
qed

text \<open>C39. An image sent as base64 is decoded to its bytes, whatever its length: the text may be broken by
  white space anywhere and may come as a data URL of any type without a comma.  The shifts of the
  accumulator overflow its 32 bits after six characters; what is lost there is never read.\<close>

theorem base64_roundtrip:
  assumes "bytes \<noteq> []" and "filter (\<lambda>c. \<not> is_space c) s = b64_encode bytes" and "CHR '','' \<notin> set type"
  shows "DecodeBase64ImagePayload s = Some bytes \<and>
    DecodeBase64ImagePayload (''data:'' @ type @ CHR '','' # s) = Some bytes"
proof -
  have "after_comma s = s"
    using not_a_data_url [OF assms(2)] by (simp add: after_comma_def)
  moreover have "dropWhile (\<lambda>c. c \<noteq> CHR '','') (type @ CHR '','' # s) = CHR '','' # s"
    using assms(3) by (induction type) auto
  then have "after_comma (''data:'' @ type @ CHR '','' # s) = s"
    by (simp add: after_comma_def starts_with_def)
  ultimately show ?thesis
    using assms(1) by (simp add: DecodeBase64ImagePayload_def assms(2) b64_loop_encode)
qed

theorem base64_roundtrip_witness:
  "DecodeBase64ImagePayload ''AAEC/w =='' = Some (map char_of [0, 1, 2, 255 :: nat]) \<and>
   DecodeBase64ImagePayload ''data:image/png;base64,AAEC/w =='' = Some (map char_of [0, 1, 2, 255 :: nat])"
proof -
  have "filter (\<lambda>c. \<not> is_space c) ''AAEC/w =='' = b64_encode (map char_of [0, 1, 2, 255 :: nat])"
    by code_simp
  then show ?thesis
    using base64_roundtrip [of "map char_of [0, 1, 2, 255 :: nat]" "''AAEC/w ==''" "''image/png;base64''"] by simp
qed

end
