(* ===== verification/Command_Convert.thy ===== *)
theory Command_Convert
  imports Command_Recognize Command_Base64
begin

text \<open>
  Converting files (\<open>HandleFileConvert\<close> of \<open>application/command_application_service.cpp\<close>): the
  parameters in their flat and nested forms, the inputs from paths, uploads and base64, and the two
  ways to convert: one image by the graphic provider, everything else by the document provider.
\<close>

section \<open>The parameters\<close>

definition convert_flat :: "json \<Rightarrow> SdkFileConvertRequest" where
  "convert_flat params =
     (let r = default_SdkFileConvertRequest;
          export_type = GetOptionalStringAnyField params [''export_type'', ''exportType''] [] in
      r\<lparr> fq_input_upload_id := GetOptionalStringField params ''input_upload_id'',
         fq_input_upload_ids := GetOptionalStringArrayField params ''input_upload_ids'',
         fq_input_path := GetOptionalStringField params ''input_path'',
         fq_input_paths := GetOptionalStringArrayField params ''input_paths'',
         fq_output_path := GetOptionalStringField params ''output_path'',
         fq_output_dir := GetOptionalStringAnyField params [''output_dir'', ''target_dir''] [],
         fq_output_format := NormalizeImageFormat (GetOptionalStringField params ''output_format''),
         fq_export_type := (if export_type = [] then fq_export_type r else NormalizeExportType export_type),
         fq_pages := or_field params ''pages'' (fq_pages r) \<rparr>)"

definition or_list :: "'a list \<Rightarrow> 'a list \<Rightarrow> 'a list" where
  "or_list xs ys = (if xs = [] then ys else xs)"

definition convert_source :: "json \<Rightarrow> SdkFileConvertRequest \<Rightarrow> SdkFileConvertRequest" where
  "convert_source j r =
     (let r = (if jempty j then r else r
            \<lparr> fq_source_type := NormalizeImageFormat (GetOptionalStringField j ''type''),
              fq_source_format := NormalizeImageFormat (GetOptionalStringField j ''format''),
              fq_input_upload_id := or_field j ''input_upload_id'' (fq_input_upload_id r),
              fq_input_upload_ids := or_list (GetOptionalStringArrayField j ''input_upload_ids'') (fq_input_upload_ids r),
              fq_input_path := or_field j ''input_path'' (fq_input_path r),
              fq_input_paths := or_list (GetOptionalStringArrayField j ''input_paths'') (fq_input_paths r),
              fq_pages := or_field j ''pages'' (fq_pages r) \<rparr>)
      in r\<lparr>fq_source_type := or_keep (fq_source_type r) ''image''\<rparr>)"

definition convert_target :: "json \<Rightarrow> SdkFileConvertRequest \<Rightarrow> SdkFileConvertRequest" where
  "convert_target j r =
     (if jempty j then r
      else r\<lparr> fq_target_type := NormalizeImageFormat (GetOptionalStringField j ''type''),
              fq_output_path := or_field j ''path'' (fq_output_path r),
              fq_output_dir := or_field j ''dir'' (fq_output_dir r) \<rparr>)"

definition convert_options :: "json \<Rightarrow> SdkFileConvertRequest \<Rightarrow> SdkFileConvertRequest" where
  "convert_options j r =
     (if jempty j then r
      else r\<lparr> fq_export_type := or_keep (NormalizeExportType (GetOptionalStringField j ''export_type'')) (fq_export_type r),
              fq_quality := GetOptionalIntField j ''quality'' (fq_quality r),
              fq_render_dpi := GetOptionalIntField j ''render_dpi'' (fq_render_dpi r),
              fq_pages := or_field j ''pages'' (fq_pages r),
              fq_tiff_color := or_keep (to_lower (GetOptionalStringField j ''tiff_color'')) (fq_tiff_color r),
              fq_tiff_compression :=
                or_keep (to_lower (GetOptionalStringField j ''tiff_compression'')) (fq_tiff_compression r) \<rparr>)"

definition export_type_set :: "json \<Rightarrow> bool" where
  "export_type_set params \<longleftrightarrow>
     GetOptionalStringAnyField params [''export_type'', ''exportType''] [] \<noteq> [] \<or>
     GetOptionalStringField (GetOptionalObjectField params ''options'') ''export_type'' \<noteq> []"

definition convert_format :: "SdkFileConvertRequest \<Rightarrow> string" where
  "convert_format r =
     (let format = or_keep (fq_output_format r) (fq_target_type r) in
      if format = [] \<and> fq_output_path r \<noteq> [] then NormalizeImageFormat (InferOutputFormatFromPath (fq_output_path r))
      else format)"

definition convert_request :: "json \<Rightarrow> SdkFileConvertRequest" where
  "convert_request params =
     (let r = convert_options (GetOptionalObjectField params ''options'')
                (convert_target (GetOptionalObjectField params ''target'')
                  (convert_source (GetOptionalObjectField params ''source'') (convert_flat params)));
          format = convert_format r
      in r\<lparr> fq_output_format := format, fq_target_type := format,
            fq_export_type := (if export_type_set params then fq_export_type r
                               else DefaultExportTypeForFileConvert format) \<rparr>)"

definition check_convert :: "SdkFileConvertRequest \<Rightarrow> (int \<times> string) option" where
  "check_convert r =
     (if fq_export_type r \<notin> {''multi-page'', ''single-page''}
        then Some (ToCode InvalidParams, ''export_type must be multi-page or single-page'')
      else if fq_output_format r = []
        then Some (ToCode InvalidParams, ''target.type, output_format, or output_path required'')
      else if \<not> IsFileConvertFormat (fq_output_format r)
        then Some (ToCode UnsupportedMethod, ''unsupported output format: '' @ fq_output_format r)
      else None)"

section \<open>The inputs\<close>

definition with_upload_ids :: "SdkFileConvertRequest \<Rightarrow> SdkFileConvertRequest" where
  "with_upload_ids r =
     (let i = fq_input_upload_id r in
      if i \<noteq> [] \<and> i \<notin> set (fq_input_upload_ids r) then r\<lparr>fq_input_upload_ids := i # fq_input_upload_ids r\<rparr> else r)"

definition base64_payload :: "json \<Rightarrow> string" where
  "base64_payload params =
     or_field (GetOptionalObjectField params ''source'') ''base64'' (GetOptionalStringField params ''base64'')"

definition base64_input ::
    "'e cmd_env \<Rightarrow> string \<Rightarrow> string \<Rightarrow> SdkFileConvertRequest \<Rightarrow> ('e, (int \<times> string) + SdkFileConvertRequest) cmd" where
  "base64_input env task_id payload r =
     (let dir = GetSdkOpenTaskAssetDir (ce_work_dir env) ''file'' task_id ''input'';
          path = JoinPath dir (''base64.'' @ DataUrlImageExtension payload) in
      if payload = [] then ret (Inr r)
      else case DecodeBase64ImagePayload payload of
        None \<Rightarrow> ret (Inl (ToCode InvalidParams, ''invalid base64 image''))
      | Some decoded \<Rightarrow>
          bind_io (made_dir env dir) (\<lambda>made.
          if \<not> made then ret (Inl (ToCode InternalError, ''failed to create file convert input directory''))
          else bind_io (on_outside (world_op (WriteBinaryFile (ce_os env) path decoded))) (\<lambda>written.
            ret (if \<not> written then Inl (ToCode InternalError, ''failed to write base64 image'')
                 else Inr (r\<lparr> fq_source_type := ''base64'', fq_input_paths := fq_input_paths r @ [path] \<rparr>)))))"

definition input_paths_of :: "SdkFileConvertRequest \<Rightarrow> string list" where
  "input_paths_of r =
     (if fq_input_path r \<noteq> [] \<and> fq_input_path r \<notin> set (fq_input_paths r) then fq_input_path r # fq_input_paths r
      else fq_input_paths r)"

text \<open>The format of the source decides what the source is, unless it came as an upload.\<close>

definition source_of :: "SdkFileConvertRequest \<Rightarrow> SdkFileConvertRequest" where
  "source_of r =
     (let format = or_keep (fq_source_format r)
            (if IsFileConvertDocumentSourceFormat (fq_source_type r) then fq_source_type r
             else NormalizeImageFormat (ExtensionFromFilename (fq_input_path r)));
          document = (IsFileConvertDocumentSourceFormat format \<and> IsFileConvertImageSourceType (fq_source_type r) \<and>
                      fq_input_upload_ids r = [] \<and> fq_input_upload_id r = [])
      in r\<lparr> fq_source_format := format, fq_source_type := (if document then format else fq_source_type r) \<rparr>)"

definition check_input :: "os_env \<Rightarrow> string \<Rightarrow> 'e world \<Rightarrow> string \<Rightarrow> (int \<times> string) option" where
  "check_input os source_type w path =
     (let extension = NormalizeImageFormat (ExtensionFromFilename path) in
      if \<not> FileExists os path w then Some (ToCode InvalidParams, ''input file does not exist: '' @ path)
      else if IsFileConvertImageSourceType source_type then
        (if IsSupportedImageExtension extension then None
         else Some (ToCode UnsupportedMethod, ''unsupported image input format: '' @ extension))
      else if extension \<noteq> source_type
        then Some (ToCode UnsupportedMethod, ''source.type does not match input extension: '' @ extension)
      else None)"

fun first_problem :: "('a \<Rightarrow> 'b option) \<Rightarrow> 'a list \<Rightarrow> 'b option" where
  "first_problem f [] = None"
| "first_problem f (x # xs) = (case f x of Some e \<Rightarrow> Some e | None \<Rightarrow> first_problem f xs)"

definition check_inputs :: "os_env \<Rightarrow> SdkFileConvertRequest \<Rightarrow> 'e world \<Rightarrow> (int \<times> string) option" where
  "check_inputs os r w =
     (if \<not> IsFileConvertSourceType (fq_source_type r)
        then Some (ToCode InvalidParams, ''source.type must be image, images, base64, pdf, ofd, or tiff'')
      else if IsFileConvertDocumentSourceFormat (fq_source_type r) \<and> 1 < length (fq_input_paths r)
        then Some (ToCode InvalidParams, ''pdf, ofd, and tiff document sources accept one input file'')
      else case first_problem (check_input os (fq_source_type r) w) (fq_input_paths r) of
        Some e \<Rightarrow> Some e
      | None \<Rightarrow>
          if fq_output_format r \<in> {''jpg'', ''png''} \<and> fq_export_type r = ''multi-page''
          then Some (ToCode InvalidParams, ''jpg and png targets only support export_type=single-page'') else None)"

definition convert_inputs ::
    "'e cmd_env \<Rightarrow> SdkFileConvertRequest \<Rightarrow> 'e world \<Rightarrow> (int \<times> string) + SdkFileConvertRequest" where
  "convert_inputs env r w =
     (let paths = input_paths_of r;
          r = source_of (r\<lparr> fq_input_paths := paths, fq_input_path := hd paths \<rparr>) in
      if paths = [] then Inl (ToCode InvalidParams,
        ''input_path, input_paths, input_upload_id, input_upload_ids, or source.base64 required'')
      else case check_inputs (ce_os env) r w of Some e \<Rightarrow> Inl e | None \<Rightarrow> Inr r)"

section \<open>Converting\<close>

definition convert_places :: "'e cmd_env \<Rightarrow> string \<Rightarrow> SdkFileConvertRequest \<Rightarrow> SdkFileConvertRequest" where
  "convert_places env task_id r =
     (let dir = or_keep (fq_output_dir r) (GetSdkOpenTaskAssetDir (ce_work_dir env) ''file'' task_id ''assets'')
      in r\<lparr> fq_output_dir := dir,
            fq_output_path := (if fq_output_path r = [] \<and> fq_export_type r = ''multi-page''
              then JoinPath dir (''converted.'' @ ExtensionForFileConvertFormat (fq_output_format r))
              else fq_output_path r) \<rparr>)"

definition use_graphic_convert :: "SdkFileConvertRequest \<Rightarrow> bool" where
  "use_graphic_convert r \<longleftrightarrow>
     IsFileConvertImageSourceType (fq_source_type r) \<and> length (fq_input_paths r) = 1 \<and>
     IsGraphicConvertFormat (fq_output_format r) \<and> fq_export_type r = ''single-page''"

definition output_json :: "SdkFileConvertRequest \<Rightarrow> SdkCaptureAsset \<Rightarrow> json" where
  "output_json r asset = obj
     [(''path'', JString (as_path asset)), (''format'', JString (fq_output_format r)), (''asset'', BuildAssetJson asset)]"

definition graphic_json ::
    "string \<Rightarrow> SdkFileConvertRequest \<Rightarrow> SdkFormatConvertResult \<Rightarrow> SdkCaptureAsset \<Rightarrow> json \<Rightarrow> json" where
  "graphic_json task_id r result asset provider = obj
     [(''task_id'', JString task_id), (''input_upload_id'', JString (fq_input_upload_id r)),
      (''input_upload_ids'', strings_json (fq_input_upload_ids r)), (''input_path'', JString (fq_input_path r)),
      (''input_paths'', strings_json (fq_input_paths r)), (''output_path'', JString (as_path asset)),
      (''output_paths'', strings_json [as_path asset]), (''output_format'', JString (fq_output_format r)),
      (''export_type'', JString (fq_export_type r)), (''source_format'', JString (fq_source_format r)),
      (''source_page_count'', JInt 1), (''selected_page_count'', JInt 1), (''accepted'', JInt 1),
      (''converted'', JInt (if fcs_converted result then 1 else 0)), (''asset'', BuildAssetJson asset),
      (''assets'', JArray [BuildAssetJson asset]), (''outputs'', JArray [output_json r asset]),
      (''provider'', provider)]"

definition convert_graphic ::
    "'e cmd_env \<Rightarrow> string \<Rightarrow> Request \<Rightarrow> string \<Rightarrow> SdkFileConvertRequest \<Rightarrow> ('e, json) cmd" where
  "convert_graphic env connection_id request task_id r =
     (let format = fq_output_format r; extension = ExtensionForImageFormat format;
          wanted = or_keep (fq_output_path r) (JoinPath (fq_output_dir r) (''converted.'' @ extension)) in
      bind_io (on_outside (ConvertImageFormat (ce_providers env) (default_SdkFormatConvertRequest
          \<lparr> fcr_input_path := fq_input_path r, fcr_output_path := wanted, fcr_output_format := format,
            fcr_quality := fq_quality r \<rparr>))) (\<lambda>result.
      if \<not> IsOkStatusCode (fcs_code result)
      then reject env (rq_request_id request) (fcs_code result) (fcs_message result)
      else bind_io (gets_io (\<lambda>s. file_asset (ce_os env) ''asset-converted'' ''converted''
             (or_keep (fcs_output_path result) wanted) (ContentTypeForImageExtension extension) (the_world s))) (\<lambda>asset.
        bind_io (register_assets env connection_id task_id [asset]) (\<lambda>assets.
        bind_io (gets_io (provider_named ''graphic'')) (\<lambda>provider.
        succeed env (rq_request_id request) (graphic_json task_id r result (hd assets) provider))))))"

definition converted_asset_id :: "nat \<Rightarrow> nat \<Rightarrow> string" where
  "converted_asset_id paths i = (if 1 < paths then ''asset-converted-'' @ pad3 (i + 1) else ''asset-converted'')"

definition converted_paths :: "SdkFileConvertRequest \<Rightarrow> SdkFileConvertResult \<Rightarrow> string list" where
  "converted_paths r result =
     (if fr_output_paths result \<noteq> [] then fr_output_paths result
      else if fr_output_path result \<noteq> [] then [fr_output_path result]
      else if fq_output_path r \<noteq> [] then [fq_output_path r] else [])"

definition document_json ::
    "SdkFileConvertRequest \<Rightarrow> SdkFileConvertResult \<Rightarrow> string list \<Rightarrow> SdkCaptureAsset list \<Rightarrow> json \<Rightarrow> json" where
  "document_json r result paths assets provider = obj
     [(''input_path'', JString (fq_input_path r)), (''input_paths'', strings_json (fq_input_paths r)),
      (''output_path'', JString (or_keep (fr_output_path result)
         (case paths of p # _ \<Rightarrow> p | [] \<Rightarrow> fq_output_path r))),
      (''output_paths'', strings_json paths), (''output_format'', JString (fq_output_format r)),
      (''export_type'', JString (fq_export_type r)),
      (''source_format'', JString (or_keep (fr_source_format result) (fq_source_format r))),
      (''source_page_count'', JInt (fr_source_page_count result)),
      (''selected_page_count'', JInt (fr_selected_page_count result)), (''accepted'', JInt (fr_accepted result)),
      (''converted'', JInt (fr_converted result)),
      (''asset'', case assets of [] \<Rightarrow> JObject [] | a # _ \<Rightarrow> BuildAssetJson a),
      (''assets'', JArray (map BuildAssetJson assets)), (''outputs'', JArray (map (output_json r) assets)),
      (''provider'', provider)]"

definition convert_file ::
    "'e cmd_env \<Rightarrow> string \<Rightarrow> Request \<Rightarrow> string \<Rightarrow> SdkFileConvertRequest \<Rightarrow> ('e, json) cmd" where
  "convert_file env connection_id request task_id r =
     bind_io (on_outside (Convert_ofd (ce_private_build env) (ce_file_convert_api env) (ce_ofd env) r)) (\<lambda>result.
     if \<not> IsOkStatusCode (fr_code result)
     then reject env (rq_request_id request) (fr_code result) (fr_message result)
     else let paths = converted_paths r result in
       bind_io (gets_io (\<lambda>s. map (\<lambda>(i, p). file_asset (ce_os env) (converted_asset_id (length paths) i) ''converted'' p
           (ContentTypeForFileConvertFormat (fq_output_format r)) (the_world s)) (enumerate 0 paths))) (\<lambda>assets.
       bind_io (register_assets env connection_id task_id assets) (\<lambda>assets.
       bind_io (gets_io (provider_named ''ofd'')) (\<lambda>provider.
       succeed env (rq_request_id request) (document_json r result paths assets provider)))))"

section \<open>The handler\<close>

definition gather_inputs ::
    "'e cmd_env \<Rightarrow> string \<Rightarrow> string \<Rightarrow> json \<Rightarrow> SdkFileConvertRequest \<Rightarrow>
     ('e, (int \<times> string) + SdkFileConvertRequest) cmd" where
  "gather_inputs env connection_id task_id params r =
     (let r = with_upload_ids r in
      bind_io (gets_io (upload_paths connection_id (fq_input_upload_ids r))) (\<lambda>uploaded. case uploaded of
        Inl e \<Rightarrow> ret (Inl e)
      | Inr paths \<Rightarrow>
          bind_io (base64_input env task_id (base64_payload params)
              (r\<lparr>fq_input_paths := fq_input_paths r @ paths\<rparr>)) (\<lambda>decoded. case decoded of
            Inl e \<Rightarrow> ret (Inl e)
          | Inr r \<Rightarrow> gets_io (\<lambda>s. convert_inputs env r (the_world s)))))"

definition run_convert ::
    "'e cmd_env \<Rightarrow> string \<Rightarrow> Request \<Rightarrow> string \<Rightarrow> SdkFileConvertRequest \<Rightarrow> ('e, json) cmd" where
  "run_convert env connection_id request task_id r =
     (let r = convert_places env task_id r in
      make_dir env request (fq_output_dir r) ''failed to create file convert output directory''
        (if use_graphic_convert r then convert_graphic env connection_id request task_id r
         else convert_file env connection_id request task_id r))"

definition HandleFileConvert :: "'e cmd_env \<Rightarrow> string \<Rightarrow> Request \<Rightarrow> ('e, json) cmd" where
  "HandleFileConvert env connection_id request =
     with_capability env connection_id request (\<lambda>_.
     let r = convert_request (rq_params request) in
     case check_convert r of
       Some (code, message) \<Rightarrow> reject env (rq_request_id request) code message
     | None \<Rightarrow>
         with_entitlement env connection_id request (RequiredTierForFileConvert (fq_output_format r) (fq_export_type r))
         (bind_io (image_task_id env (fq_input_upload_id r)) (\<lambda>task_id.
          or_error env request (gather_inputs env connection_id task_id (rq_params request) r)
            (run_convert env connection_id request task_id))))"

end
