(* ===== verification/Command_Workflows.thy ===== *)
theory Command_Workflows
  imports Command_Enhance
begin

text \<open>
  The saved enhancement workflows (\<open>application/command_application_service.cpp\<close>): a JSON file under the
  working directory that every request reads anew and rewrites whole.  A file that cannot be read, or
  holds something else, counts as empty, and the next save replaces it.  A write that fails only when
  the stream is closed is not modelled.
\<close>

section \<open>The file\<close>

definition ReadJsonFile :: "'e cmd_env \<Rightarrow> string \<Rightarrow> 'e world \<Rightarrow> json option \<times> 'e world" where
  "ReadJsonFile env path w =
     (let (opened, w) = syscall (ce_os env) w in
      (if opened then Option.bind (w_files w (os_canon (ce_os env) path)) (ce_read_json env) else None, w))"

definition WriteJsonFile :: "'e cmd_env \<Rightarrow> string \<Rightarrow> json \<Rightarrow> 'e world \<Rightarrow> bool \<times> 'e world" where
  "WriteJsonFile env path j = WriteBinaryFile (ce_os env) path (ce_print_json env j)"

definition ImageEnhanceWorkflowDir :: "'e cmd_env \<Rightarrow> string" where
  "ImageEnhanceWorkflowDir env = JoinPath (ce_work_dir env) ''profiles''"

definition ImageEnhanceWorkflowStorePath :: "'e cmd_env \<Rightarrow> string" where
  "ImageEnhanceWorkflowStorePath env = JoinPath (ImageEnhanceWorkflowDir env) ''image_enhance_workflows.json''"

text \<open>The workflows of a store, and a store as the code uses it: an object with an array of them.\<close>

definition workflows_of :: "json \<Rightarrow> json list" where
  "workflows_of store = (case jfind store ''workflows'' of Some (JArray js) \<Rightarrow> js | _ \<Rightarrow> [])"

definition usable_store :: "json option \<Rightarrow> json" where
  "usable_store read =
     (let store = (case read of Some (JObject m) \<Rightarrow> JObject m | _ \<Rightarrow> JObject []) in
      set_member ''workflows'' (JArray (workflows_of store)) store)"

definition LoadImageEnhanceWorkflowStore :: "'e cmd_env \<Rightarrow> 'e world \<Rightarrow> json \<times> 'e world" where
  "LoadImageEnhanceWorkflowStore env w =
     (case ReadJsonFile env (ImageEnhanceWorkflowStorePath env) w of (read, w) \<Rightarrow> (usable_store read, w))"

definition SaveImageEnhanceWorkflowStore :: "'e cmd_env \<Rightarrow> json \<Rightarrow> 'e world \<Rightarrow> bool \<times> 'e world" where
  "SaveImageEnhanceWorkflowStore env store w =
     (case EnsureDirectoryRecursive (ce_os env) (ImageEnhanceWorkflowDir env) w of (made, w) \<Rightarrow>
        if \<not> made then (False, w) else WriteJsonFile env (ImageEnhanceWorkflowStorePath env) store w)"

section \<open>Workflows\<close>

definition CurrentTimestampString :: "'e cmd_env \<Rightarrow> 'e CommandApplicationService \<Rightarrow> string" where
  "CurrentTimestampString env s = to_string (ce_time env (the_world s))"

definition NextWorkflowId :: "'e cmd_env \<Rightarrow> ('e, string) cmd" where
  "NextWorkflowId env = step_io (\<lambda>s.
     (''wf-'' @ CurrentTimestampString env s @ ''-'' @ dec (cm_next_workflow_seq s),
      s\<lparr>cm_next_workflow_seq := cm_next_workflow_seq s + 1\<rparr>))"

fun is_text :: "json option \<Rightarrow> bool" where
  "is_text (Some (JString t)) = True"
| "is_text _ = False"

fun is_member_object :: "json option \<Rightarrow> bool" where
  "is_member_object (Some (JObject m)) = True"
| "is_member_object _ = False"

definition default_target :: json where
  "default_target = obj [(''type'', JString ''images''), (''format'', JString ''jpg''),
     (''export_type'', JString ''single-page'')]"

definition default_pipeline :: json where
  "default_pipeline = obj [(''version'', JString ''image.enhance.pipeline.v1''), (''steps'', JArray []),
     (''target'', default_target)]"

definition normal_pipeline :: "json option \<Rightarrow> json" where
  "normal_pipeline given =
     (let p = (if is_member_object given then the given else default_pipeline) in
      if is_member_object (jfind p ''target'') then p else set_member ''target'' default_target p)"

text \<open>Everything but the id; a member that is no text of the wanted form is replaced.\<close>

definition normal_workflow :: "string \<Rightarrow> json \<Rightarrow> json" where
  "normal_workflow now j =
     (let j = (if GetOptionalStringField j ''name'' = [] then set_member ''name'' (JString ''Untitled workflow'') j else j);
          j = (if is_text (jfind j ''description'') then j else set_member ''description'' (JString []) j);
          j = set_member ''pipeline'' (normal_pipeline (jfind j ''pipeline'')) j;
          j = (if is_text (jfind j ''created_at'') then j else set_member ''created_at'' (JString now) j)
      in set_member ''updated_at'' (JString now) j)"

definition NormalizeImageEnhanceWorkflow :: "'e cmd_env \<Rightarrow> json \<Rightarrow> ('e, json) cmd" where
  "NormalizeImageEnhanceWorkflow env workflow =
     (let j = (if is_object workflow then workflow else JObject []) in
      bind_io (if GetOptionalStringField j ''workflow_id'' \<noteq> [] then ret j
               else bind_io (NextWorkflowId env) (\<lambda>i. ret (set_member ''workflow_id'' (JString i) j))) (\<lambda>j.
      gets_io (\<lambda>s. normal_workflow (CurrentTimestampString env s) j)))"

definition is_workflow :: "string \<Rightarrow> json \<Rightarrow> bool" where
  "is_workflow workflow_id j \<longleftrightarrow> is_object j \<and> GetOptionalStringField j ''workflow_id'' = workflow_id"

text \<open>The first workflow with the id is replaced and lends its creation time; a new one comes last.\<close>

definition keep_created :: "json \<Rightarrow> json \<Rightarrow> json" where
  "keep_created old workflow =
     (if is_text (jfind old ''created_at'') then set_member ''created_at'' (the (jfind old ''created_at'')) workflow
      else workflow)"

fun put_workflow :: "string \<Rightarrow> json \<Rightarrow> json list \<Rightarrow> bool \<times> json \<times> json list" where
  "put_workflow workflow_id workflow [] = (False, workflow, [workflow])"
| "put_workflow workflow_id workflow (j # js) =
     (if is_workflow workflow_id j then (let kept = keep_created j workflow in (True, kept, kept # js))
      else case put_workflow workflow_id workflow js of (updated, w, rest) \<Rightarrow> (updated, w, j # rest))"

section \<open>The handlers\<close>

definition load_store :: "'e cmd_env \<Rightarrow> ('e, json) cmd" where
  "load_store env = on_outside (world_op (LoadImageEnhanceWorkflowStore env))"

definition store_workflows ::
    "'e cmd_env \<Rightarrow> Request \<Rightarrow> json \<Rightarrow> json list \<Rightarrow> string \<Rightarrow> json \<Rightarrow> ('e, json) cmd" where
  "store_workflows env request store workflows failure answer =
     bind_io (on_outside (world_op (SaveImageEnhanceWorkflowStore env
         (set_member ''workflows'' (JArray workflows) store)))) (\<lambda>saved.
     if \<not> saved then reject env (rq_request_id request) (ToCode InternalError) failure
     else succeed env (rq_request_id request) answer)"

definition HandleImageEnhanceWorkflowList :: "'e cmd_env \<Rightarrow> string \<Rightarrow> Request \<Rightarrow> ('e, json) cmd" where
  "HandleImageEnhanceWorkflowList env connection_id request =
     with_enhance env connection_id request (\<lambda>_.
     bind_io (load_store env) (\<lambda>store.
     bind_io (gets_io (provider_named ''imageEnhance'')) (\<lambda>provider.
     succeed env (rq_request_id request) (obj
       [(''workflows'', JArray (workflows_of store)), (''count'', jnat (length (workflows_of store))),
        (''provider'', provider)]))))"

definition HandleImageEnhanceWorkflowGet :: "'e cmd_env \<Rightarrow> string \<Rightarrow> Request \<Rightarrow> ('e, json) cmd" where
  "HandleImageEnhanceWorkflowGet env connection_id request =
     with_enhance env connection_id request (\<lambda>_.
     let workflow_id = param request ''workflow_id'' in
     if workflow_id = [] then bad_params env request ''workflow_id required''
     else bind_io (load_store env) (\<lambda>store.
       case find (is_workflow workflow_id) (workflows_of store) of
         Some workflow \<Rightarrow> succeed env (rq_request_id request) (obj [(''workflow'', workflow)])
       | None \<Rightarrow> bad_params env request ''image enhance workflow not found''))"

definition HandleImageEnhanceWorkflowSave :: "'e cmd_env \<Rightarrow> string \<Rightarrow> Request \<Rightarrow> ('e, json) cmd" where
  "HandleImageEnhanceWorkflowSave env connection_id request =
     with_enhance env connection_id request (\<lambda>_.
     let given = GetOptionalObjectField (rq_params request) ''workflow'' in
     bind_io (NormalizeImageEnhanceWorkflow env (if jempty given then rq_params request else given)) (\<lambda>workflow.
     bind_io (load_store env) (\<lambda>store.
     case put_workflow (GetOptionalStringField workflow ''workflow_id'') workflow (workflows_of store) of
       (updated, workflow, workflows) \<Rightarrow>
         store_workflows env request store workflows ''failed to save image enhance workflow''
           (obj [(''saved'', JBool True), (''updated'', JBool updated), (''workflow'', workflow)]))))"

definition HandleImageEnhanceWorkflowDelete :: "'e cmd_env \<Rightarrow> string \<Rightarrow> Request \<Rightarrow> ('e, json) cmd" where
  "HandleImageEnhanceWorkflowDelete env connection_id request =
     with_enhance env connection_id request (\<lambda>_.
     let workflow_id = param request ''workflow_id'' in
     if workflow_id = [] then bad_params env request ''workflow_id required''
     else bind_io (load_store env) (\<lambda>store.
       let kept = filter (\<lambda>j. \<not> is_workflow workflow_id j) (workflows_of store) in
       if list_ex (is_workflow workflow_id) (workflows_of store)
       then store_workflows env request store kept ''failed to delete image enhance workflow''
         (obj [(''deleted'', JBool True), (''workflow_id'', JString workflow_id), (''count'', jnat (length kept))])
       else bad_params env request ''image enhance workflow not found''))"

end
