(* ===== verification/Command_Dispatch.thy ===== *)
theory Command_Dispatch
  imports Command_Twain Command_Convert Command_Workflows
begin

text \<open>
  The entry of the command service (\<open>HandleRequest\<close> of
  \<open>application/command_application_service.cpp\<close>): the table of methods, what a request must have, and
  which handler answers it; and what the admin pages show.  \<open>lock_taken\<close> is what the attempt to take
  the lock of the storage clean-up gives; a handler that takes it without an attempt just waits.
\<close>

section \<open>The methods\<close>

definition command_methods :: "MethodDescriptor list" where
  "command_methods =
     [MakeMethod ''system.ping'' False ''SDK heartbeat probe'',
      MakeMethod ''system.info'' False ''SDK runtime status snapshot'',
      MakeMethod ''system.capabilities'' False ''List public methods and auth model'',
      MakeMethod ''auth.create_session'' False ''Create a bound session from token'',
      MakeMethod ''auth.get_context'' True ''Get the current bound auth context'',
      MakeMethod ''auth.refresh_session'' True ''Refresh the current bound session'',
      MakeMethod ''auth.activate_offline'' True ''Unlock one offline api key on this machine'',
      MakeMethod ''auth.destroy_session'' True ''Destroy the current bound session'',
      MakeMethod ''device.list'' True ''List devices visible to the current session'',
      MakeMethod ''device.get'' True ''Get one device visible to the current session'',
      MakeMethod ''device.open'' True ''Open a device'',
      MakeMethod ''device.close'' True ''Close a device and release active preview resources'',
      MakeMethod ''capture.take'' True ''Capture a still image'',
      MakeMethod ''capture.get'' True ''Get one capture task snapshot'',
      MakeMethod ''capture.session.get'' True ''Get capture counts for the current command session'',
      MakeMethod ''capture.set_turn_detect'' True ''Enable or disable page-turn detection events'',
      MakeMethod ''video.start'' True ''Create one video stream session'',
      MakeMethod ''video.stop'' True ''Stop one video stream session'',
      MakeMethod ''video.set_format'' True ''Update one video stream format'',
      MakeMethod ''video.set_profile'' True ''Update one video stream processing profile'',
      MakeMethod ''image.process'' True ''Run one combined image-processing request'',
      MakeMethod ''image.process_page'' True ''Run page processing and keep the source image format'',
      MakeMethod ''image.apply_color_mode'' True ''Apply one color mode and keep the source image format'',
      MakeMethod ''image.enhance_capabilities'' True ''List image enhancement pipeline capabilities'',
      MakeMethod ''image.enhance'' True ''Submit one image enhancement pipeline task'',
      MakeMethod ''image.enhance_get'' True ''Get one image enhancement task snapshot'',
      MakeMethod ''image.enhance_cancel'' True ''Cancel one image enhancement task'',
      MakeMethod ''image.enhance_workflow_list'' True ''List saved image enhancement workflows'',
      MakeMethod ''image.enhance_workflow_get'' True ''Get one saved image enhancement workflow'',
      MakeMethod ''image.enhance_workflow_save'' True ''Save one image enhancement workflow'',
      MakeMethod ''image.enhance_workflow_delete'' True ''Delete one image enhancement workflow'',
      MakeMethod ''ocr.recognize'' True ''Submit one OCR request'',
      MakeMethod ''ocr.get'' True ''Get one OCR task snapshot'',
      MakeMethod ''ocr.cancel'' True ''Cancel one OCR task'',
      MakeMethod ''ocr.extract_text'' True ''Extract OCR text blocks from one image'',
      MakeMethod ''recognition.barcode_detect'' True ''Detect barcode or QR code from one image'',
      MakeMethod ''file.convert'' True ''Submit one file conversion request'',
      MakeMethod ''sane.status'' True ''Get Linux-only SANE runtime status'',
      MakeMethod ''sane.list'' True ''List SANE scanner devices on Linux'',
      MakeMethod ''sane.watch_start'' True ''Start SANE device hotplug monitoring'',
      MakeMethod ''sane.watch_stop'' True ''Stop SANE device hotplug monitoring'',
      MakeMethod ''sane.open'' True ''Open one SANE scanner session'',
      MakeMethod ''sane.close'' True ''Close one SANE scanner session'',
      MakeMethod ''sane.get_options'' True ''Get normalized SANE scanner options'',
      MakeMethod ''sane.set_options'' True ''Set normalized SANE scanner options'',
      MakeMethod ''sane.profile_list'' True ''List saved SANE option profiles'',
      MakeMethod ''sane.profile_save'' True ''Save one SANE option profile'',
      MakeMethod ''sane.profile_apply'' True ''Apply one saved SANE option profile'',
      MakeMethod ''sane.profile_delete'' True ''Delete one saved SANE option profile'',
      MakeMethod ''sane.scan'' True ''Submit one SANE scan task'',
      MakeMethod ''sane.scan_get'' True ''Get one SANE scan task snapshot'',
      MakeMethod ''sane.scan_cancel'' True ''Cancel one SANE scan task'',
      MakeMethod ''twain.status'' True ''Get Windows-only TWAIN runtime status'',
      MakeMethod ''twain.list'' True ''List TWAIN sources on Windows'',
      MakeMethod ''twain.watch_start'' True ''Start TWAIN source list monitoring'',
      MakeMethod ''twain.watch_stop'' True ''Stop TWAIN source list monitoring'',
      MakeMethod ''twain.open'' True ''Open one TWAIN source session'',
      MakeMethod ''twain.close'' True ''Close one TWAIN source session'',
      MakeMethod ''twain.get_capabilities'' True ''Get normalized TWAIN source capabilities'',
      MakeMethod ''twain.set_capabilities'' True ''Set normalized TWAIN source capabilities'',
      MakeMethod ''twain.profile_list'' True ''List saved TWAIN capability profiles'',
      MakeMethod ''twain.profile_save'' True ''Save one TWAIN capability profile'',
      MakeMethod ''twain.profile_apply'' True ''Apply one saved TWAIN capability profile'',
      MakeMethod ''twain.profile_delete'' True ''Delete one saved TWAIN capability profile'',
      MakeMethod ''twain.scan'' True ''Submit one TWAIN scan task'',
      MakeMethod ''twain.scan_get'' True ''Get one TWAIN scan task snapshot'',
      MakeMethod ''twain.scan_cancel'' True ''Cancel one TWAIN scan task'',
      MakeMethod ''storage.cleanup_temp'' True ''Delete completed SDK Open temporary task data'']"

definition FindMethod :: "string \<Rightarrow> MethodDescriptor option" where
  "FindMethod m = find (\<lambda>d. md_method d = m) command_methods"

definition IsStorageWritingMethod :: "string \<Rightarrow> bool" where
  "IsStorageWritingMethod m \<longleftrightarrow> m \<in>
     {''capture.take'', ''image.process'', ''image.process_page'', ''image.apply_color_mode'', ''image.enhance'',
      ''ocr.recognize'', ''file.convert'', ''sane.scan'', ''twain.scan''}"

section \<open>The admin pages\<close>

definition platform_json :: "string \<Rightarrow> string \<Rightarrow> string \<Rightarrow> json" where
  "platform_json platform only provider = obj
     [(''supported_platforms'', strings_json [platform]), (only, JBool True), (''provider'', JString provider)]"

definition BuildCapabilitiesJson :: "('e, json) cmd" where
  "BuildCapabilitiesJson =
     bind_io (gets_io cm_provider_names) (\<lambda>names.
     bind_io (string_value names ''twain'') (\<lambda>twain.
     ret (obj
       [(''auth_model'', auth_model_json), (''methods'', JArray (map method_json command_methods)),
        (''platform_capabilities'', obj
           [(''sane'', platform_json ''linux'' ''linux_only'' (ProviderNameOrEmpty names ''sane'')),
            (''twain'', platform_json ''windows'' ''windows_only'' twain)])])))"

definition HandleSystemCapabilities :: "'e cmd_env \<Rightarrow> Request \<Rightarrow> ('e, json) cmd" where
  "HandleSystemCapabilities env request =
     bind_io BuildCapabilitiesJson (succeed env (rq_request_id request))"

definition BuildAdminAuthJson :: "('e, json) cmd" where
  "BuildAdminAuthJson =
     bind_io (gets_io (\<lambda>s. SnapshotSessions (cm_auth s))) (\<lambda>sessions.
     bind_io (gets_io cm_provider_names) (\<lambda>names.
     bind_io BuildCapabilitiesJson (\<lambda>catalog.
     ret (obj [(''providers'', names), (''activeSessionCount'', jnat (length sessions)),
               (''sessions'', JArray (map BuildAdminSessionJson sessions)), (''capabilityCatalog'', catalog)]))))"

definition admin_error :: "string \<Rightarrow> int \<Rightarrow> string \<Rightarrow> json" where
  "admin_error connection_id code message =
     BuildErrorBody code message (obj [(''connectionId'', JString connection_id)])"

definition ActivateOfflineForAdmin :: "'e cmd_env \<Rightarrow> string \<Rightarrow> json \<Rightarrow> ('e, json) cmd" where
  "ActivateOfflineForAdmin env connection_id request =
     (let auth_code = GetOptionalStringField request ''auth_code'' in
      if auth_code = [] then ret (admin_error connection_id (ToCode InvalidParams) ''auth_code required'')
      else bind_io (gets_io (\<lambda>s. ce_now env (the_world s))) (\<lambda>now.
        bind_io (on_auth (ActivateOffline (ce_auth env) connection_id auth_code now)) (\<lambda>session.
        ret (if \<not> IsOkStatusCode (sn_code session)
             then admin_error connection_id (sn_code session) (sn_message session)
             else obj [(''code'', JInt (ToCode Ok)), (''message'', JString ''ok''),
                       (''session'', BuildAdminSessionJson session)]))))"

section \<open>Requests\<close>

definition command_handlers :: "'e cmd_env \<Rightarrow> bool \<Rightarrow> string \<Rightarrow> (string \<times> (Request \<Rightarrow> ('e, json) cmd)) list" where
  "command_handlers env lock_taken c =
     [(''system.ping'', HandleSystemPing env),
      (''system.info'', HandleSystemInfo env),
      (''system.capabilities'', HandleSystemCapabilities env),
      (''auth.create_session'', HandleAuthCreateSession env c),
      (''auth.get_context'', HandleAuthGetContext env c),
      (''auth.refresh_session'', HandleAuthRefreshSession env c),
      (''auth.activate_offline'', HandleAuthActivateOffline env c),
      (''auth.destroy_session'', HandleAuthDestroySession env c),
      (''device.list'', HandleDeviceList env c),
      (''device.get'', HandleDeviceGet env c),
      (''device.open'', HandleDeviceOpen env c),
      (''device.close'', HandleDeviceClose env c),
      (''capture.take'', HandleCaptureTake env c),
      (''capture.get'', HandleCaptureGet env c),
      (''capture.session.get'', HandleCaptureSessionGet env c),
      (''capture.set_turn_detect'', HandleCaptureSetTurnDetect env c),
      (''video.start'', HandleVideoStart env c),
      (''video.stop'', HandleVideoStop env c),
      (''video.set_format'', HandleVideoSetFormat env c),
      (''video.set_profile'', HandleVideoSetProfile env c),
      (''image.process'', HandleImageProcess env c),
      (''image.process_page'', HandleImageProcessPage env c),
      (''image.apply_color_mode'', HandleImageApplyColorMode env c),
      (''image.enhance_capabilities'', HandleImageEnhanceCapabilities env c),
      (''image.enhance'', HandleImageEnhance env c),
      (''image.enhance_get'', HandleImageEnhanceGet env c),
      (''image.enhance_cancel'', HandleImageEnhanceCancel env c),
      (''image.enhance_workflow_list'', HandleImageEnhanceWorkflowList env c),
      (''image.enhance_workflow_get'', HandleImageEnhanceWorkflowGet env c),
      (''image.enhance_workflow_save'', HandleImageEnhanceWorkflowSave env c),
      (''image.enhance_workflow_delete'', HandleImageEnhanceWorkflowDelete env c),
      (''ocr.recognize'', HandleOcrRecognize env c),
      (''ocr.get'', HandleOcrGet env c),
      (''ocr.cancel'', HandleOcrCancel env c),
      (''ocr.extract_text'', HandleOcrExtractText env c),
      (''recognition.barcode_detect'', HandleBarcodeDetect env c),
      (''file.convert'', HandleFileConvert env c),
      (''sane.status'', HandleSaneStatus env c),
      (''sane.list'', HandleSaneList env c),
      (''sane.watch_start'', HandleSaneWatchStart env c),
      (''sane.watch_stop'', HandleSaneWatchStop env c),
      (''sane.open'', HandleSaneOpen env c),
      (''sane.close'', HandleSaneClose env c),
      (''sane.get_options'', HandleSaneGetOptions env c),
      (''sane.set_options'', HandleSaneSetOptions env c),
      (''sane.profile_list'', HandleSaneProfileList env c),
      (''sane.profile_save'', HandleSaneProfileSave env c),
      (''sane.profile_apply'', HandleSaneProfileApply env c),
      (''sane.profile_delete'', HandleSaneProfileDelete env c),
      (''sane.scan'', HandleSaneScan env c),
      (''sane.scan_get'', HandleSaneScanGet env c),
      (''sane.scan_cancel'', HandleSaneScanCancel env c),
      (''twain.status'', HandleTwainStatus env c),
      (''twain.list'', HandleTwainList env c),
      (''twain.watch_start'', HandleTwainWatchStart env c),
      (''twain.watch_stop'', HandleTwainWatchStop env c),
      (''twain.open'', HandleTwainOpen env c),
      (''twain.close'', HandleTwainClose env c),
      (''twain.get_capabilities'', HandleTwainGetCapabilities env c),
      (''twain.set_capabilities'', HandleTwainSetCapabilities env c),
      (''twain.profile_list'', HandleTwainProfileList env c),
      (''twain.profile_save'', HandleTwainProfileSave env c),
      (''twain.profile_apply'', HandleTwainProfileApply env c),
      (''twain.profile_delete'', HandleTwainProfileDelete env c),
      (''twain.scan'', HandleTwainScan env c),
      (''twain.scan_get'', HandleTwainScanGet env c),
      (''twain.scan_cancel'', HandleTwainScanCancel env c),
      (''storage.cleanup_temp'', HandleStorageCleanupTemp env lock_taken c)]"

definition read_request :: "json \<Rightarrow> Request" where
  "read_request j =
     \<lparr> rq_request_id = GetOptionalStringField j ''request_id'', rq_method = GetOptionalStringField j ''method'',
       rq_params = GetOptionalObjectField j ''params'', rq_client = GetOptionalObjectField j ''client'' \<rparr>"

definition answer_request :: "'e cmd_env \<Rightarrow> bool \<Rightarrow> string \<Rightarrow> Request \<Rightarrow> ('e, json) cmd" where
  "answer_request env lock_taken connection_id request =
     (if rq_request_id request = [] then reject env [] (ToCode InvalidRequest) ''request_id required''
      else if rq_method request = []
        then reject env (rq_request_id request) (ToCode InvalidMethod) ''missing method''
      else if FindMethod (rq_method request) = None
        then reject env (rq_request_id request) (ToCode UnsupportedMethod) ''unsupported method''
      else case map_of (command_handlers env lock_taken connection_id) (rq_method request) of
        Some handler \<Rightarrow> handler request
      | None \<Rightarrow> reject env (rq_request_id request) (ToCode UnsupportedMethod) ''unsupported method'')"

definition HandleRequest :: "'e cmd_env \<Rightarrow> bool \<Rightarrow> string \<Rightarrow> json \<Rightarrow> ('e, json) cmd" where
  "HandleRequest env lock_taken connection_id request_json =
     seq_io (modify_io (RememberCommandConnection connection_id))
       (if \<not> is_object request_json then reject env [] (ToCode InvalidRequest) ''invalid request''
        else answer_request env lock_taken connection_id (read_request request_json))"

definition ValidateVideoStream :: "string \<Rightarrow> string \<Rightarrow> 'e CommandApplicationService \<Rightarrow> ValidationResult" where
  "ValidateVideoStream session_token stream_id s = Validate session_token stream_id (cm_video s)"

end
