(* ===== verification/Command_Claims.thy ===== *)
theory Command_Claims
  imports Command_Dispatch
begin

text \<open>
  The properties of the command service as its clients see it: who is refused and what a refusal leaves
  unchanged, and what a closed connection leaves behind.
\<close>

section \<open>Requests without a session\<close>

definition refused :: "json \<Rightarrow> bool" where
  "refused j = (case jfind j ''code'' of Some (JInt code) \<Rightarrow> \<not> IsOkStatusCode code | _ \<Rightarrow> False)"

definition no_session :: "string \<Rightarrow> 'e CommandApplicationService \<Rightarrow> bool" where
  "no_session c s \<longleftrightarrow> map_of (au_sessions (cm_auth s)) c = None"

text \<open>The computation answers with a refusal and changes nothing.\<close>

definition quiet :: "('e, json) cmd \<Rightarrow> 'e CommandApplicationService \<Rightarrow> bool" where
  "quiet m s = (case m s of (Inr j, t) \<Rightarrow> refused j \<and> t = s | _ \<Rightarrow> False)"

named_theorems quiet_intros "computations that only refuse"

lemma response_code [simp]: "jfind (BuildWsResponse now i code message payload) ''code'' = Some (JInt code)"
  by (simp add: BuildWsResponse_def BuildErrorBody_def)

lemma quiet_reject [quiet_intros]: "\<not> IsOkStatusCode code \<Longrightarrow> quiet (reject env i code message) s"
  by (simp add: quiet_def reject_def respond_def gets_io_def refused_def)

lemma no_session_required: "no_session c s \<Longrightarrow> RequireSession c (cm_auth s) = session_error AuthRequired ''session required''"
  by (simp add: no_session_def RequireSession_def)

lemma session_error_refused [simp]: "\<not> IsOkStatusCode (sn_code (session_error AuthRequired m))"
  by (simp add: session_error_def IsOkStatusCode_def ToCode_def)

lemma quiet_gets: "quiet (f (g s)) s \<Longrightarrow> quiet (bind_io (gets_io g) f) s"
  by (simp add: quiet_def bind_io_def gets_io_def)

lemma no_capability: "no_session c s \<Longrightarrow> \<not> IsOkStatusCode (sn_code (RequireCapability_cmd env c m s))"
  by (simp add: RequireCapability_cmd_def RequireCapability_def no_session_required Let_def)

lemma quiet_capability [quiet_intros]: "no_session c s \<Longrightarrow> quiet (with_capability env c request f) s"
  unfolding with_capability_def by (rule quiet_gets) (simp add: no_capability quiet_reject)

lemma quiet_enhance [quiet_intros]: "no_session c s \<Longrightarrow> quiet (with_enhance env c request f) s"
  unfolding with_enhance_def by (rule quiet_gets) (simp add: no_capability quiet_reject)

lemma quiet_param [quiet_intros]: "no_session c s \<Longrightarrow> quiet (with_param env c request key f) s"
  unfolding with_param_def by (rule quiet_capability)

text \<open>Charging a connection without a session fails before anything outside is asked.\<close>

lemma no_charge: "no_session c s \<Longrightarrow>
    ConsumeQuota_cmd env c m i n s = (Inr (session_error AuthRequired ''session required''), s)"
  by (simp add: ConsumeQuota_cmd_def charge_def ConsumeQuota_def on_auth_def bind_io_def gets_io_def ret_def
      no_session_required)

lemma quiet_charged [quiet_intros]:
  "no_session c s \<Longrightarrow> (\<And>e. \<not> IsOkStatusCode (sn_code e) \<Longrightarrow> quiet (f e) s) \<Longrightarrow>
   quiet (bind_io (ConsumeQuota_cmd env c m i n) f) s"
  by (simp add: quiet_def bind_io_def no_charge)

lemma quiet_auth:
  "m (cm_auth s) = (Inr a, cm_auth s) \<Longrightarrow> quiet (f a) s \<Longrightarrow> quiet (bind_io (on_auth m) f) s"
  by (simp add: quiet_def bind_io_def on_auth_def)

lemma quiet_session_handlers [quiet_intros]:
  assumes "no_session c s"
  shows "quiet (HandleAuthGetContext env c request) s"
    "quiet (HandleAuthRefreshSession env c request) s"
    "quiet (HandleAuthActivateOffline env c request) s"
    "quiet (HandleStorageCleanupTemp env lock_taken c request) s"
proof -
  have none: "map_of (au_sessions (cm_auth s)) c = None" using assms by (simp add: no_session_def)
  have auth: "\<not> IsOkStatusCode (ToCode AuthRequired)" "\<not> IsOkStatusCode (ToCode InvalidParams)"
    by (simp_all add: IsOkStatusCode_def ToCode_def)
  show "quiet (HandleAuthGetContext env c request) s"
    unfolding HandleAuthGetContext_def
    by (rule quiet_gets) (simp add: GetContextData_def none auth quiet_reject)
  show "quiet (HandleAuthRefreshSession env c request) s"
    unfolding HandleAuthRefreshSession_def
    by (rule quiet_gets, rule quiet_auth [where a = "session_error AuthRequired ''session required''"])
      (simp_all add: RefreshSession_def bind_io_def gets_io_def ret_def no_session_required [OF assms]
        session_answer_def quiet_reject)
  show "quiet (HandleAuthActivateOffline env c request) s"
    unfolding HandleAuthActivateOffline_def Let_def bad_params_def
    by (cases "param request ''auth_code'' = []")
      (auto simp: auth intro!: quiet_reject quiet_gets
        quiet_auth [where a = "session_error AuthRequired ''session required''"]
        simp: ActivateOffline_def bind_io_def gets_io_def ret_def no_session_required [OF assms] session_answer_def)
  show "quiet (HandleStorageCleanupTemp env lock_taken c request) s"
    unfolding HandleStorageCleanupTemp_def
    by (rule quiet_gets) (simp add: no_session_required [OF assms] quiet_reject)
qed
lemma quiet_scans [quiet_intros]:
  assumes "no_session c s"
  shows "quiet (HandleSaneScan env c request) s" "quiet (HandleTwainScan env c request) s"
  unfolding HandleSaneScan_def HandleTwainScan_def
  by (auto intro!: quiet_charged [OF assms] quiet_reject)

text \<open>Every method of the table has its handler, in the same order.\<close>

lemma handler_names: "map fst (command_handlers env lock_taken c) = map md_method command_methods"
  by (simp add: command_handlers_def command_methods_def MakeMethod_def)

definition public_methods :: "string list" where
  "public_methods = [''system.ping'', ''system.info'', ''system.capabilities'', ''auth.create_session'']"

lemma public_descriptors: "list_all (\<lambda>d. md_requires_session d \<longleftrightarrow> md_method d \<notin> set public_methods) command_methods"
  by code_simp

lemma quiet_others:
  assumes "no_session c s"
  shows
    "quiet (HandleDeviceList env c request) s" "quiet (HandleDeviceGet env c request) s"
    "quiet (HandleDeviceOpen env c request) s" "quiet (HandleDeviceClose env c request) s"
    "quiet (HandleCaptureTake env c request) s" "quiet (HandleCaptureGet env c request) s"
    "quiet (HandleCaptureSessionGet env c request) s" "quiet (HandleCaptureSetTurnDetect env c request) s"
    "quiet (HandleVideoStart env c request) s" "quiet (HandleVideoStop env c request) s"
    "quiet (HandleVideoSetFormat env c request) s" "quiet (HandleVideoSetProfile env c request) s"
    "quiet (HandleImageProcess env c request) s" "quiet (HandleImageProcessPage env c request) s"
    "quiet (HandleImageApplyColorMode env c request) s"
    "quiet (HandleImageEnhanceCapabilities env c request) s" "quiet (HandleImageEnhance env c request) s"
    "quiet (HandleImageEnhanceGet env c request) s" "quiet (HandleImageEnhanceCancel env c request) s"
    "quiet (HandleImageEnhanceWorkflowList env c request) s"
    "quiet (HandleImageEnhanceWorkflowGet env c request) s"
    "quiet (HandleImageEnhanceWorkflowSave env c request) s"
    "quiet (HandleImageEnhanceWorkflowDelete env c request) s" "quiet (HandleOcrRecognize env c request) s"
    "quiet (HandleOcrGet env c request) s" "quiet (HandleOcrCancel env c request) s"
    "quiet (HandleOcrExtractText env c request) s" "quiet (HandleBarcodeDetect env c request) s"
    "quiet (HandleFileConvert env c request) s" "quiet (HandleSaneStatus env c request) s"
    "quiet (HandleSaneList env c request) s" "quiet (HandleSaneWatchStart env c request) s"
    "quiet (HandleSaneWatchStop env c request) s" "quiet (HandleSaneOpen env c request) s"
    "quiet (HandleSaneClose env c request) s" "quiet (HandleSaneGetOptions env c request) s"
    "quiet (HandleSaneSetOptions env c request) s" "quiet (HandleSaneProfileList env c request) s"
    "quiet (HandleSaneProfileSave env c request) s" "quiet (HandleSaneProfileApply env c request) s"
    "quiet (HandleSaneProfileDelete env c request) s" "quiet (HandleSaneScanGet env c request) s"
    "quiet (HandleSaneScanCancel env c request) s" "quiet (HandleTwainStatus env c request) s"
    "quiet (HandleTwainList env c request) s" "quiet (HandleTwainWatchStart env c request) s"
    "quiet (HandleTwainWatchStop env c request) s" "quiet (HandleTwainOpen env c request) s"
    "quiet (HandleTwainClose env c request) s" "quiet (HandleTwainGetCapabilities env c request) s"
    "quiet (HandleTwainSetCapabilities env c request) s" "quiet (HandleTwainProfileList env c request) s"
    "quiet (HandleTwainProfileSave env c request) s" "quiet (HandleTwainProfileApply env c request) s"
    "quiet (HandleTwainProfileDelete env c request) s" "quiet (HandleTwainScanGet env c request) s"
    "quiet (HandleTwainScanCancel env c request) s"
  unfolding
    HandleDeviceList_def HandleDeviceGet_def HandleDeviceOpen_def HandleDeviceClose_def
    HandleCaptureTake_def HandleCaptureGet_def HandleCaptureSessionGet_def HandleCaptureSetTurnDetect_def
    HandleVideoStart_def HandleVideoStop_def HandleVideoSetFormat_def HandleVideoSetProfile_def
    HandleImageProcess_def HandleImageProcessPage_def HandleImageApplyColorMode_def
    HandleImageEnhanceCapabilities_def HandleImageEnhance_def HandleImageEnhanceGet_def
    HandleImageEnhanceCancel_def HandleImageEnhanceWorkflowList_def HandleImageEnhanceWorkflowGet_def
    HandleImageEnhanceWorkflowSave_def HandleImageEnhanceWorkflowDelete_def HandleOcrRecognize_def
    HandleOcrGet_def HandleOcrCancel_def HandleOcrExtractText_def HandleBarcodeDetect_def
    HandleFileConvert_def HandleSaneStatus_def HandleSaneList_def HandleSaneWatchStart_def
    HandleSaneWatchStop_def HandleSaneOpen_def HandleSaneClose_def HandleSaneGetOptions_def
    HandleSaneSetOptions_def HandleSaneProfileList_def HandleSaneProfileSave_def HandleSaneProfileApply_def
    HandleSaneProfileDelete_def HandleSaneScanGet_def HandleSaneScanCancel_def HandleTwainStatus_def
    HandleTwainList_def HandleTwainWatchStart_def HandleTwainWatchStop_def HandleTwainOpen_def
    HandleTwainClose_def HandleTwainGetCapabilities_def HandleTwainSetCapabilities_def
    HandleTwainProfileList_def HandleTwainProfileSave_def HandleTwainProfileApply_def
    HandleTwainProfileDelete_def HandleTwainScanGet_def HandleTwainScanCancel_def
  by (rule quiet_capability [OF assms] quiet_enhance [OF assms] quiet_param [OF assms])+

text \<open>Ending the own session is the exception: it also ends what the connection still holds.\<close>

lemma quiet_handlers:
  assumes "no_session c s"
  shows "list_all (\<lambda>(m, h). m \<in> set (''auth.destroy_session'' # public_methods) \<or> (\<forall>request. quiet (h request) s))
           (command_handlers env lock_taken c)"
  unfolding command_handlers_def list.pred_inject prod.case
  by (intro conjI; ((rule disjI2, rule allI, (rule quiet_others [OF assms] | rule quiet_session_handlers [OF assms] |
        rule quiet_scans [OF assms])) | (rule disjI1, simp add: public_methods_def) | rule list.pred_inject(1)))

text \<open>Whether a request that can be read names a method that needs a session.\<close>

definition needs_session :: "json \<Rightarrow> bool" where
  "needs_session j =
     (case FindMethod (GetOptionalStringField j ''method'') of Some d \<Rightarrow> md_requires_session d | None \<Rightarrow> False)"

lemma quiet_answer:
  assumes "no_session c s" and "needs_session j" and "GetOptionalStringField j ''method'' \<noteq> ''auth.destroy_session''"
  shows "quiet (answer_request env lock_taken c (read_request j)) s"
proof -
  let ?m = "GetOptionalStringField j ''method''" and ?hs = "command_handlers env lock_taken c"
  obtain d where d: "FindMethod ?m = Some d" "md_requires_session d"
    using assms(2) by (auto simp: needs_session_def split: option.splits)
  then have m: "d \<in> set command_methods" "md_method d = ?m"
    by (auto simp: FindMethod_def find_Some_iff)
  then have protected: "?m \<notin> set public_methods"
    using public_descriptors d(2) by (auto simp: list_all_iff)
  have "?m \<in> fst ` set ?hs"
    using m handler_names [of env lock_taken c] by (metis image_eqI image_set)
  then obtain h where h: "map_of ?hs ?m = Some h" "(?m, h) \<in> set ?hs"
    by (metis map_of_eq_None_iff map_of_SomeD not_None_eq)
  have "quiet (h request) s" for request
    using quiet_handlers [OF assms(1), of env lock_taken] h(2) protected assms(3) by (auto simp: list_all_iff)
  moreover have "\<not> IsOkStatusCode (ToCode InvalidRequest)" "\<not> IsOkStatusCode (ToCode InvalidMethod)"
    by (simp_all add: IsOkStatusCode_def ToCode_def)
  ultimately show ?thesis
    using h(1) d(1) by (auto simp: answer_request_def read_request_def quiet_reject)
qed


text \<open>A service with a storage provider only, and with one session.\<close>

definition lab_storage :: "unit ISdkStorageProvider" where
  "lab_storage = \<lparr> stp_ProviderName = ''lab'', stp_CleanupTemp = (\<lambda>_. ret (default_SdkStorageCleanupResult
     \<lparr> sc_capture_removed := True, sc_tasks_removed := True \<rparr>)) \<rparr>"

definition lab_api :: "unit c_api" where
  "lab_api = \<lparr> ca_call = None, ca_free_string = True, ca_dump = (\<lambda>_. []), ca_parse = (\<lambda>_. None) \<rparr>"

definition lab_auth :: "unit world auth_env" where
  "lab_auth = \<lparr> ae_private_build = False, ae_auth_provider = None,
     ae_api = \<lparr> pa_create_session = None, pa_activate_offline = None, pa_consume_quota = None, pa_free_string = True \<rparr>,
     ae_dump = (\<lambda>_. []), ae_parse = (\<lambda>_. None), ae_base_url = None \<rparr>"

definition lab :: "(string \<Rightarrow> json option) \<Rightarrow> (json \<Rightarrow> string) \<Rightarrow> unit cmd_env" where
  "lab read print = \<lparr> ce_auth = lab_auth,
     ce_providers = \<lparr> device_provider = None, graphic_provider = None, image_enhance_provider = None \<rparr>,
     ce_sane = None, ce_twain = None, ce_ocr = None, ce_recognition = None, ce_ofd = None,
     ce_storage = Some lab_storage, ce_private_build = False, ce_recognition_api = lab_api,
     ce_file_convert_api = lab_api, ce_config = default_SdkConfig,
     ce_os = \<lparr> os_canon = (\<lambda>p. p), os_refuses = (\<lambda>_. False) \<rparr>, ce_work_dir = ''/w'', ce_getenv = (\<lambda>_. None),
     ce_dump = print, ce_parse = read, ce_read_json = read, ce_print_json = print, ce_status_supplier = None,
     ce_stream_closed_sink = None, ce_event_sink = None, ce_now = (\<lambda>_. 7), ce_steady = (\<lambda>_. 7),
     ce_thread = (\<lambda>_. None), ce_time = (\<lambda>_. 7), ce_dir_size = (\<lambda>_. 0),
     ce_list_capabilities = ret default_SdkImageEnhanceCapabilityResult \<rparr>"

definition lab_session :: SessionResult where
  "lab_session = default_SessionResult\<lparr> sn_token := ''key'', sn_session_token := ''st'', sn_connection_id := ''c1'',
     sn_auth_context := default_AuthContext\<lparr>ac_capabilities := [''image.process'', ''image.enhance'']\<rparr> \<rparr>"

definition lab_service :: "unit CommandApplicationService" where
  "lab_service = (new_CommandApplicationService (lab (\<lambda>_. None) (\<lambda>_. [])) None empty_world)
     \<lparr>cm_auth := \<lparr> au_sessions = [(''c1'', lab_session)], au_outside = empty_world \<rparr>\<rparr>"

section \<open>The end of a connection\<close>

text \<open>What is tracked for connections, apart from scanner sessions and tasks.\<close>

definition books :: "'e CommandApplicationService \<Rightarrow>
    string sset \<times> string set \<times> string set \<times> (string, SessionResult) smap \<times> VideoSessionService \<times>
    (string, string sset) smap" where
  "books s = (cm_connections s, cm_sane_watch s, cm_twain_watch s, au_sessions (cm_auth s), cm_video s, cm_opened s)"

lemma books_simps [simp]:
  "books (s\<lparr>cm_twain_tasks := x1\<rparr>) = books s" "books (s\<lparr>cm_twain_sessions := x2\<rparr>) = books s"
  "books (s\<lparr>cm_contexts := x3\<rparr>) = books s"
  "books (s\<lparr>cm_auth := (cm_auth s)\<lparr>au_outside := w\<rparr>\<rparr>) = books s"
  by (simp_all add: books_def)

lemma wp_outside_books:
  "(\<And>a t. books t = books s \<Longrightarrow> Q a t) \<Longrightarrow> wp_io (on_outside m) Q (\<lambda>_. True) s"
  by (simp add: wp_io_def on_outside_def on_auth_def outside_def split: prod.splits sum.splits)

lemma wp_step [wp_simps]: "wp_io (step_io f) Q E s = Q (fst (f s)) (snd (f s))"
  by (simp add: wp_io_def step_io_def split: prod.splits)

lemma wp_same_each:
  assumes "\<And>x t. x \<in> set xs \<Longrightarrow> books t = b \<Longrightarrow> wp_io (f x) (\<lambda>_ u. books u = b) (\<lambda>_. True) t"
    and "books s = b" and "\<And>t. books t = b \<Longrightarrow> Q () t"
  shows "wp_io (each_io f xs) Q (\<lambda>_. True) s"
  by (rule wp_each [where I = "\<lambda>t. books t = b"]) (use assms in auto)

lemma keep_twain_books: "wp_io (keep_twain_answer r) Q E s =
    Q () (if twScanResult_task_id r \<noteq> [] then put_twain_task (twScanResult_task_id r) (twScanResult_task r) s else s)"
  by (simp add: keep_twain_answer_def wp_simps)

lemma put_twain_books [simp]: "books (put_twain_task i task s) = books s"
  by (simp add: put_twain_task_def)

lemma wp_cancel_tasks:
  "(\<And>a t. books t = books s \<Longrightarrow> Q a t) \<Longrightarrow>
   wp_io (CancelActiveTwainTasksForSessions env sessions) Q (\<lambda>_. True) s"
  unfolding CancelActiveTwainTasksForSessions_def
  by (auto simp: wp_simps keep_twain_books intro!: wp_same_each wp_outside_books)

lemma wp_wait_rounds:
  "(\<And>a t. books t = books s \<Longrightarrow> Q a t) \<Longrightarrow> wp_io (wait_rounds env ids n) Q (\<lambda>_. True) s"
proof (induction n arbitrary: s)
  case (Suc n)
  then show ?case
    by (auto simp: wp_simps keep_twain_books intro!: wp_same_each [where b = "books s"] wp_outside_books)
qed (simp add: wp_simps)

lemma wp_wait_tasks:
  "(\<And>a t. books t = books s \<Longrightarrow> Q a t) \<Longrightarrow> wp_io (WaitTwainTasksTerminal env ids) Q (\<lambda>_. True) s"
  by (auto simp: WaitTwainTasksTerminal_def wp_simps intro!: wp_wait_rounds)

lemma remember_session_books [simp]: "books (RememberOpenedTwainSession c i s) = books s"
  by (simp add: RememberOpenedTwainSession_def)

lemma clear_sessions_books [simp]: "books (snd (ClearOpenedTwainSessions c s)) = books s"
  by (simp add: ClearOpenedTwainSessions_def)

lemma wp_end_twain:
  "(\<And>a t. books t = books s \<Longrightarrow> Q a t) \<Longrightarrow> wp_io (end_twain_sessions env c) Q (\<lambda>_. True) s"
  unfolding end_twain_sessions_def close_twain_session_def
  by (auto simp: wp_simps intro!: wp_cancel_tasks wp_wait_tasks wp_same_each [where b = "books s"] wp_outside_books)

lemma wp_stop_watches:
  assumes "c \<noteq> []"
    and "\<And>a t. books t = books (s\<lparr> cm_sane_watch := cm_sane_watch s - {c}, cm_twain_watch := cm_twain_watch s - {c} \<rparr>) \<Longrightarrow> Q a t"
  shows "wp_io (stop_watches env c) Q (\<lambda>_. True) s"
proof -
  let ?s = "s\<lparr>cm_sane_watch := cm_sane_watch s - {c}\<rparr>"
  define twain_part where "twain_part = bind_io (step_io (ForgetTwainWatchConnection c)) (\<lambda>twain. when_io twain
      (bind_io (on_outside (twain_WatchStop (ce_twain env)
         \<lparr> twWatchRequest_connection_id = c, twWatchRequest_enabled = False \<rparr>)) (\<lambda>_. ret ())))"
  have twain: "wp_io twain_part Q (\<lambda>_. True) t" if "books t = books ?s" for t
    using that assms(1) unfolding twain_part_def
    by (auto simp: wp_simps ForgetTwainWatchConnection_def books_def intro!: assms(2) wp_outside_books)
  show ?thesis
    unfolding stop_watches_def twain_part_def [symmetric]
    using assms(1) by (auto simp: wpio_bind wp_step wp_seq wp_when wp_ret ForgetSaneWatchConnection_def
        intro!: twain wp_outside_books)
qed

lemma stream_closed_books:
  "(\<And>a t. books t = books s \<Longrightarrow> Q a t) \<Longrightarrow> wp_io (stream_closed env i) Q (\<lambda>_. True) s"
  by (auto simp: stream_closed_def wp_simps intro!: wp_outside_books split: option.split)

lemma wp_stop_streams:
  "(\<And>a t. books t = books s \<Longrightarrow> Q a t) \<Longrightarrow> wp_io (stop_streams env bs) Q (\<lambda>_. True) s"
  unfolding stop_streams_def
  by (auto simp: wp_simps intro!: wp_same_each [where b = "books s"] wp_outside_books stream_closed_books)

lemma wp_close_devices:
  "(\<And>a t. books t = books s \<Longrightarrow> Q a t) \<Longrightarrow> wp_io (close_devices env ds) Q (\<lambda>_. True) s"
  unfolding close_devices_def
  by (auto simp: wp_simps intro!: wp_same_each [where b = "books s"] wp_outside_books)

lemma wp_on_video: "wp_io (on_video f) Q E s = Q (fst (f (cm_video s))) (s\<lparr>cm_video := snd (f (cm_video s))\<rparr>)"
  by (simp add: wp_io_def on_video_def split: prod.splits)

lemma wp_on_auth: "wp_io (on_auth (modify_io f)) Q E s = Q () (s\<lparr>cm_auth := f (cm_auth s)\<rparr>)"
  by (simp add: wp_io_def on_auth_def modify_io_def)

lemma clear_devices_books:
  "books (snd (ClearOpenedDevices c s)) = books (s\<lparr>cm_opened := smap_erase c (cm_opened s)\<rparr>)"
  by (auto simp: ClearOpenedDevices_def ClearCaptureProfiles_def books_def smap_erase_absent split: option.split)

lemma wp_end_streams:
  assumes "\<And>a t. books t = books (s\<lparr> cm_video := snd (ClearConnection c (cm_video s)),
                                    cm_opened := smap_erase c (cm_opened s) \<rparr>) \<Longrightarrow> Q a t"
  shows "wp_io (end_streams_and_devices env c) Q (\<lambda>_. True) s"
  unfolding end_streams_and_devices_def
  by (auto simp: wpio_bind wp_seq wp_on_video wp_step clear_devices_books
      intro!: wp_stop_streams wp_close_devices assms) (auto simp: books_def)

text \<open>The books without the connection.\<close>

definition without :: "string \<Rightarrow> 'e CommandApplicationService \<Rightarrow> 'e CommandApplicationService" where
  "without c s = s
     \<lparr> cm_connections := smap_erase c (cm_connections s), cm_sane_watch := cm_sane_watch s - {c},
       cm_twain_watch := cm_twain_watch s - {c},
       cm_auth := (cm_auth s)\<lparr>au_sessions := smap_erase c (au_sessions (cm_auth s))\<rparr>,
       cm_video := snd (ClearConnection c (cm_video s)), cm_opened := smap_erase c (cm_opened s) \<rparr>"

lemma wp_closed:
  assumes "c \<noteq> []"
  shows "wp_io (OnConnectionClosed env c) (\<lambda>_ t. books t = books (without c s)) (\<lambda>_. True) s"
  unfolding OnConnectionClosed_def
  using assms
  by (auto simp: wpio_bind wp_seq wp_modify wp_on_auth ForgetCommandConnection_def ClearConnection_auth_def
      intro!: wp_stop_watches wp_end_twain wp_end_streams) (simp add: books_def without_def)

text \<open>Computations that return: a provider is assumed to, and then so does everything built from it.\<close>

definition calm :: "('s, 'a) io \<Rightarrow> bool" where
  "calm m \<longleftrightarrow> (\<forall>s. \<exists>a t. m s = (Inr a, t))"

named_theorems calm_intros "computations that return"

lemma calm_base [calm_intros]: "calm (ret a)" "calm (gets_io f)" "calm (modify_io g)" "calm (step_io h)"
  by (auto simp: calm_def ret_def gets_io_def modify_io_def step_io_def split: prod.splits)

lemma calm_bind [calm_intros]: "calm m \<Longrightarrow> (\<And>a. calm (f a)) \<Longrightarrow> calm (bind_io m f)"
  unfolding calm_def bind_io_def by (metis (no_types, lifting) case_prod_conv sum.case(2))

lemma calm_seq [calm_intros]: "calm m \<Longrightarrow> calm k \<Longrightarrow> calm (seq_io m k)"
  unfolding seq_io_def by (rule calm_bind)

lemma calm_when [calm_intros]: "calm m \<Longrightarrow> calm (when_io b m)"
  by (simp add: when_io_def calm_base)

lemma calm_each [calm_intros]: "(\<And>x. calm (f x)) \<Longrightarrow> calm (each_io f xs)"
  by (induction xs) (auto intro: calm_intros)

lemma calm_on [calm_intros]:
  "calm m \<Longrightarrow> calm (on_outside m)" "calm (on_video f)" "calm (on_auth (modify_io g))"
proof -
  show "calm m \<Longrightarrow> calm (on_outside m)"
    unfolding calm_def on_outside_def on_auth_def outside_def by (metis (no_types, lifting) case_prod_conv)
qed (auto simp: calm_def on_video_def on_auth_def modify_io_def split: prod.splits)

text \<open>The calls that closing a connection makes.\<close>

definition closing_returns :: "'e cmd_env \<Rightarrow> bool" where
  "closing_returns env \<longleftrightarrow>
     (\<forall>r. calm (sane_WatchStop (ce_sane env) r)) \<and> (\<forall>r. calm (twain_WatchStop (ce_twain env) r)) \<and>
     (\<forall>r. calm (twain_CancelScan (ce_twain env) r)) \<and> (\<forall>r. calm (twain_GetScan (ce_twain env) r)) \<and>
     (\<forall>r. calm (twain_CloseSource (ce_twain env) r)) \<and>
     (\<forall>r. calm (StopVideo (ce_providers env) default_AuthContext r)) \<and>
     (\<forall>r. calm (CloseDevice (ce_providers env) default_AuthContext r)) \<and>
     (\<forall>sink i. ce_stream_closed_sink env = Some sink \<longrightarrow> calm (sink i))"

lemma calm_stream_closed: "closing_returns env \<Longrightarrow> calm (stream_closed env i)"
  by (auto simp: closing_returns_def stream_closed_def intro: calm_intros split: option.split)

lemma calm_wait: "closing_returns env \<Longrightarrow> calm (wait_rounds env ids n)"
  by (induction n) (auto simp: closing_returns_def keep_twain_answer_def intro!: calm_intros)

lemma calm_closing: "closing_returns env \<Longrightarrow> calm (OnConnectionClosed env c)"
  unfolding OnConnectionClosed_def stop_watches_def end_twain_sessions_def close_twain_session_def
    CancelActiveTwainTasksForSessions_def WaitTwainTasksTerminal_def ClearConnection_auth_def
    end_streams_and_devices_def stop_streams_def close_devices_def keep_twain_answer_def
  by (auto intro!: calm_intros calm_wait calm_stream_closed simp: closing_returns_def)


text \<open>What is tracked for a connection.\<close>

definition is_gone :: "string \<Rightarrow> 'e CommandApplicationService \<Rightarrow> bool" where
  "is_gone c t \<longleftrightarrow> no_session c t \<and> c \<notin> set (ListCommandConnections t) \<and> c \<notin> cm_sane_watch t \<and>
     c \<notin> cm_twain_watch t \<and> map_of (cm_opened t) c = None \<and>
     (\<forall>b \<in> snd ` set (vs_streams (cm_video t)). sb_connection_id b \<noteq> c)"

definition kept_of :: "string \<Rightarrow> 'e CommandApplicationService \<Rightarrow>
    SessionResult option \<times> bool \<times> bool \<times> bool \<times> string sset option \<times> StreamBinding list" where
  "kept_of d s = (map_of (au_sessions (cm_auth s)) d, d \<in> set (ListCommandConnections s), d \<in> cm_sane_watch s,
     d \<in> cm_twain_watch s, map_of (cm_opened s) d,
     map snd (filter (\<lambda>p. sb_connection_id (snd p) = d) (vs_streams (cm_video s))))"

lemma gone_of_books: "books t = books (without c s) \<Longrightarrow> is_gone c t"
  by (auto simp: books_def without_def is_gone_def no_session_def ListCommandConnections_def ClearConnection_def
      remove_streams_def smap_erase_def map_of_eq_None_iff)

lemma filter_others: "d \<noteq> c \<Longrightarrow> filter (\<lambda>x. f x \<noteq> c \<and> f x = d) xs = filter (\<lambda>x. f x = d) xs"
  by (rule filter_cong) auto

lemma kept_of_books:
  assumes "books t = books (without c s)" and "d \<noteq> c"
  shows "kept_of d t = kept_of d s"
proof -
  have "d \<in> set (map fst (smap_erase c m)) \<longleftrightarrow> d \<in> set (map fst m)" for m :: "string sset"
    using assms(2) by (auto simp: smap_erase_def)
  then show ?thesis
    using assms by (simp add: books_def without_def kept_of_def ListCommandConnections_def ClearConnection_def
      remove_streams_def filter_others)
qed

text \<open>C5. Closing a connection returns once the providers do, and then nothing is tracked for it: no
  session, no watch, no opened device and no image stream.  What is tracked for every other connection
  is as it was.\<close>

theorem closed_connection_leaves_nothing:
  assumes "c \<noteq> []" and "closing_returns env"
  shows "case OnConnectionClosed env c s of
           (Inr _, t) \<Rightarrow> is_gone c t \<and> (\<forall>d. d = c \<or> kept_of d t = kept_of d s)
         | _ \<Rightarrow> False"
proof -
  obtain a t where ran: "OnConnectionClosed env c s = (Inr a, t)"
    using calm_closing [OF assms(2), of c] by (auto simp: calm_def)
  have "books t = books (without c s)"
    using wp_closed [OF assms(1), of env s] by (simp add: wp_io_def ran)
  then show ?thesis
    using gone_of_books kept_of_books by (fastforce simp: ran)
qed

theorem closed_connection_leaves_nothing_witness:
  "case OnConnectionClosed (lab (\<lambda>_. None) (\<lambda>_. [])) ''c1'' lab_service of
     (Inr _, t) \<Rightarrow> is_gone ''c1'' t \<and> (\<forall>d. d = ''c1'' \<or> kept_of d t = kept_of d lab_service)
   | _ \<Rightarrow> False"
proof (rule closed_connection_leaves_nothing)
  show "closing_returns (lab (\<lambda>_. None) (\<lambda>_. []))"
    by (simp add: closing_returns_def lab_def sane_WatchStop_def twain_WatchStop_def twain_CancelScan_def
        twain_GetScan_def twain_CloseSource_def StopVideo_def CloseDevice_def LookupDevice_def recently_removed_def
        calm_def bind_io_def ret_def IsOkStatusCode_def ToCode_def)
qed simp

end
