(* ===== verification/Storage_Claims.thy ===== *)
theory Storage_Claims
  imports Command_Claims
begin

text \<open>
  What the command service stores and clears: the clean-up of temporary files spares running work, an
  uploaded file is what the HTTP interface serves, and a saved workflow is what is read.
\<close>

section \<open>The clean-up of temporary files\<close>

definition held :: "'e CommandApplicationService \<Rightarrow>
    CaptureTaskService \<times> ImageEnhanceTaskService \<times> (string, string) smap \<times>
    (string, (string, SdkCaptureAsset) smap) smap \<times> (string, SdkSaneScanTask) smap \<times>
    (string, SdkTwainScanTask) smap" where
  "held s = (cm_capture s, cm_enhance s, cm_image_owner s, cm_image_assets s, cm_sane_tasks s, cm_twain_tasks s)"

definition nothing_running :: "'e CommandApplicationService \<Rightarrow> bool" where
  "nothing_running s \<longleftrightarrow> list_all (\<lambda>p. \<not> unfinished (snd p)) (ct_tasks (cm_capture s)) \<and>
     ie_active_worker_task_ids (cm_enhance s) = {} \<and> list_all (\<lambda>p. \<not> IsSaneTaskActive (snd p)) (cm_sane_tasks s) \<and>
     list_all (\<lambda>p. \<not> IsTwainTaskActiveForStorage (snd p)) (cm_twain_tasks s)"

definition swept :: "'e CommandApplicationService \<Rightarrow> bool" where
  "swept t \<longleftrightarrow> cm_image_owner t = [] \<and> cm_image_assets t = [] \<and> cm_sane_tasks t = [] \<and> cm_twain_tasks t = [] \<and>
     ie_tasks (cm_enhance t) = [] \<and>
     list_all (\<lambda>p. fst p \<in> ct_active_worker_task_ids (cm_capture t)) (ct_tasks (cm_capture t))"

fun accepted :: "exn + json \<Rightarrow> bool" where
  "accepted (Inr answer) \<longleftrightarrow> \<not> refused answer"
| "accepted (Inl e) \<longleftrightarrow> False"

lemma list_all_none: "list_all (\<lambda>x. \<not> P x) xs \<longleftrightarrow> length (filter P xs) = 0"
  by (simp add: list_all_iff filter_empty_conv)

lemma nothing_running_iff:
  assumes "finite (ie_active_worker_task_ids (cm_enhance s))"
  shows "Total (active_tasks s) = 0 \<longleftrightarrow> nothing_running s"
  using assms by (simp add: nothing_running_def active_tasks_def Total_def list_all_none ActiveTaskCount_def
      ActiveTaskCount_enhance_def default_SdkStorageActiveTasks_def)

lemma cleared:
  "nothing_running s \<Longrightarrow> swept (snd (clear_finished s))"
  by (auto simp: nothing_running_def swept_def clear_finished_def ClearFinishedTasks_def
      ClearFinishedTasks_enhance_def Let_def list_all_iff)

lemma cleared_keeps [simp]: "kept_of d (snd (clear_finished s)) = kept_of d s"
  by (simp add: clear_finished_def kept_of_def ListCommandConnections_def Let_def split: prod.splits)

lemma cleared_pair: "clear_finished s = (n, t) \<Longrightarrow> (\<forall>d. kept_of d t = kept_of d s) \<and> (nothing_running s \<longrightarrow> swept t)"
  using cleared [of s] cleared_keeps [where s = s] by auto

lemma outside_keeps [simp]:
  "kept_of d (s\<lparr>cm_auth := (cm_auth s)\<lparr>au_outside := w\<rparr>\<rparr>) = kept_of d s"
  "held (s\<lparr>cm_auth := (cm_auth s)\<lparr>au_outside := w\<rparr>\<rparr>) = held s"
  "nothing_running (s\<lparr>cm_auth := (cm_auth s)\<lparr>au_outside := w\<rparr>\<rparr>) = nothing_running s"
  by (simp_all add: kept_of_def held_def nothing_running_def ListCommandConnections_def)


definition lab_idle :: "unit CommandApplicationService" where
  "lab_idle = RegisterImageAsset ''c1'' ''img-1'' (default_SdkCaptureAsset\<lparr>as_asset_id := ''asset-original''\<rparr>) lab_service"

definition lab_cleanup :: "(exn + json) \<times> unit CommandApplicationService" where
  "lab_cleanup = HandleStorageCleanupTemp (lab (\<lambda>_. None) (\<lambda>_. [])) False ''c1''
     \<lparr> rq_request_id = ''r'', rq_method = ''storage.cleanup_temp'', rq_params = obj [], rq_client = obj [] \<rparr> lab_idle"

section \<open>Uploaded files\<close>

lemma written_content:
  "WriteBinaryFile os path content w = (True, w') \<Longrightarrow> w_files w' (os_canon os path) = Some content"
  by (auto simp: WriteBinaryFile_def syscall_def Let_def split: if_splits)

lemma joined_not_empty [simp]: "leaf \<noteq> [] \<Longrightarrow> JoinPath base leaf \<noteq> []"
  by (simp add: JoinPath_def)

text \<open>What a successful upload leaves: the session is as it was, the file is written and registered.\<close>

lemma upload_effect:
  assumes "UploadImage env token filename type content s = (Inr r, t)" and "IsOkStatusCode (up_code r)"
  obtains c task_id path ext u where
    "check_upload env token filename type content s = Inr c"
    "t = RegisterImageAsset c task_id (up_asset r) u" "up_upload_id r = task_id"
    "up_asset r = AttachImageAssetUrls env task_id (uploaded_asset path type ext (FileSize (ce_os env) path (the_world u)))"
    "w_files (the_world u) (os_canon (ce_os env) path) = Some content" "path \<noteq> []"
    "au_sessions (cm_auth u) = au_sessions (cm_auth s)"
proof -
  have bad: "\<not> IsOkStatusCode (ToCode InternalError)" by (simp add: IsOkStatusCode_def ToCode_def)
  have failed: "check_upload env token filename type content s = Inl (code, m) \<Longrightarrow> \<not> IsOkStatusCode code" for code m
    by (auto simp: check_upload_def Let_def IsOkStatusCode_def ToCode_def split: if_splits)
  obtain c where c: "check_upload env token filename type content s = Inr c"
    using assms failed by (cases "check_upload env token filename type content s")
      (auto simp: UploadImage_def bind_io_def gets_io_def ret_def upload_error_def default_ImageUploadResult_def)
  show thesis
    using assms c
    by (auto simp: UploadImage_def store_upload_def bind_io_def gets_io_def ret_def bad upload_error_def
        default_ImageUploadResult_def NextImageTaskId_def step_io_def on_outside_def on_auth_def outside_def world_op_def
        seq_io_def modify_io_def the_world_def Let_def
        dest!: written_content intro!: that split: prod.splits sum.splits if_splits)
qed


definition lab_upload :: "(exn + ImageUploadResult) \<times> unit CommandApplicationService" where
  "lab_upload = UploadImage (lab (\<lambda>_. None) (\<lambda>_. [])) ''st'' ''a.png'' ''image/png'' ''data'' lab_service"

lemma lab_checked: "check_upload (lab (\<lambda>_. None) (\<lambda>_. [])) ''st'' ''a.png'' ''image/png'' ''data'' lab_service = Inr ''c1''"
  by (simp add: check_upload_def RequireSessionToken_def lab_service_def lab_session_def with_connection_def
      CopySessionResultForReturn_def default_SessionResult_def IsOkStatusCode_def ToCode_def has_capability_def
      RequireCapability_def RequireSession_def HasCapability_def default_AuthContext_def upload_accepted_def
      ExtensionFromFilename_def kMaxUploadBytes_def Let_def) code_simp

definition lab_dir :: string where
  "lab_dir = ''/w/tasks/image/img-7-1/assets''"

lemma lab_paths:
  "''img-'' @ to_string 7 @ ''-'' @ dec 1 = ''img-7-1''"
  "GetSdkOpenTaskAssetDir ''/w'' ''image'' ''img-7-1'' ''assets'' = lab_dir"
  "UploadExtensionForContentType ''image/png'' ''a.png'' = ''png''"
  by code_simp+

lemma lab_directory:
  "case EnsureDirectoryRecursive \<lparr> os_canon = (\<lambda>p. p), os_refuses = (\<lambda>_. False) \<rparr> lab_dir (empty_world :: unit world) of
     (made, w) \<Rightarrow> made \<and> \<not> w_dirs w (JoinPath lab_dir ''original.png'')"
  by (simp add: EnsureDirectoryRecursive_def DirectoryExists_def lab_dir_def empty_world_def
      MakeDirectory_def syscall_def is_sep_def JoinPath_def PreferredPathSeparator_def Let_def)

lemma lab_parts [simp]:
  "ce_os (lab read print) = \<lparr> os_canon = (\<lambda>p. p), os_refuses = (\<lambda>_. False) \<rparr>"
  "ce_work_dir (lab read print) = ''/w''" "au_outside (cm_auth lab_service) = empty_world"
  by (simp_all add: lab_def lab_service_def)

lemma lab_task_id: "NextImageTaskId (lab (\<lambda>_. None) (\<lambda>_. [])) lab_service =
    (Inr ''img-7-1'', lab_service\<lparr>cm_next_image_task_seq := 2\<rparr>)"
  using lab_paths(1) by (simp add: NextImageTaskId_def step_io_def lab_def lab_service_def new_CommandApplicationService_def)

lemma lab_stored: "case fst (store_upload (lab (\<lambda>_. None) (\<lambda>_. [])) ''c1'' ''a.png'' ''image/png'' ''data'' lab_service) of
    Inr r \<Rightarrow> IsOkStatusCode (up_code r) | Inl e \<Rightarrow> False"
  using lab_directory
  by (auto simp: store_upload_def bind_io_def lab_task_id lab_paths on_outside_def on_auth_def outside_def world_op_def
      WriteBinaryFile_def syscall_def ret_def gets_io_def seq_io_def modify_io_def
      default_ImageUploadResult_def IsOkStatusCode_def ToCode_def Let_def split: prod.splits)

lemma lab_upload_result: "case fst lab_upload of Inr r \<Rightarrow> IsOkStatusCode (up_code r) | Inl e \<Rightarrow> False"
  using lab_stored by (simp add: lab_upload_def UploadImage_def bind_io_def gets_io_def lab_checked)

section \<open>Saved workflows\<close>

lemma field_set_member [simp]:
  "is_object j \<Longrightarrow> key \<noteq> k \<Longrightarrow> GetOptionalStringField (set_member k v j) key = GetOptionalStringField j key"
  by (simp add: GetOptionalStringField_def)

lemma workflow_kept: "is_object j \<Longrightarrow>
    is_object (normal_workflow now j) \<and>
    GetOptionalStringField (normal_workflow now j) ''workflow_id'' = GetOptionalStringField j ''workflow_id''"
  by (simp add: normal_workflow_def Let_def)

text \<open>The workflow as it is stored has an id.\<close>

lemma normal_has_id:
  assumes "NormalizeImageEnhanceWorkflow env given s = (Inr w, u)"
  shows "is_object w \<and> GetOptionalStringField w ''workflow_id'' \<noteq> [] \<and>
    cm_auth u = cm_auth s"
proof -
  have named: "is_object j \<Longrightarrow> GetOptionalStringField (set_member ''workflow_id'' (JString i) j) ''workflow_id'' = i" for i j
    by (simp add: GetOptionalStringField_def)
  let ?j = "if is_object given then given else JObject []"
  have "is_object ?j" by simp
  then show ?thesis
    using assms workflow_kept [of ?j] workflow_kept [of "set_member ''workflow_id'' (JString i) ?j" for i]
    by (auto simp: NormalizeImageEnhanceWorkflow_def bind_io_def ret_def gets_io_def NextWorkflowId_def step_io_def
        named Let_def split: if_splits)
qed

lemma put_then_find:
  assumes "is_workflow i w"
  shows "case put_workflow i w js of (_, w', js') \<Rightarrow> is_workflow i w' \<and> find (is_workflow i) js' = Some w'"
proof (induction js)
  case (Cons j js)
  have "is_workflow i (keep_created j w)"
    using assms by (auto simp: is_workflow_def keep_created_def)
  then show ?case using Cons by (auto simp: Let_def split: prod.splits)
qed (simp add: assms)

lemma usable_workflows:
  "is_object (usable_store read)"
  "is_object store \<Longrightarrow> workflows_of (usable_store (Some (set_member ''workflows'' (JArray js) store))) = js"
proof -
  show "is_object (usable_store read)"
    by (auto simp: usable_store_def Let_def split: option.split json.split)
  show "is_object store \<Longrightarrow> workflows_of (usable_store (Some (set_member ''workflows'' (JArray js) store))) = js"
    by (cases store) (auto simp: usable_store_def workflows_of_def Let_def)
qed

text \<open>The workflow that a request saves, and the store that is then written.\<close>

definition given_workflow :: "Request \<Rightarrow> json" where
  "given_workflow request =
     (let given = GetOptionalObjectField (rq_params request) ''workflow'' in
      if jempty given then rq_params request else given)"

definition saved_store :: "'e cmd_env \<Rightarrow> Request \<Rightarrow> 'e CommandApplicationService \<Rightarrow> json" where
  "saved_store env request s =
     (case NormalizeImageEnhanceWorkflow env (given_workflow request) s of
        (Inr w, u) \<Rightarrow>
          let store = fst (LoadImageEnhanceWorkflowStore env (the_world u)) in
          set_member ''workflows'' (JArray (snd (snd
            (put_workflow (GetOptionalStringField w ''workflow_id'') w (workflows_of store))))) store
      | _ \<Rightarrow> JNull)"

definition workflow_in :: "json \<Rightarrow> json option" where
  "workflow_in answer = Option.bind (jfind answer ''data'') (\<lambda>payload. jfind payload ''workflow'')"

lemma workflow_in_response [simp]:
  "workflow_in (BuildWsResponse now i code m payload) = jfind payload ''workflow''"
  by (simp add: workflow_in_def BuildWsResponse_def BuildErrorBody_def)

lemma refused_response [simp]: "refused (BuildWsResponse now i code m payload) \<longleftrightarrow> \<not> IsOkStatusCode code"
  by (simp add: refused_def)

lemma saved_on_disk:
  assumes "SaveImageEnhanceWorkflowStore env store w = (True, w')"
  shows "w_files w' (os_canon (ce_os env) (ImageEnhanceWorkflowStorePath env)) = Some (ce_print_json env store)"
  using assms written_content
  by (fastforce simp: SaveImageEnhanceWorkflowStore_def WriteJsonFile_def split: prod.splits if_splits)
lemma capability_by_sessions:
  "au_sessions (cm_auth t) = au_sessions (cm_auth s) \<Longrightarrow> RequireCapability_cmd env c m t = RequireCapability_cmd env c m s"
  by (simp add: RequireCapability_cmd_def RequireCapability_def RequireSession_def Let_def)

lemma enhance_allowed:
  assumes "with_enhance env c request f s = (Inr answer, t)" and "\<not> refused answer"
  shows "f (RequireCapability_cmd env c ''image.enhance'' s) s = (Inr answer, t) \<and>
    IsOkStatusCode (sn_code (RequireCapability_cmd env c ''image.enhance'' s))"
  using assms by (auto simp: with_enhance_def bind_io_def gets_io_def reject_def respond_def split: if_splits)

lemma store_answer:
  assumes "store_workflows env request store js failure payload s = (Inr answer, t)" and "\<not> refused answer"
  shows "w_files (the_world t) (os_canon (ce_os env) (ImageEnhanceWorkflowStorePath env)) =
      Some (ce_print_json env (set_member ''workflows'' (JArray js) store)) \<and>
    workflow_in answer = jfind payload ''workflow'' \<and> au_sessions (cm_auth t) = au_sessions (cm_auth s)"
  using assms saved_on_disk
  by (auto simp: store_workflows_def bind_io_def on_outside_def on_auth_def outside_def world_op_def reject_def
      respond_def succeed_def gets_io_def the_world_def IsOkStatusCode_def ToCode_def split: prod.splits if_splits)

lemma save_effect:
  assumes "HandleImageEnhanceWorkflowSave env c request s = (Inr answer, t)" and "\<not> refused answer"
  obtains i w js store where
    "workflow_in answer = Some w" "is_workflow i w" "i \<noteq> []" "find (is_workflow i) js = Some w" "is_object store"
    "saved_store env request s = set_member ''workflows'' (JArray js) store"
    "w_files (the_world t) (os_canon (ce_os env) (ImageEnhanceWorkflowStorePath env)) =
       Some (ce_print_json env (saved_store env request s))"
    "au_sessions (cm_auth t) = au_sessions (cm_auth s)"
    "IsOkStatusCode (sn_code (RequireCapability_cmd env c ''image.enhance'' s))"
proof -
  note allowed = enhance_allowed [OF assms(1) [unfolded HandleImageEnhanceWorkflowSave_def] assms(2)]
  obtain w u where w: "NormalizeImageEnhanceWorkflow env (given_workflow request) s = (Inr w, u)"
    using allowed by (auto simp: given_workflow_def bind_io_def Let_def split: prod.splits sum.splits)
  define i where "i = GetOptionalStringField w ''workflow_id''"
  obtain store v where load: "LoadImageEnhanceWorkflowStore env (the_world u) = (store, v)"
    by (cases "LoadImageEnhanceWorkflowStore env (the_world u)")
  obtain updated w' js where put: "put_workflow i w (workflows_of store) = (updated, w', js)"
    by (cases "put_workflow i w (workflows_of store)")
  have normal: "is_workflow i w" "i \<noteq> []" "cm_auth u = cm_auth s"
    using normal_has_id [OF w] by (simp_all add: is_workflow_def i_def)
  have "is_object store"
    using load usable_workflows(1) by (auto simp: LoadImageEnhanceWorkflowStore_def split: prod.splits)
  moreover have saved: "saved_store env request s = set_member ''workflows'' (JArray js) store"
    by (simp add: saved_store_def w load put [unfolded i_def] Let_def)
  moreover have "is_workflow i w' \<and> find (is_workflow i) js = Some w'"
    using put_then_find [OF normal(1), of "workflows_of store"] by (simp add: put)
  moreover have "store_workflows env request store js ''failed to save image enhance workflow''
      (obj [(''saved'', JBool True), (''updated'', JBool updated), (''workflow'', w')])
      (u\<lparr>cm_auth := (cm_auth u)\<lparr>au_outside := v\<rparr>\<rparr>) = (Inr answer, t)"
    using allowed load
    by (simp add: given_workflow_def [symmetric, unfolded Let_def] Let_def bind_io_def w put [unfolded i_def]
        load_store_def on_outside_def on_auth_def outside_def world_op_def the_world_def)
  note store_answer [OF this assms(2)]
  ultimately show thesis
    using allowed normal by (intro that [of w' i js store]) (simp_all add: saved)
qed

text \<open>C14. A workflow that was saved with success is what the next request for its id reads, whether it was
  new or replaced an older one, when the file can be opened and what was printed is parsed back.\<close>

theorem saved_workflow_is_read:
  assumes "HandleImageEnhanceWorkflowSave env c request s = (Inr answer, t)" and "\<not> refused answer"
    and "ce_read_json env (ce_print_json env (saved_store env request s)) = Some (saved_store env request s)"
    and "\<not> os_refuses (ce_os env) (w_calls (the_world t))"
    and "workflow_in answer = Some w"
    and "param later ''workflow_id'' = GetOptionalStringField w ''workflow_id''"
  shows "case fst (HandleImageEnhanceWorkflowGet env c later t) of
           Inr reply \<Rightarrow> \<not> refused reply \<and> workflow_in reply = Some w
         | Inl e \<Rightarrow> False"
proof (rule save_effect [OF assms(1,2)])
  fix i w' js store
  assume w': "workflow_in answer = Some w'" "is_workflow i w'" "i \<noteq> []" "find (is_workflow i) js = Some w'"
    and store: "is_object store" "saved_store env request s = set_member ''workflows'' (JArray js) store"
    and path: "w_files (the_world t) (os_canon (ce_os env) (ImageEnhanceWorkflowStorePath env)) =
       Some (ce_print_json env (saved_store env request s))"
    and auth: "au_sessions (cm_auth t) = au_sessions (cm_auth s)"
      "IsOkStatusCode (sn_code (RequireCapability_cmd env c ''image.enhance'' s))"
  have "workflows_of (fst (LoadImageEnhanceWorkflowStore env (the_world t))) = js"
    using assms(3,4) path store usable_workflows(2) [OF store(1)]
    by (simp add: LoadImageEnhanceWorkflowStore_def ReadJsonFile_def syscall_def Let_def)
  then show ?thesis
    using assms(5,6) w' auth capability_by_sessions [OF auth(1), of env c "''image.enhance''"]
    by (auto simp: HandleImageEnhanceWorkflowGet_def with_enhance_def bind_io_def gets_io_def load_store_def
        on_outside_def on_auth_def outside_def world_op_def the_world_def succeed_def respond_def is_workflow_def
        IsOkStatusCode_def ToCode_def Let_def split: prod.splits)
qed

text \<open>The first workflow of a service without saved ones.\<close>

definition lab_save :: Request where
  "lab_save = \<lparr> rq_request_id = ''r'', rq_method = ''image.enhance.workflow.save'',
     rq_params = obj [(''name'', JString ''scan'')], rq_client = obj [] \<rparr>"

definition lab_workflow :: json where
  "lab_workflow = normal_workflow ''7'' (set_member ''workflow_id'' (JString ''wf-7-1'') (rq_params lab_save))"

definition lab_workflows :: json where
  "lab_workflows = obj [(''workflows'', JArray [lab_workflow])]"

definition lab_printer :: "unit cmd_env" where
  "lab_printer = lab (\<lambda>_. Some lab_workflows) (\<lambda>_. ''file'')"

lemma lab_printer_parts [simp]:
  "ce_os lab_printer = \<lparr> os_canon = (\<lambda>p. p), os_refuses = (\<lambda>_. False) \<rparr>" "ce_work_dir lab_printer = ''/w''"
  "ce_read_json lab_printer = (\<lambda>_. Some lab_workflows)" "ce_print_json lab_printer = (\<lambda>_. ''file'')"
  "CurrentTimestampString lab_printer = (\<lambda>s. ''7'')"
proof -
  have "to_string 7 = ''7''" by code_simp
  then show "CurrentTimestampString lab_printer = (\<lambda>s. ''7'')"
    by (simp add: fun_eq_iff CurrentTimestampString_def lab_printer_def lab_def)
qed (simp_all add: lab_printer_def lab_def)

lemma lab_normal: "NormalizeImageEnhanceWorkflow lab_printer (given_workflow lab_save) lab_service =
    (Inr lab_workflow, lab_service\<lparr>cm_next_workflow_seq := 2\<rparr>)"
proof -
  have "dec 1 = ''1''" by code_simp
  moreover have "cm_next_workflow_seq lab_service = 1" by (simp add: lab_service_def new_CommandApplicationService_def)
  ultimately show ?thesis
    by (simp add: NormalizeImageEnhanceWorkflow_def given_workflow_def lab_save_def GetOptionalObjectField_def
        GetOptionalStringField_def bind_io_def NextWorkflowId_def step_io_def ret_def gets_io_def lab_workflow_def
        Let_def)
qed

lemma lab_load: "LoadImageEnhanceWorkflowStore lab_printer empty_world =
    (obj [(''workflows'', JArray [])], empty_world\<lparr>w_calls := 1\<rparr>)"
  by (simp add: LoadImageEnhanceWorkflowStore_def ReadJsonFile_def empty_world_def syscall_def usable_store_def
      workflows_of_def obj_def Let_def)

lemma lab_put: "put_workflow (GetOptionalStringField lab_workflow ''workflow_id'') lab_workflow
    (workflows_of (obj [(''workflows'', JArray [])])) = (False, lab_workflow, [lab_workflow])"
  by (simp add: workflows_of_def)

lemma lab_saved: "saved_store lab_printer lab_save lab_service = lab_workflows"
  using lab_put
  by (simp add: saved_store_def lab_normal lab_load the_world_def lab_workflows_def obj_def Let_def)

lemma lab_written: "fst (SaveImageEnhanceWorkflowStore lab_printer store (empty_world\<lparr>w_calls := n\<rparr>))"
  by (simp add: SaveImageEnhanceWorkflowStore_def WriteJsonFile_def ImageEnhanceWorkflowStorePath_def
      ImageEnhanceWorkflowDir_def WriteBinaryFile_def
      EnsureDirectoryRecursive_def DirectoryExists_def empty_world_def MakeDirectory_def syscall_def is_sep_def
      JoinPath_def PreferredPathSeparator_def Let_def)

lemma lab_answer: "case fst (HandleImageEnhanceWorkflowSave lab_printer ''c1'' lab_save lab_service) of
    Inr answer \<Rightarrow> \<not> refused answer \<and> workflow_in answer = Some lab_workflow | Inl e \<Rightarrow> False"
proof -
  have "IsOkStatusCode (sn_code (RequireCapability_cmd lab_printer ''c1'' ''image.enhance'' lab_service))"
    by (simp add: RequireCapability_cmd_def RequireCapability_def RequireSession_def lab_service_def lab_session_def
        CopySessionResultForReturn_def default_SessionResult_def IsOkStatusCode_def ToCode_def HasCapability_def
        default_AuthContext_def Let_def)
  then show ?thesis
    using lab_written [of "obj [(''workflows'', JArray [lab_workflow])]" 1] lab_put lab_load
    by (auto simp: HandleImageEnhanceWorkflowSave_def with_enhance_def bind_io_def gets_io_def load_store_def
        given_workflow_def [symmetric, unfolded Let_def] Let_def lab_normal store_workflows_def on_outside_def
        on_auth_def outside_def world_op_def reject_def succeed_def respond_def IsOkStatusCode_def ToCode_def obj_def
        simp del: lab_printer_parts split: prod.splits)
qed

theorem saved_workflow_is_read_witness:
  "\<exists>answer t. HandleImageEnhanceWorkflowSave lab_printer ''c1'' lab_save lab_service = (Inr answer, t) \<and>
     (case fst (HandleImageEnhanceWorkflowGet lab_printer ''c1''
        \<lparr> rq_request_id = ''q'', rq_method = ''image.enhance.workflow.get'',
           rq_params = obj [(''workflow_id'', JString ''wf-7-1'')], rq_client = obj [] \<rparr> t) of
        Inr reply \<Rightarrow> \<not> refused reply \<and> workflow_in reply = Some lab_workflow
      | Inl e \<Rightarrow> False)"
proof -
  obtain answer t where save: "HandleImageEnhanceWorkflowSave lab_printer ''c1'' lab_save lab_service = (Inr answer, t)"
      "\<not> refused answer" "workflow_in answer = Some lab_workflow"
    using lab_answer by (cases "HandleImageEnhanceWorkflowSave lab_printer ''c1'' lab_save lab_service")
      (auto split: sum.splits)
  have "GetOptionalStringField lab_workflow ''workflow_id'' = ''wf-7-1''"
    by (simp add: lab_workflow_def workflow_kept lab_save_def) (simp add: GetOptionalStringField_def)
  then show ?thesis
    using saved_workflow_is_read [OF save(1,2) _ _ save(3)] save(1)
    by (simp add: lab_saved param_def GetOptionalStringField_def)
qed

end
