(* ===== verification/Stream_Claims.thy ===== *)
theory Stream_Claims
  imports Command_Claims
begin

text \<open>
  An image stream from its start to the end of its connection: what the video endpoint accepts, through
  the command handler, the registry of streams and the closing of the connection.
\<close>

section \<open>Starting\<close>

definition is_registered :: "string \<Rightarrow> string \<Rightarrow> StreamBinding \<Rightarrow> VideoSessionService \<Rightarrow> bool" where
  "is_registered c d b v \<longleftrightarrow> owns c d b \<and> sb_stream_id b \<noteq> [] \<and> map_of (vs_streams v) (sb_stream_id b) = Some b \<and>
     vs_inv v"

lemma not_found_refused [simp]: "\<not> IsOkStatusCode (st_code stream_not_found)"
  by (simp add: stream_not_found_def IsOkStatusCode_def ToCode_def)

lemma updated_is_registered:
  assumes "vs_inv v" and "UpdateStreamFormat c d p w h f v = (r, v')" and "IsOkStatusCode (st_code r)"
  shows "is_registered c d (st_binding r) v'"
proof -
  obtain b m where loop: "UpdateStreamFormat_loop c d (set_format p w h f) (vs_streams v) = Some (b, m)"
    and r: "r = default_StreamResult\<lparr>st_binding := b\<rparr>" "v' = v\<lparr>vs_streams := m\<rparr>"
    using assms(2,3) by (auto simp: UpdateStreamFormat_def split: option.splits)
  obtain k b0 where k: "map_of (vs_streams v) k = Some b0" "owns c d b0" "b = set_format p w h f b0"
    "m = smap_put k b (vs_streams v)"
    using UpdateStreamFormat_puts [OF assms(1) loop] by blast
  have "sb_stream_id b = k" "k \<noteq> []"
    using vs_invD(3) [OF assms(1), of "(k, b0)"] k(1,3) by (auto dest!: map_of_SomeD simp: entry_ok_def set_format_def)
  then show ?thesis
    using k vs_inv_Update [OF assms(1), of c d p w h f] assms(2) by (auto simp: is_registered_def r owns_def set_format_def)
qed

lemma remember_keeps_video [simp]: "cm_video (remember_video env c d session profile pipeline s) = cm_video s"
  by (simp add: remember_video_def RememberCaptureProfile_def RememberCapturePipeline_def Let_def split: option.split)

definition answers_stream :: "string \<Rightarrow> string \<Rightarrow> json \<Rightarrow> VideoSessionService \<Rightarrow> bool" where
  "answers_stream c d answer v \<longleftrightarrow>
     (\<exists>b. jfind answer ''data'' = Some (stream_json d b) \<and> is_registered c d b v)"

lemma wp_reject: "\<not> IsOkStatusCode code \<Longrightarrow> wp_io (reject env i code m) (\<lambda>a t. refused a \<or> P a t) E s"
  by (simp add: wp_io_def reject_def respond_def gets_io_def refused_def)

lemma wp_answer_stream:
  assumes "is_registered c d b (cm_video s)"
  shows "wp_io (succeed env i (stream_json d b)) (\<lambda>a t. refused a \<or> answers_stream c d a (cm_video t)) E s"
proof -
  have "jfind (BuildWsResponse now i code m payload) ''data'' = Some payload" for now code m payload
    by (simp add: BuildWsResponse_def BuildErrorBody_def)
  then show ?thesis
    using assms by (auto simp: wp_io_def succeed_def respond_def gets_io_def answers_stream_def)
qed

lemma updated_registered:
  "vs_inv v \<Longrightarrow> IsOkStatusCode (st_code (fst (UpdateStreamFormat c d p w h f v))) \<Longrightarrow>
   is_registered c d (st_binding (fst (UpdateStreamFormat c d p w h f v))) (snd (UpdateStreamFormat c d p w h f v))"
  by (rule updated_is_registered) auto

lemma wp_run_start:
  assumes "vs_inv (cm_video s)"
  shows "wp_io (run_video_start env c request session profile)
    (\<lambda>a t. refused a \<or> answers_stream c (param request ''device_id'') a (cm_video t)) (\<lambda>_. True) s"
proof -
  have device: "vsr_device_id (with_profile profile (start_video_request request)) = param request ''device_id''"
    by (simp add: with_profile_def start_video_request_def Let_def split: option.split)
  show ?thesis
    unfolding run_video_start_def Let_def device wpio_bind wp_on_video
    apply (rule wp_outside_books)
    subgoal premises same for started t
    proof -
      have "vs_inv (cm_video t)"
        using same vs_inv_Register [OF assms] by (simp add: books_def)
      then show ?thesis
        unfolding wpio_if wpio_bind wp_on_video wp_seq wp_modify
        by (simp add: wp_reject wp_answer_stream updated_registered)
    qed
    done
qed

fun refusing :: "(int \<times> string) + 'a \<Rightarrow> bool" where
  "refusing (Inl (code, message)) \<longleftrightarrow> \<not> IsOkStatusCode code"
| "refusing (Inr a) \<longleftrightarrow> True"

lemma invalid_refused: "\<not> IsOkStatusCode (ToCode InvalidParams)"
  by (simp add: IsOkStatusCode_def ToCode_def)

lemma pick_size_refusing: "refusing (pick_size profile sizes)"
  by (auto simp: pick_size_def Let_def invalid_refused split: option.split)

lemma wp_video_profile:
  "(\<And>r t. books t = books s \<Longrightarrow> refusing r \<Longrightarrow> Q r t) \<Longrightarrow> wp_io (video_profile env session d params) Q (\<lambda>_. True) s"
  unfolding video_profile_def ApplyCaptureOutputCapabilities_def
  by (auto simp: wp_simps Let_def invalid_refused pick_size_refusing intro!: wp_outside_books split: sum.split)

lemma wp_video_start:
  assumes "vs_inv (cm_video s)"
  shows "wp_io (HandleVideoStart env c request)
    (\<lambda>a t. refused a \<or> answers_stream c (param request ''device_id'') a (cm_video t)) (\<lambda>_. True) s"
proof -
  have kept: "books t = books s \<Longrightarrow> vs_inv (cm_video t)" for t :: "'a CommandApplicationService"
    using assms by (simp add: books_def)
  show ?thesis
    unfolding HandleVideoStart_def with_capability_def bad_params_def
    by (auto simp: wp_simps invalid_refused refusing.simps intro!: wp_reject wp_run_start wp_video_profile assms kept split: sum.split)
qed


text \<open>The camera of the device examples, with a stream, and a session that may start it.\<close>

definition lab_camera :: "unit cmd_env" where
  "lab_camera = (lab (\<lambda>_. None) (\<lambda>_. []))\<lparr>ce_providers := \<lparr> device_provider =
     Some (one_camera\<lparr>dp_StartVideo := (\<lambda>_. ret default_SdkVideoStartResult)\<rparr>),
     graphic_provider = None, image_enhance_provider = None \<rparr>\<rparr>"

definition camera_session :: SessionResult where
  "camera_session = lab_session\<lparr>sn_auth_context := default_AuthContext\<lparr>ac_capabilities := [''video.start''],
     ac_device_scope := [\<lparr>grant_vid = 11, grant_pid = 22\<rparr>]\<rparr>\<rparr>"

definition camera_service :: "unit CommandApplicationService" where
  "camera_service = lab_service\<lparr>cm_auth := \<lparr> au_sessions = [(''c1'', camera_session)], au_outside = empty_world \<rparr>\<rparr>"

definition start_camera :: Request where
  "start_camera = \<lparr> rq_request_id = ''r'', rq_method = ''video.start'',
     rq_params = obj [(''device_id'', JString ''cam'')], rq_client = obj [] \<rparr>"

lemma camera_allowed:
  "RequireCapability_cmd lab_camera ''c1'' ''video.start'' camera_service = camera_session"
  by (simp add: RequireCapability_cmd_def RequireCapability_def RequireSession_def camera_service_def camera_session_def
      lab_session_def CopySessionResultForReturn_def default_SessionResult_def IsOkStatusCode_def ToCode_def
      HasCapability_def default_AuthContext_def Let_def)

lemma camera_starts: "case fst (HandleVideoStart lab_camera ''c1'' start_camera camera_service) of
    Inr answer \<Rightarrow> \<not> refused answer | Inl e \<Rightarrow> False"
proof -
  have video: "cm_video camera_service = init_VideoSessionService" and world: "au_outside (cm_auth camera_service) = empty_world"
    by (simp_all add: camera_service_def lab_service_def new_CommandApplicationService_def)
  have found: "StartVideo (ce_providers lab_camera) (sn_auth_context camera_session) r w =
      (Inr default_SdkVideoStartResult, w)" if "vsr_device_id r = ''cam''" for r w
    using that by (simp add: StartVideo_def LookupDevice_def lab_camera_def bind_io_def one_camera_def ret_def
        camera_session_def CopySessionResultForReturn_def IsDeviceAuthorized_def with_provider_def
        default_DeviceGetResult_def default_SdkDeviceDescriptor_def IsOkStatusCode_def ToCode_def default_AuthContext_def)
  have request: "rq_method start_camera = ''video.start''" "param start_camera ''device_id'' = ''cam''"
      "requested_pixel_format start_camera = ''mjpeg''" "jempty (GetOptionalObjectField (rq_params start_camera) ''profile'')"
    by (simp_all add: start_camera_def param_def GetOptionalStringField_def requested_pixel_format_def
        GetOptionalObjectField_def or_field_def)
  have "vsr_device_id (start_video_request start_camera) = ''cam''"
    using request by (simp add: start_video_request_def Let_def)
  then show ?thesis
    using found by (simp add: HandleVideoStart_def with_capability_def bind_io_def gets_io_def camera_allowed request
        IsSupportedVideoPixelFormat_def camera_session_def lab_session_def default_SessionResult_def IsOkStatusCode_def ToCode_def
        run_video_start_def with_profile_def video world on_video_def on_outside_def on_auth_def outside_def
        RegisterStream_def NextStreamId_def init_VideoSessionService_def default_SdkVideoStartResult_def
        UpdateStreamFormat_def owns_def default_StreamResult_def seq_io_def modify_io_def succeed_def respond_def refused_def Let_def)
qed


end
