(* ===== verification/Command_Invariant.thy ===== *)
theory Command_Invariant
  imports Command_Claims Auth_Claims
begin

text \<open>
  The invariant of the command service: the tables stay sorted and without empty entries, an asset has an
  owner and is stored under its own id, and the parts keep their own invariants.  It holds after every
  request, upload, device or scanner event and closed connection, whatever the providers do.
\<close>

section \<open>The invariant\<close>

definition nested_ok :: "(string, (string, 'v) smap) smap \<Rightarrow> bool" where
  "nested_ok m \<longleftrightarrow> smap_ok m \<and> (\<forall>c i. map_of m c = Some i \<longrightarrow> smap_ok i \<and> i \<noteq> [])"

definition assets_ok :: "(string, string) smap \<Rightarrow> (string, (string, SdkCaptureAsset) smap) smap \<Rightarrow> bool" where
  "assets_ok owner assets \<longleftrightarrow> smap_ok owner \<and> nested_ok assets \<and>
     (\<forall>task. map_of assets task \<noteq> None \<longrightarrow> map_of owner task \<noteq> None) \<and>
     (\<forall>task i a asset. map_of assets task = Some i \<longrightarrow> map_of i a = Some asset \<longrightarrow> as_asset_id asset = a)"

definition sound :: "'e CommandApplicationService \<Rightarrow> bool" where
  "sound s \<longleftrightarrow> vs_inv (cm_video s) \<and> auth_inv (cm_auth s) \<and>
     smap_ok (cm_connections s) \<and> map_of (cm_connections s) [] = None \<and> [] \<notin> cm_sane_watch s \<and> [] \<notin> cm_twain_watch s \<and>
     smap_ok (cm_sane_tasks s) \<and> smap_ok (cm_twain_tasks s) \<and>
     nested_ok (cm_twain_sessions s) \<and> nested_ok (cm_opened s) \<and> nested_ok (cm_contexts s) \<and>
     assets_ok (cm_image_owner s) (cm_image_assets s)"

lemma nested_Nil [simp]: "nested_ok []"
  by (simp add: nested_ok_def smap_ok_def)

lemma nested_put [simp]: "nested_ok m \<Longrightarrow> nested_ok (inner_put c x v m)"
  by (auto simp: nested_ok_def inner_put_def inner_def split: option.splits)

lemma nested_erase [simp]: "nested_ok m \<Longrightarrow> nested_ok (inner_erase c x m)"
  by (auto simp: nested_ok_def inner_erase_def Let_def split: option.splits)

lemma nested_drop [simp]: "nested_ok m \<Longrightarrow> nested_ok (smap_erase c m)"
  by (auto simp: nested_ok_def split: if_splits)

lemma nested_forget [simp]: "nested_ok m \<Longrightarrow> nested_ok (forget_device d m)"
proof -
  assume m: "nested_ok m"
  have "map fst (map (\<lambda>p. (fst p, smap_erase d (snd p))) m) = map fst m"
    by simp
  then have sorted: "smap_ok (forget_device d m)"
    using m by (auto simp: nested_ok_def forget_device_def smap_ok_def sorted_wrt_map intro!: sorted_wrt_filter)
  have "smap_ok i \<and> i \<noteq> []" if "map_of (forget_device d m) c = Some i" for c i
    using map_of_SomeD [OF that] m smap_mem_set
    by (fastforce simp: forget_device_def nested_ok_def)
  with sorted show "nested_ok (forget_device d m)"
    by (simp add: nested_ok_def)
qed

lemma assets_put [simp]:
  "assets_ok owner assets \<Longrightarrow> assets_ok (smap_put task c owner) (inner_put task (as_asset_id asset) asset assets)"
  by (auto simp: assets_ok_def inner_put_def inner_def nested_ok_def split: option.splits if_splits)

section \<open>Computations that keep it\<close>

definition keeps :: "('e, 'a) cmd \<Rightarrow> bool" where
  "keeps m \<longleftrightarrow> (\<forall>s. sound s \<longrightarrow> sound (snd (m s)))"

named_theorems keeps_intros "computations that keep the invariant"

lemma keeps_pure [keeps_intros]: "keeps (ret a)" "keeps (gets_io f)" "keeps (throw e)"
  by (auto simp: keeps_def ret_def gets_io_def throw_def)

lemma keeps_bind [keeps_intros]:
  "keeps m \<Longrightarrow> (\<And>a. keeps (f a)) \<Longrightarrow> keeps (bind_io m f)"
  unfolding keeps_def bind_io_def by (force split: prod.split sum.split)

lemma keeps_seq [keeps_intros]: "keeps m \<Longrightarrow> keeps k \<Longrightarrow> keeps (seq_io m k)"
  unfolding seq_io_def by (rule keeps_bind)

lemma keeps_catch [keeps_intros]:
  "keeps m \<Longrightarrow> (\<And>e. keeps (h e)) \<Longrightarrow> keeps (catch_io m h)"
  unfolding keeps_def catch_io_def by (force split: prod.split sum.split)

lemma keeps_each [keeps_intros]: "(\<And>x. keeps (f x)) \<Longrightarrow> keeps (each_io f xs)"
  by (induction xs) (auto intro: keeps_intros)

lemma keeps_map [keeps_intros]: "(\<And>x. keeps (f x)) \<Longrightarrow> keeps (map_io f xs)"
  by (induction xs) (auto intro!: keeps_intros)

lemma keeps_modify: "(\<And>s. sound s \<Longrightarrow> sound (g s)) \<Longrightarrow> keeps (modify_io g)"
  by (simp add: keeps_def modify_io_def)

lemma keeps_step: "(\<And>s. sound s \<Longrightarrow> sound (snd (g s))) \<Longrightarrow> keeps (step_io g)"
  by (force simp: keeps_def step_io_def split: prod.split)

lemma keeps_cases [keeps_intros]:
  "(\<And>x. keeps (f x)) \<Longrightarrow> keeps (Let e f)"
  "(b \<Longrightarrow> keeps m) \<Longrightarrow> (\<not> b \<Longrightarrow> keeps k) \<Longrightarrow> keeps (if b then m else k)"
  "keeps w \<Longrightarrow> keeps (when_io b w)"
  "keeps n1 \<Longrightarrow> (\<And>x. keeps (j x)) \<Longrightarrow> keeps (case opt of None \<Rightarrow> n1 | Some x \<Rightarrow> j x)"
  "(\<And>x. keeps (l x)) \<Longrightarrow> (\<And>y. keeps (r y)) \<Longrightarrow> keeps (case su of Inl x \<Rightarrow> l x | Inr y \<Rightarrow> r y)"
  "(\<And>x y. keeps (h x y)) \<Longrightarrow> keeps (case pa of (x, y) \<Rightarrow> h x y)"
  "keeps n \<Longrightarrow> (\<And>z zs. keeps (c z zs)) \<Longrightarrow> keeps (case li of [] \<Rightarrow> n | z # zs \<Rightarrow> c z zs)"
  by (auto simp: when_io_def keeps_pure split: option.split sum.split prod.split list.split)

lemma outside_auth: "auth_inv a \<Longrightarrow> auth_inv (a\<lparr>au_outside := w\<rparr>)"
  by (simp add: auth_inv_def)

lemma keeps_outside [keeps_intros]: "keeps (on_outside m)"
  by (auto simp: keeps_def on_outside_def on_auth_def outside_def sound_def outside_auth split: prod.split)

lemma keeps_answers [keeps_intros]:
  "keeps (respond env i code message payload)" "keeps (reject env i code message)" "keeps (succeed env i payload)"
  "keeps (bad_params env request message)"
  by (simp_all add: respond_def reject_def succeed_def bad_params_def keeps_pure)

lemma keeps_video: "(\<And>v. vs_inv v \<Longrightarrow> vs_inv (snd (f v))) \<Longrightarrow> keeps (on_video f)"
  by (force simp: keeps_def on_video_def sound_def split: prod.split)

lemma keeps_auth: "(\<And>a. auth_inv a \<Longrightarrow> auth_inv (snd (m a))) \<Longrightarrow> keeps (on_auth m)"
  by (force simp: keeps_def on_auth_def sound_def split: prod.split)

lemma keeps_tasks [keeps_intros]: "keeps (Command_State.on_capture f)" "keeps (on_enhance e)"
  by (auto simp: keeps_def Command_State.on_capture_def on_enhance_def sound_def outside_auth split: prod.split)

lemma keeps_streams [keeps_intros]:
  "keeps (on_video (RegisterStream c t d p w h f))" "keeps (on_video (StopStream c d))"
  "keeps (on_video (StopStreamById i))" "keeps (on_video (ClearDevice d))" "keeps (on_video (ClearConnection c))"
  "keeps (on_video ClearAll)" "keeps (on_video (UpdateStreamFormat c d p w h f))"
  by (auto simp: ClearDevice_def ClearConnection_def intro!: keeps_video vs_inv_Register vs_inv_Stop
      vs_inv_StopById
      vs_inv_remove vs_inv_ClearAll vs_inv_Update)


lemma keeps_auth_ops [keeps_intros]:
  "keeps (on_auth (CreateSession ae c token now))" "keeps (on_auth (RefreshSession ae c now))"
  "keeps (on_auth (ActivateOffline ae c code now))" "keeps (on_auth (ConsumeQuota ae c m rid units now))"
  using auth_inv_next [of _ ae "AuthCreate c token now"] auth_inv_next [of _ ae "AuthRefresh c now"]
    auth_inv_next [of _ ae "AuthActivate c code now"] auth_inv_next [of _ ae "AuthConsume c m rid units now"]
  by (auto intro!: keeps_auth)

lemma keeps_auth_ends [keeps_intros]:
  "keeps (on_auth (DestroySession c))" "keeps (on_auth (ClearConnection_auth d))"
  using auth_inv_next [where l = "AuthDestroy c"] auth_inv_next [where l = "AuthClear d"]
  by (auto intro!: keeps_auth)

section \<open>Bookkeeping\<close>

lemma keeps_marks [keeps_intros]:
  "keeps (modify_io (SetProviderNames names))" "keeps (modify_io (RememberCommandConnection c))"
  "keeps (modify_io (ForgetCommandConnection c))" "keeps (modify_io (RememberSaneWatchConnection c))"
  "keeps (modify_io (RememberTwainWatchConnection c))" "keeps (modify_io (RememberOpenedTwainSession c i))"
  "keeps (modify_io (ForgetOpenedTwainSession c i))" "keeps (modify_io (put_twain_task i task))"
  "keeps (modify_io (RememberOpenedDevice c d))" "keeps (modify_io (ForgetCaptureProfile c d))"
  "keeps (modify_io (ClearCaptureProfiles c))" "keeps (modify_io (ForgetOpenedDevice c d))"
  "keeps (modify_io (RememberCaptureProfile c d profile))"
  "keeps (modify_io (RememberCapturePipeline c d pipeline online_api_key online_url))"
  by (rule keeps_modify; auto simp: SetProviderNames_def RememberCommandConnection_def
      ForgetCommandConnection_def RememberSaneWatchConnection_def RememberTwainWatchConnection_def
      RememberOpenedTwainSession_def ForgetOpenedTwainSession_def put_twain_task_def
      RememberOpenedDevice_def ForgetCaptureProfile_def ClearCaptureProfiles_def ForgetOpenedDevice_def
      RememberCaptureProfile_def RememberCapturePipeline_def sound_def Let_def)+

lemma keeps_clearings [keeps_intros]:
  "keeps (step_io ClearCommandConnections)" "keeps (step_io (ForgetSaneWatchConnection c))"
  "keeps (step_io (ForgetTwainWatchConnection c))" "keeps (step_io (ClearOpenedTwainSessions c))"
  "keeps (step_io ClearAllOpenedTwainSessions)" "keeps (step_io (ForgetOpenedDeviceFromAllConnections d))"
  "keeps (step_io (ClearOpenedDevices c))" "keeps (step_io ClearAllOpenedDevices)"
  by (rule keeps_step; auto simp: ClearCaptureProfiles_def ClearCommandConnections_def ForgetSaneWatchConnection_def
      ForgetTwainWatchConnection_def ClearOpenedTwainSessions_def ClearAllOpenedTwainSessions_def
      ForgetOpenedDeviceFromAllConnections_def ClearOpenedDevices_def ClearAllOpenedDevices_def sound_def
      Let_def split: option.split prod.split)+

lemma keeps_waiting [keeps_intros]:
  "keeps (stream_closed env stream_id)" "keeps (keep_twain_answer r)"
  "keeps (CancelActiveTwainTasksForSessions env session_ids)" "keeps (wait_rounds env ids n)"
  "keeps (WaitTwainTasksTerminal env task_ids)"
proof -
  show answer: "keeps (keep_twain_answer r)" for r
    unfolding keep_twain_answer_def by (intro keeps_intros)
  then show rounds: "keeps (wait_rounds env ids n)" for ids n
    by (induction n) (auto intro!: keeps_intros)
  show "keeps (stream_closed env stream_id)" "keeps (CancelActiveTwainTasksForSessions env session_ids)"
    "keeps (WaitTwainTasksTerminal env task_ids)"
    unfolding stream_closed_def CancelActiveTwainTasksForSessions_def WaitTwainTasksTerminal_def
    by (intro keeps_intros answer rounds)+
qed

section \<open>Sessions and devices\<close>

lemma keeps_core1 [keeps_intros]:
  "keeps (charge env connection_id capability request_id units)"
  "keeps (ConsumeQuota_cmd env connection_id capability request_id units)"
  "keeps (RequireFeatureEntitlement env connection_id m feature required request_id)"
  unfolding charge_def ConsumeQuota_cmd_def RequireFeatureEntitlement_def
  by (intro keeps_intros)+

lemma keeps_with_capability [keeps_intros]:
  "(\<And>session. keeps (f session)) \<Longrightarrow> keeps (with_capability env connection_id request f)"
  unfolding with_capability_def by (intro keeps_intros)

lemma keeps_core2 [keeps_intros]:
  "keeps (bad_params env request message)" "keeps (session_answer env request session)"
  "keeps (HandleSystemPing env request)" "keeps (HandleSystemInfo env request)"
  "keeps (HandleAuthCreateSession env connection_id request)"
  "keeps (HandleAuthGetContext env connection_id request)"
  "keeps (HandleAuthRefreshSession env connection_id request)"
  "keeps (HandleAuthActivateOffline env connection_id request)" "keeps (stop_streams env bindings)"
  "keeps (close_devices env devices)" "keeps (HandleAuthDestroySession env connection_id request)"
  "keeps (HandleDeviceList env connection_id request)" "keeps (HandleDeviceGet env connection_id request)"
  "keeps (HandleDeviceOpen env connection_id request)"
  "keeps (stop_before_close env connection_id session device_id)"
  "keeps (HandleDeviceClose env connection_id request)"
  "keeps (ApplyCaptureOutputCapabilities env ac profile)"
  unfolding bad_params_def session_answer_def HandleSystemPing_def HandleSystemInfo_def
    HandleAuthCreateSession_def HandleAuthGetContext_def HandleAuthRefreshSession_def
    HandleAuthActivateOffline_def stop_streams_def close_devices_def HandleAuthDestroySession_def
    HandleDeviceList_def HandleDeviceGet_def HandleDeviceOpen_def stop_before_close_def
    HandleDeviceClose_def ApplyCaptureOutputCapabilities_def
  by (intro keeps_intros)+

section \<open>Captures and streams\<close>

lemma keeps_capture1 [keeps_intros]:
  "keeps (prepare_take env connection_id request session)" "keeps (reserve env start)"
  "keeps (launch env task_id)" "keeps (abort task_id)"
  unfolding prepare_take_def reserve_def launch_def abort_def
  by (intro keeps_intros)+

lemma keeps_remember_take [keeps_intros]: "keeps (modify_io (remember_take start))"
  by (rule keeps_modify) (auto simp: remember_take_def RememberCaptureProfile_def
      RememberCapturePipeline_def sound_def Let_def split: option.split)

lemma keeps_capture2 [keeps_intros]:
  "keeps (submit_take env request start)" "keeps (HandleCaptureTake env connection_id request)"
  "keeps (HandleCaptureGet env connection_id request)"
  "keeps (HandleCaptureSessionGet env connection_id request)"
  "keeps (HandleCaptureSetTurnDetect env connection_id request)"
  "keeps (video_profile env session device_id params)"
  unfolding submit_take_def HandleCaptureTake_def HandleCaptureGet_def HandleCaptureSessionGet_def
    HandleCaptureSetTurnDetect_def video_profile_def
  by (intro keeps_intros)+

lemma keeps_remember_video [keeps_intros]:
  "keeps (modify_io (remember_video env connection_id device_id session profile pipeline))"
  by (rule keeps_modify) (auto simp: remember_video_def RememberCaptureProfile_def
      RememberCapturePipeline_def sound_def Let_def split: option.split)

lemma keeps_capture3 [keeps_intros]:
  "keeps (run_video_start env connection_id request session profile)"
  "keeps (HandleVideoStart env connection_id request)" "keeps (HandleVideoStop env connection_id request)"
  "keeps (HandleVideoSetFormat env connection_id request)"
  "keeps (HandleVideoSetProfile env connection_id request)" "keeps (submit_grab env event start)"
  "keeps (BuildHardGrabPayload env connection_id event)"
  unfolding run_video_start_def HandleVideoStart_def HandleVideoStop_def HandleVideoSetFormat_def
    HandleVideoSetProfile_def submit_grab_def BuildHardGrabPayload_def
  by (intro keeps_intros)+

section \<open>Uploads\<close>

lemma keeps_NextImageTaskId [keeps_intros]: "keeps (NextImageTaskId env)"
  unfolding NextImageTaskId_def by (rule keeps_step) (simp add: sound_def)

lemma keeps_RegisterImageAsset [keeps_intros]:
  "keeps (modify_io (RegisterImageAsset connection_id task_id asset))"
  by (rule keeps_modify) (auto simp: RegisterImageAsset_def sound_def Let_def)

lemma keeps_files1 [keeps_intros]:
  "keeps (store_upload env connection_id filename content_type content)"
  "keeps (UploadImage env session_token filename content_type content)"
  unfolding store_upload_def UploadImage_def
  by (intro keeps_intros)+

section \<open>Connections and events\<close>

lemma keeps_lifecycle1 [keeps_intros]:
  "keeps (stop_watches env connection_id)" "keeps (close_twain_session env connection_id session_id)"
  "keeps (end_twain_sessions env connection_id)" "keeps (end_streams_and_devices env connection_id)"
  "keeps (OnConnectionClosed env connection_id)" "keeps (release_connection env connection_id)"
  "keeps (ShutdownActiveSessions env)" "keeps (emit env sink connection_id event payload code message)"
  "keeps (DispatchSaneDeviceEvent env event')" "keeps (DispatchTwainSourceEvent env event'')"
  "keeps (action_payload_for env event''' connection_id)" "keeps (DispatchDeviceActionEvent env event''')"
  "keeps (forget_removed_device env device_id)" "keeps (device_event_targets env event'''')"
  "keeps (DispatchDeviceEvent env event'''')"
  unfolding stop_watches_def close_twain_session_def end_twain_sessions_def end_streams_and_devices_def
    OnConnectionClosed_def release_connection_def ShutdownActiveSessions_def emit_def
    DispatchSaneDeviceEvent_def DispatchTwainSourceEvent_def action_payload_for_def
    DispatchDeviceActionEvent_def forget_removed_device_def device_event_targets_def DispatchDeviceEvent_def
  by (intro keeps_intros)+

section \<open>Scanner commands\<close>

lemma keeps_scan1 [keeps_intros]: "keeps (sane_respond env request code message ms)"
  unfolding sane_respond_def by (intro keeps_intros)

lemma keeps_with_param [keeps_intros]:
  "(\<And>v. keeps (f v)) \<Longrightarrow> keeps (with_param env connection_id request key f)"
  unfolding with_param_def by (intro keeps_intros)

lemma keeps_scan2 [keeps_intros]:
  "keeps (HandleSaneStatus env connection_id request)" "keeps (HandleSaneList env connection_id request)"
  "keeps (HandleSaneWatchStart env connection_id request)"
  "keeps (HandleSaneWatchStop env connection_id request)"
  "keeps (HandleSaneOpen env connection_id request)" "keeps (HandleSaneClose env connection_id request)"
  "keeps (HandleSaneGetOptions env connection_id request)"
  "keeps (HandleSaneSetOptions env connection_id request)"
  "keeps (HandleSaneProfileList env connection_id request)"
  "keeps (sane_profile_answer env request flag get call)"
  "keeps (HandleSaneProfileSave env connection_id request)"
  "keeps (HandleSaneProfileApply env connection_id request)"
  "keeps (HandleSaneProfileDelete env connection_id request)"
  unfolding HandleSaneStatus_def HandleSaneList_def HandleSaneWatchStart_def HandleSaneWatchStop_def
    HandleSaneOpen_def HandleSaneClose_def HandleSaneGetOptions_def HandleSaneSetOptions_def
    HandleSaneProfileList_def sane_profile_answer_def HandleSaneProfileSave_def HandleSaneProfileApply_def
    HandleSaneProfileDelete_def
  by (intro keeps_intros)+

lemma keeps_string_value [keeps_intros]: "keeps (string_value j key)"
  by (auto simp: string_value_def keeps_def ret_def throw_def split: option.split json.split)

lemma keeps_twain_provider [keeps_intros]: "keeps twain_provider"
  unfolding twain_provider_def by (intro keeps_intros)

lemma keeps_scan3 [keeps_intros]:
  "keeps (twain_respond env request code message ms)" "keeps (HandleTwainStatus env connection_id request)"
  "keeps (HandleTwainList env connection_id request)"
  "keeps (HandleTwainWatchStart env connection_id request)"
  "keeps (HandleTwainWatchStop env connection_id request)"
  "keeps (HandleTwainOpen env connection_id request)" "keeps (HandleTwainClose env connection_id request)"
  "keeps (HandleTwainGetCapabilities env connection_id request)"
  "keeps (HandleTwainSetCapabilities env connection_id request)"
  "keeps (HandleTwainProfileList env connection_id request)"
  "keeps (twain_profile_answer env request flag get call)"
  "keeps (HandleTwainProfileSave env connection_id request)"
  "keeps (HandleTwainProfileApply env connection_id request)"
  "keeps (HandleTwainProfileDelete env connection_id request)"
  unfolding twain_respond_def HandleTwainStatus_def HandleTwainList_def HandleTwainWatchStart_def
    HandleTwainWatchStop_def HandleTwainOpen_def HandleTwainClose_def HandleTwainGetCapabilities_def
    HandleTwainSetCapabilities_def HandleTwainProfileList_def twain_profile_answer_def
    HandleTwainProfileSave_def HandleTwainProfileApply_def HandleTwainProfileDelete_def
  by (intro keeps_intros)+

section \<open>SANE scans\<close>

lemma sound_fold_assets: "sound s \<Longrightarrow> sound (fold (RegisterImageAsset c i) assets s)"
  by (induction assets arbitrary: s) (auto simp: RegisterImageAsset_def sound_def)

lemma keeps_register_assets [keeps_intros]: "keeps (register_assets env connection_id task_id assets)"
  unfolding register_assets_def by (intro keeps_intros keeps_modify sound_fold_assets)

lemma keeps_tasks1 [keeps_intros]:
  "keeps (register_sane env connection_id task_id task)" "keeps (register_twain env task')"
  unfolding register_sane_def register_twain_def
  by (intro keeps_intros)+

lemma keeps_put_sane_task [keeps_intros]: "keeps (modify_io (put_sane_task task_id task))"
  by (rule keeps_modify) (auto simp: put_sane_task_def sound_def Let_def)

lemma keeps_keep_sane_scan [keeps_intros]: "keeps (keep_sane_scan env pipeline token task_id task)"
  unfolding keep_sane_scan_def by (rule keeps_modify) (auto simp: put_sane_task_def sound_def Let_def)

lemma keeps_tasks2 [keeps_intros]:
  "keeps (HandleSaneScan env connection_id request)" "keeps (HandleSaneScanGet env connection_id request)"
  unfolding HandleSaneScan_def HandleSaneScanGet_def
  by (intro keeps_intros)+

lemma keeps_HandleSaneScanCancel [keeps_intros]: "keeps (HandleSaneScanCancel env connection_id request)"
  unfolding HandleSaneScanCancel_def
  by (intro keeps_intros keeps_modify) (auto simp: put_sane_task_def sound_def split: option.split)

section \<open>SANE events\<close>

lemma keeps_with_sink [keeps_intros]:
  "(\<And>v. keeps (f v)) \<Longrightarrow> keeps (with_sink env connection_id f)"
  unfolding with_sink_def by (intro keeps_intros)

lemma keeps_events1 [keeps_intros]:
  "keeps (tell_sane env event task code message)" "keeps (announce_sane env task)"
  unfolding tell_sane_def announce_sane_def
  by (intro keeps_intros)+

lemma keeps_run_sane_steps [keeps_intros]: "keeps (run_sane_steps x1 x2 x3 x4 x5 x6 x7 x8)"
  by (induction x1 x2 x3 x4 x5 x6 x7 x8 rule: run_sane_steps.induct) (auto intro!: keeps_intros)

lemma keeps_events2 [keeps_intros]:
  "keeps (finish_enhancing env task outcome)" "keeps (enhance_scan env pipeline key url task)"
  "keeps (convert_scan env task)" "keeps (DispatchSaneScanTaskEvent env event)"
  unfolding finish_enhancing_def enhance_scan_def convert_scan_def DispatchSaneScanTaskEvent_def
  by (intro keeps_intros)+

section \<open>TWAIN scans\<close>

lemma keeps_twain1 [keeps_intros]: "keeps (keep_twain task)"
  unfolding keep_twain_def by (intro keeps_intros)

lemma keeps_convert_pages [keeps_intros]: "keeps (convert_pages x1 x2 x3 x4 x5 x6 x7)"
  by (induction x1 x2 x3 x4 x5 x6 x7 rule: convert_pages.induct) (auto intro!: keeps_intros)

lemma keeps_convert_images [keeps_intros]: "keeps (convert_images env task)"
  unfolding convert_images_def Let_def by (intro keeps_intros)

lemma keeps_twain2 [keeps_intros]:
  "keeps (convert_document env target task)" "keeps (finish_pages env target task)"
  "keeps (FinalizeTwainScanTask env task)" "keeps (DispatchTwainScanTaskEvent env event)"
  "keeps (run_twain_scan env request scan)" "keeps (start_twain_scan env request scan)"
  "keeps (HandleTwainScan env connection_id request)"
  "keeps (HandleTwainScanGet env connection_id request)"
  unfolding convert_document_def finish_pages_def FinalizeTwainScanTask_def DispatchTwainScanTaskEvent_def
    run_twain_scan_def start_twain_scan_def HandleTwainScan_def HandleTwainScanGet_def
  by (intro keeps_intros)+

lemma keeps_HandleTwainScanCancel [keeps_intros]: "keeps (HandleTwainScanCancel env connection_id request)"
  unfolding HandleTwainScanCancel_def
  by (intro keeps_intros keeps_modify) (auto simp: put_twain_task_def sound_def split: option.split)

lemma keeps_clear_finished [keeps_intros]: "keeps (step_io (clear_finished))"
  by (rule keeps_step) (auto simp: clear_finished_def sound_def assets_ok_def Let_def split: option.split
      prod.split)

lemma keeps_twain3 [keeps_intros]:
  "keeps (storage_busy env request payload)"
  "keeps (HandleStorageCleanupTemp env lock_taken connection_id request)"
  unfolding storage_busy_def HandleStorageCleanupTemp_def
  by (intro keeps_intros)+

section \<open>Images\<close>

lemma keeps_with_entitlement [keeps_intros]:
  "keeps k \<Longrightarrow> keeps (with_entitlement env connection_id request required k)"
  unfolding with_entitlement_def by (intro keeps_intros)

lemma keeps_or_error [keeps_intros]:
  "keeps m \<Longrightarrow> (\<And>a. keeps (f a)) \<Longrightarrow> keeps (or_error env request m f)"
  unfolding or_error_def by (intro keeps_intros)

lemma keeps_image1 [keeps_intros]: "keeps (image_task_id env upload_id)"
  unfolding image_task_id_def by (intro keeps_intros)

lemma keeps_make_dir [keeps_intros]: "keeps k \<Longrightarrow> keeps (make_dir env request dir message k)"
  unfolding make_dir_def by (intro keeps_intros)

lemma keeps_image2 [keeps_intros]:
  "keeps (register_output env connection_id task_id kind output)"
  "keeps (process_output env connection_id task_id format output)"
  "keeps (run_process env connection_id request task_id r)"
  "keeps (HandleImageProcess env connection_id request)" "keeps (page_in_format env r' format page)"
  "keeps (publish_page env connection_id task_id r' format page path)"
  unfolding register_output_def process_output_def run_process_def HandleImageProcess_def page_in_format_def
    publish_page_def
  by (intro keeps_intros)+

lemma keeps_publish_pages [keeps_intros]: "keeps (publish_pages x1 x2 x3 x4 x5 x6)"
  by (induction x1 x2 x3 x4 x5 x6 rule: publish_pages.induct) (auto intro!: keeps_intros)

lemma keeps_image3 [keeps_intros]:
  "keeps (run_page env connection_id request task_id r format)"
  "keeps (HandleImageProcessPage env connection_id request)"
  "keeps (run_color env connection_id request task_id dir r' format)"
  "keeps (HandleImageApplyColorMode env connection_id request)"
  unfolding run_page_def HandleImageProcessPage_def run_color_def HandleImageApplyColorMode_def
  by (intro keeps_intros)+

section \<open>Enhancements\<close>

lemma keeps_with_enhance [keeps_intros]:
  "(\<And>v. keeps (f v)) \<Longrightarrow> keeps (with_enhance env connection_id request f)"
  unfolding with_enhance_def by (intro keeps_intros)

lemma keeps_enhance1 [keeps_intros]:
  "keeps (HandleImageEnhanceCapabilities env connection_id request)" "keeps (submit_enhance env request r)"
  "keeps (HandleImageEnhance env connection_id request)"
  "keeps (HandleImageEnhanceGet env connection_id request)"
  "keeps (HandleImageEnhanceCancel env connection_id request)"
  unfolding HandleImageEnhanceCapabilities_def submit_enhance_def HandleImageEnhance_def
    HandleImageEnhanceGet_def HandleImageEnhanceCancel_def
  by (intro keeps_intros)+

section \<open>Workflows\<close>

lemma keeps_NextWorkflowId [keeps_intros]: "keeps (NextWorkflowId env)"
  unfolding NextWorkflowId_def by (rule keeps_step) (simp add: sound_def)

lemma keeps_workflows1 [keeps_intros]:
  "keeps (NormalizeImageEnhanceWorkflow env workflow)" "keeps (load_store env)"
  "keeps (store_workflows env request store workflows failure answer)"
  "keeps (HandleImageEnhanceWorkflowList env connection_id request)"
  "keeps (HandleImageEnhanceWorkflowGet env connection_id request)"
  "keeps (HandleImageEnhanceWorkflowSave env connection_id request)"
  "keeps (HandleImageEnhanceWorkflowDelete env connection_id request)"
  unfolding NormalizeImageEnhanceWorkflow_def load_store_def store_workflows_def
    HandleImageEnhanceWorkflowList_def HandleImageEnhanceWorkflowGet_def HandleImageEnhanceWorkflowSave_def
    HandleImageEnhanceWorkflowDelete_def
  by (intro keeps_intros)+

section \<open>Recognition\<close>

lemma keeps_recognize1 [keeps_intros]:
  "keeps (made_dir env dir)" "keeps (ocr_single_page env r)" "keeps (ocr_directories env r)"
  "keeps (ocr_parameters env task_id params r)" "keeps (register_ocr env connection_id task)"
  "keeps (ocr_ready env connection_id request task_id r)" "keeps (recognize env r)"
  "keeps (run_recognition env connection_id request r)"
  "keeps (HandleOcrRecognize env connection_id request)" "keeps (HandleOcrGet env connection_id request)"
  "keeps (HandleOcrCancel env connection_id request)"
  "keeps (HandleOcrExtractText env connection_id request)"
  "keeps (HandleBarcodeDetect env connection_id request)"
  unfolding made_dir_def ocr_single_page_def ocr_directories_def ocr_parameters_def register_ocr_def
    ocr_ready_def recognize_def run_recognition_def HandleOcrRecognize_def HandleOcrGet_def
    HandleOcrCancel_def HandleOcrExtractText_def HandleBarcodeDetect_def
  by (intro keeps_intros)+

section \<open>Conversion\<close>

lemma keeps_convert1 [keeps_intros]:
  "keeps (base64_input env task_id payload r)"
  "keeps (convert_graphic env connection_id request task_id r)"
  "keeps (convert_file env connection_id request task_id r)"
  "keeps (gather_inputs env connection_id task_id params r)"
  "keeps (run_convert env connection_id request task_id r)"
  "keeps (HandleFileConvert env connection_id request)"
  unfolding base64_input_def convert_graphic_def convert_file_def gather_inputs_def run_convert_def
    HandleFileConvert_def
  by (intro keeps_intros)+

section \<open>Requests\<close>

lemma keeps_dispatch1 [keeps_intros]:
  "keeps BuildCapabilitiesJson" "keeps (HandleSystemCapabilities env request)" "keeps BuildAdminAuthJson"
  "keeps (ActivateOfflineForAdmin env connection_id request')"
  unfolding BuildCapabilitiesJson_def HandleSystemCapabilities_def BuildAdminAuthJson_def
    ActivateOfflineForAdmin_def
  by (intro keeps_intros)+

lemma keeps_handlers: "list_all (\<lambda>(m, h). \<forall>request. keeps (h request)) (command_handlers env lock_taken c)"
  unfolding command_handlers_def list.pred_inject prod.case
  by (intro conjI allI keeps_intros list.pred_inject(1))

lemma keeps_answer_request [keeps_intros]: "keeps (answer_request env lock_taken c request)"
proof -
  have "keeps (h request)" if "map_of (command_handlers env lock_taken c) m = Some h" for h m
    using map_of_SomeD [OF that] keeps_handlers [of env lock_taken c] by (auto simp: list_all_iff)
  then show ?thesis
    unfolding answer_request_def by (auto intro: keeps_intros split: option.split)
qed

lemma keeps_dispatch2 [keeps_intros]: "keeps (HandleRequest env lock_taken connection_id request_json)"
  unfolding HandleRequest_def by (intro keeps_intros)

section \<open>The service over time\<close>

text \<open>What can happen to a service: what the transports and the providers call, and, between these, what the
  workers of the task services and the world do.\<close>

datatype 'e service_event =
    Requested bool string json
  | Closed string
  | Uploaded string string string string
  | AdminActivation string json
  | SaneDevice SdkSaneDeviceEvent
  | TwainSource SdkTwainSourceEvent
  | DeviceAction SdkDeviceActionEvent
  | DeviceChanged SdkDeviceEvent
  | SaneScanned SdkSaneScanTaskEvent
  | TwainScanned SdkTwainScanTaskEvent
  | Workers CaptureTaskService ImageEnhanceTaskService "'e world"
  | ShutDown

fun service_next :: "'e cmd_env \<Rightarrow> 'e service_event \<Rightarrow> 'e CommandApplicationService \<Rightarrow> 'e CommandApplicationService" where
  "service_next env (Requested lock_taken c j) s = snd (HandleRequest env lock_taken c j s)"
| "service_next env (Closed c) s = snd (OnConnectionClosed env c s)"
| "service_next env (Uploaded token filename type content) s = snd (UploadImage env token filename type content s)"
| "service_next env (AdminActivation c j) s = snd (ActivateOfflineForAdmin env c j s)"
| "service_next env (SaneDevice event) s = snd (DispatchSaneDeviceEvent env event s)"
| "service_next env (TwainSource event) s = snd (DispatchTwainSourceEvent env event s)"
| "service_next env (DeviceAction event) s = snd (DispatchDeviceActionEvent env event s)"
| "service_next env (DeviceChanged event) s = snd (DispatchDeviceEvent env event s)"
| "service_next env (SaneScanned event) s = snd (DispatchSaneScanTaskEvent env event s)"
| "service_next env (TwainScanned event) s = snd (DispatchTwainScanTaskEvent env event s)"
| "service_next env (Workers captures enhances w) s = s
     \<lparr> cm_capture := captures, cm_enhance := enhances, cm_auth := (cm_auth s)\<lparr>au_outside := w\<rparr> \<rparr>"
| "service_next env ShutDown s = snd (ShutdownActiveSessions env s)"

definition is_new :: "'e cmd_env \<Rightarrow> 'e CommandApplicationService \<Rightarrow> bool" where
  "is_new env s \<longleftrightarrow> (\<exists>config w. s = new_CommandApplicationService env config w)"

abbreviation service_reach :: "'e cmd_env \<Rightarrow> 'e CommandApplicationService \<Rightarrow> bool" where
  "service_reach env \<equiv> reach (is_new env) (\<lambda>s e t. t = service_next env e s)"

lemma sound_new: "is_new env s \<Longrightarrow> sound s"
  by (auto simp: is_new_def new_CommandApplicationService_def sound_def vs_inv_init auth_inv_def assets_ok_def)

lemma keepsD: "keeps m \<Longrightarrow> sound s \<Longrightarrow> sound (snd (m s))"
  by (simp add: keeps_def)

lemma sound_next: "sound s \<Longrightarrow> sound (service_next env e s)"
  by (cases e) (auto intro!: keepsD keeps_intros, simp add: sound_def outside_auth)

interpretation service: guarded_machine "is_new env" "\<lambda>s e t. t = service_next env e s" sound for env
  by unfold_locales (auto intro: sound_new sound_next)

text \<open>C7. Whatever requests, uploads, events, closed connections and steps of workers a service has seen, and
  whatever the providers did: its tables are sorted and hold no empty entry, nothing is tracked for the
  connection without a name, every stream has its own id, a connection with a session is found under it,
  and what is served as an asset is the asset with that id, to its owner only.\<close>

theorem service_state_sound:
  assumes "service_reach env s"
  shows "sound s \<and>
    (IsOkStatusCode (sn_code (RequireSession c (cm_auth s))) \<longrightarrow> sn_connection_id (RequireSession c (cm_auth s)) = c) \<and>
    (IsOkStatusCode (aa_code (ResolveImageAsset c task a s)) \<longrightarrow>
       as_asset_id (aa_asset (ResolveImageAsset c task a s)) = a \<and> map_of (cm_image_owner s) task = Some c)"
proof -
  have sound: "sound s" by (rule service.inv_reach [OF assms])
  have bad: "\<not> IsOkStatusCode (ToCode InvalidParams)" "\<not> IsOkStatusCode (ToCode CapabilityNotAllowed)"
    by (simp_all add: IsOkStatusCode_def ToCode_def)
  have "map_of (au_sessions (cm_auth s)) c = Some r \<Longrightarrow> sn_connection_id r = c" for r
    using sound by (auto simp: sound_def auth_inv_def)
  moreover have "map_of (cm_image_assets s) task = Some i \<Longrightarrow> map_of i a = Some asset \<Longrightarrow> as_asset_id asset = a" for i asset
    using sound by (auto simp: sound_def assets_ok_def)
  ultimately show ?thesis
    using sound by (auto simp: RequireSession_def session_error_def ResolveImageAsset_def asset_error_def
        default_AssetAccessResult_def bad split: option.splits if_splits)
qed

text \<open>A service after a request.\<close>

theorem service_state_sound_witness:
  "sound (service_next (lab (\<lambda>_. None) (\<lambda>_. [])) (Requested False ''c1'' JNull)
     (new_CommandApplicationService (lab (\<lambda>_. None) (\<lambda>_. [])) None empty_world))"
proof -
  have "service_reach (lab (\<lambda>_. None) (\<lambda>_. [])) (service_next (lab (\<lambda>_. None) (\<lambda>_. [])) (Requested False ''c1'' JNull)
      (new_CommandApplicationService (lab (\<lambda>_. None) (\<lambda>_. [])) None empty_world))"
    by (rule reach_step [where e = "Requested False ''c1'' JNull"], rule reach_init) (auto simp: is_new_def)
  from service_state_sound [OF this] show ?thesis by simp
qed

end
