(* ===== verification/Ws_Command.thy ===== *)
theory Ws_Command
  imports Sdk_Json Sdk_Config Sdk_Effects
begin

text \<open>
  The command connections (\<open>transport/sdk_ws_command_server.cpp\<close>).  The WebSocket library accepts
  connections and delivers their events, one at a time on its thread; a connection handle is a number the
  library never gives twice.  What it is asked to send or to close is a value of the functions; a failed
  send is only logged.  The counters are 64 bits wide and do not wrap in the model.
\<close>

section \<open>The state\<close>

datatype ListenerKind = Plain | Tls

record ConnectionEntry =
  cn_connection_id :: string
  cn_listener :: ListenerKind

record ws_command_impl =
  wc_connections :: "(nat, unit) smap"
  wc_entries :: "(nat, ConnectionEntry) smap"
  wc_active_connections :: nat
  wc_auth_failed :: nat
  wc_request_count :: nat
  wc_next_connection_id :: nat

definition new_ws_command_impl :: ws_command_impl where
  "new_ws_command_impl = \<lparr> wc_connections = [], wc_entries = [], wc_active_connections = 0, wc_auth_failed = 0,
     wc_request_count = 0, wc_next_connection_id = 1 \<rparr>"

record SdkWsCommandServer =
  ws_host :: string
  ws_port :: nat
  ws_tls_config :: SdkTlsConfig
  ws_running :: bool
  ws_impl :: "ws_command_impl option"

definition new_SdkWsCommandServer :: "string \<Rightarrow> nat \<Rightarrow> SdkTlsConfig \<Rightarrow> SdkWsCommandServer" where
  "new_SdkWsCommandServer host port tls =
     \<lparr> ws_host = host, ws_port = port, ws_tls_config = tls, ws_running = False, ws_impl = None \<rparr>"

section \<open>Connections\<close>

text \<open>The id of the new connection, for the open handler.\<close>

definition connection_opened :: "ListenerKind \<Rightarrow> nat \<Rightarrow> ws_command_impl \<Rightarrow> string \<times> ws_command_impl" where
  "connection_opened listener hdl im =
     (let connection_id = ''conn-'' @ dec (wc_next_connection_id im);
          connections = smap_put hdl () (wc_connections im)
      in (connection_id, im
            \<lparr> wc_next_connection_id := wc_next_connection_id im + 1, wc_connections := connections,
              wc_entries := smap_put hdl \<lparr> cn_connection_id = connection_id, cn_listener = listener \<rparr> (wc_entries im),
              wc_active_connections := length connections \<rparr>))"

text \<open>The id of the closed connection, for the close handler; an empty one is not reported.\<close>

definition connection_closed :: "nat \<Rightarrow> ws_command_impl \<Rightarrow> string \<times> ws_command_impl" where
  "connection_closed hdl im =
     (let connections = smap_erase hdl (wc_connections im)
      in (case map_of (wc_entries im) hdl of None \<Rightarrow> [] | Some e \<Rightarrow> cn_connection_id e,
          im\<lparr> wc_entries := smap_erase hdl (wc_entries im), wc_connections := connections,
              wc_active_connections := length connections \<rparr>))"

definition connection_id_of :: "nat \<Rightarrow> ws_command_impl \<Rightarrow> string" where
  "connection_id_of hdl im = (case map_of (wc_entries im) hdl of None \<Rightarrow> [] | Some e \<Rightarrow> cn_connection_id e)"

section \<open>Messages\<close>

text \<open>The JSON library and the clock.  Printing throws on a text that is not UTF-8.\<close>

record 's wire_env =
  we_dump :: "json \<Rightarrow> exn + string"
  we_parse :: "string \<Rightarrow> json option"
  we_now :: "'s \<Rightarrow> int"

datatype ws_message = TextMessage string | BinaryMessage string

definition dump_io :: "'s wire_env \<Rightarrow> json \<Rightarrow> ('s, string) io" where
  "dump_io we j = (case we_dump we j of Inl e \<Rightarrow> throw e | Inr text \<Rightarrow> ret text)"

definition ws_answer :: "'s wire_env \<Rightarrow> SdkStatusCode \<Rightarrow> string \<Rightarrow> ('s, json) io" where
  "ws_answer we code message = gets_io (\<lambda>s. BuildWsResponse (we_now we s) [] (ToCode code) message (obj []))"

definition respond_to :: "'s wire_env \<Rightarrow> (string \<Rightarrow> json \<Rightarrow> ('s, json) io) option \<Rightarrow> string \<Rightarrow> json \<Rightarrow> ('s, json) io" where
  "respond_to we request_handler connection_id request =
     catch_io
       (case request_handler of
          Some handle \<Rightarrow> handle connection_id request
        | None \<Rightarrow> ws_answer we UnsupportedMethod ''request handler not ready'')
       (\<lambda>e. ws_answer we InternalError (case e of StdException m \<Rightarrow> m | UnknownException \<Rightarrow> ''unknown native error''))"

definition response_code_of :: "json \<Rightarrow> int" where
  "response_code_of response =
     (case jfind response ''code'' of Some (JInt code) \<Rightarrow> to_int32 code | _ \<Rightarrow> ToCode InternalError)"

text \<open>The text that is sent back, and whether the answer counts as a failed authorization.\<close>

definition message_reply ::
    "'s wire_env \<Rightarrow> (string \<Rightarrow> json \<Rightarrow> ('s, json) io) option \<Rightarrow> string \<Rightarrow> ws_message \<Rightarrow> ('s, string \<times> bool) io" where
  "message_reply we request_handler connection_id message =
     (case message of
        BinaryMessage _ \<Rightarrow>
          bind_io (bind_io (ws_answer we InvalidRequest ''text message required'') (dump_io we)) (\<lambda>t. ret (t, False))
      | TextMessage payload \<Rightarrow>
          (case we_parse we payload of
             Some (JObject request) \<Rightarrow>
               bind_io (respond_to we request_handler connection_id (JObject request)) (\<lambda>response.
               bind_io (catch_io (dump_io we response)
                          (\<lambda>_. bind_io (ws_answer we InternalError ''response serialization failed'') (dump_io we))) (\<lambda>t.
               ret (t, IsAuthStatusCode (response_code_of response))))
           | _ \<Rightarrow> bind_io (bind_io (ws_answer we InvalidRequest ''invalid json'') (dump_io we)) (\<lambda>t. ret (t, False))))"

definition count_request :: "ws_command_impl \<Rightarrow> ws_command_impl" where
  "count_request im = im\<lparr>wc_request_count := wc_request_count im + 1\<rparr>"

definition count_auth_failure :: "ws_command_impl \<Rightarrow> ws_command_impl" where
  "count_auth_failure im = im\<lparr>wc_auth_failed := wc_auth_failed im + 1\<rparr>"

section \<open>Events, start and stop\<close>

text \<open>Where an event goes: nowhere when the server is not started or the connection is not known.\<close>

definition SendEvent :: "string \<Rightarrow> SdkWsCommandServer \<Rightarrow> (nat \<times> ListenerKind) option" where
  "SendEvent connection_id server =
     (case ws_impl server of
        None \<Rightarrow> None
      | Some im \<Rightarrow>
          if connection_id = [] then None
          else map_option (\<lambda>p. (fst p, cn_listener (snd p)))
                 (find (\<lambda>p. cn_connection_id (snd p) = connection_id) (wc_entries im)))"

text \<open>What the library and the system answer when a listener is started: for each kind whether it listens,
  and whether a TLS context could be made.\<close>

record listen_outcome =
  lo_plain :: bool
  lo_tls :: bool
  lo_context :: bool

definition listeners_start :: "bool \<Rightarrow> SdkTlsConfig \<Rightarrow> listen_outcome \<Rightarrow> bool" where
  "listeners_start tls_build config outcome \<longleftrightarrow>
     lo_plain outcome \<and> (\<not> tc_enabled config \<or> tls_build \<and> lo_context outcome \<and> lo_tls outcome)"

definition Start_ws_command :: "bool \<Rightarrow> listen_outcome \<Rightarrow> SdkWsCommandServer \<Rightarrow> bool \<times> SdkWsCommandServer" where
  "Start_ws_command tls_build outcome server =
     (if ws_running server then (True, server)
      else if \<not> listeners_start tls_build (ws_tls_config server) outcome then (False, server\<lparr>ws_impl := None\<rparr>)
      else (True, server\<lparr> ws_impl := Some new_ws_command_impl, ws_running := True \<rparr>))"

text \<open>The handles that are closed.  The table is empty before the library could report a closed
  connection, and the library is stopped.\<close>

definition Stop_ws_command :: "SdkWsCommandServer \<Rightarrow> (nat \<times> ListenerKind) list \<times> SdkWsCommandServer" where
  "Stop_ws_command server =
     (case ws_impl server of
        None \<Rightarrow> ([], server)
      | Some im \<Rightarrow> (map (\<lambda>p. (fst p, cn_listener (snd p))) (wc_entries im),
                    server\<lparr> ws_running := False, ws_impl := None \<rparr>))"

definition ReloadTls_ws_command :: "bool \<Rightarrow> listen_outcome \<Rightarrow> SdkWsCommandServer \<Rightarrow> bool \<times> SdkWsCommandServer" where
  "ReloadTls_ws_command tls_build outcome server =
     (if \<not> tc_enabled (ws_tls_config server) then (True, server)
      else Start_ws_command tls_build outcome
             (if ws_running server then snd (Stop_ws_command server) else server))"

definition GetStats_ws_command :: "SdkWsCommandServer \<Rightarrow> nat \<times> nat \<times> nat" where
  "GetStats_ws_command server =
     (case ws_impl server of
        None \<Rightarrow> (0, 0, 0)
      | Some im \<Rightarrow> (wc_active_connections im, wc_auth_failed im, wc_request_count im))"

end
