(* ===== verification/Ws_Video.thy ===== *)
theory Ws_Video
  imports Ws_Command Provider_Types
begin

text \<open>
  The image connections (\<open>transport/sdk_ws_video_server.cpp\<close>): a viewer is let in by its token and stream id,
  and gets the frames of that stream.  As in \<open>Ws_Command\<close>, the WebSocket library delivers the events and
  what it is asked to send or close is a value.
\<close>

section \<open>Queries\<close>

definition before_char :: "char \<Rightarrow> string \<Rightarrow> string" where
  "before_char c s = takeWhile (\<lambda>x. x \<noteq> c) s"

definition after_char :: "char \<Rightarrow> string \<Rightarrow> string" where
  "after_char c s = drop 1 (dropWhile (\<lambda>x. x \<noteq> c) s)"

text \<open>The value of the first \<open>key=value\<close> with the key; the text is taken as it is.  The loop ends at the
  first rest that is empty or was not followed by \<open>&\<close>.\<close>

function QueryValue :: "string \<Rightarrow> string \<Rightarrow> string" where
  "QueryValue query key =
     (if query = [] then []
      else let kv = before_char CHR ''&'' query in
        if before_char CHR ''='' kv = key then after_char CHR ''='' kv
        else QueryValue (after_char CHR ''&'' query) key)"
  by auto

termination
proof (relation "measure (length \<circ> fst)")
  fix query key :: string and kv
  assume "query \<noteq> []"
  then show "((after_char CHR ''&'' query, key), (query, key)) \<in> measure (length \<circ> fst)"
    using length_dropWhile_le [of "\<lambda>x. x \<noteq> CHR ''&''" query] by (cases query) (auto simp: after_char_def)
qed simp

declare QueryValue.simps [simp del]

section \<open>The state\<close>

record ActiveConnection =
  av_stream_id :: string
  av_listener :: ListenerKind

record ws_video_impl =
  wv_connections :: "(nat, unit) smap"
  wv_pending :: "(nat, ActiveConnection) smap"
  wv_active :: "(nat, ActiveConnection) smap"
  wv_stream_connections :: "(string, (nat, unit) smap) smap"
  wv_active_connections :: nat
  wv_auth_failed :: nat
  wv_binary_frames :: nat
  wv_binary_bytes :: nat

definition new_ws_video_impl :: ws_video_impl where
  "new_ws_video_impl = \<lparr> wv_connections = [], wv_pending = [], wv_active = [], wv_stream_connections = [],
     wv_active_connections = 0, wv_auth_failed = 0, wv_binary_frames = 0, wv_binary_bytes = 0 \<rparr>"

record SdkWsVideoServer =
  vw_host :: string
  vw_port :: nat
  vw_tls_config :: SdkTlsConfig
  vw_running :: bool
  vw_impl :: "ws_video_impl option"

definition new_SdkWsVideoServer :: "string \<Rightarrow> nat \<Rightarrow> SdkTlsConfig \<Rightarrow> SdkWsVideoServer" where
  "new_SdkWsVideoServer host port tls =
     \<lparr> vw_host = host, vw_port = port, vw_tls_config = tls, vw_running = False, vw_impl = None \<rparr>"

section \<open>Connections\<close>

record ConnectionAuthResult =
  ca_authorized :: bool
  ca_code :: int
  ca_message :: string
  ca_connection_id :: string
  ca_stream_id :: string

text \<open>The handshake: refused with the status 401 and a body, or let in.  Without an authorization handler
  the library's own refusal is sent.\<close>

definition handshake ::
    "(string \<Rightarrow> string \<Rightarrow> ConnectionAuthResult) option \<Rightarrow> ListenerKind \<Rightarrow> nat \<Rightarrow> string \<Rightarrow> ws_video_impl \<Rightarrow>
     (bool \<times> (int \<times> json) option) \<times> ws_video_impl" where
  "handshake auth_handler listener hdl query im =
     (case auth_handler of
        None \<Rightarrow> ((False, None), im)
      | Some auth \<Rightarrow>
          let result = auth (QueryValue query ''session_token'') (QueryValue query ''stream_id'') in
          if \<not> ca_authorized result
          then ((False, Some (401, BuildErrorBody (ca_code result) (ca_message result) (obj []))),
                im\<lparr>wv_auth_failed := wv_auth_failed im + 1\<rparr>)
          else ((True, None),
                im\<lparr>wv_pending := smap_put hdl \<lparr> av_stream_id = ca_stream_id result, av_listener = listener \<rparr> (wv_pending im)\<rparr>))"

definition viewers :: "string \<Rightarrow> ws_video_impl \<Rightarrow> (nat, unit) smap" where
  "viewers stream_id im =
     (case map_of (wv_stream_connections im) stream_id of None \<Rightarrow> [] | Some hs \<Rightarrow> hs)"

text \<open>The stream id that is announced to the viewer.\<close>

definition viewer_opened :: "nat \<Rightarrow> ws_video_impl \<Rightarrow> string \<times> ws_video_impl" where
  "viewer_opened hdl im =
     (let connections = smap_put hdl () (wv_connections im);
          im = im\<lparr> wv_connections := connections, wv_active_connections := length connections \<rparr>
      in case map_of (wv_pending im) hdl of
           None \<Rightarrow> ([], im)
         | Some p \<Rightarrow> (av_stream_id p, im
             \<lparr> wv_active := smap_put hdl p (wv_active im),
               wv_stream_connections :=
                 smap_put (av_stream_id p) (smap_put hdl () (viewers (av_stream_id p) im)) (wv_stream_connections im),
               wv_pending := smap_erase hdl (wv_pending im) \<rparr>))"

definition drop_viewer :: "nat \<Rightarrow> string \<Rightarrow> (string, (nat, unit) smap) smap \<Rightarrow> (string, (nat, unit) smap) smap" where
  "drop_viewer hdl stream_id m =
     (case map_of m stream_id of
        None \<Rightarrow> m
      | Some hs \<Rightarrow> let hs = smap_erase hdl hs in if hs = [] then smap_erase stream_id m else smap_put stream_id hs m)"

definition viewer_closed :: "nat \<Rightarrow> ws_video_impl \<Rightarrow> ws_video_impl" where
  "viewer_closed hdl im =
     (let connections = smap_erase hdl (wv_connections im) in im
        \<lparr> wv_stream_connections := (case map_of (wv_active im) hdl of
              None \<Rightarrow> wv_stream_connections im
            | Some a \<Rightarrow> drop_viewer hdl (av_stream_id a) (wv_stream_connections im)),
          wv_active := smap_erase hdl (wv_active im), wv_connections := connections,
          wv_pending := smap_erase hdl (wv_pending im), wv_active_connections := length connections \<rparr>)"

text \<open>A binary message is counted; any other is answered, for the channel is for output only.\<close>

definition viewer_message :: "int \<Rightarrow> ws_message \<Rightarrow> ws_video_impl \<Rightarrow> json option \<times> ws_video_impl" where
  "viewer_message now message im =
     (case message of
        BinaryMessage payload \<Rightarrow>
          (None, im\<lparr> wv_binary_frames := wv_binary_frames im + 1,
                     wv_binary_bytes := wv_binary_bytes im + length payload \<rparr>)
      | TextMessage _ \<Rightarrow>
          (Some (BuildWsEvent now ''error'' (obj [(''message'', JString ''video channel is output only'')])
             (ToCode InvalidRequest) ''invalid message''), im))"

section \<open>Frames\<close>

record SdkVideoFrame =
  vf_device_id :: string
  vf_stream_id :: string
  vf_frame_seq :: nat
  vf_timestamp_ms :: int
  vf_width :: int
  vf_height :: int
  vf_pixel_format :: string
  vf_payload :: string
  vf_detected_rects :: "SdkRect4P list"
  vf_detected_rects_source_width :: int
  vf_detected_rects_source_height :: int

definition ListenerFor :: "nat \<Rightarrow> ws_video_impl \<Rightarrow> ListenerKind" where
  "ListenerFor hdl im = (case map_of (wv_active im) hdl of None \<Rightarrow> Plain | Some a \<Rightarrow> av_listener a)"

definition stream_targets :: "string \<Rightarrow> ws_video_impl \<Rightarrow> (nat \<times> ListenerKind) list" where
  "stream_targets stream_id im = map (\<lambda>p. (fst p, ListenerFor (fst p) im)) (viewers stream_id im)"

definition corner_json :: "SdkPoint2f \<Rightarrow> json" where
  "corner_json p = JArray [JFloat (pt_x p), JFloat (pt_y p)]"

definition BuildDetectedRectJson :: "SdkRect4P \<Rightarrow> json" where
  "BuildDetectedRectJson r = obj
     [(''left_top'', corner_json (rc_left_top r)), (''right_top'', corner_json (rc_right_top r)),
      (''right_down'', corner_json (rc_right_down r)), (''left_down'', corner_json (rc_left_down r))]"

definition frame_meta :: "SdkVideoFrame \<Rightarrow> json" where
  "frame_meta f =
     (let meta = obj
        [(''device_id'', JString (vf_device_id f)), (''stream_id'', JString (vf_stream_id f)),
         (''frame_seq'', JInt (int (vf_frame_seq f))), (''timestamp_ms'', JInt (vf_timestamp_ms f)),
         (''width'', JInt (vf_width f)), (''height'', JInt (vf_height f)),
         (''pixel_format'', JString (vf_pixel_format f))]
      in if vf_detected_rects f = [] then meta
         else set_member ''detected_rects_source''
                (obj [(''width'', JInt (vf_detected_rects_source_width f)),
                      (''height'', JInt (vf_detected_rects_source_height f))])
                (set_member ''detected_rects'' (JArray (map BuildDetectedRectJson (vf_detected_rects f))) meta))"

text \<open>To whom a frame goes and what: first its description, then, unless that fails, its bytes.\<close>

definition PublishFrame :: "int \<Rightarrow> SdkVideoFrame \<Rightarrow> SdkWsVideoServer \<Rightarrow> ((nat \<times> ListenerKind) list \<times> json \<times> string) option" where
  "PublishFrame now frame server =
     (case vw_impl server of
        None \<Rightarrow> None
      | Some im \<Rightarrow>
          if vf_stream_id frame = [] \<or> vf_payload frame = [] \<or> map_of (wv_stream_connections im) (vf_stream_id frame) = None
          then None
          else Some (stream_targets (vf_stream_id frame) im,
                     BuildWsEvent now ''stream.frame_meta'' (frame_meta frame) (ToCode Ok) ''ok'', vf_payload frame))"

definition frame_delivered :: "string \<Rightarrow> ws_video_impl \<Rightarrow> ws_video_impl" where
  "frame_delivered payload im = im
     \<lparr> wv_binary_frames := wv_binary_frames im + 1, wv_binary_bytes := wv_binary_bytes im + length payload \<rparr>"

text \<open>The viewers that are closed.\<close>

definition CloseStream :: "string \<Rightarrow> SdkWsVideoServer \<Rightarrow> (nat \<times> ListenerKind) list" where
  "CloseStream stream_id server =
     (case vw_impl server of None \<Rightarrow> [] | Some im \<Rightarrow> if stream_id = [] then [] else stream_targets stream_id im)"

section \<open>Start and stop\<close>

definition Start_ws_video :: "bool \<Rightarrow> listen_outcome \<Rightarrow> SdkWsVideoServer \<Rightarrow> bool \<times> SdkWsVideoServer" where
  "Start_ws_video tls_build outcome server =
     (if vw_running server then (True, server)
      else if \<not> listeners_start tls_build (vw_tls_config server) outcome then (False, server\<lparr>vw_impl := None\<rparr>)
      else (True, server\<lparr> vw_impl := Some new_ws_video_impl, vw_running := True \<rparr>))"

definition Stop_ws_video :: "SdkWsVideoServer \<Rightarrow> (nat \<times> ListenerKind) list \<times> SdkWsVideoServer" where
  "Stop_ws_video server =
     (case vw_impl server of
        None \<Rightarrow> ([], server)
      | Some im \<Rightarrow> (map (\<lambda>p. (fst p, ListenerFor (fst p) im)) (wv_connections im),
                    server\<lparr> vw_running := False, vw_impl := None \<rparr>))"

definition ReloadTls_ws_video :: "bool \<Rightarrow> listen_outcome \<Rightarrow> SdkWsVideoServer \<Rightarrow> bool \<times> SdkWsVideoServer" where
  "ReloadTls_ws_video tls_build outcome server =
     (if \<not> tc_enabled (vw_tls_config server) then (True, server)
      else Start_ws_video tls_build outcome (if vw_running server then snd (Stop_ws_video server) else server))"

definition GetStats_ws_video :: "SdkWsVideoServer \<Rightarrow> nat \<times> nat \<times> nat \<times> nat" where
  "GetStats_ws_video server =
     (case vw_impl server of
        None \<Rightarrow> (0, 0, 0, 0)
      | Some im \<Rightarrow> (wv_active_connections im, wv_auth_failed im, wv_binary_frames im, wv_binary_bytes im))"

end
