(* ===== verification/Viewer_Claims.thy ===== *)
theory Viewer_Claims
  imports Ws_Video
begin

text \<open>
  Who gets the frames of a stream: the image connections as a state machine over the events of the WebSocket
  library, with what the library knows of its connections beside the tables of the server.
\<close>

section \<open>The machine\<close>

text \<open>\<open>vm_granted\<close>: what each handle was let in for; \<open>vm_waiting\<close> and \<open>vm_open\<close>: the handles that were let in
  and are not opened yet, and those that are open.\<close>

record viewer_machine =
  vm_impl :: ws_video_impl
  vm_granted :: "nat \<Rightarrow> ActiveConnection option"
  vm_waiting :: "nat set"
  vm_open :: "nat set"

datatype viewer_event =
    Asked ConnectionAuthResult ListenerKind nat string
  | Entered nat
  | Left nat
  | Said int ws_message
  | Delivered string

definition first_viewer_state :: "viewer_machine \<Rightarrow> bool" where
  "first_viewer_state s \<longleftrightarrow>
     s = \<lparr> vm_impl = new_ws_video_impl, vm_granted = (\<lambda>_. None), vm_waiting = {}, vm_open = {} \<rparr>"

text \<open>The library asks once for a handle, and opens what was let in.\<close>

fun viewer_step :: "viewer_machine \<Rightarrow> viewer_event \<Rightarrow> viewer_machine \<Rightarrow> bool" where
  "viewer_step s (Asked result listener h query) t \<longleftrightarrow> vm_granted s h = None \<and>
     t = (let s' = s\<lparr>vm_impl := snd (handshake (Some (\<lambda>_ _. result)) listener h query (vm_impl s))\<rparr> in
          if fst (fst (handshake (Some (\<lambda>_ _. result)) listener h query (vm_impl s)))
          then s'\<lparr> vm_granted := (vm_granted s)(h \<mapsto> \<lparr> av_stream_id = ca_stream_id result, av_listener = listener \<rparr>),
                   vm_waiting := insert h (vm_waiting s) \<rparr>
          else s')"
| "viewer_step s (Entered h) t \<longleftrightarrow> h \<in> vm_waiting s \<and>
     t = s\<lparr> vm_impl := snd (viewer_opened h (vm_impl s)), vm_waiting := vm_waiting s - {h},
            vm_open := insert h (vm_open s) \<rparr>"
| "viewer_step s (Left h) t \<longleftrightarrow>
     t = s\<lparr> vm_impl := viewer_closed h (vm_impl s), vm_waiting := vm_waiting s - {h}, vm_open := vm_open s - {h} \<rparr>"
| "viewer_step s (Said now message) t \<longleftrightarrow> t = s\<lparr>vm_impl := snd (viewer_message now message (vm_impl s))\<rparr>"
| "viewer_step s (Delivered payload) t \<longleftrightarrow> t = s\<lparr>vm_impl := frame_delivered payload (vm_impl s)\<rparr>"

section \<open>The invariant\<close>

definition watches :: "string \<Rightarrow> nat \<Rightarrow> viewer_machine \<Rightarrow> bool" where
  "watches stream_id h s \<longleftrightarrow> h \<in> vm_open s \<and> (\<exists>a. vm_granted s h = Some a \<and> av_stream_id a = stream_id)"

definition viewers_inv :: "viewer_machine \<Rightarrow> bool" where
  "viewers_inv s \<longleftrightarrow>
     (\<forall>h. map_of (wv_pending (vm_impl s)) h = (if h \<in> vm_waiting s then vm_granted s h else None)) \<and>
     (\<forall>h. map_of (wv_active (vm_impl s)) h = (if h \<in> vm_open s then vm_granted s h else None)) \<and>
     (\<forall>h \<in> vm_waiting s \<union> vm_open s. vm_granted s h \<noteq> None) \<and> vm_waiting s \<inter> vm_open s = {} \<and>
     (\<forall>i. smap_ok (viewers i (vm_impl s)) \<and>
        (map_of (wv_stream_connections (vm_impl s)) i \<noteq> Some []) \<and>
        (\<forall>h. map_of (viewers i (vm_impl s)) h \<noteq> None \<longleftrightarrow> watches i h s))"

lemma granted_some:
  "viewers_inv s \<Longrightarrow> h \<in> vm_waiting s \<or> h \<in> vm_open s \<Longrightarrow> \<exists>a. vm_granted s h = Some a"
  unfolding viewers_inv_def by blast

lemma viewers_put:
  "wv_stream_connections im' = smap_put i hs (wv_stream_connections im) \<Longrightarrow>
   viewers j im' = (if j = i then hs else viewers j im)"
  by (simp add: viewers_def)

lemma smap_erase_Nil: "smap_erase k [] = []"
  by (simp add: smap_erase_def)

lemma viewers_dropped:
  assumes "wv_stream_connections im' = drop_viewer h i (wv_stream_connections im)"
  shows "viewers j im' = (if j = i then smap_erase h (viewers j im) else viewers j im)"
  using assms by (auto simp: viewers_def drop_viewer_def smap_erase_Nil Let_def split: option.splits)

lemma drop_viewer_kept:
  "map_of m j \<noteq> Some [] \<Longrightarrow> map_of (drop_viewer h i m) j \<noteq> Some []"
  by (auto simp: drop_viewer_def Let_def split: option.splits)

lemma viewers_inv_opened:
  assumes "viewers_inv s" and "h \<in> vm_waiting s"
  shows "viewers_inv (s\<lparr> vm_impl := snd (viewer_opened h (vm_impl s)), vm_waiting := vm_waiting s - {h},
            vm_open := insert h (vm_open s) \<rparr>)"
proof -
  obtain a where "vm_granted s h = Some a" using granted_some assms by blast
  moreover from this have "map_of (wv_pending (vm_impl s)) h = Some a"
    using assms by (simp add: viewers_inv_def)
  ultimately have a: "vm_granted s h = Some a" "map_of (wv_pending (vm_impl s)) h = Some a" by simp_all
  let ?im = "snd (viewer_opened h (vm_impl s))"
  have parts: "wv_active ?im = smap_put h a (wv_active (vm_impl s))" "wv_pending ?im = smap_erase h (wv_pending (vm_impl s))"
      "wv_stream_connections ?im = smap_put (av_stream_id a) (smap_put h () (viewers (av_stream_id a) (vm_impl s)))
         (wv_stream_connections (vm_impl s))"
    by (simp_all add: viewer_opened_def a viewers_def Let_def)
  show ?thesis
    using assms a by (auto simp: viewers_inv_def parts viewers_put [OF parts(3)] watches_def)
qed

lemma viewers_inv_closed:
  assumes "viewers_inv s"
  shows "viewers_inv (s\<lparr> vm_impl := viewer_closed h (vm_impl s), vm_waiting := vm_waiting s - {h}, vm_open := vm_open s - {h} \<rparr>)"
proof (cases "map_of (wv_active (vm_impl s)) h")
  case None
  have "h \<notin> vm_open s"
  proof
    assume open_h: "h \<in> vm_open s"
    then obtain a where "vm_granted s h = Some a" using granted_some [OF assms] by blast
    then show False using assms None open_h by (simp add: viewers_inv_def)
  qed
  moreover have "viewers i (viewer_closed h (vm_impl s)) = viewers i (vm_impl s)" for i
    by (simp add: viewers_def viewer_closed_def None Let_def)
  ultimately show ?thesis
    using assms None by (auto simp: viewers_inv_def viewer_closed_def watches_def Let_def)
next
  case (Some a)
  let ?im = "viewer_closed h (vm_impl s)"
  have open_h: "h \<in> vm_open s" "vm_granted s h = Some a"
    using assms Some by (auto simp: viewers_inv_def split: if_splits)
  have parts: "wv_active ?im = smap_erase h (wv_active (vm_impl s))" "wv_pending ?im = smap_erase h (wv_pending (vm_impl s))"
      "wv_stream_connections ?im = drop_viewer h (av_stream_id a) (wv_stream_connections (vm_impl s))"
    by (simp_all add: viewer_closed_def Some Let_def)
  show ?thesis
    using assms open_h drop_viewer_kept
    by (auto simp: viewers_inv_def parts viewers_dropped [OF parts(3)] watches_def)
qed

lemma viewers_inv_step: "viewers_inv s \<Longrightarrow> viewer_step s e t \<Longrightarrow> viewers_inv t"
proof (cases e)
  case (Asked result listener h query)
  assume inv: "viewers_inv s" and step: "viewer_step s e t"
  have "vm_granted s h = None" using step Asked by simp
  then have "h \<notin> vm_waiting s" "h \<notin> vm_open s" using granted_some [OF inv, of h] by auto
  then show ?thesis
    using inv step Asked by (auto simp: viewers_inv_def handshake_def viewers_def watches_def Let_def)
next
  case (Said now message)
  assume "viewers_inv s" and "viewer_step s e t"
  then show ?thesis
    using Said by (cases message) (auto simp: viewers_inv_def viewer_message_def viewers_def watches_def)
qed (auto simp: viewers_inv_opened viewers_inv_closed, auto simp: viewers_inv_def frame_delivered_def viewers_def watches_def)

lemma viewers_inv_first: "first_viewer_state s \<Longrightarrow> viewers_inv s"
  by (auto simp: first_viewer_state_def viewers_inv_def new_ws_video_impl_def viewers_def watches_def)

interpretation viewing: guarded_machine first_viewer_state viewer_step viewers_inv
  by unfold_locales (rule viewers_inv_first, assumption, rule viewers_inv_step)
section \<open>The frames\<close>

lemma stream_targets_exact:
  assumes "viewers_inv s"
  shows "set (stream_targets i (vm_impl s)) =
      {(h, l). h \<in> vm_open s \<and> vm_granted s h = Some \<lparr> av_stream_id = i, av_listener = l \<rparr>}" (is ?exact)
    and "distinct (map fst (stream_targets i (vm_impl s)))"
    and "map_of (wv_stream_connections (vm_impl s)) i = None \<longleftrightarrow> stream_targets i (vm_impl s) = []"
proof -
  have ok: "smap_ok (viewers i (vm_impl s))" using assms by (simp add: viewers_inv_def)
  have listener: "ListenerFor h (vm_impl s) = av_listener a" if "h \<in> vm_open s" "vm_granted s h = Some a" for h a
    using assms that by (simp add: viewers_inv_def ListenerFor_def)
  have "map_of (viewers i (vm_impl s)) h \<noteq> None \<longleftrightarrow> watches i h s" for h
    using assms by (simp add: viewers_inv_def)
  then have "h \<in> fst ` set (viewers i (vm_impl s)) \<longleftrightarrow> watches i h s" for h
    by (metis map_of_eq_None_iff)
  then have "set (stream_targets i (vm_impl s)) = {(h, ListenerFor h (vm_impl s)) | h. watches i h s}"
    by (auto simp: stream_targets_def image_iff) force
  also have "\<dots> = {(h, l). h \<in> vm_open s \<and> vm_granted s h = Some \<lparr> av_stream_id = i, av_listener = l \<rparr>}"
    using listener by (auto simp: watches_def)
  finally show ?exact .
  show "distinct (map fst (stream_targets i (vm_impl s)))"
    using smap_ok_distinct [OF ok] by (simp add: stream_targets_def comp_def)
  have "map_of (wv_stream_connections (vm_impl s)) i \<noteq> Some []" using assms by (simp add: viewers_inv_def)
  then show "map_of (wv_stream_connections (vm_impl s)) i = None \<longleftrightarrow> stream_targets i (vm_impl s) = []"
    by (auto simp: stream_targets_def viewers_def split: option.splits)
qed

definition audience :: "string \<Rightarrow> viewer_machine \<Rightarrow> (nat \<times> ListenerKind) set" where
  "audience i s = {(h, l). h \<in> vm_open s \<and> vm_granted s h = Some \<lparr> av_stream_id = i, av_listener = l \<rparr>}"

text \<open>C9. A frame goes to exactly the image connections that are open and were let in for its stream, to each once
  and through its own listener, and is dropped exactly when there is none, or it has no stream or no bytes;
  the same connections are closed with the stream.\<close>

theorem frames_reach_admitted_viewers_only:
  assumes "reach first_viewer_state viewer_step s" and "vw_impl server = Some (vm_impl s)"
  shows "(case PublishFrame now frame server of
      None \<Rightarrow> vf_stream_id frame = [] \<or> vf_payload frame = [] \<or> audience (vf_stream_id frame) s = {}
    | Some (targets, meta, payload) \<Rightarrow>
        set targets = audience (vf_stream_id frame) s \<and> distinct (map fst targets) \<and> audience (vf_stream_id frame) s \<noteq> {} \<and> payload = vf_payload frame) \<and>
    (vf_stream_id frame \<noteq> [] \<longrightarrow> set (CloseStream (vf_stream_id frame) server) = audience (vf_stream_id frame) s)"
proof -
  note inv = viewing.inv_reach [OF assms(1)]
  note exact = stream_targets_exact [OF inv, of "vf_stream_id frame"]
  have "audience (vf_stream_id frame) s = {} \<longleftrightarrow> map_of (wv_stream_connections (vm_impl s)) (vf_stream_id frame) = None"
    unfolding exact(3) audience_def exact(1) [symmetric] by simp
  then show ?thesis
    using exact(1,2) assms(2) by (simp add: PublishFrame_def CloseStream_def audience_def)
qed

definition let_in :: ConnectionAuthResult where
  "let_in = \<lparr> ca_authorized = True, ca_code = 0, ca_message = [], ca_connection_id = ''conn-1'', ca_stream_id = ''s1'' \<rparr>"

definition one_viewer :: viewer_machine where
  "one_viewer = (let im = snd (handshake (Some (\<lambda>_ _. let_in)) Tls 3 [] new_ws_video_impl) in
     \<lparr> vm_impl = snd (viewer_opened 3 im),
       vm_granted = (\<lambda>_. None)(3 \<mapsto> \<lparr> av_stream_id = ''s1'', av_listener = Tls \<rparr>),
       vm_waiting = {}, vm_open = {3} \<rparr>)"

lemma one_viewer_reached: "reach first_viewer_state viewer_step one_viewer"
proof -
  let ?s = "\<lparr> vm_impl = new_ws_video_impl, vm_granted = (\<lambda>_. None), vm_waiting = {}, vm_open = {} \<rparr>"
  let ?t = "\<lparr> vm_impl = snd (handshake (Some (\<lambda>_ _. let_in)) Tls 3 [] new_ws_video_impl),
    vm_granted = (\<lambda>_. None)(3 \<mapsto> \<lparr> av_stream_id = ''s1'', av_listener = Tls \<rparr>), vm_waiting = {3}, vm_open = {} \<rparr>"
  have "reach first_viewer_state viewer_step ?s" by (rule reach_init) (simp add: first_viewer_state_def)
  then have "reach first_viewer_state viewer_step ?t"
    by (rule reach_step [where e = "Asked let_in Tls 3 []"]) (simp add: handshake_def let_in_def Let_def)
  then show ?thesis
    by (rule reach_step [where e = "Entered 3"]) (simp add: one_viewer_def Let_def)
qed

definition a_frame :: SdkVideoFrame where
  "a_frame = \<lparr> vf_device_id = ''d'', vf_stream_id = ''s1'', vf_frame_seq = 1, vf_timestamp_ms = 0, vf_width = 1,
     vf_height = 1, vf_pixel_format = ''jpeg'', vf_payload = ''x'', vf_detected_rects = [],
     vf_detected_rects_source_width = 0, vf_detected_rects_source_height = 0 \<rparr>"

lemma a_frame_stream: "vf_stream_id a_frame = ''s1''"
  by (simp add: a_frame_def)

lemma one_viewer_audience: "audience ''s1'' one_viewer = {(3, Tls)}"
  by (auto simp: audience_def one_viewer_def Let_def)

theorem frames_reach_admitted_viewers_only_witness:
  "set (CloseStream ''s1'' ((new_SdkWsVideoServer [] 0 default_SdkTlsConfig)\<lparr>vw_impl := Some (vm_impl one_viewer)\<rparr>)) =
   {(3, Tls)}"
  using conjunct2 [OF frames_reach_admitted_viewers_only [OF one_viewer_reached, where frame = a_frame and now = 0
      and server = "(new_SdkWsVideoServer [] 0 default_SdkTlsConfig)\<lparr>vw_impl := Some (vm_impl one_viewer)\<rparr>"]]
  by (simp add: a_frame_stream one_viewer_audience)

end
