(* ===== verification/Http_Server.thy ===== *)
theory Http_Server
  imports Ws_Command Command_Lifecycle
begin

text \<open>
  The HTTP servers (\<open>transport/sdk_http_server.cpp\<close>): the routes with their checks.  The HTTP library reads the
  request, picks the first route whose pattern matches (\<open>hs_matches\<close>) and writes the response; files are
  named in the response and read by it.  The suppliers and handlers that the application registers may
  change its state and throw.
\<close>

section \<open>Requests and responses\<close>

record http_request =
  hr_authorization :: string
  hr_accept :: string
  hr_path :: string
  hr_matches :: "string list"
  hr_body :: string
  hr_tail_bytes :: string
  hr_file :: "(string \<times> string \<times> string) option"

datatype http_content =
    NoContent
  | TextContent string string
  | FileContent string string

record http_response =
  hp_status :: int
  hp_headers :: "(string \<times> string) list"
  hp_content :: http_content

definition kJsonContentType :: string where
  "kJsonContentType = ''application/json; charset=utf-8''"

definition ExtractBearerToken :: "string \<Rightarrow> string" where
  "ExtractBearerToken authorization =
     (let prefix = ''Bearer '' in
      if length authorization \<le> length prefix \<or> take (length prefix) authorization \<noteq> prefix then []
      else drop (length prefix) authorization)"

definition HttpStatusForSdkCode :: "int \<Rightarrow> int" where
  "HttpStatusForSdkCode code =
     (if IsOkStatusCode code then 200
      else if code = ToCode InvalidRequest then 400
      else if code = ToCode InvalidMethod \<or> code = ToCode UnsupportedMethod then 404
      else if code = ToCode AuthRequired \<or> code = ToCode TokenInvalid \<or> code = ToCode SessionTokenInvalid then 401
      else if code = ToCode CapabilityNotAllowed then 403
      else if code = ToCode UploadFileEmpty \<or> code = ToCode UploadFileTooLarge then 400
      else if code = ToCode InvalidParams then 400
      else 500)"

text \<open>\<open>strtol\<close> of the C library: white space, a sign, digits, and the range of a \<open>long\<close>.\<close>

definition is_c_space :: "char \<Rightarrow> bool" where
  "is_c_space c \<longleftrightarrow> c \<in> {CHR '' '', CHR 0x09, CHR 0x0A, CHR 0x0B, CHR 0x0C, CHR 0x0D}"

definition is_decimal :: "char \<Rightarrow> bool" where
  "is_decimal c \<longleftrightarrow> 48 \<le> (of_char c :: nat) \<and> (of_char c :: nat) \<le> 57"

definition decimal_value :: "string \<Rightarrow> int" where
  "decimal_value ds = foldl (\<lambda>n c. 10 * n + (of_char c - 48)) 0 ds"

definition strtol :: "string \<Rightarrow> int" where
  "strtol text =
     (let s = dropWhile is_c_space text;
          negative = (s \<noteq> [] \<and> hd s = CHR ''-'');
          s = (if s \<noteq> [] \<and> hd s \<in> {CHR ''-'', CHR ''+''} then tl s else s);
          n = decimal_value (takeWhile is_decimal s)
      in if negative then max (- n) (- (2 ^ 63)) else min n (2 ^ 63 - 1))"

definition ParseSizeParam :: "string \<Rightarrow> nat \<Rightarrow> nat \<Rightarrow> nat" where
  "ParseSizeParam value default_value max_value =
     (if value = [] then default_value
      else let parsed = strtol value in
        if parsed \<le> 0 then default_value else min (nat parsed) max_value)"

definition cors_headers :: "(string \<times> string) list" where
  "cors_headers =
     [(''Access-Control-Allow-Origin'', ''*''),
      (''Access-Control-Allow-Headers'', ''Authorization, Content-Type''),
      (''Access-Control-Allow-Methods'', ''GET, POST, OPTIONS''),
      (''Access-Control-Allow-Private-Network'', ''true'')]"

definition no_store :: "(string \<times> string) list" where
  "no_store = [(''Cache-Control'', ''no-store'')]"

definition ShouldServeSpaFallback :: "string \<Rightarrow> string \<Rightarrow> bool" where
  "ShouldServeSpaFallback path accept_header =
     (if path = [] \<or> hd path \<noteq> CHR ''/'' then False
      else if path = ''/'' then True
      else if take 5 path = ''/api/'' \<or> path = ''/api'' then False
      else if CHR ''.'' \<in> set (rev (takeWhile (\<lambda>c. c \<noteq> CHR ''/'') (rev path))) then False
      else accept_header = [] \<or> has_substring ''text/html'' accept_header \<or> has_substring ''*/*'' accept_header)"

definition JoinPath_http :: "string \<Rightarrow> string \<Rightarrow> string" where
  "JoinPath_http base child =
     (if base = [] then child else if last base = CHR ''/'' then base @ child else base @ ''/'' @ child)"

section \<open>The server\<close>

record AssetResult =
  hx_code :: int
  hx_message :: string
  hx_asset :: SdkCaptureAsset

record UploadResult =
  hu_code :: int
  hu_message :: string
  hu_body :: json

text \<open>What the application registers, and what the library and the system are asked for.\<close>

record 's SdkHttpServer =
  hs_document_root :: string
  hs_auth_token :: string
  hs_mount_static_site :: bool
  hs_health :: "('s, json) io option"
  hs_status :: "('s, json) io option"
  hs_system :: "('s, json) io option"
  hs_auth :: "('s, json) io option"
  hs_logs :: "('s, json) io option"
  hs_log_read :: "(string \<Rightarrow> nat \<Rightarrow> ('s, json) io) option"
  hs_records :: "('s, json) io option"
  hs_config :: "('s, json) io option"
  hs_update_config :: "(json \<Rightarrow> ('s, json) io) option"
  hs_offline_activation :: "(string \<Rightarrow> json \<Rightarrow> ('s, json) io) option"
  hs_asset_resolver :: "(string \<Rightarrow> string \<Rightarrow> string \<Rightarrow> ('s, AssetResult) io) option"
  hs_image_upload :: "(string \<Rightarrow> string \<Rightarrow> string \<Rightarrow> string \<Rightarrow> ('s, UploadResult) io) option"
  hs_wire :: "'s wire_env"
  hs_file_exists :: "'s \<Rightarrow> string \<Rightarrow> bool"
  hs_matches :: "string \<Rightarrow> string \<Rightarrow> string list option"

type_synonym 's route = "http_request \<Rightarrow> ('s, http_response) io"

definition IsAuthorized :: "'s SdkHttpServer \<Rightarrow> string \<Rightarrow> bool" where
  "IsAuthorized srv authorization \<longleftrightarrow> hs_auth_token srv = [] \<or> authorization = ''Bearer '' @ hs_auth_token srv"

definition json_response :: "'s SdkHttpServer \<Rightarrow> int \<Rightarrow> (string \<times> string) list \<Rightarrow> json \<Rightarrow> ('s, http_response) io" where
  "json_response srv status headers body =
     bind_io (dump_io (hs_wire srv) body) (\<lambda>text.
     ret \<lparr> hp_status = status, hp_headers = headers, hp_content = TextContent text kJsonContentType \<rparr>)"

definition error_response :: "'s SdkHttpServer \<Rightarrow> int \<Rightarrow> int \<Rightarrow> string \<Rightarrow> ('s, http_response) io" where
  "error_response srv status code message =
     json_response srv status cors_headers (BuildErrorBody code message (obj []))"

definition supplied :: "('s, json) io option \<Rightarrow> json \<Rightarrow> ('s, json) io" where
  "supplied supplier otherwise = (case supplier of Some m \<Rightarrow> m | None \<Rightarrow> ret otherwise)"

section \<open>The handlers of the admin pages\<close>

definition guarded :: "'s SdkHttpServer \<Rightarrow> 's route \<Rightarrow> 's route" where
  "guarded srv handle req =
     (if \<not> IsAuthorized srv (hr_authorization req) then error_response srv 401 (ToCode AuthRequired) ''unauthorized''
      else handle req)"

definition supply_route :: "'s SdkHttpServer \<Rightarrow> ('s, json) io option \<Rightarrow> 's route" where
  "supply_route srv supplier = guarded srv (\<lambda>req.
     bind_io (supplied supplier (obj [])) (json_response srv 200 (cors_headers @ no_store)))"

text \<open>\<open>j.value(key, otherwise)\<close> with the rules of the JSON library, for a number (of another kind it is
  converted, then taken at the width \<open>w\<close>) and for a text.\<close>

definition int_value :: "(int \<Rightarrow> int) \<Rightarrow> json \<Rightarrow> string \<Rightarrow> int \<Rightarrow> ('s, int) io" where
  "int_value w j key otherwise =
     (if \<not> is_object j then throw (StdException (''[json.exception.type_error.306] cannot use value() with '' @ type_name j))
      else case jfind j key of
        None \<Rightarrow> ret otherwise
      | Some (JInt i) \<Rightarrow> ret (w i)
      | Some (JFloat r) \<Rightarrow> ret (w (if r < 0 then - \<lfloor>- r\<rfloor> else \<lfloor>r\<rfloor>))
      | Some (JBool b) \<Rightarrow> ret (if b then 1 else 0)
      | Some other \<Rightarrow>
          throw (StdException (''[json.exception.type_error.302] type must be number, but is '' @ type_name other)))"

definition text_value :: "json \<Rightarrow> string \<Rightarrow> string \<Rightarrow> ('s, string) io" where
  "text_value j key otherwise =
     (if \<not> is_object j then throw (StdException (''[json.exception.type_error.306] cannot use value() with '' @ type_name j))
      else case jfind j key of
        None \<Rightarrow> ret otherwise
      | Some (JString s) \<Rightarrow> ret s
      | Some other \<Rightarrow>
          throw (StdException (''[json.exception.type_error.302] type must be string, but is '' @ type_name other)))"

definition code_value :: "json \<Rightarrow> ('s, int) io" where
  "code_value body = int_value to_int32 body ''code'' 0"

definition coded_response :: "'s SdkHttpServer \<Rightarrow> (int \<Rightarrow> int) \<Rightarrow> json \<Rightarrow> ('s, http_response) io" where
  "coded_response srv status_of body =
     bind_io (code_value body) (\<lambda>code. json_response srv (status_of code) (cors_headers @ no_store) body)"

definition read_body :: "'s SdkHttpServer \<Rightarrow> http_request \<Rightarrow> (json \<Rightarrow> ('s, http_response) io) \<Rightarrow> ('s, http_response) io" where
  "read_body srv req f =
     (case we_parse (hs_wire srv) (hr_body req) of
        Some (JObject m) \<Rightarrow> f (JObject m)
      | _ \<Rightarrow> error_response srv 400 (ToCode InvalidParams) ''invalid json'')"

definition match_at :: "http_request \<Rightarrow> nat \<Rightarrow> string" where
  "match_at req i = (if i \<le> length (hr_matches req) \<and> 0 < i then hr_matches req ! (i - 1) else [])"

definition health_route :: "'s SdkHttpServer \<Rightarrow> 's route" where
  "health_route srv req =
     bind_io (supplied (hs_health srv) (obj [(''ok'', JBool True)])) (json_response srv 200 no_store)"

definition activation_route :: "'s SdkHttpServer \<Rightarrow> 's route" where
  "activation_route srv = guarded srv (\<lambda>req.
     case hs_offline_activation srv of
       None \<Rightarrow> error_response srv 404 (ToCode InvalidMethod) ''offline activation api unavailable''
     | Some handle \<Rightarrow> read_body srv req (\<lambda>j.
         bind_io (handle (match_at req 1) j)
           (coded_response srv (\<lambda>code. if code = ToCode InvalidParams then 400 else HttpStatusForSdkCode code))))"

definition log_route :: "'s SdkHttpServer \<Rightarrow> 's route" where
  "log_route srv = guarded srv (\<lambda>req.
     case hs_log_read srv of
       None \<Rightarrow> error_response srv 404 (ToCode InvalidMethod) ''log api unavailable''
     | Some handle \<Rightarrow>
         bind_io (handle (match_at req 1) (ParseSizeParam (hr_tail_bytes req) 262144 1048576))
           (coded_response srv HttpStatusForSdkCode))"

definition config_route :: "'s SdkHttpServer \<Rightarrow> 's route" where
  "config_route srv = guarded srv (\<lambda>req.
     case hs_config srv of
       None \<Rightarrow> error_response srv 404 (ToCode InvalidMethod) ''config api unavailable''
     | Some supply \<Rightarrow> bind_io supply (json_response srv 200 (cors_headers @ no_store)))"

definition config_update_route :: "'s SdkHttpServer \<Rightarrow> 's route" where
  "config_update_route srv = guarded srv (\<lambda>req.
     case hs_update_config srv of
       None \<Rightarrow> error_response srv 404 (ToCode InvalidMethod) ''config api unavailable''
     | Some handle \<Rightarrow> read_body srv req (\<lambda>j. bind_io (handle j) (coded_response srv HttpStatusForSdkCode)))"

section \<open>Uploads, assets and pages\<close>

definition upload_route :: "'s SdkHttpServer \<Rightarrow> 's route" where
  "upload_route srv req =
     (case hs_image_upload srv of
        None \<Rightarrow> error_response srv 404 (ToCode InvalidMethod) ''image upload api unavailable''
      | Some handle \<Rightarrow> (case hr_file req of
          None \<Rightarrow> error_response srv 400 (ToCode InvalidParams) ''multipart field 'file' required''
        | Some (filename, content_type, content) \<Rightarrow>
            bind_io (handle (ExtractBearerToken (hr_authorization req)) filename content_type content) (\<lambda>result.
            if \<not> IsOkStatusCode (hu_code result)
            then error_response srv (HttpStatusForSdkCode (hu_code result)) (hu_code result) (hu_message result)
            else json_response srv 200 (cors_headers @ no_store) (hu_body result))))"

definition asset_type :: "SdkCaptureAsset \<Rightarrow> string" where
  "asset_type asset =
     (if as_content_type asset = [] then ''application/octet-stream'' else as_content_type asset)"

text \<open>\<open>disposition\<close>: how the browser is told to show the file.\<close>

definition asset_route :: "'s SdkHttpServer \<Rightarrow> (SdkCaptureAsset \<Rightarrow> string) \<Rightarrow> 's route" where
  "asset_route srv disposition req =
     (case hs_asset_resolver srv of
        None \<Rightarrow> error_response srv 404 (ToCode InvalidMethod) ''asset api unavailable''
      | Some resolve \<Rightarrow>
          bind_io (resolve (ExtractBearerToken (hr_authorization req)) (match_at req 1) (match_at req 2)) (\<lambda>result.
          if \<not> IsOkStatusCode (hx_code result)
          then error_response srv (HttpStatusForSdkCode (hx_code result)) (hx_code result) (hx_message result)
          else let asset = hx_asset result in
            bind_io (gets_io (\<lambda>s. as_path asset \<noteq> [] \<and> hs_file_exists srv s (as_path asset))) (\<lambda>exists.
            if \<not> exists then error_response srv 404 (ToCode InvalidParams) ''asset file not found''
            else ret \<lparr> hp_status = 200,
                       hp_headers = cors_headers @ no_store @ [(''Content-Disposition'', disposition asset)],
                       hp_content = FileContent (as_path asset) (asset_type asset) \<rparr>)))"

definition attachment :: "SdkCaptureAsset \<Rightarrow> string" where
  "attachment asset = ''attachment; filename='' @ [CHR 0x22] @ as_asset_id asset @ [CHR 0x22]"

definition options_route :: "'s route" where
  "options_route req = ret \<lparr> hp_status = 204, hp_headers = cors_headers, hp_content = NoContent \<rparr>"

definition page_not_found :: http_response where
  "page_not_found = \<lparr> hp_status = 404, hp_headers = [],
     hp_content = TextContent ''Not Found'' ''text/plain; charset=utf-8'' \<rparr>"

definition page_route :: "'s SdkHttpServer \<Rightarrow> 's route" where
  "page_route srv req =
     (if \<not> ShouldServeSpaFallback (hr_path req) (hr_accept req) then ret page_not_found
      else let index = JoinPath_http (hs_document_root srv) ''index.html'' in
        bind_io (gets_io (\<lambda>s. hs_file_exists srv s index)) (\<lambda>exists.
        ret (if \<not> exists then page_not_found
             else \<lparr> hp_status = 200, hp_headers = no_store, hp_content = FileContent index ''text/html'' \<rparr>)))"

section \<open>The table of routes\<close>

definition ConfigureRoutes :: "'s SdkHttpServer \<Rightarrow> (string \<times> string \<times> 's route) list" where
  "ConfigureRoutes srv =
     [(''GET'', ''/healthz'', health_route srv),
      (''GET'', ''/api/status'', supply_route srv (hs_status srv)),
      (''GET'', ''/api/system'', supply_route srv (hs_system srv)),
      (''GET'', ''/api/auth'', supply_route srv (hs_auth srv)),
      (''POST'', ''/api/auth/sessions/([^/]+)/offline-activation'', activation_route srv),
      (''GET'', ''/api/logs'', supply_route srv (hs_logs srv)),
      (''GET'', ''/api/logs/([^/]+)'', log_route srv),
      (''GET'', ''/api/records'', supply_route srv (hs_records srv)),
      (''GET'', ''/api/config'', config_route srv),
      (''POST'', ''/api/config'', config_update_route srv),
      (''POST'', ''/api/uploads/(images|files)'', upload_route srv),
      (''GET'', ''/api/assets/([^/]+)/([^/]+)/download'', asset_route srv attachment),
      (''GET'', ''/api/assets/([^/]+)/([^/]+)'', asset_route srv (\<lambda>_. ''inline'')),
      (''OPTIONS'', ''/api/assets/.*'', options_route),
      (''OPTIONS'', ''/api/uploads/.*'', options_route),
      (''OPTIONS'', ''/api/config'', options_route),
      (''OPTIONS'', ''/api/(system|auth|logs|records).*'', options_route)] @
     (if hs_mount_static_site srv then [(''GET'', ''/.*'', page_route srv)] else [])"

text \<open>The first route whose pattern matches the path, with its groups.\<close>

definition serve :: "'s SdkHttpServer \<Rightarrow> string \<Rightarrow> http_request \<Rightarrow> ('s, http_response) io" where
  "serve srv verb req =
     (case find (\<lambda>(v, pattern, _). v = verb \<and> hs_matches srv pattern (hr_path req) \<noteq> None) (ConfigureRoutes srv) of
        None \<Rightarrow> ret page_not_found
      | Some (v, pattern, route) \<Rightarrow> route (req\<lparr>hr_matches := the (hs_matches srv pattern (hr_path req))\<rparr>))"

section \<open>Listeners\<close>

text \<open>Whether the server runs, and its listeners, \<^const>\<open>True\<close> for TLS.  A listener is refused when its routes
  cannot be set, its TLS context is not valid or its port cannot be bound.\<close>

record http_listeners =
  hl_tls_config :: SdkTlsConfig
  hl_running :: bool
  hl_listeners :: "bool list"

definition new_http_listeners :: "SdkTlsConfig \<Rightarrow> http_listeners" where
  "new_http_listeners tls = \<lparr> hl_tls_config = tls, hl_running = False, hl_listeners = [] \<rparr>"

definition StartListener_http :: "bool \<Rightarrow> bool \<Rightarrow> http_listeners \<Rightarrow> bool \<times> http_listeners" where
  "StartListener_http accepted tls h =
     (if accepted then (True, h\<lparr>hl_listeners := hl_listeners h @ [tls]\<rparr>) else (False, h))"

definition Stop_http :: "http_listeners \<Rightarrow> http_listeners" where
  "Stop_http h = h\<lparr> hl_running := False, hl_listeners := [] \<rparr>"

definition Start_http :: "bool \<Rightarrow> listen_outcome \<Rightarrow> http_listeners \<Rightarrow> bool \<times> http_listeners" where
  "Start_http tls_build outcome h =
     (if hl_running h then (True, h)
      else case StartListener_http (lo_plain outcome) False (h\<lparr>hl_running := True\<rparr>) of
        (False, h) \<Rightarrow> (False, Stop_http h)
      | (True, h) \<Rightarrow>
          if \<not> tc_enabled (hl_tls_config h) then (True, h)
          else if \<not> tls_build then (False, Stop_http h)
          else case StartListener_http (lo_context outcome \<and> lo_tls outcome) True h of
            (False, h) \<Rightarrow> (False, Stop_http h)
          | (True, h) \<Rightarrow> (True, h))"

definition ReloadTls_http :: "bool \<Rightarrow> listen_outcome \<Rightarrow> http_listeners \<Rightarrow> bool \<times> http_listeners" where
  "ReloadTls_http tls_build outcome h =
     (if \<not> tc_enabled (hl_tls_config h) then (True, h)
      else Start_http tls_build outcome (if hl_running h then Stop_http h else h))"

end
