(* ===== verification/Sdk_Host.thy ===== *)
theory Sdk_Host
  imports Http_Server Tls_Journal
begin

text \<open>
  What the application tells the admin pages of the machine, the logs and the activation of a session
  (the helpers of \<open>runtime/sdk_app.cpp\<close>, on Linux), and the service behind the pages
  (\<open>application/admin_application_service.cpp\<close>).  What the system calls answer is the record
  \<open>host_info\<close>, the build's numbers are \<open>version_info\<close>.
\<close>

section \<open>The machine\<close>

record version_info =
  vi_version :: string
  vi_build :: int
  vi_stage :: string
  vi_interval :: string
  vi_build_date :: string
  vi_build_time :: string
  vi_git_commit :: string

record host_info =
  ho_pid :: int
  ho_executable_path :: string
  ho_uname :: "(string \<times> string \<times> string \<times> string \<times> string) option"
  ho_sysinfo :: "(nat \<times> nat \<times> nat) option"
  ho_cpuinfo :: "string option"
  ho_cores :: int
  ho_disk :: "(nat \<times> nat) option"
  ho_mtime :: "string \<Rightarrow> int"
  ho_log_dir :: string
  ho_log_path :: string

text \<open>The value after the colon of the first \<open>model name\<close> line that has one; the colon is looked for
  in the whole line.\<close>

fun first_cpu_model :: "string list \<Rightarrow> string" where
  "first_cpu_model [] = []"
| "first_cpu_model (l # ls) =
     (let after = drop 1 (dropWhile (\<lambda>c. c \<noteq> CHR '':'') l) in
      if take 10 l = ''model name'' \<and> after \<noteq> [] then dropWhile (\<lambda>c. c = CHR '' '') after
      else first_cpu_model ls)"

definition ReadFirstCpuModel :: "host_info \<Rightarrow> string" where
  "ReadFirstCpuModel h = (case ho_cpuinfo h of None \<Rightarrow> [] | Some text \<Rightarrow> first_cpu_model (getlines text))"

definition os_json :: "host_info \<Rightarrow> json" where
  "os_json h = (case ho_uname h of
       None \<Rightarrow> obj []
     | Some (sysname, release, version, machine, nodename) \<Rightarrow> obj
         [(''sysname'', JString sysname), (''release'', JString release), (''version'', JString version),
          (''machine'', JString machine), (''nodename'', JString nodename)])"

definition hardware_json :: "host_info \<Rightarrow> json" where
  "hardware_json h = obj
     ((case ho_sysinfo h of
         None \<Rightarrow> []
       | Some (ram, free, uptime) \<Rightarrow>
           [(''memoryTotalBytes'', jnat ram), (''memoryFreeBytes'', jnat free), (''uptimeSec'', jnat uptime)]) @
      [(''cpuModel'', JString (ReadFirstCpuModel h)), (''cpuCores'', JInt (ho_cores h))] @
      (case ho_disk h of
         None \<Rightarrow> []
       | Some (blocks, free) \<Rightarrow> [(''workDirDiskTotalBytes'', jnat blocks), (''workDirDiskFreeBytes'', jnat free)]))"

section \<open>Logs\<close>

definition FileMtime :: "host_info \<Rightarrow> os_env \<Rightarrow> string \<Rightarrow> 'e world \<Rightarrow> int" where
  "FileMtime h os path w = (if FileExists os path w then ho_mtime h (os_canon os path) else 0)"

definition ReadFileTail :: "os_env \<Rightarrow> string \<Rightarrow> nat \<Rightarrow> 'e world \<Rightarrow> string" where
  "ReadFileTail os path tail_bytes w =
     (case w_files w (os_canon os path) of
        None \<Rightarrow> []
      | Some content \<Rightarrow> drop (if length content > tail_bytes then length content - tail_bytes else 0) content)"

definition LogPathForId :: "host_info \<Rightarrow> string \<Rightarrow> string" where
  "LogPathForId h log_id =
     (if log_id = ''sdk_open_runtime'' then ho_log_path h
      else if log_id = ''sdk_private_main'' then JoinPath (ho_log_dir h) ''sdk_private_main.log''
      else if log_id = ''sdk_private_devices'' then JoinPath (ho_log_dir h) ''sdk_private_devices.log''
      else if log_id = ''sdk_private_auth_manager'' then JoinPath (ho_log_dir h) ''sdk_private_auth_manager.log''
      else if log_id = ''czcv_sdk'' then JoinPath (ho_log_dir h) ''czcv_sdk.log''
      else [])"

definition LogDescriptor :: "host_info \<Rightarrow> os_env \<Rightarrow> string \<Rightarrow> string \<Rightarrow> 'e world \<Rightarrow> json" where
  "LogDescriptor h os log_id label w =
     (let path = LogPathForId h log_id in obj
        [(''id'', JString log_id), (''label'', JString label), (''path'', JString path),
         (''exists'', JBool (FileExists os path w)), (''size'', jnat (FileSize os path w)),
         (''mtime'', JInt (FileMtime h os path w))])"

definition BuildLogsJson :: "host_info \<Rightarrow> os_env \<Rightarrow> 'e world \<Rightarrow> json" where
  "BuildLogsJson h os w = obj
     [(''logDir'', JString (ho_log_dir h)),
      (''logs'', JArray (map (\<lambda>(log_id, label). LogDescriptor h os log_id label w)
         [(''sdk_open_runtime'', ''SDK Open Runtime''), (''sdk_private_main'', ''SDK Private Main''),
          (''sdk_private_devices'', ''SDK Private Devices''), (''sdk_private_auth_manager'', ''SDK Private Auth Manager'')]))]"

definition BuildLogReadJson :: "host_info \<Rightarrow> os_env \<Rightarrow> string \<Rightarrow> nat \<Rightarrow> 'e world \<Rightarrow> json" where
  "BuildLogReadJson h os log_id tail_bytes w =
     (let path = LogPathForId h log_id in
      if path = [] then BuildErrorBody (ToCode InvalidParams) ''unknown log id'' (obj [])
      else if \<not> FileExists os path w
      then BuildErrorBody (ToCode InvalidParams) ''log file not found''
             (obj [(''id'', JString log_id), (''path'', JString path)])
      else obj [(''code'', JInt (ToCode Ok)), (''message'', JString ''ok''), (''id'', JString log_id),
                (''path'', JString path), (''size'', jnat (FileSize os path w)),
                (''mtime'', JInt (FileMtime h os path w)), (''tailBytes'', jnat tail_bytes),
                (''content'', JString (ReadFileTail os path tail_bytes w))])"

section \<open>The address of the activation page\<close>

definition ObjectField :: "json \<Rightarrow> string \<Rightarrow> json" where
  "ObjectField j key = (case jfind j key of Some (JObject m) \<Rightarrow> JObject m | _ \<Rightarrow> obj [])"

definition StringOrUnknown :: "string \<Rightarrow> string" where
  "StringOrUnknown value = (if value = [] then ''unknown'' else value)"

definition JoinNonEmpty :: "string list \<Rightarrow> string \<Rightarrow> string" where
  "JoinNonEmpty values separator =
     foldl (\<lambda>joined v. if v = [] then joined else (if joined = [] then [] else joined @ separator) @ v) [] values"

definition upper_hex :: "nat \<Rightarrow> char" where
  "upper_hex n = ''0123456789ABCDEF'' ! n"

definition url_char :: "char \<Rightarrow> string" where
  "url_char c =
     (if is_alnum c \<or> c \<in> {CHR ''-'', CHR ''_'', CHR ''.'', CHR ''~''} then [c]
      else [CHR ''%'', upper_hex (of_char c div 16), upper_hex (of_char c mod 16)])"

definition UrlEncode :: "string \<Rightarrow> string" where
  "UrlEncode value = concat (map url_char value)"

text \<open>The bytes of the Chinese name of the platform.\<close>

definition platform_name :: string where
  "platform_name = ''SDK'' @ [CHR 0xE5, CHR 0xBC, CHR 0x80, CHR 0xE6, CHR 0x94, CHR 0xBE,
     CHR 0xE5, CHR 0xB9, CHR 0xB3, CHR 0xE5, CHR 0x8F, CHR 0xB0]"

definition to_uint64 :: "int \<Rightarrow> int" where
  "to_uint64 i = i mod 2 ^ 64"

definition activation_extra :: "json \<Rightarrow> json \<Rightarrow> ('s, json) io" where
  "activation_extra session system =
     (let process = ObjectField system ''process''; os = ObjectField system ''os'';
          hardware = ObjectField system ''hardware'' in
      bind_io (int_value to_int32 session ''accountTypeCode'' (-1)) (\<lambda>tier_code.
      bind_io (int_value to_int32 session ''licensedAccountTypeCode'' (-1)) (\<lambda>licensed_code.
      bind_io (int_value to_int32 hardware ''cpuCores'' 0) (\<lambda>cores.
      bind_io (int_value to_uint64 hardware ''memoryTotalBytes'' 0) (\<lambda>memory.
      bind_io (int_value to_int32 process ''pid'' 0) (\<lambda>pid.
      ret (obj
        [(''source'', JString ''sdk_open_admin''), (''platform'', JString platform_name),
         (''runtime'', JString ''sdk_open''), (''hostname'', JString (StringField os ''nodename'')),
         (''apiKeyTier'', JString (StringField session ''accountType'')), (''apiKeyTierCode'', JInt tier_code),
         (''licensedTier'', JString (StringField session ''licensedAccountType'')),
         (''licensedTierCode'', JInt licensed_code),
         (''hardware'', obj [(''cpuModel'', JString (StringField hardware ''cpuModel'')), (''cpuCores'', JInt cores),
                             (''memoryTotalBytes'', JInt memory)]),
         (''process'', obj [(''pid'', JInt pid),
                            (''executablePath'', JString (StringField process ''executablePath''))])])))))))"

definition BuildActivationQrUrl :: "(json \<Rightarrow> exn + string) \<Rightarrow> json \<Rightarrow> json \<Rightarrow> ('s, string) io" where
  "BuildActivationQrUrl dump session system =
     (let machine_code = StringField session ''machineCode''; software = ObjectField system ''software'';
          os = ObjectField system ''os'';
          os_label = JoinNonEmpty [StringField os ''sysname'', StringField os ''release'', StringField os ''version''] '' ''
      in if machine_code = [] then ret []
         else bind_io (activation_extra session system) (\<lambda>extra.
           bind_io (int_value to_int32 session ''accountTypeCode'' (-1)) (\<lambda>tier_code.
           case dump extra of
             Inl e \<Rightarrow> throw e
           | Inr extra_text \<Rightarrow> ret
               (''https://rainbow.czur.com/mp/auth/code'' @
                ''?code='' @ UrlEncode machine_code @
                ''&arch='' @ UrlEncode (StringOrUnknown (StringField os ''machine'')) @
                ''&os='' @ UrlEncode (StringOrUnknown os_label) @
                ''&kernel='' @ UrlEncode (StringOrUnknown (StringField os ''release'')) @
                ''&sv='' @ UrlEncode (StringOrUnknown (StringField software ''version'')) @
                ''&tier='' @ UrlEncode (StringOrUnknown (StringField session ''accountType'')) @
                ''&tier_code='' @ UrlEncode (to_string tier_code) @
                ''&extra='' @ UrlEncode extra_text))))"

section \<open>The service behind the admin pages\<close>

record 's AdminApplicationService =
  aj_status :: "('s, json) io option"
  aj_system :: "('s, json) io option"
  aj_auth :: "('s, json) io option"
  aj_logs :: "('s, json) io option"
  aj_log_read :: "(string \<Rightarrow> nat \<Rightarrow> ('s, json) io) option"
  aj_records :: "('s, json) io option"
  aj_offline_activation :: "(string \<Rightarrow> json \<Rightarrow> ('s, json) io) option"
  aj_config :: "('s, json) io option"
  aj_update_config :: "(json \<Rightarrow> ('s, json) io) option"

definition BuildHealthJson :: "('s \<Rightarrow> int) \<Rightarrow> ('s, json) io" where
  "BuildHealthJson now = gets_io (\<lambda>s. obj
     [(''ok'', JBool True), (''service'', JString ''sdk_open''), (''ts'', JInt (now s))])"

definition supplied_json :: "('s, json) io option \<Rightarrow> ('s, json) io" where
  "supplied_json supplier = supplied supplier (obj [])"

definition BuildLogReadJson_admin :: "'s AdminApplicationService \<Rightarrow> string \<Rightarrow> nat \<Rightarrow> ('s, json) io" where
  "BuildLogReadJson_admin a log_id tail_bytes =
     (case aj_log_read a of Some handle \<Rightarrow> handle log_id tail_bytes | None \<Rightarrow> ret (obj []))"

definition ActivateOfflineSessionJson_admin :: "'s AdminApplicationService \<Rightarrow> string \<Rightarrow> json \<Rightarrow> ('s, json) io" where
  "ActivateOfflineSessionJson_admin a connection_id request =
     (case aj_offline_activation a of
        Some handle \<Rightarrow> handle connection_id request
      | None \<Rightarrow> ret (BuildErrorBody (ToCode InvalidMethod) ''offline activation api unavailable'' (obj [])))"

definition UpdateConfigJson_admin :: "'s AdminApplicationService \<Rightarrow> json \<Rightarrow> ('s, json) io" where
  "UpdateConfigJson_admin a request =
     (case aj_update_config a of Some handle \<Rightarrow> handle request | None \<Rightarrow> ret (obj []))"

end
