(* ===== verification/Sdk_App.thy ===== *)
theory Sdk_App
  imports Sdk_Host Ws_Video Command_Dispatch
begin

text \<open>
  The application (\<open>runtime/sdk_app.cpp\<close>): the command service, the records and the five servers, wired as
  the constructor wires them.  The records and the servers are what lies outside the command service
  (\<^const>\<open>w_ext\<close> of its world), so that its sinks act on them; \<open>tr_rest\<close> is the rest of the world.  What the
  WebSocket library was given to send is \<open>tr_sent\<close>, in the order in which it was handed over or posted to the
  server's thread (an event posted while a request is handled is sent after its answer).  An exception on the thread of a server that
  nothing catches ends the process: \<open>tr_terminated\<close>.
\<close>

section \<open>State\<close>

datatype channel = CommandChannel | VideoChannel

datatype sent =
    SentText channel "nat \<times> ListenerKind" string
  | SentBinary channel "nat \<times> ListenerKind" string
  | SentClose channel "nat \<times> ListenerKind"

record 'x transports =
  tr_records :: RuntimeRecordService
  tr_admin_http :: http_listeners
  tr_demo_http :: http_listeners
  tr_asset_http :: http_listeners
  tr_command_ws :: SdkWsCommandServer
  tr_video_ws :: SdkWsVideoServer
  tr_sent :: "sent list"
  tr_terminated :: bool
  tr_rest :: 'x

record 'x SdkApp =
  xa_service :: "'x transports CommandApplicationService"
  xa_running :: bool
  xa_monitor :: bool
  xa_start_time :: int

text \<open>\<open>xe_print\<close> is the JSON printer that throws on a text that is not UTF-8, \<open>xe_preview\<close> the one that
  replaces; \<open>xe_sends\<close> whether the WebSocket library takes a text (or bytes) for a viewer, \<open>xe_tls_valid\<close> the
  check of the TLS files; the time of \<^const>\<open>ce_steady\<close> is in milliseconds.\<close>

record 'x app_env =
  xe_cmd :: "'x transports cmd_env"
  xe_print :: "json \<Rightarrow> exn + string"
  xe_preview :: "json \<Rightarrow> string"
  xe_provider_names :: json
  xe_http_enabled :: bool
  xe_tls_build :: bool
  xe_tls_valid :: "SdkTlsConfig \<Rightarrow> bool"
  xe_sends :: "nat \<Rightarrow> bool \<Rightarrow> bool"
  xe_host :: host_info
  xe_version :: version_info
  xe_matches :: "string \<Rightarrow> string \<Rightarrow> string list option"

abbreviation app_config :: "'x app_env \<Rightarrow> SdkConfig" where
  "app_config env \<equiv> ce_config (xe_cmd env)"

definition new_transports :: "SdkConfig \<Rightarrow> 'x \<Rightarrow> 'x transports" where
  "new_transports config rest =
     \<lparr> tr_records = new_RuntimeRecordService 256,
       tr_admin_http = new_http_listeners default_SdkTlsConfig,
       tr_demo_http = new_http_listeners default_SdkTlsConfig,
       tr_asset_http = new_http_listeners (sc_tls config),
       tr_command_ws = new_SdkWsCommandServer (sc_bind_host config) (sc_command_ws_port config) (sc_tls config),
       tr_video_ws = new_SdkWsVideoServer (sc_bind_host config) (sc_video_ws_port config) (sc_tls config),
       tr_sent = [], tr_terminated = False, tr_rest = rest \<rparr>"

text \<open>The constructor, over a world with the rest \<open>w\<close>.\<close>

definition new_SdkApp :: "'x app_env \<Rightarrow> 'x world \<Rightarrow> int \<Rightarrow> 'x SdkApp" where
  "new_SdkApp env w start_time =
     (let config = app_config env;
          runtime_config = new_RuntimeConfigService (sc_online_image_enhance_base_url config) (sc_authz_base_url config);
          outer = \<lparr> w_files = w_files w, w_dirs = w_dirs w, w_calls = w_calls w,
                    w_ext = new_transports config (w_ext w) \<rparr>
      in \<lparr> xa_service = SetProviderNames (xe_provider_names env)
                          (new_CommandApplicationService (xe_cmd env) (Some runtime_config) outer),
           xa_running = False, xa_monitor = False, xa_start_time = start_time \<rparr>)"

definition app_world :: "'x SdkApp \<Rightarrow> 'x transports world" where
  "app_world ap = the_world (xa_service ap)"

definition put_world :: "'x transports world \<Rightarrow> 'x SdkApp \<Rightarrow> 'x SdkApp" where
  "put_world w ap = ap\<lparr>xa_service := (xa_service ap)\<lparr>cm_auth := (cm_auth (xa_service ap))\<lparr>au_outside := w\<rparr>\<rparr>\<rparr>"

definition servers :: "'x SdkApp \<Rightarrow> 'x transports" where
  "servers ap = w_ext (app_world ap)"

definition put_servers :: "'x transports \<Rightarrow> 'x SdkApp \<Rightarrow> 'x SdkApp" where
  "put_servers t ap = put_world ((app_world ap)\<lparr>w_ext := t\<rparr>) ap"

definition on_service :: "('x transports, 'a) cmd \<Rightarrow> ('x SdkApp, 'a) io" where
  "on_service m ap = (case m (xa_service ap) of (r, s) \<Rightarrow> (r, ap\<lparr>xa_service := s\<rparr>))"

definition on_world :: "('x transports world, 'a) io \<Rightarrow> ('x SdkApp, 'a) io" where
  "on_world m = on_service (on_outside m)"

text \<open>A step of the servers, seen from the command service's world.\<close>

definition on_servers :: "('x transports \<Rightarrow> 'x transports) \<Rightarrow> ('x transports world, unit) io" where
  "on_servers f = modify_io (\<lambda>w. w\<lparr>w_ext := f (w_ext w)\<rparr>)"

definition sending :: "sent list \<Rightarrow> 'x transports \<Rightarrow> 'x transports" where
  "sending outs t = t\<lparr>tr_sent := tr_sent t @ outs\<rparr>"

section \<open>The sinks of the command service\<close>

definition record_event ::
    "'x app_env \<Rightarrow> string \<Rightarrow> string \<Rightarrow> string \<Rightarrow> string \<Rightarrow> int \<Rightarrow> json \<Rightarrow> ('x transports world, unit) io" where
  "record_event env source connection_id name message code payload =
     bind_io (gets_io (ce_now (xe_cmd env))) (\<lambda>now. on_servers (\<lambda>t. t\<lparr>tr_records :=
       RecordRuntimeEvent (xe_preview env) now source connection_id name message code payload (tr_records t)\<rparr>))"

text \<open>The event is printed on the thread of the server, outside any handler of exceptions.\<close>

definition send_event :: "'x app_env \<Rightarrow> string \<Rightarrow> json \<Rightarrow> 'x transports \<Rightarrow> 'x transports" where
  "send_event env connection_id event t =
     (case SendEvent connection_id (tr_command_ws t) of
        None \<Rightarrow> t
      | Some target \<Rightarrow> (case xe_print env event of
          Inl _ \<Rightarrow> t\<lparr>tr_terminated := True\<rparr>
        | Inr text \<Rightarrow> sending [SentText CommandChannel target text] t))"

definition command_event_sink :: "'x app_env \<Rightarrow> string \<Rightarrow> json \<Rightarrow> ('x transports world, unit) io" where
  "command_event_sink env connection_id event =
     bind_io (text_value event ''event'' ''event'') (\<lambda>name.
     bind_io (text_value event ''message'' ''ok'') (\<lambda>message.
     bind_io (int_value to_int32 event ''code'' 0) (\<lambda>code.
     seq_io (record_event env ''command_ws'' connection_id name message code event)
       (on_servers (send_event env connection_id event)))))"

definition send_frame :: "'x app_env \<Rightarrow> string \<Rightarrow> string \<Rightarrow> nat \<times> ListenerKind \<Rightarrow> 'x transports \<Rightarrow> 'x transports" where
  "send_frame env meta payload target t =
     (if \<not> xe_sends env (fst target) False then t
      else let t = sending [SentText VideoChannel target meta] t in
        if \<not> xe_sends env (fst target) True then t
        else sending [SentBinary VideoChannel target payload] t
               \<lparr>tr_video_ws := (tr_video_ws t)\<lparr>vw_impl := map_option (frame_delivered payload) (vw_impl (tr_video_ws t))\<rparr>\<rparr>)"

definition publish_frame :: "'x app_env \<Rightarrow> SdkVideoFrame \<Rightarrow> ('x transports world, unit) io" where
  "publish_frame env frame =
     bind_io (gets_io (\<lambda>w. PublishFrame (ce_now (xe_cmd env) w) frame (tr_video_ws (w_ext w)))) (\<lambda>r. case r of
       None \<Rightarrow> ret ()
     | Some (targets, meta, payload) \<Rightarrow> (case xe_print env meta of
         Inl e \<Rightarrow> throw e
       | Inr text \<Rightarrow> on_servers (fold (send_frame env text payload) targets)))"

definition video_frame_sink :: "'x app_env \<Rightarrow> SdkVideoFrame \<Rightarrow> ('x transports world, unit) io" where
  "video_frame_sink env frame =
     seq_io (record_event env ''video_ws'' [] ''stream.frame'' ''video frame published'' 0
               (obj [(''stream_id'', JString (vf_stream_id frame)), (''frame_seq'', jnat (vf_frame_seq frame)),
                     (''bytes'', jnat (length (vf_payload frame)))]))
       (publish_frame env frame)"

definition stream_closed_sink :: "'x app_env \<Rightarrow> string \<Rightarrow> ('x transports world, unit) io" where
  "stream_closed_sink env stream_id =
     seq_io (record_event env ''video_ws'' [] ''stream.closed'' ''video stream closed'' 0
               (obj [(''stream_id'', JString stream_id)]))
       (on_servers (\<lambda>t. sending (map (SentClose VideoChannel) (CloseStream stream_id (tr_video_ws t))) t))"
section \<open>What the admin pages read\<close>

definition UptimeSeconds :: "'x app_env \<Rightarrow> 'x SdkApp \<Rightarrow> nat" where
  "UptimeSeconds env ap =
     (if \<not> xa_running ap then 0
      else nat ((ce_steady (xe_cmd env) (app_world ap) - xa_start_time ap) div 1000))"

definition ports_json :: "SdkConfig \<Rightarrow> json" where
  "ports_json c = obj
     [(''adminHttp'', jnat (sc_admin_http_port c)), (''demoHttp'', jnat (sc_demo_http_port c)),
      (''assetHttp'', jnat (sc_asset_http_port c)), (''commandWs'', jnat (sc_command_ws_port c)),
      (''videoWs'', jnat (sc_video_ws_port c)), (''assetHttps'', jnat (tc_asset_https_port (sc_tls c))),
      (''commandWss'', jnat (tc_command_wss_port (sc_tls c))), (''videoWss'', jnat (tc_video_wss_port (sc_tls c)))]"

definition tls_bind_host :: "SdkConfig \<Rightarrow> string" where
  "tls_bind_host c = (if tc_bind_host (sc_tls c) = [] then sc_bind_host c else tc_bind_host (sc_tls c))"

definition tls_endpoint_json :: "SdkConfig \<Rightarrow> string \<Rightarrow> nat \<Rightarrow> json" where
  "tls_endpoint_json c scheme port = obj
     [(''enabled'', JBool (tc_enabled (sc_tls c))), (''scheme'', JString scheme), (''port'', jnat port)]"

definition IsEnvConfigured :: "(string \<Rightarrow> string option) \<Rightarrow> string \<Rightarrow> bool" where
  "IsEnvConfigured getenv name = (case getenv name of None \<Rightarrow> False | Some value \<Rightarrow> value \<noteq> [])"

definition ws_stats_json :: "'x transports \<Rightarrow> json" where
  "ws_stats_json t =
     (case (GetStats_ws_command (tr_command_ws t), GetStats_ws_video (tr_video_ws t)) of
        ((active, refused, requests), (watching, refused_viewers, frames, bytes)) \<Rightarrow> obj
          [(''command'', obj [(''activeConnections'', jnat active), (''authFailed'', jnat refused),
                              (''requestCount'', jnat requests)]),
           (''video'', obj [(''activeConnections'', jnat watching), (''authFailed'', jnat refused_viewers),
                            (''binaryFrames'', jnat frames), (''binaryBytes'', jnat bytes)])])"

definition BuildStatusJson :: "'x app_env \<Rightarrow> 'x SdkApp \<Rightarrow> json" where
  "BuildStatusJson env ap =
     (let c = app_config env; tls = sc_tls c; getenv = ce_getenv (xe_cmd env) in obj
        [(''running'', JBool (xa_running ap)), (''uptimeSec'', jnat (UptimeSeconds env ap)),
         (''bindHost'', JString (sc_bind_host c)),
         (''software'', obj [(''version'', JString (vi_version (xe_version env))),
            (''build'', JInt (vi_build (xe_version env))), (''protocolVersion'', JString ''2.0.0'')]),
         (''process'', obj [(''pid'', JInt (ho_pid (xe_host env))),
            (''executablePath'', JString (ho_executable_path (xe_host env)))]),
         (''http'', obj [(''enabled'', JBool (xe_http_enabled env)),
            (''sites'', obj [(''admin'', jnat (sc_admin_http_port c)), (''demo'', jnat (sc_demo_http_port c)),
                             (''asset'', jnat (sc_asset_http_port c))]),
            (''assetBaseUrl'', JString (BuildSdkAssetBaseUrl c))]),
         (''ports'', ports_json c),
         (''tls'', obj [(''enabled'', JBool (tc_enabled tls)), (''bindHost'', JString (tls_bind_host c)),
            (''endpoints'', obj
               [(''assetHttps'', tls_endpoint_json c ''https'' (tc_asset_https_port tls)),
                (''commandWss'', tls_endpoint_json c ''wss'' (tc_command_wss_port tls)),
                (''videoWss'', tls_endpoint_json c ''wss'' (tc_video_wss_port tls))])]),
         (''providers'', xe_provider_names env),
         (''authDiagnostics'', obj
            [(''authzBaseUrlConfigured'', JBool (IsEnvConfigured getenv ''CZUR_SDK_AUTHZ_BASE_URL'')),
             (''imageEnhanceBaseUrlConfigured'', JBool (IsEnvConfigured getenv ''CZUR_SDK_IMAGE_ENHANCE_BASE_URL''))]),
         (''ws'', ws_stats_json (servers ap)),
         (''application'', obj
            [(''boundSessions'', jnat (ActiveSessionCount (cm_auth (xa_service ap)))),
             (''activeStreams'', jnat (ActiveStreamCount (cm_video (xa_service ap))))])])"

definition BuildSystemJson :: "'x app_env \<Rightarrow> 'x SdkApp \<Rightarrow> json" where
  "BuildSystemJson env ap =
     (let c = app_config env; h = xe_host env; v = xe_version env in obj
        [(''software'', obj [(''name'', JString ''sdk_open''), (''version'', JString (vi_version v)),
            (''build'', JInt (vi_build v)), (''stage'', JString (vi_stage v)), (''interval'', JString (vi_interval v)),
            (''protocolVersion'', JString ''2.0.0''), (''buildDate'', JString (vi_build_date v)),
            (''buildTime'', JString (vi_build_time v)), (''gitCommit'', JString (vi_git_commit v))]),
         (''process'', obj [(''pid'', JInt (ho_pid h)), (''executablePath'', JString (ho_executable_path h)),
            (''uptimeSec'', jnat (UptimeSeconds env ap))]),
         (''os'', os_json h), (''hardware'', hardware_json h),
         (''runtime'', obj [(''workDir'', JString (ce_work_dir (xe_cmd env))), (''logDir'', JString (ho_log_dir h)),
            (''webRoot'', JString (sc_web_root c)), (''httpEnabled'', JBool (xe_http_enabled env)),
            (''tlsEnabled'', JBool (tc_enabled (sc_tls c)))]),
         (''ports'', ports_json c),
         (''tls'', obj [(''enabled'', JBool (tc_enabled (sc_tls c))), (''bindHost'', JString (tls_bind_host c))])])"

text \<open>Each session that must be activated offline gets the address of its activation page.\<close>

definition with_qr_url :: "(json \<Rightarrow> exn + string) \<Rightarrow> json \<Rightarrow> json \<Rightarrow> ('s, json) io" where
  "with_qr_url print system session =
     (if \<not> is_object session then ret session
      else case jfind session ''offlineActivationRequired'' of
        None \<Rightarrow> ret session
      | Some (JBool False) \<Rightarrow> ret session
      | Some (JBool True) \<Rightarrow>
          bind_io (BuildActivationQrUrl print session system) (\<lambda>url.
          ret (set_member ''activationQrUrl'' (JString url) session))
      | Some other \<Rightarrow>
          throw (StdException (''[json.exception.type_error.302] type must be boolean, but is '' @ type_name other)))"

fun each_session :: "(json \<Rightarrow> ('s, json) io) \<Rightarrow> json list \<Rightarrow> ('s, json list) io" where
  "each_session f [] = ret []"
| "each_session f (j # js) = bind_io (f j) (\<lambda>k. bind_io (each_session f js) (\<lambda>ks. ret (k # ks)))"

definition BuildAuthJson :: "'x app_env \<Rightarrow> ('x SdkApp, json) io" where
  "BuildAuthJson env =
     bind_io (on_service BuildAdminAuthJson) (\<lambda>auth.
     bind_io (gets_io (BuildSystemJson env)) (\<lambda>system.
     case jfind auth ''sessions'' of
       Some (JArray sessions) \<Rightarrow>
         bind_io (each_session (with_qr_url (xe_print env) system) sessions) (\<lambda>sessions.
         ret (set_member ''sessions'' (JArray sessions) auth))
     | _ \<Rightarrow> ret auth))"

section \<open>Wiring\<close>

text \<open>The status supplier reads the whole application; a request does not change what it reads of it beside
  the world, so the application of the request's start stands for it.\<close>

definition wired :: "'x app_env \<Rightarrow> 'x SdkApp \<Rightarrow> 'x transports cmd_env" where
  "wired env ap = (xe_cmd env)
     \<lparr> ce_status_supplier := Some (gets_io (\<lambda>w. BuildStatusJson env (put_world w ap))),
       ce_stream_closed_sink := Some (stream_closed_sink env),
       ce_event_sink := Some (command_event_sink env) \<rparr>"

definition wired_service :: "'x app_env \<Rightarrow> ('x transports cmd_env \<Rightarrow> ('x transports, 'a) cmd) \<Rightarrow> ('x SdkApp, 'a) io" where
  "wired_service env m ap = on_service (m (wired env ap)) ap"

definition command_opened_handler :: "'x app_env \<Rightarrow> string \<Rightarrow> ('x SdkApp, unit) io" where
  "command_opened_handler env connection_id = on_world
     (record_event env ''command_ws'' connection_id ''connection.open'' ''command websocket connected'' 0 (obj []))"

text \<open>\<open>lock_taken\<close>: as for \<^const>\<open>HandleRequest\<close>.\<close>

definition command_request_handler :: "'x app_env \<Rightarrow> bool \<Rightarrow> string \<Rightarrow> json \<Rightarrow> ('x SdkApp, json) io" where
  "command_request_handler env lock_taken connection_id request =
     bind_io (gets_io (\<lambda>ap. ce_steady (xe_cmd env) (app_world ap))) (\<lambda>begin_time.
     bind_io (wired_service env (\<lambda>e. HandleRequest e lock_taken connection_id request)) (\<lambda>response.
     bind_io (gets_io app_world) (\<lambda>w.
     seq_io (on_world (on_servers (\<lambda>t. t\<lparr>tr_records :=
               RecordCommandRequest (xe_preview env) (ce_now (xe_cmd env) w) connection_id request response
                 (nat (ce_steady (xe_cmd env) w - begin_time)) (tr_records t)\<rparr>)))
       (ret response))))"

definition command_closed_handler :: "'x app_env \<Rightarrow> string \<Rightarrow> ('x SdkApp, unit) io" where
  "command_closed_handler env connection_id =
     seq_io (on_world (record_event env ''command_ws'' connection_id ''connection.close'' ''command websocket disconnected''
                         0 (obj [])))
       (wired_service env (\<lambda>e. OnConnectionClosed e connection_id))"

definition video_auth_handler :: "'x app_env \<Rightarrow> string \<Rightarrow> string \<Rightarrow> ('x SdkApp, ConnectionAuthResult) io" where
  "video_auth_handler env session_token stream_id =
     bind_io (gets_io (\<lambda>ap. ValidateVideoStream session_token stream_id (xa_service ap))) (\<lambda>v.
     let result = \<lparr> ca_authorized = vr_authorized v, ca_code = vr_code v, ca_message = vr_message v,
                    ca_connection_id = sb_connection_id (vr_binding v), ca_stream_id = sb_stream_id (vr_binding v) \<rparr> in
     seq_io (on_world (record_event env ''video_ws'' (ca_connection_id result)
               (if ca_authorized result then ''connection.authorized'' else ''connection.rejected'')
               (ca_message result) (ca_code result) (obj [(''stream_id'', JString stream_id)])))
       (ret result))"
section \<open>The events of the connections\<close>

definition wire :: "'x app_env \<Rightarrow> 'x SdkApp wire_env" where
  "wire env = \<lparr> we_dump = xe_print env, we_parse = ce_parse (xe_cmd env),
     we_now = (\<lambda>ap. ce_now (xe_cmd env) (app_world ap)) \<rparr>"

definition map_servers :: "('x transports \<Rightarrow> 'x transports) \<Rightarrow> 'x SdkApp \<Rightarrow> 'x SdkApp" where
  "map_servers f ap = put_servers (f (servers ap)) ap"

definition map_command :: "(ws_command_impl \<Rightarrow> ws_command_impl) \<Rightarrow> 'x transports \<Rightarrow> 'x transports" where
  "map_command f t = t\<lparr>tr_command_ws := (tr_command_ws t)\<lparr>ws_impl := map_option f (ws_impl (tr_command_ws t))\<rparr>\<rparr>"

definition map_video :: "(ws_video_impl \<Rightarrow> ws_video_impl) \<Rightarrow> 'x transports \<Rightarrow> 'x transports" where
  "map_video f t = t\<lparr>tr_video_ws := (tr_video_ws t)\<lparr>vw_impl := map_option f (vw_impl (tr_video_ws t))\<rparr>\<rparr>"

text \<open>Events of a server that is not started do not happen.  Exceptions of the close handler are caught; one of the
  open handler, which only records, does not occur.\<close>

definition command_opened :: "'x app_env \<Rightarrow> ListenerKind \<Rightarrow> nat \<Rightarrow> 'x SdkApp \<Rightarrow> 'x SdkApp" where
  "command_opened env listener hdl ap =
     (case ws_impl (tr_command_ws (servers ap)) of
        None \<Rightarrow> ap
      | Some im \<Rightarrow> (case connection_opened listener hdl im of (connection_id, im) \<Rightarrow>
          snd (command_opened_handler env connection_id (map_servers (map_command (\<lambda>_. im)) ap))))"

definition command_closed :: "'x app_env \<Rightarrow> nat \<Rightarrow> 'x SdkApp \<Rightarrow> 'x SdkApp" where
  "command_closed env hdl ap =
     (case ws_impl (tr_command_ws (servers ap)) of
        None \<Rightarrow> ap
      | Some im \<Rightarrow> (case connection_closed hdl im of (connection_id, im) \<Rightarrow>
          let ap = map_servers (map_command (\<lambda>_. im)) ap in
          if connection_id = [] then ap else snd (command_closed_handler env connection_id ap)))"

text \<open>The answer goes to the connection of the message; a text the printer refuses in the server's own answers
  would end the process.\<close>

definition command_message :: "'x app_env \<Rightarrow> bool \<Rightarrow> ListenerKind \<Rightarrow> nat \<Rightarrow> ws_message \<Rightarrow> 'x SdkApp \<Rightarrow> 'x SdkApp" where
  "command_message env lock_taken listener hdl message ap =
     (case ws_impl (tr_command_ws (servers ap)) of
        None \<Rightarrow> ap
      | Some im \<Rightarrow>
          (case message_reply (wire env) (Some (command_request_handler env lock_taken)) (connection_id_of hdl im)
                  message (map_servers (map_command count_request) ap) of
             (Inl _, ap) \<Rightarrow> map_servers (\<lambda>t. t\<lparr>tr_terminated := True\<rparr>) ap
           | (Inr (text, refused), ap) \<Rightarrow>
               map_servers (\<lambda>t. sending [SentText CommandChannel (hdl, listener) text]
                 (if refused then map_command count_auth_failure t else t)) ap))"

definition viewer_asked ::
    "'x app_env \<Rightarrow> ListenerKind \<Rightarrow> nat \<Rightarrow> string \<Rightarrow> 'x SdkApp \<Rightarrow> (bool \<times> (int \<times> json) option) \<times> 'x SdkApp" where
  "viewer_asked env listener hdl query ap =
     (case video_auth_handler env (QueryValue query ''session_token'') (QueryValue query ''stream_id'') ap of
        (Inl _, ap) \<Rightarrow> ((False, None), ap)
      | (Inr result, ap) \<Rightarrow>
          (case vw_impl (tr_video_ws (servers ap)) of
             None \<Rightarrow> ((False, None), ap)
           | Some im \<Rightarrow> (case handshake (Some (\<lambda>_ _. result)) listener hdl query im of
               (answer, im) \<Rightarrow> (answer, map_servers (map_video (\<lambda>_. im)) ap))))"

definition viewer_entered :: "'x app_env \<Rightarrow> ListenerKind \<Rightarrow> nat \<Rightarrow> 'x SdkApp \<Rightarrow> 'x SdkApp" where
  "viewer_entered env listener hdl ap =
     (case vw_impl (tr_video_ws (servers ap)) of
        None \<Rightarrow> ap
      | Some im \<Rightarrow> (case viewer_opened hdl im of (stream_id, im) \<Rightarrow>
          map_servers (\<lambda>t. case xe_print env (BuildWsEvent (ce_now (xe_cmd env) (app_world ap)) ''video.ready''
                                   (obj [(''stream_id'', JString stream_id)]) (ToCode Ok) ''ok'') of
                Inl _ \<Rightarrow> (map_video (\<lambda>_. im) t)\<lparr>tr_terminated := True\<rparr>
              | Inr text \<Rightarrow> sending [SentText VideoChannel (hdl, listener) text] (map_video (\<lambda>_. im) t)) ap))"

definition viewer_left :: "nat \<Rightarrow> 'x SdkApp \<Rightarrow> 'x SdkApp" where
  "viewer_left hdl = map_servers (map_video (viewer_closed hdl))"

section \<open>Start and stop\<close>

record start_outcomes =
  so_admin :: listen_outcome
  so_demo :: listen_outcome
  so_asset :: listen_outcome
  so_command :: listen_outcome
  so_video :: listen_outcome

definition stop_sites :: "'x transports \<Rightarrow> 'x transports" where
  "stop_sites t = t\<lparr> tr_demo_http := Stop_http (tr_demo_http t), tr_admin_http := Stop_http (tr_admin_http t) \<rparr>"

definition stop_http :: "'x app_env \<Rightarrow> 'x transports \<Rightarrow> 'x transports" where
  "stop_http env t =
     (let t = t\<lparr>tr_asset_http := Stop_http (tr_asset_http t)\<rparr> in if xe_http_enabled env then stop_sites t else t)"

definition stop_command :: "'x transports \<Rightarrow> 'x transports" where
  "stop_command t = (case Stop_ws_command (tr_command_ws t) of (targets, server) \<Rightarrow>
     sending (map (SentClose CommandChannel) targets) (t\<lparr>tr_command_ws := server\<rparr>))"

definition stop_video :: "'x transports \<Rightarrow> 'x transports" where
  "stop_video t = (case Stop_ws_video (tr_video_ws t) of (targets, server) \<Rightarrow>
     sending (map (SentClose VideoChannel) targets) (t\<lparr>tr_video_ws := server\<rparr>))"

definition start_sites :: "'x app_env \<Rightarrow> start_outcomes \<Rightarrow> 'x transports \<Rightarrow> bool \<times> 'x transports" where
  "start_sites env out t =
     (if \<not> xe_http_enabled env then (True, t)
      else case Start_http (xe_tls_build env) (so_admin out) (tr_admin_http t) of
        (False, h) \<Rightarrow> (False, t\<lparr>tr_admin_http := h\<rparr>)
      | (True, h) \<Rightarrow>
          let t = t\<lparr>tr_admin_http := h\<rparr> in
          (case Start_http (xe_tls_build env) (so_demo out) (tr_demo_http t) of
             (False, h) \<Rightarrow> (False, t\<lparr> tr_demo_http := h, tr_admin_http := Stop_http (tr_admin_http t) \<rparr>)
           | (True, h) \<Rightarrow> (True, t\<lparr>tr_demo_http := h\<rparr>)))"

definition start_asset :: "'x app_env \<Rightarrow> start_outcomes \<Rightarrow> 'x transports \<Rightarrow> bool \<times> 'x transports" where
  "start_asset env out t =
     (case Start_http (xe_tls_build env) (so_asset out) (tr_asset_http t) of
        (False, h) \<Rightarrow> (False, stop_sites (t\<lparr>tr_asset_http := h\<rparr>))
      | (True, h) \<Rightarrow> (True, t\<lparr>tr_asset_http := h\<rparr>))"

definition start_command :: "'x app_env \<Rightarrow> start_outcomes \<Rightarrow> 'x transports \<Rightarrow> bool \<times> 'x transports" where
  "start_command env out t =
     (case Start_ws_command (xe_tls_build env) (so_command out) (tr_command_ws t) of
        (False, server) \<Rightarrow> (False, stop_http env (t\<lparr>tr_command_ws := server\<rparr>))
      | (True, server) \<Rightarrow> (True, t\<lparr>tr_command_ws := server\<rparr>))"

definition start_video :: "'x app_env \<Rightarrow> start_outcomes \<Rightarrow> 'x transports \<Rightarrow> bool \<times> 'x transports" where
  "start_video env out t =
     (case Start_ws_video (xe_tls_build env) (so_video out) (tr_video_ws t) of
        (False, server) \<Rightarrow> (False, stop_http env (stop_command (t\<lparr>tr_video_ws := server\<rparr>)))
      | (True, server) \<Rightarrow> (True, t\<lparr>tr_video_ws := server\<rparr>))"

definition and_then :: "('t \<Rightarrow> bool \<times> 't) \<Rightarrow> bool \<times> 't \<Rightarrow> bool \<times> 't" where
  "and_then f r = (if fst r then f (snd r) else r)"

definition start_servers :: "'x app_env \<Rightarrow> start_outcomes \<Rightarrow> 'x transports \<Rightarrow> bool \<times> 'x transports" where
  "start_servers env out t =
     (if \<not> xe_tls_valid env (sc_tls (app_config env)) then (False, t)
      else and_then (start_video env out) (and_then (start_command env out)
             (and_then (start_asset env out) (start_sites env out t))))"

definition Start_app :: "'x app_env \<Rightarrow> start_outcomes \<Rightarrow> 'x SdkApp \<Rightarrow> bool \<times> 'x SdkApp" where
  "Start_app env out ap =
     (if xa_running ap then (True, ap)
      else case start_servers env out (servers ap) of
        (False, t) \<Rightarrow> (False, put_servers t ap)
      | (True, t) \<Rightarrow> let ap = put_servers t ap in
          (True, ap\<lparr> xa_start_time := ce_steady (xe_cmd env) (app_world ap), xa_running := True,
                     xa_monitor := xa_monitor ap \<or> tc_enabled (sc_tls (app_config env)) \<rparr>))"

text \<open>An exception of the shutdown reaches the caller before any server is stopped.\<close>

definition Stop_app :: "'x app_env \<Rightarrow> ('x SdkApp, unit) io" where
  "Stop_app env =
     bind_io (gets_io xa_running) (\<lambda>running.
     if \<not> running then ret ()
     else seq_io (modify_io (\<lambda>ap. ap\<lparr> xa_running := False, xa_monitor := False \<rparr>))
            (seq_io (wired_service env ShutdownActiveSessions)
              (modify_io (map_servers (\<lambda>t. stop_http env (stop_command (stop_video t)))))))"
section \<open>New certificates\<close>

definition reload_command :: "'x app_env \<Rightarrow> start_outcomes \<Rightarrow> 'x transports \<Rightarrow> bool \<times> 'x transports" where
  "reload_command env out t =
     (let server = tr_command_ws t; stopping = tc_enabled (ws_tls_config server) \<and> ws_running server in
      case ReloadTls_ws_command (xe_tls_build env) (so_command out) server of
        (ok, reloaded) \<Rightarrow>
          (ok, sending (if stopping then map (SentClose CommandChannel) (fst (Stop_ws_command server)) else [])
                 (t\<lparr>tr_command_ws := reloaded\<rparr>)))"

definition reload_video :: "'x app_env \<Rightarrow> start_outcomes \<Rightarrow> 'x transports \<Rightarrow> bool \<times> 'x transports" where
  "reload_video env out t =
     (let server = tr_video_ws t; stopping = tc_enabled (vw_tls_config server) \<and> vw_running server in
      case ReloadTls_ws_video (xe_tls_build env) (so_video out) server of
        (ok, reloaded) \<Rightarrow>
          (ok, sending (if stopping then map (SentClose VideoChannel) (fst (Stop_ws_video server)) else [])
                 (t\<lparr>tr_video_ws := reloaded\<rparr>)))"

definition reload_attempt :: "'x app_env \<Rightarrow> start_outcomes \<Rightarrow> 'x transports \<Rightarrow> bool \<times> 'x transports" where
  "reload_attempt env out t =
     (case ReloadTls_http (xe_tls_build env) (so_asset out) (tr_asset_http t) of
        (asset_ok, h) \<Rightarrow>
          (case reload_command env out (t\<lparr>tr_asset_http := h\<rparr>) of
             (command_ok, t) \<Rightarrow> (case reload_video env out t of (video_ok, t) \<Rightarrow> (asset_ok \<and> command_ok \<and> video_ok, t))))"

text \<open>One attempt for each outcome.\<close>

fun reload_attempts :: "'x app_env \<Rightarrow> start_outcomes list \<Rightarrow> 'x transports \<Rightarrow> bool \<times> 'x transports" where
  "reload_attempts env [] t = (False, t)"
| "reload_attempts env (out # outs) t =
     (case reload_attempt env out t of (ok, t) \<Rightarrow> if ok then (True, t) else reload_attempts env outs t)"

definition ReloadTlsListeners :: "'x app_env \<Rightarrow> start_outcomes \<times> start_outcomes \<Rightarrow> 'x SdkApp \<Rightarrow> bool \<times> 'x SdkApp" where
  "ReloadTlsListeners env outs ap =
     (if \<not> xa_running ap \<or> \<not> tc_enabled (sc_tls (app_config env)) then (True, ap)
      else case reload_attempts env [fst outs, snd outs] (servers ap) of (ok, t) \<Rightarrow> (ok, put_servers t ap))"

text \<open>A check of the rotation thread: an error of the certificate manager, or whether it rotated.\<close>

definition RunTlsRotationMonitor ::
    "'x app_env \<Rightarrow> string + bool \<Rightarrow> start_outcomes \<times> start_outcomes \<Rightarrow> 'x SdkApp \<Rightarrow> 'x SdkApp" where
  "RunTlsRotationMonitor env check outs ap =
     (case check of
        Inl _ \<Rightarrow> ap
      | Inr rotated \<Rightarrow> if rotated then snd (ReloadTlsListeners env outs ap) else ap)"

section \<open>The HTTP servers\<close>

definition app_os :: "'x app_env \<Rightarrow> os_env" where
  "app_os env = ce_os (xe_cmd env)"

definition app_admin :: "'x app_env \<Rightarrow> 'x SdkApp AdminApplicationService" where
  "app_admin env =
     \<lparr> aj_status = Some (gets_io (BuildStatusJson env)), aj_system = Some (gets_io (BuildSystemJson env)),
       aj_auth = Some (BuildAuthJson env),
       aj_logs = Some (gets_io (\<lambda>ap. BuildLogsJson (xe_host env) (app_os env) (app_world ap))),
       aj_log_read = Some (\<lambda>log_id tail_bytes. gets_io (\<lambda>ap.
         BuildLogReadJson (xe_host env) (app_os env) log_id tail_bytes (app_world ap))),
       aj_records = Some (gets_io (\<lambda>ap. BuildRecordsJson [] 100 (tr_records (servers ap)))),
       aj_offline_activation = Some (\<lambda>c request. wired_service env (\<lambda>e. ActivateOfflineForAdmin e c request)),
       aj_config = Some (gets_io (\<lambda>ap. case cm_runtime_config (xa_service ap) of
           None \<Rightarrow> obj [] | Some rc \<Rightarrow> BuildConfigJson (ce_getenv (xe_cmd env)) rc)),
       aj_update_config = Some (\<lambda>request. on_service (\<lambda>s. case cm_runtime_config s of
           None \<Rightarrow> (Inr (obj []), s)
         | Some rc \<Rightarrow> (case UpdateConfigJson (ce_getenv (xe_cmd env)) request rc of
             (answer, rc) \<Rightarrow> (Inr answer, s\<lparr>cm_runtime_config := Some rc\<rparr>)))) \<rparr>"

definition bare_server :: "'x app_env \<Rightarrow> string \<Rightarrow> bool \<Rightarrow> 'x SdkApp SdkHttpServer" where
  "bare_server env document_root mount_static_site =
     \<lparr> hs_document_root = document_root, hs_auth_token = sc_auth_token (app_config env),
       hs_mount_static_site = mount_static_site, hs_health = None, hs_status = None, hs_system = None,
       hs_auth = None, hs_logs = None, hs_log_read = None, hs_records = None, hs_config = None,
       hs_update_config = None, hs_offline_activation = None, hs_asset_resolver = None, hs_image_upload = None,
       hs_wire = wire env, hs_file_exists = (\<lambda>ap path. FileExists (app_os env) path (app_world ap)),
       hs_matches = xe_matches env \<rparr>"

definition health :: "'x app_env \<Rightarrow> ('x SdkApp, json) io" where
  "health env = BuildHealthJson (\<lambda>ap. ce_time (xe_cmd env) (app_world ap))"

definition admin_http_server :: "'x app_env \<Rightarrow> 'x SdkApp SdkHttpServer" where
  "admin_http_server env =
     (let srv = bare_server env (sc_web_root (app_config env) @ ''/admin'') True; a = app_admin env in
      if \<not> xe_http_enabled env then srv
      else srv
       \<lparr> hs_health := Some (health env), hs_status := Some (supplied_json (aj_status a)),
         hs_system := Some (supplied_json (aj_system a)), hs_auth := Some (supplied_json (aj_auth a)),
         hs_offline_activation := Some (ActivateOfflineSessionJson_admin a),
         hs_logs := Some (supplied_json (aj_logs a)), hs_log_read := Some (BuildLogReadJson_admin a),
         hs_records := Some (supplied_json (aj_records a)), hs_config := Some (supplied_json (aj_config a)),
         hs_update_config := Some (UpdateConfigJson_admin a) \<rparr>)"

definition demo_http_server :: "'x app_env \<Rightarrow> 'x SdkApp SdkHttpServer" where
  "demo_http_server env =
     (let srv = bare_server env (sc_web_root (app_config env) @ ''/demo'') True in
      if \<not> xe_http_enabled env then srv
      else srv\<lparr> hs_health := Some (health env), hs_status := Some (supplied_json (aj_status (app_admin env))) \<rparr>)"

definition app_resolve_asset :: "'x app_env \<Rightarrow> string \<Rightarrow> string \<Rightarrow> string \<Rightarrow> ('x SdkApp, AssetResult) io" where
  "app_resolve_asset env session_token task_id asset_id =
     gets_io (\<lambda>ap. let r = ResolveAsset (xe_cmd env) session_token task_id asset_id (xa_service ap) in
       \<lparr> hx_code = aa_code r, hx_message = aa_message r, hx_asset = aa_asset r \<rparr>)"

definition uploaded_json :: "ImageUploadResult \<Rightarrow> json" where
  "uploaded_json r =
     (let a = up_asset r in obj
        [(''upload_id'', JString (up_upload_id r)),
         (''asset'', obj
            [(''asset_id'', JString (as_asset_id a)), (''kind'', JString (as_kind a)), (''path'', JString (as_path a)),
             (''url'', JString (as_url a)), (''download_url'', JString (as_download_url a)),
             (''content_type'', JString (as_content_type a)), (''width'', JInt (as_width a)),
             (''height'', JInt (as_height a)), (''size'', jnat (as_size a))])])"

definition app_upload_image :: "'x app_env \<Rightarrow> string \<Rightarrow> string \<Rightarrow> string \<Rightarrow> string \<Rightarrow> ('x SdkApp, UploadResult) io" where
  "app_upload_image env session_token filename content_type content =
     bind_io (wired_service env (\<lambda>e. UploadImage e session_token filename content_type content)) (\<lambda>r.
     ret \<lparr> hu_code = up_code r, hu_message = up_message r, hu_body = uploaded_json r \<rparr>)"

definition asset_http_server :: "'x app_env \<Rightarrow> 'x SdkApp SdkHttpServer" where
  "asset_http_server env = (bare_server env [] False)
     \<lparr> hs_health := Some (health env), hs_asset_resolver := Some (app_resolve_asset env),
       hs_image_upload := Some (app_upload_image env) \<rparr>"

end
