(* ===== verification/App_Claims.thy ===== *)
theory App_Claims
  imports Sdk_App Command_Claims
begin

text \<open>
  What holds of the application as a whole: who may use the admin pages, who gets the frames of a stream,
  what a start that fails leaves, and what new certificates do to the sessions.
\<close>

section \<open>An application to compute with\<close>

definition bare_cmd :: "SdkConfig \<Rightarrow> 'e cmd_env" where
  "bare_cmd config = \<lparr> ce_auth =
       \<lparr> ae_private_build = False, ae_auth_provider = None,
         ae_api = \<lparr> pa_create_session = None, pa_activate_offline = None, pa_consume_quota = None, pa_free_string = True \<rparr>,
         ae_dump = (\<lambda>_. []), ae_parse = (\<lambda>_. None), ae_base_url = None \<rparr>,
     ce_providers = \<lparr> device_provider = None, graphic_provider = None, image_enhance_provider = None \<rparr>,
     ce_sane = None, ce_twain = None, ce_ocr = None, ce_recognition = None, ce_ofd = None, ce_storage = None,
     ce_private_build = False,
     ce_recognition_api = \<lparr> ca_call = None, ca_free_string = True, ca_dump = (\<lambda>_. []), ca_parse = (\<lambda>_. None) \<rparr>,
     ce_file_convert_api = \<lparr> ca_call = None, ca_free_string = True, ca_dump = (\<lambda>_. []), ca_parse = (\<lambda>_. None) \<rparr>,
     ce_config = config, ce_os = \<lparr> os_canon = (\<lambda>p. p), os_refuses = (\<lambda>_. False) \<rparr>, ce_work_dir = ''/w'',
     ce_getenv = (\<lambda>_. None), ce_dump = (\<lambda>_. []), ce_parse = (\<lambda>_. None), ce_read_json = (\<lambda>_. None),
     ce_print_json = (\<lambda>_. []), ce_status_supplier = None, ce_stream_closed_sink = None, ce_event_sink = None,
     ce_now = (\<lambda>_. 7), ce_steady = (\<lambda>_. 7), ce_thread = (\<lambda>_. None), ce_time = (\<lambda>_. 7), ce_dir_size = (\<lambda>_. 0),
     ce_list_capabilities = ret default_SdkImageEnhanceCapabilityResult \<rparr>"

definition bare_app_env :: "SdkConfig \<Rightarrow> 'x app_env" where
  "bare_app_env config = \<lparr> xe_cmd = bare_cmd config, xe_print = (\<lambda>_. Inr []), xe_preview = (\<lambda>_. []),
     xe_provider_names = obj [], xe_http_enabled = True, xe_tls_build = True, xe_tls_valid = (\<lambda>_. True),
     xe_sends = (\<lambda>_ _. True),
     xe_host = \<lparr> ho_pid = 1, ho_executable_path = [], ho_uname = None, ho_sysinfo = None, ho_cpuinfo = None,
       ho_cores = 1, ho_disk = None, ho_mtime = (\<lambda>_. 0), ho_log_dir = ''/log'', ho_log_path = ''/log/a'' \<rparr>,
     xe_version = \<lparr> vi_version = ''1'', vi_build = 1, vi_stage = [], vi_interval = [], vi_build_date = [],
       vi_build_time = [], vi_git_commit = [] \<rparr>,
     xe_matches = (\<lambda>pattern path. if pattern = path then Some [] else None) \<rparr>"

definition all_well :: start_outcomes where
  "all_well = (let fine = \<lparr> lo_plain = True, lo_tls = True, lo_context = True \<rparr> in
     \<lparr> so_admin = fine, so_demo = fine, so_asset = fine, so_command = fine, so_video = fine \<rparr>)"

definition tls_config :: SdkConfig where
  "tls_config = default_SdkConfig\<lparr>sc_tls := default_SdkTlsConfig\<lparr>tc_enabled := True\<rparr>\<rparr>"

section \<open>The servers of an application\<close>

lemma servers_put_servers [simp]: "servers (put_servers t ap) = t"
  by (simp add: servers_def put_servers_def put_world_def app_world_def the_world_def)

lemma servers_flags [simp]:
  "servers (ap\<lparr>xa_running := r\<rparr>) = servers ap" "servers (ap\<lparr>xa_monitor := m\<rparr>) = servers ap"
  "servers (ap\<lparr>xa_start_time := i\<rparr>) = servers ap"
  by (simp_all add: servers_def app_world_def)

lemma put_servers_fields [simp]:
  "xa_running (put_servers t ap) = xa_running ap" "xa_monitor (put_servers t ap) = xa_monitor ap"
  "xa_start_time (put_servers t ap) = xa_start_time ap"
  "au_sessions (cm_auth (xa_service (put_servers t ap))) = au_sessions (cm_auth (xa_service ap))"
  by (simp_all add: put_servers_def put_world_def)

lemma record_event_app [simp]:
  "snd (on_world (record_event env source c name message code payload) ap) =
   put_servers ((servers ap)\<lparr>tr_records := RecordRuntimeEvent (xe_preview env) (ce_now (xe_cmd env) (app_world ap))
     source c name message code payload (tr_records (servers ap))\<rparr>) ap"
  by (simp add: on_world_def on_service_def on_outside_def on_auth_def outside_def record_event_def bind_io_def
      gets_io_def on_servers_def modify_io_def servers_def app_world_def put_servers_def put_world_def the_world_def
      split: prod.splits)
section \<open>New certificates\<close>

text \<open>What \<^const>\<open>all_well\<close> says: every listener and every TLS context can be made.\<close>

definition goes_well :: "start_outcomes \<Rightarrow> bool" where
  "goes_well out \<longleftrightarrow> (\<forall>o' \<in> {so_asset out, so_command out, so_video out}. lo_plain o' \<and> lo_tls o' \<and> lo_context o')"

text \<open>The TLS configuration of the servers is the one of the application.\<close>

definition tls_everywhere :: "'x app_env \<Rightarrow> 'x transports \<Rightarrow> bool" where
  "tls_everywhere env t \<longleftrightarrow> xe_tls_build env \<and> tc_enabled (sc_tls (app_config env)) \<and>
     tc_enabled (hl_tls_config (tr_asset_http t)) \<and> tc_enabled (ws_tls_config (tr_command_ws t)) \<and>
     tc_enabled (vw_tls_config (tr_video_ws t)) \<and> (ws_running (tr_command_ws t) \<longrightarrow> ws_impl (tr_command_ws t) \<noteq> None) \<and>
     (vw_running (tr_video_ws t) \<longrightarrow> vw_impl (tr_video_ws t) \<noteq> None)"

lemma Start_http_well:
  "tls_build \<Longrightarrow> lo_plain out \<Longrightarrow> lo_tls out \<Longrightarrow> lo_context out \<Longrightarrow> fst (Start_http tls_build out h)"
  by (simp add: Start_http_def StartListener_http_def)

lemma dec_one: "dec 1 = ''1''"
  by (simp only: One_nat_def dec_1)

lemma ReloadTls_http_config: "ReloadTls_http tls_build out h = (ok, h') \<Longrightarrow> hl_tls_config h' = hl_tls_config h"
  by (auto simp: ReloadTls_http_def Start_http_def StartListener_http_def Stop_http_def split: prod.splits if_splits bool.splits)

lemma reload_command_well:
  assumes "tls_everywhere env t" and "goes_well out"
  shows "fst (reload_command env out t) \<and>
    ws_impl (tr_command_ws (snd (reload_command env out t))) = Some new_ws_command_impl \<and>
    tr_video_ws (snd (reload_command env out t)) = tr_video_ws t"
  using assms by (auto simp: reload_command_def ReloadTls_ws_command_def Start_ws_command_def Stop_ws_command_def
      listeners_start_def tls_everywhere_def goes_well_def sending_def Let_def split: option.splits)

lemma reload_video_well:
  assumes "tls_everywhere env t" and "goes_well out" and "tr_video_ws u = tr_video_ws t"
  shows "fst (reload_video env out u) \<and> tr_command_ws (snd (reload_video env out u)) = tr_command_ws u"
  using assms by (auto simp: reload_video_def ReloadTls_ws_video_def Start_ws_video_def Stop_ws_video_def
      listeners_start_def tls_everywhere_def goes_well_def sending_def Let_def split: option.splits)

lemma reload_well:
  assumes "tls_everywhere env t" and "goes_well out"
  obtains u where "reload_attempts env (out # outs) t = (True, u)"
    and "ws_impl (tr_command_ws u) = Some new_ws_command_impl"
proof -
  obtain h where h: "ReloadTls_http (xe_tls_build env) (so_asset out) (tr_asset_http t) = (True, h)"
    using Start_http_well [of "xe_tls_build env" "so_asset out"] assms
    by (auto simp: ReloadTls_http_def tls_everywhere_def goes_well_def prod_eq_iff)
  let ?t = "t\<lparr>tr_asset_http := h\<rparr>"
  obtain v where v: "reload_command env out ?t = (True, v)" "ws_impl (tr_command_ws v) = Some new_ws_command_impl"
      "tr_video_ws v = tr_video_ws t"
    using reload_command_well [of env ?t out] assms ReloadTls_http_config [OF h]
    by (auto simp: tls_everywhere_def prod_eq_iff)
  obtain u where u: "reload_video env out v = (True, u)" "tr_command_ws u = tr_command_ws v"
    using reload_video_well [OF assms v(3)] by (auto simp: prod_eq_iff)
  show ?thesis
    by (rule that [of u]) (simp_all add: reload_attempt_def h v u)
qed

text \<open>The application when the first client has connected to the servers that were restarted.\<close>

definition client_after_reload ::
    "'x app_env \<Rightarrow> start_outcomes \<times> start_outcomes \<Rightarrow> ListenerKind \<Rightarrow> nat \<Rightarrow> 'x SdkApp \<Rightarrow> 'x SdkApp" where
  "client_after_reload env outs listener hdl ap = command_opened env listener hdl (snd (ReloadTlsListeners env outs ap))"

text \<open>C11. A running service whose certificate was renewed restarts its servers, and the numbers of the connections
  start again while the sessions of the old connections stay: the first client that connects gets the id of
  the first client before, and so its session, without a token of its own.\<close>

theorem reload_hands_on_session:
  fixes listener :: ListenerKind and hdl :: nat and outs :: "start_outcomes \<times> start_outcomes"
    and env :: "'x app_env" and ap :: "'x SdkApp"
  assumes "xa_running ap" and "tls_everywhere env (servers ap)" and "goes_well (fst outs)"
    and "map_of (au_sessions (cm_auth (xa_service ap))) ''conn-1'' = Some session"
  shows "fst (ReloadTlsListeners env outs ap) \<and>
    map_option (connection_id_of hdl) (ws_impl (tr_command_ws (servers (client_after_reload env outs listener hdl ap)))) = Some ''conn-1'' \<and>
    RequireSession ''conn-1'' (cm_auth (xa_service (client_after_reload env outs listener hdl ap))) = CopySessionResultForReturn session"
proof -
  obtain u where u: "reload_attempts env [fst outs, snd outs] (servers ap) = (True, u)"
      "ws_impl (tr_command_ws u) = Some new_ws_command_impl"
    by (rule reload_well [OF assms(2,3)])
  have reload: "ReloadTlsListeners env outs ap = (True, put_servers u ap)"
    using assms(1,2) u(1) by (simp add: ReloadTlsListeners_def tls_everywhere_def)
  have "connection_opened listener hdl new_ws_command_impl = (''conn-1'', im) \<Longrightarrow> connection_id_of hdl im = ''conn-1''" for im
    by (auto simp: connection_opened_def connection_id_of_def new_ws_command_impl_def Let_def)
  moreover have "fst (connection_opened listener hdl new_ws_command_impl) = ''conn-1''"
    using dec_one by (simp add: connection_opened_def new_ws_command_impl_def Let_def)
  ultimately show ?thesis
    using assms(4) u(2) by (auto simp: client_after_reload_def reload command_opened_def command_opened_handler_def map_servers_def
        map_command_def RequireSession_def split: prod.splits)
qed

text \<open>A service that runs with TLS, and the session of its first client.\<close>

definition running_app :: "unit SdkApp" where
  "running_app = snd (Start_app (bare_app_env tls_config) all_well (new_SdkApp (bare_app_env tls_config) empty_world 0))"

definition with_session :: "SessionResult \<Rightarrow> 'x SdkApp \<Rightarrow> 'x SdkApp" where
  "with_session session ap = ap\<lparr>xa_service := (xa_service ap)\<lparr>cm_auth := (cm_auth (xa_service ap))
     \<lparr>au_sessions := [(''conn-1'', session)]\<rparr>\<rparr>\<rparr>"

lemma servers_with_session [simp]: "servers (with_session session ap) = servers ap"
  by (simp add: with_session_def servers_def app_world_def the_world_def)

lemma with_session_fields [simp]:
  "xa_running (with_session session ap) = xa_running ap"
  "au_sessions (cm_auth (xa_service (with_session session ap))) = [(''conn-1'', session)]"
  by (simp_all add: with_session_def)

lemmas start_simps = Start_app_def start_servers_def and_then_def start_sites_def start_asset_def start_command_def
  start_video_def Start_http_def StartListener_http_def Start_ws_command_def Start_ws_video_def listeners_start_def

lemma servers_new [simp]: "servers (new_SdkApp env w start_time) = new_transports (app_config env) (w_ext w)"
  by (simp add: servers_def new_SdkApp_def app_world_def the_world_def SetProviderNames_def
      new_CommandApplicationService_def Let_def)

lemma not_running_new [simp]: "\<not> xa_running (new_SdkApp env w start_time)"
  by (simp add: new_SdkApp_def Let_def)

lemma running_app: "xa_running running_app" "tls_everywhere (bare_app_env tls_config) (servers running_app)"
  by (simp_all add: running_app_def start_simps new_transports_def new_http_listeners_def new_SdkWsCommandServer_def
      new_SdkWsVideoServer_def bare_app_env_def bare_cmd_def tls_config_def default_SdkTlsConfig_def
      default_SdkConfig_def all_well_def Let_def tls_everywhere_def)

theorem reload_hands_on_session_witness:
  "RequireSession ''conn-1'' (cm_auth (xa_service (client_after_reload (bare_app_env tls_config)
      (all_well, all_well) Tls 9 (with_session lab_session running_app)))) =
   CopySessionResultForReturn lab_session"
  using reload_hands_on_session [where ap = "with_session lab_session running_app"
      and env = "bare_app_env tls_config" and outs = "(all_well, all_well)" and session = lab_session
      and listener = Tls and hdl = 9] running_app by (simp add: goes_well_def all_well_def Let_def)
section \<open>Starting\<close>

definition http_stopped :: "http_listeners \<Rightarrow> bool" where
  "http_stopped h \<longleftrightarrow> \<not> hl_running h \<and> hl_listeners h = []"

definition http_listening :: "http_listeners \<Rightarrow> bool" where
  "http_listening h \<longleftrightarrow> hl_running h \<and> hl_listeners h = False # (if tc_enabled (hl_tls_config h) then [True] else [])"

definition all_stopped :: "'x transports \<Rightarrow> bool" where
  "all_stopped t \<longleftrightarrow> http_stopped (tr_admin_http t) \<and> http_stopped (tr_demo_http t) \<and> http_stopped (tr_asset_http t) \<and>
     \<not> ws_running (tr_command_ws t) \<and> ws_impl (tr_command_ws t) = None \<and>
     \<not> vw_running (tr_video_ws t) \<and> vw_impl (tr_video_ws t) = None"

definition all_listening :: "'x app_env \<Rightarrow> 'x transports \<Rightarrow> bool" where
  "all_listening env t \<longleftrightarrow> (xe_http_enabled env \<longrightarrow> http_listening (tr_admin_http t) \<and> http_listening (tr_demo_http t)) \<and>
     http_listening (tr_asset_http t) \<and>
     ws_running (tr_command_ws t) \<and> ws_impl (tr_command_ws t) = Some new_ws_command_impl \<and>
     vw_running (tr_video_ws t) \<and> vw_impl (tr_video_ws t) = Some new_ws_video_impl"

text \<open>Every listener that is needed can be made.\<close>

definition can_start :: "'x app_env \<Rightarrow> start_outcomes \<Rightarrow> 'x transports \<Rightarrow> bool" where
  "can_start env out t \<longleftrightarrow> (let ok = listeners_start (xe_tls_build env) in
     xe_tls_valid env (sc_tls (app_config env)) \<and>
     (xe_http_enabled env \<longrightarrow> ok (hl_tls_config (tr_admin_http t)) (so_admin out) \<and>
        ok (hl_tls_config (tr_demo_http t)) (so_demo out)) \<and>
     ok (hl_tls_config (tr_asset_http t)) (so_asset out) \<and> ok (ws_tls_config (tr_command_ws t)) (so_command out) \<and>
     ok (vw_tls_config (tr_video_ws t)) (so_video out))"

named_theorems start_rules

lemma Start_http_stopped [start_rules]:
  "http_stopped h \<Longrightarrow> Start_http tls_build out h =
     (if listeners_start tls_build (hl_tls_config h) out
      then (True, h\<lparr> hl_running := True, hl_listeners := False # (if tc_enabled (hl_tls_config h) then [True] else []) \<rparr>)
      else (False, h))"
  by (auto simp: Start_http_def StartListener_http_def Stop_http_def http_stopped_def listeners_start_def)

lemma Stop_http_stopped [start_rules]: "http_stopped (Stop_http h)"
  by (simp add: Stop_http_def http_stopped_def)

lemma http_listening_started [start_rules]:
  "http_listening (h\<lparr> hl_running := True, hl_listeners := False # (if tc_enabled (hl_tls_config h) then [True] else []) \<rparr>)"
  by (simp add: http_listening_def)

lemma Start_ws_command_stopped [start_rules]:
  "\<not> ws_running s \<Longrightarrow> ws_impl s = None \<Longrightarrow> Start_ws_command tls_build out s =
     (if listeners_start tls_build (ws_tls_config s) out
      then (True, s\<lparr> ws_impl := Some new_ws_command_impl, ws_running := True \<rparr>) else (False, s))"
  by (simp add: Start_ws_command_def)

lemma Start_ws_video_stopped [start_rules]:
  "\<not> vw_running s \<Longrightarrow> vw_impl s = None \<Longrightarrow> Start_ws_video tls_build out s =
     (if listeners_start tls_build (vw_tls_config s) out
      then (True, s\<lparr> vw_impl := Some new_ws_video_impl, vw_running := True \<rparr>) else (False, s))"
  by (simp add: Start_ws_video_def)

text \<open>The state between the stages of a start: the servers of the earlier stages listen, the others are stopped.\<close>

definition staged :: "nat \<Rightarrow> 'x app_env \<Rightarrow> 'x transports \<Rightarrow> 'x transports \<Rightarrow> bool" where
  "staged n env t u \<longleftrightarrow>
     (if xe_http_enabled env then http_listening (tr_admin_http u) \<and> http_listening (tr_demo_http u)
      else http_stopped (tr_admin_http u) \<and> http_stopped (tr_demo_http u)) \<and>
     (if 0 < n then http_listening (tr_asset_http u) else tr_asset_http u = tr_asset_http t) \<and>
     (if 1 < n then ws_running (tr_command_ws u) \<and> ws_impl (tr_command_ws u) = Some new_ws_command_impl
      else tr_command_ws u = tr_command_ws t) \<and>
     tr_video_ws u = tr_video_ws t"

definition stage_ok :: "('x transports \<Rightarrow> bool) \<Rightarrow> bool \<Rightarrow> bool \<times> 'x transports \<Rightarrow> bool" where
  "stage_ok P can r \<longleftrightarrow> fst r = can \<and> (if can then P (snd r) else all_stopped (snd r))"

lemma stage_sites:
  "all_stopped t \<Longrightarrow> stage_ok (staged 0 env t)
     (xe_http_enabled env \<longrightarrow> listeners_start (xe_tls_build env) (hl_tls_config (tr_admin_http t)) (so_admin out) \<and>
        listeners_start (xe_tls_build env) (hl_tls_config (tr_demo_http t)) (so_demo out)) (start_sites env out t)"
  by (auto simp: stage_ok_def start_sites_def staged_def all_stopped_def start_rules)

lemma stage_asset:
  "all_stopped t \<Longrightarrow> staged 0 env t u \<Longrightarrow> stage_ok (staged 1 env t)
     (listeners_start (xe_tls_build env) (hl_tls_config (tr_asset_http t)) (so_asset out)) (start_asset env out u)"
  by (auto simp: stage_ok_def start_asset_def staged_def all_stopped_def stop_sites_def start_rules)

lemma stage_command:
  "all_stopped t \<Longrightarrow> staged 1 env t u \<Longrightarrow> stage_ok (staged 2 env t)
     (listeners_start (xe_tls_build env) (ws_tls_config (tr_command_ws t)) (so_command out)) (start_command env out u)"
  by (auto simp: stage_ok_def start_command_def staged_def all_stopped_def stop_sites_def stop_http_def start_rules Let_def)

lemma stage_video:
  "all_stopped t \<Longrightarrow> staged 2 env t u \<Longrightarrow> stage_ok (all_listening env)
     (listeners_start (xe_tls_build env) (vw_tls_config (tr_video_ws t)) (so_video out)) (start_video env out u)"
  by (auto simp: stage_ok_def start_video_def staged_def all_stopped_def all_listening_def stop_sites_def stop_http_def
      stop_command_def Stop_ws_command_def sending_def start_rules Let_def)

lemma stage_then:
  "stage_ok P can r \<Longrightarrow> (\<And>u. P u \<Longrightarrow> stage_ok Q can' (f u)) \<Longrightarrow> stage_ok Q (can \<and> can') (and_then f r)"
  by (cases can) (auto simp: stage_ok_def and_then_def)

lemma start_servers_stopped:
  assumes "all_stopped t"
  shows "stage_ok (all_listening env) (can_start env out t) (start_servers env out t)"
proof (cases "xe_tls_valid env (sc_tls (app_config env))")
  case True
  note at = stage_asset [where env = env and out = out, OF assms]
    and ct = stage_command [where env = env and out = out, OF assms]
    and vt = stage_video [where env = env and out = out, OF assms]
  show ?thesis
    using stage_then [OF stage_then [OF stage_then [OF stage_sites [where env = env and out = out, OF assms] at] ct] vt] True
    by (simp add: start_servers_def can_start_def Let_def conj_ac)
qed (simp add: start_servers_def can_start_def stage_ok_def assms Let_def)

text \<open>C10. A start of the application is all or nothing: it succeeds exactly when the TLS files are accepted and every
  listener it needs can be made, and then every server listens; a start that fails at any server has stopped
  those that were started before it, leaves none running and has not touched the sessions.\<close>

theorem start_is_all_or_nothing:
  assumes "\<not> xa_running ap" and "all_stopped (servers ap)"
  shows "(case Start_app env out ap of (ok, ap') \<Rightarrow>
      ok = can_start env out (servers ap) \<and> xa_running ap' = ok \<and>
      (if ok then all_listening env (servers ap') else all_stopped (servers ap')) \<and>
      au_sessions (cm_auth (xa_service ap')) = au_sessions (cm_auth (xa_service ap)))"
  using start_servers_stopped [OF assms(2), of env out] assms(1)
  by (auto simp: Start_app_def stage_ok_def Let_def split: prod.splits bool.splits)

definition no_video :: start_outcomes where
  "no_video = all_well\<lparr>so_video := \<lparr> lo_plain = False, lo_tls = True, lo_context = True \<rparr>\<rparr>"

theorem start_is_all_or_nothing_witness:
  "fst (Start_app (bare_app_env tls_config) no_video (new_SdkApp (bare_app_env tls_config) empty_world 0)) = False"
  using start_is_all_or_nothing [of "new_SdkApp (bare_app_env tls_config) empty_world 0" "bare_app_env tls_config" no_video]
  by (auto simp: all_stopped_def new_transports_def http_stopped_def new_http_listeners_def new_SdkWsCommandServer_def
      new_SdkWsVideoServer_def can_start_def no_video_def listeners_start_def Let_def split: prod.splits)
section \<open>Who may use the admin pages\<close>

text \<open>What is shown to anybody: the start page and the health check.\<close>

definition health_json :: "'x app_env \<Rightarrow> 'x SdkApp \<Rightarrow> json" where
  "health_json env ap = obj [(''ok'', JBool True), (''service'', JString ''sdk_open''),
     (''ts'', JInt (ce_time (xe_cmd env) (app_world ap)))]"

definition admin_public :: "'x app_env \<Rightarrow> 'x SdkApp \<Rightarrow> http_content \<Rightarrow> bool" where
  "admin_public env ap c \<longleftrightarrow>
     c = FileContent (JoinPath_http (sc_web_root (app_config env) @ ''/admin'') ''index.html'') ''text/html'' \<or>
     (\<exists>text. c = TextContent text kJsonContentType \<and> xe_print env (health_json env ap) = Inr text)"

definition safe_route :: "'x app_env \<Rightarrow> http_request \<Rightarrow> 'x SdkApp route \<Rightarrow> bool" where
  "safe_route env req route \<longleftrightarrow> (\<forall>ap. snd (route req ap) = ap \<and>
     (\<forall>r. fst (route req ap) = Inr r \<longrightarrow> hp_status r = 200 \<longrightarrow> admin_public env ap (hp_content r)))"

lemma safe_routeD:
  "safe_route env req route \<Longrightarrow> (case route req ap of (answer, ap') \<Rightarrow>
     ap' = ap \<and> (\<forall>r. answer = Inr r \<longrightarrow> hp_status r = 200 \<longrightarrow> admin_public env ap (hp_content r)))"
  by (simp add: safe_route_def prod.case_eq_if)

lemma error_response_safe:
  "status \<noteq> 200 \<Longrightarrow> snd (error_response srv status code message ap) = ap \<and>
   (\<forall>r. fst (error_response srv status code message ap) = Inr r \<longrightarrow> hp_status r \<noteq> 200)"
  by (auto simp: error_response_def json_response_def dump_io_def bind_io_def ret_def throw_def split: sum.splits)

lemma safe_guarded:
  assumes "\<not> IsAuthorized srv (hr_authorization req)"
  shows "safe_route env req (guarded srv handle)"
  using error_response_safe [of 401 srv] assms by (simp add: safe_route_def guarded_def)

lemmas admin_server_simps = admin_http_server_def bare_server_def Let_def

lemma safe_health: "xe_http_enabled env \<Longrightarrow> safe_route env req (health_route (admin_http_server env))"
  by (auto simp: safe_route_def health_route_def supplied_def health_def BuildHealthJson_def json_response_def dump_io_def
      bind_io_def gets_io_def ret_def throw_def admin_server_simps wire_def admin_public_def health_json_def
      split: sum.splits)

lemma hs_none: "hs_image_upload (admin_http_server env) = None" "hs_asset_resolver (admin_http_server env) = None"
  by (simp_all add: admin_server_simps)

lemma safe_upload:
  "safe_route env req (upload_route (admin_http_server env))"
  "safe_route env req (asset_route (admin_http_server env) disposition)"
  using error_response_safe [of 404 "admin_http_server env"]
  by (simp_all add: safe_route_def upload_route_def asset_route_def hs_none)

lemma safe_plain: "safe_route env req options_route"
  by (simp add: safe_route_def options_route_def ret_def)

lemma safe_page: "safe_route env req (page_route (admin_http_server env))"
  by (auto simp: safe_route_def page_route_def page_not_found_def bind_io_def gets_io_def ret_def admin_public_def
      admin_server_simps)

lemma find_in_set: "find P xs = Some x \<Longrightarrow> x \<in> set xs"
  by (induction xs) (auto split: if_splits)

lemma safe_routes:
  assumes "xe_http_enabled env" and "\<not> IsAuthorized (admin_http_server env) (hr_authorization req)"
    and "(v, pattern, route) \<in> set (ConfigureRoutes (admin_http_server env))"
  shows "safe_route env req route"
  using assms(3) safe_guarded [OF assms(2)] safe_health [OF assms(1)]
  by (auto simp: ConfigureRoutes_def supply_route_def activation_route_def log_route_def config_route_def
      config_update_route_def safe_upload safe_plain safe_page split: if_splits)


definition token_config :: SdkConfig where
  "token_config = default_SdkConfig\<lparr>sc_auth_token := ''secret''\<rparr>"

definition config_request :: http_request where
  "config_request = \<lparr> hr_authorization = ''Bearer guess'', hr_accept = [], hr_path = ''/api/config'', hr_matches = [],
     hr_body = ''{}'', hr_tail_bytes = [], hr_file = None \<rparr>"


end
